(* ===== verification/Prelude.thy ===== *)
theory Prelude
  imports Complex_Main "HOL-Library.Word" "HOL-Library.AList" "HOL-Library.Multiset"
    "HOL-Library.Sublist"
begin

text \<open>
  What every component shares: JavaScript strings as UTF-16 code units, the insertion-ordered
  \<open>Map\<close> of the language, \<open>Array.prototype.sort\<close> with a comparator, the errors the code throws and
  the two combinators that thread them. The two interfaces most of the storage layer leans on are
  stated here as locales: a comparator (\<open>comparator\<close>, \<open>strict_comparator\<close>) and a keyed store
  (\<open>keyed_store\<close>); each is interpreted on the definitions that provide it.
\<close>

named_theorems wf_intros "introduction rules for the well-formedness invariants"
named_theorems frame_simps "fields an operation does not write"

section \<open>Strings\<close>

text \<open>
  A JavaScript string is a sequence of 16-bit code units. \<open>js\<close> embeds an ASCII literal.
\<close>

type_synonym jstring = "16 word list"

definition js :: "string \<Rightarrow> jstring" where
  "js s = map of_char s"

text \<open>An equation for evaluation: the bits of a character are the digits of its numeral.\<close>

fun num_of_bits :: "bool list \<Rightarrow> num option" where
  "num_of_bits [] = None"
| "num_of_bits (b # bs) =
     (case num_of_bits bs of
        None \<Rightarrow> if b then Some num.One else None
      | Some n \<Rightarrow> Some (if b then num.Bit1 n else num.Bit0 n))"

fun unit_of_char :: "char \<Rightarrow> 16 word" where
  "unit_of_char (Char b0 b1 b2 b3 b4 b5 b6 b7) =
     word_of_int (case num_of_bits [b0, b1, b2, b3, b4, b5, b6, b7] of None \<Rightarrow> 0 | Some n \<Rightarrow> Int.Pos n)"

lemma horner_sum_num_of_bits:
  "(horner_sum of_bool 2 bs :: 16 word) = word_of_int (case num_of_bits bs of None \<Rightarrow> 0 | Some n \<Rightarrow> Int.Pos n)"
proof (induction bs)
  case (Cons b bs)
  then show ?case by (cases b; cases "num_of_bits bs") (simp_all add: Int.Pos_def)
qed simp

lemma js_code [code]: "js s = map unit_of_char s"
proof -
  have "of_char c = unit_of_char c" for c
    by (cases c) (simp only: of_char_Char horner_sum_num_of_bits unit_of_char.simps)
  then show ?thesis by (simp add: js_def)
qed

definition NUL :: "16 word" where
  "NUL = 0"

definition has_nul :: "jstring \<Rightarrow> bool" where
  "has_nul s \<longleftrightarrow> NUL \<in> set s"

lemma of_char_word16_inj: "(of_char c :: 16 word) = of_char d \<longleftrightarrow> c = d"
proof
  have unat_of_char: "unat (of_char e :: 16 word) = of_char e" for e
  proof -
    have "(of_char e :: nat) = of_char e mod 256" by simp
    then have "(of_char e :: nat) < 256" by (metis mod_less_divisor zero_less_numeral)
    then have "(of_char e :: nat) < 2 ^ LENGTH(16)" by (rule less_le_trans) simp
    moreover have "(of_char e :: 16 word) = of_nat (of_char e)" by (simp only: of_nat_of_char)
    ultimately show ?thesis by (simp only: unat_of_nat mod_less)
  qed
  assume "(of_char c :: 16 word) = of_char d"
  then have "(of_char c :: nat) = of_char d" by (metis unat_of_char)
  then show "c = d" by simp
qed simp

lemma js_eq_iff [simp]: "js s = js t \<longleftrightarrow> s = t"
  unfolding js_def by (rule inj_map_eq_map) (auto simp: inj_def of_char_word16_inj)

lemma js_append [simp]: "js (s @ t) = js s @ js t"
  by (simp add: js_def)

lemma js_eq_Nil_iff [simp]: "js s = [] \<longleftrightarrow> s = []"
  by (simp add: js_def)

lemma prefix_js_iff [simp]: "prefix (js s) (js t) \<longleftrightarrow> prefix s t"
proof
  assume "prefix (js s) (js t)"
  then obtain u where "js t = js s @ u" by (auto simp: prefix_def)
  then have "take (length s) (js t) = js s" by (simp add: js_def)
  then have "js (take (length s) t) = js s" by (simp add: js_def take_map)
  then show "prefix s t" by (metis js_eq_iff take_is_prefix)
qed (auto simp: prefix_def)

lemma has_nul_append [simp]: "has_nul (s @ t) \<longleftrightarrow> has_nul s \<or> has_nul t"
  by (auto simp: has_nul_def)

text \<open>
  Splitting at the first NUL is unambiguous when the left part has none: the fact behind the
  physical key of a stored value.
\<close>

lemma nul_split_unique:
  assumes "\<not> has_nul a" and "\<not> has_nul c" and "a @ NUL # b = c @ NUL # d"
  shows "a = c \<and> b = d"
  using assms
proof (induction a arbitrary: c)
  case Nil
  then show ?case by (cases c) (auto simp: has_nul_def)
next
  case (Cons x a)
  then show ?case by (cases c) (auto simp: has_nul_def)
qed

section \<open>Errors and results\<close>

text \<open>
  Every \<open>throw\<close> of the modelled code is one constructor, named after the message it carries.
  \<open>IllTyped\<close> has no \<open>throw\<close> in the source: a value read through a typed address whose stored shape
  is another one is excluded there by the phantom type of the address.
\<close>

datatype js_error =
    EmptyNamespace | NulInNamespace | NulInKey | BadListLimit
  | NonMonotonicSeq int | DuplicateId jstring | MissingParent jstring | InvalidHighWaterMark int
  | UnknownBranchStart jstring | CorruptBranch
  | UnknownSourceBranch jstring | CorruptSourceBranch jstring | ForkEntryNotOnBranch "jstring option"
  | UnknownReservedNamespace jstring | NotConfiguredLane jstring
  | BranchMissingTip jstring | IncompleteLaneState jstring | UnknownTip jstring
  | StorageClosed | SessionClosed | RepoClosed
  | CommitAlreadyAttempted | MutatorInactive | PendingAssistantMessage
  | SessionInvariant string | InvalidBranchName jstring string | BranchExists jstring
  | UnknownTargetEntry jstring | UnknownSession jstring | SessionAlreadyOpen jstring
  | SessionIsOpen jstring | SessionAlreadyExists jstring
  | IllTyped jstring jstring
  | HarnessWasClosed | HarnessFaulted | NonFinite
  | ToolInvocationEnded | InvalidMemoName string

definition ebind :: "'e + 'a \<Rightarrow> ('a \<Rightarrow> 'e + 'b) \<Rightarrow> 'e + 'b" where
  "ebind m f = (case m of Inl e \<Rightarrow> Inl e | Inr a \<Rightarrow> f a)"

definition check :: "bool \<Rightarrow> 'e \<Rightarrow> 'e + unit" where
  "check b e = (if b then Inr () else Inl e)"

text \<open>A JavaScript array literal of expressions evaluates left to right; the first throw wins.\<close>

fun esequence :: "('e + 'a) list \<Rightarrow> 'e + 'a list" where
  "esequence [] = Inr []"
| "esequence (m # ms) = ebind m (\<lambda>a. ebind (esequence ms) (\<lambda>as. Inr (a # as)))"

lemma ebind_simps [simp]:
  "ebind (Inl e) f = Inl e" "ebind (Inr a) f = f a"
  by (simp_all add: ebind_def)

lemma ebind_eq_Inr_iff: "ebind m f = Inr b \<longleftrightarrow> (\<exists>a. m = Inr a \<and> f a = Inr b)"
  by (cases m) auto

lemma ebind_Inr_E [elim!]:
  assumes "ebind m f = Inr b"
  obtains a where "m = Inr a" "f a = Inr b"
  using assms by (cases m) auto

lemma check_simps [simp]: "check True e = Inr ()" "check False e = Inl e"
  by (simp_all add: check_def)

lemma check_eq_Inr [simp]: "check b e = Inr u \<longleftrightarrow> b"
  by (simp add: check_def)

lemma check_eq_Inl [simp]: "check b e = Inl e' \<longleftrightarrow> \<not> b \<and> e' = e"
  by (auto simp: check_def)

lemma esequence_append:
  "esequence (xs @ ys) = ebind (esequence xs) (\<lambda>a. ebind (esequence ys) (\<lambda>b. Inr (a @ b)))"
  by (induction xs) (auto simp: ebind_def split: sum.splits)

lemma esequence_Inr [simp]: "esequence (map (\<lambda>x. Inr (f x)) xs) = Inr (map f xs)"
  by (induction xs) auto

lemma esequence_eq_Inr_iff:
  "esequence ms = Inr xs \<longleftrightarrow> list_all2 (\<lambda>m x. m = Inr x) ms xs"
  by (induction ms arbitrary: xs) (auto simp: ebind_eq_Inr_iff list_all2_Cons1)

section \<open>The JavaScript Map\<close>

text \<open>
  A \<open>Map\<close> keeps its keys in insertion order; \<open>set\<close> on a present key keeps the key's place. That is
  the library's association list with \<open>AList.update\<close> and \<open>AList.delete\<close>.
\<close>

type_synonym ('k, 'v) jsmap = "('k \<times> 'v) list"

abbreviation map_get :: "('k, 'v) jsmap \<Rightarrow> 'k \<Rightarrow> 'v option" where
  "map_get \<equiv> map_of"
abbreviation map_set :: "'k \<Rightarrow> 'v \<Rightarrow> ('k, 'v) jsmap \<Rightarrow> ('k, 'v) jsmap" where
  "map_set \<equiv> AList.update"
abbreviation map_delete :: "'k \<Rightarrow> ('k, 'v) jsmap \<Rightarrow> ('k, 'v) jsmap" where
  "map_delete \<equiv> AList.delete"
definition map_values :: "('k, 'v) jsmap \<Rightarrow> 'v list" where
  "map_values m = map snd m"
definition map_has :: "('k, 'v) jsmap \<Rightarrow> 'k \<Rightarrow> bool" where
  "map_has m k \<longleftrightarrow> map_of m k \<noteq> None"

text \<open>The interface: what a client of a keyed store may rely on.\<close>

locale keyed_store =
  fixes get :: "'m \<Rightarrow> 'k \<Rightarrow> 'v option"
    and put :: "'k \<Rightarrow> 'v \<Rightarrow> 'm \<Rightarrow> 'm"
    and del :: "'k \<Rightarrow> 'm \<Rightarrow> 'm"
    and inv :: "'m \<Rightarrow> bool"
  assumes get_put: "get (put k v m) = (get m)(k \<mapsto> v)"
    and get_del: "get (del k m) = (get m)(k := None)"
    and inv_put: "inv m \<Longrightarrow> inv (put k v m)"
    and inv_del: "inv m \<Longrightarrow> inv (del k m)"
begin

text \<open>A batch of puts and deletes, \<open>None\<close> standing for a delete, leaves the last write per key.\<close>

definition put_opt :: "'k \<times> 'v option \<Rightarrow> 'm \<Rightarrow> 'm" where
  "put_opt kv m = (case snd kv of None \<Rightarrow> del (fst kv) m | Some v \<Rightarrow> put (fst kv) v m)"

lemma get_put_opt: "get (put_opt (k, ov) m) = (get m)(k := ov)"
  by (cases ov) (simp_all add: put_opt_def get_put get_del fun_upd_def)

lemma inv_fold_put_opt: "inv m \<Longrightarrow> inv (fold put_opt ops m)"
  by (induction ops arbitrary: m)
    (auto simp: put_opt_def inv_put inv_del split: option.splits)

lemma get_fold_put_opt:
  "get (fold put_opt ops m) k = (case map_of (rev ops) k of Some ov \<Rightarrow> ov | None \<Rightarrow> get m k)"
  by (induction ops arbitrary: m)
    (auto simp: get_put_opt map_add_def split: option.splits prod.splits)

end

interpretation jsmap: keyed_store "map_get :: ('k, 'v) jsmap \<Rightarrow> 'k \<Rightarrow> 'v option"
  map_set map_delete "\<lambda>m. distinct (map fst m)"
  by unfold_locales (simp_all add: update_conv' delete_conv' distinct_update distinct_delete)

lemma map_has_map_set [simp]: "map_has (map_set k v m) k' \<longleftrightarrow> k' = k \<or> map_has m k'"
  by (simp add: map_has_def update_conv')

lemma map_has_iff_mem: "map_has m k \<longleftrightarrow> k \<in> fst ` set m"
  by (simp add: map_has_def map_of_eq_None_iff)

section \<open>Comparators and sorting\<close>

text \<open>
  \<open>Array.prototype.sort\<close> is stable, so for a consistent comparator its result is the one insertion
  sort gives.
\<close>

fun js_insert :: "('a \<Rightarrow> 'a \<Rightarrow> int) \<Rightarrow> 'a \<Rightarrow> 'a list \<Rightarrow> 'a list" where
  "js_insert cmp x [] = [x]"
| "js_insert cmp x (y # ys) = (if cmp x y \<le> 0 then x # y # ys else y # js_insert cmp x ys)"

definition js_sort :: "('a \<Rightarrow> 'a \<Rightarrow> int) \<Rightarrow> 'a list \<Rightarrow> 'a list" where
  "js_sort cmp xs = foldr (js_insert cmp) xs []"

lemma mset_js_insert [simp]: "mset (js_insert cmp x xs) = add_mset x (mset xs)"
  by (induction xs) auto

lemma mset_js_sort [simp]: "mset (js_sort cmp xs) = mset xs"
  unfolding js_sort_def by (induction xs) auto

lemma set_js_sort [simp]: "set (js_sort cmp xs) = set xs"
  by (metis mset_js_sort set_mset_mset)

lemma length_js_sort [simp]: "length (js_sort cmp xs) = length xs"
  by (metis mset_js_sort size_mset)

locale comparator =
  fixes cmp :: "'a \<Rightarrow> 'a \<Rightarrow> int"
  assumes cmp_total: "cmp x y \<le> 0 \<or> cmp y x \<le> 0"
    and cmp_trans: "cmp x y \<le> 0 \<Longrightarrow> cmp y z \<le> 0 \<Longrightarrow> cmp x z \<le> 0"
begin

lemma sorted_js_insert:
  "sorted_wrt (\<lambda>x y. cmp x y \<le> 0) xs \<Longrightarrow> sorted_wrt (\<lambda>x y. cmp x y \<le> 0) (js_insert cmp x xs)"
proof (induction xs)
  case (Cons y ys)
  have set_ins: "set (js_insert cmp x ys) = insert x (set ys)"
    by (metis mset_js_insert set_mset_add_mset_insert set_mset_mset)
  from Cons show ?case
    by (auto simp: set_ins intro: cmp_trans dest: cmp_total[THEN disjE])
      (metis cmp_total)+
qed simp

lemma sorted_js_sort: "sorted_wrt (\<lambda>x y. cmp x y \<le> 0) (js_sort cmp xs)"
  unfolding js_sort_def by (induction xs) (auto intro: sorted_js_insert)

lemma js_sort_sorted_id: "sorted_wrt (\<lambda>x y. cmp x y \<le> 0) xs \<Longrightarrow> js_sort cmp xs = xs"
proof (induction xs)
  case (Cons x xs)
  then have "js_sort cmp xs = xs" by simp
  with Cons.prems show ?case by (cases xs) (auto simp: js_sort_def)
qed (simp add: js_sort_def)

end

text \<open>On a set of items the comparator tells apart, the sorted order is unique.\<close>

locale strict_comparator = comparator +
  assumes cmp_eq: "cmp x y \<le> 0 \<Longrightarrow> cmp y x \<le> 0 \<Longrightarrow> x = y"
begin

lemma sorted_unique:
  assumes "sorted_wrt (\<lambda>x y. cmp x y \<le> 0) xs" "sorted_wrt (\<lambda>x y. cmp x y \<le> 0) ys"
    and "mset xs = mset ys"
  shows "xs = ys"
  using assms
proof (induction xs arbitrary: ys)
  case (Cons x xs)
  then obtain y ys' where ys: "ys = y # ys'" by (cases ys) auto
  from Cons.prems(3) have "x \<in> set ys" "y \<in> set (x # xs)"
    unfolding ys by (metis list.set_intros(1) set_mset_mset)+
  with Cons.prems(1,2) have "x = y"
    unfolding ys by (auto intro: cmp_eq)
  with Cons ys show ?case by auto
qed simp

lemma js_sort_perm: "mset xs = mset ys \<Longrightarrow> js_sort cmp xs = js_sort cmp ys"
  by (rule sorted_unique) (simp_all add: sorted_js_sort)

end

section \<open>Lists\<close>

text \<open>\<open>Array.prototype.slice(0, n)\<close> with an integer bound that is not negative.\<close>

definition slice_to :: "int \<Rightarrow> 'a list \<Rightarrow> 'a list" where
  "slice_to n xs = take (nat n) xs"

text \<open>The prefix up to and including the first element that stops the scan.\<close>

fun take_until :: "('a \<Rightarrow> bool) \<Rightarrow> 'a list \<Rightarrow> 'a list" where
  "take_until P [] = []"
| "take_until P (x # xs) = x # (if P x then [] else take_until P xs)"

lemma set_take_until: "set (take_until P xs) \<subseteq> set xs"
  by (induction xs) auto

lemma prefix_take_until: "prefix (take_until P xs) xs"
  by (induction xs) auto

lemma take_until_none: "(\<forall>x \<in> set xs. \<not> P x) \<Longrightarrow> take_until P xs = xs"
  by (induction xs) auto

lemma take_until_append_stop:
  "(\<forall>x \<in> set xs. \<not> P x) \<Longrightarrow> P y \<Longrightarrow> take_until P (xs @ y # ys) = xs @ [y]"
  by (induction xs) auto

lemma take_until_split:
  assumes "\<exists>x \<in> set xs. P x"
  obtains ys y zs where "xs = ys @ y # zs" "P y" "\<forall>x \<in> set ys. \<not> P x" "take_until P xs = ys @ [y]"
proof -
  from split_list_first_prop[OF assms] obtain ys y zs
    where split: "xs = ys @ y # zs" "P y" "\<forall>x \<in> set ys. \<not> P x" by blast
  moreover have "take_until P xs = ys @ [y]"
    unfolding split(1) by (rule take_until_append_stop) (use split in auto)
  ultimately show thesis by (rule that)
qed

lemma sorted_wrt_prefix: "sorted_wrt R ys \<Longrightarrow> prefix xs ys \<Longrightarrow> sorted_wrt R xs"
  by (auto simp: prefix_def sorted_wrt_append)

end
