(* ===== verification/Messages.thy ===== *)
theory Messages
  imports Prelude
begin

text \<open>
  The message types of \<open>packages/ai/src/types.ts\<close> and \<open>packages/agent/src/harness/messages.ts\<close>, the
  streaming frames of \<open>assistant-message-frame.ts\<close>, and the usage arithmetic of
  \<open>harness/utils/usage.ts\<close>. Integral JavaScript numbers (timestamps, token counts, indices) are
  \<open>int\<close>; the dollar costs of a usage record are \<open>rat\<close>, so the rounding of IEEE addition is not
  modelled. A value of TypeScript type \<open>unknown\<close> or \<open>any\<close> that is persisted is a JSON value.
\<close>

section \<open>JSON\<close>

datatype json = JNull | JBool bool | JNum rat | JStr jstring | JArr "json list"
  | JObj "(jstring \<times> json) list"

section \<open>Content blocks\<close>

record text_content =
  tx_text :: jstring
  tx_signature :: "jstring option"

record thinking_content =
  th_thinking :: jstring
  th_signature :: "jstring option"
  th_redacted :: "bool option"

record image_content =
  im_data :: jstring
  im_mimeType :: jstring

record tool_call =
  tc_id :: jstring
  tc_name :: jstring
  tc_arguments :: "(jstring \<times> json) list"
  tc_thoughtSignature :: "jstring option"
  tc_namespace :: "jstring option"

datatype user_block = UText text_content | UImage image_content
datatype assistant_block = AText text_content | AThinking thinking_content | AToolCall tool_call

text \<open>\<open>content: string | (TextContent | ImageContent)[]\<close>\<close>

datatype user_content = PlainContent jstring | BlockContent "user_block list"

section \<open>Usage\<close>

record usage_cost =
  co_input :: rat
  co_output :: rat
  co_cacheRead :: rat
  co_cacheWrite :: rat
  co_total :: rat

record usage =
  us_input :: int
  us_output :: int
  us_cacheRead :: int
  us_cacheWrite :: int
  us_cacheWrite1h :: "int option"
  us_reasoning :: "int option"
  us_totalTokens :: int
  us_cost :: usage_cost

definition emptyUsage :: usage where
  "emptyUsage = \<lparr>us_input = 0, us_output = 0, us_cacheRead = 0, us_cacheWrite = 0,
     us_cacheWrite1h = None, us_reasoning = None, us_totalTokens = 0,
     us_cost = \<lparr>co_input = 0, co_output = 0, co_cacheRead = 0, co_cacheWrite = 0, co_total = 0\<rparr>\<rparr>"

text \<open>An optional count is present in the sum when either side has one.\<close>

definition add_optional :: "int option \<Rightarrow> int option \<Rightarrow> int option" where
  "add_optional l r =
     (if l = None \<and> r = None then None
      else Some ((case l of None \<Rightarrow> 0 | Some n \<Rightarrow> n) + (case r of None \<Rightarrow> 0 | Some n \<Rightarrow> n)))"

definition addUsage :: "usage \<Rightarrow> usage \<Rightarrow> usage" where
  "addUsage left right =
     \<lparr>us_input = us_input left + us_input right,
      us_output = us_output left + us_output right,
      us_cacheRead = us_cacheRead left + us_cacheRead right,
      us_cacheWrite = us_cacheWrite left + us_cacheWrite right,
      us_cacheWrite1h = add_optional (us_cacheWrite1h left) (us_cacheWrite1h right),
      us_reasoning = add_optional (us_reasoning left) (us_reasoning right),
      us_totalTokens = us_totalTokens left + us_totalTokens right,
      us_cost =
        \<lparr>co_input = co_input (us_cost left) + co_input (us_cost right),
         co_output = co_output (us_cost left) + co_output (us_cost right),
         co_cacheRead = co_cacheRead (us_cost left) + co_cacheRead (us_cost right),
         co_cacheWrite = co_cacheWrite (us_cost left) + co_cacheWrite (us_cost right),
         co_total = co_total (us_cost left) + co_total (us_cost right)\<rparr>\<rparr>"

lemma add_optional_simps [simp]:
  "add_optional None None = None" "add_optional (Some m) None = Some m"
  "add_optional None (Some n) = Some n" "add_optional (Some m) (Some n) = Some (m + n)"
  by (simp_all add: add_optional_def)

lemma add_optional_assoc: "add_optional (add_optional a b) c = add_optional a (add_optional b c)"
  by (cases a; cases b; cases c) auto

lemma add_optional_commute: "add_optional a b = add_optional b a"
  by (cases a; cases b) auto

lemma addUsage_assoc: "addUsage (addUsage a b) c = addUsage a (addUsage b c)"
  by (simp add: addUsage_def add_optional_assoc)

lemma addUsage_commute: "addUsage a b = addUsage b a"
  by (simp add: addUsage_def add_optional_commute[of "us_cacheWrite1h a"]
      add_optional_commute[of "us_reasoning a"])

lemma addUsage_empty [simp]: "addUsage emptyUsage u = u" "addUsage u emptyUsage = u"
  by (cases u; simp add: addUsage_def emptyUsage_def add_optional_def split: option.splits)+

section \<open>Messages\<close>

datatype stop_reason = Pending | Stop | Length | ToolUse | Error | Aborted | Deferred

record deferred_handle =
  dh_provider :: jstring
  dh_modelId :: jstring
  dh_api :: jstring
  dh_id :: jstring
  dh_expiresAt :: "int option"
  dh_pollAfterMs :: "int option"
  dh_data :: "json option"

record user_message =
  um_content :: user_content
  um_timestamp :: int

record assistant_message =
  am_content :: "assistant_block list"
  am_api :: jstring
  am_provider :: jstring
  am_model :: jstring
  am_responseModel :: "jstring option"
  am_responseId :: "jstring option"
  am_providerThinkingLevel :: "jstring option"
  am_diagnostics :: "json list option"
  am_usage :: usage
  am_stopReason :: stop_reason
  am_deferred :: "deferred_handle option"
  am_errorMessage :: "jstring option"
  am_rawStopReason :: "jstring option"
  am_endTurn :: "bool option"
  am_timestamp :: int

record tool_result_message =
  tr_toolCallId :: jstring
  tr_toolName :: jstring
  tr_content :: "user_block list"
  tr_details :: "json option"
  tr_usage :: "usage option"
  tr_addedToolNames :: "jstring list option"
  tr_isError :: bool
  tr_timestamp :: int

record bash_execution_message =
  be_command :: jstring
  be_output :: jstring
  be_exitCode :: "int option"
  be_cancelled :: bool
  be_truncated :: bool
  be_fullOutputPath :: "jstring option"
  be_timestamp :: int
  be_excludeFromContext :: "bool option"

record custom_message =
  cm_customType :: jstring
  cm_content :: user_content
  cm_display :: bool
  cm_details :: "json option"
  cm_timestamp :: int

record branch_summary_message =
  bm_summary :: jstring
  bm_fromId :: "jstring option"
  bm_timestamp :: int

record compaction_summary_message =
  cs_summary :: jstring
  cs_tokensBefore :: int
  cs_timestamp :: int

datatype agent_message =
    UserMsg user_message
  | AssistantMsg assistant_message
  | ToolResultMsg tool_result_message
  | BashExecutionMsg bash_execution_message
  | CustomMsg custom_message
  | BranchSummaryMsg branch_summary_message
  | CompactionSummaryMsg compaction_summary_message

text \<open>\<open>message.role === "assistant" && message.stopReason === "pending"\<close>\<close>

fun is_pending_assistant :: "agent_message \<Rightarrow> bool" where
  "is_pending_assistant (AssistantMsg m) = (am_stopReason m = Pending)"
| "is_pending_assistant _ = False"

definition createBranchSummaryMessage :: "jstring \<Rightarrow> jstring option \<Rightarrow> int \<Rightarrow> agent_message" where
  "createBranchSummaryMessage summary fromId timestamp =
     BranchSummaryMsg \<lparr>bm_summary = summary, bm_fromId = fromId, bm_timestamp = timestamp\<rparr>"

definition createCompactionSummaryMessage :: "jstring \<Rightarrow> int \<Rightarrow> int \<Rightarrow> agent_message" where
  "createCompactionSummaryMessage summary tokensBefore timestamp =
     CompactionSummaryMsg
       \<lparr>cs_summary = summary, cs_tokensBefore = tokensBefore, cs_timestamp = timestamp\<rparr>"

section \<open>Streaming frames and tool results\<close>

datatype assistant_frame =
    FStart assistant_message
  | FTextStart int text_content
  | FTextDelta int jstring
  | FTextEnd int jstring "jstring option"
  | FThinkingStart int thinking_content
  | FThinkingDelta int jstring
  | FThinkingEnd int jstring "jstring option" "bool option"
  | FToolCallStart int tool_call
  | FToolCallCheckpoint int jstring
  | FToolCallDelta int jstring
  | FToolCallEnd int jstring jstring "(jstring \<times> json) list" "jstring option" "jstring option"

record agent_tool_result =
  ar_content :: "user_block list"
  ar_details :: "json option"
  ar_usage :: "usage option"
  ar_addedToolNames :: "jstring list option"
  ar_terminate :: "bool option"

end
