(* ===== verification/SessionTypes.thy ===== *)
theory SessionTypes
  imports Messages
begin

text \<open>
  The durable data model of \<open>packages/agent/src/harness/session/types.ts\<close>: entries of the
  conversation tree, the state a lane and its current operation keep, and the typed slots under
  which they are stored. A tagged union of the source is a datatype whose constructors carry the
  fields of the variant; fields shared by all variants are in the record around it.
\<close>

section \<open>Entries\<close>

datatype entry_type = MessageType | CompactionType | BranchSummaryType | CustomType

record compaction_data =
  cd_summary :: jstring
  cd_retainedTail :: "agent_message list"
  cd_tokensBefore :: int
  cd_details :: "json option"
  cd_usage :: "usage option"
  cd_fromHook :: bool

record branch_summary_data =
  bd_fromId :: "jstring option"
  bd_summary :: jstring
  bd_details :: "json option"
  bd_usage :: "usage option"
  bd_fromHook :: bool

text \<open>\<open>MessageBody message terminate\<close> and \<open>CustomBody customType data\<close>.\<close>

datatype entry_body =
    MessageBody agent_message bool
  | CompactionBody compaction_data
  | BranchSummaryBody branch_summary_data
  | CustomBody jstring "json option"

record entry =
  en_id :: jstring
  en_parentId :: "jstring option"
  en_seq :: int
  en_timestamp :: int
  en_body :: entry_body

text \<open>\<open>NewEntry\<close>: an entry before storage assigns \<open>seq\<close> and \<open>timestamp\<close>.\<close>

record new_entry =
  ne_id :: jstring
  ne_parentId :: "jstring option"
  ne_body :: entry_body

fun body_type :: "entry_body \<Rightarrow> entry_type" where
  "body_type (MessageBody m t) = MessageType"
| "body_type (CompactionBody c) = CompactionType"
| "body_type (BranchSummaryBody b) = BranchSummaryType"
| "body_type (CustomBody c d) = CustomType"

fun body_customType :: "entry_body \<Rightarrow> jstring option" where
  "body_customType (CustomBody c d) = Some c"
| "body_customType _ = None"

definition en_type :: "entry \<Rightarrow> entry_type" where
  "en_type e = body_type (en_body e)"

definition en_customType :: "entry \<Rightarrow> jstring option" where
  "en_customType e = body_customType (en_body e)"

section \<open>Lane and operation data\<close>

datatype thinking_level = TLOff | TLMinimal | TLLow | TLMedium | TLHigh | TLXhigh | TLMax
datatype queue_mode = AllItems | OneAtATime
datatype tool_execution = SequentialTools | ParallelTools

record model_identity =
  mi_provider :: jstring
  mi_modelId :: jstring

record lane_configuration =
  lc_model :: model_identity
  lc_thinkingLevel :: thinking_level
  lc_activeToolNames :: "jstring list"

datatype op_intent =
    RunIntent "jstring list"
  | CompactionIntent "jstring option"
  | NavigationIntent "jstring option" bool "jstring option" "jstring option"

datatype op_kind = RunKind | CompactionKind | NavigationKind

fun intent_kind :: "op_intent \<Rightarrow> op_kind" where
  "intent_kind (RunIntent ps) = RunKind"
| "intent_kind (CompactionIntent ci) = CompactionKind"
| "intent_kind (NavigationIntent t s l ci) = NavigationKind"

record operation_meta =
  me_operationId :: jstring
  me_lane :: jstring
  me_sourceTipId :: "jstring option"
  me_startedAt :: int
  me_intent :: op_intent

datatype control = Running | CancelRequested int

record operation_error =
  oe_code :: jstring
  oe_message :: jstring
  oe_details :: "json option"

datatype terminal_status = Completed | Declined | AbortedStatus | FailedStatus

record operation_result_record =
  or_operationId :: jstring
  or_kind :: op_kind
  or_status :: terminal_status
  or_error :: "operation_error option"
  or_fromTipId :: "jstring option"
  or_tipId :: "jstring option"
  or_startedAt :: int
  or_endedAt :: int

datatype continuation = NeedAssistant bool | MayFinish bool

record checkpoint_data =
  ck_continuation :: continuation
  ck_triggerEntryId :: jstring

datatype inbox_item_kind = Steer | FollowUp | NextRun | WriteItem

record inbox_item =
  ii_entryId :: jstring
  ii_kind :: inbox_item_kind

record normalized_retry_policy =
  rp_maxAttempts :: int
  rp_baseDelayMs :: int
  rp_maxAgentDelayMs :: int

datatype deferred_option = DeferredFlag bool | DeferredWindow "jstring option"

record stream_options =
  so_transport :: "jstring option"
  so_timeoutMs :: "int option"
  so_maxRetries :: "int option"
  so_maxRetryDelayMs :: "int option"
  so_headers :: "(jstring \<times> jstring) list option"
  so_metadata :: "(jstring \<times> json) list option"
  so_cacheRetention :: "jstring option"
  so_deferred :: "deferred_option option"

record generation_context =
  gc_stepId :: jstring
  gc_triggerEntryId :: jstring
  gc_configuration :: lane_configuration
  gc_streamOptions :: stream_options
  gc_retryPolicy :: normalized_retry_policy
  gc_overflowRecoveryUsed :: bool

datatype replay = ReplayNever | ReplaySafe
datatype tool_call_status =
  Planned | EffectPending replay | OutcomeReady bool | CallCompleted bool

record batch_call =
  bc_sourceIndex :: int
  bc_resultEntryId :: jstring
  bc_status :: tool_call_status

record tool_batch =
  tb_assistantEntryId :: jstring
  tb_configuration :: lane_configuration
  tb_turnId :: jstring
  tb_calls :: "batch_call list"

record summary_context =
  sc_resultEntryId :: jstring
  sc_configuration :: lane_configuration
  sc_streamOptions :: stream_options
  sc_retryPolicy :: normalized_retry_policy

record compaction_settings =
  cp_enabled :: bool
  cp_reserveTokens :: int
  cp_keepRecentTokens :: int

record run_settings =
  rs_compaction :: compaction_settings
  rs_steeringMode :: queue_mode
  rs_followUpMode :: queue_mode
  rs_toolExecution :: tool_execution

record operation_scope =
  os_control :: control
  os_settings :: run_settings
  os_latestAssistantEntryId :: "jstring option"

record retry_wait =
  rw_nextAttempt :: int
  rw_notBefore :: int
  rw_errorMessage :: jstring

datatype result_boundary =
    ResumeCheckpoint checkpoint_data
  | FinishBoundary
  | CommitNavigation jstring "jstring option"

datatype summary_reason = ManualReason | ThresholdReason | OverflowReason

record summary_task =
  st_taskId :: jstring
  st_reason :: "summary_reason option"
  st_customInstructions :: "jstring option"
  st_boundary :: result_boundary

record deferred_scope =
  ds_stepId :: jstring
  ds_sourceEntryId :: jstring
  ds_poll :: int
  ds_configuration :: lane_configuration
  ds_streamOptions :: stream_options

text \<open>
  The thirteen leaves of the operation state. The uniform \<open>OperationScope\<close> is the record
  \<open>operation_state\<close> around them, so \<open>{...state, control}\<close> is an update of \<open>op_scope\<close>.
\<close>

datatype operation_leaf =
    Starting
  | Checkpoint checkpoint_data
  | AssistantReady generation_context int
  | AssistantEffectPending generation_context int jstring jstring int int
  | AssistantRetryWait generation_context retry_wait
  | Tools tool_batch
  | DeferredSuspended deferred_scope
  | DeferredEffectPending deferred_scope jstring jstring
  | SummaryDeciding summary_task
  | SummaryReady summary_task summary_context int
  | SummaryEffectPending summary_task summary_context int "(int \<times> jstring) option" "jstring list"
  | SummaryRetryWait summary_task summary_context retry_wait
  | NavigationReadyToCommit "jstring option" "jstring option"

record operation_state =
  op_scope :: operation_scope
  op_leaf :: operation_leaf

definition operationScopeOf :: "operation_state \<Rightarrow> operation_scope" where
  "operationScopeOf state =
     \<lparr>os_control = os_control (op_scope state), os_settings = os_settings (op_scope state),
      os_latestAssistantEntryId = os_latestAssistantEntryId (op_scope state)\<rparr>"

record operation =
  op_meta :: operation_meta
  op_state :: operation_state

text \<open>\<open>LaneState\<close> of \<open>session/types.ts\<close>, the stored one.\<close>

record durable_lane_state =
  dl_currentOperationId :: "jstring option"
  dl_lastOperationId :: "jstring option"
  dl_inbox :: "inbox_item list"

datatype pending_entry = PendingMessage agent_message | PendingCustom jstring "json option"

record durable_file_operations =
  df_read :: "jstring list"
  df_written :: "jstring list"
  df_edited :: "jstring list"

datatype structural_preparation =
    CompactionPrep "agent_message list" "agent_message list" "agent_message list" bool int
      "jstring option" durable_file_operations compaction_settings
  | BranchSummaryPrep "agent_message list" durable_file_operations int

section \<open>Usage rows, writes and results of a commit\<close>

text \<open>The values a slot can hold: \<open>T\<close> of the typed addresses in \<open>session/values.ts\<close>.\<close>

datatype stored =
    VTip "jstring option"
  | VConfig lane_configuration
  | VLaneState durable_lane_state
  | VMeta operation_meta
  | VOpState operation_state
  | VResult operation_result_record
  | VToolArgs "(jstring \<times> json) list"
  | VPreparation structural_preparation
  | VPending pending_entry
  | VToolOutput agent_tool_result
  | VFrame assistant_frame
  | VText jstring
  | VJson json

record new_usage_row =
  nu_id :: jstring
  nu_usage :: usage
  nu_entryId :: "jstring option"
  nu_adjustment :: bool
  nu_details :: "json option"

record usage_row =
  ur_id :: jstring
  ur_seq :: int
  ur_usage :: usage
  ur_entryId :: "jstring option"
  ur_adjustment :: bool
  ur_details :: "json option"

text \<open>\<open>Write\<close>: namespace, key and, for a set or an append, the value.\<close>

datatype storage_write =
    WEntry new_entry
  | WUsage new_usage_row
  | WValueSet jstring jstring stored
  | WValueDelete jstring jstring
  | WListAppend jstring jstring stored
  | WListDelete jstring jstring

record session_stats =
  ss_messageCount :: int
  ss_usage :: usage

record commit_result =
  cr_firstSeq :: int
  cr_seqs :: "int list"
  cr_timestamp :: int
  cr_stats :: session_stats

section \<open>Queries\<close>

datatype branch_order = NewestFirst | OldestFirst
datatype scan_order = Asc | Desc

record branch_scan =
  bs_start :: jstring
  bs_stopAtType :: "entry_type option"
  bs_stopAtId :: "jstring option"
  bs_type :: "entry_type option"
  bs_customType :: "jstring option"
  bs_order :: "branch_order option"
  bs_limit :: "int option"
  bs_cursor :: "int option"

record entry_scan =
  es_type :: "entry_type option"
  es_customType :: "jstring option"
  es_fromSeq :: "int option"
  es_toSeq :: "int option"
  es_order :: "scan_order option"
  es_limit :: "int option"

record usage_scan =
  uq_fromSeq :: "int option"
  uq_toSeq :: "int option"
  uq_order :: "scan_order option"
  uq_limit :: "int option"

record entry_structure =
  et_id :: jstring
  et_parentId :: "jstring option"
  et_seq :: int
  et_timestamp :: int
  et_type :: entry_type
  et_customType :: "jstring option"

datatype fork_position = Before | At

datatype fork_options =
    ForkBranch jstring "jstring option" "fork_position option" "jstring option"
  | ForkTree "jstring option"

record session_metadata =
  sm_id :: jstring
  sm_createdAt :: int
  sm_storageVersion :: int
  sm_cwd :: "jstring option"
  sm_parentSessionId :: "jstring option"
  sm_legacyParentSessionPath :: "jstring option"

end
