(* ===== verification/Values.thy ===== *)
theory Values
  imports SessionTypes
begin

text \<open>
  \<open>packages/agent/src/harness/session/values.ts\<close>: typed addresses of stored values and lists, the
  writes on them, the resolution of list-read options, and the reserved \<open>pi.*\<close> addresses. An
  address constructor validates its parts, so it may throw; a writer that lists several addresses
  throws at the first bad one.
\<close>

section \<open>Addresses\<close>

datatype address_kind = ValueKind | ListKind

record address =
  ad_namespace :: jstring
  ad_key :: jstring
  ad_kind :: address_kind

definition validateAddress :: "jstring \<Rightarrow> jstring \<Rightarrow> js_error + unit" where
  "validateAddress namespace key =
     (if namespace = [] then Inl EmptyNamespace
      else if has_nul namespace then Inl NulInNamespace
      else if has_nul key then Inl NulInKey
      else Inr ())"

definition mkValue :: "jstring \<Rightarrow> jstring \<Rightarrow> js_error + address" where
  "mkValue namespace key =
     ebind (validateAddress namespace key)
       (\<lambda>_. Inr \<lparr>ad_namespace = namespace, ad_key = key, ad_kind = ValueKind\<rparr>)"

definition mkList :: "jstring \<Rightarrow> jstring \<Rightarrow> js_error + address" where
  "mkList namespace key =
     ebind (validateAddress namespace key)
       (\<lambda>_. Inr \<lparr>ad_namespace = namespace, ad_key = key, ad_kind = ListKind\<rparr>)"

definition setValue :: "address \<Rightarrow> stored \<Rightarrow> storage_write" where
  "setValue a next = WValueSet (ad_namespace a) (ad_key a) next"

definition deleteValue :: "address \<Rightarrow> storage_write" where
  "deleteValue a = WValueDelete (ad_namespace a) (ad_key a)"

definition appendList :: "address \<Rightarrow> stored \<Rightarrow> storage_write" where
  "appendList a element = WListAppend (ad_namespace a) (ad_key a) element"

definition deleteList :: "address \<Rightarrow> storage_write" where
  "deleteList a = WListDelete (ad_namespace a) (ad_key a)"

section \<open>List reads\<close>

record list_read_options =
  lo_cursor :: "int option"
  lo_order :: "scan_order option"
  lo_limit :: "int option"

record resolved_list_read_options =
  rl_cursor :: "int option"
  rl_order :: scan_order
  rl_limit :: int

definition MAX_SAFE_INTEGER :: int where
  "MAX_SAFE_INTEGER = 2 ^ 53 - 1"

definition is_safe_integer :: "int \<Rightarrow> bool" where
  "is_safe_integer n \<longleftrightarrow> \<bar>n\<bar> \<le> MAX_SAFE_INTEGER"

definition default_list_options :: list_read_options where
  "default_list_options = \<lparr>lo_cursor = None, lo_order = None, lo_limit = None\<rparr>"

definition resolveListReadOptions ::
  "list_read_options option \<Rightarrow> js_error + resolved_list_read_options" where
  "resolveListReadOptions arg =
     (let options = (case arg of None \<Rightarrow> default_list_options | Some opts \<Rightarrow> opts);
          requestedLimit = (case lo_limit options of None \<Rightarrow> 1000 | Some n \<Rightarrow> n)
      in if \<not> is_safe_integer requestedLimit \<or> requestedLimit \<le> 0 then Inl BadListLimit
         else Inr \<lparr>rl_cursor = lo_cursor options,
                   rl_order = (case lo_order options of None \<Rightarrow> Asc | Some d \<Rightarrow> d),
                   rl_limit = min requestedLimit 10000\<rparr>)"

section \<open>The reserved addresses\<close>

abbreviation COLON :: jstring where "COLON \<equiv> js '':''"

abbreviation ns_branch_tip :: jstring where "ns_branch_tip \<equiv> js ''pi.branch.tip''"
abbreviation ns_lane_config :: jstring where "ns_lane_config \<equiv> js ''pi.lane.config''"
abbreviation ns_lane_state :: jstring where "ns_lane_state \<equiv> js ''pi.lane.state''"
abbreviation ns_result :: jstring where "ns_result \<equiv> js ''pi.result''"
abbreviation ns_op_meta :: jstring where "ns_op_meta \<equiv> js ''pi.op.meta''"
abbreviation ns_op_state :: jstring where "ns_op_state \<equiv> js ''pi.op.state''"
abbreviation ns_tool_args :: jstring where "ns_tool_args \<equiv> js ''pi.op.tool_args''"
abbreviation ns_tool_memo :: jstring where "ns_tool_memo \<equiv> js ''pi.op.tool_memo''"
abbreviation ns_preparation :: jstring where "ns_preparation \<equiv> js ''pi.op.preparation''"
abbreviation ns_pending_entry :: jstring where "ns_pending_entry \<equiv> js ''pi.pending.entry''"
abbreviation ns_tool_output :: jstring where "ns_tool_output \<equiv> js ''pi.pending.tool_output''"
abbreviation ns_frame :: jstring where "ns_frame \<equiv> js ''pi.pending.assistant_frame''"
abbreviation ns_session_name :: jstring where "ns_session_name \<equiv> js ''pi.session.name''"
abbreviation ns_entry_label :: jstring where "ns_entry_label \<equiv> js ''pi.entry.label''"

definition branchTip :: "jstring \<Rightarrow> js_error + address" where
  "branchTip branch = mkValue ns_branch_tip branch"
definition branchTipInventoryPrefix :: "js_error + address" where
  "branchTipInventoryPrefix = mkValue ns_branch_tip []"
definition laneConfig :: "jstring \<Rightarrow> js_error + address" where
  "laneConfig lane = mkValue ns_lane_config lane"
definition laneState :: "jstring \<Rightarrow> js_error + address" where
  "laneState lane = mkValue ns_lane_state lane"
definition operationResult :: "jstring \<Rightarrow> js_error + address" where
  "operationResult operationId = mkValue ns_result operationId"
definition operationMeta :: "jstring \<Rightarrow> js_error + address" where
  "operationMeta operationId = mkValue ns_op_meta operationId"
definition operationState :: "jstring \<Rightarrow> js_error + address" where
  "operationState operationId = mkValue ns_op_state operationId"

text \<open>\<open>index_text\<close>: the decimal rendering a template literal gives a number.\<close>

fun nat_digits :: "nat \<Rightarrow> string" where
  "nat_digits n = (if n < 10 then [char_of (48 + n)]
                   else nat_digits (n div 10) @ [char_of (48 + n mod 10)])"

declare nat_digits.simps [simp del]

definition index_text :: "int \<Rightarrow> jstring" where
  "index_text n = (if n < 0 then js (CHR ''-'' # nat_digits (nat (- n))) else js (nat_digits (nat n)))"

definition operationToolArgs :: "jstring \<Rightarrow> jstring \<Rightarrow> int \<Rightarrow> js_error + address" where
  "operationToolArgs operationId stepId sourceIndex =
     mkValue ns_tool_args (operationId @ COLON @ stepId @ COLON @ index_text sourceIndex)"
definition operationToolMemo :: "jstring \<Rightarrow> jstring \<Rightarrow> jstring \<Rightarrow> js_error + address" where
  "operationToolMemo operationId invocationId name =
     mkValue ns_tool_memo (operationId @ COLON @ invocationId @ COLON @ name)"
definition operationPreparation :: "jstring \<Rightarrow> jstring \<Rightarrow> js_error + address" where
  "operationPreparation operationId taskId =
     mkValue ns_preparation (operationId @ COLON @ taskId)"

definition operationToolArgsPrefix :: "jstring \<Rightarrow> jstring option \<Rightarrow> js_error + address" where
  "operationToolArgsPrefix operationId stepId =
     mkValue ns_tool_args
       (case stepId of None \<Rightarrow> operationId @ COLON | Some s \<Rightarrow> operationId @ COLON @ s @ COLON)"
definition operationToolMemoPrefix :: "jstring \<Rightarrow> jstring option \<Rightarrow> js_error + address" where
  "operationToolMemoPrefix operationId invocationId =
     mkValue ns_tool_memo
       (case invocationId of None \<Rightarrow> operationId @ COLON | Some s \<Rightarrow> operationId @ COLON @ s @ COLON)"
definition operationPreparationPrefix :: "jstring \<Rightarrow> js_error + address" where
  "operationPreparationPrefix operationId = mkValue ns_preparation (operationId @ COLON)"

definition pendingEntry :: "jstring \<Rightarrow> js_error + address" where
  "pendingEntry entryId = mkValue ns_pending_entry entryId"
definition pendingToolOutput :: "jstring \<Rightarrow> jstring \<Rightarrow> js_error + address" where
  "pendingToolOutput operationId invocationId =
     mkValue ns_tool_output (operationId @ COLON @ invocationId)"
definition pendingAssistantFrames :: "jstring \<Rightarrow> jstring \<Rightarrow> js_error + address" where
  "pendingAssistantFrames operationId responseEntryId =
     mkList ns_frame (operationId @ COLON @ responseEntryId)"
definition pendingToolOutputPrefix :: "jstring \<Rightarrow> js_error + address" where
  "pendingToolOutputPrefix operationId = mkValue ns_tool_output (operationId @ COLON)"

definition sessionName :: "js_error + address" where
  "sessionName = mkValue ns_session_name []"
definition entryLabel :: "jstring \<Rightarrow> js_error + address" where
  "entryLabel entryId = mkValue ns_entry_label entryId"

lemmas reserved_address_defs = branchTip_def branchTipInventoryPrefix_def laneConfig_def
  laneState_def operationResult_def operationMeta_def operationState_def operationToolArgs_def
  operationToolMemo_def operationPreparation_def operationToolArgsPrefix_def
  operationToolMemoPrefix_def operationPreparationPrefix_def pendingEntry_def
  pendingToolOutput_def pendingAssistantFrames_def pendingToolOutputPrefix_def sessionName_def
  entryLabel_def

section \<open>Typed reads\<close>

text \<open>The casts \<open>as StoredValue<T>\<close> of the typed readers, one per type of address.\<close>

fun as_tip :: "stored \<Rightarrow> js_error + jstring option" where
  "as_tip (VTip t) = Inr t" | "as_tip _ = Inl (IllTyped ns_branch_tip [])"
fun as_config :: "stored \<Rightarrow> js_error + lane_configuration" where
  "as_config (VConfig c) = Inr c" | "as_config _ = Inl (IllTyped ns_lane_config [])"
fun as_lane_state :: "stored \<Rightarrow> js_error + durable_lane_state" where
  "as_lane_state (VLaneState s) = Inr s" | "as_lane_state _ = Inl (IllTyped ns_lane_state [])"
fun as_meta :: "stored \<Rightarrow> js_error + operation_meta" where
  "as_meta (VMeta m) = Inr m" | "as_meta _ = Inl (IllTyped ns_op_meta [])"
fun as_op_state :: "stored \<Rightarrow> js_error + operation_state" where
  "as_op_state (VOpState s) = Inr s" | "as_op_state _ = Inl (IllTyped ns_op_state [])"
fun as_result :: "stored \<Rightarrow> js_error + operation_result_record" where
  "as_result (VResult r) = Inr r" | "as_result _ = Inl (IllTyped ns_result [])"
fun as_pending :: "stored \<Rightarrow> js_error + pending_entry" where
  "as_pending (VPending p) = Inr p" | "as_pending _ = Inl (IllTyped ns_pending_entry [])"
fun as_text :: "stored \<Rightarrow> js_error + jstring" where
  "as_text (VText t) = Inr t" | "as_text _ = Inl (IllTyped ns_session_name [])"
fun as_frame :: "stored \<Rightarrow> js_error + assistant_frame" where
  "as_frame (VFrame f) = Inr f" | "as_frame _ = Inl (IllTyped ns_frame [])"
fun as_tool_args :: "stored \<Rightarrow> js_error + (jstring \<times> json) list" where
  "as_tool_args (VToolArgs f) = Inr f" | "as_tool_args _ = Inl (IllTyped ns_tool_args [])"
fun as_tool_output :: "stored \<Rightarrow> js_error + agent_tool_result" where
  "as_tool_output (VToolOutput f) = Inr f" | "as_tool_output _ = Inl (IllTyped ns_tool_output [])"

section \<open>Facts about addresses\<close>

lemma has_nul_js [simp]: "has_nul (js s) \<longleftrightarrow> CHR 0x00 \<in> set s"
proof -
  have "(of_char c :: 16 word) = 0 \<longleftrightarrow> c = CHR 0x00" for c
    using of_char_word16_inj[of c "CHR 0x00"] by simp
  then show ?thesis by (auto simp: has_nul_def js_def NUL_def image_iff)
qed

lemma mkValue_eq_Inr:
  "mkValue ns k = Inr a \<longleftrightarrow>
     ns \<noteq> [] \<and> \<not> has_nul ns \<and> \<not> has_nul k \<and> a = \<lparr>ad_namespace = ns, ad_key = k, ad_kind = ValueKind\<rparr>"
  by (auto simp: mkValue_def validateAddress_def)

lemma mkList_eq_Inr:
  "mkList ns k = Inr a \<longleftrightarrow>
     ns \<noteq> [] \<and> \<not> has_nul ns \<and> \<not> has_nul k \<and> a = \<lparr>ad_namespace = ns, ad_key = k, ad_kind = ListKind\<rparr>"
  by (auto simp: mkList_def validateAddress_def)

end
