(* ===== verification/Commit.thy ===== *)
theory Commit
  imports Values
begin

text \<open>
  \<open>packages/agent/src/harness/session/commit.ts\<close>: the sequence numbers and the timestamp a commit
  assigns to its writes, and the validation of committed writes against the state they extend.
\<close>

datatype committed_write =
    CEntry entry
  | CUsage usage_row
  | CValueSet int jstring jstring stored
  | CValueDelete int jstring jstring
  | CListAppend int jstring jstring stored
  | CListDelete int jstring jstring

fun cw_seq :: "committed_write \<Rightarrow> int" where
  "cw_seq (CEntry e) = en_seq e"
| "cw_seq (CUsage r) = ur_seq r"
| "cw_seq (CValueSet n _ _ _) = n"
| "cw_seq (CValueDelete n _ _) = n"
| "cw_seq (CListAppend n _ _ _) = n"
| "cw_seq (CListDelete n _ _) = n"

record prepared_commit =
  pc_writes :: "committed_write list"
  pc_firstSeq :: int
  pc_seqs :: "int list"
  pc_timestamp :: int

record commit_validation_state =
  cv_hasEntryOrUsageId :: "jstring \<Rightarrow> bool"
  cv_hasEntryId :: "jstring \<Rightarrow> bool"

definition insertEntry :: "new_entry \<Rightarrow> storage_write" where
  "insertEntry e = WEntry e"

definition insertUsage :: "new_usage_row \<Rightarrow> storage_write" where
  "insertUsage r = WUsage r"

definition materializeCommittedEntry :: "new_entry \<Rightarrow> int \<Rightarrow> int \<Rightarrow> entry" where
  "materializeCommittedEntry e seq timestamp =
     \<lparr>en_id = ne_id e, en_parentId = ne_parentId e, en_seq = seq, en_timestamp = timestamp,
      en_body = ne_body e\<rparr>"

definition materializeUsageRow :: "new_usage_row \<Rightarrow> int \<Rightarrow> usage_row" where
  "materializeUsageRow r seq =
     \<lparr>ur_id = nu_id r, ur_seq = seq, ur_usage = nu_usage r, ur_entryId = nu_entryId r,
      ur_adjustment = nu_adjustment r, ur_details = nu_details r\<rparr>"

fun commitWrite :: "storage_write \<Rightarrow> int \<Rightarrow> int \<Rightarrow> committed_write" where
  "commitWrite (WEntry e) seq timestamp = CEntry (materializeCommittedEntry e seq timestamp)"
| "commitWrite (WUsage r) seq timestamp = CUsage (materializeUsageRow r seq)"
| "commitWrite (WValueSet ns k v) seq timestamp = CValueSet seq ns k v"
| "commitWrite (WValueDelete ns k) seq timestamp = CValueDelete seq ns k"
| "commitWrite (WListAppend ns k v) seq timestamp = CListAppend seq ns k v"
| "commitWrite (WListDelete ns k) seq timestamp = CListDelete seq ns k"

text \<open>\<open>writes.map((write, index) => commitWrite(write, firstSeq + index, timestamp))\<close>\<close>

fun commit_writes_from :: "storage_write list \<Rightarrow> int \<Rightarrow> int \<Rightarrow> committed_write list" where
  "commit_writes_from [] seq timestamp = []"
| "commit_writes_from (w # ws) seq timestamp =
     commitWrite w seq timestamp # commit_writes_from ws (seq + 1) timestamp"

definition prepareStorageCommit :: "storage_write list \<Rightarrow> int \<Rightarrow> int \<Rightarrow> prepared_commit" where
  "prepareStorageCommit writes firstSeq timestamp =
     (let committed = commit_writes_from writes firstSeq timestamp
      in \<lparr>pc_writes = committed, pc_firstSeq = firstSeq, pc_seqs = map cw_seq committed,
          pc_timestamp = timestamp\<rparr>)"

text \<open>
  The loop of \<open>validateCommittedWrites\<close>; \<open>ids\<close> and \<open>entryIds\<close> are the two sets the transaction
  collects.
\<close>

fun validate_loop :: "commit_validation_state \<Rightarrow> int \<Rightarrow> jstring set \<Rightarrow> jstring set \<Rightarrow>
    committed_write list \<Rightarrow> js_error + unit" where
  "validate_loop st previousSeq ids entryIds [] = Inr ()"
| "validate_loop st previousSeq ids entryIds (w # ws) =
     (if cw_seq w \<le> previousSeq then Inl (NonMonotonicSeq (cw_seq w))
      else (case w of
        CEntry e \<Rightarrow>
          (if cv_hasEntryOrUsageId st (en_id e) \<or> en_id e \<in> ids then Inl (DuplicateId (en_id e))
           else (case en_parentId e of
             Some p \<Rightarrow>
               (if \<not> cv_hasEntryId st p \<and> p \<notin> entryIds then Inl (MissingParent p)
                else validate_loop st (cw_seq w) (insert (en_id e) ids) (insert (en_id e) entryIds) ws)
           | None \<Rightarrow>
               validate_loop st (cw_seq w) (insert (en_id e) ids) (insert (en_id e) entryIds) ws))
      | CUsage r \<Rightarrow>
          (if cv_hasEntryOrUsageId st (ur_id r) \<or> ur_id r \<in> ids then Inl (DuplicateId (ur_id r))
           else validate_loop st (cw_seq w) (insert (ur_id r) ids) entryIds ws)
      | _ \<Rightarrow> validate_loop st (cw_seq w) ids entryIds ws))"

definition validateCommittedWrites ::
  "committed_write list \<Rightarrow> int \<Rightarrow> commit_validation_state \<Rightarrow> js_error + unit" where
  "validateCommittedWrites writes firstSeq st = validate_loop st (firstSeq - 1) {} {} writes"

section \<open>Sequence numbers\<close>

lemma cw_seq_commitWrite [simp]: "cw_seq (commitWrite w seq ts) = seq"
  by (cases w) (simp_all add: materializeCommittedEntry_def materializeUsageRow_def)

lemma length_commit_writes_from [simp]: "length (commit_writes_from ws seq ts) = length ws"
  by (induction ws seq ts rule: commit_writes_from.induct) auto

lemma commit_writes_from_append:
  "commit_writes_from (xs @ ys) seq ts =
     commit_writes_from xs seq ts @ commit_writes_from ys (seq + int (length xs)) ts"
  by (induction xs seq ts rule: commit_writes_from.induct) (auto simp: algebra_simps)

lemma seqs_commit_writes_from:
  "map cw_seq (commit_writes_from ws seq ts) = map (\<lambda>i. seq + int i) [0..<length ws]"
proof (induction ws seq ts rule: commit_writes_from.induct)
  case (2 w ws seq ts)
  have "[0..<length (w # ws)] = 0 # map Suc [0..<length ws]"
    by (simp add: upt_conv_Cons map_Suc_upt del: upt_Suc)
  with 2 show ?case by (simp add: comp_def)
qed simp

lemma pc_seqs_prepareStorageCommit:
  "pc_seqs (prepareStorageCommit ws firstSeq ts) = map (\<lambda>i. firstSeq + int i) [0..<length ws]"
  by (simp add: prepareStorageCommit_def Let_def seqs_commit_writes_from)

end
