(* ===== verification/StorageState.thy ===== *)
theory StorageState
  imports Commit
begin

text \<open>
  \<open>packages/agent/src/harness/session/in-memory-storage-state.ts\<close>, the materialized session state
  behind the memory and the JSONL storage: its fields, \<open>prepareCommit\<close>, \<open>validateCommitted\<close>,
  \<open>applyValidated\<close>, and the reads. \<open>createFork\<close> is in theory \<open>Fork\<close>. A branch whose parent links
  form a cycle makes the source loop forever, so \<open>scanBranch\<close> is a partial function (\<open>None\<close> is a
  call that does not return).
\<close>

section \<open>State\<close>

record stored_value =
  sv_address :: address
  sv_value :: stored
  sv_seq :: int

record list_element =
  le_seq :: int
  le_value :: stored

record stored_list =
  sl_address :: address
  sl_elements :: "list_element list"

record storage_state =
  sst_entries :: "(jstring, entry) jsmap"
  sst_entriesBySeq :: "entry list"
  sst_scalarValues :: "(jstring, stored_value) jsmap"
  sst_listValues :: "(jstring, stored_list) jsmap"
  sst_usage :: "(jstring, usage_row) jsmap"
  sst_stats :: session_stats
  sst_nextSeq :: int

definition empty_storage :: storage_state where
  "empty_storage = \<lparr>sst_entries = [], sst_entriesBySeq = [], sst_scalarValues = [],
     sst_listValues = [], sst_usage = [],
     sst_stats = \<lparr>ss_messageCount = 0, ss_usage = emptyUsage\<rparr>, sst_nextSeq = 1\<rparr>"

definition physicalKey :: "jstring \<Rightarrow> jstring \<Rightarrow> jstring" where
  "physicalKey namespace key = namespace @ NUL # key"

section \<open>Key order\<close>

text \<open>\<open>Array.from(s, c => c.codePointAt(0))\<close>: surrogate pairs are one code point.\<close>

definition is_high_surrogate :: "16 word \<Rightarrow> bool" where
  "is_high_surrogate u \<longleftrightarrow> 0xD800 \<le> unat u \<and> unat u \<le> 0xDBFF"
definition is_low_surrogate :: "16 word \<Rightarrow> bool" where
  "is_low_surrogate u \<longleftrightarrow> 0xDC00 \<le> unat u \<and> unat u \<le> 0xDFFF"

fun code_points :: "jstring \<Rightarrow> nat list" where
  "code_points [] = []"
| "code_points [u] = [unat u]"
| "code_points (u # v # us) =
     (if is_high_surrogate u \<and> is_low_surrogate v
      then (0x10000 + (unat u - 0xD800) * 0x400 + (unat v - 0xDC00)) # code_points us
      else unat u # code_points (v # us))"

fun compare_code_points :: "nat list \<Rightarrow> nat list \<Rightarrow> int" where
  "compare_code_points (x # xs) (y # ys) =
     (if x \<noteq> y then int x - int y else compare_code_points xs ys)"
| "compare_code_points xs ys = int (length xs) - int (length ys)"

definition compareKeys :: "jstring \<Rightarrow> jstring \<Rightarrow> int" where
  "compareKeys left right = compare_code_points (code_points left) (code_points right)"

section \<open>Commit\<close>

definition validation_view :: "storage_state \<Rightarrow> commit_validation_state" where
  "validation_view s =
     \<lparr>cv_hasEntryOrUsageId = (\<lambda>id. map_has (sst_entries s) id \<or> map_has (sst_usage s) id),
      cv_hasEntryId = (\<lambda>id. map_has (sst_entries s) id)\<rparr>"

definition validateCommitted :: "committed_write list \<Rightarrow> storage_state \<Rightarrow> js_error + unit" where
  "validateCommitted writes s = validateCommittedWrites writes (sst_nextSeq s) (validation_view s)"

definition prepareCommit ::
  "storage_write list \<Rightarrow> int \<Rightarrow> storage_state \<Rightarrow> js_error + prepared_commit" where
  "prepareCommit writes timestamp s =
     (let prepared = prepareStorageCommit writes (sst_nextSeq s) timestamp
      in ebind (validateCommitted (pc_writes prepared) s) (\<lambda>_. Inr prepared))"

definition applyValueSet :: "int \<Rightarrow> jstring \<Rightarrow> jstring \<Rightarrow> stored \<Rightarrow> storage_state \<Rightarrow>
    js_error + storage_state" where
  "applyValueSet seq ns k v s =
     ebind (mkValue ns k) (\<lambda>a.
       Inr (s\<lparr>sst_scalarValues :=
         map_set (physicalKey ns k) \<lparr>sv_address = a, sv_value = v, sv_seq = seq\<rparr>
           (sst_scalarValues s)\<rparr>))"

definition applyListAppend :: "int \<Rightarrow> jstring \<Rightarrow> jstring \<Rightarrow> stored \<Rightarrow> storage_state \<Rightarrow>
    js_error + storage_state" where
  "applyListAppend seq ns k v s =
     (let key = physicalKey ns k;
          element = \<lparr>le_seq = seq, le_value = v\<rparr>
      in case map_get (sst_listValues s) key of
           None \<Rightarrow> ebind (mkList ns k) (\<lambda>a.
             Inr (s\<lparr>sst_listValues :=
               map_set key \<lparr>sl_address = a, sl_elements = [element]\<rparr> (sst_listValues s)\<rparr>))
         | Some l \<Rightarrow>
             Inr (s\<lparr>sst_listValues :=
               map_set key (l\<lparr>sl_elements := sl_elements l @ [element]\<rparr>) (sst_listValues s)\<rparr>))"

text \<open>One iteration of the loop of \<open>applyValidated\<close>; a throw happens before the state is touched.\<close>

fun apply_write :: "committed_write \<Rightarrow> storage_state \<Rightarrow> js_error + storage_state" where
  "apply_write (CEntry e) s =
     Inr (s\<lparr>sst_entries := map_set (en_id e) e (sst_entries s),
            sst_entriesBySeq := sst_entriesBySeq s @ [e],
            sst_stats := (if en_type e = MessageType
              then (sst_stats s)\<lparr>ss_messageCount := ss_messageCount (sst_stats s) + 1\<rparr>
              else sst_stats s),
            sst_nextSeq := en_seq e + 1\<rparr>)"
| "apply_write (CUsage r) s =
     Inr (s\<lparr>sst_usage := map_set (ur_id r) r (sst_usage s),
            sst_stats := (sst_stats s)\<lparr>ss_usage := addUsage (ss_usage (sst_stats s)) (ur_usage r)\<rparr>,
            sst_nextSeq := ur_seq r + 1\<rparr>)"
| "apply_write (CValueSet n ns k v) s =
     ebind (applyValueSet n ns k v s) (\<lambda>s'. Inr (s'\<lparr>sst_nextSeq := n + 1\<rparr>))"
| "apply_write (CValueDelete n ns k) s =
     Inr (s\<lparr>sst_scalarValues := map_delete (physicalKey ns k) (sst_scalarValues s),
            sst_nextSeq := n + 1\<rparr>)"
| "apply_write (CListAppend n ns k v) s =
     ebind (applyListAppend n ns k v s) (\<lambda>s'. Inr (s'\<lparr>sst_nextSeq := n + 1\<rparr>))"
| "apply_write (CListDelete n ns k) s =
     Inr (s\<lparr>sst_listValues := map_delete (physicalKey ns k) (sst_listValues s),
            sst_nextSeq := n + 1\<rparr>)"

text \<open>
  A throw in the middle of the loop leaves the writes before it applied: the result is the state
  the object is left in, and the error or the totals.
\<close>

fun applyValidated :: "committed_write list \<Rightarrow> storage_state \<Rightarrow>
    storage_state \<times> (js_error + session_stats)" where
  "applyValidated [] s = (s, Inr (sst_stats s))"
| "applyValidated (w # ws) s =
     (case apply_write w s of
        Inl e \<Rightarrow> (s, Inl e)
      | Inr s' \<Rightarrow> applyValidated ws s')"

definition advanceNextSeq :: "int \<Rightarrow> storage_state \<Rightarrow> js_error + storage_state" where
  "advanceNextSeq n s =
     (if \<not> is_safe_integer n \<or> n < 1 then Inl (InvalidHighWaterMark n)
      else Inr (s\<lparr>sst_nextSeq := max (sst_nextSeq s) n\<rparr>))"

section \<open>Reads\<close>

definition getEntries :: "jstring list \<Rightarrow> storage_state \<Rightarrow> (jstring, entry) jsmap" where
  "getEntries ids s =
     fold (\<lambda>id found. case map_get (sst_entries s) id of
             None \<Rightarrow> found | Some e \<Rightarrow> map_set id e found) ids []"

definition getValue :: "address \<Rightarrow> storage_state \<Rightarrow> stored_value option" where
  "getValue a s = map_get (sst_scalarValues s) (physicalKey (ad_namespace a) (ad_key a))"

definition scanValues :: "address \<Rightarrow> storage_state \<Rightarrow> stored_value list" where
  "scanValues pre s =
     js_sort (\<lambda>l r. compareKeys (ad_key (sv_address l)) (ad_key (sv_address r)))
       (filter (\<lambda>v. ad_namespace (sv_address v) = ad_namespace pre \<and>
                    prefix (ad_key pre) (ad_key (sv_address v)))
         (map_values (sst_scalarValues s)))"

definition readList :: "address \<Rightarrow> list_read_options option \<Rightarrow> storage_state \<Rightarrow>
    js_error + list_element list" where
  "readList a options s =
     ebind (resolveListReadOptions options) (\<lambda>resolved.
       (let elements =
              (case map_get (sst_listValues s) (physicalKey (ad_namespace a) (ad_key a)) of
                 None \<Rightarrow> [] | Some l \<Rightarrow> sl_elements l);
            filtered = filter (\<lambda>x. case rl_cursor resolved of
                None \<Rightarrow> True
              | Some c \<Rightarrow> (if rl_order resolved = Asc then le_seq x > c else le_seq x < c)) elements;
            ordered = (if rl_order resolved = Asc then filtered else rev filtered)
        in Inr (slice_to (rl_limit resolved) ordered)))"

text \<open>The \<open>while\<close> loop of \<open>scanBranch\<close>: follow the parent links, pushing each entry on \<open>path\<close>.\<close>

partial_function (option) walk_branch ::
  "(jstring \<Rightarrow> entry option) \<Rightarrow> entry list \<Rightarrow> entry \<Rightarrow> (js_error + entry list) option" where
  "walk_branch get path e =
     (case en_parentId e of
        None \<Rightarrow> Some (Inr (path @ [e]))
      | Some p \<Rightarrow>
          (case get p of
             None \<Rightarrow> Some (Inl CorruptBranch)
           | Some e' \<Rightarrow> walk_branch get (path @ [e]) e'))"

definition scan_stops :: "branch_scan \<Rightarrow> entry \<Rightarrow> bool" where
  "scan_stops q e \<longleftrightarrow> Some (en_id e) = bs_stopAtId q \<or> Some (en_type e) = bs_stopAtType q"

definition scan_matches :: "branch_scan \<Rightarrow> entry \<Rightarrow> bool" where
  "scan_matches q e \<longleftrightarrow>
     (bs_type q = None \<or> Some (en_type e) = bs_type q) \<and>
     (bs_customType q = None \<or> en_customType e = bs_customType q) \<and>
     (case bs_cursor q of
        None \<Rightarrow> True
      | Some c \<Rightarrow> (if bs_order q = Some OldestFirst then en_seq e > c else en_seq e < c))"

definition select_branch :: "branch_scan \<Rightarrow> entry list \<Rightarrow> entry list" where
  "select_branch q newest_first =
     (let path = (if bs_order q = Some OldestFirst then rev newest_first else newest_first);
          stopped = take_until (scan_stops q) path;
          filtered = filter (scan_matches q) stopped
      in case bs_limit q of None \<Rightarrow> filtered | Some n \<Rightarrow> slice_to (max 0 n) filtered)"

definition scanBranch :: "branch_scan \<Rightarrow> storage_state \<Rightarrow> (js_error + entry list) option" where
  "scanBranch q s =
     (case map_get (sst_entries s) (bs_start q) of
        None \<Rightarrow> Some (Inl (UnknownBranchStart (bs_start q)))
      | Some start \<Rightarrow>
          map_option (map_sum id (select_branch q))
            (walk_branch (map_get (sst_entries s)) [] start))"

definition structure_of :: "entry \<Rightarrow> entry_structure" where
  "structure_of e = \<lparr>et_id = en_id e, et_parentId = en_parentId e, et_seq = en_seq e,
     et_timestamp = en_timestamp e, et_type = en_type e, et_customType = en_customType e\<rparr>"

definition scanBranchStructure :: "branch_scan \<Rightarrow> storage_state \<Rightarrow>
    (js_error + entry_structure list) option" where
  "scanBranchStructure q s = map_option (map_sum id (map structure_of)) (scanBranch q s)"

text \<open>The \<open>while\<close> loop of \<open>scanEntries\<close>, over the entries in the order it visits them.\<close>

fun scan_entries_loop :: "(entry \<Rightarrow> bool) \<Rightarrow> int option \<Rightarrow> entry list \<Rightarrow> entry list \<Rightarrow> entry list" where
  "scan_entries_loop matches limit [] acc = acc"
| "scan_entries_loop matches limit (e # es) acc =
     (if (case limit of None \<Rightarrow> True | Some n \<Rightarrow> int (length acc) < n)
      then scan_entries_loop matches limit es (if matches e then acc @ [e] else acc)
      else acc)"

definition entry_matches :: "entry_scan \<Rightarrow> entry \<Rightarrow> bool" where
  "entry_matches q e \<longleftrightarrow>
     (es_type q = None \<or> Some (en_type e) = es_type q) \<and>
     (es_customType q = None \<or> en_customType e = es_customType q) \<and>
     (case es_fromSeq q of None \<Rightarrow> True | Some n \<Rightarrow> en_seq e \<ge> n) \<and>
     (case es_toSeq q of None \<Rightarrow> True | Some n \<Rightarrow> en_seq e \<le> n)"

definition scanEntries :: "entry_scan \<Rightarrow> storage_state \<Rightarrow> entry list" where
  "scanEntries q s =
     scan_entries_loop (entry_matches q) (map_option (max 0) (es_limit q))
       (if es_order q = Some Desc then rev (sst_entriesBySeq s) else sst_entriesBySeq s) []"

definition scanUsage :: "usage_scan \<Rightarrow> storage_state \<Rightarrow> usage_row list" where
  "scanUsage q s =
     (let rows = js_sort (\<lambda>l r. if uq_order q = Some Desc then ur_seq r - ur_seq l
                                else ur_seq l - ur_seq r)
           (filter (\<lambda>r. case uq_toSeq q of None \<Rightarrow> True | Some n \<Rightarrow> ur_seq r \<le> n)
             (filter (\<lambda>r. case uq_fromSeq q of None \<Rightarrow> True | Some n \<Rightarrow> ur_seq r \<ge> n)
               (map_values (sst_usage s))))
      in case uq_limit q of None \<Rightarrow> rows | Some n \<Rightarrow> slice_to (max 0 n) rows)"

definition getStats :: "storage_state \<Rightarrow> session_stats" where
  "getStats s = sst_stats s"

end
