(* ===== verification/KeyOrder.thy ===== *)
theory KeyOrder
  imports StorageState
begin

text \<open>
  The order \<open>compareKeys\<close> puts stored keys in, and what it gives the scans: decoding UTF-16 code
  units to code points loses nothing, so the order is total and tells any two keys apart, and a
  scan's result does not depend on the order in which the keys were first written.
\<close>

section \<open>Code points\<close>

definition encode_point :: "nat \<Rightarrow> jstring" where
  "encode_point n =
     (if n < 0x10000 then [of_nat n]
      else [of_nat (0xD800 + (n - 0x10000) div 0x400), of_nat (0xDC00 + (n - 0x10000) mod 0x400)])"

lemma unat_word16_less: "unat (u :: 16 word) < 65536"
  by (rule less_le_trans[OF unsigned_less]) simp

lemma encode_point_single: "encode_point (unat u) = [u]"
  using unat_word16_less[of u] by (simp add: encode_point_def)

lemma encode_point_pair:
  assumes "is_high_surrogate u" and "is_low_surrogate v"
  shows "encode_point (0x10000 + (unat u - 0xD800) * 0x400 + (unat v - 0xDC00)) = [u, v]"
proof -
  let ?h = "unat u - 0xD800" and ?l = "unat v - 0xDC00"
  have l: "?l < 0x400" using assms(2) by (auto simp: is_low_surrogate_def)
  have "(?h * 0x400 + ?l) div 0x400 = ?h" "(?h * 0x400 + ?l) mod 0x400 = ?l" using l by simp_all
  moreover have "0xD800 + ?h = unat u" "0xDC00 + ?l = unat v"
    using assms by (auto simp: is_high_surrogate_def is_low_surrogate_def)
  ultimately show ?thesis by (simp add: encode_point_def add.assoc)
qed

lemma encode_code_points: "concat (map encode_point (code_points s)) = s"
proof (induction s rule: code_points.induct)
  case (3 u v us)
  then show ?case by (auto simp: encode_point_single encode_point_pair simp del: of_nat_add)
qed (simp_all add: encode_point_single)

lemma code_points_inj: "code_points s = code_points t \<Longrightarrow> s = t"
  by (metis encode_code_points)

section \<open>The comparator\<close>

lemma compare_code_points_refl [simp]: "compare_code_points xs xs = 0"
  by (induction xs) auto

lemma compare_code_points_antisym:
  "compare_code_points xs ys \<le> 0 \<Longrightarrow> compare_code_points ys xs \<le> 0 \<Longrightarrow> xs = ys"
  by (induction xs ys rule: compare_code_points.induct) (auto split: if_splits)

lemma compare_code_points_flip: "compare_code_points ys xs = - compare_code_points xs ys"
  by (induction xs ys rule: compare_code_points.induct) auto

lemma compare_code_points_trans:
  "compare_code_points xs ys \<le> 0 \<Longrightarrow> compare_code_points ys zs \<le> 0 \<Longrightarrow>
   compare_code_points xs zs \<le> 0"
proof (induction xs arbitrary: ys zs)
  case Nil
  then show ?case by (cases ys; cases zs) auto
next
  case (Cons x xs)
  then show ?case by (cases ys; cases zs) (auto split: if_splits)
qed

interpretation key_order: strict_comparator compareKeys
proof
  show "compareKeys x y \<le> 0 \<or> compareKeys y x \<le> 0" for x y
    using compare_code_points_flip[of "code_points x" "code_points y"]
    by (auto simp: compareKeys_def)
  show "compareKeys x z \<le> 0" if "compareKeys x y \<le> 0" "compareKeys y z \<le> 0" for x y z
    using that compare_code_points_trans by (auto simp: compareKeys_def)
  show "x = y" if "compareKeys x y \<le> 0" "compareKeys y x \<le> 0" for x y
    using that compare_code_points_antisym code_points_inj by (auto simp: compareKeys_def)
qed

interpretation stored_order:
  comparator "\<lambda>l r. compareKeys (ad_key (sv_address l)) (ad_key (sv_address r))"
  by unfold_locales (use key_order.cmp_total in blast, use key_order.cmp_trans in blast)

interpretation usage_asc: comparator "\<lambda>l r. ur_seq l - ur_seq r"
  by unfold_locales auto

interpretation usage_desc: comparator "\<lambda>l r. ur_seq r - ur_seq l"
  by unfold_locales auto

section \<open>Physical keys\<close>

lemma physicalKey_inj:
  assumes "\<not> has_nul ns" "\<not> has_nul ns'"
  shows "physicalKey ns k = physicalKey ns' k' \<longleftrightarrow> ns = ns' \<and> k = k'"
  using nul_split_unique[OF assms] by (auto simp: physicalKey_def)

end
