(* ===== verification/StorageInvariant.thy ===== *)
theory StorageInvariant
  imports KeyOrder
begin

text \<open>
  The invariant of \<open>InMemoryStorageState\<close> and its preservation by every write a commit accepts: the
  entry index and the sequence-ordered list agree, ids are unique across entries and usage rows,
  every parent is an earlier entry, values and lists sit under the physical key of their own
  address, sequence numbers stay below the next one, and the totals are those of the rows.
\<close>

section \<open>The invariant\<close>

text \<open>A conversation tree in commit order.\<close>

definition parents_earlier :: "entry list \<Rightarrow> bool" where
  "parents_earlier es \<longleftrightarrow>
     (\<forall>e \<in> set es. \<forall>p. en_parentId e = Some p \<longrightarrow>
        (\<exists>e' \<in> set es. en_id e' = p \<and> en_seq e' < en_seq e))"

definition entry_tree :: "entry list \<Rightarrow> bool" where
  "entry_tree es \<longleftrightarrow> distinct (map en_id es) \<and> sorted_wrt (<) (map en_seq es) \<and> parents_earlier es"

definition entries_wf :: "storage_state \<Rightarrow> bool" where
  "entries_wf s \<longleftrightarrow>
     sst_entries s = map (\<lambda>e. (en_id e, e)) (sst_entriesBySeq s) \<and>
     entry_tree (sst_entriesBySeq s) \<and>
     (\<forall>e \<in> set (sst_entriesBySeq s). 1 \<le> en_seq e \<and> en_seq e < sst_nextSeq s)"

definition usage_wf :: "storage_state \<Rightarrow> bool" where
  "usage_wf s \<longleftrightarrow>
     sst_usage s = map (\<lambda>r. (ur_id r, r)) (map_values (sst_usage s)) \<and>
     distinct (map ur_id (map_values (sst_usage s))) \<and>
     sorted_wrt (<) (map ur_seq (map_values (sst_usage s))) \<and>
     (\<forall>r \<in> set (map_values (sst_usage s)).
        1 \<le> ur_seq r \<and> ur_seq r < sst_nextSeq s \<and> \<not> map_has (sst_entries s) (ur_id r))"

definition scalar_wf :: "int \<Rightarrow> jstring \<Rightarrow> stored_value \<Rightarrow> bool" where
  "scalar_wf n k v \<longleftrightarrow>
     mkValue (ad_namespace (sv_address v)) (ad_key (sv_address v)) = Inr (sv_address v) \<and>
     k = physicalKey (ad_namespace (sv_address v)) (ad_key (sv_address v)) \<and> sv_seq v < n"

definition scalars_wf :: "storage_state \<Rightarrow> bool" where
  "scalars_wf s \<longleftrightarrow> distinct (map fst (sst_scalarValues s)) \<and>
     (\<forall>(k, v) \<in> set (sst_scalarValues s). scalar_wf (sst_nextSeq s) k v)"

definition list_wf :: "int \<Rightarrow> jstring \<Rightarrow> stored_list \<Rightarrow> bool" where
  "list_wf n k l \<longleftrightarrow>
     mkList (ad_namespace (sl_address l)) (ad_key (sl_address l)) = Inr (sl_address l) \<and>
     k = physicalKey (ad_namespace (sl_address l)) (ad_key (sl_address l)) \<and>
     sl_elements l \<noteq> [] \<and>
     sorted_wrt (<) (map le_seq (sl_elements l)) \<and> (\<forall>x \<in> set (sl_elements l). le_seq x < n)"

definition lists_wf :: "storage_state \<Rightarrow> bool" where
  "lists_wf s \<longleftrightarrow> distinct (map fst (sst_listValues s)) \<and>
     (\<forall>(k, l) \<in> set (sst_listValues s). list_wf (sst_nextSeq s) k l)"

definition message_count :: "entry list \<Rightarrow> int" where
  "message_count es = int (length (filter (\<lambda>e. en_type e = MessageType) es))"

definition usage_total :: "usage_row list \<Rightarrow> usage" where
  "usage_total rows = foldl (\<lambda>t r. addUsage t (ur_usage r)) emptyUsage rows"

definition stats_wf :: "storage_state \<Rightarrow> bool" where
  "stats_wf s \<longleftrightarrow>
     ss_messageCount (sst_stats s) = message_count (sst_entriesBySeq s) \<and>
     ss_usage (sst_stats s) = usage_total (map_values (sst_usage s))"

definition storage_inv :: "storage_state \<Rightarrow> bool" where
  "storage_inv s \<longleftrightarrow> entries_wf s \<and> usage_wf s \<and> scalars_wf s \<and> lists_wf s \<and> stats_wf s \<and>
     1 \<le> sst_nextSeq s"

lemma storage_inv_empty: "storage_inv empty_storage"
  by (simp add: storage_inv_def empty_storage_def entries_wf_def usage_wf_def scalars_wf_def
      lists_wf_def stats_wf_def entry_tree_def parents_earlier_def map_values_def
      message_count_def usage_total_def)

section \<open>Lookups in a well-formed state\<close>

lemma map_set_fresh: "k \<notin> fst ` set m \<Longrightarrow> map_set k v m = m @ [(k, v)]"
  by (induction m) auto

lemma map_of_key_map:
  "distinct (map f xs) \<Longrightarrow> map_of (map (\<lambda>x. (f x, x)) xs) k = Some x \<longleftrightarrow> x \<in> set xs \<and> f x = k"
  by (induction xs) (auto simp: image_iff)

lemma map_has_key_map: "map_has (map (\<lambda>x. (f x, x)) xs) k \<longleftrightarrow> k \<in> f ` set xs"
  by (force simp: map_has_iff_mem image_iff)

lemma entries_lookup:
  assumes "entries_wf s"
  shows "map_get (sst_entries s) i = Some e \<longleftrightarrow> e \<in> set (sst_entriesBySeq s) \<and> en_id e = i"
  using assms by (simp add: entries_wf_def entry_tree_def map_of_key_map)

lemma entries_has:
  assumes "entries_wf s"
  shows "map_has (sst_entries s) i \<longleftrightarrow> i \<in> en_id ` set (sst_entriesBySeq s)"
  using assms by (simp add: entries_wf_def map_has_key_map)

lemma usage_has:
  assumes "usage_wf s"
  shows "map_has (sst_usage s) i \<longleftrightarrow> i \<in> ur_id ` set (map_values (sst_usage s))"
proof -
  from assms have eq: "sst_usage s = map (\<lambda>r. (ur_id r, r)) (map_values (sst_usage s))"
    by (simp only: usage_wf_def)
  show ?thesis by (subst eq) (rule map_has_key_map)
qed

section \<open>Accepted writes\<close>

fun write_ok :: "storage_state \<Rightarrow> committed_write \<Rightarrow> bool" where
  "write_ok s (CEntry e) \<longleftrightarrow> sst_nextSeq s \<le> en_seq e \<and> \<not> map_has (sst_entries s) (en_id e) \<and>
     \<not> map_has (sst_usage s) (en_id e) \<and>
     (\<forall>p. en_parentId e = Some p \<longrightarrow> map_has (sst_entries s) p)"
| "write_ok s (CUsage r) \<longleftrightarrow> sst_nextSeq s \<le> ur_seq r \<and> \<not> map_has (sst_entries s) (ur_id r) \<and>
     \<not> map_has (sst_usage s) (ur_id r)"
| "write_ok s w \<longleftrightarrow> sst_nextSeq s \<le> cw_seq w"

lemma write_ok_seq: "write_ok s w \<Longrightarrow> sst_nextSeq s \<le> cw_seq w"
  by (cases w) auto

lemma apply_write_nextSeq: "apply_write w s = Inr s' \<Longrightarrow> sst_nextSeq s' = cw_seq w + 1"
  by (cases w) auto

lemma applyValueSet_fields [frame_simps]:
  assumes "applyValueSet n ns k v s = Inr s'"
  shows "sst_entries s' = sst_entries s" "sst_entriesBySeq s' = sst_entriesBySeq s"
    "sst_usage s' = sst_usage s" "sst_stats s' = sst_stats s"
    "sst_listValues s' = sst_listValues s" "sst_nextSeq s' = sst_nextSeq s"
  using assms by (auto simp: applyValueSet_def)

lemma applyListAppend_fields [frame_simps]:
  assumes "applyListAppend n ns k v s = Inr s'"
  shows "sst_entries s' = sst_entries s" "sst_entriesBySeq s' = sst_entriesBySeq s"
    "sst_usage s' = sst_usage s" "sst_stats s' = sst_stats s"
    "sst_scalarValues s' = sst_scalarValues s" "sst_nextSeq s' = sst_nextSeq s"
  using assms by (auto simp: applyListAppend_def Let_def split: option.splits)

lemma scalar_wf_mono: "scalar_wf n k v \<Longrightarrow> n \<le> n' \<Longrightarrow> scalar_wf n' k v"
  by (auto simp: scalar_wf_def)

lemma list_wf_mono: "list_wf n k l \<Longrightarrow> n \<le> n' \<Longrightarrow> list_wf n' k l"
  by (fastforce simp: list_wf_def)

lemma set_update_subset: "set (AList.update k v m) \<subseteq> insert (k, v) (set m)"
  by (induction m) auto

subsection \<open>One write keeps each part\<close>

lemma parents_earlier_snoc:
  assumes "parents_earlier es" "\<forall>x \<in> set es. en_seq x < en_seq e"
    and "\<forall>p. en_parentId e = Some p \<longrightarrow> p \<in> en_id ` set es"
  shows "parents_earlier (es @ [e])"
  using assms unfolding parents_earlier_def by (fastforce simp: image_iff)

lemma entries_wf_add:
  assumes "entries_wf s" "write_ok s (CEntry e)" "1 \<le> sst_nextSeq s"
    and "apply_write (CEntry e) s = Inr s'"
  shows "entries_wf s'"
proof -
  have fresh: "en_id e \<notin> en_id ` set (sst_entriesBySeq s)"
    using assms(1,2) by (simp add: entries_has)
  have below: "\<forall>x \<in> set (sst_entriesBySeq s). en_seq x < en_seq e"
    using assms(1,2) by (fastforce simp: entries_wf_def)
  have par: "\<forall>p. en_parentId e = Some p \<longrightarrow> p \<in> en_id ` set (sst_entriesBySeq s)"
    using assms(1,2) by (simp add: entries_has)
  have set: "map_set (en_id e) e (sst_entries s) = sst_entries s @ [(en_id e, e)]"
    using fresh assms(1) by (intro map_set_fresh) (auto simp: entries_wf_def)
  have tree: "entry_tree (sst_entriesBySeq s @ [e])"
    using assms(1) fresh below parents_earlier_snoc[OF _ below par]
    by (auto simp: entries_wf_def entry_tree_def sorted_wrt_append)
  show ?thesis
    using assms set tree below by (fastforce simp: entries_wf_def)
qed

lemma entries_wf_frame:
  assumes "entries_wf s" "sst_entries s' = sst_entries s"
    "sst_entriesBySeq s' = sst_entriesBySeq s" "sst_nextSeq s \<le> sst_nextSeq s'"
  shows "entries_wf s'"
  using assms by (fastforce simp: entries_wf_def)

lemma usage_wf_add:
  assumes "usage_wf s" "write_ok s (CUsage r)" "1 \<le> sst_nextSeq s"
    and "apply_write (CUsage r) s = Inr s'"
  shows "usage_wf s' \<and> map_values (sst_usage s') = map_values (sst_usage s) @ [r]"
proof -
  have fresh: "ur_id r \<notin> ur_id ` set (map_values (sst_usage s))"
    using assms(1,2) by (simp add: usage_has)
  have below: "\<forall>x \<in> set (map_values (sst_usage s)). ur_seq x < ur_seq r"
    using assms(1,2) by (fastforce simp: usage_wf_def)
  have keys: "fst ` set (sst_usage s) = ur_id ` set (map_values (sst_usage s))"
    using assms(1) unfolding usage_wf_def by (metis (no_types, lifting) image_image image_cong fst_conv
        list.set_map)
  have set: "map_set (ur_id r) r (sst_usage s) = sst_usage s @ [(ur_id r, r)]"
    using fresh keys by (intro map_set_fresh) simp
  have eq: "sst_usage s' = sst_usage s @ [(ur_id r, r)]" "sst_entries s' = sst_entries s"
    "sst_nextSeq s' = ur_seq r + 1"
    using assms(4) set by auto
  have vals: "map_values (sst_usage s') = map_values (sst_usage s) @ [r]"
    by (simp add: eq map_values_def)
  have "sst_usage s' = map (\<lambda>r. (ur_id r, r)) (map_values (sst_usage s'))"
    using assms(1) by (subst eq(1), subst usage_wf_def[THEN iffD1, THEN conjunct1, OF assms(1)])
      (simp add: vals)
  moreover have "distinct (map ur_id (map_values (sst_usage s')))"
    using assms(1) fresh by (simp add: vals usage_wf_def)
  moreover have "sorted_wrt (<) (map ur_seq (map_values (sst_usage s')))"
    using assms(1) below by (simp add: vals usage_wf_def sorted_wrt_append)
  moreover have old: "\<forall>x \<in> set (map_values (sst_usage s)).
      1 \<le> ur_seq x \<and> ur_seq x < sst_nextSeq s \<and> \<not> map_has (sst_entries s) (ur_id x)"
    using assms(1) unfolding usage_wf_def by blast
  moreover have "\<forall>x \<in> set (map_values (sst_usage s')).
      1 \<le> ur_seq x \<and> ur_seq x < sst_nextSeq s' \<and> \<not> map_has (sst_entries s') (ur_id x)"
    using assms(2,3) below old by (auto simp: vals eq(2,3))
  ultimately show ?thesis using vals by (simp add: usage_wf_def)
qed

lemma usage_wf_frame:
  assumes "usage_wf s" "sst_usage s' = sst_usage s" "sst_nextSeq s \<le> sst_nextSeq s'"
    "\<forall>r \<in> set (map_values (sst_usage s)). \<not> map_has (sst_entries s') (ur_id r)"
  shows "usage_wf s'"
  using assms by (fastforce simp: usage_wf_def)

lemma scalars_wf_frame:
  assumes "scalars_wf s" "sst_scalarValues s' = sst_scalarValues s" "sst_nextSeq s \<le> sst_nextSeq s'"
  shows "scalars_wf s'"
  using assms by (auto simp: scalars_wf_def intro: scalar_wf_mono)

lemma lists_wf_frame:
  assumes "lists_wf s" "sst_listValues s' = sst_listValues s" "sst_nextSeq s \<le> sst_nextSeq s'"
  shows "lists_wf s'"
  using assms by (auto simp: lists_wf_def intro: list_wf_mono)

lemma scalars_wf_set:
  assumes "scalars_wf s" "sst_nextSeq s \<le> n" "applyValueSet n ns k v s = Inr s1"
  shows "scalars_wf (s1\<lparr>sst_nextSeq := n + 1\<rparr>)"
proof -
  obtain a where a: "mkValue ns k = Inr a" and s1: "s1 = s\<lparr>sst_scalarValues :=
      map_set (physicalKey ns k) \<lparr>sv_address = a, sv_value = v, sv_seq = n\<rparr> (sst_scalarValues s)\<rparr>"
    using assms(3) by (auto simp: applyValueSet_def)
  have new: "scalar_wf (n + 1) (physicalKey ns k) \<lparr>sv_address = a, sv_value = v, sv_seq = n\<rparr>"
    using a by (auto simp: scalar_wf_def mkValue_eq_Inr)
  have old: "\<forall>(k, v) \<in> set (sst_scalarValues s). scalar_wf (n + 1) k v"
    using assms(1,2) by (auto simp: scalars_wf_def intro: scalar_wf_mono)
  show ?thesis
    using assms(1) new old set_update_subset[of "physicalKey ns k" _ "sst_scalarValues s"]
    by (auto simp: scalars_wf_def s1 distinct_update dest!: subsetD)
qed

lemma scalars_wf_delete:
  assumes "scalars_wf s" "sst_nextSeq s \<le> n"
  shows "scalars_wf (s\<lparr>sst_scalarValues := map_delete k (sst_scalarValues s), sst_nextSeq := n + 1\<rparr>)"
  using assms by (auto simp: scalars_wf_def distinct_map_filter AList.delete_eq intro: scalar_wf_mono)

lemma lists_wf_append:
  assumes "lists_wf s" "sst_nextSeq s \<le> n" "applyListAppend n ns k v s = Inr s1"
  shows "lists_wf (s1\<lparr>sst_nextSeq := n + 1\<rparr>)"
proof -
  let ?key = "physicalKey ns k" and ?x = "\<lparr>le_seq = n, le_value = v\<rparr>"
  have old: "\<forall>(k, l) \<in> set (sst_listValues s). list_wf (n + 1) k l"
    using assms(1,2) by (auto simp: lists_wf_def intro: list_wf_mono)
  obtain l where s1: "s1 = s\<lparr>sst_listValues := map_set ?key l (sst_listValues s)\<rparr>"
    and l: "list_wf (n + 1) ?key l"
  proof (cases "map_get (sst_listValues s) ?key")
    case None
    then obtain a where "mkList ns k = Inr a"
      "s1 = s\<lparr>sst_listValues := map_set ?key \<lparr>sl_address = a, sl_elements = [?x]\<rparr> (sst_listValues s)\<rparr>"
      using assms(3) by (auto simp: applyListAppend_def Let_def)
    then show thesis by (intro that) (auto simp: list_wf_def mkList_eq_Inr)
  next
    case (Some l0)
    then have "list_wf (sst_nextSeq s) ?key l0"
      using assms(1) by (auto simp: lists_wf_def dest: map_of_SomeD)
    then have "list_wf (n + 1) ?key (l0\<lparr>sl_elements := sl_elements l0 @ [?x]\<rparr>)"
      using assms(2) by (fastforce simp: list_wf_def sorted_wrt_append)
    moreover have "s1 = s\<lparr>sst_listValues :=
        map_set ?key (l0\<lparr>sl_elements := sl_elements l0 @ [?x]\<rparr>) (sst_listValues s)\<rparr>"
      using assms(3) Some by (auto simp: applyListAppend_def Let_def)
    ultimately show thesis by (intro that)
  qed
  show ?thesis
    using assms(1) l old set_update_subset[of ?key l "sst_listValues s"]
    by (auto simp: lists_wf_def s1 distinct_update dest!: subsetD)
qed

lemma lists_wf_delete:
  assumes "lists_wf s" "sst_nextSeq s \<le> n"
  shows "lists_wf (s\<lparr>sst_listValues := map_delete k (sst_listValues s), sst_nextSeq := n + 1\<rparr>)"
  using assms by (auto simp: lists_wf_def distinct_map_filter AList.delete_eq intro: list_wf_mono)

end
