(* ===== verification/StorageCommit.thy ===== *)
theory StorageCommit
  imports StorageInvariant
begin

text \<open>
  A commit against the materialized state, as \<open>MemoryStorage.commit\<close> runs it: number the writes,
  validate them, apply them. What is shown: validation is exactly what the invariant needs, a
  rejected commit changes nothing, an accepted one keeps the invariant, numbers its writes
  consecutively and refines the abstract store in which each write updates one slot.
\<close>

section \<open>The commit job\<close>

definition commitStorage :: "storage_write list \<Rightarrow> int \<Rightarrow> storage_state \<Rightarrow>
    storage_state \<times> (js_error + commit_result)" where
  "commitStorage writes now s =
     (case prepareCommit writes now s of
        Inl e \<Rightarrow> (s, Inl e)
      | Inr p \<Rightarrow>
          (case applyValidated (pc_writes p) s of
             (s', Inl e) \<Rightarrow> (s', Inl e)
           | (s', Inr stats) \<Rightarrow>
               (s', Inr \<lparr>cr_firstSeq = pc_firstSeq p, cr_seqs = pc_seqs p,
                  cr_timestamp = pc_timestamp p, cr_stats = stats\<rparr>)))"

section \<open>Validation is what the invariant needs\<close>

fun writes_ok :: "storage_state \<Rightarrow> committed_write list \<Rightarrow> bool" where
  "writes_ok s [] \<longleftrightarrow> True"
| "writes_ok s (w # ws) \<longleftrightarrow> write_ok s w \<and>
     (case apply_write w s of Inl e \<Rightarrow> True | Inr s' \<Rightarrow> writes_ok s' ws)"

text \<open>The sets the validation loop carries describe the ids added since the loop began.\<close>

definition loop_view :: "commit_validation_state \<Rightarrow> jstring set \<Rightarrow> jstring set \<Rightarrow> storage_state \<Rightarrow> bool" where
  "loop_view st ids entryIds s \<longleftrightarrow>
     (\<forall>i. map_has (sst_entries s) i \<or> map_has (sst_usage s) i \<longleftrightarrow>
            cv_hasEntryOrUsageId st i \<or> i \<in> ids) \<and>
     (\<forall>i. map_has (sst_entries s) i \<longleftrightarrow> cv_hasEntryId st i \<or> i \<in> entryIds)"

lemma loop_view_start: "loop_view (validation_view s) {} {} s"
  by (simp add: loop_view_def validation_view_def)

lemma apply_write_ids:
  assumes "apply_write w s = Inr s'"
  shows "map_has (sst_entries s') i \<longleftrightarrow> (case w of CEntry e \<Rightarrow> i = en_id e | _ \<Rightarrow> False) \<or> map_has (sst_entries s) i"
    "map_has (sst_usage s') i \<longleftrightarrow> (case w of CUsage r \<Rightarrow> i = ur_id r | _ \<Rightarrow> False) \<or> map_has (sst_usage s) i"
  using assms by (cases w; force simp: applyValueSet_def applyListAppend_def Let_def split: option.splits)+

lemma loop_view_apply:
  assumes "loop_view st ids entryIds s" "apply_write w s = Inr s'"
  shows "loop_view st (case w of CEntry e \<Rightarrow> insert (en_id e) ids | CUsage r \<Rightarrow> insert (ur_id r) ids | _ \<Rightarrow> ids)
           (case w of CEntry e \<Rightarrow> insert (en_id e) entryIds | _ \<Rightarrow> entryIds) s'"
  using assms(1) by (cases w) (auto simp: loop_view_def apply_write_ids[OF assms(2)])

lemma validate_loop_writes_ok:
  assumes "validate_loop st prev ids entryIds ws = Inr ()" "loop_view st ids entryIds s"
    "sst_nextSeq s = prev + 1"
  shows "writes_ok s ws"
  using assms
proof (induction ws arbitrary: prev ids entryIds s)
  case (Cons w ws)
  have view: "\<And>i. map_has (sst_entries s) i \<or> map_has (sst_usage s) i \<longleftrightarrow>
      cv_hasEntryOrUsageId st i \<or> i \<in> ids"
    "\<And>i. map_has (sst_entries s) i \<longleftrightarrow> cv_hasEntryId st i \<or> i \<in> entryIds"
    using Cons.prems(2) by (auto simp: loop_view_def)
  have ok: "write_ok s w"
    using Cons.prems(1,3) view by (cases w) (auto split: if_splits option.splits)
  have "writes_ok s' ws" if s': "apply_write w s = Inr s'" for s'
  proof (rule Cons.IH)
    show "loop_view st (case w of CEntry e \<Rightarrow> insert (en_id e) ids | CUsage r \<Rightarrow> insert (ur_id r) ids | _ \<Rightarrow> ids)
           (case w of CEntry e \<Rightarrow> insert (en_id e) entryIds | _ \<Rightarrow> entryIds) s'"
      by (rule loop_view_apply[OF Cons.prems(2) s'])
    show "validate_loop st (cw_seq w)
       (case w of CEntry e \<Rightarrow> insert (en_id e) ids | CUsage r \<Rightarrow> insert (ur_id r) ids | _ \<Rightarrow> ids)
       (case w of CEntry e \<Rightarrow> insert (en_id e) entryIds | _ \<Rightarrow> entryIds) ws = Inr ()"
      using Cons.prems(1) by (cases w) (auto split: if_splits option.splits)
    show "sst_nextSeq s' = cw_seq w + 1"
      by (rule apply_write_nextSeq[OF s'])
  qed
  with ok show ?case by (simp split: sum.splits)
qed simp

lemma validateCommitted_writes_ok:
  assumes "validateCommitted ws s = Inr ()"
  shows "writes_ok s ws"
proof (rule validate_loop_writes_ok[OF _ loop_view_start])
  show "validate_loop (validation_view s) (sst_nextSeq s - 1) {} {} ws = Inr ()"
    using assms by (simp add: validateCommitted_def validateCommittedWrites_def)
  show "sst_nextSeq s = sst_nextSeq s - 1 + 1" by linarith
qed

section \<open>Applying accepted writes keeps the invariant\<close>

lemma message_count_snoc: "message_count (es @ [e]) =
    message_count es + (if en_type e = MessageType then 1 else 0)"
  by (simp add: message_count_def)

lemma usage_total_snoc: "usage_total (rs @ [r]) = addUsage (usage_total rs) (ur_usage r)"
  by (simp add: usage_total_def)

lemma apply_write_inv:
  assumes inv: "storage_inv s" and ok: "write_ok s w" and ap: "apply_write w s = Inr s'"
  shows "storage_inv s'"
proof -
  have wf: "entries_wf s" "usage_wf s" "scalars_wf s" "lists_wf s" "stats_wf s" "1 \<le> sst_nextSeq s"
    using inv by (simp_all add: storage_inv_def)
  have next': "sst_nextSeq s' = cw_seq w + 1" by (rule apply_write_nextSeq[OF ap])
  have le: "sst_nextSeq s \<le> sst_nextSeq s'" using write_ok_seq[OF ok] next' by simp
  have disjoint: "\<forall>r \<in> set (map_values (sst_usage s)). \<not> map_has (sst_entries s) (ur_id r)"
    using wf(2) unfolding usage_wf_def by blast
  have other: "storage_inv s'"
    if "sst_entries s' = sst_entries s" "sst_entriesBySeq s' = sst_entriesBySeq s"
      "sst_usage s' = sst_usage s" "sst_stats s' = sst_stats s" "scalars_wf s'" "lists_wf s'"
    using that wf le entries_wf_frame[OF wf(1) that(1,2) le] usage_wf_frame[OF wf(2) that(3) le]
      disjoint
    by (simp add: storage_inv_def stats_wf_def)
  show ?thesis
  proof (cases w)
    case (CEntry e)
    have ent: "entries_wf s'" using entries_wf_add[OF wf(1)] ok ap wf(6) CEntry by blast
    have "\<forall>r \<in> set (map_values (sst_usage s)). \<not> map_has (sst_entries s') (ur_id r)"
      using disjoint ok ap CEntry usage_has[OF wf(2)] by (force simp: image_iff)
    moreover have "sst_usage s' = sst_usage s" using ap CEntry by auto
    ultimately have usg: "usage_wf s'" using usage_wf_frame[OF wf(2) _ le] by blast
    have "stats_wf s'" using wf(5) ap CEntry by (auto simp: stats_wf_def message_count_snoc)
    moreover have "scalars_wf s'" "lists_wf s'"
      using scalars_wf_frame[OF wf(3) _ le] lists_wf_frame[OF wf(4) _ le] ap CEntry by auto
    ultimately show ?thesis using ent usg wf(6) le by (simp add: storage_inv_def)
  next
    case (CUsage r)
    have usg: "usage_wf s'" "map_values (sst_usage s') = map_values (sst_usage s) @ [r]"
      using usage_wf_add[OF wf(2)] ok ap wf(6) CUsage by blast+
    have "entries_wf s'" using entries_wf_frame[OF wf(1) _ _ le] ap CUsage by auto
    moreover have "stats_wf s'"
      using wf(5) usg(2) ap CUsage by (auto simp: stats_wf_def usage_total_snoc)
    moreover have "scalars_wf s'" "lists_wf s'"
      using scalars_wf_frame[OF wf(3) _ le] lists_wf_frame[OF wf(4) _ le] ap CUsage by auto
    ultimately show ?thesis using usg wf(6) le by (simp add: storage_inv_def)
  next
    case (CValueSet n ns k v)
    then obtain s1 where s1: "applyValueSet n ns k v s = Inr s1" "s' = s1\<lparr>sst_nextSeq := n + 1\<rparr>"
      using ap by auto
    show ?thesis
      using s1 ok CValueSet scalars_wf_set[OF wf(3) _ s1(1)] lists_wf_frame[OF wf(4) _ le]
      by (intro other) (auto simp: applyValueSet_fields[OF s1(1)])
  next
    case (CValueDelete n ns k)
    then show ?thesis
      using ok ap scalars_wf_delete[OF wf(3)] lists_wf_frame[OF wf(4) _ le] by (intro other) auto
  next
    case (CListAppend n ns k v)
    then obtain s1 where s1: "applyListAppend n ns k v s = Inr s1" "s' = s1\<lparr>sst_nextSeq := n + 1\<rparr>"
      using ap by auto
    show ?thesis
      using s1 ok CListAppend lists_wf_append[OF wf(4) _ s1(1)] scalars_wf_frame[OF wf(3) _ le]
      by (intro other) (auto simp: applyListAppend_fields[OF s1(1)])
  next
    case (CListDelete n ns k)
    then show ?thesis
      using ok ap lists_wf_delete[OF wf(4)] scalars_wf_frame[OF wf(3) _ le] by (intro other) auto
  qed
qed

lemma applyValidated_inv:
  "storage_inv s \<Longrightarrow> writes_ok s ws \<Longrightarrow> storage_inv (fst (applyValidated ws s))"
proof (induction ws arbitrary: s)
  case (Cons w ws)
  then show ?case using apply_write_inv by (cases "apply_write w s") auto
qed simp

lemma commitStorage_inv: "storage_inv s \<Longrightarrow> storage_inv (fst (commitStorage ws now s))"
  unfolding commitStorage_def prepareCommit_def Let_def
  by (cases "validateCommitted (pc_writes (prepareStorageCommit ws (sst_nextSeq s) now)) s")
    (use applyValidated_inv validateCommitted_writes_ok in
      \<open>fastforce split: prod.splits sum.splits\<close>)+

section \<open>An accepted commit never throws half way\<close>

fun addressed :: "storage_write \<Rightarrow> bool" where
  "addressed (WValueSet ns k v) \<longleftrightarrow> validateAddress ns k = Inr ()"
| "addressed (WValueDelete ns k) \<longleftrightarrow> validateAddress ns k = Inr ()"
| "addressed (WListAppend ns k v) \<longleftrightarrow> validateAddress ns k = Inr ()"
| "addressed (WListDelete ns k) \<longleftrightarrow> validateAddress ns k = Inr ()"
| "addressed _ \<longleftrightarrow> True"

lemma apply_write_addressed:
  "addressed w \<Longrightarrow> \<exists>s'. apply_write (commitWrite w n ts) s = Inr s'"
  by (cases w) (auto simp: applyValueSet_def applyListAppend_def mkValue_def mkList_def Let_def
      split: option.splits)

lemma applyValidated_addressed:
  "list_all addressed ws \<Longrightarrow>
   \<exists>s'. applyValidated (commit_writes_from ws n ts) s = (s', Inr (sst_stats s'))"
proof (induction ws n ts arbitrary: s rule: commit_writes_from.induct)
  case (2 w ws n ts)
  then obtain s1 where "apply_write (commitWrite w n ts) s = Inr s1"
    using apply_write_addressed by fastforce
  with 2 show ?case by simp
qed simp

lemma prepareCommit_eq_Inr:
  "prepareCommit ws now s = Inr p \<longleftrightarrow>
     validateCommitted (commit_writes_from ws (sst_nextSeq s) now) s = Inr () \<and>
     p = prepareStorageCommit ws (sst_nextSeq s) now"
  by (auto simp: prepareCommit_def Let_def ebind_eq_Inr_iff prepareStorageCommit_def)

lemma commitStorage_addressed:
  assumes "list_all addressed ws"
  shows "(\<exists>e. commitStorage ws now s = (s, Inl e) \<and> prepareCommit ws now s = Inl e) \<or>
    (\<exists>s'. applyValidated (commit_writes_from ws (sst_nextSeq s) now) s = (s', Inr (sst_stats s')) \<and>
       commitStorage ws now s = (s', Inr \<lparr>cr_firstSeq = sst_nextSeq s,
         cr_seqs = map (\<lambda>i. sst_nextSeq s + int i) [0..<length ws], cr_timestamp = now,
         cr_stats = sst_stats s'\<rparr>))"
proof (cases "prepareCommit ws now s")
  case (Inl e)
  then show ?thesis by (simp add: commitStorage_def)
next
  case (Inr p)
  then have p: "p = prepareStorageCommit ws (sst_nextSeq s) now"
    by (simp add: prepareCommit_eq_Inr)
  obtain s' where ap: "applyValidated (commit_writes_from ws (sst_nextSeq s) now) s = (s', Inr (sst_stats s'))"
    using applyValidated_addressed[OF assms] by blast
  show ?thesis
    by (rule disjI2, rule exI[of _ s'])
      (simp add: commitStorage_def Inr p prepareStorageCommit_def Let_def ap seqs_commit_writes_from)
qed

lemma commitStorage_accepted:
  assumes "list_all addressed ws" "commitStorage ws now s = (s', Inr r)"
  shows "applyValidated (commit_writes_from ws (sst_nextSeq s) now) s = (s', Inr (sst_stats s'))"
    "r = \<lparr>cr_firstSeq = sst_nextSeq s, cr_seqs = map (\<lambda>i. sst_nextSeq s + int i) [0..<length ws],
       cr_timestamp = now, cr_stats = sst_stats s'\<rparr>"
  using commitStorage_addressed[OF assms(1), of now s] assms(2) by auto

section \<open>The abstract store\<close>

text \<open>
  What a client reasons with: the entries in commit order, one optional value per slot, one list
  per list slot and the usage rows. Each write changes one of them.
\<close>

record abstract_store =
  ab_entries :: "entry list"
  ab_values :: "jstring \<times> jstring \<Rightarrow> stored option"
  ab_lists :: "jstring \<times> jstring \<Rightarrow> list_element list"
  ab_usage :: "usage_row list"

definition value_at :: "storage_state \<Rightarrow> jstring \<times> jstring \<Rightarrow> stored option" where
  "value_at s a = (if has_nul (fst a) then None else
     map_option sv_value (map_get (sst_scalarValues s) (physicalKey (fst a) (snd a))))"

definition list_at :: "storage_state \<Rightarrow> jstring \<times> jstring \<Rightarrow> list_element list" where
  "list_at s a = (if has_nul (fst a) then [] else
     (case map_get (sst_listValues s) (physicalKey (fst a) (snd a)) of
        None \<Rightarrow> [] | Some l \<Rightarrow> sl_elements l))"

definition abs_store :: "storage_state \<Rightarrow> abstract_store" where
  "abs_store s = \<lparr>ab_entries = sst_entriesBySeq s, ab_values = value_at s, ab_lists = list_at s,
     ab_usage = map_values (sst_usage s)\<rparr>"

fun spec_write :: "committed_write \<Rightarrow> abstract_store \<Rightarrow> abstract_store" where
  "spec_write (CEntry e) a = a\<lparr>ab_entries := ab_entries a @ [e]\<rparr>"
| "spec_write (CUsage r) a = a\<lparr>ab_usage := ab_usage a @ [r]\<rparr>"
| "spec_write (CValueSet n ns k v) a = a\<lparr>ab_values := (ab_values a)((ns, k) \<mapsto> v)\<rparr>"
| "spec_write (CValueDelete n ns k) a = a\<lparr>ab_values := (ab_values a)((ns, k) := None)\<rparr>"
| "spec_write (CListAppend n ns k v) a =
     a\<lparr>ab_lists := (ab_lists a)((ns, k) := ab_lists a (ns, k) @ [\<lparr>le_seq = n, le_value = v\<rparr>])\<rparr>"
| "spec_write (CListDelete n ns k) a = a\<lparr>ab_lists := (ab_lists a)((ns, k) := [])\<rparr>"

lemma value_at_set:
  assumes "applyValueSet n ns k v s = Inr s1"
  shows "value_at s1 = (value_at s)((ns, k) \<mapsto> v)"
  using assms
  by (auto simp: value_at_def applyValueSet_def mkValue_eq_Inr update_conv' physicalKey_inj fun_eq_iff)

lemma value_at_delete:
  "\<not> has_nul ns \<Longrightarrow> value_at (s\<lparr>sst_scalarValues := map_delete (physicalKey ns k) (sst_scalarValues s)\<rparr>)
     = (value_at s)((ns, k) := None)"
  by (auto simp: value_at_def delete_conv' physicalKey_inj fun_eq_iff)

lemma list_at_append:
  assumes "applyListAppend n ns k v s = Inr s1" "\<not> has_nul ns"
  shows "list_at s1 = (list_at s)((ns, k) := list_at s (ns, k) @ [\<lparr>le_seq = n, le_value = v\<rparr>])"
  using assms
  by (auto simp: list_at_def applyListAppend_def Let_def update_conv' physicalKey_inj fun_eq_iff
      split: option.splits)

lemma list_at_delete:
  "\<not> has_nul ns \<Longrightarrow> list_at (s\<lparr>sst_listValues := map_delete (physicalKey ns k) (sst_listValues s)\<rparr>)
     = (list_at s)((ns, k) := [])"
  by (auto simp: list_at_def delete_conv' physicalKey_inj fun_eq_iff)

lemma value_at_frame [simp]:
  "value_at (s\<lparr>sst_entries := x0\<rparr>) = value_at s"
  "value_at (s\<lparr>sst_entriesBySeq := x1\<rparr>) = value_at s"
  "value_at (s\<lparr>sst_usage := x2\<rparr>) = value_at s"
  "value_at (s\<lparr>sst_stats := x3\<rparr>) = value_at s"
  "value_at (s\<lparr>sst_nextSeq := x4\<rparr>) = value_at s"
  "value_at (s\<lparr>sst_listValues := x5\<rparr>) = value_at s"
  by (simp_all add: value_at_def fun_eq_iff)

lemma list_at_frame [simp]:
  "list_at (s\<lparr>sst_entries := x0\<rparr>) = list_at s"
  "list_at (s\<lparr>sst_entriesBySeq := x1\<rparr>) = list_at s"
  "list_at (s\<lparr>sst_usage := x2\<rparr>) = list_at s"
  "list_at (s\<lparr>sst_stats := x3\<rparr>) = list_at s"
  "list_at (s\<lparr>sst_nextSeq := x4\<rparr>) = list_at s"
  "list_at (s\<lparr>sst_scalarValues := x5\<rparr>) = list_at s"
  by (simp_all add: list_at_def fun_eq_iff)

lemma validateAddress_nul: "validateAddress ns k = Inr () \<Longrightarrow> \<not> has_nul ns"
  by (auto simp: validateAddress_def split: if_splits)

lemma applyListAppend_abs:
  assumes "applyListAppend n ns k v s = Inr s1" "\<not> has_nul ns"
  shows "abs_store (s1\<lparr>sst_nextSeq := n + 1\<rparr>) = spec_write (CListAppend n ns k v) (abs_store s)"
  using applyListAppend_fields[OF assms(1)] list_at_append[OF assms]
  by (simp add: abs_store_def value_at_def fun_eq_iff)

lemma applyValueSet_abs:
  assumes "applyValueSet n ns k v s = Inr s1"
  shows "abs_store (s1\<lparr>sst_nextSeq := n + 1\<rparr>) = spec_write (CValueSet n ns k v) (abs_store s)"
  using applyValueSet_fields[OF assms] value_at_set[OF assms]
  by (simp add: abs_store_def list_at_def fun_eq_iff)

fun write_nul_free :: "committed_write \<Rightarrow> bool" where
  "write_nul_free (CValueSet n ns k v) \<longleftrightarrow> \<not> has_nul ns"
| "write_nul_free (CValueDelete n ns k) \<longleftrightarrow> \<not> has_nul ns"
| "write_nul_free (CListAppend n ns k v) \<longleftrightarrow> \<not> has_nul ns"
| "write_nul_free (CListDelete n ns k) \<longleftrightarrow> \<not> has_nul ns"
| "write_nul_free _ \<longleftrightarrow> True"

lemma addressed_nul_free: "addressed w \<Longrightarrow> write_nul_free (commitWrite w n ts)"
  by (cases w) (auto dest: validateAddress_nul)

lemma apply_write_abs:
  assumes "apply_write w s = Inr s'" "write_nul_free w" "write_ok s w" "storage_inv s"
  shows "abs_store s' = spec_write w (abs_store s)"
proof (cases w)
  case (CUsage r)
  have "map_values (sst_usage s') = map_values (sst_usage s) @ [r]"
    using usage_wf_add[of s r s'] assms CUsage by (simp add: storage_inv_def)
  then show ?thesis using assms(1) CUsage by (auto simp: abs_store_def)
next
  case (CValueDelete n ns k)
  then show ?thesis using assms(1,2) value_at_delete[of ns k s] by (auto simp: abs_store_def)
next
  case (CListDelete n ns k)
  then show ?thesis using assms(1,2) list_at_delete[of ns k s] by (auto simp: abs_store_def)
qed (use assms applyValueSet_abs applyListAppend_abs in \<open>auto simp: abs_store_def\<close>)

lemma applyValidated_abs:
  assumes "list_all write_nul_free ws" "writes_ok s ws" "storage_inv s"
    and "applyValidated ws s = (s', Inr st)"
  shows "abs_store s' = fold spec_write ws (abs_store s)"
  using assms
proof (induction ws arbitrary: s)
  case (Cons w ws)
  then obtain s1 where s1: "apply_write w s = Inr s1" by (cases "apply_write w s") auto
  then show ?case
    using Cons apply_write_inv[OF _ _ s1] apply_write_abs[OF s1] by (auto simp: s1)
qed simp

lemma commit_writes_nul_free:
  "list_all addressed ws \<Longrightarrow> list_all write_nul_free (commit_writes_from ws n ts)"
  by (induction ws n ts rule: commit_writes_from.induct) (auto simp: addressed_nul_free)

lemma commitStorage_refines:
  assumes "storage_inv s" "list_all addressed ws" "commitStorage ws now s = (s', Inr r)"
  shows "abs_store s' = fold spec_write (commit_writes_from ws (sst_nextSeq s) now) (abs_store s)"
proof (rule applyValidated_abs)
  obtain p where "prepareCommit ws now s = Inr p"
    using assms(3) by (auto simp: commitStorage_def split: sum.splits)
  then show "writes_ok s (commit_writes_from ws (sst_nextSeq s) now)"
    by (simp add: prepareCommit_eq_Inr validateCommitted_writes_ok)
qed (use assms commit_writes_nul_free commitStorage_accepted in auto)

end
