(* ===== verification/BranchScan.thy ===== *)
theory BranchScan
  imports StorageCommit
begin

text \<open>
  The reads of the materialized state. A branch scan walks the parent links: \<open>parent_path\<close> says
  declaratively what it must visit, and under the storage invariant the walk returns, never reports
  a corrupt branch and visits entries of strictly decreasing sequence. The cursor of every paged
  read is the sequence number of the last item of a page; the locale \<open>cursor_order\<close> holds the
  argument that the next page starts right after it.
\<close>

section \<open>Cursors\<close>

locale cursor_order =
  fixes after :: "int \<Rightarrow> int \<Rightarrow> bool" and seq_of :: "'a \<Rightarrow> int"
  assumes after_irrefl: "\<not> after c c"
    and after_trans: "after a b \<Longrightarrow> after b c \<Longrightarrow> after a c"
begin

abbreviation increasing :: "'a list \<Rightarrow> bool" where
  "increasing xs \<equiv> sorted_wrt (\<lambda>x y. after (seq_of x) (seq_of y)) xs"

lemma filter_after_prefix:
  assumes "increasing (ys @ x # zs)"
  shows "filter (\<lambda>y. after (seq_of x) (seq_of y)) (ys @ x # zs) = zs"
proof -
  have "\<not> after (seq_of x) (seq_of y)" if "y \<in> set ys" for y
  proof -
    have "after (seq_of y) (seq_of x)" using assms that by (auto simp: sorted_wrt_append)
    then show ?thesis using after_irrefl after_trans by blast
  qed
  then have "filter (\<lambda>y. after (seq_of x) (seq_of y)) ys = []" by (simp add: filter_empty_conv)
  moreover have "filter (\<lambda>y. after (seq_of x) (seq_of y)) zs = zs"
    using assms by (auto simp: sorted_wrt_append intro: filter_True)
  ultimately show ?thesis by (simp add: after_irrefl)
qed

text \<open>The items after the last one of a page are the items after the page.\<close>

lemma page_continues:
  assumes "increasing xs" "take n xs \<noteq> []"
  shows "filter (\<lambda>y. after (seq_of (last (take n xs))) (seq_of y)) xs = drop n xs"
proof -
  obtain ys x where split: "take n xs = ys @ [x]" using assms(2) by (metis append_butlast_last_id)
  have "xs = ys @ x # drop n xs" using append_take_drop_id[of n xs] split by simp
  then show ?thesis using filter_after_prefix[of ys x "drop n xs"] assms(1) split by simp
qed

lemma increasing_filter: "increasing xs \<Longrightarrow> increasing (filter P xs)"
  by (induction xs) auto

end

interpretation newest_entries: cursor_order "\<lambda>c n. n < c" en_seq by unfold_locales auto
interpretation oldest_entries: cursor_order "\<lambda>c n. c < n" en_seq by unfold_locales auto
interpretation newest_elements: cursor_order "\<lambda>c n. n < c" le_seq by unfold_locales auto
interpretation oldest_elements: cursor_order "\<lambda>c n. c < n" le_seq by unfold_locales auto

section \<open>The parent path\<close>

fun parent_path :: "(jstring \<Rightarrow> entry option) \<Rightarrow> entry list \<Rightarrow> bool" where
  "parent_path get [] \<longleftrightarrow> False"
| "parent_path get [e] \<longleftrightarrow> en_parentId e = None"
| "parent_path get (e # e' # es) \<longleftrightarrow>
     (case en_parentId e of None \<Rightarrow> False | Some p \<Rightarrow> get p = Some e') \<and> parent_path get (e' # es)"

lemma parent_path_Cons:
  "parent_path get (e # es) \<longleftrightarrow>
     (case en_parentId e of
        None \<Rightarrow> es = []
      | Some p \<Rightarrow> \<exists>e' es'. es = e' # es' \<and> get p = Some e' \<and> parent_path get es)"
  by (cases es) (auto split: option.splits)

lemma parent_path_unique:
  "parent_path get (e # xs) \<Longrightarrow> parent_path get (e # ys) \<Longrightarrow> xs = ys"
proof (induction xs arbitrary: e ys)
  case Nil
  then show ?case by (auto simp: parent_path_Cons split: option.splits)
next
  case (Cons x xs)
  then obtain y ys' where "ys = y # ys'" "y = x"
    by (auto simp: parent_path_Cons[of get e] split: option.splits)
  with Cons show ?case by (auto simp: parent_path_Cons[of get e] split: option.splits)
qed

lemma parent_path_suffix: "parent_path get (xs @ e # ys) \<Longrightarrow> parent_path get (e # ys)"
proof (induction xs)
  case (Cons x xs)
  then show ?case by (cases "xs @ e # ys") auto
qed simp

lemma walk_branch_path:
  "parent_path get (e # es) \<Longrightarrow> walk_branch get acc e = Some (Inr (acc @ e # es))"
proof (induction es arbitrary: acc e)
  case Nil
  then show ?case by (subst walk_branch.simps) simp
next
  case (Cons e' es)
  then show ?case by (subst walk_branch.simps) (auto split: option.splits)
qed

section \<open>Every entry of a well-formed state has a parent path\<close>

lemma entries_parent:
  assumes "entries_wf s" "e \<in> set (sst_entriesBySeq s)" "en_parentId e = Some p"
  obtains e' where "map_get (sst_entries s) p = Some e'" "e' \<in> set (sst_entriesBySeq s)"
    "en_seq e' < en_seq e"
proof -
  obtain e' where e': "e' \<in> set (sst_entriesBySeq s)" "en_id e' = p" "en_seq e' < en_seq e"
    using assms by (auto simp: entries_wf_def entry_tree_def parents_earlier_def)
  moreover from e' have "map_get (sst_entries s) p = Some e'"
    using entries_lookup[OF assms(1)] by simp
  ultimately show thesis by (intro that)
qed

lemma parent_path_exists:
  assumes "entries_wf s"
  shows "e \<in> set (sst_entriesBySeq s) \<Longrightarrow>
    \<exists>es. parent_path (map_get (sst_entries s)) (e # es) \<and> sorted_wrt (\<lambda>x y. en_seq y < en_seq x) (e # es) \<and>
         set es \<subseteq> set (sst_entriesBySeq s)"
proof (induction "nat (en_seq e)" arbitrary: e rule: less_induct)
  case less
  show ?case
  proof (cases "en_parentId e")
    case None
    then show ?thesis by (intro exI[of _ "[]"]) simp
  next
    case (Some p)
    obtain e' where e': "map_get (sst_entries s) p = Some e'" "e' \<in> set (sst_entriesBySeq s)"
      "en_seq e' < en_seq e"
      using entries_parent[OF assms less.prems Some] .
    have "1 \<le> en_seq e" using assms less.prems by (simp add: entries_wf_def)
    then have "nat (en_seq e') < nat (en_seq e)" using e'(3) by simp
    then obtain es where es: "parent_path (map_get (sst_entries s)) (e' # es)"
      "sorted_wrt (\<lambda>x y. en_seq y < en_seq x) (e' # es)" "set es \<subseteq> set (sst_entriesBySeq s)"
      using less.hyps e'(2) by blast
    then show ?thesis using e' Some by (intro exI[of _ "e' # es"]) fastforce
  qed
qed

definition path_to_root :: "storage_state \<Rightarrow> entry \<Rightarrow> entry list \<Rightarrow> bool" where
  "path_to_root s e path \<longleftrightarrow> path \<noteq> [] \<and> hd path = e \<and> parent_path (map_get (sst_entries s)) path \<and>
     sorted_wrt (\<lambda>x y. en_seq y < en_seq x) path \<and> set path \<subseteq> set (sst_entriesBySeq s)"

lemma path_to_root_exists:
  assumes "storage_inv s" "map_get (sst_entries s) i = Some e"
  obtains path where "path_to_root s e path"
proof -
  have wf: "entries_wf s" using assms(1) by (simp add: storage_inv_def)
  have mem: "e \<in> set (sst_entriesBySeq s)" using assms(2) entries_lookup[OF wf] by simp
  obtain es where "parent_path (map_get (sst_entries s)) (e # es)"
    "sorted_wrt (\<lambda>x y. en_seq y < en_seq x) (e # es)" "set es \<subseteq> set (sst_entriesBySeq s)"
    using parent_path_exists[OF wf mem] by blast
  with mem show thesis by (intro that[of "e # es"]) (simp add: path_to_root_def)
qed

lemma scanBranch_path:
  assumes "map_get (sst_entries s) (bs_start q) = Some e" "path_to_root s e path"
  shows "scanBranch q s = Some (Inr (select_branch q path))"
proof -
  obtain es where path: "path = e # es" using assms(2) by (cases path) (auto simp: path_to_root_def)
  then have "walk_branch (map_get (sst_entries s)) [] e = Some (Inr path)"
    using walk_branch_path[of _ e es "[]"] assms(2) by (simp add: path_to_root_def)
  then show ?thesis by (simp add: scanBranch_def assms(1))
qed

lemma scanBranch_unknown:
  "map_get (sst_entries s) (bs_start q) = None \<Longrightarrow>
   scanBranch q s = Some (Inl (UnknownBranchStart (bs_start q)))"
  by (simp add: scanBranch_def)

section \<open>Branch pages\<close>

definition unpaged :: "branch_scan \<Rightarrow> branch_scan" where
  "unpaged q = q\<lparr>bs_limit := None, bs_cursor := None\<rparr>"

abbreviation branch_after :: "branch_scan \<Rightarrow> int \<Rightarrow> int \<Rightarrow> bool" where
  "branch_after q c n \<equiv> (if bs_order q = Some OldestFirst then c < n else n < c)"

interpretation branch_entries: cursor_order "branch_after q" en_seq for q
  by unfold_locales (auto split: if_splits)

lemma select_branch_increasing:
  assumes "sorted_wrt (\<lambda>x y. en_seq y < en_seq x) path"
  shows "branch_entries.increasing q (select_branch (unpaged q) path)"
proof -
  let ?ordered = "if bs_order q = Some OldestFirst then rev path else path"
  have "branch_entries.increasing q ?ordered"
    using assms by (auto simp: sorted_wrt_rev)
  then have "branch_entries.increasing q (take_until (scan_stops q) ?ordered)"
    by (rule sorted_wrt_prefix) (rule prefix_take_until)
  moreover have "scan_stops (unpaged q) = scan_stops q"
    by (simp add: unpaged_def scan_stops_def fun_eq_iff)
  ultimately show ?thesis
    by (simp add: select_branch_def unpaged_def branch_entries.increasing_filter Let_def)
qed

lemma scan_matches_cursor:
  "scan_matches (q\<lparr>bs_cursor := Some c, bs_limit := l\<rparr>) e \<longleftrightarrow>
     scan_matches (unpaged q) e \<and> branch_after q c (en_seq e)"
  by (auto simp: scan_matches_def unpaged_def)

lemma select_branch_limit:
  assumes "bs_cursor q = None" "bs_limit q = Some (int n)"
  shows "select_branch q path = take n (select_branch (unpaged q) path)"
proof -
  have "scan_stops (unpaged q) = scan_stops q" "scan_matches (unpaged q) = scan_matches q"
    using assms(1) by (simp_all add: unpaged_def scan_stops_def scan_matches_def fun_eq_iff)
  then show ?thesis by (simp add: select_branch_def Let_def slice_to_def unpaged_def assms(2))
qed

lemma select_branch_cursor:
  "select_branch (q\<lparr>bs_cursor := Some c, bs_limit := None\<rparr>) path =
     filter (\<lambda>e. branch_after q c (en_seq e)) (select_branch (unpaged q) path)"
proof -
  have "scan_stops (unpaged q) = scan_stops q"
    "scan_stops (q\<lparr>bs_cursor := Some c, bs_limit := None\<rparr>) = scan_stops q"
    by (simp_all add: unpaged_def scan_stops_def fun_eq_iff)
  moreover have "scan_matches (q\<lparr>bs_cursor := Some c, bs_limit := None\<rparr>) =
      (\<lambda>e. branch_after q c (en_seq e) \<and> scan_matches (unpaged q) e)"
    by (auto simp: fun_eq_iff scan_matches_cursor)
  ultimately show ?thesis
    by (simp add: select_branch_def Let_def conj_commute)
      (simp add: unpaged_def conj_commute)
qed

lemma branch_page_continues:
  assumes path: "sorted_wrt (\<lambda>x y. en_seq y < en_seq x) path"
    and page: "page = select_branch (q\<lparr>bs_cursor := None, bs_limit := Some (int n)\<rparr>) path" "page \<noteq> []"
  shows "page @ select_branch (q\<lparr>bs_cursor := Some (en_seq (last page)), bs_limit := None\<rparr>) path =
    select_branch (unpaged q) path"
proof -
  let ?all = "select_branch (unpaged q) path"
  have p: "page = take n ?all"
    using select_branch_limit[of "q\<lparr>bs_cursor := None, bs_limit := Some (int n)\<rparr>" n path] page(1)
    by (simp add: unpaged_def)
  have "take n ?all \<noteq> []" using page(2) p by argo
  from branch_entries.page_continues[OF select_branch_increasing[OF path] this]
  have rest: "filter (\<lambda>e. branch_after q (en_seq (last page)) (en_seq e)) ?all = drop n ?all"
    unfolding p .
  show ?thesis unfolding select_branch_cursor rest by (simp add: p)
qed

end
