(* ===== verification/Samples.thy ===== *)
theory Samples
  imports BranchScan
begin

text \<open>
  A small concrete session, built by commits of the model itself, at which theorems with hypotheses
  are applied: three entries on branch \<open>main\<close>, a configured lane with a running operation, a label,
  a frame list and a usage row.
\<close>

definition sample_config :: lane_configuration where
  "sample_config = \<lparr>lc_model = \<lparr>mi_provider = js ''anthropic'', mi_modelId = js ''opus''\<rparr>,
     lc_thinkingLevel = TLHigh, lc_activeToolNames = [js ''read'']\<rparr>"

definition sample_lane_state :: durable_lane_state where
  "sample_lane_state = \<lparr>dl_currentOperationId = Some (js ''op1''), dl_lastOperationId = None, dl_inbox = []\<rparr>"

definition sample_entry :: "string \<Rightarrow> string option \<Rightarrow> int \<Rightarrow> entry" where
  "sample_entry i p n = \<lparr>en_id = js i, en_parentId = map_option js p, en_seq = n, en_timestamp = 100,
     en_body = CustomBody (js ''note'') None\<rparr>"

definition sample_new_entry :: "string \<Rightarrow> string option \<Rightarrow> new_entry" where
  "sample_new_entry i p = \<lparr>ne_id = js i, ne_parentId = map_option js p,
     ne_body = CustomBody (js ''note'') None\<rparr>"

definition sample_meta :: operation_meta where
  "sample_meta = \<lparr>me_operationId = js ''op1'', me_lane = js ''main'', me_sourceTipId = None,
     me_startedAt = 90, me_intent = RunIntent []\<rparr>"

definition sample_writes :: "storage_write list" where
  "sample_writes =
     [WEntry (sample_new_entry ''a'' None), WEntry (sample_new_entry ''b'' (Some ''a'')),
      WEntry (sample_new_entry ''c'' (Some ''b'')),
      WValueSet ns_branch_tip (js ''main'') (VTip (Some (js ''c''))),
      WValueSet ns_lane_config (js ''main'') (VConfig sample_config),
      WValueSet ns_lane_state (js ''main'') (VLaneState sample_lane_state),
      WValueSet ns_op_meta (js ''op1'') (VMeta sample_meta),
      WValueSet ns_entry_label (js ''b'') (VText (js ''checkpoint'')),
      WListAppend ns_frame (js ''op1:r'') (VFrame (FTextDelta 0 (js ''hi''))),
      WListAppend ns_frame (js ''op1:r'') (VFrame (FTextDelta 0 (js ''!''))),
      WUsage \<lparr>nu_id = js ''u1'', nu_usage = emptyUsage, nu_entryId = None, nu_adjustment = True,
        nu_details = None\<rparr>]"

definition sample_state :: storage_state where
  "sample_state = fst (commitStorage sample_writes 100 empty_storage)"

definition sample_value :: "jstring \<Rightarrow> string \<Rightarrow> stored \<Rightarrow> int \<Rightarrow> jstring \<times> stored_value" where
  "sample_value ns k v n = (physicalKey ns (js k),
     \<lparr>sv_address = \<lparr>ad_namespace = ns, ad_key = js k, ad_kind = ValueKind\<rparr>, sv_value = v, sv_seq = n\<rparr>)"

lemma storage_inv_sample: "storage_inv sample_state"
  unfolding sample_state_def by (rule commitStorage_inv) (rule storage_inv_empty)

lemma sample_addressed: "list_all addressed sample_writes"
  by (simp add: sample_writes_def validateAddress_def)

lemma physicalKey_js:
  "physicalKey (js a) (js k) = physicalKey (js b) (js l) \<longleftrightarrow> a = b \<and> k = l"
  if "CHR 0x00 \<notin> set a" "CHR 0x00 \<notin> set b"
  using that physicalKey_inj[of "js a" "js b"] by simp

lemma sample_commit: "commitStorage sample_writes 100 empty_storage =
  (\<lparr>sst_entries = map (\<lambda>e. (en_id e, e))
       [sample_entry ''a'' None 1, sample_entry ''b'' (Some ''a'') 2, sample_entry ''c'' (Some ''b'') 3],
     sst_entriesBySeq =
       [sample_entry ''a'' None 1, sample_entry ''b'' (Some ''a'') 2, sample_entry ''c'' (Some ''b'') 3],
     sst_scalarValues =
       [sample_value ns_branch_tip ''main'' (VTip (Some (js ''c''))) 4,
        sample_value ns_lane_config ''main'' (VConfig sample_config) 5,
        sample_value ns_lane_state ''main'' (VLaneState sample_lane_state) 6,
        sample_value ns_op_meta ''op1'' (VMeta sample_meta) 7,
        sample_value ns_entry_label ''b'' (VText (js ''checkpoint'')) 8],
     sst_listValues = [(physicalKey ns_frame (js ''op1:r''),
        \<lparr>sl_address = \<lparr>ad_namespace = ns_frame, ad_key = js ''op1:r'', ad_kind = ListKind\<rparr>,
         sl_elements = [\<lparr>le_seq = 9, le_value = VFrame (FTextDelta 0 (js ''hi''))\<rparr>,
                        \<lparr>le_seq = 10, le_value = VFrame (FTextDelta 0 (js ''!''))\<rparr>]\<rparr>)],
     sst_usage = [(js ''u1'', \<lparr>ur_id = js ''u1'', ur_seq = 11, ur_usage = emptyUsage,
        ur_entryId = None, ur_adjustment = True, ur_details = None\<rparr>)],
     sst_stats = \<lparr>ss_messageCount = 0, ss_usage = emptyUsage\<rparr>, sst_nextSeq = 12\<rparr>,
   Inr \<lparr>cr_firstSeq = 1, cr_seqs = [1..11], cr_timestamp = 100,
     cr_stats = \<lparr>ss_messageCount = 0, ss_usage = emptyUsage\<rparr>\<rparr>)"
  by (simp add: commitStorage_def sample_writes_def prepareCommit_def prepareStorageCommit_def Let_def
      empty_storage_def validateCommitted_def validateCommittedWrites_def validation_view_def map_has_def
      materializeCommittedEntry_def materializeUsageRow_def sample_new_entry_def sample_entry_def
      applyValueSet_def applyListAppend_def mkValue_def mkList_def validateAddress_def physicalKey_js
      en_type_def sample_value_def upto_rec1)

definition sample_scan :: branch_scan where
  "sample_scan = \<lparr>bs_start = js ''c'', bs_stopAtType = None, bs_stopAtId = None, bs_type = None,
     bs_customType = None, bs_order = None, bs_limit = None, bs_cursor = None\<rparr>"

lemma sample_start:
  "map_get (sst_entries sample_state) (bs_start sample_scan) = Some (sample_entry ''c'' (Some ''b'') 3)"
  by (simp add: sample_scan_def sample_state_def sample_commit sample_entry_def)

end
