(* ===== verification/StorageProps.thy ===== *)
theory StorageProps
  imports Samples
begin

text \<open>
  What the materialized session state promises its callers: commits are checked, atomic, numbered
  and refine the abstract store; scans return exactly the matching rows in a fixed order; branch
  scans return the path to the root and can be paged by cursor.
\<close>

section \<open>Admissible commits\<close>

text \<open>
  What the caller must respect, stated without the loop: the new ids are distinct and unused, and
  every parent is a stored entry or an entry earlier in the same commit.
\<close>

fun write_id :: "storage_write \<Rightarrow> jstring option" where
  "write_id (WEntry e) = Some (ne_id e)"
| "write_id (WUsage r) = Some (nu_id r)"
| "write_id _ = None"

definition new_ids :: "storage_write list \<Rightarrow> jstring list" where
  "new_ids ws = concat (map (\<lambda>w. case write_id w of None \<Rightarrow> [] | Some i \<Rightarrow> [i]) ws)"

fun entry_ids :: "storage_write list \<Rightarrow> jstring set" where
  "entry_ids [] = {}"
| "entry_ids (WEntry e # ws) = insert (ne_id e) (entry_ids ws)"
| "entry_ids (_ # ws) = entry_ids ws"

definition parents_known :: "jstring set \<Rightarrow> storage_write list \<Rightarrow> bool" where
  "parents_known known ws \<longleftrightarrow>
     (\<forall>pre e post p. ws = pre @ WEntry e # post \<longrightarrow> ne_parentId e = Some p \<longrightarrow>
        p \<in> known \<union> entry_ids pre)"

definition admissible :: "storage_state \<Rightarrow> storage_write list \<Rightarrow> bool" where
  "admissible s ws \<longleftrightarrow> distinct (new_ids ws) \<and>
     (\<forall>i \<in> set (new_ids ws). \<not> map_has (sst_entries s) i \<and> \<not> map_has (sst_usage s) i) \<and>
     parents_known {i. map_has (sst_entries s) i} ws"

lemma new_ids_simps [simp]:
  "new_ids [] = []"
  "new_ids (w # ws) = (case write_id w of None \<Rightarrow> new_ids ws | Some i \<Rightarrow> i # new_ids ws)"
  by (simp_all add: new_ids_def split: option.splits)

lemma parents_known_Nil [simp]: "parents_known known []"
  by (simp add: parents_known_def)

lemma entry_ids_Cons: "entry_ids (w # ws) = entry_ids [w] \<union> entry_ids ws"
  by (cases w) auto

lemma parents_known_Cons:
  "parents_known known (w # ws) \<longleftrightarrow>
     (\<forall>e p. w = WEntry e \<longrightarrow> ne_parentId e = Some p \<longrightarrow> p \<in> known) \<and>
     parents_known (known \<union> entry_ids [w]) ws"
proof
  assume all: "parents_known known (w # ws)"
  have "p \<in> known" if "w = WEntry e" "ne_parentId e = Some p" for e p
    using all[unfolded parents_known_def, rule_format, of "[]" e ws p] that by simp
  moreover have "p \<in> known \<union> entry_ids [w] \<union> entry_ids pre"
    if "ws = pre @ WEntry e # post" "ne_parentId e = Some p" for pre e post p
    using all[unfolded parents_known_def, rule_format, of "w # pre" e post p] that
    by (simp add: entry_ids_Cons[of w pre] Un_assoc)
  ultimately show "(\<forall>e p. w = WEntry e \<longrightarrow> ne_parentId e = Some p \<longrightarrow> p \<in> known) \<and>
      parents_known (known \<union> entry_ids [w]) ws"
    by (simp add: parents_known_def)
next
  assume R: "(\<forall>e p. w = WEntry e \<longrightarrow> ne_parentId e = Some p \<longrightarrow> p \<in> known) \<and>
      parents_known (known \<union> entry_ids [w]) ws"
  have "p \<in> known \<union> entry_ids pre"
    if "w # ws = pre @ WEntry e # post" "ne_parentId e = Some p" for pre e post p
  proof (cases pre)
    case Nil
    then show ?thesis using R that by simp
  next
    case (Cons x pre')
    then show ?thesis
      using R[THEN conjunct2, unfolded parents_known_def, rule_format, of pre' e post p] that
      by (simp add: entry_ids_Cons[of x pre'] Un_assoc)
  qed
  then show "parents_known known (w # ws)" by (simp add: parents_known_def)
qed

lemma validate_loop_admissible:
  assumes "prev < seq"
  shows "validate_loop st prev ids eids (commit_writes_from ws seq ts) = Inr () \<longleftrightarrow>
    distinct (new_ids ws) \<and>
    (\<forall>i \<in> set (new_ids ws). \<not> cv_hasEntryOrUsageId st i \<and> i \<notin> ids) \<and>
    parents_known ({i. cv_hasEntryId st i} \<union> eids) ws"
  using assms
proof (induction ws arbitrary: prev seq ids eids)
  case (Cons w ws)
  have IH: "validate_loop st seq ids eids (commit_writes_from ws (seq + 1) ts) = Inr () \<longleftrightarrow>
    distinct (new_ids ws) \<and> (\<forall>i \<in> set (new_ids ws). \<not> cv_hasEntryOrUsageId st i \<and> i \<notin> ids) \<and>
    parents_known ({i. cv_hasEntryId st i} \<union> eids) ws" for ids eids
    by (rule Cons.IH) simp
  show ?case
  proof (cases w)
    case (WEntry e)
    then show ?thesis
      using Cons.prems
      by (cases "ne_parentId e")
        (auto simp: IH parents_known_Cons materializeCommittedEntry_def)
  next
    case (WUsage r)
    then show ?thesis
      using Cons.prems by (auto simp: IH parents_known_Cons materializeUsageRow_def)
  qed (use Cons.prems in \<open>simp_all add: IH parents_known_Cons\<close>)
qed simp

lemma prepareCommit_admissible:
  "(\<exists>p. prepareCommit ws now s = Inr p) \<longleftrightarrow> admissible s ws"
  unfolding prepareCommit_eq_Inr validateCommitted_def validateCommittedWrites_def
  by (simp add: validate_loop_admissible admissible_def validation_view_def)

section \<open>Scans of values\<close>

context comparator
begin

lemma sorted_strict:
  assumes "sorted_wrt (\<lambda>x y. cmp x y \<le> 0) xs" "distinct xs"
    and "\<forall>x \<in> set xs. \<forall>y \<in> set xs. cmp x y \<le> 0 \<longrightarrow> cmp y x \<le> 0 \<longrightarrow> x = y"
  shows "sorted_wrt (\<lambda>x y. cmp x y \<le> 0 \<and> \<not> cmp y x \<le> 0) xs"
  using assms by (induction xs) auto

end

lemma compareKeys_less: "compareKeys x y < 0 \<longleftrightarrow> compareKeys x y \<le> 0 \<and> \<not> compareKeys y x \<le> 0"
  using compare_code_points_flip[of "code_points x" "code_points y"]
  by (auto simp: compareKeys_def)

lemma scalar_values_distinct:
  assumes "scalars_wf s"
  shows "distinct (map_values (sst_scalarValues s))"
proof -
  have "map (\<lambda>v. physicalKey (ad_namespace (sv_address v)) (ad_key (sv_address v))) (map_values (sst_scalarValues s)) =
      map fst (sst_scalarValues s)"
    using assms by (auto simp: scalars_wf_def scalar_wf_def map_values_def)
  then have "distinct (map (\<lambda>v. physicalKey (ad_namespace (sv_address v)) (ad_key (sv_address v)))
      (map_values (sst_scalarValues s)))"
    using assms by (simp add: scalars_wf_def)
  then show ?thesis by (simp add: distinct_map)
qed

lemma scalar_value_unique:
  assumes "scalars_wf s" "v \<in> set (map_values (sst_scalarValues s))" "v' \<in> set (map_values (sst_scalarValues s))"
    and "ad_namespace (sv_address v) = ad_namespace (sv_address v')" "ad_key (sv_address v) = ad_key (sv_address v')"
  shows "v = v'"
proof -
  obtain k k' where mem: "(k, v) \<in> set (sst_scalarValues s)" "(k', v') \<in> set (sst_scalarValues s)"
    using assms(2,3) by (auto simp: map_values_def)
  have "k = physicalKey (ad_namespace (sv_address v)) (ad_key (sv_address v))"
    "k' = physicalKey (ad_namespace (sv_address v')) (ad_key (sv_address v'))"
    using assms(1) mem by (auto simp: scalars_wf_def scalar_wf_def)
  then have "k = k'" using assms(4,5) by simp
  then show ?thesis using mem assms(1) by (auto simp: scalars_wf_def dest: eq_key_imp_eq_value)
qed

lemma code_point_order: "compare_code_points xs ys < 0 \<longleftrightarrow> (xs, ys) \<in> lexord {(a, b). a < b}"
  by (induction xs ys rule: compare_code_points.induct) (auto simp: neq_Nil_conv)

section \<open>Properties\<close>

text \<open>
  C2: Whatever a client commits, well-formed or not, the materialized state stays well-formed.
\<close>

theorem commitStorage_keeps_invariant:
  assumes "storage_inv s"
  shows "storage_inv (fst (commitStorage ws now s))"
  by (rule commitStorage_inv[OF assms])

theorem commitStorage_keeps_invariant_witness: "storage_inv (fst (commitStorage sample_writes 100 empty_storage))"
  by (rule commitStorage_keeps_invariant[OF storage_inv_empty])

text \<open>
  C1: A commit whose addresses are valid is atomic and refines the abstract store: either it is
  rejected and nothing changes, or every write takes effect in order on the abstract store and the
  result names the consecutive sequence numbers the writes received.
\<close>

theorem commitStorage_refinement:
  assumes "storage_inv s" "list_all addressed ws"
  shows "case commitStorage ws now s of
      (s', Inl e) \<Rightarrow> s' = s
    | (s', Inr r) \<Rightarrow>
        abs_store s' = fold spec_write (commit_writes_from ws (sst_nextSeq s) now) (abs_store s) \<and>
        cr_firstSeq r = sst_nextSeq s \<and> cr_timestamp r = now \<and>
        cr_seqs r = map (\<lambda>i. sst_nextSeq s + int i) [0..<length ws]"
  using commitStorage_addressed[OF assms(2), of now s] commitStorage_refines[OF assms, of now]
  by (auto split: prod.splits)

theorem commitStorage_refinement_witness:
  "abs_store sample_state = fold spec_write (commit_writes_from sample_writes 1 100) (abs_store empty_storage)"
proof -
  have "sst_nextSeq empty_storage = 1" by (simp add: empty_storage_def)
  then show ?thesis
    using commitStorage_refinement[OF storage_inv_empty sample_addressed, of 100]
    by (simp add: sample_state_def sample_commit)
qed


lemma sample_orphan: "commitStorage [WEntry (sample_new_entry ''d'' (Some ''z''))] 7 sample_state =
    (sample_state, Inl (MissingParent (js ''z'')))"
  by (simp add: commitStorage_def prepareCommit_def prepareStorageCommit_def validateCommitted_def
      validateCommittedWrites_def validation_view_def map_has_def
      materializeCommittedEntry_def sample_new_entry_def Let_def)
    (simp add: sample_state_def sample_commit sample_entry_def)



text \<open>
  C10: A scan by prefix returns exactly the stored values of the namespace whose key has the prefix,
  each once, in strictly increasing order of the code points of their keys.
\<close>

theorem scanValues_exact:
  assumes "storage_inv s"
  shows "set (scanValues pre s) = {v \<in> set (map_values (sst_scalarValues s)).
      ad_namespace (sv_address v) = ad_namespace pre \<and> prefix (ad_key pre) (ad_key (sv_address v))} \<and>
    sorted_wrt (\<lambda>l r. (code_points (ad_key (sv_address l)), code_points (ad_key (sv_address r))) \<in> lexord {(a, b). a < b})
      (scanValues pre s)"
proof
  have wf: "scalars_wf s" using assms by (simp add: storage_inv_def)
  show set: "set (scanValues pre s) = {v \<in> set (map_values (sst_scalarValues s)).
      ad_namespace (sv_address v) = ad_namespace pre \<and> prefix (ad_key pre) (ad_key (sv_address v))}"
    by (auto simp: scanValues_def)
  let ?cmp = "\<lambda>l r. compareKeys (ad_key (sv_address l)) (ad_key (sv_address r))"
  have "distinct (scanValues pre s)"
    unfolding scanValues_def
    by (metis (no_types, lifting) distinct_filter scalar_values_distinct[OF wf] mset_js_sort mset_eq_imp_distinct_iff)
  moreover have "\<forall>x \<in> set (scanValues pre s). \<forall>y \<in> set (scanValues pre s).
      ?cmp x y \<le> 0 \<longrightarrow> ?cmp y x \<le> 0 \<longrightarrow> x = y"
    unfolding set
    by (intro ballI impI scalar_value_unique[OF wf] key_order.cmp_eq) (auto simp: compareKeys_def)
  ultimately have "sorted_wrt (\<lambda>x y. ?cmp x y \<le> 0 \<and> \<not> ?cmp y x \<le> 0) (scanValues pre s)"
    by (intro stored_order.sorted_strict) (simp_all add: scanValues_def stored_order.sorted_js_sort)
  then have "sorted_wrt (\<lambda>x y. ?cmp x y < 0) (scanValues pre s)"
    by (simp only: compareKeys_less)
  then show "sorted_wrt (\<lambda>l r. (code_points (ad_key (sv_address l)), code_points (ad_key (sv_address r))) \<in>
      lexord {(a, b). a < b}) (scanValues pre s)"
    by (simp only: compareKeys_def code_point_order)
qed

theorem scanValues_exact_witness:
  "snd (sample_value ns_lane_config ''main'' (VConfig sample_config) 5) \<in>
     set (scanValues \<lparr>ad_namespace = ns_lane_config, ad_key = js ''ma'', ad_kind = ValueKind\<rparr> sample_state)"
  using scanValues_exact[OF storage_inv_sample, of "\<lparr>ad_namespace = ns_lane_config, ad_key = js ''ma'', ad_kind = ValueKind\<rparr>"]
  by (simp add: sample_state_def sample_commit map_values_def sample_value_def)

text \<open>
  C4: A branch scan of a stored entry always returns: it selects from the path that follows the
  parent links from that entry to a root, on which sequence numbers strictly decrease.
\<close>

theorem scanBranch_returns_path:
  assumes "storage_inv s" "map_get (sst_entries s) (bs_start q) = Some e"
  shows "\<exists>path. scanBranch q s = Some (Inr (select_branch q path)) \<and> path_to_root s e path"
proof -
  obtain path where "path_to_root s e path" by (rule path_to_root_exists[OF assms])
  then show ?thesis using scanBranch_path[OF assms(2)] by blast
qed

theorem scanBranch_returns_path_witness:
  "\<exists>path. scanBranch sample_scan sample_state = Some (Inr (select_branch sample_scan path)) \<and>
     path_to_root sample_state (sample_entry ''c'' (Some ''b'') 3) path"
  by (rule scanBranch_returns_path[OF storage_inv_sample sample_start])

text \<open>
  C5: Branch scans can be paged: the scan that continues after the cursor of a non-empty page
  returns exactly the rest of the scan, in either order and with any filter.
\<close>

theorem scanBranch_paging:
  assumes "storage_inv s" "map_get (sst_entries s) (bs_start q) = Some e"
    and "scanBranch (q\<lparr>bs_cursor := None, bs_limit := Some (int n)\<rparr>) s = Some (Inr page)" "page \<noteq> []"
    and "scanBranch (q\<lparr>bs_cursor := Some (en_seq (last page)), bs_limit := None\<rparr>) s = Some (Inr rest)"
  shows "scanBranch (q\<lparr>bs_cursor := None, bs_limit := None\<rparr>) s = Some (Inr (page @ rest))"
proof -
  obtain path where path: "path_to_root s e path" by (rule path_to_root_exists[OF assms(1,2)])
  have scan: "scanBranch (q\<lparr>bs_cursor := c, bs_limit := l\<rparr>) s =
      Some (Inr (select_branch (q\<lparr>bs_cursor := c, bs_limit := l\<rparr>) path))" for c l
    by (rule scanBranch_path[OF _ path]) (simp add: assms(2))
  have dec: "sorted_wrt (\<lambda>x y. en_seq y < en_seq x) path" using path by (simp add: path_to_root_def)
  have "unpaged q = q\<lparr>bs_cursor := None, bs_limit := None\<rparr>" by (cases q) (simp add: unpaged_def)
  then show ?thesis
    using branch_page_continues[OF dec, where page = page and q = q and n = n] assms(3,4,5) by (simp add: scan)
qed

theorem scanBranch_paging_witness:
  "scanBranch (sample_scan\<lparr>bs_cursor := None, bs_limit := None\<rparr>) sample_state =
     Some (Inr ([sample_entry ''c'' (Some ''b'') 3, sample_entry ''b'' (Some ''a'') 2] @ [sample_entry ''a'' None 1]))"
proof (rule scanBranch_paging[OF storage_inv_sample sample_start, where n = 2])
  have path: "path_to_root sample_state (sample_entry ''c'' (Some ''b'') 3)
      [sample_entry ''c'' (Some ''b'') 3, sample_entry ''b'' (Some ''a'') 2, sample_entry ''a'' None 1]"
    by (simp add: path_to_root_def sample_state_def sample_commit sample_entry_def)
  have scan: "scanBranch (sample_scan\<lparr>bs_cursor := c, bs_limit := l\<rparr>) sample_state =
      Some (Inr (select_branch (sample_scan\<lparr>bs_cursor := c, bs_limit := l\<rparr>)
        [sample_entry ''c'' (Some ''b'') 3, sample_entry ''b'' (Some ''a'') 2, sample_entry ''a'' None 1]))" for c l
    by (rule scanBranch_path[OF _ path]) (simp add: sample_start)
  show "scanBranch (sample_scan\<lparr>bs_cursor := None, bs_limit := Some (int 2)\<rparr>) sample_state =
      Some (Inr [sample_entry ''c'' (Some ''b'') 3, sample_entry ''b'' (Some ''a'') 2])"
    unfolding scan
    by (simp add: select_branch_def sample_scan_def scan_stops_def scan_matches_def Let_def slice_to_def numeral_2_eq_2)
  show "scanBranch (sample_scan\<lparr>bs_cursor := Some (en_seq (last [sample_entry ''c'' (Some ''b'') 3,
      sample_entry ''b'' (Some ''a'') 2])), bs_limit := None\<rparr>) sample_state = Some (Inr [sample_entry ''a'' None 1])"
    unfolding scan
    by (simp add: select_branch_def sample_scan_def scan_stops_def scan_matches_def Let_def sample_entry_def)
qed simp

end
