(* ===== verification/Fork.thy ===== *)
theory Fork
  imports BranchScan
begin

text \<open>
  Forking a session: \<open>fork-policy.ts\<close> (which entries a branch fork selects, which stored values
  survive), \<open>InMemoryStorageState.createFork\<close> and the backend-neutral \<open>createForkSnapshot\<close> of
  \<open>fork.ts\<close>. The walk from the tip of the source branch follows parent links and is a partial
  function like the branch scan.
\<close>

section \<open>The policy\<close>

datatype fork_plan = TreePlan | BranchPlan jstring "jstring option"

text \<open>The \<open>while\<close> loop of \<open>selectBranchFork\<close>: found, destination tip and selected ids.\<close>

partial_function (option) select_fork_loop ::
  "(jstring \<Rightarrow> jstring option option) \<Rightarrow> jstring option \<Rightarrow> bool \<Rightarrow> jstring option \<Rightarrow> bool \<Rightarrow>
   jstring option \<Rightarrow> jstring list \<Rightarrow> (js_error + bool \<times> jstring option \<times> jstring list) option" where
  "select_fork_loop getParent requested before entryId found tip sel =
     (case entryId of
        None \<Rightarrow> Some (Inr (found, tip, sel))
      | Some i \<Rightarrow>
          (case getParent i of
             None \<Rightarrow> Some (Inl (CorruptSourceBranch i))
           | Some parentId \<Rightarrow>
               (if Some i = requested
                then select_fork_loop getParent requested before parentId True
                       (if before then parentId else Some i) (if before then sel else sel @ [i])
                else select_fork_loop getParent requested before parentId found tip
                       (if found then sel @ [i] else sel))))"

text \<open>\<open>sourceTip\<close> is \<open>string | null | undefined\<close>; the ids are the calls of \<open>selectEntry\<close>, in order.\<close>

definition selectBranchFork ::
  "jstring \<Rightarrow> jstring option \<Rightarrow> fork_position option \<Rightarrow> jstring option option \<Rightarrow>
   (jstring \<Rightarrow> jstring option option) \<Rightarrow> (js_error + fork_plan \<times> jstring list) option" where
  "selectBranchFork branch entryId position sourceTip getParent =
     (case sourceTip of
        None \<Rightarrow> Some (Inl (UnknownSourceBranch branch))
      | Some tip \<Rightarrow>
          (let requested = (case entryId of None \<Rightarrow> tip | Some i \<Rightarrow> Some i)
           in map_option (\<lambda>r. ebind r (\<lambda>(found, destinationTip, ids).
                if \<not> found then Inl (ForkEntryNotOnBranch requested)
                else Inr (BranchPlan branch destinationTip, ids)))
              (select_fork_loop getParent requested (position = Some Before) tip (requested = None)
                 None [])))"

text \<open>\<open>CommittedValueSetWrite | CommittedListAppendWrite\<close>: a current value or list element.\<close>

record current_write =
  cu_kind :: address_kind
  cu_seq :: int
  cu_namespace :: jstring
  cu_key :: jstring
  cu_value :: stored

definition idle_lane_state :: durable_lane_state where
  "idle_lane_state = \<lparr>dl_currentOperationId = None, dl_lastOperationId = None, dl_inbox = []\<rparr>"

definition projectForkCurrentStateWrite ::
  "current_write \<Rightarrow> fork_plan \<Rightarrow> (jstring \<Rightarrow> bool) \<Rightarrow> js_error + current_write option" where
  "projectForkCurrentStateWrite w plan isEntryCopied =
     (if cu_namespace w = ns_session_name then Inr (Some w)
      else if cu_namespace w = ns_entry_label then
        Inr (if isEntryCopied (cu_key w) then Some w else None)
      else if cu_namespace w = ns_branch_tip then
        (case plan of
           TreePlan \<Rightarrow> Inr (Some w)
         | BranchPlan branch tip \<Rightarrow>
             Inr (if cu_key w = branch then Some (w\<lparr>cu_value := VTip tip\<rparr>) else None))
      else if cu_namespace w = ns_lane_config then
        (case plan of
           TreePlan \<Rightarrow> Inr (Some w)
         | BranchPlan branch tip \<Rightarrow> Inr (if cu_key w = branch then Some w else None))
      else if cu_namespace w = ns_lane_state then
        (case plan of
           TreePlan \<Rightarrow> Inr (Some (w\<lparr>cu_value := VLaneState idle_lane_state\<rparr>))
         | BranchPlan branch tip \<Rightarrow>
             Inr (if cu_key w = branch then Some (w\<lparr>cu_value := VLaneState idle_lane_state\<rparr>) else None))
      else if cu_namespace w = ns_result then Inr None
      else if prefix (js ''pi.op.'') (cu_namespace w) \<or> prefix (js ''pi.pending.'') (cu_namespace w)
        then Inr None
      else if cu_namespace w = js ''pi'' \<or> prefix (js ''pi.'') (cu_namespace w)
        then Inl (UnknownReservedNamespace (cu_namespace w))
      else (case plan of TreePlan \<Rightarrow> Inr (Some w) | BranchPlan branch tip \<Rightarrow> Inr None))"

section \<open>Forking the materialized state\<close>

fun fork_copies :: "fork_plan \<times> jstring list \<Rightarrow> jstring \<Rightarrow> bool" where
  "fork_copies (TreePlan, ids) i \<longleftrightarrow> True"
| "fork_copies (BranchPlan branch tip, ids) i \<longleftrightarrow> i \<in> set ids"

fun fork_entries :: "(jstring \<Rightarrow> bool) \<Rightarrow> entry list \<Rightarrow> storage_state \<Rightarrow> int \<Rightarrow> storage_state \<times> int" where
  "fork_entries copied [] d n = (d, n)"
| "fork_entries copied (e # es) d n =
     (if copied (en_id e)
      then fork_entries copied es
             (d\<lparr>sst_entries := map_set (en_id e) e (sst_entries d),
                sst_entriesBySeq := sst_entriesBySeq d @ [e]\<rparr>)
             (if en_type e = MessageType then n + 1 else n)
      else fork_entries copied es d n)"

definition applyValueSetOrListAppend :: "current_write \<Rightarrow> storage_state \<Rightarrow> js_error + storage_state" where
  "applyValueSetOrListAppend w d =
     (case cu_kind w of
        ValueKind \<Rightarrow> applyValueSet (cu_seq w) (cu_namespace w) (cu_key w) (cu_value w) d
      | ListKind \<Rightarrow> applyListAppend (cu_seq w) (cu_namespace w) (cu_key w) (cu_value w) d)"

fun fork_values :: "fork_plan \<Rightarrow> (jstring \<Rightarrow> bool) \<Rightarrow> current_write list \<Rightarrow> storage_state \<Rightarrow>
    js_error + storage_state" where
  "fork_values plan copied [] d = Inr d"
| "fork_values plan copied (w # ws) d =
     ebind (projectForkCurrentStateWrite w plan copied) (\<lambda>projected.
       case projected of
         None \<Rightarrow> fork_values plan copied ws d
       | Some w' \<Rightarrow> ebind (applyValueSetOrListAppend w' d) (fork_values plan copied ws))"

definition current_value :: "stored_value \<Rightarrow> current_write" where
  "current_value v = \<lparr>cu_kind = ValueKind, cu_seq = sv_seq v, cu_namespace = ad_namespace (sv_address v),
     cu_key = ad_key (sv_address v), cu_value = sv_value v\<rparr>"

definition current_elements :: "stored_list \<Rightarrow> current_write list" where
  "current_elements l = map (\<lambda>x. \<lparr>cu_kind = ListKind, cu_seq = le_seq x,
     cu_namespace = ad_namespace (sl_address l), cu_key = ad_key (sl_address l),
     cu_value = le_value x\<rparr>) (sl_elements l)"

definition selectForkPlan :: "fork_options \<Rightarrow> storage_state \<Rightarrow>
    (js_error + fork_plan \<times> jstring list) option" where
  "selectForkPlan options s =
     (case options of
        ForkTree sid \<Rightarrow> Some (Inr (TreePlan, []))
      | ForkBranch branch entryId position sid \<Rightarrow>
          (case ebind (branchTip branch) (\<lambda>a. case getValue a s of
                    None \<Rightarrow> Inr None | Some v \<Rightarrow> ebind (as_tip (sv_value v)) (\<lambda>t. Inr (Some t))) of
             Inl e \<Rightarrow> Some (Inl e)
           | Inr tip \<Rightarrow>
               map_option (\<lambda>r. ebind r (\<lambda>plan.
                   ebind (laneConfig branch) (\<lambda>c. ebind (laneState branch) (\<lambda>l.
                     if getValue c s = None \<or> getValue l s = None then Inl (NotConfiguredLane branch)
                     else Inr plan))))
                 (selectBranchFork branch entryId position tip
                    (\<lambda>i. map_option en_parentId (map_get (sst_entries s) i)))))"

definition createFork :: "fork_options \<Rightarrow> storage_state \<Rightarrow> (js_error + storage_state) option" where
  "createFork options s =
     map_option (\<lambda>r. ebind r (\<lambda>plan.
       (let copied = fork_copies plan;
            (d1, messageCount) = fork_entries copied (sst_entriesBySeq s) empty_storage 0;
            d2 = d1\<lparr>sst_stats := (sst_stats d1)\<lparr>ss_messageCount := messageCount\<rparr>\<rparr>
        in ebind (fork_values (fst plan) copied (map current_value (map_values (sst_scalarValues s))) d2)
             (\<lambda>d3. ebind (fork_values (fst plan) copied
                             (concat (map current_elements (map_values (sst_listValues s)))) d3)
               (\<lambda>d4. Inr (d4\<lparr>sst_nextSeq := sst_nextSeq s\<rparr>))))))
     (selectForkPlan options s)"

section \<open>Forking a snapshot\<close>

record fork_source_snapshot =
  fs_entries :: "entry list"
  fs_scalarValues :: "stored_value list"
  fs_entriesComplete :: "bool option"

record fork_destination_snapshot =
  fd_entries :: "(jstring, entry) jsmap"
  fd_scalarValues :: "stored_value list"
  fd_nextSeq :: int

definition storedValuesInNamespace :: "stored_value list \<Rightarrow> address \<Rightarrow> stored_value list" where
  "storedValuesInNamespace vals a =
     filter (\<lambda>v. ad_namespace (sv_address v) = ad_namespace a) vals"

definition findStoredValue :: "stored_value list \<Rightarrow> address \<Rightarrow> stored_value option" where
  "findStoredValue vals a =
     find (\<lambda>v. ad_namespace (sv_address v) = ad_namespace a \<and> ad_key (sv_address v) = ad_key a) vals"

fun check_lane_tips :: "jstring list \<Rightarrow> stored_value list \<Rightarrow> js_error + unit" where
  "check_lane_tips tipKeys [] = Inr ()"
| "check_lane_tips tipKeys (v # vs) =
     (if (ad_namespace (sv_address v) = ns_lane_config \<or> ad_namespace (sv_address v) = ns_lane_state) \<and>
         ad_key (sv_address v) \<notin> set tipKeys
      then Inl (BranchMissingTip (ad_key (sv_address v)))
      else check_lane_tips tipKeys vs)"

definition check_tip :: "fork_source_snapshot \<Rightarrow> (jstring, entry) jsmap \<Rightarrow> fork_options \<Rightarrow>
    stored_value \<Rightarrow> js_error + unit" where
  "check_tip source sourceEntries options tip =
     ebind (laneConfig (ad_key (sv_address tip))) (\<lambda>c. ebind (laneState (ad_key (sv_address tip))) (\<lambda>l.
       (let configuration = findStoredValue (fs_scalarValues source) c;
            state = findStoredValue (fs_scalarValues source) l
        in if (configuration = None) \<noteq> (state = None)
           then Inl (IncompleteLaneState (ad_key (sv_address tip)))
           else if (case options of
                      ForkBranch branch entryId position sid \<Rightarrow>
                        ad_key (sv_address tip) = branch \<and> configuration = None
                    | ForkTree sid \<Rightarrow> False)
           then Inl (NotConfiguredLane (ad_key (sv_address tip)))
           else ebind (as_tip (sv_value tip)) (\<lambda>t.
             if (fs_entriesComplete source \<noteq> Some False \<or>
                   (case options of ForkTree sid \<Rightarrow> True | ForkBranch b e p sid \<Rightarrow> False)) \<and>
                 (case t of None \<Rightarrow> False | Some i \<Rightarrow> \<not> map_has sourceEntries i)
             then Inl (UnknownTip (ad_key (sv_address tip)))
             else Inr ()))))"

definition validateForkSourceSnapshot :: "fork_source_snapshot \<Rightarrow> (jstring, entry) jsmap \<Rightarrow>
    stored_value list \<Rightarrow> fork_options \<Rightarrow> js_error + unit" where
  "validateForkSourceSnapshot source sourceEntries sourceTips options =
     ebind (check_lane_tips (map (\<lambda>v. ad_key (sv_address v)) sourceTips) (fs_scalarValues source)) (\<lambda>_.
       ebind (esequence (map (check_tip source sourceEntries options) sourceTips)) (\<lambda>_. Inr ()))"

definition selectForkContents :: "(jstring, entry) jsmap \<Rightarrow> stored_value list \<Rightarrow> fork_options \<Rightarrow>
    (js_error + fork_plan \<times> jstring list) option" where
  "selectForkContents sourceEntries sourceTips options =
     (case options of
        ForkTree sid \<Rightarrow> Some (Inr (TreePlan, map fst sourceEntries))
      | ForkBranch branch entryId position sid \<Rightarrow>
          (case find (\<lambda>v. ad_key (sv_address v) = branch) sourceTips of
             None \<Rightarrow> selectBranchFork branch entryId position None
               (\<lambda>i. map_option en_parentId (map_get sourceEntries i))
           | Some v \<Rightarrow>
               (case as_tip (sv_value v) of
                  Inl e \<Rightarrow> Some (Inl e)
                | Inr t \<Rightarrow> selectBranchFork branch entryId position (Some t)
                    (\<lambda>i. map_option en_parentId (map_get sourceEntries i)))))"

fun fork_snapshot_values :: "fork_plan \<Rightarrow> (jstring \<Rightarrow> bool) \<Rightarrow> stored_value list \<Rightarrow> int \<Rightarrow>
    js_error + stored_value list \<times> int" where
  "fork_snapshot_values plan copied [] n = Inr ([], n)"
| "fork_snapshot_values plan copied (v # vs) n =
     ebind (projectForkCurrentStateWrite (current_value v) plan copied) (\<lambda>projected.
       case projected of
         None \<Rightarrow> fork_snapshot_values plan copied vs n
       | Some w \<Rightarrow> ebind (mkValue (cu_namespace w) (cu_key w)) (\<lambda>a.
           ebind (fork_snapshot_values plan copied vs (n + 1)) (\<lambda>(out, n').
             Inr (\<lparr>sv_address = a, sv_value = cu_value w, sv_seq = n\<rparr> # out, n'))))"

definition entry_map :: "entry list \<Rightarrow> (jstring, entry) jsmap" where
  "entry_map es = fold (\<lambda>e m. map_set (en_id e) e m) es []"

definition createForkSnapshot :: "fork_source_snapshot \<Rightarrow> fork_options \<Rightarrow>
    (js_error + fork_destination_snapshot) option" where
  "createForkSnapshot source options =
     (let sourceEntries = entry_map (fs_entries source) in
      case ebind branchTipInventoryPrefix (\<lambda>a.
             (let sourceTips = storedValuesInNamespace (fs_scalarValues source) a in
              ebind (validateForkSourceSnapshot source sourceEntries sourceTips options)
                (\<lambda>_. Inr sourceTips))) of
        Inl e \<Rightarrow> Some (Inl e)
      | Inr sourceTips \<Rightarrow>
          map_option (\<lambda>r. ebind r (\<lambda>(plan, entryIds).
            (let entries = fold (\<lambda>i m. case map_get sourceEntries i of
                             None \<Rightarrow> m | Some e \<Rightarrow> map_set i e m) entryIds [];
                 nextSeq = Max (set (0 # map en_seq (map_values entries))) + 1
             in ebind (fork_snapshot_values plan (\<lambda>i. i \<in> set entryIds) (fs_scalarValues source) nextSeq)
                  (\<lambda>(vals, n). Inr \<lparr>fd_entries = entries, fd_scalarValues = vals, fd_nextSeq = n\<rparr>))))
          (selectForkContents sourceEntries sourceTips options))"

end
