(* ===== verification/ForkFacts.thy ===== *)
theory ForkFacts
  imports Fork
begin

text \<open>
  What a fork of the materialized state promises: it keeps the storage invariant, a branch fork
  copies exactly the part of the branch at or below the fork entry, and no operation, pending or
  result slot survives.
\<close>

section \<open>The selected entries\<close>

abbreviation parent_of :: "storage_state \<Rightarrow> jstring \<Rightarrow> jstring option option" where
  "parent_of s \<equiv> \<lambda>i. map_option en_parentId (map_get (sst_entries s) i)"

definition indexed :: "(jstring \<Rightarrow> entry option) \<Rightarrow> entry list \<Rightarrow> bool" where
  "indexed get path \<longleftrightarrow> (\<forall>e \<in> set path. get (en_id e) = Some e)"

abbreviation fork_loop where
  "fork_loop get \<equiv> select_fork_loop (\<lambda>i. map_option en_parentId (get i))"

lemma fork_loop_step:
  assumes "get (en_id e) = Some e"
  shows "fork_loop get r b (Some (en_id e)) f t sel =
    (if Some (en_id e) = r
     then fork_loop get r b (en_parentId e) True
            (if b then en_parentId e else Some (en_id e)) (if b then sel else sel @ [en_id e])
     else fork_loop get r b (en_parentId e) f t (if f then sel @ [en_id e] else sel))"
  using assms by (subst select_fork_loop.simps) simp

lemma fork_loop_end: "fork_loop get r b None f t sel = Some (Inr (f, t, sel))"
  by (subst select_fork_loop.simps) simp

text \<open>The key of an entry in the index is its id, so a parent link names the next entry.\<close>

lemma parent_path_link:
  assumes "entries_wf s" "parent_path (map_get (sst_entries s)) (e # e' # es)"
  shows "en_parentId e = Some (en_id e')"
  using assms entries_lookup[OF assms(1)] by (auto split: option.splits)

lemma path_indexed:
  assumes "entries_wf s" "set path \<subseteq> set (sst_entriesBySeq s)"
  shows "indexed (map_get (sst_entries s)) path"
  using assms entries_lookup[OF assms(1)] by (auto simp: indexed_def)

lemma fork_loop_path:
  assumes "entries_wf s" "parent_path (map_get (sst_entries s)) path"
    "set path \<subseteq> set (sst_entriesBySeq s)" "\<forall>x \<in> set path. r \<noteq> Some (en_id x)"
  shows "fork_loop (map_get (sst_entries s)) r b (Some (en_id (hd path))) f t sel =
    Some (Inr (f, t, if f then sel @ map en_id path else sel))"
  using assms(2,3,4)
proof (induction path arbitrary: sel)
  case (Cons e es)
  have get: "map_get (sst_entries s) (en_id e) = Some e"
    using entries_lookup[OF assms(1)] Cons.prems(2) by simp
  note step = fork_loop_step[of "map_get (sst_entries s)", OF get]
  show ?case
  proof (cases es)
    case Nil
    then show ?thesis using Cons.prems by (auto simp: step fork_loop_end)
  next
    case (Cons e' es')
    have "en_parentId e = Some (en_id e')"
      using parent_path_link[OF assms(1)] \<open>parent_path _ (e # es)\<close> Cons by blast
    moreover have "parent_path (map_get (sst_entries s)) es"
      using \<open>parent_path _ (e # es)\<close> Cons by simp
    ultimately show ?thesis
      using Cons.IH[of "if f then sel @ [en_id e] else sel"] Cons.prems Cons
      by (auto simp: step)
  qed
qed simp

lemma fork_loop_found:
  assumes wf: "entries_wf s" and path: "parent_path (map_get (sst_entries s)) (pre @ e # post)"
    and sub: "set (pre @ e # post) \<subseteq> set (sst_entriesBySeq s)"
    and distinct: "distinct (map en_id (pre @ e # post))"
  shows "fork_loop (map_get (sst_entries s)) (Some (en_id e)) b (Some (en_id (hd (pre @ [e])))) False t sel =
    Some (Inr (True, if b then en_parentId e else Some (en_id e),
      if b then sel @ map en_id post else sel @ map en_id (e # post)))"
  using path sub distinct
proof (induction pre)
  case Nil
  have get: "map_get (sst_entries s) (en_id e) = Some e"
    using entries_lookup[OF wf] Nil.prems(2) by simp
  note step = fork_loop_step[of "map_get (sst_entries s)", OF get]
  note path = Nil.prems(1)
  show ?case
  proof (cases post)
    case Nil
    then show ?thesis using path
      by (auto simp: step fork_loop_end parent_path_Cons split: option.splits)
  next
    case (Cons e' es')
    have "en_parentId e = Some (en_id (hd post))" "parent_path (map_get (sst_entries s)) post"
      using parent_path_link[OF wf] path Cons by auto
    then show ?thesis
      using fork_loop_path[OF wf, of post "Some (en_id e)" b True] Nil.prems Cons
      by (auto simp: step image_iff)
  qed
next
  case (Cons x pre)
  have get: "map_get (sst_entries s) (en_id x) = Some x"
    using entries_lookup[OF wf] Cons.prems(2) by simp
  note step = fork_loop_step[of "map_get (sst_entries s)", OF get]
  obtain y ys where next': "pre @ e # post = y # ys" "hd (pre @ [e]) = y" by (cases pre) auto
  have "en_parentId x = Some (en_id y)" "parent_path (map_get (sst_entries s)) (pre @ e # post)"
    using parent_path_link[OF wf] Cons.prems(1) next' by auto
  moreover have "en_id x \<noteq> en_id e" "set (pre @ e # post) \<subseteq> set (sst_entriesBySeq s)"
    "distinct (map en_id (pre @ e # post))"
    using Cons.prems(2,3) by auto
  ultimately show ?case
    using Cons.IH next'(2) by (simp add: step)
qed

section \<open>The copied entries\<close>

lemma fork_entries_eq:
  assumes "sst_entries d = map (\<lambda>e. (en_id e, e)) (sst_entriesBySeq d)"
    and "distinct (map en_id (sst_entriesBySeq d @ es))"
  shows "fork_entries copied es d n =
    (d\<lparr>sst_entries := map (\<lambda>e. (en_id e, e)) (sst_entriesBySeq d @ filter (copied \<circ> en_id) es),
       sst_entriesBySeq := sst_entriesBySeq d @ filter (copied \<circ> en_id) es\<rparr>,
     n + message_count (filter (copied \<circ> en_id) es))"
  using assms
proof (induction es arbitrary: d n)
  case (Cons e es)
  have fresh: "en_id e \<notin> fst ` set (sst_entries d)" using Cons.prems by (auto simp: image_image)
  let ?d = "d\<lparr>sst_entries := map_set (en_id e) e (sst_entries d),
              sst_entriesBySeq := sst_entriesBySeq d @ [e]\<rparr>"
  have "sst_entries ?d = map (\<lambda>e. (en_id e, e)) (sst_entriesBySeq ?d)"
    using Cons.prems(1) map_set_fresh[OF fresh] by simp
  then show ?case
    using Cons.IH[of ?d] Cons.IH[of d] Cons.prems map_set_fresh[OF fresh]
    by (auto simp: message_count_def)
qed (simp add: message_count_def)

lemma entry_tree_filter:
  assumes "entry_tree es"
    and "\<forall>e \<in> set es. \<forall>p. copied (en_id e) \<longrightarrow> en_parentId e = Some p \<longrightarrow> copied p"
  shows "entry_tree (filter (copied \<circ> en_id) es)"
proof -
  have "distinct (map en_id (filter (copied \<circ> en_id) es))"
    using assms(1) by (auto simp: entry_tree_def intro: distinct_map_filter)
  moreover have "sorted_wrt (<) (map en_seq (filter (copied \<circ> en_id) es))"
    using assms(1) by (auto simp: entry_tree_def sorted_wrt_map intro: sorted_wrt_filter)
  moreover have "parents_earlier (filter (copied \<circ> en_id) es)"
    using assms unfolding entry_tree_def parents_earlier_def by fastforce
  ultimately show ?thesis by (simp add: entry_tree_def)
qed

section \<open>The projected values\<close>

lemma project_fields:
  assumes "projectForkCurrentStateWrite w plan copied = Inr (Some w')"
  shows "cu_kind w' = cu_kind w" "cu_seq w' = cu_seq w" "cu_namespace w' = cu_namespace w"
    "cu_key w' = cu_key w"
  using assms by (auto simp: projectForkCurrentStateWrite_def split: if_splits fork_plan.splits)

lemma apply_current_fields:
  assumes "applyValueSetOrListAppend w d = Inr d'"
  shows "sst_entries d' = sst_entries d" "sst_entriesBySeq d' = sst_entriesBySeq d"
    "sst_usage d' = sst_usage d" "sst_stats d' = sst_stats d" "sst_nextSeq d' = sst_nextSeq d"
    "cu_kind w = ValueKind \<Longrightarrow> sst_listValues d' = sst_listValues d"
    "cu_kind w = ListKind \<Longrightarrow> sst_scalarValues d' = sst_scalarValues d"
  using assms applyValueSet_fields applyListAppend_fields
  by (auto simp: applyValueSetOrListAppend_def split: address_kind.splits)

lemma fork_values_fields:
  assumes "fork_values plan copied ws d = Inr d'"
  shows "sst_entries d' = sst_entries d \<and> sst_entriesBySeq d' = sst_entriesBySeq d \<and>
    sst_usage d' = sst_usage d \<and> sst_stats d' = sst_stats d \<and> sst_nextSeq d' = sst_nextSeq d"
  using assms
proof (induction ws arbitrary: d)
  case (Cons w ws)
  then show ?case using apply_current_fields by (fastforce split: option.splits)
qed simp

lemma fork_values_lists_frame:
  assumes "fork_values plan copied ws d = Inr d'" "\<forall>w \<in> set ws. cu_kind w = ValueKind"
  shows "sst_listValues d' = sst_listValues d"
  using assms
proof (induction ws arbitrary: d)
  case (Cons w ws)
  then show ?case
    using apply_current_fields(6) project_fields(1) by (fastforce split: option.splits)
qed simp

lemma fork_values_scalars_frame:
  assumes "fork_values plan copied ws d = Inr d'" "\<forall>w \<in> set ws. cu_kind w = ListKind"
  shows "sst_scalarValues d' = sst_scalarValues d"
  using assms
proof (induction ws arbitrary: d)
  case (Cons w ws)
  then show ?case
    using apply_current_fields(7) project_fields(1) by (fastforce split: option.splits)
qed simp


lemma fork_values_scalars_all:
  assumes "fork_values plan copied ws d = Inr d'" "\<forall>w \<in> set ws. cu_kind w = ValueKind"
    and "\<And>w w' a. w \<in> set ws \<Longrightarrow> projectForkCurrentStateWrite w plan copied = Inr (Some w') \<Longrightarrow>
      mkValue (cu_namespace w') (cu_key w') = Inr a \<Longrightarrow>
      P (physicalKey (cu_namespace w') (cu_key w'),
         \<lparr>sv_address = a, sv_value = cu_value w', sv_seq = cu_seq w'\<rparr>)"
    and "\<forall>x \<in> set (sst_scalarValues d). P x" "distinct (map fst (sst_scalarValues d))"
  shows "(\<forall>x \<in> set (sst_scalarValues d'). P x) \<and> distinct (map fst (sst_scalarValues d'))"
  using assms
proof (induction ws arbitrary: d)
  case (Cons w ws)
  obtain out where out: "projectForkCurrentStateWrite w plan copied = Inr out"
    using Cons.prems(1) by auto
  show ?case
  proof (cases out)
    case None
    then show ?thesis using Cons out by auto
  next
    case (Some w')
    then obtain d1 where d1: "applyValueSetOrListAppend w' d = Inr d1" "fork_values plan copied ws d1 = Inr d'"
      using Cons.prems(1) out by auto
    have "cu_kind w' = ValueKind" using project_fields(1) out Some Cons.prems(2) by force
    then obtain a where a: "mkValue (cu_namespace w') (cu_key w') = Inr a"
      "sst_scalarValues d1 = map_set (physicalKey (cu_namespace w') (cu_key w'))
         \<lparr>sv_address = a, sv_value = cu_value w', sv_seq = cu_seq w'\<rparr> (sst_scalarValues d)"
      using d1(1) by (auto simp: applyValueSetOrListAppend_def applyValueSet_def)
    have "P (physicalKey (cu_namespace w') (cu_key w'),
        \<lparr>sv_address = a, sv_value = cu_value w', sv_seq = cu_seq w'\<rparr>)"
      using Cons.prems(3)[of w w' a] out Some a(1) by simp
    then have "\<forall>x \<in> set (sst_scalarValues d1). P x" "distinct (map fst (sst_scalarValues d1))"
      using Cons.prems(4,5) set_update_subset unfolding a(2) by (fastforce, simp add: distinct_update)
    then show ?thesis using Cons.IH[OF d1(2)] Cons.prems(2,3) by auto
  qed
qed simp

text \<open>Elements reach a list of the destination in the order of their sequence numbers.\<close>

abbreviation write_key :: "current_write \<Rightarrow> jstring" where
  "write_key w \<equiv> physicalKey (cu_namespace w) (cu_key w)"

definition appends_ordered :: "int \<Rightarrow> current_write list \<Rightarrow> storage_state \<Rightarrow> bool" where
  "appends_ordered N ws d \<longleftrightarrow>
     sorted_wrt (\<lambda>a b. write_key a = write_key b \<longrightarrow> cu_seq a < cu_seq b) ws \<and>
     (\<forall>w \<in> set ws. cu_kind w = ListKind \<and> cu_seq w < N \<and>
        (\<forall>l. map_get (sst_listValues d) (write_key w) = Some l \<longrightarrow>
           (\<forall>x \<in> set (sl_elements l). le_seq x < cu_seq w))) \<and>
     distinct (map fst (sst_listValues d)) \<and> (\<forall>(k, l) \<in> set (sst_listValues d). list_wf N k l)"

lemma appends_ordered_step:
  assumes ord: "appends_ordered N (w # ws) d" and ap: "applyValueSetOrListAppend w' d = Inr d1"
    and same: "cu_kind w' = cu_kind w" "cu_seq w' = cu_seq w" "cu_namespace w' = cu_namespace w"
      "cu_key w' = cu_key w"
  shows "appends_ordered N ws d1"
proof -
  let ?k = "write_key w" and ?x = "\<lparr>le_seq = cu_seq w, le_value = cu_value w'\<rparr>"
  have kind: "cu_kind w = ListKind" and below: "cu_seq w < N" using ord by (auto simp: appends_ordered_def)
  define old where "old = (case map_get (sst_listValues d) ?k of None \<Rightarrow> [] | Some l \<Rightarrow> sl_elements l)"
  have old: "\<forall>x \<in> set old. le_seq x < cu_seq w" "sorted_wrt (<) (map le_seq old)"
    using ord by (auto simp: appends_ordered_def old_def list_wf_def split: option.splits dest!: map_of_SomeD)
  obtain a where a: "mkList (ad_namespace a) (ad_key a) = Inr a" "?k = physicalKey (ad_namespace a) (ad_key a)"
    and d1: "sst_listValues d1 = map_set ?k \<lparr>sl_address = a, sl_elements = old @ [?x]\<rparr> (sst_listValues d)"
  proof (cases "map_get (sst_listValues d) ?k")
    case None
    then obtain a where "mkList (cu_namespace w) (cu_key w) = Inr a"
      "sst_listValues d1 = map_set ?k \<lparr>sl_address = a, sl_elements = [?x]\<rparr> (sst_listValues d)"
      using ap kind same by (auto simp: applyValueSetOrListAppend_def applyListAppend_def Let_def)
    then show thesis by (intro that[of a]) (auto simp: old_def None mkList_eq_Inr)
  next
    case (Some l)
    then have "list_wf N ?k l" using ord by (auto simp: appends_ordered_def dest!: map_of_SomeD)
    moreover have "sst_listValues d1 = map_set ?k \<lparr>sl_address = sl_address l, sl_elements = old @ [?x]\<rparr> (sst_listValues d)"
      using ap kind same Some
      by (cases l) (auto simp: applyValueSetOrListAppend_def applyListAppend_def Let_def old_def)
    ultimately show thesis by (intro that[of "sl_address l"]) (auto simp: list_wf_def)
  qed
  have "list_wf N ?k \<lparr>sl_address = a, sl_elements = old @ [?x]\<rparr>"
    using a old below by (auto simp: list_wf_def sorted_wrt_append)
  then have "\<forall>(k, l) \<in> set (sst_listValues d1). list_wf N k l"
    using ord set_update_subset[of ?k _ "sst_listValues d"]
    unfolding d1 by (fastforce simp: appends_ordered_def)
  moreover have "distinct (map fst (sst_listValues d1))"
    using ord by (simp add: d1 distinct_update appends_ordered_def)
  moreover have "\<forall>x \<in> set (sl_elements l). le_seq x < cu_seq v"
    if "v \<in> set ws" "map_get (sst_listValues d1) (write_key v) = Some l" for v l
  proof (cases "write_key v = ?k")
    case True
    have "cu_seq w < cu_seq v" using ord that(1) True by (auto simp: appends_ordered_def)
    then show ?thesis using that(2) True old(1) by (fastforce simp: d1 update_conv')
  next
    case False
    then show ?thesis using that ord by (auto simp: d1 update_conv' appends_ordered_def)
  qed
  ultimately show ?thesis using ord by (auto simp: appends_ordered_def)
qed

lemma fork_values_lists:
  assumes "fork_values plan copied ws d = Inr d'" "appends_ordered N ws d"
  shows "distinct (map fst (sst_listValues d')) \<and> (\<forall>(k, l) \<in> set (sst_listValues d'). list_wf N k l)"
  using assms
proof (induction ws arbitrary: d)
  case Nil
  then show ?case by (simp add: appends_ordered_def)
next
  case (Cons w ws)
  have tail: "appends_ordered N ws d" using Cons.prems(2) by (auto simp: appends_ordered_def)
  obtain out where out: "projectForkCurrentStateWrite w plan copied = Inr out"
    using Cons.prems(1) by auto
  show ?case
  proof (cases out)
    case None
    then show ?thesis using Cons tail out by auto
  next
    case (Some w')
    then obtain d1 where d1: "applyValueSetOrListAppend w' d = Inr d1" "fork_values plan copied ws d1 = Inr d'"
      using Cons.prems(1) out by auto
    have "projectForkCurrentStateWrite w plan copied = Inr (Some w')" using out Some by simp
    from appends_ordered_step[OF Cons.prems(2) d1(1) project_fields[OF this]]
    show ?thesis by (rule Cons.IH[OF d1(2)])
  qed
qed

lemma appends_ordered_source:
  assumes "lists_wf s" "sst_listValues d = []"
  shows "appends_ordered (sst_nextSeq s) (concat (map current_elements (map_values (sst_listValues s)))) d"
proof -
  let ?R = "\<lambda>a b. write_key a = write_key b \<longrightarrow> cu_seq a < cu_seq b"
  have key: "\<forall>w \<in> set (current_elements l). write_key w = k"
    if "list_wf n k l" for n k l
    using that by (auto simp: current_elements_def list_wf_def)
  have one: "sorted_wrt ?R (current_elements l)" if "list_wf n k l" for n k l
    using that by (auto simp: current_elements_def list_wf_def sorted_wrt_map elim: sorted_wrt_mono_rel[rotated])
  have "distinct (map fst m) \<Longrightarrow> \<forall>(k, l) \<in> set m. list_wf n k l \<Longrightarrow>
      sorted_wrt ?R (concat (map current_elements (map_values m)))" for m n
  proof (induction m)
    case (Cons kl m)
    obtain k l where kl: "kl = (k, l)" by (cases kl)
    have "?R a b" if mem: "a \<in> set (current_elements l)" "b \<in> set (concat (map current_elements (map_values m)))" for a b
    proof -
      obtain k' l' where "(k', l') \<in> set m" "b \<in> set (current_elements l')"
        using mem(2) by (auto simp: map_values_def)
      then have "write_key b = k'" "k' \<noteq> k" using key Cons.prems kl by (fastforce simp: image_iff)+
      moreover have "write_key a = k" using key mem(1) Cons.prems(2) kl by auto
      ultimately show ?thesis by simp
    qed
    then show ?case using Cons one kl by (auto simp: map_values_def sorted_wrt_append)
  qed (simp add: map_values_def)
  then show ?thesis
    using assms by (auto simp: appends_ordered_def lists_wf_def map_values_def current_elements_def list_wf_def)
qed


section \<open>The destination\<close>

definition fork_base :: "(jstring \<Rightarrow> bool) \<Rightarrow> storage_state \<Rightarrow> storage_state" where
  "fork_base copied s = empty_storage
     \<lparr>sst_entries := map (\<lambda>e. (en_id e, e)) (filter (copied \<circ> en_id) (sst_entriesBySeq s)),
      sst_entriesBySeq := filter (copied \<circ> en_id) (sst_entriesBySeq s),
      sst_stats := \<lparr>ss_messageCount = message_count (filter (copied \<circ> en_id) (sst_entriesBySeq s)),
        ss_usage = emptyUsage\<rparr>\<rparr>"

abbreviation source_values :: "storage_state \<Rightarrow> current_write list" where
  "source_values s \<equiv> map current_value (map_values (sst_scalarValues s))"

abbreviation source_elements :: "storage_state \<Rightarrow> current_write list" where
  "source_elements s \<equiv> concat (map current_elements (map_values (sst_listValues s)))"

lemma createFork_plan:
  assumes "entries_wf s" "selectForkPlan options s = Some (Inr plan)"
  shows "createFork options s = Some
    (ebind (fork_values (fst plan) (fork_copies plan) (source_values s) (fork_base (fork_copies plan) s)) (\<lambda>d3.
       ebind (fork_values (fst plan) (fork_copies plan) (source_elements s) d3) (\<lambda>d4.
         Inr (d4\<lparr>sst_nextSeq := sst_nextSeq s\<rparr>))))"
proof -
  have "fork_entries (fork_copies plan) (sst_entriesBySeq s) empty_storage 0 =
    (empty_storage\<lparr>sst_entries := map (\<lambda>e. (en_id e, e)) (filter (fork_copies plan \<circ> en_id) (sst_entriesBySeq s)),
       sst_entriesBySeq := filter (fork_copies plan \<circ> en_id) (sst_entriesBySeq s)\<rparr>,
     message_count (filter (fork_copies plan \<circ> en_id) (sst_entriesBySeq s)))"
    using assms(1) by (subst fork_entries_eq) (auto simp: empty_storage_def entries_wf_def entry_tree_def)
  then show ?thesis
    unfolding createFork_def assms(2) by (simp add: Let_def fork_base_def empty_storage_def)
qed

lemma createFork_cases:
  assumes "entries_wf s" "createFork options s = Some (Inr d)"
  obtains plan d3 d4 where "selectForkPlan options s = Some (Inr plan)"
    "fork_values (fst plan) (fork_copies plan) (source_values s) (fork_base (fork_copies plan) s) = Inr d3"
    "fork_values (fst plan) (fork_copies plan) (source_elements s) d3 = Inr d4"
    "d = d4\<lparr>sst_nextSeq := sst_nextSeq s\<rparr>"
proof -
  obtain r where "selectForkPlan options s = Some r" using assms(2) by (auto simp: createFork_def)
  moreover obtain plan where "r = Inr plan"
    using assms(2) calculation by (cases r) (auto simp: createFork_def)
  ultimately have plan: "selectForkPlan options s = Some (Inr plan)" by simp
  show thesis
    using assms(2) plan by (auto simp: createFork_plan[OF assms(1) plan] intro: that)
qed

lemma source_values_kind: "\<forall>w \<in> set (source_values s). cu_kind w = ValueKind"
  by (auto simp: current_value_def)

lemma source_elements_kind: "\<forall>w \<in> set (source_elements s). cu_kind w = ListKind"
  by (auto simp: current_elements_def)

text \<open>A plan copies with an entry its parent.\<close>

definition parent_closed :: "storage_state \<Rightarrow> (jstring \<Rightarrow> bool) \<Rightarrow> bool" where
  "parent_closed s copied \<longleftrightarrow>
     (\<forall>e \<in> set (sst_entriesBySeq s). \<forall>p. copied (en_id e) \<longrightarrow> en_parentId e = Some p \<longrightarrow> copied p)"

lemma fork_destination_inv:
  assumes inv: "storage_inv s" and closed: "parent_closed s copied"
    and vals: "fork_values plan copied (source_values s) (fork_base copied s) = Inr d3"
    and elems: "fork_values plan copied (source_elements s) d3 = Inr d4"
  shows "storage_inv (d4\<lparr>sst_nextSeq := sst_nextSeq s\<rparr>)"
proof -
  let ?d = "d4\<lparr>sst_nextSeq := sst_nextSeq s\<rparr>"
  have wf: "entries_wf s" "scalars_wf s" "lists_wf s" "1 \<le> sst_nextSeq s"
    using inv by (simp_all add: storage_inv_def)
  have fields: "sst_entries d4 = sst_entries (fork_base copied s)"
    "sst_entriesBySeq d4 = sst_entriesBySeq (fork_base copied s)"
    "sst_usage d4 = []" "sst_stats d4 = sst_stats (fork_base copied s)"
    using fork_values_fields[OF vals] fork_values_fields[OF elems]
    by (simp_all add: fork_base_def empty_storage_def)
  have "entry_tree (filter (copied \<circ> en_id) (sst_entriesBySeq s))"
    using wf(1) closed by (intro entry_tree_filter) (auto simp: entries_wf_def parent_closed_def)
  then have "entries_wf ?d"
    using wf(1) by (auto simp: entries_wf_def fields fork_base_def)
  moreover have "usage_wf ?d" by (simp add: usage_wf_def fields map_values_def)
  moreover have "scalars_wf ?d"
  proof -
    let ?P = "\<lambda>x. case x of (k, v) \<Rightarrow> scalar_wf (sst_nextSeq s) k v"
    have "(\<forall>x \<in> set (sst_scalarValues d3). ?P x) \<and> distinct (map fst (sst_scalarValues d3))"
    proof (rule fork_values_scalars_all[OF vals source_values_kind])
      fix w w' a
      assume w: "w \<in> set (source_values s)" "projectForkCurrentStateWrite w plan copied = Inr (Some w')"
        "mkValue (cu_namespace w') (cu_key w') = Inr a"
      have "cu_seq w' < sst_nextSeq s"
        using w(1) wf(2) project_fields(2)[OF w(2)]
        by (auto simp: current_value_def map_values_def scalars_wf_def scalar_wf_def)
      then show "?P (physicalKey (cu_namespace w') (cu_key w'),
          \<lparr>sv_address = a, sv_value = cu_value w', sv_seq = cu_seq w'\<rparr>)"
        using w(3) by (auto simp: scalar_wf_def mkValue_eq_Inr)
    qed (simp_all add: fork_base_def empty_storage_def)
    then show ?thesis
      using fork_values_scalars_frame[OF elems source_elements_kind] by (simp add: scalars_wf_def)
  qed
  moreover have "lists_wf ?d"
  proof -
    have "sst_listValues d3 = []"
      using fork_values_lists_frame[OF vals source_values_kind] by (simp add: fork_base_def empty_storage_def)
    then show ?thesis
      using fork_values_lists[OF elems appends_ordered_source[OF wf(3)]] by (simp add: lists_wf_def)
  qed
  moreover have "stats_wf ?d"
    by (simp add: stats_wf_def fields fork_base_def map_values_def usage_total_def)
  ultimately show ?thesis using wf(4) by (simp add: storage_inv_def)
qed


section \<open>The selection of a branch fork\<close>

text \<open>The ids are those of the path from the destination tip to the root.\<close>

definition fork_selection :: "storage_state \<Rightarrow> jstring option \<Rightarrow> jstring list \<Rightarrow> bool" where
  "fork_selection s tip ids \<longleftrightarrow>
     (case tip of
        None \<Rightarrow> ids = []
      | Some i \<Rightarrow> \<exists>e path. map_get (sst_entries s) i = Some e \<and> path_to_root s e path \<and>
          ids = map en_id path)"

lemma path_to_root_suffix: "path_to_root s t (pre @ e # post) \<Longrightarrow> path_to_root s e (e # post)"
  by (auto simp: path_to_root_def sorted_wrt_append intro: parent_path_suffix)

lemma path_to_root_tail:
  assumes "entries_wf s" "path_to_root s e (e # post)"
  shows "fork_selection s (en_parentId e) (map en_id post)"
proof (cases post)
  case Nil
  then show ?thesis
    using assms(2) by (auto simp: path_to_root_def fork_selection_def parent_path_Cons split: option.splits)
next
  case (Cons x xs)
  have "en_parentId e = Some (en_id x)"
    using parent_path_link[OF assms(1), of e x xs] assms(2) Cons by (simp add: path_to_root_def)
  moreover have "path_to_root s x (x # xs)"
    using path_to_root_suffix[of s e "[e]" x xs] assms(2) Cons by simp
  moreover have "map_get (sst_entries s) (en_id x) = Some x"
    using assms Cons entries_lookup[OF assms(1)] by (auto simp: path_to_root_def)
  ultimately show ?thesis using Cons by (auto simp: fork_selection_def)
qed

lemma path_to_root_selection:
  assumes "entries_wf s" "path_to_root s e path"
  shows "fork_selection s (Some (en_id e)) (map en_id path)"
proof -
  have "e \<in> set (sst_entriesBySeq s)" using assms(2) by (cases path) (auto simp: path_to_root_def)
  then have "map_get (sst_entries s) (en_id e) = Some e" using entries_lookup[OF assms(1)] by simp
  then show ?thesis using assms(2) by (auto simp: fork_selection_def)
qed

lemma path_to_root_distinct:
  assumes "entries_wf s" "path_to_root s e path"
  shows "distinct (map en_id path)"
proof -
  have "distinct path"
    using assms(2) by (auto simp: path_to_root_def distinct_conv_nth sorted_wrt_iff_nth_less)
      (metis less_irrefl linorder_neqE_nat)
  moreover have "inj_on en_id (set path)"
    using assms by (auto simp: path_to_root_def entries_wf_def entry_tree_def distinct_map intro: inj_on_subset)
  ultimately show ?thesis by (simp add: distinct_map)
qed

text \<open>The walk from the tip, with the fork entry on the path or not.\<close>

lemma selectBranchFork_on_path:
  assumes wf: "entries_wf s" and path: "path_to_root s t (pre @ e # post)"
    and entryId: "(case entryId of None \<Rightarrow> en_id t | Some i \<Rightarrow> i) = en_id e"
  shows "selectBranchFork branch entryId position (Some (Some (en_id t))) (parent_of s) =
    Some (Inr (BranchPlan branch (if position = Some Before then en_parentId e else Some (en_id e)),
      if position = Some Before then map en_id post else map en_id (e # post)))"
proof -
  have req: "(case entryId of None \<Rightarrow> Some (en_id t) | Some i \<Rightarrow> Some i) = Some (en_id e)"
    using entryId by (cases entryId) auto
  have hd: "hd (pre @ [e]) = t" using path by (cases pre) (auto simp: path_to_root_def)
  have "fork_loop (map_get (sst_entries s)) (Some (en_id e)) (position = Some Before)
      (Some (en_id (hd (pre @ [e])))) False None [] =
    Some (Inr (True, if position = Some Before then en_parentId e else Some (en_id e),
      if position = Some Before then [] @ map en_id post else [] @ map en_id (e # post)))"
    by (rule fork_loop_found[OF wf])
      (use path path_to_root_distinct[OF wf path] in \<open>auto simp: path_to_root_def\<close>)
  then show ?thesis by (simp add: selectBranchFork_def req hd Let_def)
qed

lemma selectBranchFork_off_path:
  assumes wf: "entries_wf s" and path: "path_to_root s t path" and off: "r \<notin> en_id ` set path"
  shows "selectBranchFork branch (Some r) position (Some (Some (en_id t))) (parent_of s) =
    Some (Inl (ForkEntryNotOnBranch (Some r)))"
proof -
  have "fork_loop (map_get (sst_entries s)) (Some r) (position = Some Before) (Some (en_id (hd path))) False None [] =
    Some (Inr (False, None, if False then [] @ map en_id path else []))"
    by (rule fork_loop_path[OF wf]) (use path off in \<open>auto simp: path_to_root_def\<close>)
  then show ?thesis using path by (simp add: selectBranchFork_def path_to_root_def Let_def)
qed

lemma selectBranchFork_root:
  "selectBranchFork branch entryId position (Some None) getParent =
    Some (case entryId of None \<Rightarrow> Inr (BranchPlan branch None, []) | Some i \<Rightarrow> Inl (ForkEntryNotOnBranch (Some i)))"
  by (simp add: selectBranchFork_def Let_def select_fork_loop.simps split: option.splits)

lemma selectBranchFork_dangling:
  "getParent t = None \<Longrightarrow> selectBranchFork branch entryId position (Some (Some t)) getParent =
    Some (Inl (CorruptSourceBranch t))"
  by (simp add: selectBranchFork_def Let_def select_fork_loop.simps)

lemma selectBranchFork_returns:
  assumes "storage_inv s"
  shows "\<exists>r. selectBranchFork branch entryId position tip (parent_of s) = Some r \<and>
    (\<forall>plan ids. r = Inr (plan, ids) \<longrightarrow> (\<exists>dest. plan = BranchPlan branch dest \<and> fork_selection s dest ids))"
proof -
  have wf: "entries_wf s" using assms by (simp add: storage_inv_def)
  consider (unknown) "tip = None" | (root) "tip = Some None"
    | (dangling) t where "tip = Some (Some t)" "map_get (sst_entries s) t = None"
    | (entry) e where "tip = Some (Some (en_id e))" "map_get (sst_entries s) (en_id e) = Some e"
    using entries_lookup[OF wf] by (cases tip; cases "the tip"; cases "map_get (sst_entries s) (the (the tip))") auto
  then show ?thesis
  proof cases
    case root
    then show ?thesis by (cases entryId) (auto simp: selectBranchFork_root fork_selection_def)
  next
    case entry
    obtain path where path: "path_to_root s e path" using path_to_root_exists[OF assms entry(2)] .
    define r where "r = (case entryId of None \<Rightarrow> en_id e | Some i \<Rightarrow> i)"
    show ?thesis
    proof (cases "r \<in> en_id ` set path")
      case True
      then obtain pre x post where split: "path = pre @ x # post" "r = en_id x"
        by (auto dest!: split_list)
      have sfx: "path_to_root s x (x # post)" using path_to_root_suffix path split(1) by blast
      show ?thesis
        using selectBranchFork_on_path[OF wf, of e pre x post entryId branch position]
          path_to_root_tail[OF wf sfx] path_to_root_selection[OF wf sfx] path split entry
        by (auto simp: r_def)
    next
      case False
      moreover have "en_id e \<in> en_id ` set path" using path by (cases path) (auto simp: path_to_root_def)
      ultimately have "entryId = Some r" by (cases entryId) (auto simp: r_def)
      then show ?thesis using selectBranchFork_off_path[OF wf path False] entry by simp
    qed
  next
    case dangling
    then show ?thesis by (simp add: selectBranchFork_dangling)
  next
    case unknown
    then show ?thesis by (simp add: selectBranchFork_def)
  qed
qed

lemma fork_selection_closed:
  assumes wf: "entries_wf s" and sel: "fork_selection s tip ids"
  shows "parent_closed s (\<lambda>i. i \<in> set ids)"
  unfolding parent_closed_def
proof (intro ballI allI impI)
  fix x p assume x: "x \<in> set (sst_entriesBySeq s)" "en_id x \<in> set ids" "en_parentId x = Some p"
  then obtain e path where path: "path_to_root s e path" "ids = map en_id path"
    using sel by (auto simp: fork_selection_def split: option.splits)
  then obtain y where y: "y \<in> set path" "en_id y = en_id x" using x(2) by auto
  have "inj_on en_id (set (sst_entriesBySeq s))"
    using wf by (simp add: entries_wf_def entry_tree_def distinct_map)
  moreover have "y \<in> set (sst_entriesBySeq s)" using path(1) y(1) by (auto simp: path_to_root_def)
  ultimately have "y = x" using y(2) x(1) by (meson inj_onD)
  then obtain pre post where split: "path = pre @ x # post" using y(1) by (auto dest!: split_list)
  have sfx: "path_to_root s x (x # post)" using path_to_root_suffix path(1) split by blast
  then obtain z zs where "post = z # zs" "map_get (sst_entries s) p = Some z"
    using x(3) by (auto simp: path_to_root_def parent_path_Cons[of _ x])
  then have "p = en_id z" using entries_lookup[OF wf, of p z] by simp
  then show "p \<in> set ids" using path(2) split \<open>post = z # zs\<close> by simp
qed

end
