(* ===== verification/ForkSpec.thy ===== *)
theory ForkSpec
  imports ForkFacts
begin

text \<open>
  The promises of a fork of the materialized state, stated over \<open>createFork\<close>: it returns and keeps
  the storage invariant, a branch fork holds exactly the chosen part of the branch, nothing of a
  running or finished operation survives, and a fork is a fixed point of a further tree fork.
\<close>

section \<open>Plans\<close>

lemma selectForkPlan_tree: "selectForkPlan (ForkTree sid) s = Some (Inr (TreePlan, []))"
  by (simp add: selectForkPlan_def)

lemma selectForkPlan_branch:
  assumes "storage_inv s" "selectForkPlan (ForkBranch branch entryId position sid) s = Some (Inr plan)"
  obtains dest ids where "plan = (BranchPlan branch dest, ids)" "fork_selection s dest ids"
proof -
  obtain tip r where r: "selectBranchFork branch entryId position tip (parent_of s) = Some r" "r = Inr plan"
    using assms(2) by (auto simp: selectForkPlan_def split: sum.splits if_splits option.splits)
  obtain p ids where "plan = (p, ids)" by (cases plan)
  with r selectBranchFork_returns[OF assms(1), of branch entryId position tip] that show thesis
    by fastforce
qed

lemma selectForkPlan_closed:
  assumes "storage_inv s" "selectForkPlan options s = Some (Inr plan)"
  shows "parent_closed s (fork_copies plan)"
proof (cases options)
  case (ForkTree sid)
  then show ?thesis using assms(2) by (auto simp: selectForkPlan_tree parent_closed_def)
next
  case (ForkBranch branch entryId position sid)
  then obtain dest ids where "plan = (BranchPlan branch dest, ids)" "fork_selection s dest ids"
    using selectForkPlan_branch assms by metis
  moreover have "entries_wf s" using assms(1) by (simp add: storage_inv_def)
  ultimately show ?thesis using fork_selection_closed by (simp add: parent_closed_def)
qed

lemma selectForkPlan_returns:
  assumes "storage_inv s"
  shows "\<exists>r. selectForkPlan options s = Some r"
proof (cases options)
  case (ForkBranch branch entryId position sid)
  then show ?thesis
    using selectBranchFork_returns[OF assms, of branch entryId position]
    by (fastforce simp: selectForkPlan_def split: sum.splits)
qed (simp add: selectForkPlan_tree)

section \<open>Surviving values\<close>

lemma fork_values_get_other:
  assumes "fork_values plan copied ws d = Inr d'" "k \<notin> write_key ` set ws"
  shows "map_get (sst_scalarValues d') k = map_get (sst_scalarValues d) k"
  using assms
proof (induction ws arbitrary: d)
  case (Cons w ws)
  obtain out where out: "projectForkCurrentStateWrite w plan copied = Inr out"
    using Cons.prems(1) by auto
  show ?case
  proof (cases out)
    case (Some w')
    then obtain d1 where d1: "applyValueSetOrListAppend w' d = Inr d1" "fork_values plan copied ws d1 = Inr d'"
      using Cons.prems(1) out by auto
    have "write_key w' = write_key w" using project_fields out Some by metis
    then have "map_get (sst_scalarValues d1) k = map_get (sst_scalarValues d) k"
      using d1(1) Cons.prems(2)
      by (auto simp: applyValueSetOrListAppend_def applyValueSet_def update_conv'
          dest: applyListAppend_fields split: address_kind.splits)
    then show ?thesis using Cons.IH[OF d1(2)] Cons.prems(2) by simp
  qed (use Cons out in auto)
qed simp

lemma fork_values_get:
  assumes "fork_values plan copied ws d = Inr d'" "distinct (map write_key ws)" "w \<in> set ws"
    and "projectForkCurrentStateWrite w plan copied = Inr (Some w')" "cu_kind w = ValueKind"
  shows "map_option sv_value (map_get (sst_scalarValues d') (write_key w)) = Some (cu_value w')"
  using assms(1,2,3)
proof (induction ws arbitrary: d)
  case (Cons x ws)
  show ?case
  proof (cases "x = w")
    case True
    then obtain d1 where d1: "applyValueSetOrListAppend w' d = Inr d1" "fork_values plan copied ws d1 = Inr d'"
      using Cons.prems(1) assms(4) by auto
    have "map_option sv_value (map_get (sst_scalarValues d1) (write_key w)) = Some (cu_value w')"
      using d1(1) project_fields[OF assms(4)] assms(5)
      by (auto simp: applyValueSetOrListAppend_def applyValueSet_def update_conv')
    moreover have "write_key w \<notin> write_key ` set ws" using Cons.prems(2) True by auto
    ultimately show ?thesis using fork_values_get_other[OF d1(2)] by simp
  next
    case False
    then have "w \<in> set ws" using Cons.prems(3) by simp
    moreover have "\<exists>d1. fork_values plan copied ws d1 = Inr d'"
      using Cons.prems(1) by (auto split: option.splits)
    ultimately show ?thesis using Cons.IH Cons.prems(2) by auto
  qed
qed simp

lemma source_values_keys:
  assumes "scalars_wf s"
  shows "map write_key (source_values s) = map fst (sst_scalarValues s)"
  using assms by (auto simp: scalars_wf_def scalar_wf_def map_values_def current_value_def intro!: map_cong)

lemma createFork_value:
  assumes "storage_inv s" "createFork options s = Some (Inr d)" "selectForkPlan options s = Some (Inr plan)"
    and "map_get (sst_scalarValues s) (physicalKey ns k) = Some v" "\<not> has_nul ns"
    and "projectForkCurrentStateWrite (current_value v) (fst plan) (fork_copies plan) = Inr (Some w')"
  shows "map_option sv_value (map_get (sst_scalarValues d) (physicalKey ns k)) = Some (cu_value w')"
proof -
  have wf: "entries_wf s" "scalars_wf s" using assms(1) by (simp_all add: storage_inv_def)
  obtain d3 d4 where d: "fork_values (fst plan) (fork_copies plan) (source_values s) (fork_base (fork_copies plan) s) = Inr d3"
    "fork_values (fst plan) (fork_copies plan) (source_elements s) d3 = Inr d4" "d = d4\<lparr>sst_nextSeq := sst_nextSeq s\<rparr>"
    using createFork_cases[OF wf(1) assms(2)] assms(3) by (metis sum.inject(2) option.inject)
  have mem: "(physicalKey ns k, v) \<in> set (sst_scalarValues s)" using assms(4) by (rule map_of_SomeD)
  then have key: "write_key (current_value v) = physicalKey ns k"
    using wf(2) by (auto simp: scalars_wf_def scalar_wf_def current_value_def)
  have "distinct (map write_key (source_values s))"
    using source_values_keys[OF wf(2)] wf(2) by (simp add: scalars_wf_def)
  moreover have "current_value v \<in> set (source_values s)" using mem by (force simp: map_values_def)
  moreover have "cu_kind (current_value v) = ValueKind" by (simp add: current_value_def)
  ultimately have "map_option sv_value (map_get (sst_scalarValues d3) (physicalKey ns k)) = Some (cu_value w')"
    using fork_values_get[OF d(1) _ _ assms(6)] key by simp
  then show ?thesis
    using fork_values_scalars_frame[OF d(2) source_elements_kind] d(3) by simp
qed

section \<open>What survives is fixed by a tree fork\<close>

text \<open>
  The namespaces of the policy: the slots of running, pending and finished operations, which no fork
  keeps, and the namespaces outside the reserved \<open>pi\<close> prefix, which only a tree fork keeps.
\<close>

definition owned_ns :: "jstring \<Rightarrow> bool" where
  "owned_ns ns \<longleftrightarrow> ns = ns_result \<or> prefix (js ''pi.op.'') ns \<or> prefix (js ''pi.pending.'') ns"
definition free_ns :: "jstring \<Rightarrow> bool" where
  "free_ns ns \<longleftrightarrow> ns \<noteq> js ''pi'' \<and> \<not> prefix (js ''pi.'') ns"
lemma reserved_prefix:
  "prefix (js ''pi.op.'') ns \<Longrightarrow> prefix (js ''pi.'') ns"
  "prefix (js ''pi.pending.'') ns \<Longrightarrow> prefix (js ''pi.'') ns"
  by (erule prefix_order.trans[rotated], simp)+

lemma project_rules:
  "cu_namespace w = ns_session_name \<Longrightarrow> projectForkCurrentStateWrite w plan copied = Inr (Some w)"
  "cu_namespace w = ns_entry_label \<Longrightarrow>
     projectForkCurrentStateWrite w plan copied = Inr (if copied (cu_key w) then Some w else None)"
  "cu_namespace w = ns_branch_tip \<Longrightarrow> projectForkCurrentStateWrite w plan copied =
     Inr (case plan of TreePlan \<Rightarrow> Some w
          | BranchPlan branch tip \<Rightarrow> if cu_key w = branch then Some (w\<lparr>cu_value := VTip tip\<rparr>) else None)"
  "cu_namespace w = ns_lane_config \<Longrightarrow> projectForkCurrentStateWrite w plan copied =
     Inr (case plan of TreePlan \<Rightarrow> Some w
          | BranchPlan branch tip \<Rightarrow> if cu_key w = branch then Some w else None)"
  "cu_namespace w = ns_lane_state \<Longrightarrow> projectForkCurrentStateWrite w plan copied =
     Inr (if (case plan of TreePlan \<Rightarrow> True | BranchPlan branch tip \<Rightarrow> cu_key w = branch)
          then Some (w\<lparr>cu_value := VLaneState idle_lane_state\<rparr>) else None)"
  by (simp_all add: projectForkCurrentStateWrite_def split: fork_plan.splits)

lemma project_owned:
  assumes "owned_ns (cu_namespace w)"
  shows "projectForkCurrentStateWrite w plan copied = Inr None"
proof -
  have "cu_namespace w \<notin> {ns_session_name, ns_entry_label, ns_branch_tip, ns_lane_config, ns_lane_state}"
    using assms by (auto simp: owned_ns_def)
  then show ?thesis
    using assms unfolding owned_ns_def
    by (elim disjE) (simp_all add: projectForkCurrentStateWrite_def)
qed

lemma project_free:
  assumes "free_ns (cu_namespace w)"
  shows "projectForkCurrentStateWrite w plan copied = Inr (if plan = TreePlan then Some w else None)"
proof -
  have "cu_namespace w \<notin> {ns_session_name, ns_entry_label, ns_branch_tip, ns_lane_config, ns_lane_state, ns_result}"
    using assms by (auto simp: free_ns_def)
  moreover have "\<not> prefix (js ''pi.op.'') (cu_namespace w)" "\<not> prefix (js ''pi.pending.'') (cu_namespace w)"
    using assms reserved_prefix by (auto simp: free_ns_def)
  ultimately show ?thesis
    using assms by (simp add: projectForkCurrentStateWrite_def free_ns_def split: fork_plan.splits)
qed

lemma project_unknown:
  assumes "\<not> owned_ns (cu_namespace w)" "\<not> free_ns (cu_namespace w)"
    "cu_namespace w \<notin> {ns_session_name, ns_entry_label, ns_branch_tip, ns_lane_config, ns_lane_state}"
  shows "projectForkCurrentStateWrite w plan copied = Inl (UnknownReservedNamespace (cu_namespace w))"
  using assms by (simp add: projectForkCurrentStateWrite_def owned_ns_def free_ns_def)

lemma namespace_cases:
  "\<lbrakk>A \<Longrightarrow> T; B \<Longrightarrow> T; C \<Longrightarrow> T; D \<Longrightarrow> T; E \<Longrightarrow> T; F \<Longrightarrow> T; G \<Longrightarrow> T;
    \<lbrakk>\<not> F; \<not> G; \<not> A; \<not> B; \<not> C; \<not> D; \<not> E\<rbrakk> \<Longrightarrow> T\<rbrakk> \<Longrightarrow> T"
  by blast

lemma project_kept:
  assumes "projectForkCurrentStateWrite w plan copied = Inr (Some w')"
  obtains (name) "cu_namespace w = ns_session_name" "w' = w"
    | (label) "cu_namespace w = ns_entry_label" "w' = w" "copied (cu_key w)"
    | (tip) "cu_namespace w = ns_branch_tip"
        "w' = (case plan of TreePlan \<Rightarrow> w | BranchPlan branch t \<Rightarrow> w\<lparr>cu_value := VTip t\<rparr>)"
    | (config) "cu_namespace w = ns_lane_config" "w' = w"
    | (lane) "cu_namespace w = ns_lane_state" "w' = w\<lparr>cu_value := VLaneState idle_lane_state\<rparr>"
    | (free) "free_ns (cu_namespace w)" "w' = w" "plan = TreePlan"
proof -
  show thesis
  proof (rule namespace_cases[of "cu_namespace w = ns_session_name" thesis "cu_namespace w = ns_entry_label"
        "cu_namespace w = ns_branch_tip" "cu_namespace w = ns_lane_config"
        "cu_namespace w = ns_lane_state" "owned_ns (cu_namespace w)" "free_ns (cu_namespace w)"])
    assume n: "cu_namespace w = ns_session_name"
    show thesis by (rule name[OF n]) (use assms project_rules(1)[OF n] in simp)
  next
    assume n: "cu_namespace w = ns_entry_label"
    show thesis
      by (rule label[OF n]) (use assms project_rules(2)[OF n] in \<open>simp_all split: if_splits\<close>)
  next
    assume n: "cu_namespace w = ns_branch_tip"
    show thesis
      by (rule tip[OF n])
        (use assms project_rules(3)[OF n] in \<open>simp split: if_splits fork_plan.splits\<close>)
  next
    assume n: "cu_namespace w = ns_lane_config"
    show thesis
      by (rule config[OF n])
        (use assms project_rules(4)[OF n] in \<open>simp split: if_splits fork_plan.splits\<close>)
  next
    assume n: "cu_namespace w = ns_lane_state"
    show thesis
      by (rule lane[OF n]) (use assms project_rules(5)[OF n] in \<open>simp split: if_splits\<close>)
  next
    assume "owned_ns (cu_namespace w)"
    then show thesis using assms project_owned by simp
  next
    assume n: "free_ns (cu_namespace w)"
    show thesis
      by (rule free[OF n]) (use assms project_free[OF n] in \<open>simp_all split: if_splits\<close>)
  next
    assume "\<not> owned_ns (cu_namespace w)" "\<not> free_ns (cu_namespace w)" "cu_namespace w \<noteq> ns_session_name"
      "cu_namespace w \<noteq> ns_entry_label" "cu_namespace w \<noteq> ns_branch_tip"
      "cu_namespace w \<noteq> ns_lane_config" "cu_namespace w \<noteq> ns_lane_state"
    then show thesis using assms project_unknown[of w] by simp
  qed
qed

lemma project_idem:
  assumes "projectForkCurrentStateWrite w plan copied = Inr (Some w')"
  shows "projectForkCurrentStateWrite w' TreePlan (\<lambda>_. True) = Inr (Some w')"
  using assms by (cases rule: project_kept) (auto simp: project_rules project_free split: fork_plan.splits)

lemma project_not_owned:
  assumes "projectForkCurrentStateWrite w plan copied = Inr (Some w')"
  shows "\<not> owned_ns (cu_namespace w')"
  using assms project_owned project_fields(3) by fastforce

lemma project_lane:
  assumes "projectForkCurrentStateWrite w plan copied = Inr (Some w')" "cu_namespace w' = ns_lane_state"
  shows "cu_value w' = VLaneState idle_lane_state"
  using assms by (cases rule: project_kept) (auto simp: free_ns_def split: fork_plan.splits)

definition element_writes :: "storage_state \<Rightarrow> (current_write \<Rightarrow> bool) \<Rightarrow> bool" where
  "element_writes d P \<longleftrightarrow> (\<forall>(k, l) \<in> set (sst_listValues d). \<forall>w \<in> set (current_elements l). P w)"

lemma element_writes_step:
  assumes "applyValueSetOrListAppend w d = Inr d1" "cu_kind w = ListKind" "P w" "element_writes d P"
    and "\<forall>(k, l) \<in> set (sst_listValues d). k = physicalKey (ad_namespace (sl_address l)) (ad_key (sl_address l)) \<and>
      \<not> has_nul (ad_namespace (sl_address l))" "\<not> has_nul (cu_namespace w)"
  shows "element_writes d1 P \<and>
    (\<forall>(k, l) \<in> set (sst_listValues d1). k = physicalKey (ad_namespace (sl_address l)) (ad_key (sl_address l)) \<and>
      \<not> has_nul (ad_namespace (sl_address l)))"
proof -
  let ?k = "write_key w" and ?x = "\<lparr>le_seq = cu_seq w, le_value = cu_value w\<rparr>"
  have w: "w = \<lparr>cu_kind = ListKind, cu_seq = cu_seq w, cu_namespace = cu_namespace w, cu_key = cu_key w,
      cu_value = cu_value w\<rparr>" using assms(2) by simp
  obtain l where l: "sst_listValues d1 = map_set ?k l (sst_listValues d)"
    "ad_namespace (sl_address l) = cu_namespace w" "ad_key (sl_address l) = cu_key w"
    "\<forall>w' \<in> set (current_elements l). P w'"
  proof (cases "map_get (sst_listValues d) ?k")
    case None
    then obtain a where a: "mkList (cu_namespace w) (cu_key w) = Inr a"
      "sst_listValues d1 = map_set ?k \<lparr>sl_address = a, sl_elements = [?x]\<rparr> (sst_listValues d)"
      using assms(1,2) by (auto simp: applyValueSetOrListAppend_def applyListAppend_def Let_def)
    show thesis
      by (rule that[OF a(2)]) (use a(1) assms(3) w in \<open>auto simp: mkList_eq_Inr current_elements_def\<close>)
  next
    case (Some l)
    then have "(?k, l) \<in> set (sst_listValues d)" by (rule map_of_SomeD)
    then have addr: "ad_namespace (sl_address l) = cu_namespace w" "ad_key (sl_address l) = cu_key w"
      "\<forall>w' \<in> set (current_elements l). P w'"
      using assms(4,5,6) physicalKey_inj[of "cu_namespace w" "ad_namespace (sl_address l)"]
      by (auto simp: element_writes_def)
    have "sst_listValues d1 = map_set ?k (l\<lparr>sl_elements := sl_elements l @ [?x]\<rparr>) (sst_listValues d)"
      using assms(1,2) Some by (auto simp: applyValueSetOrListAppend_def applyListAppend_def Let_def)
    then show thesis
      by (rule that) (use addr assms(3) w in \<open>auto simp: current_elements_def\<close>)
  qed
  show ?thesis
    using assms(4,5,6) l set_update_subset[of ?k l "sst_listValues d"]
    unfolding element_writes_def by fastforce
qed

lemma fork_values_elements_all:
  assumes "fork_values plan copied ws d = Inr d'"
    "\<forall>w \<in> set ws. cu_kind w = ListKind \<and> \<not> has_nul (cu_namespace w)"
    and P: "\<And>w w'. projectForkCurrentStateWrite w plan copied = Inr (Some w') \<Longrightarrow> P w'"
    and "element_writes d P"
    "\<forall>(k, l) \<in> set (sst_listValues d). k = physicalKey (ad_namespace (sl_address l)) (ad_key (sl_address l)) \<and>
      \<not> has_nul (ad_namespace (sl_address l))"
  shows "element_writes d' P"
  using assms(1,2,4,5)
proof (induction ws arbitrary: d)
  case (Cons w ws)
  obtain out where out: "projectForkCurrentStateWrite w plan copied = Inr out"
    using Cons.prems(1) by auto
  show ?case
  proof (cases out)
    case None
    then show ?thesis using Cons out by auto
  next
    case (Some w')
    then have pr: "projectForkCurrentStateWrite w plan copied = Inr (Some w')" using out by simp
    obtain d1 where d1: "applyValueSetOrListAppend w' d = Inr d1" "fork_values plan copied ws d1 = Inr d'"
      using Cons.prems(1) pr by auto
    have "cu_kind w' = ListKind" "\<not> has_nul (cu_namespace w')"
      using Cons.prems(2) project_fields[OF pr] by simp_all
    then show ?thesis
      using Cons.IH[OF d1(2)] Cons.prems(2) element_writes_step[OF d1(1) _ P[OF pr] Cons.prems(3,4)] by simp
  qed
qed simp


lemma fork_elements_survive:
  assumes inv: "storage_inv s"
    and vals: "fork_values plan copied (source_values s) (fork_base copied s) = Inr d3"
    and elems: "fork_values plan copied (source_elements s) d3 = Inr d4"
  shows "element_writes d4 (\<lambda>w. projectForkCurrentStateWrite w TreePlan (\<lambda>_. True) = Inr (Some w))"
proof (rule fork_values_elements_all[OF elems])
  show "\<forall>w \<in> set (source_elements s). cu_kind w = ListKind \<and> \<not> has_nul (cu_namespace w)"
    using inv by (auto simp: storage_inv_def lists_wf_def list_wf_def mkList_eq_Inr current_elements_def
        map_values_def)
  have "sst_listValues d3 = []"
    using fork_values_lists_frame[OF vals source_values_kind] by (simp add: fork_base_def empty_storage_def)
  then show "element_writes d3 (\<lambda>w. projectForkCurrentStateWrite w TreePlan (\<lambda>_. True) = Inr (Some w))"
    and "\<forall>(k, l) \<in> set (sst_listValues d3). k = physicalKey (ad_namespace (sl_address l)) (ad_key (sl_address l)) \<and>
      \<not> has_nul (ad_namespace (sl_address l))"
    by (simp_all add: element_writes_def)
qed (rule project_idem)

lemma fork_scalars_survive:
  assumes "fork_values plan copied (source_values s) (fork_base copied s) = Inr d3"
  shows "\<forall>(k, v) \<in> set (sst_scalarValues d3). \<exists>w. projectForkCurrentStateWrite w plan copied = Inr (Some (current_value v))"
proof -
  let ?P = "\<lambda>x. case x of (k, v) \<Rightarrow> \<exists>w. projectForkCurrentStateWrite w plan copied = Inr (Some (current_value v))"
  have "(\<forall>x \<in> set (sst_scalarValues d3). ?P x) \<and> distinct (map fst (sst_scalarValues d3))"
  proof (rule fork_values_scalars_all[OF assms source_values_kind])
    fix w w' a
    assume w: "w \<in> set (source_values s)" "projectForkCurrentStateWrite w plan copied = Inr (Some w')"
      "mkValue (cu_namespace w') (cu_key w') = Inr a"
    then have "current_value \<lparr>sv_address = a, sv_value = cu_value w', sv_seq = cu_seq w'\<rparr> = w'"
      using project_fields(1)[OF w(2)] source_values_kind by (fastforce simp: current_value_def mkValue_eq_Inr)
    then show "?P (physicalKey (cu_namespace w') (cu_key w'), \<lparr>sv_address = a, sv_value = cu_value w', sv_seq = cu_seq w'\<rparr>)"
      using w(2) by auto
  qed (simp_all add: fork_base_def empty_storage_def)
  then show ?thesis by auto
qed

section \<open>Rebuilding a state by a tree fork\<close>

lemma fork_values_rebuild:
  assumes "\<forall>(k, v) \<in> set m. scalar_wf n k v \<and>
      projectForkCurrentStateWrite (current_value v) plan copied = Inr (Some (current_value v))"
    and "distinct (map fst (sst_scalarValues d @ m))"
  shows "fork_values plan copied (map current_value (map_values m)) d =
    Inr (d\<lparr>sst_scalarValues := sst_scalarValues d @ m\<rparr>)"
  using assms
proof (induction m arbitrary: d)
  case (Cons kv m)
  obtain k v where kv: "kv = (k, v)" by (cases kv)
  have v: "mkValue (ad_namespace (sv_address v)) (ad_key (sv_address v)) = Inr (sv_address v)"
    "k = physicalKey (ad_namespace (sv_address v)) (ad_key (sv_address v))"
    "projectForkCurrentStateWrite (current_value v) plan copied = Inr (Some (current_value v))"
    using Cons.prems(1) kv by (auto simp: scalar_wf_def)
  have "map_set k v (sst_scalarValues d) = sst_scalarValues d @ [(k, v)]"
    using Cons.prems(2) kv by (intro map_set_fresh) auto
  then have "applyValueSetOrListAppend (current_value v) d = Inr (d\<lparr>sst_scalarValues := sst_scalarValues d @ [(k, v)]\<rparr>)"
    using v(1,2) by (cases v) (simp add: applyValueSetOrListAppend_def applyValueSet_def current_value_def)
  then show ?case
    using v(3) Cons.IH[of "d\<lparr>sst_scalarValues := sst_scalarValues d @ [(k, v)]\<rparr>"] Cons.prems kv
    by (simp add: map_values_def)
qed (simp add: map_values_def)

lemma fork_elements_rebuild_one:
  assumes "\<forall>w \<in> set (current_elements \<lparr>sl_address = a, sl_elements = xs\<rparr>).
      projectForkCurrentStateWrite w plan copied = Inr (Some w)"
    and "L' = map_set (physicalKey (ad_namespace a) (ad_key a)) \<lparr>sl_address = a, sl_elements = ys\<rparr> L"
    and "physicalKey (ad_namespace a) (ad_key a) \<notin> fst ` set L"
  shows "fork_values plan copied (current_elements \<lparr>sl_address = a, sl_elements = xs\<rparr>)
      (d\<lparr>sst_listValues := L'\<rparr>) =
    Inr (d\<lparr>sst_listValues := map_set (physicalKey (ad_namespace a) (ad_key a))
      \<lparr>sl_address = a, sl_elements = ys @ xs\<rparr> L\<rparr>)"
  using assms
proof (induction xs arbitrary: ys L')
  case (Cons x xs)
  let ?k = "physicalKey (ad_namespace a) (ad_key a)"
  let ?w = "\<lparr>cu_kind = ListKind, cu_seq = le_seq x, cu_namespace = ad_namespace a, cu_key = ad_key a, cu_value = le_value x\<rparr>"
  have "map_get L' ?k = Some \<lparr>sl_address = a, sl_elements = ys\<rparr>" "map_set ?k z L' = map_set ?k z L" for z
    by (simp_all add: Cons.prems(2) update_conv')
  then have "applyValueSetOrListAppend ?w (d\<lparr>sst_listValues := L'\<rparr>) =
      Inr (d\<lparr>sst_listValues := map_set ?k \<lparr>sl_address = a, sl_elements = ys @ [x]\<rparr> L\<rparr>)"
    by (cases x) (simp add: applyValueSetOrListAppend_def applyListAppend_def Let_def)
  then show ?case
    using Cons.IH[of _ "ys @ [x]"] Cons.prems by (simp add: current_elements_def)
qed (simp add: current_elements_def)


lemma fork_elements_rebuild_list:
  assumes "list_wf n k l" "k \<notin> fst ` set (sst_listValues d)"
    and "\<forall>w \<in> set (current_elements l). projectForkCurrentStateWrite w plan copied = Inr (Some w)"
  shows "fork_values plan copied (current_elements l) d =
    Inr (d\<lparr>sst_listValues := sst_listValues d @ [(k, l)]\<rparr>)"
proof -
  obtain a x xs where l: "l = \<lparr>sl_address = a, sl_elements = x # xs\<rparr>"
    using assms(1) by (cases l; cases "sl_elements l") (auto simp: list_wf_def)
  have k: "k = physicalKey (ad_namespace a) (ad_key a)" "mkList (ad_namespace a) (ad_key a) = Inr a"
    using assms(1) l by (simp_all add: list_wf_def)
  let ?L = "map_set k \<lparr>sl_address = a, sl_elements = [x]\<rparr> (sst_listValues d)"
  have fresh: "map_get (sst_listValues d) k = None" using assms(2) by (simp add: map_of_eq_None_iff)
  let ?w = "\<lparr>cu_kind = ListKind, cu_seq = le_seq x, cu_namespace = ad_namespace a, cu_key = ad_key a, cu_value = le_value x\<rparr>"
  have "applyValueSetOrListAppend ?w d = Inr (d\<lparr>sst_listValues := ?L\<rparr>)"
    using fresh k by (cases x) (simp add: applyValueSetOrListAppend_def applyListAppend_def Let_def)
  moreover have "projectForkCurrentStateWrite ?w plan copied = Inr (Some ?w)"
    using assms(3) l by (simp add: current_elements_def)
  moreover have "fork_values plan copied (current_elements \<lparr>sl_address = a, sl_elements = xs\<rparr>)
      (d\<lparr>sst_listValues := ?L\<rparr>) =
    Inr (d\<lparr>sst_listValues := map_set k \<lparr>sl_address = a, sl_elements = [x] @ xs\<rparr> (sst_listValues d)\<rparr>)"
    unfolding k(1) by (rule fork_elements_rebuild_one)
      (use assms k l in \<open>auto simp: current_elements_def\<close>)
  moreover have "current_elements l = ?w # current_elements \<lparr>sl_address = a, sl_elements = xs\<rparr>"
    by (simp add: l current_elements_def)
  ultimately show ?thesis using map_set_fresh[OF assms(2)] l by simp
qed

lemma fork_values_append:
  "fork_values plan copied (xs @ ys) d = ebind (fork_values plan copied xs d) (fork_values plan copied ys)"
proof (induction xs arbitrary: d)
  case (Cons x xs)
  then show ?case by (auto simp: ebind_def split: sum.splits option.splits)
qed simp

lemma fork_elements_rebuild:
  assumes "\<forall>(k, l) \<in> set m. list_wf n k l \<and>
      (\<forall>w \<in> set (current_elements l). projectForkCurrentStateWrite w plan copied = Inr (Some w))"
    and "distinct (map fst (sst_listValues d @ m))"
  shows "fork_values plan copied (concat (map current_elements (map_values m))) d =
    Inr (d\<lparr>sst_listValues := sst_listValues d @ m\<rparr>)"
  using assms
proof (induction m arbitrary: d)
  case (Cons kl m)
  obtain k l where kl: "kl = (k, l)" by (cases kl)
  have "fork_values plan copied (current_elements l) d = Inr (d\<lparr>sst_listValues := sst_listValues d @ [(k, l)]\<rparr>)"
    using Cons.prems kl by (intro fork_elements_rebuild_list) auto
  then show ?case
    using Cons.IH[of "d\<lparr>sst_listValues := sst_listValues d @ [(k, l)]\<rparr>"] Cons.prems kl
    by (simp add: map_values_def fork_values_append)
qed (simp add: map_values_def)

lemma createFork_fixed:
  assumes inv: "storage_inv d" and usage: "sst_usage d = []"
    and vals: "\<forall>(k, v) \<in> set (sst_scalarValues d).
      projectForkCurrentStateWrite (current_value v) TreePlan (\<lambda>_. True) = Inr (Some (current_value v))"
    and elems: "element_writes d (\<lambda>w. projectForkCurrentStateWrite w TreePlan (\<lambda>_. True) = Inr (Some w))"
  shows "createFork (ForkTree sid) d = Some (Inr d)"
proof -
  have wf: "entries_wf d" "scalars_wf d" "lists_wf d" "stats_wf d" using inv by (simp_all add: storage_inv_def)
  have copies: "fork_copies (TreePlan, []) = (\<lambda>_. True)" by (simp add: fun_eq_iff)
  let ?b = "fork_base (\<lambda>_. True) d"
  have b: "?b = empty_storage\<lparr>sst_entries := sst_entries d, sst_entriesBySeq := sst_entriesBySeq d,
      sst_stats := sst_stats d\<rparr>"
    using wf(1,4) usage
    by (cases "sst_stats d") (simp add: fork_base_def entries_wf_def stats_wf_def comp_def map_values_def usage_total_def)
  have base: "sst_scalarValues ?b = []" "sst_listValues ?b = []"
    by (simp_all add: fork_base_def empty_storage_def)
  have "\<forall>(k, v) \<in> set (sst_scalarValues d). scalar_wf (sst_nextSeq d) k v \<and>
      projectForkCurrentStateWrite (current_value v) TreePlan (\<lambda>_. True) = Inr (Some (current_value v))"
    using wf(2) vals by (auto simp: scalars_wf_def)
  from fork_values_rebuild[OF this, of ?b]
  have "fork_values TreePlan (\<lambda>_. True) (source_values d) ?b = Inr (?b\<lparr>sst_scalarValues := sst_scalarValues d\<rparr>)"
    using wf(2) by (simp add: scalars_wf_def base)
  moreover have "\<forall>(k, l) \<in> set (sst_listValues d). list_wf (sst_nextSeq d) k l \<and>
      (\<forall>w \<in> set (current_elements l). projectForkCurrentStateWrite w TreePlan (\<lambda>_. True) = Inr (Some w))"
    using wf(3) elems by (auto simp: lists_wf_def element_writes_def)
  from fork_elements_rebuild[OF this, of "?b\<lparr>sst_scalarValues := sst_scalarValues d\<rparr>"]
  have "fork_values TreePlan (\<lambda>_. True) (source_elements d) (?b\<lparr>sst_scalarValues := sst_scalarValues d\<rparr>) =
      Inr (?b\<lparr>sst_scalarValues := sst_scalarValues d, sst_listValues := sst_listValues d\<rparr>)"
    using wf(3) by (simp add: lists_wf_def base)
  moreover have "?b\<lparr>sst_scalarValues := sst_scalarValues d, sst_listValues := sst_listValues d,
      sst_nextSeq := sst_nextSeq d\<rparr> = d"
    unfolding b using usage by (cases d) (simp add: empty_storage_def)
  ultimately show ?thesis
    using createFork_plan[OF wf(1) selectForkPlan_tree, of sid] by (simp add: copies)
qed

section \<open>Promises\<close>

lemma createFork_returns:
  assumes "storage_inv s"
  shows "\<exists>r. createFork options s = Some r \<and> (\<forall>d. r = Inr d \<longrightarrow> storage_inv d)"
proof -
  have wf: "entries_wf s" using assms by (simp add: storage_inv_def)
  obtain r where r: "createFork options s = Some r"
    using selectForkPlan_returns[OF assms, of options] by (auto simp: createFork_def)
  have "storage_inv d" if h: "r = Inr d" for d
  proof -
    obtain plan d3 d4 where d: "selectForkPlan options s = Some (Inr plan)"
      "fork_values (fst plan) (fork_copies plan) (source_values s) (fork_base (fork_copies plan) s) = Inr d3"
      "fork_values (fst plan) (fork_copies plan) (source_elements s) d3 = Inr d4"
      "d = d4\<lparr>sst_nextSeq := sst_nextSeq s\<rparr>"
      by (rule createFork_cases[OF wf r[unfolded h]])
    show ?thesis
      unfolding d(4) by (rule fork_destination_inv[OF assms selectForkPlan_closed[OF assms d(1)] d(2,3)])
  qed
  with r show ?thesis by blast
qed

end
