(* ===== verification/ForkProps.thy ===== *)
theory ForkProps
  imports ForkSpec Samples
begin

text \<open>
  The promises of a fork of the materialized state, stated over \<open>createFork\<close>: it returns and keeps
  the storage invariant, a branch fork holds exactly the chosen part of the branch, nothing of a
  running or finished operation survives, and a fork is a fixed point of a further tree fork.
\<close>

section \<open>The branch of a fork\<close>

lemma selectForkPlan_on_path:
  assumes inv: "storage_inv s"
    and tip: "map_get (sst_scalarValues s) (physicalKey ns_branch_tip branch) = Some v"
      "sv_value v = VTip (Some (en_id t))"
    and path: "path_to_root s t (pre @ e # post)"
    and entryId: "(case entryId of None \<Rightarrow> en_id t | Some i \<Rightarrow> i) = en_id e"
    and ok: "selectForkPlan (ForkBranch branch entryId position sid) s = Some (Inr plan)"
  shows "plan = (BranchPlan branch (if position = Some Before then en_parentId e else Some (en_id e)),
    if position = Some Before then map en_id post else map en_id (e # post))"
proof -
  have wf: "entries_wf s" using inv by (simp add: storage_inv_def)
  obtain a where a: "branchTip branch = Inr a"
    using ok by (cases "branchTip branch") (auto simp: selectForkPlan_def)
  then have "getValue a s = Some v"
    using tip(1) by (auto simp: branchTip_def mkValue_eq_Inr getValue_def)
  then show ?thesis
    using ok selectBranchFork_on_path[OF wf path entryId, of branch position]
    by (auto simp: selectForkPlan_def a tip(2) split: sum.splits if_splits)
qed

lemma fork_entries_of:
  assumes inv: "storage_inv s" and ok: "createFork options s = Some (Inr d)"
    and plan: "selectForkPlan options s = Some (Inr plan)"
  shows "sst_entriesBySeq d = filter (fork_copies plan \<circ> en_id) (sst_entriesBySeq s)"
proof -
  have wf: "entries_wf s" using inv by (simp add: storage_inv_def)
  obtain d3 d4 where d: "fork_values (fst plan) (fork_copies plan) (source_values s) (fork_base (fork_copies plan) s) = Inr d3"
    "fork_values (fst plan) (fork_copies plan) (source_elements s) d3 = Inr d4"
    "d = d4\<lparr>sst_nextSeq := sst_nextSeq s\<rparr>"
    using createFork_cases[OF wf ok] plan by (metis sum.inject(2) option.inject)
  show ?thesis
    using fork_values_fields[OF d(1)] fork_values_fields[OF d(2)] d(3) by (simp add: fork_base_def)
qed

lemma filter_ids_path:
  assumes "entries_wf s" "set path \<subseteq> set (sst_entriesBySeq s)"
  shows "filter (\<lambda>x. en_id x \<in> en_id ` set path) (sst_entriesBySeq s) =
    filter (\<lambda>x. x \<in> set path) (sst_entriesBySeq s)"
proof (rule filter_cong[OF refl])
  fix x assume "x \<in> set (sst_entriesBySeq s)"
  moreover have "inj_on en_id (set (sst_entriesBySeq s))"
    using assms(1) by (simp add: entries_wf_def entry_tree_def distinct_map)
  ultimately show "(en_id x \<in> en_id ` set path) = (x \<in> set path)"
    using assms(2) by (auto simp: inj_on_image_mem_iff)
qed

section \<open>Properties\<close>

text \<open>
  C7: A fork of a well-formed session always returns, and when it succeeds the destination is
  well-formed too: unique ids, parents before children, sorted lists, totals that match the entries.
\<close>

theorem createFork_keeps_invariant:
  assumes "storage_inv s"
  shows "\<exists>r. createFork options s = Some r \<and> (\<forall>d. r = Inr d \<longrightarrow> storage_inv d)"
  by (rule createFork_returns[OF assms])

theorem createFork_keeps_invariant_witness:
  "\<exists>r. createFork (ForkTree None) sample_state = Some r \<and> (\<forall>d. r = Inr d \<longrightarrow> storage_inv d)"
  by (rule createFork_keeps_invariant[OF storage_inv_sample])

text \<open>
  C6: A branch fork at an entry of the branch copies, in commit order, exactly that entry and its
  ancestors (only the ancestors with \<open>position: before\<close>), and the tip of the copied branch is the
  fork entry (its parent with \<open>before\<close>); without an entry id the fork entry is the tip.
\<close>

theorem createFork_branch_contents:
  assumes "storage_inv s" "\<not> has_nul branch"
    and "map_get (sst_scalarValues s) (physicalKey ns_branch_tip branch) = Some v"
    and "sv_value v = VTip (Some (en_id t))" "path_to_root s t (pre @ e # post)"
    and "(case entryId of None \<Rightarrow> en_id t | Some i \<Rightarrow> i) = en_id e"
    and "createFork (ForkBranch branch entryId position sid) s = Some (Inr d)"
  shows "sst_entriesBySeq d =
      filter (\<lambda>x. x \<in> set (if position = Some Before then post else e # post)) (sst_entriesBySeq s) \<and>
    map_option sv_value (map_get (sst_scalarValues d) (physicalKey ns_branch_tip branch)) =
      Some (VTip (if position = Some Before then en_parentId e else Some (en_id e)))"
proof -
  let ?dest = "if position = Some Before then en_parentId e else Some (en_id e)"
  let ?path = "if position = Some Before then post else e # post"
  have wf: "entries_wf s" "scalars_wf s" using assms(1) by (simp_all add: storage_inv_def)
  obtain plan where plan: "selectForkPlan (ForkBranch branch entryId position sid) s = Some (Inr plan)"
    using createFork_cases[OF wf(1) assms(7)] by metis
  have p: "plan = (BranchPlan branch ?dest, map en_id ?path)"
    using selectForkPlan_on_path[OF assms(1,3,4,5,6) plan] by simp
  have copies: "fork_copies plan \<circ> en_id = (\<lambda>x. en_id x \<in> en_id ` set ?path)"
    by (simp add: p fun_eq_iff)
  have "set ?path \<subseteq> set (sst_entriesBySeq s)"
    using assms(5) by (auto simp: path_to_root_def)
  then have entries: "sst_entriesBySeq d = filter (\<lambda>x. x \<in> set ?path) (sst_entriesBySeq s)"
    unfolding fork_entries_of[OF assms(1,7) plan] copies by (rule filter_ids_path[OF wf(1)])
  have "(physicalKey ns_branch_tip branch, v) \<in> set (sst_scalarValues s)"
    using assms(3) by (rule map_of_SomeD)
  then have "mkValue (ad_namespace (sv_address v)) (ad_key (sv_address v)) = Inr (sv_address v)"
    "physicalKey ns_branch_tip branch = physicalKey (ad_namespace (sv_address v)) (ad_key (sv_address v))"
    using wf(2) by (auto simp: scalars_wf_def scalar_wf_def)
  then have "ns_branch_tip = ad_namespace (sv_address v) \<and> branch = ad_key (sv_address v)"
    using physicalKey_inj[of ns_branch_tip "ad_namespace (sv_address v)"] by (simp add: mkValue_eq_Inr)
  then have "cu_namespace (current_value v) = ns_branch_tip" "cu_key (current_value v) = branch"
    by (simp_all add: current_value_def)
  then have "projectForkCurrentStateWrite (current_value v) (fst plan) (fork_copies plan) =
      Inr (Some ((current_value v)\<lparr>cu_value := VTip ?dest\<rparr>))"
    by (simp add: p project_rules(3))
  from createFork_value[OF assms(1,7) plan assms(3) _ this] entries show ?thesis by simp
qed


text \<open>
  C9: A fork is a fixed point: forking a forked session once more with \<open>scope: tree\<close>
  gives that session back unchanged.
\<close>

theorem createFork_tree_fixed:
  assumes "storage_inv s" "createFork options s = Some (Inr d)"
  shows "createFork (ForkTree sid) d = Some (Inr d)"
proof -
  have wf: "entries_wf s" using assms(1) by (simp add: storage_inv_def)
  obtain plan d3 d4 where d: "selectForkPlan options s = Some (Inr plan)"
    "fork_values (fst plan) (fork_copies plan) (source_values s) (fork_base (fork_copies plan) s) = Inr d3"
    "fork_values (fst plan) (fork_copies plan) (source_elements s) d3 = Inr d4"
    "d = d4\<lparr>sst_nextSeq := sst_nextSeq s\<rparr>"
    by (rule createFork_cases[OF wf assms(2)])
  show ?thesis
  proof (rule createFork_fixed)
    show "storage_inv d" using createFork_returns[OF assms(1), of options] assms(2) by auto
    show "sst_usage d = []"
      using fork_values_fields[OF d(2)] fork_values_fields[OF d(3)] d(4)
      by (simp add: fork_base_def empty_storage_def)
    show "\<forall>(k, v) \<in> set (sst_scalarValues d).
        projectForkCurrentStateWrite (current_value v) TreePlan (\<lambda>_. True) = Inr (Some (current_value v))"
      using fork_scalars_survive[OF d(2)] project_idem fork_values_scalars_frame[OF d(3) source_elements_kind] d(4)
      by fastforce
    show "element_writes d (\<lambda>w. projectForkCurrentStateWrite w TreePlan (\<lambda>_. True) = Inr (Some w))"
      using fork_elements_survive[OF assms(1) d(2,3)] d(4) by (simp add: element_writes_def)
  qed
qed

section \<open>Witnesses\<close>

definition sample_fork :: storage_state where
  "sample_fork = (case createFork (ForkBranch (js ''main'') (Some (js ''b'')) (Some Before) None) sample_state of
     Some (Inr d) \<Rightarrow> d | _ \<Rightarrow> empty_storage)"

lemma sample_tip:
  "map_get (sst_scalarValues sample_state) (physicalKey ns_branch_tip (js ''main'')) =
    Some \<lparr>sv_address = \<lparr>ad_namespace = ns_branch_tip, ad_key = js ''main'', ad_kind = ValueKind\<rparr>,
      sv_value = VTip (Some (js ''c'')), sv_seq = 4\<rparr>"
  by (simp add: sample_state_def sample_commit sample_value_def)

lemma sample_path: "path_to_root sample_state (sample_entry ''c'' (Some ''b'') 3)
    ([sample_entry ''c'' (Some ''b'') 3] @ sample_entry ''b'' (Some ''a'') 2 # [sample_entry ''a'' None 1])"
  by (simp add: path_to_root_def sample_state_def sample_commit sample_entry_def)

lemma sample_plan:
  "selectForkPlan (ForkBranch (js ''main'') (Some (js ''b'')) (Some Before) None) sample_state =
     Some (Inr (BranchPlan (js ''main'') (Some (js ''a'')), [js ''a'']))"
proof -
  have wf: "entries_wf sample_state" using storage_inv_sample by (simp add: storage_inv_def)
  have "selectBranchFork (js ''main'') (Some (js ''b'')) (Some Before)
      (Some (Some (en_id (sample_entry ''c'' (Some ''b'') 3)))) (parent_of sample_state) =
    Some (Inr (BranchPlan (js ''main'') (Some (js ''a'')), [js ''a'']))"
    by (subst selectBranchFork_on_path[OF wf sample_path]) (simp_all add: sample_entry_def)
  then show ?thesis
    by (simp add: selectForkPlan_def branchTip_def laneConfig_def laneState_def mkValue_def validateAddress_def
        getValue_def sample_tip sample_entry_def)
      (simp add: sample_state_def sample_commit sample_value_def physicalKey_js)
qed

lemma sample_fork_runs:
  "createFork (ForkBranch (js ''main'') (Some (js ''b'')) (Some Before) None) sample_state = Some (Inr sample_fork)"
proof -
  have wf: "entries_wf sample_state" using storage_inv_sample by (simp add: storage_inv_def)
  have "\<exists>d. createFork (ForkBranch (js ''main'') (Some (js ''b'')) (Some Before) None) sample_state = Some (Inr d)"
    unfolding createFork_plan[OF wf sample_plan]
    by (simp add: sample_state_def sample_commit sample_value_def map_values_def current_value_def
        current_elements_def project_rules project_owned owned_ns_def applyValueSetOrListAppend_def
        applyValueSet_def mkValue_def validateAddress_def)
  then show ?thesis by (auto simp: sample_fork_def)
qed

theorem createFork_branch_contents_witness:
  "sst_entriesBySeq sample_fork = [sample_entry ''a'' None 1] \<and>
   map_option sv_value (map_get (sst_scalarValues sample_fork) (physicalKey ns_branch_tip (js ''main''))) =
     Some (VTip (Some (js ''a'')))"
  using createFork_branch_contents[OF storage_inv_sample _ sample_tip _ sample_path _ sample_fork_runs]
  by (simp add: sample_entry_def sample_state_def sample_commit)


theorem createFork_tree_fixed_witness: "createFork (ForkTree None) sample_fork = Some (Inr sample_fork)"
  by (rule createFork_tree_fixed[OF storage_inv_sample sample_fork_runs])

end
