(* ===== verification/Session.thy ===== *)
theory Session
  imports StorageProps Fork
begin

text \<open>
  \<open>MemoryStorage\<close> of \<open>session/memory.ts\<close> and \<open>StorageBackedSession\<close> of \<open>session/session.ts\<close>. A method
  is a state-passing action that ends in a value or in the error it throws, with the state it leaves
  behind in both cases. Since the mutation line runs one job at a time (theory \<open>MutationLine\<close>), a
  mutation is one atomic action; the clock and the id generator are arguments. The cancellation
  context of a call is only forwarded by this code and left out.
\<close>

section \<open>Actions\<close>

type_synonym ('s, 'a) action = "'s \<Rightarrow> (js_error + 'a) \<times> 's"

definition act_return :: "'a \<Rightarrow> ('s, 'a) action" where
  "act_return a s = (Inr a, s)"

definition act_throw :: "js_error \<Rightarrow> ('s, 'a) action" where
  "act_throw e s = (Inl e, s)"

definition act_lift :: "js_error + 'a \<Rightarrow> ('s, 'a) action" where
  "act_lift r s = (r, s)"

definition act_bind :: "('s, 'a) action \<Rightarrow> ('a \<Rightarrow> ('s, 'b) action) \<Rightarrow> ('s, 'b) action" where
  "act_bind m f s = (case m s of (Inl e, s') \<Rightarrow> (Inl e, s') | (Inr a, s') \<Rightarrow> f a s')"

definition act_require :: "bool \<Rightarrow> js_error \<Rightarrow> ('s, unit) action" where
  "act_require b e s = (if b then (Inr (), s) else (Inl e, s))"

lemma act_simps [simp]:
  "act_return a s = (Inr a, s)" "act_throw e s = (Inl e, s)" "act_lift r s = (r, s)"
  "act_bind (act_return a) f = f a" "act_bind (act_throw e) f = act_throw e"
  by (simp_all add: act_return_def act_throw_def act_lift_def act_bind_def fun_eq_iff)

section \<open>MemoryStorage\<close>

datatype open_state = Open | Closing | Closed

record memory_storage =
  ms_state :: open_state
  ms_data :: storage_state

definition new_memory_storage :: memory_storage where
  "new_memory_storage = \<lparr>ms_state = Open, ms_data = empty_storage\<rparr>"

definition memory_commit :: "storage_write list \<Rightarrow> int \<Rightarrow> (memory_storage, commit_result) action" where
  "memory_commit writes now ms =
     (if ms_state ms \<noteq> Open then (Inl StorageClosed, ms)
      else (let (d, r) = commitStorage writes now (ms_data ms) in (r, ms\<lparr>ms_data := d\<rparr>)))"

text \<open>Every reader has the same guard; the readers themselves are those of \<open>StorageState\<close>.\<close>

definition memory_read :: "(storage_state \<Rightarrow> js_error + 'a) \<Rightarrow> memory_storage \<Rightarrow> js_error + 'a" where
  "memory_read f ms = (if ms_state ms \<noteq> Open then Inl StorageClosed else f (ms_data ms))"

text \<open>A call of \<open>scanBranch\<close> that never returns leaves the reader pending: \<open>None\<close>.\<close>

definition memory_scanBranch :: "branch_scan \<Rightarrow> memory_storage \<Rightarrow> (js_error + entry list) option" where
  "memory_scanBranch q ms = (if ms_state ms \<noteq> Open then Some (Inl StorageClosed) else scanBranch q (ms_data ms))"

definition memory_fork :: "fork_options \<Rightarrow> memory_storage \<Rightarrow> (js_error + memory_storage) option" where
  "memory_fork options ms =
     (if ms_state ms \<noteq> Open then Some (Inl StorageClosed)
      else map_option (map_sum id (\<lambda>d. \<lparr>ms_state = Open, ms_data = d\<rparr>)) (createFork options (ms_data ms)))"

definition memory_close :: "memory_storage \<Rightarrow> memory_storage" where
  "memory_close ms = ms\<lparr>ms_state := Closed\<rparr>"

section \<open>Mutations\<close>

record mutation_handle =
  mh_active :: bool
  mh_attempted :: bool

fun is_pending_write :: "storage_write \<Rightarrow> bool" where
  "is_pending_write (WEntry e) \<longleftrightarrow>
     (case ne_body e of MessageBody m t \<Rightarrow> is_pending_assistant m | _ \<Rightarrow> False)"
| "is_pending_write _ \<longleftrightarrow> False"

text \<open>\<open>commit\<close> of the mutation: active, first attempt, no pending assistant message.\<close>

definition mutation_commit :: "storage_write list \<Rightarrow> int \<Rightarrow> (mutation_handle \<times> memory_storage, commit_result) action" where
  "mutation_commit writes now st =
     (let (mh, ms) = st in
      if \<not> mh_active mh then (Inl MutatorInactive, (mh, ms))
      else if mh_attempted mh then (Inl CommitAlreadyAttempted, (mh, ms))
      else if list_ex is_pending_write writes
           then (Inl PendingAssistantMessage, (mh\<lparr>mh_attempted := True\<rparr>, ms))
      else (let (r, ms') = memory_commit writes now ms in (r, (mh\<lparr>mh_attempted := True\<rparr>, ms'))))"

definition mutation_read :: "(storage_state \<Rightarrow> js_error + 'a) \<Rightarrow> (mutation_handle \<times> memory_storage, 'a) action" where
  "mutation_read f st =
     (let (mh, ms) = st in
      if \<not> mh_active mh then (Inl MutatorInactive, st) else (memory_read f ms, st))"

definition mutation_end :: "mutation_handle \<times> memory_storage \<Rightarrow> mutation_handle \<times> memory_storage" where
  "mutation_end st = ((fst st)\<lparr>mh_active := False\<rparr>, snd st)"

section \<open>StorageBackedSession\<close>

record backed_session =
  se_metadata :: session_metadata
  se_storage :: memory_storage
  se_branches :: "jstring list"
  se_state :: open_state

definition new_session :: "session_metadata \<Rightarrow> memory_storage \<Rightarrow> backed_session" where
  "new_session metadata storage =
     \<lparr>se_metadata = metadata, se_storage = storage, se_branches = [], se_state = Open\<rparr>"

definition session_mutate ::
  "(mutation_handle \<times> memory_storage, 'a) action \<Rightarrow> (backed_session, 'a) action" where
  "session_mutate body se =
     (if se_state se \<noteq> Open then (Inl SessionClosed, se)
      else (let (r, st) = body (\<lparr>mh_active = True, mh_attempted = False\<rparr>, se_storage se)
            in (r, se\<lparr>se_storage := snd (mutation_end st)\<rparr>)))"

definition session_read :: "(storage_state \<Rightarrow> js_error + 'a) \<Rightarrow> backed_session \<Rightarrow> js_error + 'a" where
  "session_read f se = (if se_state se \<noteq> Open then Inl SessionClosed else memory_read f (se_storage se))"

definition session_getEntry :: "jstring \<Rightarrow> backed_session \<Rightarrow> js_error + entry option" where
  "session_getEntry i = session_read (\<lambda>s. Inr (map_get (getEntries [i] s) i))"

definition session_getName :: "backed_session \<Rightarrow> js_error + jstring option" where
  "session_getName se =
     ebind sessionName (\<lambda>a. session_read (\<lambda>s. case getValue a s of
       None \<Rightarrow> Inr None | Some v \<Rightarrow> ebind (as_text (sv_value v)) (\<lambda>t. Inr (Some t))) se)"

definition session_getLabel :: "jstring \<Rightarrow> backed_session \<Rightarrow> js_error + jstring option" where
  "session_getLabel targetId se =
     ebind (entryLabel targetId) (\<lambda>a. session_read (\<lambda>s. case getValue a s of
       None \<Rightarrow> Inr None | Some v \<Rightarrow> ebind (as_text (sv_value v)) (\<lambda>t. Inr (Some t))) se)"

record entry_query =
  eq_type :: "entry_type option"
  eq_customType :: "jstring option"
  eq_order :: "scan_order option"
  eq_limit :: "int option"
  eq_cursor :: "int option"

definition any_entry :: entry_query where
  "any_entry = \<lparr>eq_type = None, eq_customType = None, eq_order = None, eq_limit = None, eq_cursor = None\<rparr>"

text \<open>The storage query of \<open>findEntries\<close>; \<open>None\<close> is the early return of an exhausted cursor.\<close>

definition entry_scan_of :: "entry_query \<Rightarrow> entry_scan option" where
  "entry_scan_of query =
     (let order = (case eq_order query of None \<Rightarrow> Desc | Some d \<Rightarrow> d) in
      if (case eq_cursor query of
            None \<Rightarrow> False
          | Some c \<Rightarrow> (order = Asc \<and> c = MAX_SAFE_INTEGER) \<or> (order = Desc \<and> c \<le> 1))
      then None
      else Some \<lparr>es_type = eq_type query, es_customType = eq_customType query,
        es_fromSeq = (case eq_cursor query of None \<Rightarrow> None | Some c \<Rightarrow> if order = Asc then Some (c + 1) else None),
        es_toSeq = (case eq_cursor query of None \<Rightarrow> None | Some c \<Rightarrow> if order = Asc then None else Some (c - 1)),
        es_order = Some order, es_limit = eq_limit query\<rparr>)"

definition session_findEntries :: "entry_query option \<Rightarrow> backed_session \<Rightarrow> js_error + entry list" where
  "session_findEntries arg se =
     (let query = (case arg of None \<Rightarrow> any_entry | Some q \<Rightarrow> q) in
      if se_state se \<noteq> Open then Inl SessionClosed
      else (case entry_scan_of query of
              None \<Rightarrow> Inr []
            | Some q \<Rightarrow> memory_read (\<lambda>s. Inr (scanEntries q s)) (se_storage se)))"

definition first_of :: "'a list \<Rightarrow> 'a option" where
  "first_of xs = (case xs of [] \<Rightarrow> None | x # _ \<Rightarrow> Some x)"

definition session_findEntry :: "entry_query option \<Rightarrow> backed_session \<Rightarrow> js_error + entry option" where
  "session_findEntry arg se =
     (let query = (case arg of None \<Rightarrow> any_entry | Some q \<Rightarrow> q) in
      ebind (session_findEntries (Some (query\<lparr>eq_limit :=
          Some (case eq_limit query of None \<Rightarrow> 1 | Some n \<Rightarrow> min n 1)\<rparr>)) se)
        (\<lambda>es. Inr (first_of es)))"

definition assertValidBranchName :: "jstring \<Rightarrow> js_error + unit" where
  "assertValidBranchName name =
     (if name = [] then Inl (InvalidBranchName name ''branch name must not be empty'')
      else if has_nul name then Inl (InvalidBranchName name ''branch name must not contain NUL'')
      else Inr ())"

definition getOrCreateBranchObject :: "jstring \<Rightarrow> backed_session \<Rightarrow> backed_session" where
  "getOrCreateBranchObject name se =
     (if name \<in> set (se_branches se) then se else se\<lparr>se_branches := se_branches se @ [name]\<rparr>)"

text \<open>\<open>branch\<close>: the \<open>Branch\<close> object is identified by its name.\<close>

definition session_branch :: "jstring \<Rightarrow> (backed_session, jstring option) action" where
  "session_branch name se =
     (case ebind (assertValidBranchName name) (\<lambda>_. ebind (branchTip name) (\<lambda>a.
             session_read (\<lambda>s. Inr (getValue a s)) se)) of
        Inl e \<Rightarrow> (Inl e, se)
      | Inr None \<Rightarrow> (Inr None, se)
      | Inr (Some v) \<Rightarrow> (Inr (Some name), getOrCreateBranchObject name se))"

definition session_createBranch :: "jstring \<Rightarrow> jstring option \<Rightarrow> int \<Rightarrow> (backed_session, jstring) action" where
  "session_createBranch name target now se =
     (if se_state se \<noteq> Open then (Inl SessionClosed, se)
      else (case assertValidBranchName name of
        Inl e \<Rightarrow> (Inl e, se)
      | Inr _ \<Rightarrow>
          (case session_mutate
             (act_bind (act_lift (branchTip name)) (\<lambda>a.
              act_bind (mutation_read (\<lambda>s. Inr (getValue a s))) (\<lambda>tip.
              act_bind (act_require (tip = None) (BranchExists name)) (\<lambda>_.
              act_bind (case target of
                  None \<Rightarrow> act_return ()
                | Some i \<Rightarrow> act_bind (mutation_read (\<lambda>s. Inr (getEntries [i] s))) (\<lambda>found.
                    act_require (map_has found i) (UnknownTargetEntry i))) (\<lambda>_.
              mutation_commit [setValue a (VTip target)] now))))) se of
             (Inl e, se') \<Rightarrow> (Inl e, se')
           | (Inr c, se') \<Rightarrow> (Inr name, getOrCreateBranchObject name se'))))"

definition session_setValue :: "address \<Rightarrow> stored \<Rightarrow> int \<Rightarrow> (backed_session, commit_result) action" where
  "session_setValue a v now = session_mutate (mutation_commit [setValue a v] now)"
definition session_deleteValue :: "address \<Rightarrow> int \<Rightarrow> (backed_session, commit_result) action" where
  "session_deleteValue a now = session_mutate (mutation_commit [deleteValue a] now)"
definition session_appendList :: "address \<Rightarrow> stored \<Rightarrow> int \<Rightarrow> (backed_session, commit_result) action" where
  "session_appendList a v now = session_mutate (mutation_commit [appendList a v] now)"
definition session_deleteList :: "address \<Rightarrow> int \<Rightarrow> (backed_session, commit_result) action" where
  "session_deleteList a now = session_mutate (mutation_commit [deleteList a] now)"

definition session_setName :: "jstring option \<Rightarrow> int \<Rightarrow> (backed_session, commit_result) action" where
  "session_setName name now =
     act_bind (act_lift sessionName) (\<lambda>a. case name of
       None \<Rightarrow> session_deleteValue a now | Some n \<Rightarrow> session_setValue a (VText n) now)"

definition session_setLabel :: "jstring \<Rightarrow> jstring option \<Rightarrow> int \<Rightarrow> (backed_session, commit_result) action" where
  "session_setLabel targetId label now =
     act_bind (act_lift (entryLabel targetId)) (\<lambda>a. case label of
       None \<Rightarrow> session_deleteValue a now | Some l \<Rightarrow> session_setValue a (VText l) now)"

text \<open>\<open>close\<close> seals the line, waits for the jobs before it and closes the storage.\<close>

definition session_close :: "backed_session \<Rightarrow> backed_session" where
  "session_close se = se\<lparr>se_storage := memory_close (se_storage se), se_state := Closed\<rparr>"

definition getBranchTip :: "jstring \<Rightarrow> backed_session \<Rightarrow> js_error + jstring option" where
  "getBranchTip name se =
     ebind (branchTip name) (\<lambda>a. session_read (\<lambda>s. case getValue a s of
       None \<Rightarrow> Inl (SessionInvariant ''Unknown branch'') | Some v \<Rightarrow> as_tip (sv_value v)) se)"

datatype appended_entry = AppendedMessage agent_message | AppendedCustom jstring "json option"

fun appended_body :: "appended_entry \<Rightarrow> entry_body" where
  "appended_body (AppendedMessage m) = MessageBody m False"
| "appended_body (AppendedCustom c d) = CustomBody c d"

definition appendToBranch :: "jstring \<Rightarrow> appended_entry \<Rightarrow> jstring \<Rightarrow> int \<Rightarrow> (backed_session, jstring) action" where
  "appendToBranch name entry newId now se =
     (if se_state se \<noteq> Open then (Inl SessionClosed, se)
      else if (case entry of AppendedMessage m \<Rightarrow> is_pending_assistant m | _ \<Rightarrow> False)
           then (Inl PendingAssistantMessage, se)
      else session_mutate
        (act_bind (act_lift (branchTip name)) (\<lambda>a.
         act_bind (mutation_read (\<lambda>s. Inr (getValue a s))) (\<lambda>tip.
           case tip of
             None \<Rightarrow> act_throw (SessionInvariant ''Unknown branch'')
           | Some v \<Rightarrow>
               act_bind (act_lift (as_tip (sv_value v))) (\<lambda>t.
               act_bind (mutation_commit
                 [insertEntry \<lparr>ne_id = newId, ne_parentId = t, ne_body = appended_body entry\<rparr>,
                  setValue a (VTip (Some newId))] now) (\<lambda>_.
               act_return newId))))) se)"

text \<open>\<open>StorageBackedBranch.findEntries\<close>: the branch scan from the given start or the tip.\<close>

definition branch_findEntries :: "jstring \<Rightarrow> jstring option \<Rightarrow> branch_scan \<Rightarrow> backed_session \<Rightarrow>
    (js_error + entry list) option" where
  "branch_findEntries name start query se =
     (case (case start of Some i \<Rightarrow> Inr (Some i) | None \<Rightarrow> getBranchTip name se) of
        Inl e \<Rightarrow> Some (Inl e)
      | Inr None \<Rightarrow> Some (Inr [])
      | Inr (Some i) \<Rightarrow>
          if se_state se \<noteq> Open then Some (Inl SessionClosed)
          else memory_scanBranch (query\<lparr>bs_start := i,
                 bs_order := Some (case bs_order query of None \<Rightarrow> NewestFirst | Some d \<Rightarrow> d)\<rparr>) (se_storage se))"

definition branch_findEntry :: "jstring \<Rightarrow> jstring option \<Rightarrow> branch_scan \<Rightarrow> backed_session \<Rightarrow>
    (js_error + entry option) option" where
  "branch_findEntry name start query se =
     map_option (map_sum id first_of) (branch_findEntries name start
       (query\<lparr>bs_limit := Some (case bs_limit query of None \<Rightarrow> 1 | Some n \<Rightarrow> min n 1)\<rparr>) se)"

end
