(* ===== verification/SessionProps.thy ===== *)
theory SessionProps
  imports Session
begin

text \<open>
  What a session promises: one commit per mutation, no streaming assistant message ever stored, the
  storage invariant in every reachable state, branches that grow by appending at their tip, paged
  reads that miss nothing, and a closed session that no longer changes.
\<close>

section \<open>Stored entries are settled\<close>

definition settled_body :: "entry_body \<Rightarrow> bool" where
  "settled_body b \<longleftrightarrow> (case b of MessageBody m t \<Rightarrow> \<not> is_pending_assistant m | _ \<Rightarrow> True)"

definition session_ok :: "backed_session \<Rightarrow> bool" where
  "session_ok se \<longleftrightarrow> storage_inv (ms_data (se_storage se)) \<and>
     (\<forall>e \<in> set (sst_entriesBySeq (ms_data (se_storage se))). settled_body (en_body e))"

lemma is_pending_write_body: "\<not> is_pending_write (WEntry e) \<longleftrightarrow> settled_body (ne_body e)"
  by (auto simp: settled_body_def split: entry_body.splits)

lemma apply_write_entries:
  assumes "apply_write w s = Inr s'"
  shows "sst_entriesBySeq s' = sst_entriesBySeq s @ (case w of CEntry e \<Rightarrow> [e] | _ \<Rightarrow> [])"
  using assms by (cases w) (auto simp: applyValueSet_fields applyListAppend_fields)

lemma applyValidated_entries:
  "\<forall>e \<in> set (sst_entriesBySeq s). P e \<Longrightarrow> \<forall>e. CEntry e \<in> set ws \<longrightarrow> P e \<Longrightarrow>
   \<forall>e \<in> set (sst_entriesBySeq (fst (applyValidated ws s))). P e"
proof (induction ws arbitrary: s)
  case (Cons w ws)
  show ?case
  proof (cases "apply_write w s")
    case (Inr s')
    have "\<forall>e \<in> set (sst_entriesBySeq s'). P e"
      using apply_write_entries[OF Inr] Cons.prems by (auto split: committed_write.splits)
    moreover have "\<forall>e. CEntry e \<in> set ws \<longrightarrow> P e" using Cons.prems(2) by simp
    ultimately show ?thesis using Cons.IH[of s'] Inr by simp
  qed (use Cons.prems(1) in simp)
qed simp

lemma committed_entry_body:
  "CEntry e \<in> set (commit_writes_from ws n ts) \<Longrightarrow> \<exists>ne. WEntry ne \<in> set ws \<and> en_body e = ne_body ne"
proof (induction ws n ts rule: commit_writes_from.induct)
  case (2 w ws n ts)
  then show ?case by (cases w) (auto simp: materializeCommittedEntry_def)
qed simp

lemma commitStorage_settled:
  assumes "\<forall>e \<in> set (sst_entriesBySeq s). settled_body (en_body e)" "\<not> list_ex is_pending_write ws"
  shows "\<forall>e \<in> set (sst_entriesBySeq (fst (commitStorage ws now s))). settled_body (en_body e)"
proof (cases "prepareCommit ws now s")
  case (Inr p)
  then have p: "pc_writes p = commit_writes_from ws (sst_nextSeq s) now"
    by (auto simp: prepareCommit_eq_Inr prepareStorageCommit_def Let_def)
  have "settled_body (en_body e)" if mem: "CEntry e \<in> set (pc_writes p)" for e
  proof -
    obtain ne where ne: "WEntry ne \<in> set ws" "en_body e = ne_body ne"
      using committed_entry_body mem[unfolded p] by blast
    then have "\<not> is_pending_write (WEntry ne)" using assms(2) unfolding list_ex_iff by blast
    then show ?thesis using ne(2) is_pending_write_body by simp
  qed
  then have "\<forall>e \<in> set (sst_entriesBySeq (fst (applyValidated (pc_writes p) s))). settled_body (en_body e)"
    by (intro applyValidated_entries[OF assms(1)]) blast
  then show ?thesis
    by (cases "applyValidated (pc_writes p) s") (simp add: commitStorage_def Inr split: sum.splits)
qed (use assms(1) in \<open>simp add: commitStorage_def\<close>)

definition data_ok :: "mutation_handle \<times> memory_storage \<Rightarrow> bool" where
  "data_ok st \<longleftrightarrow> storage_inv (ms_data (snd st)) \<and>
     (\<forall>e \<in> set (sst_entriesBySeq (ms_data (snd st))). settled_body (en_body e))"

text \<open>Actions on an open mutation keep the data well-formed.\<close>

definition keeps_data :: "(mutation_handle \<times> memory_storage, 'a) action \<Rightarrow> bool" where
  "keeps_data m \<longleftrightarrow> (\<forall>st. data_ok st \<longrightarrow> data_ok (snd (m st)))"

named_theorems keeps "actions that keep the stored data well-formed"

lemma keeps_commit [keeps]: "keeps_data (mutation_commit writes now)"
  unfolding keeps_data_def
proof (intro allI impI)
  fix st assume ok: "data_ok st"
  obtain mh ms where st: "st = (mh, ms)" by (cases st)
  obtain d r where c: "commitStorage writes now (ms_data ms) = (d, r)" by fastforce
  have "storage_inv d" using commitStorage_inv[of "ms_data ms" writes now] ok c st by (simp add: data_ok_def)
  moreover have "\<forall>e \<in> set (sst_entriesBySeq d). settled_body (en_body e)" if "\<not> list_ex is_pending_write writes"
    using commitStorage_settled[of "ms_data ms" writes now] ok c st that by (simp add: data_ok_def)
  ultimately show "data_ok (snd (mutation_commit writes now st))"
    using ok by (auto simp: st mutation_commit_def memory_commit_def c data_ok_def)
qed

lemma keeps_read [keeps]: "keeps_data (mutation_read f)"
  by (auto simp: keeps_data_def mutation_read_def Let_def)

lemma keeps_basic [keeps]: "keeps_data (act_return a)" "keeps_data (act_throw e)" "keeps_data (act_lift r)"
  "keeps_data (act_require b e)"
  by (simp_all add: keeps_data_def act_require_def)

lemma keeps_bind [keeps]: "keeps_data m \<Longrightarrow> (\<And>a. keeps_data (f a)) \<Longrightarrow> keeps_data (act_bind m f)"
  unfolding keeps_data_def act_bind_def by (fastforce split: prod.splits sum.splits)

lemma session_mutate_ok:
  assumes "keeps_data body" "session_ok se"
  shows "session_ok (snd (session_mutate body se))"
proof -
  have "data_ok (snd (body (\<lparr>mh_active = True, mh_attempted = False\<rparr>, se_storage se)))"
    using assms by (simp add: keeps_data_def session_ok_def data_ok_def)
  then show ?thesis
    using assms(2) by (auto simp: session_mutate_def session_ok_def data_ok_def mutation_end_def split: prod.splits)
qed

section \<open>Steps of a session\<close>

text \<open>
  Every call that can change a session; a callback of \<open>mutate\<close> is any action built from the
  mutation's reads and commits.
\<close>

inductive mutator_program :: "(mutation_handle \<times> memory_storage, unit) action \<Rightarrow> bool" where
  prog_return: "mutator_program (act_return ())"
| prog_throw: "mutator_program (act_throw e)"
| prog_read: "(\<And>a. mutator_program (f a)) \<Longrightarrow>
    mutator_program (act_bind (mutation_read (r :: storage_state \<Rightarrow> js_error + stored)) f)"
| prog_commit: "(\<And>c. mutator_program (f c)) \<Longrightarrow> mutator_program (act_bind (mutation_commit writes now) f)"

lemma keeps_program: "mutator_program m \<Longrightarrow> keeps_data m"
  by (induction rule: mutator_program.induct) (blast intro: keeps)+

inductive session_step :: "backed_session \<Rightarrow> backed_session \<Rightarrow> bool" where
  step_mutate: "mutator_program m \<Longrightarrow> session_step se (snd (session_mutate m se))"
| step_setValue: "session_step se (snd (session_setValue a v now se))"
| step_deleteValue: "session_step se (snd (session_deleteValue a now se))"
| step_appendList: "session_step se (snd (session_appendList a v now se))"
| step_deleteList: "session_step se (snd (session_deleteList a now se))"
| step_setName: "session_step se (snd (session_setName name now se))"
| step_setLabel: "session_step se (snd (session_setLabel i label now se))"
| step_branch: "session_step se (snd (session_branch name se))"
| step_createBranch: "session_step se (snd (session_createBranch name target now se))"
| step_append: "session_step se (snd (appendToBranch name e i now se))"
| step_close: "session_step se (session_close se)"

inductive session_reachable :: "session_metadata \<Rightarrow> backed_session \<Rightarrow> bool" for metadata where
  reach_open: "session_reachable metadata (new_session metadata new_memory_storage)"
| reach_next: "session_reachable metadata se \<Longrightarrow> session_step se se' \<Longrightarrow> session_reachable metadata se'"

lemma session_ok_frame: "session_ok (se\<lparr>se_branches := b\<rparr>) = session_ok se"
  by (simp add: session_ok_def)

lemma getOrCreate_ok: "session_ok (getOrCreateBranchObject name se) = session_ok se"
  by (simp add: getOrCreateBranchObject_def session_ok_frame)

lemma session_step_ok: "session_step se se' \<Longrightarrow> session_ok se \<Longrightarrow> session_ok se'"
proof (induction rule: session_step.induct)
  case (step_setName se name now)
  then show ?case
    unfolding session_setName_def session_deleteValue_def session_setValue_def
    by (auto simp: act_bind_def act_lift_def intro!: session_mutate_ok keeps split: sum.splits option.splits)
next
  case (step_setLabel se i label now)
  then show ?case
    unfolding session_setLabel_def session_deleteValue_def session_setValue_def
    by (auto simp: act_bind_def act_lift_def intro!: session_mutate_ok keeps split: sum.splits option.splits)
next
  case (step_branch se name)
  then show ?case by (auto simp: session_branch_def getOrCreate_ok split: sum.splits option.splits)
next
  case (step_createBranch se name target now)
  let ?body = "act_bind (act_lift (branchTip name)) (\<lambda>a.
      act_bind (mutation_read (\<lambda>s. Inr (getValue a s))) (\<lambda>tip.
      act_bind (act_require (tip = None) (BranchExists name)) (\<lambda>_.
      act_bind (case target of
          None \<Rightarrow> act_return ()
        | Some i \<Rightarrow> act_bind (mutation_read (\<lambda>s. Inr (getEntries [i] s))) (\<lambda>found.
            act_require (map_has found i) (UnknownTargetEntry i))) (\<lambda>_.
      mutation_commit [setValue a (VTip target)] now))))"
  have "session_ok (snd (session_mutate ?body se))"
    by (rule session_mutate_ok[OF _ step_createBranch]) (auto intro!: keeps split: option.splits)
  then show ?case
    using step_createBranch
    by (auto simp: session_createBranch_def getOrCreate_ok split: prod.splits sum.splits)
next
  case (step_append se name e i now)
  then show ?case
    unfolding appendToBranch_def
    by (auto intro!: session_mutate_ok keeps split: option.splits)
next
  case (step_close se)
  then show ?case by (simp add: session_close_def session_ok_def memory_close_def)
qed (auto simp: session_setValue_def session_deleteValue_def session_appendList_def session_deleteList_def
    intro: session_mutate_ok keeps keeps_program)

lemma session_ok_new: "session_ok (new_session metadata new_memory_storage)"
  by (simp add: session_ok_def new_session_def new_memory_storage_def storage_inv_empty) (simp add: empty_storage_def)

section \<open>Accepted mutations\<close>

lemma memory_commit_accepted:
  assumes "storage_inv (ms_data ms)" "ms_state ms = Open" "list_all addressed ws" "admissible (ms_data ms) ws"
  obtains d r where "memory_commit ws now ms = (Inr r, ms\<lparr>ms_data := d\<rparr>)"
    "abs_store d = fold spec_write (commit_writes_from ws (sst_nextSeq (ms_data ms)) now) (abs_store (ms_data ms))"
    "commitStorage ws now (ms_data ms) = (d, Inr r)"
proof -
  have "(\<exists>e. prepareCommit ws now (ms_data ms) = Inl e) \<longleftrightarrow> False"
    using prepareCommit_admissible[of ws now "ms_data ms"] assms(4) by (cases "prepareCommit ws now (ms_data ms)") auto
  then obtain d r where c: "commitStorage ws now (ms_data ms) = (d, Inr r)"
    using commitStorage_addressed[OF assms(3), of now "ms_data ms"] by blast
  show thesis
    by (rule that[OF _ commitStorage_refines[OF assms(1,3) c] c]) (simp add: memory_commit_def assms(2) c)
qed

lemma branchTip_valid:
  "assertValidBranchName name = Inr () \<Longrightarrow>
   branchTip name = Inr \<lparr>ad_namespace = ns_branch_tip, ad_key = name, ad_kind = ValueKind\<rparr>"
  by (simp add: assertValidBranchName_def branchTip_def mkValue_def validateAddress_def split: if_splits)

lemma branchTip_Inr:
  "branchTip name = Inr a \<longleftrightarrow> \<not> has_nul name \<and> a = \<lparr>ad_namespace = ns_branch_tip, ad_key = name, ad_kind = ValueKind\<rparr>"
  by (auto simp: branchTip_def mkValue_eq_Inr)

lemma getEntries_single: "getEntries [i] s = (case map_get (sst_entries s) i of None \<Rightarrow> [] | Some e \<Rightarrow> [(i, e)])"
  by (simp add: getEntries_def split: option.splits)

section \<open>Paging all entries\<close>

lemma scan_entries_loop_eq:
  "(case limit of None \<Rightarrow> True | Some n \<Rightarrow> int (length acc) \<le> n) \<Longrightarrow>
   scan_entries_loop P limit es acc =
     (case limit of None \<Rightarrow> acc @ filter P es | Some n \<Rightarrow> acc @ take (nat n - length acc) (filter P es))"
proof (induction es arbitrary: acc)
  case (Cons e es)
  show ?case
  proof (cases limit)
    case (Some n)
    show ?thesis
    proof (cases "int (length acc) < n")
      case True
      then obtain m where "nat n - length acc = Suc m" "nat n - Suc (length acc) = m"
        by (metis Suc_diff_Suc nat_int zless_nat_conj zless_nat_eq_int_zless)
      then show ?thesis using Cons Some True by auto
    qed (use Cons.prems Some in auto)
  qed (use Cons in auto)
qed (simp split: option.splits)

lemma scanEntries_eq:
  "scanEntries q s =
     (let all = filter (entry_matches q) (if es_order q = Some Desc then rev (sst_entriesBySeq s) else sst_entriesBySeq s)
      in case es_limit q of None \<Rightarrow> all | Some n \<Rightarrow> take (nat n) all)"
proof (cases "es_limit q")
  case (Some n)
  have "nat (max 0 n) = nat n" by simp
  then show ?thesis
    unfolding scanEntries_def Some by (subst scan_entries_loop_eq) (auto simp: Let_def)
qed (simp add: scanEntries_def scan_entries_loop_eq Let_def)

section \<open>Properties\<close>

text \<open>
  C12: In every state a session can reach, through any sequence of calls and any mutation callback,
  the stored data is well-formed and no assistant message that is still streaming is an entry.
\<close>

theorem session_reachable_ok:
  assumes "session_reachable metadata se"
  shows "storage_inv (ms_data (se_storage se)) \<and>
    (\<forall>e \<in> set (sst_entriesBySeq (ms_data (se_storage se))). \<forall>m t.
       en_body e = MessageBody m t \<longrightarrow> \<not> is_pending_assistant m)"
proof -
  have "session_ok se"
    using assms by (induction rule: session_reachable.induct) (auto intro: session_ok_new session_step_ok)
  then show ?thesis by (auto simp: session_ok_def settled_body_def)
qed

definition sample_metadata :: session_metadata where
  "sample_metadata = \<lparr>sm_id = js ''s1'', sm_createdAt = 1, sm_storageVersion = 1, sm_cwd = None,
     sm_parentSessionId = None, sm_legacyParentSessionPath = None\<rparr>"

definition sample_session :: backed_session where
  "sample_session = snd (session_createBranch (js ''main'') None 5 (new_session sample_metadata new_memory_storage))"

lemma sample_session_reachable: "session_reachable sample_metadata sample_session"
  unfolding sample_session_def by (rule reach_next[OF reach_open step_createBranch])

theorem session_reachable_ok_witness: "storage_inv (ms_data (se_storage sample_session))"
  using session_reachable_ok[OF sample_session_reachable] by blast

text \<open>
  A mutation commits at most once: whatever further commits its callback attempts, each is
  rejected and the stored data is that of the first attempt.
\<close>

theorem mutation_commits_once:
  assumes "mh_active mh"
  shows "snd (foldl (\<lambda>st (ws, now). snd (mutation_commit ws now st)) (mh, ms) (first # later)) =
      snd (snd (mutation_commit (fst first) (snd first) (mh, ms))) \<and>
    (\<forall>ws now. fst (mutation_commit ws now (snd (mutation_commit (fst first) (snd first) (mh, ms)))) =
       Inl CommitAlreadyAttempted)"
proof -
  obtain ws now where first: "first = (ws, now)" by (cases first)
  obtain mh1 ms1 where st1: "snd (mutation_commit ws now (mh, ms)) = (mh1, ms1)" by fastforce
  then have mh1: "mh_active mh1 \<and> mh_attempted mh1"
    using assms by (auto simp: mutation_commit_def Let_def split: if_splits prod.splits)
  have again: "mutation_commit ws' now' (mh1, ms1) = (Inl CommitAlreadyAttempted, (mh1, ms1))" for ws' now'
    using mh1 by (simp add: mutation_commit_def)
  have "foldl (\<lambda>st (ws, now). snd (mutation_commit ws now st)) (mh1, ms1) xs = (mh1, ms1)" for xs
    by (induction xs) (auto simp: again split: prod.splits)
  then show ?thesis using st1 again by (simp add: first)
qed

theorem mutation_commits_once_witness:
  "fst (mutation_commit [] 2 (snd (mutation_commit [] 1 (\<lparr>mh_active = True, mh_attempted = False\<rparr>, new_memory_storage)))) =
     Inl CommitAlreadyAttempted"
  using mutation_commits_once[of "\<lparr>mh_active = True, mh_attempted = False\<rparr>" new_memory_storage "([], 1)" "[]"] by simp

text \<open>
  Appending to a branch adds one entry under the branch's tip with the next sequence number and
  moves the tip to it; nothing else of the session changes.
\<close>

theorem appendToBranch_appends:
  assumes "storage_inv (ms_data (se_storage se))" "se_state se = Open" "ms_state (se_storage se) = Open"
    and "\<not> has_nul name" "value_at (ms_data (se_storage se)) (ns_branch_tip, name) = Some (VTip tip)"
    and "case tip of None \<Rightarrow> True | Some p \<Rightarrow> map_has (sst_entries (ms_data (se_storage se))) p"
    and "\<not> map_has (sst_entries (ms_data (se_storage se))) i" "\<not> map_has (sst_usage (ms_data (se_storage se))) i"
    and "settled_body (appended_body e)"
  shows "\<exists>d. appendToBranch name e i now se = (Inr i, se\<lparr>se_storage := \<lparr>ms_state = Open, ms_data = d\<rparr>\<rparr>) \<and>
    abs_store d = (let a = abs_store (ms_data (se_storage se)) in
      a\<lparr>ab_entries := ab_entries a @ [\<lparr>en_id = i, en_parentId = tip, en_seq = sst_nextSeq (ms_data (se_storage se)),
            en_timestamp = now, en_body = appended_body e\<rparr>],
        ab_values := (ab_values a)((ns_branch_tip, name) \<mapsto> VTip (Some i))\<rparr>)"
proof -
  let ?ms = "se_storage se" and ?s = "ms_data (se_storage se)"
  let ?a = "\<lparr>ad_namespace = ns_branch_tip, ad_key = name, ad_kind = ValueKind\<rparr>"
  let ?ne = "\<lparr>ne_id = i, ne_parentId = tip, ne_body = appended_body e\<rparr>"
  let ?ws = "[insertEntry ?ne, setValue ?a (VTip (Some i))]"
  have addr: "branchTip name = Inr ?a" using assms(4) by (simp add: branchTip_Inr)
  obtain v where v: "getValue ?a ?s = Some v" "sv_value v = VTip tip"
    using assms(5) by (auto simp: value_at_def getValue_def split: if_splits)
  have "list_all addressed ?ws"
    using assms(4) by (simp add: insertEntry_def setValue_def validateAddress_def)
  moreover have "admissible ?s ?ws"
    using assms(6,7,8) by (cases tip) (auto simp: admissible_def insertEntry_def setValue_def parents_known_Cons)
  ultimately obtain d r where d: "memory_commit ?ws now ?ms = (Inr r, ?ms\<lparr>ms_data := d\<rparr>)"
    "abs_store d = fold spec_write (commit_writes_from ?ws (sst_nextSeq ?s) now) (abs_store ?s)"
    using memory_commit_accepted[OF assms(1,3)] by metis
  have notpending: "\<not> list_ex is_pending_write ?ws"
    using assms(9) is_pending_write_body[of ?ne] by (simp add: insertEntry_def setValue_def del: is_pending_write.simps(1))
  have "\<not> (case e of AppendedMessage m \<Rightarrow> is_pending_assistant m | _ \<Rightarrow> False)"
    using assms(9) by (cases e) (simp_all add: settled_body_def)
  then have run: "appendToBranch name e i now se =
      (Inr i, se\<lparr>se_storage := ?ms\<lparr>ms_data := d\<rparr>\<rparr>)"
    using assms(2,3) v notpending d(1)
    by (simp add: appendToBranch_def addr act_bind_def mutation_read_def memory_read_def session_mutate_def
        mutation_commit_def mutation_end_def)
  have "?ms\<lparr>ms_data := d\<rparr> = \<lparr>ms_state = Open, ms_data = d\<rparr>" using assms(3) by (cases ?ms) simp
  with run d(2) show ?thesis
    by (intro exI[of _ d]) (simp add: insertEntry_def setValue_def materializeCommittedEntry_def Let_def)
qed

lemma sample_session_eq: "sample_session = \<lparr>se_metadata = sample_metadata,
    se_storage = \<lparr>ms_state = Open, ms_data = empty_storage\<lparr>sst_scalarValues :=
      [sample_value ns_branch_tip ''main'' (VTip None) 1], sst_nextSeq := 2\<rparr>\<rparr>,
    se_branches = [js ''main''], se_state = Open\<rparr>"
  by (simp add: sample_session_def session_createBranch_def new_session_def new_memory_storage_def
      assertValidBranchName_def session_mutate_def act_bind_def branchTip_def mkValue_def validateAddress_def
      mutation_read_def memory_read_def getValue_def empty_storage_def act_require_def mutation_commit_def
      memory_commit_def setValue_def commitStorage_def prepareCommit_def prepareStorageCommit_def Let_def
      validateCommitted_def validateCommittedWrites_def applyValueSet_def mutation_end_def
      getOrCreateBranchObject_def sample_value_def)

theorem appendToBranch_appends_witness:
  "\<exists>d. appendToBranch (js ''main'') (AppendedCustom (js ''note'') None) (js ''e1'') 9 sample_session =
     (Inr (js ''e1''), sample_session\<lparr>se_storage := \<lparr>ms_state = Open, ms_data = d\<rparr>\<rparr>)"
proof -
  have "storage_inv (ms_data (se_storage sample_session))"
    using session_step_ok[OF step_createBranch session_ok_new] by (simp add: sample_session_def session_ok_def)
  from appendToBranch_appends[OF this, of "js ''main''" None "js ''e1''" "AppendedCustom (js ''note'') None" 9]
  show ?thesis
    by (simp add: sample_session_eq value_at_def sample_value_def empty_storage_def map_has_def settled_body_def) blast
qed

text \<open>
  \<open>createBranch\<close> on an open session with a valid name fails with \<open>SessionBranchExistsError\<close>
  when the branch has a tip, with \<open>SessionUnknownTargetError\<close> when the target is not an entry, and
  otherwise stores exactly the new tip; a failure changes nothing.
\<close>

theorem createBranch_outcome:
  assumes "storage_inv (ms_data (se_storage se))" "se_state se = Open" "ms_state (se_storage se) = Open"
    and "assertValidBranchName name = Inr ()"
  shows "case session_createBranch name target now se of
      (Inl e, se') \<Rightarrow> se' = se \<and>
        (e = BranchExists name \<and> value_at (ms_data (se_storage se)) (ns_branch_tip, name) \<noteq> None \<or>
         (\<exists>i. e = UnknownTargetEntry i \<and> target = Some i \<and> \<not> map_has (sst_entries (ms_data (se_storage se))) i))
    | (Inr b, se') \<Rightarrow> b = name \<and> value_at (ms_data (se_storage se)) (ns_branch_tip, name) = None \<and>
        abs_store (ms_data (se_storage se')) = (let a = abs_store (ms_data (se_storage se)) in
          a\<lparr>ab_values := (ab_values a)((ns_branch_tip, name) \<mapsto> VTip target)\<rparr>)"
proof -
  let ?ms = "se_storage se" and ?s = "ms_data (se_storage se)"
  let ?a = "\<lparr>ad_namespace = ns_branch_tip, ad_key = name, ad_kind = ValueKind\<rparr>"
  have addr: "branchTip name = Inr ?a" by (rule branchTip_valid[OF assms(4)])
  have nul: "\<not> has_nul name" using assms(4) by (simp add: assertValidBranchName_def split: if_splits)
  have tip: "value_at ?s (ns_branch_tip, name) = map_option sv_value (getValue ?a ?s)"
    by (simp add: value_at_def getValue_def)
  have same: "se\<lparr>se_storage := ?ms\<rparr> = se" by simp
  have "list_all addressed [setValue ?a (VTip target)]"
    using nul by (simp add: setValue_def validateAddress_def)
  moreover have "admissible ?s [setValue ?a (VTip target)]"
    by (simp add: admissible_def setValue_def parents_known_Cons)
  ultimately obtain d r where d: "memory_commit [setValue ?a (VTip target)] now ?ms = (Inr r, ?ms\<lparr>ms_data := d\<rparr>)"
    "abs_store d = fold spec_write (commit_writes_from [setValue ?a (VTip target)] (sst_nextSeq ?s) now) (abs_store ?s)"
    using memory_commit_accepted[OF assms(1,3)] by metis
  have notpending: "\<not> list_ex is_pending_write [setValue ?a (VTip target)]" by (simp add: setValue_def)
  note run = session_createBranch_def assms(2,3,4) addr act_bind_def mutation_read_def memory_read_def
    session_mutate_def mutation_end_def act_require_def
  show ?thesis
  proof (cases "getValue ?a ?s")
    case (Some v)
    then show ?thesis by (simp add: run tip same)
  next
    case None
    show ?thesis
    proof (cases "case target of None \<Rightarrow> True | Some i \<Rightarrow> map_has (sst_entries ?s) i")
      case True
      then have "case target of None \<Rightarrow> True | Some i \<Rightarrow> map_has (getEntries [i] ?s) i"
        by (cases target) (auto simp: getEntries_single map_has_def)
      then show ?thesis
        using None d notpending
        by (cases target)
          (simp_all add: run tip mutation_commit_def getOrCreateBranchObject_def setValue_def Let_def)
    next
      case False
      then obtain i where i: "target = Some i" "\<not> map_has (sst_entries ?s) i" by (cases target) auto
      then have "\<not> map_has (getEntries [i] ?s) i" by (simp add: getEntries_single map_has_def)
      then show ?thesis using None i by (simp add: run tip same)
    qed
  qed
qed

theorem createBranch_outcome_witness:
  "\<exists>se'. session_createBranch (js ''main'') None 7 sample_session = (Inl (BranchExists (js ''main'')), se')"
proof -
  have "storage_inv (ms_data (se_storage sample_session))"
    using session_step_ok[OF step_createBranch session_ok_new] by (simp add: sample_session_def session_ok_def)
  from createBranch_outcome[OF this, of "js ''main''" None 7]
  show ?thesis
    by (auto simp: sample_session_eq value_at_def sample_value_def assertValidBranchName_def split: prod.splits sum.splits)
qed

definition query_matches :: "entry_query \<Rightarrow> entry \<Rightarrow> bool" where
  "query_matches q e \<longleftrightarrow> (eq_type q = None \<or> Some (en_type e) = eq_type q) \<and>
     (eq_customType q = None \<or> en_customType e = eq_customType q)"

definition listing :: "entry_query \<Rightarrow> storage_state \<Rightarrow> entry list" where
  "listing q s = filter (query_matches q)
     (if eq_order q = Some Asc then sst_entriesBySeq s else rev (sst_entriesBySeq s))"

lemma findEntries_open:
  assumes "session_findEntries (Some q) se = Inr r"
  shows "se_state se = Open" "entry_scan_of q \<noteq> None \<Longrightarrow> ms_state (se_storage se) = Open"
  using assms by (auto simp: session_findEntries_def memory_read_def split: if_splits option.splits)

lemma findEntries_limit:
  assumes "se_state se = Open" "ms_state (se_storage se) = Open"
  shows "session_findEntries (Some (q\<lparr>eq_cursor := None, eq_limit := l\<rparr>)) se =
    Inr (case l of None \<Rightarrow> listing q (ms_data (se_storage se))
         | Some n \<Rightarrow> take (nat n) (listing q (ms_data (se_storage se))))"
proof -
  have "eq_order q = Some Asc \<or> eq_order q = None \<or> eq_order q = Some Desc"
    by (cases "eq_order q"; cases "the (eq_order q)") auto
  then show ?thesis
    using assms
    by (elim disjE; cases l; simp add: session_findEntries_def entry_scan_of_def memory_read_def scanEntries_eq
        listing_def Let_def entry_matches_def[abs_def] query_matches_def[abs_def])
qed

lemma findEntries_cursor:
  assumes "se_state se = Open" "ms_state (se_storage se) = Open" "entries_wf (ms_data (se_storage se))"
    and "sst_nextSeq (ms_data (se_storage se)) \<le> MAX_SAFE_INTEGER"
  shows "session_findEntries (Some (q\<lparr>eq_cursor := Some c, eq_limit := None\<rparr>)) se =
    Inr (filter (\<lambda>e. if eq_order q = Some Asc then c < en_seq e else en_seq e < c)
      (listing q (ms_data (se_storage se))))"
proof (cases "eq_order q = Some Asc")
  case True
  have bound: "\<forall>e \<in> set (sst_entriesBySeq (ms_data (se_storage se))). en_seq e \<le> MAX_SAFE_INTEGER"
    using assms(3,4) by (fastforce simp: entries_wf_def)
  show ?thesis
  proof (cases "c = MAX_SAFE_INTEGER")
    case ceq: True
    then have "filter (\<lambda>e. c < en_seq e) (listing q (ms_data (se_storage se))) = []"
      using bound True by (auto simp: listing_def filter_empty_conv)
    then show ?thesis
      using assms(1,2) True ceq by (simp add: session_findEntries_def entry_scan_of_def)
  next
    case False
    then show ?thesis
      using assms(1,2) True
      by (simp add: session_findEntries_def entry_scan_of_def memory_read_def scanEntries_eq listing_def Let_def
          entry_matches_def[abs_def] query_matches_def[abs_def] conj_ac zless_iff_Suc_zadd add1_zle_eq)
  qed
next
  case False
  have ord: "(case eq_order q of None \<Rightarrow> Desc | Some d \<Rightarrow> d) = Desc"
    using False by (cases "eq_order q"; cases "the (eq_order q)") auto
  have bound: "\<forall>e \<in> set (sst_entriesBySeq (ms_data (se_storage se))). 1 \<le> en_seq e"
    using assms(3) by (simp add: entries_wf_def)
  show ?thesis
  proof (cases "c \<le> 1")
    case cle: True
    then have "filter (\<lambda>e. en_seq e < c) (listing q (ms_data (se_storage se))) = []"
      using bound False by (fastforce simp: listing_def filter_empty_conv)
    then show ?thesis
      using assms(1,2) False cle by (simp add: session_findEntries_def entry_scan_of_def ord)
  next
    case cgt: False
    then show ?thesis
      using assms(1,2) False
      by (simp add: session_findEntries_def entry_scan_of_def memory_read_def scanEntries_eq listing_def Let_def ord
          entry_matches_def[abs_def] query_matches_def[abs_def] conj_ac zle_diff1_eq)
  qed
qed

lemma listing_order:
  assumes "entries_wf s"
  shows "if eq_order q = Some Asc then oldest_entries.increasing (listing q s)
    else newest_entries.increasing (listing q s)"
proof -
  have asc: "oldest_entries.increasing (sst_entriesBySeq s)"
    using assms by (simp add: entries_wf_def entry_tree_def sorted_wrt_map)
  then have "newest_entries.increasing (rev (sst_entriesBySeq s))" by (simp add: sorted_wrt_rev)
  with asc show ?thesis
    by (simp add: listing_def oldest_entries.increasing_filter newest_entries.increasing_filter)
qed

text \<open>
  Entry listings can be paged in either order: the query that continues after the cursor of a
  non-empty page returns exactly the rest of the listing.
\<close>

theorem findEntries_paging:
  assumes "storage_inv (ms_data (se_storage se))" "sst_nextSeq (ms_data (se_storage se)) \<le> MAX_SAFE_INTEGER"
    and "session_findEntries (Some (q\<lparr>eq_cursor := None, eq_limit := Some n\<rparr>)) se = Inr page" "page \<noteq> []"
    and "session_findEntries (Some (q\<lparr>eq_cursor := Some (en_seq (last page)), eq_limit := None\<rparr>)) se = Inr rest"
  shows "session_findEntries (Some (q\<lparr>eq_cursor := None, eq_limit := None\<rparr>)) se = Inr (page @ rest)"
proof -
  let ?l = "listing q (ms_data (se_storage se))"
  have wf: "entries_wf (ms_data (se_storage se))" using assms(1) by (simp add: storage_inv_def)
  have opn: "se_state se = Open" "ms_state (se_storage se) = Open"
    using findEntries_open[OF assms(3)] by (simp_all add: entry_scan_of_def Let_def)
  have page: "page = take (nat n) ?l" using assms(3) findEntries_limit[OF opn, where q = q and l = "Some n"] by simp
  then have ne: "take (nat n) ?l \<noteq> []" using assms(4) by simp
  have "rest = drop (nat n) ?l"
  proof (cases "eq_order q = Some Asc")
    case True
    then have "oldest_entries.increasing ?l" using listing_order[OF wf, of q] by simp
    from oldest_entries.page_continues[OF this ne] show ?thesis
      using assms(5) findEntries_cursor[OF opn wf assms(2), where q = q] True page by simp
  next
    case False
    then have "newest_entries.increasing ?l" using listing_order[OF wf, of q] by simp
    from newest_entries.page_continues[OF this ne] show ?thesis
      using assms(5) findEntries_cursor[OF opn wf assms(2), where q = q] False page by simp
  qed
  then show ?thesis using page findEntries_limit[OF opn, where q = q and l = None] by simp
qed

definition sample_storage_session :: backed_session where
  "sample_storage_session = new_session sample_metadata \<lparr>ms_state = Open, ms_data = sample_state\<rparr>"

theorem findEntries_paging_witness:
  "session_findEntries (Some (any_entry\<lparr>eq_cursor := None, eq_limit := None\<rparr>)) sample_storage_session =
     Inr ([sample_entry ''c'' (Some ''b'') 3] @ [sample_entry ''b'' (Some ''a'') 2, sample_entry ''a'' None 1])"
proof (rule findEntries_paging[where n = 1])
  have opn: "se_state sample_storage_session = Open" "ms_state (se_storage sample_storage_session) = Open"
    "ms_data (se_storage sample_storage_session) = sample_state"
    by (simp_all add: sample_storage_session_def new_session_def)
  have wf: "entries_wf sample_state" using storage_inv_sample by (simp add: storage_inv_def)
  have bound: "sst_nextSeq sample_state \<le> MAX_SAFE_INTEGER"
    by (simp add: sample_state_def sample_commit MAX_SAFE_INTEGER_def)
  have all: "listing any_entry sample_state =
      [sample_entry ''c'' (Some ''b'') 3, sample_entry ''b'' (Some ''a'') 2, sample_entry ''a'' None 1]"
    by (simp add: listing_def any_entry_def query_matches_def sample_state_def sample_commit)
  show "storage_inv (ms_data (se_storage sample_storage_session))" using storage_inv_sample opn by simp
  show "sst_nextSeq (ms_data (se_storage sample_storage_session)) \<le> MAX_SAFE_INTEGER" using bound opn by simp
  show "session_findEntries (Some (any_entry\<lparr>eq_cursor := None, eq_limit := Some 1\<rparr>)) sample_storage_session =
      Inr [sample_entry ''c'' (Some ''b'') 3]"
    using findEntries_limit[OF opn(1,2), where q = any_entry and l = "Some 1"] by (simp add: opn all)
  show "session_findEntries (Some (any_entry\<lparr>eq_cursor := Some (en_seq (last [sample_entry ''c'' (Some ''b'') 3])),
      eq_limit := None\<rparr>)) sample_storage_session = Inr [sample_entry ''b'' (Some ''a'') 2, sample_entry ''a'' None 1]"
    using findEntries_cursor[OF opn(1,2), where q = any_entry and c = 3] wf bound
    by (simp add: opn all) (simp add: any_entry_def sample_entry_def)
qed simp

text \<open>
  Once a session is closed, every call that would change it is rejected and leaves it as it is.
\<close>

theorem closed_session_frozen:
  "session_mutate body (session_close se) = (Inl SessionClosed, session_close se) \<and>
   session_createBranch name target now (session_close se) = (Inl SessionClosed, session_close se) \<and>
   appendToBranch name e i now (session_close se) = (Inl SessionClosed, session_close se) \<and>
   session_read f (session_close se) = Inl SessionClosed \<and>
   memory_commit ws now (se_storage (session_close se)) = (Inl StorageClosed, se_storage (session_close se))"
  by (simp add: session_mutate_def session_createBranch_def appendToBranch_def session_read_def session_close_def
      memory_close_def memory_commit_def)

end
