(* ===== verification/SessionContext.thy ===== *)
theory SessionContext
  imports Samples
begin

text \<open>
  \<open>packages/agent/src/harness/session/context.ts\<close>: the messages the model sees for a branch. The
  projectors of custom entries are supplied by the application and are a parameter of the model, a
  partial map from custom types to functions.
\<close>

section \<open>Definitions\<close>

text \<open>The loop from the last index down to the newest compaction entry.\<close>

fun last_compaction :: "entry list \<Rightarrow> nat \<Rightarrow> nat option" where
  "last_compaction path 0 = None"
| "last_compaction path (Suc n) =
     (if en_type (path ! n) = CompactionType then Some n else last_compaction path n)"

definition buildContextEntries :: "entry list \<Rightarrow> entry list" where
  "buildContextEntries pathEntries =
     (case last_compaction pathEntries (length pathEntries) of
        None \<Rightarrow> pathEntries
      | Some i \<Rightarrow> pathEntries ! i # drop (i + 1) pathEntries)"

fun isContextMessage :: "agent_message \<Rightarrow> bool" where
  "isContextMessage (AssistantMsg m) \<longleftrightarrow>
     am_stopReason m \<noteq> Error \<and> am_stopReason m \<noteq> Aborted \<and> am_stopReason m \<noteq> Deferred"
| "isContextMessage _ \<longleftrightarrow> True"

definition sessionEntryToContextMessages :: "entry \<Rightarrow> agent_message list" where
  "sessionEntryToContextMessages e =
     (case en_body e of
        MessageBody message terminate \<Rightarrow> if isContextMessage message then [message] else []
      | CompactionBody d \<Rightarrow>
          createCompactionSummaryMessage (cd_summary d) (cd_tokensBefore d) (en_timestamp e) #
            filter isContextMessage (cd_retainedTail d)
      | BranchSummaryBody d \<Rightarrow>
          if bd_summary d \<noteq> []
          then [createBranchSummaryMessage (bd_summary d) (bd_fromId d) (en_timestamp e)] else []
      | CustomBody c d \<Rightarrow> [])"

type_synonym entry_projectors = "jstring \<Rightarrow> (entry \<Rightarrow> agent_message list option) option"

fun buildSessionContext_loop ::
  "entry_projectors \<Rightarrow> entry list \<Rightarrow> agent_message list \<Rightarrow> agent_message list" where
  "buildSessionContext_loop projectors [] messages = messages"
| "buildSessionContext_loop projectors (e # es) messages =
     (case en_body e of
        CustomBody customType d \<Rightarrow>
          (case projectors customType of
             None \<Rightarrow> buildSessionContext_loop projectors es messages
           | Some projector \<Rightarrow> buildSessionContext_loop projectors es
               (messages @ (case projector e of None \<Rightarrow> [] | Some ms \<Rightarrow> ms)))
      | _ \<Rightarrow> buildSessionContext_loop projectors es (messages @ sessionEntryToContextMessages e))"

definition buildSessionContext :: "entry list \<Rightarrow> entry_projectors \<Rightarrow> agent_message list" where
  "buildSessionContext pathEntries projectors =
     buildSessionContext_loop projectors (buildContextEntries pathEntries) []"

section \<open>Facts\<close>

lemma last_compaction_append:
  "n \<le> length xs \<Longrightarrow> last_compaction (xs @ ys) n = last_compaction xs n"
  by (induction n) (auto simp: nth_append)

lemma last_compaction_none:
  "\<forall>e \<in> set xs. en_type e \<noteq> CompactionType \<Longrightarrow> n \<le> length xs \<Longrightarrow> last_compaction xs n = None"
  by (induction n) auto

lemma last_compaction_at:
  assumes "en_type c = CompactionType" "\<forall>e \<in> set ys. en_type e \<noteq> CompactionType"
  shows "last_compaction (xs @ c # ys) (length (xs @ c # ys)) = Some (length xs)"
  using assms(2)
proof (induction ys rule: rev_induct)
  case Nil
  then show ?case using assms(1) by simp
next
  case (snoc y ys)
  have "last_compaction (xs @ c # ys @ [y]) (length (xs @ c # ys)) = last_compaction (xs @ c # ys) (length (xs @ c # ys))"
    using last_compaction_append[of "length (xs @ c # ys)" "xs @ c # ys" "[y]"] by simp
  then show ?case using snoc by (simp add: nth_append)
qed

lemma buildContextEntries_compaction:
  assumes "en_type c = CompactionType" "\<forall>e \<in> set ys. en_type e \<noteq> CompactionType"
  shows "buildContextEntries (xs @ c # ys) = c # ys"
  using last_compaction_at[OF assms] by (simp add: buildContextEntries_def)

lemma buildContextEntries_plain:
  "\<forall>e \<in> set xs. en_type e \<noteq> CompactionType \<Longrightarrow> buildContextEntries xs = xs"
  using last_compaction_none by (simp add: buildContextEntries_def)

text \<open>The part of a path, newest first, down to its newest compaction entry.\<close>

lemma buildContextEntries_bounded:
  "buildContextEntries (rev (take_until (\<lambda>e. en_type e = CompactionType) path)) =
   buildContextEntries (rev path)"
proof (cases "\<exists>e \<in> set path. en_type e = CompactionType")
  case True
  then obtain ys c zs where split: "path = ys @ c # zs" "en_type c = CompactionType"
    "\<forall>e \<in> set ys. en_type e \<noteq> CompactionType"
    "take_until (\<lambda>e. en_type e = CompactionType) path = ys @ [c]"
    by (rule take_until_split)
  then show ?thesis
    using buildContextEntries_compaction[of c "rev ys" "[]"]
      buildContextEntries_compaction[of c "rev ys" "rev zs"] by simp
next
  case False
  then show ?thesis by (simp add: take_until_none)
qed

definition context_messages :: "entry_projectors \<Rightarrow> entry \<Rightarrow> agent_message list" where
  "context_messages projectors e =
     (case en_body e of
        CustomBody customType d \<Rightarrow>
          (case projectors customType of
             None \<Rightarrow> []
           | Some projector \<Rightarrow> (case projector e of None \<Rightarrow> [] | Some ms \<Rightarrow> ms))
      | _ \<Rightarrow> sessionEntryToContextMessages e)"

lemma buildSessionContext_loop_eq:
  "buildSessionContext_loop projectors es messages =
     messages @ concat (map (context_messages projectors) es)"
  by (induction es arbitrary: messages)
    (auto simp: context_messages_def split: entry_body.splits option.splits)

section \<open>Properties\<close>

text \<open>
  C13: The harness reads a branch only down to its newest compaction. The context built from that
  bounded read is the context of the whole branch.
\<close>

theorem bounded_context:
  assumes "storage_inv s" "map_get (sst_entries s) (bs_start q) = Some e"
    and "q = \<lparr>bs_start = start, bs_stopAtType = Some CompactionType, bs_stopAtId = None, bs_type = None,
      bs_customType = None, bs_order = Some NewestFirst, bs_limit = None, bs_cursor = None\<rparr>"
  shows "\<exists>bounded path. scanBranch q s = Some (Inr bounded) \<and>
    scanBranch (q\<lparr>bs_stopAtType := None\<rparr>) s = Some (Inr path) \<and>
    buildSessionContext (rev bounded) projectors = buildSessionContext (rev path) projectors"
proof -
  obtain path where path: "path_to_root s e path" by (rule path_to_root_exists[OF assms(1,2)])
  have stops: "scan_stops q = (\<lambda>e. en_type e = CompactionType)"
    "scan_stops (q\<lparr>bs_stopAtType := None\<rparr>) = (\<lambda>e. False)"
    "scan_matches q = (\<lambda>e. True)" "scan_matches (q\<lparr>bs_stopAtType := None\<rparr>) = (\<lambda>e. True)"
    by (auto simp: fun_eq_iff scan_stops_def scan_matches_def assms(3))
  have "scanBranch q s = Some (Inr (take_until (\<lambda>e. en_type e = CompactionType) path))"
    using scanBranch_path[OF assms(2) path] by (simp add: select_branch_def Let_def stops) (simp add: assms(3))
  moreover have "scanBranch (q\<lparr>bs_stopAtType := None\<rparr>) s = Some (Inr path)"
    using scanBranch_path[of s "q\<lparr>bs_stopAtType := None\<rparr>", OF _ path] assms(2)
    by (simp add: select_branch_def Let_def stops take_until_none) (simp add: assms(3))
  ultimately show ?thesis
    using buildContextEntries_bounded by (simp add: buildSessionContext_def)
qed

theorem bounded_context_witness:
  "\<exists>bounded path. scanBranch (sample_scan\<lparr>bs_stopAtType := Some CompactionType, bs_order := Some NewestFirst\<rparr>) sample_state =
       Some (Inr bounded) \<and>
     buildSessionContext (rev bounded) (\<lambda>_. None) = buildSessionContext (rev path) (\<lambda>_. None)"
proof -
  have start: "map_get (sst_entries sample_state)
      (bs_start (sample_scan\<lparr>bs_stopAtType := Some CompactionType, bs_order := Some NewestFirst\<rparr>)) =
    Some (sample_entry ''c'' (Some ''b'') 3)"
    using sample_start by simp
  show ?thesis
    using bounded_context[OF storage_inv_sample start, of "js ''c''" "\<lambda>_. None"]
    by (auto simp: sample_scan_def)
qed

end
