(* ===== verification/MutationLine.thy ===== *)
theory MutationLine
  imports Prelude
begin

text \<open>
  \<open>packages/agent/src/harness/session/mutation-line.ts\<close>: the promise chain that serializes the
  read-modify-write jobs of a session. A job is chained after the settlement of the job before it
  (\<open>tail\<close>), whatever its result. The steps are those of the event loop: a call of \<open>run\<close>, a job whose
  predecessor has settled starting or being refused, a running job settling, and \<open>seal\<close>.
\<close>

section \<open>The line\<close>

datatype job_status = Waiting | RunningJob | SettledJob bool

record mutation_line =
  ml_jobs :: "job_status list"
  ml_sealed :: bool

definition new_line :: mutation_line where
  "new_line = \<lparr>ml_jobs = [], ml_sealed = False\<rparr>"

fun settled :: "job_status \<Rightarrow> bool" where
  "settled (SettledJob ok) = True"
| "settled _ = False"

text \<open>\<open>run\<close>: a sealed line rejects at once; otherwise the job is chained, \<open>Inr\<close> its position.\<close>

definition line_run :: "mutation_line \<Rightarrow> js_error \<Rightarrow> (js_error + nat) \<times> mutation_line" where
  "line_run l sealedError =
     (if ml_sealed l then (Inl sealedError, l)
      else (Inr (length (ml_jobs l)), l\<lparr>ml_jobs := ml_jobs l @ [Waiting]\<rparr>))"

text \<open>The callback of \<open>tail.then\<close>: it runs once the previous job has settled.\<close>

definition ready :: "mutation_line \<Rightarrow> nat \<Rightarrow> bool" where
  "ready l k \<longleftrightarrow> k < length (ml_jobs l) \<and> ml_jobs l ! k = Waiting \<and>
     (k = 0 \<or> settled (ml_jobs l ! (k - 1)))"

definition line_start :: "nat \<Rightarrow> mutation_line \<Rightarrow> mutation_line" where
  "line_start k l =
     l\<lparr>ml_jobs := (ml_jobs l)[k := (if ml_sealed l then SettledJob False else RunningJob)]\<rparr>"

definition line_settle :: "nat \<Rightarrow> bool \<Rightarrow> mutation_line \<Rightarrow> mutation_line" where
  "line_settle k ok l = l\<lparr>ml_jobs := (ml_jobs l)[k := SettledJob ok]\<rparr>"

definition line_seal :: "mutation_line \<Rightarrow> mutation_line" where
  "line_seal l = l\<lparr>ml_sealed := True\<rparr>"

text \<open>The promise \<open>seal\<close> returns is the tail: it has resolved when the last job has settled.\<close>

definition tail_resolved :: "mutation_line \<Rightarrow> bool" where
  "tail_resolved l \<longleftrightarrow> ml_jobs l = [] \<or> settled (last (ml_jobs l))"

inductive line_step :: "mutation_line \<Rightarrow> mutation_line \<Rightarrow> bool" where
  step_run: "line_step l (snd (line_run l e))"
| step_start: "ready l k \<Longrightarrow> line_step l (line_start k l)"
| step_settle: "k < length (ml_jobs l) \<Longrightarrow> ml_jobs l ! k = RunningJob \<Longrightarrow> line_step l (line_settle k ok l)"
| step_seal: "line_step l (line_seal l)"

inductive line_reachable :: "mutation_line \<Rightarrow> bool" where
  reach_new: "line_reachable new_line"
| reach_step: "line_reachable l \<Longrightarrow> line_step l l' \<Longrightarrow> line_reachable l'"

section \<open>The shape of a reachable line\<close>

text \<open>Settled jobs, then at most one running job, then waiting jobs.\<close>

definition line_shape :: "job_status list \<Rightarrow> bool" where
  "line_shape qs \<longleftrightarrow> (\<exists>done mid todo. qs = done @ mid @ todo \<and> list_all settled done \<and>
     mid \<in> {[], [RunningJob]} \<and> list_all (\<lambda>j. j = Waiting) todo)"

lemma line_shapeI:
  "qs = done @ mid @ todo \<Longrightarrow> list_all settled done \<Longrightarrow> mid \<in> {[], [RunningJob]} \<Longrightarrow>
   list_all (\<lambda>j. j = Waiting) todo \<Longrightarrow> line_shape qs"
  unfolding line_shape_def by blast

lemma shape_waiting:
  assumes "qs = d @ m @ t" "list_all (\<lambda>j. j = Waiting) t" "length d + length m \<le> k" "k < length qs"
  shows "qs ! k = Waiting"
proof -
  have "qs ! k = t ! (k - (length d + length m))" using assms(1,3) by (auto simp: nth_append)
  moreover have "k - (length d + length m) < length t" using assms(1,3,4) by simp
  ultimately show ?thesis using assms(2) by (simp add: list_all_length)
qed

lemma shape_settled:
  "qs = d @ m @ t \<Longrightarrow> list_all settled d \<Longrightarrow> k < length d \<Longrightarrow> settled (qs ! k)"
  by (simp add: nth_append list_all_length)

lemma shape_running:
  assumes "qs = d @ m @ t" "list_all settled d" "m \<in> {[], [RunningJob]}" "list_all (\<lambda>j. j = Waiting) t"
    and "k < length qs" "qs ! k = RunningJob"
  shows "m = [RunningJob] \<and> k = length d"
proof -
  have "\<not> k < length d" using shape_settled[OF assms(1,2)] assms(6) by fastforce
  moreover have "\<not> length d + length m \<le> k" using shape_waiting[OF assms(1,4) _ assms(5)] assms(6) by auto
  ultimately show ?thesis using assms(3) by auto
qed

lemma shape_start:
  assumes "line_shape (ml_jobs l)" "ready l k"
  shows "line_shape (ml_jobs (line_start k l))"
proof -
  obtain d m t where js: "ml_jobs l = d @ m @ t" "list_all settled d" "m \<in> {[], [RunningJob]}"
    "list_all (\<lambda>j. j = Waiting) t"
    using assms(1) unfolding line_shape_def by blast
  have k: "k < length (ml_jobs l)" "ml_jobs l ! k = Waiting" "k = 0 \<or> settled (ml_jobs l ! (k - 1))"
    using assms(2) by (auto simp: ready_def)
  have "length d + length m \<le> k"
  proof (rule ccontr)
    assume "\<not> length d + length m \<le> k"
    then have "settled (ml_jobs l ! k) \<or> ml_jobs l ! k = RunningJob"
      using shape_settled[OF js(1,2)] js(3) by (cases "k < length d") (auto simp: js(1) nth_append)
    then show False using k(2) by simp
  qed
  moreover have "\<not> (length d + length m < k)"
  proof
    assume *: "length d + length m < k"
    then have "ml_jobs l ! (k - 1) = Waiting"
      using shape_waiting[OF js(1,4), of "k - 1"] k(1) by simp
    then show False using k(3) * by simp
  qed
  ultimately have eq: "k = length d + length m" by simp
  have m: "m = []"
  proof (rule ccontr)
    assume "m \<noteq> []"
    then have "ml_jobs l ! (k - 1) = RunningJob" using js(3) eq by (auto simp: js(1) nth_append)
    then show False using k(3) eq \<open>m \<noteq> []\<close> by simp
  qed
  obtain t' where t: "t = Waiting # t'" using k(1) js(4) eq m by (cases t) (auto simp: js(1))
  let ?j = "if ml_sealed l then SettledJob False else RunningJob"
  have upd: "ml_jobs (line_start k l) = d @ ?j # t'"
    using eq m by (simp add: line_start_def js(1) t list_update_append)
  show ?thesis
  proof (cases "ml_sealed l")
    case True
    then show ?thesis
      by (intro line_shapeI[of _ "d @ [SettledJob False]" "[]" t']) (use upd js t in auto)
  next
    case False
    then show ?thesis
      by (intro line_shapeI[of _ d "[RunningJob]" t']) (use upd js t in auto)
  qed
qed

lemma shape_settle:
  assumes "line_shape (ml_jobs l)" "k < length (ml_jobs l)" "ml_jobs l ! k = RunningJob"
  shows "line_shape (ml_jobs (line_settle k ok l))"
proof -
  obtain d m t where js: "ml_jobs l = d @ m @ t" "list_all settled d" "m \<in> {[], [RunningJob]}"
    "list_all (\<lambda>j. j = Waiting) t"
    using assms(1) unfolding line_shape_def by blast
  have "m = [RunningJob]" "k = length d" using shape_running[OF js assms(2,3)] by simp_all
  then have "ml_jobs (line_settle k ok l) = d @ SettledJob ok # t"
    by (simp add: line_settle_def js(1))
  then show ?thesis by (intro line_shapeI[of _ "d @ [SettledJob ok]" "[]" t]) (use js in auto)
qed

lemma reachable_shape: "line_reachable l \<Longrightarrow> line_shape (ml_jobs l)"
proof (induction rule: line_reachable.induct)
  case reach_new
  show ?case by (rule line_shapeI[of _ "[]" "[]" "[]"]) (simp_all add: new_line_def)
next
  case (reach_step l l')
  from reach_step.hyps(2) show ?case
  proof (cases rule: line_step.cases)
    case (step_run e)
    obtain d m t where js: "ml_jobs l = d @ m @ t" "list_all settled d" "m \<in> {[], [RunningJob]}"
      "list_all (\<lambda>j. j = Waiting) t"
      using reach_step.IH unfolding line_shape_def by blast
    have "line_shape (d @ m @ t @ [Waiting])"
      by (rule line_shapeI[of _ d m "t @ [Waiting]"]) (use js in auto)
    then show ?thesis using step_run reach_step.IH js(1) by (auto simp: line_run_def)
  next
    case (step_start k)
    then show ?thesis using shape_start reach_step.IH by simp
  next
    case (step_settle k ok)
    then show ?thesis using shape_settle reach_step.IH by simp
  next
    case step_seal
    then show ?thesis using reach_step.IH by (simp add: line_seal_def)
  qed
qed

section \<open>Properties\<close>

text \<open>
  C14: At any moment at most one job of a session runs, every job before it has settled and every job
  after it is still waiting: mutations are exclusive and run in the order they were requested.
\<close>

theorem line_exclusive_fifo:
  assumes "line_reachable l" "i < length (ml_jobs l)" "ml_jobs l ! i = RunningJob" "j < length (ml_jobs l)" "j \<noteq> i"
  shows "if j < i then settled (ml_jobs l ! j) else ml_jobs l ! j = Waiting"
proof -
  obtain d m t where js: "ml_jobs l = d @ m @ t" "list_all settled d" "m \<in> {[], [RunningJob]}"
    "list_all (\<lambda>j. j = Waiting) t"
    using reachable_shape[OF assms(1)] unfolding line_shape_def by blast
  have mi: "m = [RunningJob]" "i = length d" using shape_running[OF js assms(2,3)] by simp_all
  then show ?thesis
    using shape_settled[OF js(1,2), of j] shape_waiting[OF js(1,4) _ assms(4)] assms(5) by auto
qed

definition two_jobs :: mutation_line where
  "two_jobs = line_start 0 (snd (line_run (snd (line_run new_line SessionClosed)) SessionClosed))"

lemma two_jobs_reachable: "line_reachable two_jobs"
  unfolding two_jobs_def
  by (rule reach_step[OF reach_step[OF reach_step[OF reach_new step_run] step_run] step_start])
    (simp add: ready_def line_run_def new_line_def)

theorem line_exclusive_fifo_witness: "ml_jobs two_jobs ! 0 = RunningJob \<and> ml_jobs two_jobs ! 1 = Waiting"
proof -
  have "ml_jobs two_jobs = [RunningJob, Waiting]"
    by (simp add: two_jobs_def line_start_def line_run_def new_line_def)
  then show ?thesis
    using line_exclusive_fifo[OF two_jobs_reachable, of 0 1] by simp
qed



end
