(* ===== verification/HarnessTypes.thy ===== *)
theory HarnessTypes
  imports Session SessionContext
begin

text \<open>
  The public types of \<open>agent-harness.ts\<close> and \<open>result.ts\<close>, and the live state of \<open>runtime/types.ts\<close>:
  operation requests, expected errors, the snapshot a watcher holds, the events that update it, and
  the decisions a planner can make on a lane's mutation line. The text \<open>message\<close> of an expected error
  is derived from its other fields and left out. Callbacks of the configuration that only run
  outside the mutation line (tools, prompts, provider conversion) are left out.
\<close>

section \<open>Expected errors\<close>

datatype lane_error =
    LaneBusy jstring jstring op_kind
  | OperationMismatch jstring jstring "jstring option" "jstring option"
  | NoActiveOperation jstring
  | NothingToResume jstring
  | NothingToCompact jstring
  | InvalidMessage jstring string
  | InvalidNavigation jstring string
  | UnknownSkill jstring
  | UnknownTemplate jstring
  | UnknownTarget jstring
  | InvalidLane jstring string
  | ClosedError

text \<open>\<open>Result<T, E>\<close>: \<open>Inl\<close> is \<open>Result.err\<close>, \<open>Inr\<close> is \<open>Result.ok\<close>.\<close>

type_synonym 'a lane_result = "lane_error + 'a"

section \<open>Requests and outcomes\<close>

record navigate_options =
  no_summarize :: "bool option"
  no_label :: "jstring option"
  no_customInstructions :: "jstring option"

datatype prompt_input =
    PromptText jstring "image_content list option"
  | PromptMessage agent_message
  | PromptMessages "agent_message list"

datatype operation_request =
    PromptRequest prompt_input
  | SkillRequest jstring "jstring option"
  | TemplateRequest jstring "jstring list option"
  | CompactionRequest "jstring option"
  | NavigationRequest "jstring option" "navigate_options option"

record operation_admission =
  ad_operationId :: jstring
  ad_opKind :: op_kind
  ad_startedAt :: int

record drive_options =
  do_operationId :: jstring
  do_waitForRetry :: "bool option"
  do_pollDeferred :: "bool option"

datatype drive_outcome =
    DriveSettled operation_result_record
  | WaitingRetry jstring int
  | WaitingDeferred jstring deferred_handle

record abort_request =
  ab_operationId :: jstring
  ab_newlyRequested :: bool
  ab_steer :: "agent_message list"
  ab_followUp :: "agent_message list"

datatype operation_status = OpenStatus | AbortingStatus

record current_operation_info =
  ci_id :: jstring
  ci_kind :: op_kind
  ci_startedAt :: int
  ci_status :: operation_status
  ci_capturedModel :: "model_identity option"

record lane_execution_info =
  le_lane :: jstring
  le_tipId :: "jstring option"
  le_configuredModel :: model_identity
  le_current :: "current_operation_info option"
  le_lastOperationId :: "jstring option"

record lane_info =
  li_name :: jstring
  li_tipId :: "jstring option"
  li_operation :: "current_operation_info option"

record open_operation =
  oo_lane :: jstring
  oo_operationId :: jstring
  oo_kind :: op_kind
  oo_startedAt :: int
  oo_aborting :: bool

datatype cancel_outcome = Cancelled | AlreadyConsumed | NotFound

section \<open>Snapshots\<close>

datatype lane_snapshot_tool =
    ToolRunning jstring jstring json "agent_tool_result option"
  | ToolSettled jstring jstring json agent_tool_result bool

fun snapshot_toolCallId :: "lane_snapshot_tool \<Rightarrow> jstring" where
  "snapshot_toolCallId (ToolRunning i n a r) = i"
| "snapshot_toolCallId (ToolSettled i n a r e) = i"

fun snapshot_tool_args :: "lane_snapshot_tool \<Rightarrow> json" where
  "snapshot_tool_args (ToolRunning i n a r) = a"
| "snapshot_tool_args (ToolSettled i n a r e) = a"

text \<open>\<open>QueuedMessage entryId kind message\<close> and \<open>QueuedCustom entryId customType data\<close>, a write.\<close>

datatype lane_queued_item =
    QueuedMessage jstring inbox_item_kind agent_message
  | QueuedCustom jstring jstring "json option"

record snapshot_retry =
  sr_attempt :: int
  sr_maxAttempts :: int
  sr_nextAttemptAt :: int

record snapshot_operation =
  sp_id :: jstring
  sp_kind :: op_kind
  sp_startedAt :: int
  sp_fromTipId :: "jstring option"
  sp_status :: operation_status
  sp_retry :: "snapshot_retry option"
  sp_deferred :: "(deferred_handle \<times> int) option"
  sp_streamingMessage :: "assistant_message option"
  sp_runningTools :: "lane_snapshot_tool list"

record lane_snapshot =
  ls_lane :: jstring
  ls_transcript :: "entry list"
  ls_tipId :: "jstring option"
  ls_lastResult :: "operation_result_record option"
  ls_configuration :: lane_configuration
  ls_stats :: session_stats
  ls_operation :: "snapshot_operation option"
  ls_queues :: "lane_queued_item list"
  ls_faulted :: bool

section \<open>Process-local configuration\<close>

record retry_policy =
  ry_enabled :: bool
  ry_maxRetries :: int
  ry_baseDelayMs :: int
  ry_maxAgentDelayMs :: "int option"

record skill =
  sk_name :: jstring
  sk_description :: jstring
  sk_content :: jstring
  sk_filePath :: jstring
  sk_disableModelInvocation :: "bool option"

record prompt_template =
  pt_name :: jstring
  pt_description :: "jstring option"
  pt_content :: jstring

record harness_config =
  cf_skills :: "skill list option"
  cf_promptTemplates :: "prompt_template list option"
  cf_streamOptions :: stream_options
  cf_retryPolicy :: retry_policy
  cf_compaction :: compaction_settings
  cf_steeringMode :: queue_mode
  cf_followUpMode :: queue_mode
  cf_toolExecution :: tool_execution
  cf_entryProjectors :: entry_projectors

section \<open>Events\<close>

datatype config_property =
    ModelProperty model_identity model_identity
  | ThinkingLevelProperty thinking_level thinking_level
  | ActiveToolsProperty "jstring list" "jstring list"
  | ToolsProperty
  | ResourcesProperty
  | StreamOptionsProperty stream_options stream_options
  | RetryPolicyProperty retry_policy retry_policy
  | CompactionSettingsProperty compaction_settings compaction_settings
  | SteeringModeProperty queue_mode queue_mode
  | FollowUpModeProperty queue_mode queue_mode

text \<open>
  The arguments follow the order of the fields in \<open>HarnessEventPayload\<close>; a property update has its
  \<open>value\<close> before its \<open>previous\<close>. The raw provider event beside a streamed message is left out, as in
  \<open>LaneWatchSourceEvent\<close>.
\<close>

datatype event_payload =
    RunStart jstring int
  | RunResume jstring
  | RunSuspend jstring deferred_handle int
  | OperationAbort jstring "agent_message list" "agent_message list"
  | RunEnd jstring "jstring option" "jstring option" int terminal_status "operation_error option"
  | FaultEvent jstring jstring
  | HandlerError jstring jstring
  | TurnStart jstring jstring
  | TurnEnd jstring jstring assistant_message "tool_result_message list"
  | RetryScheduled jstring jstring int int int int jstring
  | RetryStart jstring jstring int
  | RetryEnd jstring jstring int bool "jstring option"
  | MessageStart "jstring option" agent_message
  | MessageUpdate jstring agent_message "assistant_frame option"
  | MessageEnd "jstring option" agent_message "jstring option"
  | ToolStart jstring jstring jstring jstring json
  | ToolUpdate jstring jstring jstring jstring agent_tool_result
  | ToolEnd jstring jstring jstring jstring agent_tool_result bool bool
  | EntryAdded entry
  | QueueUpdate "lane_queued_item list"
  | SessionNameUpdate "jstring option"
  | EntryLabelUpdate jstring "jstring option"
  | ConfigUpdate config_property
  | CompactionStart jstring summary_reason int
  | CompactionEnd jstring summary_reason int terminal_status "jstring option" "operation_error option"
  | NavigationStart jstring "jstring option" int
  | NavigationEnd jstring "jstring option" "jstring option" int terminal_status "operation_error option"
  | LaneCreated "jstring option"
  | UsageEvent usage_row usage

text \<open>\<open>recovery\<close> marks the events of a settlement that replays no live output.\<close>

record harness_event =
  ev_lane :: "jstring option"
  ev_recovery :: bool
  ev_payload :: event_payload

definition lane_event :: "jstring \<Rightarrow> event_payload \<Rightarrow> harness_event" where
  "lane_event lane p = \<lparr>ev_lane = Some lane, ev_recovery = False, ev_payload = p\<rparr>"

definition global_event :: "event_payload \<Rightarrow> harness_event" where
  "global_event p = \<lparr>ev_lane = None, ev_recovery = False, ev_payload = p\<rparr>"

section \<open>The live state of a lane and its commands\<close>

record lane_state =
  la_tipId :: "jstring option"
  la_configuration :: lane_configuration
  la_inbox :: "inbox_item list"
  la_lastOperationId :: "jstring option"
  la_operation :: "operation option"

text \<open>\<open>LaneCommand\<close>: commit with the writes, the next state, the result and the events, or return, or reject.\<close>

datatype 'r lane_decision =
    CommandCommit "storage_write list" lane_state "commit_result \<Rightarrow> 'r" "commit_result \<Rightarrow> harness_event list"
  | CommandReturn 'r
  | CommandReject js_error

record lane_patch =
  lp_tipId :: "jstring option option"
  lp_configuration :: "lane_configuration option"
  lp_inbox :: "inbox_item list option"

definition no_patch :: lane_patch where
  "no_patch = \<lparr>lp_tipId = None, lp_configuration = None, lp_inbox = None\<rparr>"

datatype 'r operation_command =
    OperationCommit "storage_write list" operation_state lane_patch "commit_result \<Rightarrow> 'r"
      "commit_result \<Rightarrow> harness_event list"
  | OperationFinish "storage_write list" operation_result_record lane_patch "commit_result \<Rightarrow> 'r"
      "commit_result \<Rightarrow> harness_event list"
  | OperationReturn 'r

datatype 'r continue_result = CancelRequestedResult | ContinueResult 'r

text \<open>\<open>Drive\<close>: the serial number is the identity of the object.\<close>

record drive =
  dr_serial :: nat
  dr_operationId :: jstring
  dr_waitForRetry :: bool
  dr_deferredPermits :: int

definition new_drive :: "nat \<Rightarrow> drive_options \<Rightarrow> drive" where
  "new_drive serial options =
     \<lparr>dr_serial = serial, dr_operationId = do_operationId options,
      dr_waitForRetry = (case do_waitForRetry options of None \<Rightarrow> False | Some b \<Rightarrow> b),
      dr_deferredPermits = (if do_pollDeferred options = Some True then 1 else 0)\<rparr>"

datatype procedure_result = ProcContinue | ProcWaiting drive_outcome | ProcSettled operation_result_record

end
