(* ===== verification/Transcript.thy ===== *)
theory Transcript
  imports HarnessTypes
begin

text \<open>
  \<open>runtime/transcript.ts\<close>, the frame reader of \<open>runtime/progress.ts\<close> and the terminal writes of
  \<open>runtime/drive/terminal.ts\<close>: how entries are chained and announced, how queued payloads are read
  back, and which slots an operation leaves behind when it ends. A reader is the storage state the
  planner of a command sees; the concurrent reads of a \<open>Promise.all\<close> have no effects, and the first
  one that fails in order decides the error.
\<close>

section \<open>Entries and their events\<close>

fun chainEntries :: "jstring option \<Rightarrow> new_entry list \<Rightarrow> new_entry list" where
  "chainEntries parentId [] = []"
| "chainEntries parentId (item # items) =
     item\<lparr>ne_parentId := parentId\<rparr> # chainEntries (Some (ne_id item)) items"

definition entryLifecycleEvents :: "entry \<Rightarrow> jstring \<Rightarrow> jstring option \<Rightarrow> harness_event list" where
  "entryLifecycleEvents e lane runId =
     (case en_body e of
        MessageBody m t \<Rightarrow>
          [lane_event lane (MessageStart runId m), lane_event lane (MessageEnd runId m (Some (en_id e))),
           lane_event lane (EntryAdded e)]
      | _ \<Rightarrow> [lane_event lane (EntryAdded e)])"

definition committedEntryEvents ::
  "new_entry list \<Rightarrow> commit_result \<Rightarrow> jstring \<Rightarrow> jstring option \<Rightarrow> nat \<Rightarrow> harness_event list" where
  "committedEntryEvents entries commit lane runId firstWriteIndex =
     concat (map (\<lambda>(e, k). entryLifecycleEvents
         (materializeCommittedEntry e (cr_seqs commit ! (firstWriteIndex + k)) (cr_timestamp commit)) lane runId)
       (zip entries [0..<length entries]))"

section \<open>Queued payloads\<close>

text \<open>The payload under \<open>pendingEntry(entryId)\<close>, if any.\<close>

definition read_pending :: "storage_state \<Rightarrow> jstring \<Rightarrow> js_error + pending_entry option" where
  "read_pending s entryId =
     ebind (pendingEntry entryId) (\<lambda>a. case getValue a s of
       None \<Rightarrow> Inr None | Some v \<Rightarrow> ebind (as_pending (sv_value v)) (\<lambda>p. Inr (Some p)))"

definition queued_item :: "storage_state \<Rightarrow> inbox_item \<Rightarrow> js_error + lane_queued_item" where
  "queued_item s item =
     ebind (read_pending s (ii_entryId item)) (\<lambda>stored. case stored of
       None \<Rightarrow> Inl (SessionInvariant ''Pending entry is missing its payload'')
     | Some (PendingMessage m) \<Rightarrow> Inr (QueuedMessage (ii_entryId item) (ii_kind item) m)
     | Some (PendingCustom c d) \<Rightarrow>
         if ii_kind item \<noteq> WriteItem then Inl (SessionInvariant ''Pending entry is not a message'')
         else Inr (QueuedCustom (ii_entryId item) c d))"

definition readLaneQueues :: "storage_state \<Rightarrow> inbox_item list \<Rightarrow> js_error + lane_queued_item list" where
  "readLaneQueues s inbox = esequence (map (queued_item s) inbox)"

definition readPendingMessages ::
  "storage_state \<Rightarrow> jstring list \<Rightarrow> js_error + (jstring \<times> agent_message) list" where
  "readPendingMessages s ids =
     esequence (map (\<lambda>i. ebind (read_pending s i) (\<lambda>stored. case stored of
       Some (PendingMessage m) \<Rightarrow> Inr (i, m)
     | _ \<Rightarrow> Inl (SessionInvariant ''entry is missing its message payload''))) ids)"

section \<open>Bounded reads\<close>

text \<open>The planners of \<open>readBoundedEntries\<close> and \<open>readBoundedContext\<close>; \<open>None\<close> is a scan that never returns.\<close>

definition bounded_scan :: "jstring \<Rightarrow> branch_scan" where
  "bounded_scan tip = \<lparr>bs_start = tip, bs_stopAtType = Some CompactionType, bs_stopAtId = None, bs_type = None,
     bs_customType = None, bs_order = Some NewestFirst, bs_limit = None, bs_cursor = None\<rparr>"

definition readBoundedEntries :: "lane_state \<Rightarrow> storage_state \<Rightarrow> (js_error + entry list) option" where
  "readBoundedEntries state s =
     (case la_tipId state of
        None \<Rightarrow> Some (Inl (SessionInvariant ''Run operation has no Branch tip''))
      | Some tip \<Rightarrow> map_option (map_sum id rev) (scanBranch (bounded_scan tip) s))"

definition readBoundedContext ::
  "entry_projectors \<Rightarrow> lane_state \<Rightarrow> storage_state \<Rightarrow> (js_error + agent_message list) option" where
  "readBoundedContext projectors state s =
     map_option (map_sum id (\<lambda>entries. buildSessionContext entries projectors)) (readBoundedEntries state s)"

section \<open>Streamed frames\<close>

partial_function (option) read_frames_loop ::
  "address \<Rightarrow> storage_state \<Rightarrow> int option \<Rightarrow> assistant_frame list \<Rightarrow> (js_error + assistant_frame list) option" where
  "read_frames_loop a s cursor frames =
     (case readList a (Some \<lparr>lo_cursor = cursor, lo_order = Some Asc, lo_limit = Some 1000\<rparr>) s of
        Inl e \<Rightarrow> Some (Inl e)
      | Inr page \<Rightarrow>
          (case esequence (map (\<lambda>x. as_frame (le_value x)) page) of
             Inl e \<Rightarrow> Some (Inl e)
           | Inr new \<Rightarrow>
               if length page < 1000 then Some (Inr (frames @ new))
               else read_frames_loop a s (Some (le_seq (last page))) (frames @ new)))"

definition readAssistantFrames ::
  "storage_state \<Rightarrow> jstring \<Rightarrow> jstring \<Rightarrow> (js_error + assistant_frame list) option" where
  "readAssistantFrames s operationId responseEntryId =
     (case pendingAssistantFrames operationId responseEntryId of
        Inl e \<Rightarrow> Some (Inl e)
      | Inr a \<Rightarrow> read_frames_loop a s None [])"

section \<open>Terminal transactions\<close>

text \<open>\<open>pendingIds\<close> is a \<open>Set\<close>: insertion order, no duplicates.\<close>

definition ready_ids :: "operation_leaf \<Rightarrow> jstring list" where
  "ready_ids leaf =
     (case leaf of
        Tools batch \<Rightarrow> foldl (\<lambda>ids call. case bc_status call of
            OutcomeReady t \<Rightarrow> if bc_resultEntryId call \<in> set ids then ids else ids @ [bc_resultEntryId call]
          | _ \<Rightarrow> ids) [] (tb_calls batch)
      | _ \<Rightarrow> [])"

definition frame_delete :: "jstring \<Rightarrow> operation_leaf \<Rightarrow> js_error + storage_write list" where
  "frame_delete operationId leaf =
     (case leaf of
        AssistantEffectPending g n responseId r u v \<Rightarrow>
          ebind (pendingAssistantFrames operationId responseId) (\<lambda>a. Inr [deleteList a])
      | DeferredEffectPending d responseId r \<Rightarrow>
          ebind (pendingAssistantFrames operationId responseId) (\<lambda>a. Inr [deleteList a])
      | _ \<Rightarrow> Inr [])"

definition delete_scanned :: "address \<Rightarrow> storage_state \<Rightarrow> storage_write list" where
  "delete_scanned pre s = map (\<lambda>v. deleteValue (sv_address v)) (scanValues pre s)"

definition operationCleanupWrites ::
  "storage_state \<Rightarrow> jstring \<Rightarrow> operation_state \<Rightarrow> js_error + storage_write list" where
  "operationCleanupWrites s operationId state =
     ebind (operationToolArgsPrefix operationId None) (\<lambda>argsPrefix.
     ebind (operationToolMemoPrefix operationId None) (\<lambda>memoPrefix.
     ebind (operationPreparationPrefix operationId) (\<lambda>preparationPrefix.
     ebind (pendingToolOutputPrefix operationId) (\<lambda>outputPrefix.
     ebind (frame_delete operationId (op_leaf state)) (\<lambda>frameDelete.
     ebind (operationMeta operationId) (\<lambda>meta.
     ebind (operationState operationId) (\<lambda>stateSlot.
     ebind (esequence (map pendingEntry (ready_ids (op_leaf state)))) (\<lambda>pending.
     Inr ([deleteValue meta, deleteValue stateSlot] @
       delete_scanned argsPrefix s @ delete_scanned memoPrefix s @
       delete_scanned preparationPrefix s @ delete_scanned outputPrefix s @
       frameDelete @ map deleteValue pending)))))))))"

definition operationResultRecord ::
  "operation_meta \<Rightarrow> terminal_status \<Rightarrow> jstring option \<Rightarrow> operation_error option \<Rightarrow> int \<Rightarrow>
   js_error + operation_result_record" where
  "operationResultRecord meta status tipId err now =
     (if (status = FailedStatus) \<noteq> (err \<noteq> None)
      then Inl (SessionInvariant ''Only a failed operation result may carry an error'')
      else Inr \<lparr>or_operationId = me_operationId meta, or_kind = intent_kind (me_intent meta), or_status = status,
        or_error = err, or_fromTipId = me_sourceTipId meta, or_tipId = tipId,
        or_startedAt = me_startedAt meta, or_endedAt = now\<rparr>)"

end
