(* ===== verification/Restore.thy ===== *)
theory Restore
  imports Transcript
begin

text \<open>
  \<open>runtime/restore.ts\<close>: rebuilding the live state of the lanes from the stored session, and the checks
  that refuse a session whose lane slots are incomplete or contradict each other.
\<close>

section \<open>Operation state and intent\<close>

fun summary_task_of :: "operation_leaf \<Rightarrow> summary_task option" where
  "summary_task_of (SummaryDeciding t) = Some t"
| "summary_task_of (SummaryReady t c n) = Some t"
| "summary_task_of (SummaryEffectPending t c n r us) = Some t"
| "summary_task_of (SummaryRetryWait t c w) = Some t"
| "summary_task_of _ = None"

definition stateMatchesIntent :: "op_intent \<Rightarrow> operation_state \<Rightarrow> bool" where
  "stateMatchesIntent intent state =
     (case intent of
        CompactionIntent ci \<Rightarrow>
          (case summary_task_of (op_leaf state) of None \<Rightarrow> False | Some t \<Rightarrow> st_boundary t = FinishBoundary)
      | NavigationIntent targetId summarize label ci \<Rightarrow>
          (case op_leaf state of
             NavigationReadyToCommit t l \<Rightarrow> \<not> summarize \<and> t = targetId \<and> l = label
           | _ \<Rightarrow> summarize \<and>
               (case summary_task_of (op_leaf state) of
                  None \<Rightarrow> False
                | Some t \<Rightarrow>
                    (case st_boundary t of
                       CommitNavigation target l \<Rightarrow> Some target = targetId \<and> l = label
                     | _ \<Rightarrow> False) \<and>
                    st_customInstructions t = ci))
      | RunIntent ids \<Rightarrow>
          (case op_leaf state of
             NavigationReadyToCommit t l \<Rightarrow> False
           | _ \<Rightarrow>
               (case summary_task_of (op_leaf state) of
                  None \<Rightarrow> True
                | Some t \<Rightarrow> (case st_boundary t of ResumeCheckpoint c \<Rightarrow> True | _ \<Rightarrow> False))))"

section \<open>Classification\<close>

datatype classified_lane =
    LaneAbsent
  | LaneBranch "jstring option"
  | LaneComplete "jstring option" lane_configuration durable_lane_state

definition classifyLaneStorage ::
  "jstring option option \<Rightarrow> lane_configuration option \<Rightarrow> durable_lane_state option \<Rightarrow> js_error + classified_lane" where
  "classifyLaneStorage tip configuration state =
     (if tip = None \<and> configuration = None \<and> state = None then Inr LaneAbsent
      else case tip of
        None \<Rightarrow> Inl (SessionInvariant ''Lane is missing branch.tip'')
      | Some t \<Rightarrow>
          if configuration = None \<and> state = None then Inr (LaneBranch t)
          else (case configuration of
            None \<Rightarrow> Inl (SessionInvariant ''Lane is missing lane.config'')
          | Some c \<Rightarrow> (case state of
              None \<Rightarrow> Inl (SessionInvariant ''Lane is missing lane.state'')
            | Some d \<Rightarrow> Inr (LaneComplete t c d))))"

text \<open>A typed read: the address, its stored value if any, and the cast of its type.\<close>

definition read_slot :: "(js_error + address) \<Rightarrow> (stored \<Rightarrow> js_error + 'a) \<Rightarrow> storage_state \<Rightarrow> js_error + 'a option" where
  "read_slot slot typed s =
     ebind slot (\<lambda>a. case getValue a s of
       None \<Rightarrow> Inr None | Some v \<Rightarrow> ebind (typed (sv_value v)) (\<lambda>x. Inr (Some x)))"

definition readLaneStorage :: "storage_state \<Rightarrow> jstring \<Rightarrow> js_error + classified_lane" where
  "readLaneStorage s lane =
     ebind (read_slot (branchTip lane) as_tip s) (\<lambda>tip.
     ebind (read_slot (laneConfig lane) as_config s) (\<lambda>configuration.
     ebind (read_slot (laneState lane) as_lane_state s) (\<lambda>state.
       classifyLaneStorage tip configuration state)))"

section \<open>Restoring a lane\<close>

definition restore_operation :: "storage_state \<Rightarrow> jstring \<Rightarrow> jstring \<Rightarrow> js_error + operation" where
  "restore_operation s lane operationId =
     ebind (read_slot (operationMeta operationId) as_meta s) (\<lambda>metaSlot.
     ebind (read_slot (operationState operationId) as_op_state s) (\<lambda>stateSlot.
     (case metaSlot of
        None \<Rightarrow> Inl (SessionInvariant ''Operation is missing op.meta'')
      | Some meta \<Rightarrow>
     (case stateSlot of
        None \<Rightarrow> Inl (SessionInvariant ''Operation is missing op.state'')
      | Some state \<Rightarrow>
          if me_operationId meta \<noteq> operationId
          then Inl (SessionInvariant ''Operation metadata names another operation'')
          else if me_lane meta \<noteq> lane
          then Inl (SessionInvariant ''Operation belongs to another lane'')
          else if \<not> stateMatchesIntent (me_intent meta) state
          then Inl (SessionInvariant ''Operation intent does not match its state'')
          else Inr \<lparr>op_meta = meta, op_state = state\<rparr>))))"

definition restoreLaneState ::
  "storage_state \<Rightarrow> jstring \<Rightarrow> jstring option \<Rightarrow> lane_configuration \<Rightarrow> durable_lane_state \<Rightarrow> js_error + lane_state" where
  "restoreLaneState s lane tip configuration state =
     ebind (case dl_currentOperationId state of
         None \<Rightarrow> Inr None
       | Some operationId \<Rightarrow> ebind (restore_operation s lane operationId) (\<lambda>op. Inr (Some op))) (\<lambda>op.
     Inr \<lparr>la_tipId = tip, la_configuration = configuration, la_inbox = dl_inbox state,
       la_lastOperationId = dl_lastOperationId state, la_operation = op\<rparr>)"

definition restoreLane :: "storage_state \<Rightarrow> jstring \<Rightarrow> js_error + lane_state" where
  "restoreLane s lane =
     ebind (readLaneStorage s lane) (\<lambda>c. case c of
       LaneAbsent \<Rightarrow> Inl (SessionInvariant ''Lane is missing branch.tip'')
     | LaneBranch t \<Rightarrow> Inl (SessionInvariant ''Lane is missing lane.config'')
     | LaneComplete t cfg d \<Rightarrow> restoreLaneState s lane t cfg d)"

section \<open>Restoring a session\<close>

text \<open>The values scanned under a prefix, by key: \<open>new Map(values.map(v => [v.address.key, v]))\<close>.\<close>

definition scan_typed ::
  "(js_error + address) \<Rightarrow> (stored \<Rightarrow> js_error + 'a) \<Rightarrow> storage_state \<Rightarrow> js_error + (jstring, 'a) jsmap" where
  "scan_typed pre typed s =
     ebind pre (\<lambda>p.
     ebind (esequence (map (\<lambda>v. ebind (typed (sv_value v)) (\<lambda>x. Inr (ad_key (sv_address v), x))) (scanValues p s)))
       (\<lambda>kvs. Inr (fold (\<lambda>(k, x) m. map_set k x m) kvs [])))"

fun restore_lanes ::
  "storage_state \<Rightarrow> (jstring, jstring option) jsmap \<Rightarrow> (jstring, lane_configuration) jsmap \<Rightarrow>
   (jstring, durable_lane_state) jsmap \<Rightarrow> jstring list \<Rightarrow> (jstring, lane_state) jsmap \<Rightarrow>
   js_error + (jstring, lane_state) jsmap" where
  "restore_lanes s tips cfgs states [] restored = Inr restored"
| "restore_lanes s tips cfgs states (lane # lanes) restored =
     ebind (classifyLaneStorage (map_get tips lane) (map_get cfgs lane) (map_get states lane)) (\<lambda>c. case c of
       LaneComplete t cfg d \<Rightarrow>
         ebind (restoreLaneState s lane t cfg d) (\<lambda>l.
           restore_lanes s tips cfgs states lanes (map_set lane l restored))
     | _ \<Rightarrow> restore_lanes s tips cfgs states lanes restored)"

definition restoreSession :: "storage_state \<Rightarrow> js_error + (jstring, lane_state) jsmap" where
  "restoreSession s =
     ebind (scan_typed branchTipInventoryPrefix as_tip s) (\<lambda>tips.
     ebind (scan_typed (laneConfig []) as_config s) (\<lambda>cfgs.
     ebind (scan_typed (laneState []) as_lane_state s) (\<lambda>states.
       restore_lanes s tips cfgs states
         (fold (\<lambda>k ks. if k \<in> set ks then ks else ks @ [k]) (map fst tips @ map fst cfgs @ map fst states) []) [])))"

end
