(* ===== verification/Lane.thy ===== *)
theory Lane
  imports Restore
begin

text \<open>
  The lane objects of a harness and the command discipline of \<open>runtime/lane.ts\<close>: one effect-free
  planner runs at a time on the session's mutation line, commits at most once, and the live state is
  replaced by the planned one only after the commit. A fault of the planner or of the commit seals
  every lane (\<open>Harness.fault\<close>). The mutation line makes a command one atomic step; a command that finds
  an idle owner waits (\<open>Blocked\<close>) and is tried again later. Delivered events are kept in \<open>ha_log\<close>.
  A planner reads through the open mutation, which is the storage state at that step.
\<close>

section \<open>State\<close>

record lane =
  ln_name :: jstring
  ln_state :: lane_state
  ln_closed :: "js_error option"
  ln_drive :: "drive option"
  ln_idle :: "nat option"

record harness =
  ha_session :: backed_session
  ha_lanes :: "(jstring, lane) jsmap"
  ha_seed :: lane_configuration
  ha_config :: harness_config
  ha_closed :: "js_error option"
  ha_faulted :: "js_error option"
  ha_serial :: nat
  ha_log :: "harness_event list"

datatype 'r outcome = Blocked | Threw js_error | Returned 'r

definition new_lane :: "jstring \<Rightarrow> lane_state \<Rightarrow> lane" where
  "new_lane name state =
     \<lparr>ln_name = name, ln_state = state, ln_closed = None, ln_drive = None, ln_idle = None\<rparr>"

definition lane_seal :: "js_error \<Rightarrow> lane \<Rightarrow> lane" where
  "lane_seal e l = l\<lparr>ln_closed := (case ln_closed l of None \<Rightarrow> Some e | Some e' \<Rightarrow> Some e')\<rparr>"

definition seal_lanes :: "js_error \<Rightarrow> (jstring, lane) jsmap \<Rightarrow> (jstring, lane) jsmap" where
  "seal_lanes e = map (\<lambda>(k, l). (k, lane_seal e l))"

definition harness_fault :: "harness \<Rightarrow> js_error \<times> harness" where
  "harness_fault h =
     (case ha_faulted h of Some f \<Rightarrow> (f, h) | None \<Rightarrow>
      (case ha_closed h of Some e \<Rightarrow> (e, h) | None \<Rightarrow>
        (HarnessFaulted, h\<lparr>ha_faulted := Some HarnessFaulted, ha_lanes := seal_lanes HarnessFaulted (ha_lanes h),
           ha_log := ha_log h @ [global_event (FaultEvent (js ''harness_fault'')
             (js ''AgentHarness storage or invariant fault''))]\<rparr>)))"

definition harness_close :: "harness \<Rightarrow> harness" where
  "harness_close h =
     (if ha_closed h \<noteq> None then h
      else h\<lparr>ha_closed := Some HarnessWasClosed, ha_lanes := seal_lanes HarnessWasClosed (ha_lanes h),
        ha_session := session_close (ha_session h)\<rparr>)"

section \<open>Commands\<close>

text \<open>
  What \<open>command\<close> and \<open>readLane\<close> share: the guards before queueing, the job on the session's mutation
  line, and the publication of what it returns (the lane object afterwards and the events).
\<close>

type_synonym 'r lane_job = "(mutation_handle \<times> memory_storage, (js_error + 'r) \<times> lane \<times> harness_event list) action"

definition run_on_line :: "jstring \<Rightarrow> (lane \<Rightarrow> 'r lane_job) \<Rightarrow> harness \<Rightarrow> 'r outcome \<times> harness" where
  "run_on_line name job h =
     (case map_get (ha_lanes h) name of
        None \<Rightarrow> (Threw (SessionInvariant ''no such lane object''), h)
      | Some l \<Rightarrow>
          (case ln_closed l of
             Some e \<Rightarrow> (Threw e, h)
           | None \<Rightarrow>
               if ln_idle l \<noteq> None then (Blocked, h)
               else (case session_mutate (job l) (ha_session h) of
                   (Inl e, se) \<Rightarrow>
                     if se_state (ha_session h) \<noteq> Open then (Threw e, h)
                     else (let (f, h') = harness_fault (h\<lparr>ha_session := se\<rparr>) in (Threw f, h'))
                 | (Inr (r, l', events), se) \<Rightarrow>
                     (case r of Inl e \<Rightarrow> Threw e | Inr x \<Rightarrow> Returned x,
                      h\<lparr>ha_session := se, ha_lanes := map_set name l' (ha_lanes h), ha_log := ha_log h @ events\<rparr>))))"

definition command_job ::
  "(lane_state \<Rightarrow> storage_state \<Rightarrow> js_error + 'r lane_decision) \<Rightarrow> int \<Rightarrow> lane \<Rightarrow> 'r lane_job" where
  "command_job plan now l =
     act_bind (mutation_read (plan (ln_state l))) (\<lambda>decision. case decision of
       CommandReturn r \<Rightarrow> act_return (Inr r, l, [])
     | CommandReject e \<Rightarrow> act_return (Inl e, l, [])
     | CommandCommit writes next materialize events \<Rightarrow>
         act_bind (mutation_commit writes now) (\<lambda>commit.
           act_return (Inr (materialize commit), l\<lparr>ln_state := next\<rparr>, events commit)))"

definition lane_command ::
  "jstring \<Rightarrow> (lane_state \<Rightarrow> storage_state \<Rightarrow> js_error + 'r lane_decision) \<Rightarrow> int \<Rightarrow> harness \<Rightarrow> 'r outcome \<times> harness" where
  "lane_command name plan now = run_on_line name (command_job plan now)"

text \<open>A command whose planner returns without a commit and assigns process-local fields of the lane.\<close>

definition lane_claim ::
  "jstring \<Rightarrow> (lane \<Rightarrow> storage_state \<Rightarrow> js_error + ((js_error + 'r) \<times> lane)) \<Rightarrow> harness \<Rightarrow> 'r outcome \<times> harness" where
  "lane_claim name plan = run_on_line name (\<lambda>l.
     act_bind (mutation_read (plan l)) (\<lambda>(r, l'). act_return (r, l', [])))"

text \<open>\<open>readLane\<close> does not wait for the idle owner and changes nothing.\<close>

definition readLane ::
  "jstring \<Rightarrow> (lane_state \<Rightarrow> storage_state \<Rightarrow> js_error + 'r) \<Rightarrow> harness \<Rightarrow> 'r outcome \<times> harness" where
  "readLane name read h =
     (case map_get (ha_lanes h) name of
        None \<Rightarrow> (Threw (SessionInvariant ''no such lane object''), h)
      | Some l \<Rightarrow>
          (case ln_closed l of
             Some e \<Rightarrow> (Threw e, h)
           | None \<Rightarrow>
               (case session_mutate (mutation_read (read (ln_state l))) (ha_session h) of
                  (Inl e, se) \<Rightarrow>
                    if se_state (ha_session h) \<noteq> Open then (Threw e, h)
                    else (let (f, h') = harness_fault (h\<lparr>ha_session := se\<rparr>) in (Threw f, h'))
                | (Inr r, se) \<Rightarrow> (Returned r, h\<lparr>ha_session := se\<rparr>))))"

section \<open>Operation commands\<close>

definition durableLaneState ::
  "jstring option \<Rightarrow> inbox_item list \<Rightarrow> jstring option \<Rightarrow> durable_lane_state" where
  "durableLaneState currentOperationId inbox lastOperationId =
     \<lparr>dl_currentOperationId = currentOperationId, dl_lastOperationId = lastOperationId, dl_inbox = inbox\<rparr>"

definition apply_patch :: "lane_patch \<Rightarrow> lane_state \<Rightarrow> lane_state" where
  "apply_patch p state =
     state\<lparr>la_tipId := (case lp_tipId p of None \<Rightarrow> la_tipId state | Some t \<Rightarrow> t),
           la_configuration := (case lp_configuration p of None \<Rightarrow> la_configuration state | Some c \<Rightarrow> c),
           la_inbox := (case lp_inbox p of None \<Rightarrow> la_inbox state | Some i \<Rightarrow> i)\<rparr>"

text \<open>The decision \<open>settleOperation\<close> makes of the planner's decision about the current operation.\<close>

definition settle_decision ::
  "jstring \<Rightarrow> lane_state \<Rightarrow> operation_meta \<Rightarrow> 'r operation_command \<Rightarrow> js_error + 'r lane_decision" where
  "settle_decision name state meta decision =
     (case decision of
        OperationReturn r \<Rightarrow> Inr (CommandReturn r)
      | OperationCommit writes newState patch materialize events \<Rightarrow>
          ebind (operationState (me_operationId meta)) (\<lambda>stateSlot.
          ebind (laneState name) (\<lambda>laneSlot.
          Inr (CommandCommit
            (writes @ [setValue stateSlot (VOpState newState)] @
             (case lp_inbox patch of
                None \<Rightarrow> []
              | Some inbox \<Rightarrow> [setValue laneSlot (VLaneState
                  (durableLaneState (Some (me_operationId meta)) inbox (la_lastOperationId state)))]))
            ((apply_patch patch state)\<lparr>la_operation := Some \<lparr>op_meta = meta, op_state = newState\<rparr>\<rparr>)
            materialize events)))
      | OperationFinish writes result patch materialize events \<Rightarrow>
          (let inbox = (case lp_inbox patch of None \<Rightarrow> la_inbox state | Some i \<Rightarrow> i) in
           ebind (operationResult (me_operationId meta)) (\<lambda>resultSlot.
           ebind (laneState name) (\<lambda>laneSlot.
           Inr (CommandCommit
             (writes @ [setValue resultSlot (VResult result),
                setValue laneSlot (VLaneState (durableLaneState None inbox (Some (me_operationId meta))))])
             ((apply_patch patch state)\<lparr>la_inbox := inbox, la_lastOperationId := Some (me_operationId meta),
                la_operation := None\<rparr>)
             materialize events)))))"

type_synonym 'r operation_plan =
  "lane_state \<Rightarrow> operation_state \<Rightarrow> operation_meta \<Rightarrow> storage_state \<Rightarrow> js_error + 'r operation_command"

definition settle_plan ::
  "jstring \<Rightarrow> 'r operation_plan \<Rightarrow> lane_state \<Rightarrow> storage_state \<Rightarrow> js_error + 'r lane_decision" where
  "settle_plan name plan state s =
     (case la_operation state of
        None \<Rightarrow> Inl (SessionInvariant ''the lane has no current operation'')
      | Some operation \<Rightarrow>
          ebind (plan state (op_state operation) (op_meta operation) s)
            (settle_decision name state (op_meta operation)))"

definition settleOperation :: "jstring \<Rightarrow> 'r operation_plan \<Rightarrow> int \<Rightarrow> harness \<Rightarrow> 'r outcome \<times> harness" where
  "settleOperation name plan = lane_command name (settle_plan name plan)"

fun lift_decision :: "'r operation_command \<Rightarrow> 'r continue_result operation_command" where
  "lift_decision (OperationReturn r) = OperationReturn (ContinueResult r)"
| "lift_decision (OperationCommit ws st p m ev) = OperationCommit ws st p (\<lambda>c. ContinueResult (m c)) ev"
| "lift_decision (OperationFinish ws rec p m ev) = OperationFinish ws rec p (\<lambda>c. ContinueResult (m c)) ev"

definition continue_plan :: "'r operation_plan \<Rightarrow> 'r continue_result operation_plan" where
  "continue_plan plan state latest meta s =
     (case os_control (op_scope latest) of
        CancelRequested t \<Rightarrow> Inr (OperationReturn CancelRequestedResult)
      | Running \<Rightarrow> ebind (plan state latest meta s) (\<lambda>d. Inr (lift_decision d)))"

definition continueOperation ::
  "jstring \<Rightarrow> 'r operation_plan \<Rightarrow> int \<Rightarrow> harness \<Rightarrow> 'r continue_result outcome \<times> harness" where
  "continueOperation name plan = settleOperation name (continue_plan plan)"

end
