(* ===== verification/Invocation.thy ===== *)
theory Invocation
  imports HarnessTypes
begin

text \<open>
  The text functions of \<open>harness/prompt-templates.ts\<close> and \<open>harness/skills.ts\<close> that turn an explicit
  invocation into a prompt: splitting an argument string, replacing the placeholders of a template
  and formatting a skill. The regular expressions of \<open>String.prototype.replace\<close> are recursive
  functions over the code units; a global replacement scans left to right and continues after each
  match.
\<close>

section \<open>Characters\<close>

definition unit_of :: "char \<Rightarrow> 16 word" where
  "unit_of c = of_char c"

definition is_digit_unit :: "16 word \<Rightarrow> bool" where
  "is_digit_unit u \<longleftrightarrow> 48 \<le> u \<and> u \<le> 57"

text \<open>\<open>parseInt(digits, 10)\<close> of a string of ASCII digits.\<close>

definition digits_value :: "jstring \<Rightarrow> nat" where
  "digits_value ds = foldl (\<lambda>n d. 10 * n + (unat d - 48)) 0 ds"

fun join_space :: "jstring list \<Rightarrow> jstring" where
  "join_space [] = []"
| "join_space [s] = s"
| "join_space (s # ss) = s @ js '' '' @ join_space ss"

section \<open>Splitting an argument string\<close>

text \<open>The loop of \<open>parseCommandArgs\<close>: what is left, \<open>args\<close>, \<open>current\<close> and \<open>inQuote\<close>.\<close>

fun parse_args_loop :: "jstring \<Rightarrow> jstring list \<Rightarrow> jstring \<Rightarrow> 16 word option \<Rightarrow> jstring list" where
  "parse_args_loop [] args current inQuote = (if current \<noteq> [] then args @ [current] else args)"
| "parse_args_loop (c # cs) args current (Some q) =
     (if c = q then parse_args_loop cs args current None
      else parse_args_loop cs args (current @ [c]) (Some q))"
| "parse_args_loop (c # cs) args current None =
     (if c = unit_of CHR 0x22 \<or> c = unit_of CHR 0x27 then parse_args_loop cs args current (Some c)
      else if c = unit_of CHR '' '' \<or> c = unit_of CHR 0x09
      then (if current \<noteq> [] then parse_args_loop cs (args @ [current]) [] None
            else parse_args_loop cs args current None)
      else parse_args_loop cs args (current @ [c]) None)"

definition parseCommandArgs :: "jstring \<Rightarrow> jstring list" where
  "parseCommandArgs argsString = parse_args_loop argsString [] [] None"

section \<open>Replacing placeholders\<close>

abbreviation DOLLAR :: "16 word" where "DOLLAR \<equiv> unit_of CHR ''$''"

text \<open>\<open>args[n - 1] ?? ""\<close>\<close>

definition positional :: "jstring list \<Rightarrow> nat \<Rightarrow> jstring" where
  "positional args n = (if 1 \<le> n \<and> n \<le> length args then args ! (n - 1) else [])"

text \<open>\<open>/\$(\d+)/g\<close>\<close>

function replace_positional :: "jstring list \<Rightarrow> jstring \<Rightarrow> jstring" where
  "replace_positional args [] = []"
| "replace_positional args (c # cs) =
     (if c = DOLLAR \<and> takeWhile is_digit_unit cs \<noteq> []
      then positional args (digits_value (takeWhile is_digit_unit cs)) @
           replace_positional args (dropWhile is_digit_unit cs)
      else c # replace_positional args cs)"
  by pat_completeness auto
termination
  by (relation "measure (\<lambda>(args, s). length s)") (auto simp: less_Suc_eq_le length_dropWhile_le)

text \<open>
  \<open>/\$\{@:(\d+)(?::(\d+))?\}/g\<close>: \<open>slice_match\<close> is a match at the start of the string, with the start, the
  length if there is one, and what follows.
\<close>

definition slice_match :: "jstring \<Rightarrow> (nat \<times> nat option \<times> jstring) option" where
  "slice_match s =
     (if \<not> prefix (js ''${@:'') s then None
      else (let r = drop 4 s; ds = takeWhile is_digit_unit r; r' = dropWhile is_digit_unit r in
        if ds = [] then None
        else (case r' of
          [] \<Rightarrow> None
        | c # r'' \<Rightarrow>
            if c = unit_of CHR ''}'' then Some (digits_value ds, None, r'')
            else if c = unit_of CHR '':'' then
              (let ls = takeWhile is_digit_unit r''; t = dropWhile is_digit_unit r'' in
               if ls \<noteq> [] \<and> t \<noteq> [] \<and> hd t = unit_of CHR ''}''
               then Some (digits_value ds, Some (digits_value ls), tl t) else None)
            else None)))"

definition args_slice :: "jstring list \<Rightarrow> nat \<Rightarrow> nat option \<Rightarrow> jstring" where
  "args_slice args start len =
     join_space (case len of None \<Rightarrow> drop (start - 1) args | Some n \<Rightarrow> take n (drop (start - 1) args))"

lemma slice_match_shorter: "slice_match s = Some (n, l, r) \<Longrightarrow> length r < length s"
proof -
  assume m: "slice_match s = Some (n, l, r)"
  let ?r = "drop 4 s" and ?t = "dropWhile is_digit_unit (drop 4 s)"
  have pre: "4 \<le> length s"
    using m prefix_length_le[of "js ''${@:''" s] by (auto simp: slice_match_def js_def split: if_splits)
  have "length ?t \<le> length ?r" by (rule length_dropWhile_le)
  moreover have "length r < length ?t"
  proof (cases ?t)
    case Nil
    then show ?thesis
      using m by (simp add: slice_match_def Let_def del: dropWhile_eq_Nil_conv split: if_splits)
  next
    case (Cons c t)
    have "length (tl (dropWhile is_digit_unit t)) \<le> length t"
      using length_dropWhile_le[of is_digit_unit t] by simp
    then show ?thesis
      using m Cons by (auto simp: slice_match_def Let_def simp del: dropWhile_eq_Nil_conv split: if_splits)
  qed
  ultimately show ?thesis using pre by simp
qed

function replace_slices :: "jstring list \<Rightarrow> jstring \<Rightarrow> jstring" where
  "replace_slices args [] = []"
| "replace_slices args (c # cs) =
     (case slice_match (c # cs) of
        Some (start, len, rest) \<Rightarrow> args_slice args start len @ replace_slices args rest
      | None \<Rightarrow> c # replace_slices args cs)"
  by pat_completeness auto
termination
  by (relation "measure (\<lambda>(args, s). length s)") (auto dest: slice_match_shorter)

text \<open>
  A replacement given as a string: \<open>$$\<close>, \<open>$&\<close>, \<open>$`\<close> and \<open>$'\<close> in it stand for a dollar, the match, what precedes
  it and what follows it (\<open>GetSubstitution\<close>; the patterns used here have no groups).
\<close>

fun get_substitution :: "jstring \<Rightarrow> jstring \<Rightarrow> jstring \<Rightarrow> jstring \<Rightarrow> jstring" where
  "get_substitution matched before following (c # d # cs) =
     (if c = DOLLAR \<and> d = DOLLAR then DOLLAR # get_substitution matched before following cs
      else if c = DOLLAR \<and> d = unit_of CHR ''&'' then matched @ get_substitution matched before following cs
      else if c = DOLLAR \<and> d = unit_of CHR 0x60 then before @ get_substitution matched before following cs
      else if c = DOLLAR \<and> d = unit_of CHR 0x27 then following @ get_substitution matched before following cs
      else c # get_substitution matched before following (d # cs))"
| "get_substitution matched before following cs = cs"

text \<open>\<open>result.replace(/pattern/g, replacement)\<close> for a pattern without groups; \<open>before\<close> is what was scanned.\<close>

function replace_literal :: "jstring \<Rightarrow> jstring \<Rightarrow> jstring \<Rightarrow> jstring \<Rightarrow> jstring" where
  "replace_literal pat replacement before [] = []"
| "replace_literal pat replacement before (c # cs) =
     (if pat \<noteq> [] \<and> prefix pat (c # cs)
      then get_substitution pat before (drop (length pat) (c # cs)) replacement @
           replace_literal pat replacement (before @ pat) (drop (length pat) (c # cs))
      else c # replace_literal pat replacement (before @ [c]) cs)"
  by pat_completeness auto
termination
  by (relation "measure (\<lambda>(pat, replacement, before, s). length s)") auto

definition substituteArgs :: "jstring \<Rightarrow> jstring list \<Rightarrow> jstring" where
  "substituteArgs content args =
     (let result = replace_slices args (replace_positional args content);
          allArgs = join_space args
      in replace_literal (js ''$@'') allArgs [] (replace_literal (js ''$ARGUMENTS'') allArgs [] result))"

definition formatPromptTemplateInvocation :: "prompt_template \<Rightarrow> jstring list option \<Rightarrow> jstring" where
  "formatPromptTemplateInvocation template args =
     substituteArgs (pt_content template) (case args of None \<Rightarrow> [] | Some as \<Rightarrow> as)"

section \<open>Skills\<close>

definition is_separator :: "16 word \<Rightarrow> bool" where
  "is_separator u \<longleftrightarrow> u = unit_of CHR ''/'' \<or> u = unit_of CHR 0x5C"

text \<open>\<open>separatorIndex + 1\<close>: one more than the index of the last separator, 0 when there is none.\<close>

definition after_last_separator :: "jstring \<Rightarrow> nat" where
  "after_last_separator p = length p - length (takeWhile (\<lambda>u. \<not> is_separator u) (rev p))"

definition dirnameEnvPath :: "jstring \<Rightarrow> jstring" where
  "dirnameEnvPath path =
     (let normalized = rev (dropWhile is_separator (rev path)); k = after_last_separator normalized in
      if k = 3 \<and> normalized ! 1 = unit_of CHR '':'' then take 3 normalized
      else if k \<le> 1 then js ''/'' else take (k - 1) normalized)"

definition NL :: jstring where
  "NL = [unit_of CHR 0x0A]"

definition formatSkillInvocation :: "skill \<Rightarrow> jstring option \<Rightarrow> jstring" where
  "formatSkillInvocation skill additionalInstructions =
     (let skillBlock = js ''<skill name='' @ [unit_of CHR 0x22] @ sk_name skill @ [unit_of CHR 0x22] @
            js '' location='' @ [unit_of CHR 0x22] @ sk_filePath skill @ [unit_of CHR 0x22] @ js ''>'' @ NL @
            js ''References are relative to '' @ dirnameEnvPath (sk_filePath skill) @ js ''.'' @ NL @ NL @
            sk_content skill @ NL @ js ''</skill>''
      in case additionalInstructions of
           None \<Rightarrow> skillBlock
         | Some t \<Rightarrow> if t = [] then skillBlock else skillBlock @ NL @ NL @ t)"

end
