(* ===== verification/LaneAccept.thy ===== *)
theory LaneAccept
  imports Lane Invocation
begin

text \<open>
  Admission of an operation on an idle lane (\<open>accept\<close>, \<open>acceptRun\<close>, \<open>acceptCompaction\<close> and
  \<open>acceptNavigation\<close> of \<open>runtime/lane.ts\<close>). The fresh ids, the clock readings and the two preparation
  routines of \<open>compaction/\<close> are arguments; a summarized navigation's wait for a stable tip is one step,
  since the preparation is read and the command runs without another command in between or the
  command returns nothing and the caller tries again (\<open>Returned None\<close>).
\<close>

section \<open>Helpers\<close>

definition inboxItems :: "inbox_item list \<Rightarrow> inbox_item_kind \<Rightarrow> inbox_item list" where
  "inboxItems inbox kind = filter (\<lambda>item. ii_kind item = kind) inbox"

definition withoutInboxItems :: "inbox_item list \<Rightarrow> inbox_item list \<Rightarrow> inbox_item list" where
  "withoutInboxItems inbox removed =
     filter (\<lambda>item. ii_entryId item \<notin> set (map ii_entryId removed)) inbox"

text \<open>The loop of \<open>selectAcceptedInbox\<close>: items left, \<open>steerTaken\<close>, \<open>followUpTaken\<close>, \<open>selected\<close>, \<open>remainder\<close>.\<close>

fun select_inbox_loop ::
  "queue_mode \<Rightarrow> queue_mode \<Rightarrow> inbox_item list \<Rightarrow> bool \<Rightarrow> bool \<Rightarrow> inbox_item list \<Rightarrow> inbox_item list \<Rightarrow>
   inbox_item list \<times> inbox_item list" where
  "select_inbox_loop sm fm [] st ft selected remainder = (selected, remainder)"
| "select_inbox_loop sm fm (item # items) st ft selected remainder =
     (if ii_kind item = WriteItem \<or> ii_kind item = NextRun \<or>
         (ii_kind item = Steer \<and> (sm = AllItems \<or> \<not> st)) \<or>
         (ii_kind item = FollowUp \<and> (fm = AllItems \<or> \<not> ft))
      then select_inbox_loop sm fm items (st \<or> ii_kind item = Steer) (ft \<or> ii_kind item = FollowUp)
             (selected @ [item]) remainder
      else select_inbox_loop sm fm items st ft selected (remainder @ [item]))"

definition selectAcceptedInbox ::
  "inbox_item list \<Rightarrow> queue_mode \<Rightarrow> queue_mode \<Rightarrow> inbox_item list \<times> inbox_item list" where
  "selectAcceptedInbox inbox steeringMode followUpMode =
     select_inbox_loop steeringMode followUpMode inbox False False [] []"

definition capturedSettings :: "harness_config \<Rightarrow> run_settings" where
  "capturedSettings config =
     \<lparr>rs_compaction = cf_compaction config, rs_steeringMode = cf_steeringMode config,
      rs_followUpMode = cf_followUpMode config, rs_toolExecution = cf_toolExecution config\<rparr>"

fun pending_body :: "pending_entry \<Rightarrow> entry_body" where
  "pending_body (PendingMessage m) = MessageBody m False"
| "pending_body (PendingCustom c d) = CustomBody c d"

definition pendingEntryWrite :: "jstring \<Rightarrow> pending_entry \<Rightarrow> new_entry" where
  "pendingEntryWrite entryId pending = \<lparr>ne_id = entryId, ne_parentId = None, ne_body = pending_body pending\<rparr>"

definition lane_busy :: "jstring \<Rightarrow> operation \<Rightarrow> 'r lane_result" where
  "lane_busy name operation =
     Inl (LaneBusy name (me_operationId (op_meta operation)) (intent_kind (me_intent (op_meta operation))))"

definition initial_scope :: "harness_config \<Rightarrow> operation_scope" where
  "initial_scope config =
     \<lparr>os_control = Running, os_settings = capturedSettings config, os_latestAssistantEntryId = None\<rparr>"

section \<open>Runs\<close>

definition user_text :: "user_block list \<Rightarrow> int \<Rightarrow> agent_message" where
  "user_text blocks timestamp = UserMsg \<lparr>um_content = BlockContent blocks, um_timestamp = timestamp\<rparr>"

definition text_block :: "jstring \<Rightarrow> user_block" where
  "text_block t = UText \<lparr>tx_text = t, tx_signature = None\<rparr>"

text \<open>The messages of a run request, or the expected error of an unknown resource.\<close>

fun run_messages :: "operation_request \<Rightarrow> harness_config \<Rightarrow> int \<Rightarrow> agent_message list lane_result" where
  "run_messages (PromptRequest (PromptText t images)) config startedAt =
     (let imgs = (case images of None \<Rightarrow> [] | Some xs \<Rightarrow> xs) in
      Inr (if t = [] \<and> imgs = [] then []
           else [user_text ((if t = [] then [] else [text_block t]) @ map UImage imgs) startedAt]))"
| "run_messages (PromptRequest (PromptMessage m)) config startedAt = Inr [m]"
| "run_messages (PromptRequest (PromptMessages ms)) config startedAt = Inr ms"
| "run_messages (SkillRequest name additional) config startedAt =
     (case List.find (\<lambda>k. sk_name k = name) (case cf_skills config of None \<Rightarrow> [] | Some ss \<Rightarrow> ss) of
        None \<Rightarrow> Inl (UnknownSkill name)
      | Some k \<Rightarrow> Inr [user_text [text_block (formatSkillInvocation k additional)] startedAt])"
| "run_messages (TemplateRequest name args) config startedAt =
     (case List.find (\<lambda>t. pt_name t = name) (case cf_promptTemplates config of None \<Rightarrow> [] | Some ts \<Rightarrow> ts) of
        None \<Rightarrow> Inl (UnknownTemplate name)
      | Some t \<Rightarrow> (let content = formatPromptTemplateInvocation t args in
          Inr (if content = [] then [] else [user_text [text_block content] startedAt])))"
| "run_messages request config startedAt = Inr []"

text \<open>The payload of one selected inbox item.\<close>

definition captured_item :: "storage_state \<Rightarrow> inbox_item \<Rightarrow> js_error + (inbox_item \<times> pending_entry)" where
  "captured_item s item =
     ebind (read_pending s (ii_entryId item)) (\<lambda>stored. case stored of
       None \<Rightarrow> Inl (SessionInvariant ''Pending entry is missing its payload'')
     | Some (PendingCustom c d) \<Rightarrow>
         if ii_kind item \<noteq> WriteItem then Inl (SessionInvariant ''Pending entry is not a message'')
         else Inr (item, PendingCustom c d)
     | Some (PendingMessage m) \<Rightarrow>
         if is_pending_assistant m then Inl (SessionInvariant ''Pending entry contains a pending assistant'')
         else Inr (item, PendingMessage m))"

definition run_entries ::
  "jstring option \<Rightarrow> (inbox_item \<times> pending_entry) list \<Rightarrow> (jstring \<times> agent_message) list \<Rightarrow> new_entry list" where
  "run_entries tip captured prompt =
     chainEntries tip (map (\<lambda>(item, p). pendingEntryWrite (ii_entryId item) p) captured @
       map (\<lambda>(i, m). \<lparr>ne_id = i, ne_parentId = None, ne_body = MessageBody m False\<rparr>) prompt)"

definition run_meta :: "jstring \<Rightarrow> jstring \<Rightarrow> int \<Rightarrow> (jstring \<times> agent_message) list \<Rightarrow> lane_state \<Rightarrow> operation_meta" where
  "run_meta name operationId startedAt prompt state =
     \<lparr>me_operationId = operationId, me_lane = name, me_sourceTipId = la_tipId state, me_startedAt = startedAt,
      me_intent = RunIntent (map fst prompt)\<rparr>"

definition acceptRun_plan ::
  "jstring \<Rightarrow> jstring \<Rightarrow> int \<Rightarrow> harness_config \<Rightarrow> (jstring \<times> agent_message) list \<Rightarrow>
   lane_state \<Rightarrow> storage_state \<Rightarrow> js_error + operation_admission lane_result lane_decision" where
  "acceptRun_plan name operationId startedAt config prompt state s =
     (case la_operation state of
        Some operation \<Rightarrow> Inr (CommandReturn (lane_busy name operation))
      | None \<Rightarrow>
          (let (selectedItems, inbox) =
             selectAcceptedInbox (la_inbox state) (cf_steeringMode config) (cf_followUpMode config) in
           ebind (esequence (map (captured_item s) selectedItems)) (\<lambda>captured.
           if prompt = [] \<and> \<not> list_ex (\<lambda>item. ii_kind item \<noteq> WriteItem) selectedItems
           then Inr (CommandReturn (Inl (InvalidMessage name ''empty'')))
           else
             (let entries = run_entries (la_tipId state) captured prompt;
                  parentId = Some (ne_id (last entries));
                  meta = run_meta name operationId startedAt prompt state;
                  opState = \<lparr>op_scope = initial_scope config, op_leaf = Starting\<rparr> in
              ebind (readLaneQueues s inbox) (\<lambda>remainingQueues.
              ebind (esequence (map (\<lambda>item. pendingEntry (ii_entryId item)) selectedItems)) (\<lambda>pendingSlots.
              ebind (branchTip name) (\<lambda>tipSlot.
              ebind (operationMeta operationId) (\<lambda>metaSlot.
              ebind (operationState operationId) (\<lambda>stateSlot.
              ebind (laneState name) (\<lambda>laneSlot.
              Inr (CommandCommit
                (map insertEntry entries @ map deleteValue pendingSlots @
                 [setValue tipSlot (VTip parentId), setValue metaSlot (VMeta meta),
                  setValue stateSlot (VOpState opState),
                  setValue laneSlot (VLaneState
                    (durableLaneState (Some operationId) inbox (la_lastOperationId state)))])
                (state\<lparr>la_tipId := parentId, la_inbox := inbox,
                   la_operation := Some \<lparr>op_meta = meta, op_state = opState\<rparr>\<rparr>)
                (\<lambda>commit. Inr \<lparr>ad_operationId = operationId, ad_opKind = RunKind, ad_startedAt = startedAt\<rparr>)
                (\<lambda>commit. lane_event name (RunStart operationId startedAt) #
                   committedEntryEvents entries commit name (Some operationId) 0 @
                   (if selectedItems \<noteq> [] then [lane_event name (QueueUpdate remainingQueues)] else []))
              )))))))))))"

definition acceptRun ::
  "jstring \<Rightarrow> operation_request \<Rightarrow> jstring \<Rightarrow> int \<Rightarrow> harness_config \<Rightarrow> jstring list \<Rightarrow> int \<Rightarrow> harness \<Rightarrow>
   operation_admission lane_result outcome \<times> harness" where
  "acceptRun name request operationId startedAt config promptIds now h =
     (case run_messages request config startedAt of
        Inl e \<Rightarrow> (Returned (Inl e), h)
      | Inr messages \<Rightarrow>
          if list_ex is_pending_assistant messages
          then (Returned (Inl (InvalidMessage name ''pending_assistant'')), h)
          else lane_command name
            (acceptRun_plan name operationId startedAt config (zip promptIds messages)) now h)"

section \<open>Compactions\<close>

text \<open>
  \<open>prepare\<close> is \<open>prepareCompaction\<close> followed by \<open>durableCompactionPreparation\<close>: nothing to compact, what
  to compact, or the error it reports. A branch scan that never returns, which a well-formed storage
  excludes, counts as an error here.
\<close>

type_synonym prepare_compaction =
  "entry list \<Rightarrow> compaction_settings \<Rightarrow> js_error + structural_preparation option"

definition bounded_path :: "lane_state \<Rightarrow> storage_state \<Rightarrow> js_error + entry list" where
  "bounded_path state s =
     (case la_tipId state of
        None \<Rightarrow> Inr []
      | Some tip \<Rightarrow>
          (case scanBranch (bounded_scan tip) s of
             None \<Rightarrow> Inl CorruptBranch
           | Some r \<Rightarrow> map_sum id rev r))"

definition acceptCompaction_plan ::
  "prepare_compaction \<Rightarrow> jstring \<Rightarrow> jstring \<Rightarrow> int \<Rightarrow> harness_config \<Rightarrow> jstring option \<Rightarrow> jstring \<Rightarrow>
   lane_state \<Rightarrow> storage_state \<Rightarrow> js_error + operation_admission lane_result lane_decision" where
  "acceptCompaction_plan prepare name operationId startedAt config customInstructions taskId state s =
     (case la_operation state of
        Some operation \<Rightarrow> Inr (CommandReturn (lane_busy name operation))
      | None \<Rightarrow>
          ebind (bounded_path state s) (\<lambda>path.
          ebind (prepare path (cf_compaction config)) (\<lambda>prepared. case prepared of
            None \<Rightarrow> Inr (CommandReturn (Inl (NothingToCompact name)))
          | Some preparation \<Rightarrow>
             (let meta = \<lparr>me_operationId = operationId, me_lane = name, me_sourceTipId = la_tipId state,
                    me_startedAt = startedAt, me_intent = CompactionIntent customInstructions\<rparr>;
                  opState = \<lparr>op_scope = initial_scope config, op_leaf = SummaryDeciding
                    \<lparr>st_taskId = taskId, st_reason = Some ManualReason, st_customInstructions = customInstructions,
                     st_boundary = FinishBoundary\<rparr>\<rparr> in
              ebind (operationPreparation operationId taskId) (\<lambda>preparationSlot.
              ebind (operationMeta operationId) (\<lambda>metaSlot.
              ebind (operationState operationId) (\<lambda>stateSlot.
              ebind (laneState name) (\<lambda>laneSlot.
              Inr (CommandCommit
                [setValue preparationSlot (VPreparation preparation), setValue metaSlot (VMeta meta),
                 setValue stateSlot (VOpState opState),
                 setValue laneSlot (VLaneState
                   (durableLaneState (Some operationId) (la_inbox state) (la_lastOperationId state)))]
                (state\<lparr>la_operation := Some \<lparr>op_meta = meta, op_state = opState\<rparr>\<rparr>)
                (\<lambda>commit. Inr \<lparr>ad_operationId = operationId, ad_opKind = CompactionKind, ad_startedAt = startedAt\<rparr>)
                (\<lambda>commit. [lane_event name (CompactionStart operationId ManualReason startedAt)])
              )))))))))"

section \<open>Navigations\<close>

text \<open>
  \<open>prepareBranch\<close> is \<open>prepareBranchEntries\<close> followed by \<open>durableBranchPreparation\<close>. The entries between the
  observed tip and the deepest common ancestor with the target, oldest first:
\<close>

definition abandoned_entries :: "entry list \<Rightarrow> entry list \<Rightarrow> entry list" where
  "abandoned_entries oldPath targetPath =
     (let oldIds = map en_id oldPath;
          commonAncestor = List.find (\<lambda>e. en_id e \<in> set oldIds) targetPath in
      rev (case commonAncestor of
             None \<Rightarrow> oldPath
           | Some a \<Rightarrow> takeWhile (\<lambda>e. en_id e \<noteq> en_id a) oldPath))"

definition full_scan :: "jstring \<Rightarrow> branch_scan" where
  "full_scan start = \<lparr>bs_start = start, bs_stopAtType = None, bs_stopAtId = None, bs_type = None,
     bs_customType = None, bs_order = Some NewestFirst, bs_limit = None, bs_cursor = None\<rparr>"

definition navigation_preparation ::
  "(entry list \<Rightarrow> structural_preparation) \<Rightarrow> bool \<Rightarrow> jstring option \<Rightarrow> jstring option \<Rightarrow> storage_state \<Rightarrow>
   js_error + structural_preparation option" where
  "navigation_preparation prepareBranch summarize observedTipId targetId s =
     (case (summarize, observedTipId, targetId) of
        (True, Some tip, Some target) \<Rightarrow>
          if \<not> map_has (getEntries [target] s) target then Inr None
          else (case (scanBranch (full_scan tip) s, scanBranch (full_scan target) s) of
              (Some oldResult, Some targetResult) \<Rightarrow>
                ebind oldResult (\<lambda>oldPath. ebind targetResult (\<lambda>targetPath.
                  Inr (Some (prepareBranch (abandoned_entries oldPath targetPath)))))
            | _ \<Rightarrow> Inl CorruptBranch)
      | _ \<Rightarrow> Inr None)"

definition navigation_leaf ::
  "bool \<Rightarrow> jstring \<Rightarrow> jstring option \<Rightarrow> navigate_options \<Rightarrow> structural_preparation option \<Rightarrow>
   js_error + (structural_preparation option \<times> operation_leaf)" where
  "navigation_leaf summarize taskId targetId options preparation =
     (if summarize
      then (case (targetId, preparation) of
          (Some target, Some p) \<Rightarrow>
            Inr (Some p, SummaryDeciding \<lparr>st_taskId = taskId, st_reason = None,
              st_customInstructions = no_customInstructions options,
              st_boundary = CommitNavigation target (no_label options)\<rparr>)
        | _ \<Rightarrow> Inl (SessionInvariant ''Validated summarized navigation is missing its preparation''))
      else Inr (None, NavigationReadyToCommit targetId (no_label options)))"

definition acceptNavigation_plan ::
  "jstring option \<Rightarrow> structural_preparation option \<Rightarrow> jstring \<Rightarrow> jstring \<Rightarrow> int \<Rightarrow> harness_config \<Rightarrow>
   jstring option \<Rightarrow> navigate_options \<Rightarrow> jstring \<Rightarrow> lane_state \<Rightarrow> storage_state \<Rightarrow>
   js_error + operation_admission lane_result option lane_decision" where
  "acceptNavigation_plan observedTipId preparation name operationId startedAt config targetId options taskId state s =
     (let summarize = (case no_summarize options of None \<Rightarrow> False | Some b \<Rightarrow> b) in
      case la_operation state of
        Some operation \<Rightarrow> Inr (CommandReturn (Some (lane_busy name operation)))
      | None \<Rightarrow>
      if la_tipId state \<noteq> observedTipId then Inr (CommandReturn None)
      else if targetId = la_tipId state then Inr (CommandReturn (Some (Inl (InvalidNavigation name ''current_tip''))))
      else if targetId = None \<and> no_label options \<noteq> None
      then Inr (CommandReturn (Some (Inl (InvalidNavigation name ''root_label''))))
      else if summarize \<and> (la_tipId state = None \<or> targetId = None)
      then Inr (CommandReturn (Some (Inl (InvalidNavigation name
             (if la_tipId state = None then ''source_root'' else ''target_root'')))))
      else if (case targetId of None \<Rightarrow> False | Some t \<Rightarrow> \<not> map_has (getEntries [t] s) t)
      then Inr (CommandReturn (Some (Inl (UnknownTarget (case targetId of None \<Rightarrow> [] | Some t \<Rightarrow> t)))))
      else
        (let meta = \<lparr>me_operationId = operationId, me_lane = name, me_sourceTipId = la_tipId state,
               me_startedAt = startedAt,
               me_intent = NavigationIntent targetId summarize (no_label options) (no_customInstructions options)\<rparr> in
         ebind (navigation_leaf summarize taskId targetId options preparation) (\<lambda>(prepared, leaf).
         ebind (case prepared of
             None \<Rightarrow> Inr []
           | Some p \<Rightarrow> ebind (operationPreparation operationId taskId) (\<lambda>a. Inr [setValue a (VPreparation p)]))
           (\<lambda>preparationWrites.
         ebind (operationMeta operationId) (\<lambda>metaSlot.
         ebind (operationState operationId) (\<lambda>stateSlot.
         ebind (laneState name) (\<lambda>laneSlot.
         (let opState = \<lparr>op_scope = initial_scope config, op_leaf = leaf\<rparr> in
          Inr (CommandCommit
            (preparationWrites @
             [setValue metaSlot (VMeta meta), setValue stateSlot (VOpState opState),
              setValue laneSlot (VLaneState
                (durableLaneState (Some operationId) (la_inbox state) (la_lastOperationId state)))])
            (state\<lparr>la_operation := Some \<lparr>op_meta = meta, op_state = opState\<rparr>\<rparr>)
            (\<lambda>commit. Some (Inr \<lparr>ad_operationId = operationId, ad_opKind = NavigationKind, ad_startedAt = startedAt\<rparr>))
            (\<lambda>commit. [lane_event name (NavigationStart operationId targetId startedAt)]))))))))))"

text \<open>
  One turn of the loop of \<open>acceptNavigation\<close>: \<open>observed\<close> is the harness when the tip and the paths are
  read, outside the mutation line, and the last argument the harness when the command runs.
  \<open>Returned None\<close> is the turn that finds another tip and goes round again.
\<close>

definition acceptNavigation_turn ::
  "(entry list \<Rightarrow> structural_preparation) \<Rightarrow> jstring \<Rightarrow> jstring option \<Rightarrow> navigate_options \<Rightarrow> jstring \<Rightarrow> int \<Rightarrow>
   harness_config \<Rightarrow> jstring \<Rightarrow> int \<Rightarrow> harness \<Rightarrow> harness \<Rightarrow> operation_admission lane_result option outcome \<times> harness" where
  "acceptNavigation_turn prepareBranch name targetId options operationId startedAt config taskId now observed h =
     (let observedTipId = (case map_get (ha_lanes observed) name of
            None \<Rightarrow> None | Some l \<Rightarrow> la_tipId (ln_state l));
          summarize = (no_summarize options = Some True) in
      case (if summarize \<and> observedTipId \<noteq> None \<and> targetId \<noteq> None
            then session_read (navigation_preparation prepareBranch True observedTipId targetId) (ha_session observed)
            else Inr None) of
        Inl e \<Rightarrow> (Threw e, h)
      | Inr preparation \<Rightarrow>
          lane_command name
            (acceptNavigation_plan observedTipId preparation name operationId startedAt config targetId options taskId)
            now h)"

section \<open>Admission\<close>

text \<open>\<open>closedError instanceof HarnessClosed\<close> is an expected error; any other reason to be closed is thrown.\<close>

definition when_open :: "jstring \<Rightarrow> harness \<Rightarrow> 'a lane_result outcome \<times> harness \<Rightarrow> 'a lane_result outcome \<times> harness" where
  "when_open name h body =
     (case map_get (ha_lanes h) name of
        None \<Rightarrow> (Threw (SessionInvariant ''no such lane object''), h)
      | Some l \<Rightarrow>
          (case ln_closed l of
             Some e \<Rightarrow> (if e = HarnessWasClosed then Returned (Inl ClosedError) else Threw e, h)
           | None \<Rightarrow> body))"

fun retry_or :: "'a option outcome \<times> harness \<Rightarrow> 'a outcome \<times> harness" where
  "retry_or (Blocked, h) = (Blocked, h)"
| "retry_or (Threw e, h) = (Threw e, h)"
| "retry_or (Returned None, h) = (Blocked, h)"
| "retry_or (Returned (Some x), h) = (Returned x, h)"

text \<open>
  \<open>ids\<close> are the ids the generator hands out after the operation id: the task id of a structural operation or
  the entry ids of the prompt. A navigation whose observation is stale goes round again.
\<close>

definition accept ::
  "prepare_compaction \<Rightarrow> (entry list \<Rightarrow> structural_preparation) \<Rightarrow> jstring \<Rightarrow> operation_request \<Rightarrow> jstring \<Rightarrow> int \<Rightarrow>
   jstring list \<Rightarrow> int \<Rightarrow> harness \<Rightarrow> harness \<Rightarrow> operation_admission lane_result outcome \<times> harness" where
  "accept prepare prepareBranch name request operationId startedAt ids now observed h =
     when_open name h
       (case request of
          CompactionRequest ci \<Rightarrow>
            lane_command name
              (acceptCompaction_plan prepare name operationId startedAt (ha_config h) ci (hd ids)) now h
        | NavigationRequest targetId options \<Rightarrow>
            retry_or (acceptNavigation_turn prepareBranch name targetId
              (case options of
                 None \<Rightarrow> \<lparr>no_summarize = None, no_label = None, no_customInstructions = None\<rparr> | Some opts \<Rightarrow> opts)
              operationId startedAt (ha_config h) (hd ids) now observed h)
        | _ \<Rightarrow> acceptRun name request operationId startedAt (ha_config h) ids now h)"

end
