(* ===== verification/Boundary.thy ===== *)
theory Boundary
  imports LaneAccept
begin

text \<open>
  The run boundary of \<open>runtime/drive/boundary.ts\<close> and \<open>runtime/drive/checkpoint.ts\<close>: which queued input a
  boundary takes, how it is placed on the branch, and how a run starts, continues or finishes there;
  with the retry arithmetic of \<open>runtime/drive/retry.ts\<close> and \<open>ai/src/utils/retry.ts\<close>. A procedure whose
  hook runs between two commands is two definitions, one for each command; the result of the hook, the fresh ids
  and the clock are arguments. The typed leaves of the model have no room for the fields of the
  previous leaf that \<open>{...scope, at: "assistant.ready"}\<close> copies along.
\<close>

section \<open>Retry arithmetic\<close>

definition DEFAULT_MAX_AGENT_RETRY_DELAY_MS :: int where
  "DEFAULT_MAX_AGENT_RETRY_DELAY_MS = 60000"

text \<open>
  \<open>base * 2 ** e\<close> in double precision for a safe integer \<open>base\<close>: the power is \<open>Infinity\<close> from \<open>2 ** 1024\<close> on,
  and then the product is not a number that \<open>Number.isSafeInteger\<close> accepts (\<open>None\<close>); below, the product is exact
  whenever it is a safe integer.
\<close>

definition scaled_delay :: "int \<Rightarrow> nat \<Rightarrow> int option" where
  "scaled_delay base e = (if 1024 \<le> e then None else Some (base * 2 ^ e))"

definition safe_or_max :: "int option \<Rightarrow> int" where
  "safe_or_max d = (case d of None \<Rightarrow> MAX_SAFE_INTEGER | Some n \<Rightarrow> if is_safe_integer n then n else MAX_SAFE_INTEGER)"

definition retryDelayMs :: "int \<Rightarrow> int option \<Rightarrow> int \<Rightarrow> int" where
  "retryDelayMs baseDelayMs maxAgentDelayMs attempt =
     min (safe_or_max (scaled_delay baseDelayMs (nat (max 0 (attempt - 1)))))
       (case maxAgentDelayMs of None \<Rightarrow> DEFAULT_MAX_AGENT_RETRY_DELAY_MS | Some m \<Rightarrow> m)"

definition retryNotBefore :: "normalized_retry_policy \<Rightarrow> int \<Rightarrow> int \<Rightarrow> int" where
  "retryNotBefore policy attempt now =
     safe_or_max (Some (now + retryDelayMs (rp_baseDelayMs policy) (Some (rp_maxAgentDelayMs policy)) attempt))"

definition normalizedRetryPolicy :: "harness_config \<Rightarrow> normalized_retry_policy" where
  "normalizedRetryPolicy config =
     (let retry = cf_retryPolicy config in
      \<lparr>rp_maxAttempts = (if ry_enabled retry then ry_maxRetries retry + 1 else 1),
       rp_baseDelayMs = ry_baseDelayMs retry,
       rp_maxAgentDelayMs = (case ry_maxAgentDelayMs retry of
          None \<Rightarrow> DEFAULT_MAX_AGENT_RETRY_DELAY_MS | Some m \<Rightarrow> m)\<rparr>)"

section \<open>The input of a boundary\<close>

record boundary_placement =
  bp_entries :: "new_entry list"
  bp_writes :: "storage_write list"
  bp_tipId :: "jstring option"
  bp_inbox :: "inbox_item list"
  bp_triggerEntryId :: "jstring option"
  bp_queues :: "lane_queued_item list option"

definition assistantReadyAtBoundary ::
  "harness_config \<Rightarrow> jstring \<Rightarrow> lane_state \<Rightarrow> operation_scope \<Rightarrow> jstring \<Rightarrow> bool \<Rightarrow> operation_state" where
  "assistantReadyAtBoundary config stepId state scope triggerEntryId overflowRecoveryUsed =
     \<lparr>op_scope = scope,
      op_leaf = AssistantReady
        \<lparr>gc_stepId = stepId, gc_triggerEntryId = triggerEntryId, gc_configuration = la_configuration state,
         gc_streamOptions = cf_streamOptions config, gc_retryPolicy = normalizedRetryPolicy config,
         gc_overflowRecoveryUsed = overflowRecoveryUsed\<rparr> 1\<rparr>"

fun projects :: "entry_projectors \<Rightarrow> pending_entry \<Rightarrow> bool" where
  "projects projectors (PendingMessage m) \<longleftrightarrow> True"
| "projects projectors (PendingCustom c d) \<longleftrightarrow> projectors c \<noteq> None"

definition load_item :: "storage_state \<Rightarrow> inbox_item \<Rightarrow> js_error + (inbox_item \<times> pending_entry)" where
  "load_item s item =
     ebind (read_pending s (ii_entryId item)) (\<lambda>stored. case stored of
       None \<Rightarrow> Inl (SessionInvariant ''Pending entry is missing its payload'')
     | Some (PendingCustom c d) \<Rightarrow>
         if ii_kind item \<noteq> WriteItem then Inl (SessionInvariant ''Queued entry is not a message'')
         else Inr (item, PendingCustom c d)
     | Some (PendingMessage m) \<Rightarrow> Inr (item, PendingMessage m))"

definition load_items :: "storage_state \<Rightarrow> inbox_item list \<Rightarrow> js_error + (inbox_item \<times> pending_entry) list" where
  "load_items s items = esequence (map (load_item s) items)"

text \<open>The inbox items are objects, so each is taken together with its index.\<close>

definition limited :: "queue_mode \<Rightarrow> 'a list \<Rightarrow> 'a list" where
  "limited mode xs = (if mode = AllItems then xs else take 1 xs)"

definition boundary_selection :: "queue_mode \<Rightarrow> inbox_item list \<Rightarrow> (nat \<times> inbox_item) list" where
  "boundary_selection steeringMode inbox =
     (let selectedSteer = limited steeringMode (filter (\<lambda>item. ii_kind item = Steer) inbox) in
      filter (\<lambda>(k, item). ii_kind item = WriteItem \<or> ii_entryId item \<in> set (map ii_entryId selectedSteer))
        (zip [0..<length inbox] inbox))"

definition with_follow_up :: "queue_mode \<Rightarrow> inbox_item list \<Rightarrow> (nat \<times> inbox_item) list \<Rightarrow> (nat \<times> inbox_item) list" where
  "with_follow_up followUpMode inbox selected =
     (let followUp = limited followUpMode (filter (\<lambda>(k, item). ii_kind item = FollowUp) (zip [0..<length inbox] inbox)) in
      js_sort (\<lambda>a b. int (fst a) - int (fst b)) (selected @ followUp))"

definition placed_entries :: "jstring option \<Rightarrow> (inbox_item \<times> pending_entry) list \<Rightarrow> new_entry list" where
  "placed_entries tipId pending = chainEntries tipId (map (\<lambda>(item, p). pendingEntryWrite (ii_entryId item) p) pending)"

definition placed_tip :: "jstring option \<Rightarrow> (inbox_item \<times> pending_entry) list \<Rightarrow> jstring option" where
  "placed_tip tipId pending = foldl (\<lambda>t (item, p). Some (ii_entryId item)) tipId pending"

definition placed_trigger :: "entry_projectors \<Rightarrow> (inbox_item \<times> pending_entry) list \<Rightarrow> jstring option" where
  "placed_trigger projectors pending =
     foldl (\<lambda>t (item, p). if projects projectors p then Some (ii_entryId item) else t) None pending"

definition planBoundaryInbox ::
  "jstring \<Rightarrow> entry_projectors \<Rightarrow> lane_state \<Rightarrow> operation_scope \<Rightarrow> storage_state \<Rightarrow> jstring option \<Rightarrow> bool \<Rightarrow>
   js_error + boundary_placement" where
  "planBoundaryInbox name projectors state scope s tipId followUpWhenNoTrigger =
     (let inbox = la_inbox state;
          first = boundary_selection (rs_steeringMode (os_settings scope)) inbox in
      ebind (load_items s (map snd first)) (\<lambda>firstPending.
      let selected = (if followUpWhenNoTrigger \<and> \<not> list_ex (\<lambda>(item, p). projects projectors p) firstPending
                      then with_follow_up (rs_followUpMode (os_settings scope)) inbox first else first) in
      ebind (load_items s (map snd selected)) (\<lambda>pending.
      let entries = placed_entries tipId pending;
          rest = withoutInboxItems inbox (map snd selected) in
      ebind (if selected = [] then Inr None else ebind (readLaneQueues s rest) (\<lambda>q. Inr (Some q))) (\<lambda>queues.
      ebind (esequence (map (\<lambda>x. pendingEntry (ii_entryId (snd x))) selected)) (\<lambda>slots.
      ebind (if entries = [] then Inr []
             else ebind (branchTip name) (\<lambda>a. Inr [setValue a (VTip (placed_tip tipId pending))])) (\<lambda>tipWrites.
      Inr \<lparr>bp_entries = entries,
        bp_writes = map insertEntry entries @ map deleteValue slots @ tipWrites,
        bp_tipId = placed_tip tipId pending,
        bp_inbox = rest,
        bp_triggerEntryId = placed_trigger projectors pending,
        bp_queues = queues\<rparr>))))))"

definition boundaryPlacementEvents ::
  "boundary_placement \<Rightarrow> commit_result \<Rightarrow> nat \<Rightarrow> jstring \<Rightarrow> jstring \<Rightarrow> harness_event list" where
  "boundaryPlacementEvents placement commit firstWriteIndex lane runId =
     committedEntryEvents (bp_entries placement) commit lane (Some runId) firstWriteIndex @
     (case bp_queues placement of None \<Rightarrow> [] | Some q \<Rightarrow> [lane_event lane (QueueUpdate q)])"

text \<open>The patch every placement publishes, and the commit that renews the run.\<close>

definition placement_patch :: "jstring option \<Rightarrow> boundary_placement \<Rightarrow> lane_patch" where
  "placement_patch tipId placement = \<lparr>lp_tipId = Some tipId, lp_configuration = None, lp_inbox = Some (bp_inbox placement)\<rparr>"

definition renew_run ::
  "harness_config \<Rightarrow> jstring \<Rightarrow> jstring \<Rightarrow> jstring \<Rightarrow> lane_state \<Rightarrow> operation_state \<Rightarrow> boundary_placement \<Rightarrow> jstring \<Rightarrow>
   bool \<Rightarrow> harness_event list \<Rightarrow> procedure_result operation_command" where
  "renew_run config stepId name runId state current placement triggerEntryId overflowUsed pendingEvents =
     OperationCommit (bp_writes placement)
       (assistantReadyAtBoundary config stepId state (op_scope current) triggerEntryId overflowUsed)
       (placement_patch (bp_tipId placement) placement) (\<lambda>c. ProcContinue)
       (\<lambda>c. pendingEvents @ boundaryPlacementEvents placement c 0 name runId)"

section \<open>Finishing a run\<close>

text \<open>The command before the \<open>before_run_end\<close> hook: it reads the context of the run.\<close>

definition finish_context_plan :: "entry_projectors \<Rightarrow> agent_message list operation_plan" where
  "finish_context_plan projectors state current meta s =
     (case readBoundedContext projectors state s of
        None \<Rightarrow> Inl CorruptBranch
      | Some r \<Rightarrow> ebind r (\<lambda>ms. Inr (OperationReturn ms)))"

text \<open>The command after the hook; \<open>followUp\<close> is the id and the message made of its answer.\<close>

definition finish_boundary_plan ::
  "harness_config \<Rightarrow> jstring \<Rightarrow> jstring \<Rightarrow> jstring \<Rightarrow> bool \<Rightarrow> jstring list \<Rightarrow> (jstring \<times> agent_message) option \<Rightarrow>
   harness_event list \<Rightarrow> int \<Rightarrow> procedure_result operation_plan" where
  "finish_boundary_plan config name runId stepId includeFinalAssistant plannedEntryIds followUp pendingEvents now
     state current meta s =
     ebind (planBoundaryInbox name (cf_entryProjectors config) state (op_scope current) s (la_tipId state) True) (\<lambda>placement.
     case bp_triggerEntryId placement of
       Some trigger \<Rightarrow> Inr (renew_run config stepId name runId state current placement trigger False pendingEvents)
     | None \<Rightarrow>
         if map ne_id (bp_entries placement) = plannedEntryIds \<and> followUp \<noteq> None then
           (let (followUpId, message) = the followUp;
                entry = \<lparr>ne_id = followUpId, ne_parentId = bp_tipId placement, ne_body = MessageBody message False\<rparr>;
                entryWriteIndex = length (bp_writes placement) in
            ebind (branchTip name) (\<lambda>tipSlot.
            Inr (OperationCommit
              (bp_writes placement @ [insertEntry entry, setValue tipSlot (VTip (Some followUpId))])
              (assistantReadyAtBoundary config stepId state (op_scope current) followUpId False)
              (placement_patch (Some followUpId) placement) (\<lambda>c. ProcContinue)
              (\<lambda>c. pendingEvents @ boundaryPlacementEvents placement c 0 name runId @
                 entryLifecycleEvents
                   (materializeCommittedEntry entry (cr_seqs c ! entryWriteIndex) (cr_timestamp c)) name (Some runId)))))
         else
           (case bp_tipId placement of
              None \<Rightarrow> Inl (SessionInvariant ''Completed run has no tip'')
            | Some tip \<Rightarrow>
                if includeFinalAssistant \<and> os_latestAssistantEntryId (op_scope current) = None
                then Inl (SessionInvariant ''Completed run is missing its final assistant'')
                else
                  ebind (operationResultRecord meta Completed (Some tip) None now) (\<lambda>result.
                  ebind (operationCleanupWrites s runId current) (\<lambda>cleanup.
                  Inr (OperationFinish (bp_writes placement @ cleanup) result (placement_patch (Some tip) placement)
                    (\<lambda>c. ProcSettled result)
                    (\<lambda>c. pendingEvents @ boundaryPlacementEvents placement c 0 name runId @
                       [lane_event name (RunEnd runId (me_sourceTipId meta) (Some tip) (or_endedAt result) Completed None)]))))))"

section \<open>Starting a run and passing a checkpoint\<close>

definition start_prompt_plan :: "agent_message list operation_plan" where
  "start_prompt_plan state current meta s =
     (case me_intent meta of
        RunIntent promptEntryIds \<Rightarrow>
          ebind (esequence (map (\<lambda>i. case map_get (getEntries promptEntryIds s) i of
              Some e \<Rightarrow> (case en_body e of MessageBody m t \<Rightarrow> Inr m
                | _ \<Rightarrow> Inl (SessionInvariant ''Run prompt entry is missing its message''))
            | None \<Rightarrow> Inl (SessionInvariant ''Run prompt entry is missing its message'')) promptEntryIds))
            (\<lambda>ms. Inr (OperationReturn ms))
      | _ \<Rightarrow> Inl (SessionInvariant ''Run operation has non-run intent''))"

text \<open>The messages the \<open>before_run\<close> hook injects, with their reserved ids.\<close>

definition injected_messages :: "(jstring \<times> agent_message) list \<Rightarrow> js_error + (jstring \<times> agent_message) list" where
  "injected_messages reserved =
     ebind (check (\<not> list_ex (\<lambda>(i, m). is_pending_assistant m) reserved)
       (SessionInvariant ''before_run returned a pending assistant message'')) (\<lambda>u. Inr reserved)"

definition start_run_plan ::
  "jstring \<Rightarrow> jstring \<Rightarrow> (jstring \<times> agent_message) list \<Rightarrow> procedure_result operation_plan" where
  "start_run_plan name runId reserved state current meta s =
     (let entries = chainEntries (la_tipId state)
            (map (\<lambda>(i, m). \<lparr>ne_id = i, ne_parentId = None, ne_body = MessageBody m False\<rparr>) reserved) in
      case (if entries = [] then la_tipId state else Some (ne_id (last entries))) of
        None \<Rightarrow> Inl (SessionInvariant ''Run start has no trigger entry'')
      | Some triggerEntryId \<Rightarrow>
          ebind (if entries = [] then Inr []
                 else ebind (branchTip name) (\<lambda>a. Inr [setValue a (VTip (Some triggerEntryId))])) (\<lambda>tipWrites.
          Inr (OperationCommit (map insertEntry entries @ tipWrites)
            \<lparr>op_scope = operationScopeOf current,
             op_leaf = Checkpoint \<lparr>ck_continuation = NeedAssistant False, ck_triggerEntryId = triggerEntryId\<rparr>\<rparr>
            \<lparr>lp_tipId = Some (Some triggerEntryId), lp_configuration = None, lp_inbox = None\<rparr>
            (\<lambda>c. ProcContinue)
            (\<lambda>c. committedEntryEvents entries c name (Some runId) 0))))"

datatype checkpoint_result = CheckpointDone procedure_result | FinishPending "jstring list"

text \<open>\<open>threshold\<close> is the task id and the preparation that \<open>prepareCompactionThreshold\<close> found, if any.\<close>

definition checkpoint_decision ::
  "harness_config \<Rightarrow> jstring \<Rightarrow> jstring \<Rightarrow> jstring \<Rightarrow> (jstring \<times> structural_preparation) option \<Rightarrow>
   lane_state \<Rightarrow> operation_state \<Rightarrow> checkpoint_data \<Rightarrow> boundary_placement \<Rightarrow> js_error + checkpoint_result operation_command" where
  "checkpoint_decision config name runId stepId threshold state current ck placement =
     (let renew = (\<lambda>trigger used. map_operation_command CheckpointDone
            (renew_run config stepId name runId state current placement trigger used [])) in
      case bp_triggerEntryId placement of
        Some trigger \<Rightarrow> Inr (renew trigger False)
      | None \<Rightarrow>
          (case threshold of
             Some (taskId, preparation) \<Rightarrow>
               ebind (operationPreparation runId taskId) (\<lambda>slot.
               Inr (OperationCommit (bp_writes placement @ [setValue slot (VPreparation preparation)])
                 \<lparr>op_scope = operationScopeOf current,
                  op_leaf = SummaryDeciding \<lparr>st_taskId = taskId, st_reason = Some ThresholdReason,
                    st_customInstructions = None, st_boundary = ResumeCheckpoint ck\<rparr>\<rparr>
                 (placement_patch (bp_tipId placement) placement) (\<lambda>c. CheckpointDone ProcContinue)
                 (\<lambda>c. boundaryPlacementEvents placement c 0 name runId @
                    [lane_event name (CompactionStart runId ThresholdReason (cr_timestamp c))])))
           | None \<Rightarrow>
               (case ck_continuation ck of
                  NeedAssistant used \<Rightarrow> Inr (renew (ck_triggerEntryId ck) used)
                | MayFinish f \<Rightarrow> Inr (OperationReturn (FinishPending (map ne_id (bp_entries placement)))))))"

definition checkpoint_plan ::
  "harness_config \<Rightarrow> jstring \<Rightarrow> jstring \<Rightarrow> jstring \<Rightarrow> (jstring \<times> structural_preparation) option \<Rightarrow>
   checkpoint_result operation_plan" where
  "checkpoint_plan config name runId stepId threshold state current meta s =
     (case op_leaf current of
        Checkpoint ck \<Rightarrow>
          ebind (planBoundaryInbox name (cf_entryProjectors config) state (op_scope current) s (la_tipId state)
              (threshold = None \<and> (case ck_continuation ck of MayFinish f \<Rightarrow> True | NeedAssistant u \<Rightarrow> False)))
            (checkpoint_decision config name runId stepId threshold state current ck)
      | _ \<Rightarrow> Inl (SessionInvariant ''the operation is not at a checkpoint''))"

section \<open>The procedures over the harness\<close>

definition continue_or :: "'r \<Rightarrow> 'r continue_result outcome \<times> harness \<Rightarrow> 'r outcome \<times> harness" where
  "continue_or r run =
     (case run of
        (Blocked, h) \<Rightarrow> (Blocked, h)
      | (Threw e, h) \<Rightarrow> (Threw e, h)
      | (Returned CancelRequestedResult, h) \<Rightarrow> (Returned r, h)
      | (Returned (ContinueResult x), h) \<Rightarrow> (Returned x, h))"

definition finishRunBoundary_context ::
  "jstring \<Rightarrow> int \<Rightarrow> harness \<Rightarrow> agent_message list continue_result outcome \<times> harness" where
  "finishRunBoundary_context name now h =
     continueOperation name (finish_context_plan (cf_entryProjectors (ha_config h))) now h"

definition finishRunBoundary_commit ::
  "jstring \<Rightarrow> jstring \<Rightarrow> jstring \<Rightarrow> bool \<Rightarrow> jstring list \<Rightarrow> (jstring \<times> agent_message) option \<Rightarrow> harness_event list \<Rightarrow> int \<Rightarrow>
   harness \<Rightarrow> procedure_result outcome \<times> harness" where
  "finishRunBoundary_commit name runId stepId includeFinalAssistant plannedEntryIds followUp pendingEvents now h =
     continue_or ProcContinue (continueOperation name
       (finish_boundary_plan (ha_config h) name runId stepId includeFinalAssistant plannedEntryIds followUp pendingEvents now)
       now h)"

definition startRun_prompt :: "jstring \<Rightarrow> int \<Rightarrow> harness \<Rightarrow> agent_message list continue_result outcome \<times> harness" where
  "startRun_prompt name = continueOperation name start_prompt_plan"

definition startRun_commit ::
  "jstring \<Rightarrow> jstring \<Rightarrow> (jstring \<times> agent_message) list \<Rightarrow> int \<Rightarrow> harness \<Rightarrow> procedure_result outcome \<times> harness" where
  "startRun_commit name runId injected now h =
     (case injected_messages injected of
        Inl e \<Rightarrow> (Threw e, h)
      | Inr reserved \<Rightarrow> continue_or ProcContinue (continueOperation name (start_run_plan name runId reserved) now h))"

definition runCheckpoint_plan ::
  "jstring \<Rightarrow> jstring \<Rightarrow> jstring \<Rightarrow> (jstring \<times> structural_preparation) option \<Rightarrow> int \<Rightarrow> harness \<Rightarrow>
   checkpoint_result outcome \<times> harness" where
  "runCheckpoint_plan name runId stepId threshold now h =
     continue_or (CheckpointDone ProcContinue)
       (continueOperation name (checkpoint_plan (ha_config h) name runId stepId threshold) now h)"

end
