(* ===== verification/LaneQueue.thy ===== *)
theory LaneQueue
  imports LaneAccept
begin

text \<open>
  The other commands of \<open>runtime/lane.ts\<close>: queueing and cancelling input, appending to the branch,
  requesting cancellation, recording usage, changing the configuration, and the process-local claims
  of a drive pass and of an idle callback.
\<close>

section \<open>Queues\<close>

fun is_user_message :: "agent_message \<Rightarrow> bool" where
  "is_user_message (UserMsg m) = True"
| "is_user_message _ = False"

fun add_images :: "image_content list \<Rightarrow> agent_message \<Rightarrow> agent_message" where
  "add_images images (UserMsg m) = UserMsg (m\<lparr>um_content := BlockContent
     ((case um_content m of
         PlainContent t \<Rightarrow> if t = [] then [] else [text_block t]
       | BlockContent bs \<Rightarrow> bs) @ map UImage images)\<rparr>)"
| "add_images images m = m"

datatype queue_input = QueueText jstring | QueueMessage agent_message

text \<open>The message \<open>enqueue\<close> stores, or the reason it refuses the input.\<close>

definition queue_message ::
  "jstring \<Rightarrow> queue_input \<Rightarrow> image_content list option \<Rightarrow> int \<Rightarrow> agent_message lane_result" where
  "queue_message name input images timestamp =
     (let imgs = (case images of None \<Rightarrow> [] | Some xs \<Rightarrow> xs) in
      case input of
        QueueText t \<Rightarrow>
          if t = [] \<and> imgs = [] then Inl (InvalidMessage name ''empty'')
          else Inr (user_text ((if t = [] then [] else [text_block t]) @ map UImage imgs) timestamp)
      | QueueMessage m \<Rightarrow>
          if is_pending_assistant m then Inl (InvalidMessage name ''pending_assistant'')
          else if imgs \<noteq> [] \<and> \<not> is_user_message m then Inl (InvalidMessage name ''images_with_non_user'')
          else Inr (if imgs = [] then m else add_images imgs m))"

definition current_operation_id :: "lane_state \<Rightarrow> jstring option" where
  "current_operation_id state = map_option (\<lambda>op. me_operationId (op_meta op)) (la_operation state)"

definition lane_slot_write :: "jstring \<Rightarrow> lane_state \<Rightarrow> inbox_item list \<Rightarrow> js_error + storage_write" where
  "lane_slot_write name state inbox =
     ebind (laneState name) (\<lambda>a. Inr (setValue a (VLaneState
       (durableLaneState (current_operation_id state) inbox (la_lastOperationId state)))))"

definition enqueue_plan ::
  "jstring \<Rightarrow> inbox_item_kind \<Rightarrow> agent_message \<Rightarrow> jstring \<Rightarrow> lane_state \<Rightarrow> storage_state \<Rightarrow>
   js_error + jstring lane_result lane_decision" where
  "enqueue_plan name kind message entryId state s =
     (let inbox = la_inbox state @ [\<lparr>ii_entryId = entryId, ii_kind = kind\<rparr>] in
      ebind (readLaneQueues s (la_inbox state)) (\<lambda>queues.
      ebind (pendingEntry entryId) (\<lambda>slot.
      ebind (lane_slot_write name state inbox) (\<lambda>laneWrite.
      Inr (CommandCommit [setValue slot (VPending (PendingMessage message)), laneWrite]
        (state\<lparr>la_inbox := inbox\<rparr>)
        (\<lambda>commit. Inr entryId)
        (\<lambda>commit. [lane_event name (QueueUpdate (queues @ [QueuedMessage entryId kind message]))]))))))"

definition enqueue ::
  "jstring \<Rightarrow> inbox_item_kind \<Rightarrow> queue_input \<Rightarrow> image_content list option \<Rightarrow> int \<Rightarrow> jstring \<Rightarrow> int \<Rightarrow> harness \<Rightarrow>
   jstring lane_result outcome \<times> harness" where
  "enqueue name kind input images timestamp entryId now h =
     when_open name h
       (case queue_message name input images timestamp of
          Inl e \<Rightarrow> (Returned (Inl e), h)
        | Inr message \<Rightarrow> lane_command name (enqueue_plan name kind message entryId) now h)"

definition steer where "steer name = enqueue name Steer"
definition followUp where "followUp name = enqueue name FollowUp"
definition nextRun where "nextRun name = enqueue name NextRun"

definition cancelQueued_plan ::
  "jstring \<Rightarrow> jstring \<Rightarrow> lane_state \<Rightarrow> storage_state \<Rightarrow> js_error + cancel_outcome lane_result lane_decision" where
  "cancelQueued_plan name entryId state s =
     (case List.find (\<lambda>item. ii_entryId item = entryId) (la_inbox state) of
        None \<Rightarrow> Inr (CommandReturn (Inr
          (if map_has (getEntries [entryId] s) entryId then AlreadyConsumed else NotFound)))
      | Some queued \<Rightarrow>
          ebind (pendingEntry entryId) (\<lambda>slot.
          if getValue slot s = None then Inl (SessionInvariant ''Queued entry is missing its payload'')
          else
            (let inbox = filter (\<lambda>item. ii_entryId item \<noteq> entryId) (la_inbox state) in
             ebind (readLaneQueues s inbox) (\<lambda>queues.
             ebind (lane_slot_write name state inbox) (\<lambda>laneWrite.
             Inr (CommandCommit [deleteValue slot, laneWrite]
               (state\<lparr>la_inbox := inbox\<rparr>)
               (\<lambda>commit. Inr Cancelled)
               (\<lambda>commit. [lane_event name (QueueUpdate queues)])))))))"

definition cancelQueued ::
  "jstring \<Rightarrow> jstring \<Rightarrow> int \<Rightarrow> harness \<Rightarrow> cancel_outcome lane_result outcome \<times> harness" where
  "cancelQueued name entryId now h =
     when_open name h (lane_command name (cancelQueued_plan name entryId) now h)"

section \<open>Appending\<close>

fun queued_of_pending :: "jstring \<Rightarrow> pending_entry \<Rightarrow> lane_queued_item" where
  "queued_of_pending i (PendingMessage m) = QueuedMessage i WriteItem m"
| "queued_of_pending i (PendingCustom c d) = QueuedCustom i c d"

definition captured_write :: "storage_state \<Rightarrow> inbox_item \<Rightarrow> js_error + new_entry" where
  "captured_write s item =
     ebind (read_pending s (ii_entryId item)) (\<lambda>stored. case stored of
       None \<Rightarrow> Inl (SessionInvariant ''Pending write is missing its payload'')
     | Some p \<Rightarrow> Inr (pendingEntryWrite (ii_entryId item) p))"

definition append_idle ::
  "jstring \<Rightarrow> pending_entry \<Rightarrow> jstring \<Rightarrow> lane_state \<Rightarrow> storage_state \<Rightarrow> js_error + jstring lane_decision" where
  "append_idle name pending newId state s =
     (let queued = inboxItems (la_inbox state) WriteItem;
          inbox = withoutInboxItems (la_inbox state) queued in
      ebind (esequence (map (captured_write s) queued)) (\<lambda>captured.
      ebind (if queued = [] then Inr None else ebind (readLaneQueues s inbox) (\<lambda>q. Inr (Some q))) (\<lambda>queues.
      (let entries = chainEntries (la_tipId state) (captured @ [pendingEntryWrite newId pending]) in
       ebind (esequence (map (\<lambda>item. pendingEntry (ii_entryId item)) queued)) (\<lambda>pendingSlots.
       ebind (branchTip name) (\<lambda>tipSlot.
       ebind (laneState name) (\<lambda>laneSlot.
       Inr (CommandCommit
         (map insertEntry entries @ map deleteValue pendingSlots @
          [setValue tipSlot (VTip (Some newId)),
           setValue laneSlot (VLaneState (durableLaneState None inbox (la_lastOperationId state)))])
         (state\<lparr>la_tipId := Some newId, la_inbox := inbox\<rparr>)
         (\<lambda>commit. newId)
         (\<lambda>commit. committedEntryEvents entries commit name None 0 @
            (case queues of None \<Rightarrow> [] | Some q \<Rightarrow> [lane_event name (QueueUpdate q)]))))))))))"

definition append_queued ::
  "jstring \<Rightarrow> pending_entry \<Rightarrow> jstring \<Rightarrow> lane_state \<Rightarrow> storage_state \<Rightarrow> js_error + jstring lane_decision" where
  "append_queued name pending newId state s =
     (let inbox = la_inbox state @ [\<lparr>ii_entryId = newId, ii_kind = WriteItem\<rparr>] in
      ebind (readLaneQueues s (la_inbox state)) (\<lambda>queues.
      ebind (pendingEntry newId) (\<lambda>slot.
      ebind (lane_slot_write name state inbox) (\<lambda>laneWrite.
      Inr (CommandCommit [setValue slot (VPending pending), laneWrite]
        (state\<lparr>la_inbox := inbox\<rparr>)
        (\<lambda>commit. newId)
        (\<lambda>commit. [lane_event name (QueueUpdate (queues @ [queued_of_pending newId pending]))]))))))"

definition append_plan ::
  "jstring \<Rightarrow> pending_entry \<Rightarrow> jstring \<Rightarrow> lane_state \<Rightarrow> storage_state \<Rightarrow> js_error + jstring lane_decision" where
  "append_plan name pending newId state s =
     (if la_operation state = None then append_idle name pending newId state s
      else append_queued name pending newId state s)"

fun pending_is_streaming :: "pending_entry \<Rightarrow> bool" where
  "pending_is_streaming (PendingMessage m) = is_pending_assistant m"
| "pending_is_streaming (PendingCustom c d) = False"

definition lane_append :: "jstring \<Rightarrow> pending_entry \<Rightarrow> jstring \<Rightarrow> int \<Rightarrow> harness \<Rightarrow> jstring outcome \<times> harness" where
  "lane_append name pending newId now h =
     (case map_get (ha_lanes h) name of
        None \<Rightarrow> (Threw (SessionInvariant ''no such lane object''), h)
      | Some l \<Rightarrow>
          (case ln_closed l of
             Some e \<Rightarrow> (Threw e, h)
           | None \<Rightarrow>
               if pending_is_streaming pending then (Threw PendingAssistantMessage, h)
               else lane_command name (append_plan name pending newId) now h))"

section \<open>Cancellation\<close>

definition lane_mismatch :: "jstring \<Rightarrow> jstring \<Rightarrow> lane_state \<Rightarrow> lane_error" where
  "lane_mismatch name expected state =
     OperationMismatch name expected (current_operation_id state) (la_lastOperationId state)"

definition removed_message :: "storage_state \<Rightarrow> inbox_item \<Rightarrow> js_error + (inbox_item \<times> agent_message)" where
  "removed_message s item =
     ebind (read_pending s (ii_entryId item)) (\<lambda>stored. case stored of
       Some (PendingMessage m) \<Rightarrow> Inr (item, m)
     | _ \<Rightarrow> Inl (SessionInvariant ''Pending entry is missing its message''))"

definition payloads_of :: "inbox_item_kind \<Rightarrow> (inbox_item \<times> agent_message) list \<Rightarrow> agent_message list" where
  "payloads_of kind payloads = map snd (filter (\<lambda>(item, m). ii_kind item = kind) payloads)"

definition requestAbort_plan ::
  "jstring \<Rightarrow> jstring \<Rightarrow> int \<Rightarrow> lane_state \<Rightarrow> storage_state \<Rightarrow> js_error + abort_request lane_result lane_decision" where
  "requestAbort_plan name operationId requestedAt state s =
     (if current_operation_id state \<noteq> Some operationId
      then Inr (CommandReturn (Inl (lane_mismatch name operationId state)))
      else (case la_operation state of
        None \<Rightarrow> Inr (CommandReturn (Inl (lane_mismatch name operationId state)))
      | Some operation \<Rightarrow>
        (case os_control (op_scope (op_state operation)) of
          CancelRequested t \<Rightarrow> Inr (CommandReturn (Inr
            \<lparr>ab_operationId = operationId, ab_newlyRequested = False, ab_steer = [], ab_followUp = []\<rparr>))
        | Running \<Rightarrow>
            (let removed = filter (\<lambda>item. ii_kind item = Steer \<or> ii_kind item = FollowUp) (la_inbox state);
                 inbox = withoutInboxItems (la_inbox state) removed;
                 opState = (op_state operation)\<lparr>op_scope :=
                   (op_scope (op_state operation))\<lparr>os_control := CancelRequested requestedAt\<rparr>\<rparr> in
             ebind (esequence (map (removed_message s) removed)) (\<lambda>payloads.
             ebind (readLaneQueues s inbox) (\<lambda>queues.
             ebind (esequence (map (\<lambda>item. pendingEntry (ii_entryId item)) removed)) (\<lambda>slots.
             ebind (operationState operationId) (\<lambda>stateSlot.
             ebind (lane_slot_write name state inbox) (\<lambda>laneWrite.
             Inr (CommandCommit
               (map deleteValue slots @ [setValue stateSlot (VOpState opState), laneWrite])
               (state\<lparr>la_inbox := inbox, la_operation := Some (operation\<lparr>op_state := opState\<rparr>)\<rparr>)
               (\<lambda>commit. Inr \<lparr>ab_operationId = operationId, ab_newlyRequested = True,
                  ab_steer = payloads_of Steer payloads, ab_followUp = payloads_of FollowUp payloads\<rparr>)
               (\<lambda>commit. lane_event name (OperationAbort operationId (payloads_of Steer payloads)
                    (payloads_of FollowUp payloads)) #
                  (if removed = [] then [] else [lane_event name (QueueUpdate queues)])))))))))))) "

definition requestOperationAbort ::
  "jstring \<Rightarrow> jstring \<Rightarrow> int \<Rightarrow> int \<Rightarrow> harness \<Rightarrow> abort_request lane_result outcome \<times> harness" where
  "requestOperationAbort name operationId requestedAt now h =
     when_open name h (lane_command name (requestAbort_plan name operationId requestedAt) now h)"

section \<open>Usage and configuration\<close>

definition recordUsage_plan ::
  "jstring \<Rightarrow> usage \<Rightarrow> jstring option \<Rightarrow> json option \<Rightarrow> jstring \<Rightarrow> lane_state \<Rightarrow> storage_state \<Rightarrow>
   js_error + jstring lane_result lane_decision" where
  "recordUsage_plan name u entryId details usageId state s =
     (let row = \<lparr>nu_id = usageId, nu_usage = u, nu_entryId = entryId, nu_adjustment = True, nu_details = details\<rparr> in
      Inr (CommandCommit [insertUsage row] state (\<lambda>commit. Inr usageId)
        (\<lambda>commit. [lane_event name (UsageEvent (materializeUsageRow row (cr_seqs commit ! 0))
           (ss_usage (cr_stats commit)))])))"

definition recordUsage ::
  "jstring \<Rightarrow> usage \<Rightarrow> jstring option \<Rightarrow> json option \<Rightarrow> jstring \<Rightarrow> int \<Rightarrow> harness \<Rightarrow> jstring lane_result outcome \<times> harness" where
  "recordUsage name u entryId details usageId now h =
     when_open name h (lane_command name (recordUsage_plan name u entryId details usageId) now h)"

definition setConfiguration_plan ::
  "jstring \<Rightarrow> (lane_configuration \<Rightarrow> lane_configuration) \<Rightarrow>
   (lane_configuration \<Rightarrow> lane_configuration \<Rightarrow> config_property) \<Rightarrow> lane_state \<Rightarrow> storage_state \<Rightarrow>
   js_error + unit lane_decision" where
  "setConfiguration_plan name update event state s =
     (let configuration = update (la_configuration state) in
      ebind (laneConfig name) (\<lambda>slot.
      Inr (CommandCommit [setValue slot (VConfig configuration)]
        (state\<lparr>la_configuration := configuration\<rparr>)
        (\<lambda>commit. ())
        (\<lambda>commit. [lane_event name (ConfigUpdate (event (la_configuration state) configuration))]))))"

definition setModel :: "jstring \<Rightarrow> model_identity \<Rightarrow> int \<Rightarrow> harness \<Rightarrow> unit outcome \<times> harness" where
  "setModel name m = lane_command name (setConfiguration_plan name
     (\<lambda>c. c\<lparr>lc_model := m\<rparr>) (\<lambda>previous new. ModelProperty (lc_model new) (lc_model previous)))"

definition setThinkingLevel :: "jstring \<Rightarrow> thinking_level \<Rightarrow> int \<Rightarrow> harness \<Rightarrow> unit outcome \<times> harness" where
  "setThinkingLevel name level = lane_command name (setConfiguration_plan name
     (\<lambda>c. c\<lparr>lc_thinkingLevel := level\<rparr>)
     (\<lambda>previous new. ThinkingLevelProperty (lc_thinkingLevel new) (lc_thinkingLevel previous)))"

definition setActiveTools :: "jstring \<Rightarrow> jstring list \<Rightarrow> int \<Rightarrow> harness \<Rightarrow> unit outcome \<times> harness" where
  "setActiveTools name names = lane_command name (setConfiguration_plan name
     (\<lambda>c. c\<lparr>lc_activeToolNames := names\<rparr>)
     (\<lambda>previous new. ActiveToolsProperty (lc_activeToolNames new) (lc_activeToolNames previous)))"

end
