(* ===== verification/LaneFacts.thy ===== *)
theory LaneFacts
  imports LaneQueue StorageProps SessionProps
begin

text \<open>
  Why the live state of a lane is always the one a restart would restore. \<open>lane_image\<close> says which slots
  hold a lane state; the locales \<open>guarded_plan\<close> and \<open>durable_plan\<close> are the contract between the planners of the runtime and
  the command that runs them: the writes of a commit stay in the lane's own slots and turn them into
  the image of the next state. Inside it, one lemma shows that a command keeps the invariant of the
  whole harness; each planner is an interpretation.
\<close>

section \<open>The slots of a lane\<close>

definition lane_image :: "(jstring \<times> jstring \<Rightarrow> stored option) \<Rightarrow> jstring \<Rightarrow> lane_state \<Rightarrow> bool" where
  "lane_image V name state \<longleftrightarrow>
     \<not> has_nul name \<and>
     V (ns_branch_tip, name) = Some (VTip (la_tipId state)) \<and>
     V (ns_lane_config, name) = Some (VConfig (la_configuration state)) \<and>
     V (ns_lane_state, name) = Some (VLaneState
       (durableLaneState (current_operation_id state) (la_inbox state) (la_lastOperationId state))) \<and>
     (case la_operation state of
        None \<Rightarrow> True
      | Some operation \<Rightarrow>
          (let i = me_operationId (op_meta operation) in
           \<not> has_nul i \<and> V (ns_op_meta, i) = Some (VMeta (op_meta operation)) \<and>
           V (ns_op_state, i) = Some (VOpState (op_state operation)) \<and>
           me_lane (op_meta operation) = name \<and>
           stateMatchesIntent (me_intent (op_meta operation)) (op_state operation)))"

lemma getValue_value_at:
  "\<not> has_nul ns \<Longrightarrow> map_option sv_value (getValue \<lparr>ad_namespace = ns, ad_key = k, ad_kind = ValueKind\<rparr> s) = value_at s (ns, k)"
  by (simp add: getValue_def value_at_def)

lemma read_slot_mkValue:
  assumes "ns \<noteq> []" "\<not> has_nul ns"
  shows "read_slot (mkValue ns k) typed s =
    (if has_nul k then Inl NulInKey
     else case value_at s (ns, k) of None \<Rightarrow> Inr None | Some v \<Rightarrow> ebind (typed v) (\<lambda>x. Inr (Some x)))"
  using assms getValue_value_at[of ns k s]
  by (auto simp: read_slot_def mkValue_def validateAddress_def split: option.splits)

lemmas read_slots = read_slot_mkValue[of ns_branch_tip] read_slot_mkValue[of ns_lane_config]
  read_slot_mkValue[of ns_lane_state] read_slot_mkValue[of ns_op_meta] read_slot_mkValue[of ns_op_state]
  read_slot_mkValue[of ns_pending_entry] read_slot_mkValue[of ns_result]

lemma typed_reads:
  "as_tip v = Inr t \<longleftrightarrow> v = VTip t" "as_config v = Inr c \<longleftrightarrow> v = VConfig c"
  "as_lane_state v = Inr d \<longleftrightarrow> v = VLaneState d" "as_meta v = Inr m \<longleftrightarrow> v = VMeta m"
  "as_op_state v = Inr st \<longleftrightarrow> v = VOpState st" "as_pending v = Inr p \<longleftrightarrow> v = VPending p"
  by (cases v; auto)+

lemma restore_operation_iff:
  "restore_operation s lane i = Inr operation \<longleftrightarrow>
     \<not> has_nul i \<and> me_operationId (op_meta operation) = i \<and>
     value_at s (ns_op_meta, i) = Some (VMeta (op_meta operation)) \<and>
     value_at s (ns_op_state, i) = Some (VOpState (op_state operation)) \<and>
     me_lane (op_meta operation) = lane \<and>
     stateMatchesIntent (me_intent (op_meta operation)) (op_state operation)"
proof (cases "has_nul i")
  case False
  then show ?thesis
  proof (cases "value_at s (ns_op_meta, i)")
    case (Some vm)
    show ?thesis
    proof (cases "value_at s (ns_op_state, i)")
      case (Some vs)
      obtain m st where eq: "operation = \<lparr>op_meta = m, op_state = st\<rparr>" by (cases operation) auto
      show ?thesis
        using False Some \<open>value_at s (ns_op_meta, i) = Some vm\<close>
        by (cases vm; cases vs)
          (auto simp: eq restore_operation_def operationMeta_def operationState_def read_slots)
    qed (use False Some in \<open>auto simp: restore_operation_def operationMeta_def operationState_def read_slots
        ebind_eq_Inr_iff typed_reads\<close>)
  qed (auto simp: restore_operation_def operationMeta_def operationState_def read_slots ebind_eq_Inr_iff typed_reads
      split: option.splits)
qed (auto simp: restore_operation_def operationMeta_def operationState_def read_slots)

lemma restoreLane_iff:
  "restoreLane s name = Inr state \<longleftrightarrow> lane_image (value_at s) name state"
proof
  assume "restoreLane s name = Inr state"
  then obtain t cfg d where c: "readLaneStorage s name = Inr (LaneComplete t cfg d)"
    and r: "restoreLaneState s name t cfg d = Inr state"
    by (auto simp: restoreLane_def split: classified_lane.splits)
  from c have slots: "\<not> has_nul name" "value_at s (ns_branch_tip, name) = Some (VTip t)"
    "value_at s (ns_lane_config, name) = Some (VConfig cfg)" "value_at s (ns_lane_state, name) = Some (VLaneState d)"
    by (auto simp: readLaneStorage_def branchTip_def laneConfig_def laneState_def read_slots typed_reads
        classifyLaneStorage_def split: option.splits if_splits)
  from r slots show "lane_image (value_at s) name state"
    by (cases d; cases "dl_currentOperationId d")
      (auto simp: restoreLaneState_def lane_image_def durableLaneState_def current_operation_id_def
        restore_operation_iff Let_def)
next
  assume im: "lane_image (value_at s) name state"
  then have c: "readLaneStorage s name = Inr (LaneComplete (la_tipId state) (la_configuration state)
      (durableLaneState (current_operation_id state) (la_inbox state) (la_lastOperationId state)))"
    by (simp add: lane_image_def readLaneStorage_def branchTip_def laneConfig_def laneState_def read_slots
        classifyLaneStorage_def)
  show "restoreLane s name = Inr state"
  proof (cases "la_operation state")
    case None
    then show ?thesis using c
      by (simp add: restoreLane_def restoreLaneState_def durableLaneState_def current_operation_id_def)
  next
    case (Some operation)
    then have "restore_operation s name (me_operationId (op_meta operation)) = Inr operation"
      using im by (simp add: restore_operation_iff lane_image_def Let_def)
    then show ?thesis using c Some
      by (simp add: restoreLane_def restoreLaneState_def durableLaneState_def current_operation_id_def)
  qed
qed

text \<open>Two lanes never share their current operation: its metadata names one lane.\<close>

lemma lane_image_operation_unique:
  assumes "lane_image V name state" "lane_image V name' state'" "name \<noteq> name'"
    and "current_operation_id state = Some i"
  shows "current_operation_id state' \<noteq> Some i"
proof
  assume "current_operation_id state' = Some i"
  then obtain m' where m': "V (ns_op_meta, i) = Some (VMeta m')" "me_lane m' = name'"
    using assms(2) by (auto simp: lane_image_def current_operation_id_def Let_def split: option.splits)
  obtain m where m: "V (ns_op_meta, i) = Some (VMeta m)" "me_lane m = name"
    using assms(1,4) by (auto simp: lane_image_def current_operation_id_def Let_def split: option.splits)
  from m m' assms(3) show False by simp
qed

section \<open>What the writes of a commit do to the slots\<close>

fun write_value :: "storage_write \<Rightarrow> (jstring \<times> jstring \<Rightarrow> stored option) \<Rightarrow> jstring \<times> jstring \<Rightarrow> stored option" where
  "write_value (WValueSet ns k v) V = V((ns, k) \<mapsto> v)"
| "write_value (WValueDelete ns k) V = V((ns, k) := None)"
| "write_value _ V = V"

abbreviation write_values :: "storage_write list \<Rightarrow> (jstring \<times> jstring \<Rightarrow> stored option) \<Rightarrow> jstring \<times> jstring \<Rightarrow> stored option" where
  "write_values ws V \<equiv> fold write_value ws V"

lemma spec_write_values:
  "ab_values (fold spec_write (commit_writes_from ws n ts) a) = write_values ws (ab_values a)"
proof (induction ws n ts arbitrary: a rule: commit_writes_from.induct)
  case (2 w ws n ts)
  then show ?case by (cases w) (auto simp: fun_upd_def)
qed simp

lemma commitStorage_values:
  assumes "storage_inv s" "list_all addressed ws" "commitStorage ws now s = (s', Inr r)"
  shows "value_at s' = write_values ws (value_at s)"
  using arg_cong[OF commitStorage_refines[OF assms], of ab_values] by (simp add: abs_store_def spec_write_values)

text \<open>The namespaces a lane keeps its state in; everything else cannot disturb it.\<close>

definition lane_ns :: "jstring \<Rightarrow> bool" where
  "lane_ns ns \<longleftrightarrow> ns = ns_branch_tip \<or> ns = ns_lane_config \<or> ns = ns_lane_state"

definition operation_ns :: "jstring \<Rightarrow> bool" where
  "operation_ns ns \<longleftrightarrow> ns = ns_op_meta \<or> ns = ns_op_state"

fun own_write :: "jstring \<Rightarrow> jstring set \<Rightarrow> storage_write \<Rightarrow> bool" where
  "own_write name ids (WValueSet ns k v) \<longleftrightarrow> (lane_ns ns \<longrightarrow> k = name) \<and> (operation_ns ns \<longrightarrow> k \<in> ids)"
| "own_write name ids (WValueDelete ns k) \<longleftrightarrow> (lane_ns ns \<longrightarrow> k = name) \<and> (operation_ns ns \<longrightarrow> k \<in> ids)"
| "own_write name ids _ \<longleftrightarrow> True"

lemma own_write_keeps:
  "list_all (own_write name ids) ws \<Longrightarrow>
   (lane_ns ns \<and> k \<noteq> name) \<or> (operation_ns ns \<and> k \<notin> ids) \<Longrightarrow> write_values ws V (ns, k) = V (ns, k)"
proof (induction ws arbitrary: V)
  case (Cons w ws)
  then show ?case by (cases w) auto
qed simp

lemma other_lane_image:
  assumes "list_all (own_write name ids) ws" "m \<noteq> name" "set_option (current_operation_id state) \<inter> ids = {}"
    and "lane_image V m state"
  shows "lane_image (write_values ws V) m state"
  using assms
  by (auto simp: lane_image_def own_write_keeps[OF assms(1)] lane_ns_def operation_ns_def Let_def
      current_operation_id_def split: option.splits)

lemma write_values_entries [simp]: "write_values (map insertEntry es) V = V"
  by (induction es arbitrary: V) (auto simp: insertEntry_def)

lemma write_values_deletes:
  "\<forall>a \<in> set slots. ad_namespace a \<noteq> ns \<Longrightarrow> write_values (map deleteValue slots) V (ns, k) = V (ns, k)"
  by (induction slots arbitrary: V) (auto simp: deleteValue_def)

lemma esequence_mem:
  "esequence (map f xs) = Inr ys \<Longrightarrow> y \<in> set ys \<Longrightarrow> \<exists>x \<in> set xs. f x = Inr y"
  by (induction xs arbitrary: ys) auto

lemma pending_slots:
  assumes "esequence (map (\<lambda>x. pendingEntry (f x)) xs) = Inr slots" "a \<in> set slots"
  shows "ad_namespace a = ns_pending_entry \<and> addressed (deleteValue a) \<and> own_write name ids (deleteValue a)"
  using esequence_mem[OF assms]
  by (auto simp: pendingEntry_def mkValue_eq_Inr deleteValue_def validateAddress_def lane_ns_def operation_ns_def)

section \<open>The invariant of a harness\<close>

text \<open>
  The slots of the storage that name lanes: every branch tip is one, and only the lanes that are attached
  have a configuration or a state.
\<close>

definition lane_slots :: "jstring set \<Rightarrow> (jstring \<times> jstring \<Rightarrow> stored option) \<Rightarrow> bool" where
  "lane_slots names V \<longleftrightarrow>
     (\<forall>k v. V (ns_branch_tip, k) = Some v \<longrightarrow> (\<exists>t. v = VTip t)) \<and>
     (\<forall>k. k \<notin> names \<longrightarrow> V (ns_lane_config, k) = None \<and> V (ns_lane_state, k) = None)"

lemma lane_slots_writes:
  assumes "lane_slots names V" "name \<in> names" "list_all (own_write name ids) ws"
    and "lane_image (write_values ws V) name state"
  shows "lane_slots names (write_values ws V)"
  unfolding lane_slots_def
proof (intro conjI allI impI)
  fix k v assume v: "write_values ws V (ns_branch_tip, k) = Some v"
  show "\<exists>t. v = VTip t"
  proof (cases "k = name")
    case False
    then have "write_values ws V (ns_branch_tip, k) = V (ns_branch_tip, k)"
      using own_write_keeps[OF assms(3), of ns_branch_tip k V] by (simp add: lane_ns_def)
    then show ?thesis using v assms(1) by (auto simp: lane_slots_def)
  qed (use v assms(4) in \<open>auto simp: lane_image_def\<close>)
next
  fix k assume k: "k \<notin> names"
  then have "k \<noteq> name" using assms(2) by auto
  then show "write_values ws V (ns_lane_config, k) = None" "write_values ws V (ns_lane_state, k) = None"
    using own_write_keeps[OF assms(3), of ns_lane_config k V] own_write_keeps[OF assms(3), of ns_lane_state k V]
      assms(1) k by (auto simp: lane_slots_def lane_ns_def)
qed

definition harness_inv :: "harness \<Rightarrow> bool" where
  "harness_inv h \<longleftrightarrow>
     distinct (map fst (ha_lanes h)) \<and>
     storage_inv (ms_data (se_storage (ha_session h))) \<and>
     (se_state (ha_session h) = Open \<longrightarrow> ms_state (se_storage (ha_session h)) = Open) \<and>
     lane_slots (fst ` set (ha_lanes h)) (value_at (ms_data (se_storage (ha_session h)))) \<and>
     (\<forall>(name, l) \<in> set (ha_lanes h).
        lane_image (value_at (ms_data (se_storage (ha_session h)))) name (ln_state l))"

lemma harness_inv_lane:
  "harness_inv h \<Longrightarrow> map_get (ha_lanes h) name = Some l \<Longrightarrow>
   lane_image (value_at (ms_data (se_storage (ha_session h)))) name (ln_state l)"
  unfolding harness_inv_def by (blast dest: map_of_SomeD)

lemma harness_inv_seal:
  assumes "harness_inv h"
  shows "harness_inv (h\<lparr>ha_lanes := seal_lanes e (ha_lanes h)\<rparr>)"
proof -
  have keys: "map fst (seal_lanes e (ha_lanes h)) = map fst (ha_lanes h)"
    by (auto simp: seal_lanes_def)
  then have "fst ` set (seal_lanes e (ha_lanes h)) = fst ` set (ha_lanes h)"
    by (metis list.set_map)
  moreover note keys
  moreover have "\<exists>l'. (name, l') \<in> set (ha_lanes h) \<and> ln_state l = ln_state l'"
    if "(name, l) \<in> set (seal_lanes e (ha_lanes h))" for name l
    using that by (auto simp: seal_lanes_def lane_seal_def)
  ultimately show ?thesis using assms unfolding harness_inv_def by fastforce
qed

lemma harness_inv_frame:
  assumes "ha_lanes h' = ha_lanes h" "se_storage (ha_session h') = se_storage (ha_session h)"
    "se_state (ha_session h') = se_state (ha_session h)"
  shows "harness_inv h' = harness_inv h"
  using assms by (simp add: harness_inv_def)

lemma harness_inv_fault:
  assumes "harness_inv h"
  shows "harness_inv (snd (harness_fault h))"
proof -
  have "harness_inv (h\<lparr>ha_faulted := f, ha_lanes := seal_lanes HarnessFaulted (ha_lanes h), ha_log := evs\<rparr>)" for f evs
    using harness_inv_seal[OF assms, of HarnessFaulted]
      harness_inv_frame[of "h\<lparr>ha_faulted := f, ha_lanes := seal_lanes HarnessFaulted (ha_lanes h), ha_log := evs\<rparr>"
        "h\<lparr>ha_lanes := seal_lanes HarnessFaulted (ha_lanes h)\<rparr>"] by simp
  then show ?thesis using assms by (simp add: harness_fault_def split: option.splits)
qed

text \<open>Writes that touch no slot of any lane or operation.\<close>

lemma harness_inv_unrelated:
  assumes inv: "harness_inv h"
    and data: "storage_inv d"
      "\<And>ns k. lane_ns ns \<or> operation_ns ns \<Longrightarrow> value_at d (ns, k) = value_at (ms_data (se_storage (ha_session h))) (ns, k)"
    and se: "se_storage se = (se_storage (ha_session h))\<lparr>ms_data := d\<rparr>" "se_state se = se_state (ha_session h)"
  shows "harness_inv (h\<lparr>ha_session := se\<rparr>)"
proof -
  let ?V = "value_at (ms_data (se_storage (ha_session h)))"
  have eqs: "value_at d (ns_branch_tip, k) = ?V (ns_branch_tip, k)" "value_at d (ns_lane_config, k) = ?V (ns_lane_config, k)"
    "value_at d (ns_lane_state, k) = ?V (ns_lane_state, k)" "value_at d (ns_op_meta, k) = ?V (ns_op_meta, k)"
    "value_at d (ns_op_state, k) = ?V (ns_op_state, k)" for k
    by (simp_all add: data(2) lane_ns_def operation_ns_def)
  have "lane_image (value_at d) m state = lane_image ?V m state" for m state
    by (simp only: lane_image_def eqs)
  moreover have "lane_slots names (value_at d) = lane_slots names ?V" for names
    by (simp only: lane_slots_def eqs)
  ultimately show ?thesis using inv data(1) se by (simp add: harness_inv_def)
qed

text \<open>Publishing a lane state together with the storage it was committed to.\<close>

lemma harness_inv_publish:
  assumes inv: "harness_inv h"
    and data: "storage_inv d" "value_at d = write_values ws (value_at (ms_data (se_storage (ha_session h))))"
    and own: "list_all (own_write name ids) ws"
    and image: "lane_image (value_at d) name (ln_state l')"
    and free: "\<And>m l. (m, l) \<in> set (ha_lanes h) \<Longrightarrow> m \<noteq> name \<Longrightarrow> set_option (current_operation_id (ln_state l)) \<inter> ids = {}"
    and se: "se_storage se = (se_storage (ha_session h))\<lparr>ms_data := d\<rparr>" "se_state se = se_state (ha_session h)"
  shows "harness_inv (h\<lparr>ha_session := se, ha_lanes := map_set name l' (ha_lanes h), ha_log := evs\<rparr>)"
proof -
  have dist: "distinct (map fst (map_set name l' (ha_lanes h)))"
    using inv distinct_update[of "ha_lanes h" name l'] by (simp add: harness_inv_def)
  have "lane_image (value_at d) m (ln_state k)" if mem: "(m, k) \<in> set (map_set name l' (ha_lanes h))" for m k
  proof (cases "m = name")
    case True
    then have "map_get (map_set name l' (ha_lanes h)) name = Some k"
      using map_of_is_SomeI[OF dist] mem by simp
    then show ?thesis using image True by (simp add: update_conv')
  next
    case False
    have "map_get (map_set name l' (ha_lanes h)) m = Some k" by (rule map_of_is_SomeI[OF dist mem])
    then have k: "(m, k) \<in> set (ha_lanes h)" using False by (auto simp: update_conv' dest: map_of_SomeD)
    then have "lane_image (value_at (ms_data (se_storage (ha_session h)))) m (ln_state k)"
      using inv by (auto simp: harness_inv_def)
    then show ?thesis
      unfolding data(2) by (rule other_lane_image[OF own False free[OF k False]])
  qed
  moreover have "lane_slots (fst ` set (map_set name l' (ha_lanes h))) (value_at d)"
  proof -
    have names: "fst ` set (map_set name l' (ha_lanes h)) = insert name (fst ` set (ha_lanes h))"
      using dom_update[of name l' "ha_lanes h"] by simp
    have "lane_slots (insert name (fst ` set (ha_lanes h))) (value_at (ms_data (se_storage (ha_session h))))"
      using inv by (simp add: harness_inv_def lane_slots_def)
    then show ?thesis
      using lane_slots_writes[OF _ insertI1 own] image data(2) by (simp add: names)
  qed
  ultimately show ?thesis using inv dist data(1) se by (auto simp: harness_inv_def)
qed

section \<open>The contract of a planner\<close>

text \<open>The four ways a command on an open session can end.\<close>

lemma lane_command_cases:
  assumes l: "map_get (ha_lanes h) name = Some l"
    and inv: "harness_inv h"
    and run: "lane_command name plan now h = (out, h')"
  obtains (unchanged) "h' = h" "\<And>r. out \<noteq> Returned r"
  | (fault) f where "(f, h') = harness_fault h" "out = Threw f"
  | (returned) "ln_closed l = None" "h' = h\<lparr>ha_lanes := map_set name l (ha_lanes h), ha_log := ha_log h @ []\<rparr>"
      "(\<exists>r. plan (ln_state l) (ms_data (se_storage (ha_session h))) = Inr (CommandReturn r) \<and> out = Returned r) \<or>
       (\<exists>e. plan (ln_state l) (ms_data (se_storage (ha_session h))) = Inr (CommandReject e) \<and> out = Threw e)"
  | (partial) ws nx mat evs d e where
      "plan (ln_state l) (ms_data (se_storage (ha_session h))) = Inr (CommandCommit ws nx mat evs)"
      "commitStorage ws now (ms_data (se_storage (ha_session h))) = (d, Inl e)"
      "(case harness_fault (h\<lparr>ha_session := (ha_session h)\<lparr>se_storage := (se_storage (ha_session h))\<lparr>ms_data := d\<rparr>\<rparr>\<rparr>) of
          (f, h'') \<Rightarrow> out = Threw f \<and> h' = h'')"
  | (committed) ws nx mat evs d c where "ln_closed l = None"
      "plan (ln_state l) (ms_data (se_storage (ha_session h))) = Inr (CommandCommit ws nx mat evs)"
      "commitStorage ws now (ms_data (se_storage (ha_session h))) = (d, Inr c)"
      "\<not> list_ex is_pending_write ws"
      "out = Returned (mat c)"
      "h' = h\<lparr>ha_session := (ha_session h)\<lparr>se_storage := (se_storage (ha_session h))\<lparr>ms_data := d\<rparr>\<rparr>,
         ha_lanes := map_set name (l\<lparr>ln_state := nx\<rparr>) (ha_lanes h), ha_log := ha_log h @ evs c\<rparr>"
proof -
  let ?se = "ha_session h"
  let ?ms = "se_storage ?se"
  let ?p = "plan (ln_state l) (ms_data ?ms)"
  have refl: "?se\<lparr>se_storage := ?ms\<rparr> = ?se" "h\<lparr>ha_session := ?se\<rparr> = h" by simp_all
  show thesis
  proof (cases "ln_closed l = None \<and> ln_idle l = None \<and> se_state ?se = Open")
    case False
    then show thesis
      using run l unchanged
      by (auto simp: lane_command_def run_on_line_def session_mutate_def split: option.splits if_splits)
  next
    case True
    then have ms: "ms_state ?ms = Open" using inv by (simp add: harness_inv_def)
    note defs = lane_command_def run_on_line_def session_mutate_def command_job_def act_bind_def
      mutation_read_def mutation_commit_def memory_read_def memory_commit_def mutation_end_def Let_def
    show thesis
    proof (cases ?p)
      case (Inl e)
      then show thesis
        using run l True ms fault by (auto simp: defs refl split: prod.splits)
    next
      case (Inr decision)
      show thesis
      proof (cases decision)
        case (CommandReturn r)
        then show thesis using run l True ms Inr returned by (auto simp: defs refl)
      next
        case (CommandReject e)
        then show thesis using run l True ms Inr returned by (auto simp: defs refl)
      next
        case (CommandCommit ws nx mat evs)
        show thesis
        proof (cases "list_ex is_pending_write ws")
          case pending: True
          then show thesis
            using run l True ms Inr CommandCommit fault by (auto simp: defs refl split: prod.splits)
        next
          case settled: False
          obtain d r where c: "commitStorage ws now (ms_data ?ms) = (d, r)" by fastforce
          show thesis
          proof (cases r)
            case (Inl e)
            then show thesis
              using run l True ms \<open>?p = Inr decision\<close> CommandCommit settled c
              by (intro partial[of ws nx mat evs d e]) (auto simp: defs split: prod.splits)
          next
            case (Inr c')
            then show thesis
              using run l True ms \<open>?p = Inr decision\<close> CommandCommit settled c
              by (intro committed[of ws nx mat evs d c']) (auto simp: defs)
          qed
        qed
      qed
    qed
  qed
qed

text \<open>
  \<open>ids\<close> are the operation ids the planner may create besides the current one; \<open>ready\<close> says for which lane states
  the contract holds.
\<close>

locale guarded_plan =
  fixes name :: jstring and ids :: "jstring set" and ready :: "lane_state \<Rightarrow> bool"
    and plan :: "lane_state \<Rightarrow> storage_state \<Rightarrow> js_error + 'r lane_decision"
  assumes commits: "storage_inv s \<Longrightarrow> lane_image (value_at s) name state \<Longrightarrow> ready state \<Longrightarrow>
    plan state s = Inr (CommandCommit ws nx mat evs) \<Longrightarrow>
    list_all addressed ws \<and> list_all (own_write name (ids \<union> set_option (current_operation_id state))) ws \<and>
    lane_image (write_values ws (value_at s)) name nx"
begin

lemma keeps_ready:
  assumes inv: "harness_inv h"
    and ready: "\<And>l. map_get (ha_lanes h) name = Some l \<Longrightarrow> ready (ln_state l)"
    and free: "\<And>m l. (m, l) \<in> set (ha_lanes h) \<Longrightarrow> m \<noteq> name \<Longrightarrow> set_option (current_operation_id (ln_state l)) \<inter> ids = {}"
  shows "harness_inv (snd (lane_command name plan now h))"
proof (cases "map_get (ha_lanes h) name")
  case None
  then show ?thesis using inv by (simp add: lane_command_def run_on_line_def)
next
  case (Some l)
  let ?ms = "se_storage (ha_session h)"
  have image: "lane_image (value_at (ms_data ?ms)) name (ln_state l)" by (rule harness_inv_lane[OF inv Some])
  have sinv: "storage_inv (ms_data ?ms)" using inv by (simp add: harness_inv_def)
  obtain out h' where run: "lane_command name plan now h = (out, h')" by fastforce
  show ?thesis
  proof (cases rule: lane_command_cases[OF Some inv run])
    case 1
    then show ?thesis using inv run by simp
  next
    case (2 f)
    then show ?thesis using harness_inv_fault[OF inv] run by (metis snd_conv)
  next
    case 3
    have "harness_inv (h\<lparr>ha_session := ha_session h, ha_lanes := map_set name l (ha_lanes h), ha_log := ha_log h @ []\<rparr>)"
      by (rule harness_inv_publish[where ws = "[]" and ids = "{}", OF inv sinv]) (use image in auto)
    then show ?thesis using 3 run by simp
  next
    case (4 ws nx mat evs d e)
    have "list_all addressed ws" using commits[OF sinv image ready[OF Some] 4(1)] by simp
    then have "d = ms_data ?ms" using commitStorage_addressed[of ws now "ms_data ?ms"] 4(2) by auto
    then show ?thesis using 4(3) harness_inv_fault[OF inv] run by (auto split: prod.splits)
  next
    case (5 ws nx mat evs d c)
    note ok = commits[OF sinv image ready[OF Some] 5(2)]
    have dv: "value_at d = write_values ws (value_at (ms_data ?ms))"
      using commitStorage_values[OF sinv _ 5(3)] ok by simp
    have dinv: "storage_inv d" using commitStorage_inv[OF sinv, of ws now] 5(3) by simp
    have free': "set_option (current_operation_id (ln_state k)) \<inter> (ids \<union> set_option (current_operation_id (ln_state l))) = {}"
      if mem: "(m, k) \<in> set (ha_lanes h)" "m \<noteq> name" for m k
    proof -
      have "lane_image (value_at (ms_data ?ms)) m (ln_state k)" using inv mem(1) by (auto simp: harness_inv_def)
      then show ?thesis
        using free[OF mem] lane_image_operation_unique[OF image _ mem(2)[symmetric]] by fastforce
    qed
    have "harness_inv h'"
      unfolding 5(6)
      by (rule harness_inv_publish[OF inv dinv dv]) (use ok dv free' in auto)
    then show ?thesis using run by simp
  qed
qed

end

text \<open>The contract without a guard, which the planners outside a drive meet.\<close>

locale durable_plan = guarded_plan name ids "\<lambda>state. True" plan
  for name :: jstring and ids :: "jstring set" and plan :: "lane_state \<Rightarrow> storage_state \<Rightarrow> js_error + 'r lane_decision"
begin

lemma keeps:
  assumes "harness_inv h"
    and "\<And>m l. (m, l) \<in> set (ha_lanes h) \<Longrightarrow> m \<noteq> name \<Longrightarrow> set_option (current_operation_id (ln_state l)) \<inter> ids = {}"
  shows "harness_inv (snd (lane_command name plan now h))"
  by (rule keeps_ready[OF assms(1) TrueI]) (rule assms(2))

end

end
