(* ===== verification/LaneDurable.thy ===== *)
theory LaneDurable
  imports LaneFacts
begin

text \<open>
  Every planner of the runtime meets the contract of \<open>durable_plan\<close>: one interpretation each. The writes
  of a planner are entries, deletions of pending payloads, and a few slots set at the end; the lemmas of
  the first section reduce the image after the commit to those last writes.
\<close>

section \<open>Reducing to the last writes\<close>

lemma write_values_point: "V x = V' x \<Longrightarrow> write_values ws V x = write_values ws V' x"
proof (induction ws arbitrary: V V')
  case (Cons w ws)
  have "write_value w V x = write_value w V' x" using Cons.prems by (cases w) (simp_all add: fun_upd_def)
  then have "write_values ws (write_value w V) x = write_values ws (write_value w V') x" by (rule Cons.IH)
  then show ?case by simp
qed simp

definition pending_only :: "address list \<Rightarrow> bool" where
  "pending_only slots \<longleftrightarrow> (\<forall>a \<in> set slots. ad_namespace a = ns_pending_entry)"

lemma write_values_tail:
  assumes "pending_only slots" "ns \<noteq> ns_pending_entry"
  shows "write_values (map insertEntry es @ map deleteValue slots @ ws) V (ns, k) = write_values ws V (ns, k)"
proof -
  have "write_values (map insertEntry es @ map deleteValue slots @ ws) V = write_values ws (write_values (map deleteValue slots) V)"
    by simp
  moreover have "write_values (map deleteValue slots) V (ns, k) = V (ns, k)"
    by (rule write_values_deletes) (use assms in \<open>auto simp: pending_only_def\<close>)
  ultimately show ?thesis using write_values_point by metis
qed

lemma lane_image_tail:
  assumes "pending_only slots"
  shows "lane_image (write_values (map insertEntry es @ map deleteValue slots @ ws) V) name state =
    lane_image (write_values ws V) name state"
proof -
  have "write_values (map insertEntry es @ map deleteValue slots @ ws) V (ns, k) = write_values ws V (ns, k)"
    if h: "ns \<in> {ns_branch_tip, ns_lane_config, ns_lane_state, ns_op_meta, ns_op_state}" for ns k
    by (rule write_values_tail[OF assms]) (use h in auto)
  then show ?thesis by (simp only: lane_image_def insert_iff simp_thms)
qed

lemma pending_slots_only: "esequence (map (\<lambda>x. pendingEntry (f x)) xs) = Inr slots \<Longrightarrow> pending_only slots"
  using pending_slots by (fastforce simp: pending_only_def)

lemma pending_slots_writes:
  "esequence (map (\<lambda>x. pendingEntry (f x)) xs) = Inr slots \<Longrightarrow>
   list_all addressed (map deleteValue slots) \<and> list_all (own_write name ids) (map deleteValue slots)"
  using pending_slots unfolding list_all_iff by fastforce

lemma entry_writes:
  "list_all addressed (map insertEntry es)" "list_all (own_write name ids) (map insertEntry es)"
  by (auto simp: insertEntry_def list_all_iff)

lemmas slot_defs = branchTip_def laneConfig_def laneState_def operationMeta_def operationState_def
  operationResult_def operationPreparation_def pendingEntry_def mkValue_eq_Inr setValue_def deleteValue_def
  validateAddress_def lane_ns_def operation_ns_def

lemma initial_matches [simp]:
  "stateMatchesIntent (RunIntent ps) \<lparr>op_scope = sc, op_leaf = Starting\<rparr>"
  "stateMatchesIntent (CompactionIntent ci) \<lparr>op_scope = sc, op_leaf = SummaryDeciding t\<rparr> \<longleftrightarrow> st_boundary t = FinishBoundary"
  by (simp_all add: stateMatchesIntent_def)

section \<open>Admission\<close>

lemma acceptRun_commits:
  assumes "acceptRun_plan name operationId startedAt config prompt state s = Inr (CommandCommit ws nx mat evs)"
  obtains entries slots parentId inbox meta opState where
    "la_operation state = None" "pending_only slots"
    "list_all addressed (map deleteValue slots)" "\<And>ids. list_all (own_write name ids) (map deleteValue slots)"
    "\<not> has_nul name" "\<not> has_nul operationId"
    "meta = run_meta name operationId startedAt prompt state" "opState = \<lparr>op_scope = initial_scope config, op_leaf = Starting\<rparr>"
    "ws = map insertEntry entries @ map deleteValue slots @
      [WValueSet ns_branch_tip name (VTip parentId), WValueSet ns_op_meta operationId (VMeta meta),
       WValueSet ns_op_state operationId (VOpState opState),
       WValueSet ns_lane_state name (VLaneState (durableLaneState (Some operationId) inbox (la_lastOperationId state)))]"
    "nx = state\<lparr>la_tipId := parentId, la_inbox := inbox, la_operation := Some \<lparr>op_meta = meta, op_state = opState\<rparr>\<rparr>"
proof -
  obtain sel inbox where sel: "selectAcceptedInbox (la_inbox state) (cf_steeringMode config) (cf_followUpMode config) = (sel, inbox)"
    by fastforce
  have none: "la_operation state = None"
    using assms by (auto simp: acceptRun_plan_def split: option.splits)
  from assms none sel obtain captured slots queues where
    cap: "esequence (map (captured_item s) sel) = Inr captured"
    and slots: "esequence (map (\<lambda>item. pendingEntry (ii_entryId item)) sel) = Inr slots"
    and ws: "\<not> has_nul name" "\<not> has_nul operationId"
      "ws = map insertEntry (run_entries (la_tipId state) captured prompt) @ map deleteValue slots @
      [WValueSet ns_branch_tip name (VTip (Some (ne_id (last (run_entries (la_tipId state) captured prompt))))),
       WValueSet ns_op_meta operationId (VMeta (run_meta name operationId startedAt prompt state)),
       WValueSet ns_op_state operationId (VOpState \<lparr>op_scope = initial_scope config, op_leaf = Starting\<rparr>),
       WValueSet ns_lane_state name (VLaneState (durableLaneState (Some operationId) inbox (la_lastOperationId state)))]"
      "nx = state\<lparr>la_tipId := Some (ne_id (last (run_entries (la_tipId state) captured prompt))), la_inbox := inbox,
        la_operation := Some \<lparr>op_meta = run_meta name operationId startedAt prompt state,
          op_state = \<lparr>op_scope = initial_scope config, op_leaf = Starting\<rparr>\<rparr>\<rparr>"
    by (auto simp: acceptRun_plan_def Let_def slot_defs split: if_splits)
  show thesis
    using that[OF none pending_slots_only[OF slots] _ _ ws(1,2) refl refl ws(3,4)] pending_slots_writes[OF slots] by blast
qed

interpretation run_plan: durable_plan name "{operationId}" "acceptRun_plan name operationId startedAt config prompt"
  for name operationId startedAt config prompt
proof
  fix s state ws nx mat evs
  assume im: "lane_image (value_at s) name state"
    and p: "acceptRun_plan name operationId startedAt config prompt state s = Inr (CommandCommit ws nx mat evs)"
  obtain entries slots parentId inbox meta opState where none: "la_operation state = None"
    and slots: "pending_only slots" "list_all addressed (map deleteValue slots)"
      "\<And>ids. list_all (own_write name ids) (map deleteValue slots)"
    and nul: "\<not> has_nul name" "\<not> has_nul operationId"
    and eqs: "meta = run_meta name operationId startedAt prompt state"
      "opState = \<lparr>op_scope = initial_scope config, op_leaf = Starting\<rparr>"
    and ws: "ws = map insertEntry entries @ map deleteValue slots @
      [WValueSet ns_branch_tip name (VTip parentId), WValueSet ns_op_meta operationId (VMeta meta),
       WValueSet ns_op_state operationId (VOpState opState),
       WValueSet ns_lane_state name (VLaneState (durableLaneState (Some operationId) inbox (la_lastOperationId state)))]"
    and nx: "nx = state\<lparr>la_tipId := parentId, la_inbox := inbox, la_operation := Some \<lparr>op_meta = meta, op_state = opState\<rparr>\<rparr>"
    using p by (rule acceptRun_commits) blast
  have "lane_image (write_values ws (value_at s)) name nx"
    unfolding ws lane_image_tail[OF slots(1)]
    using im nul by (simp add: lane_image_def nx eqs current_operation_id_def run_meta_def none)
  then show "list_all addressed ws \<and>
    list_all (own_write name ({operationId} \<union> set_option (current_operation_id state))) ws \<and>
    lane_image (write_values ws (value_at s)) name nx"
    using slots(2,3) nul by (simp add: ws entry_writes slot_defs)
qed

interpretation compaction_plan:
  durable_plan name "{operationId}" "acceptCompaction_plan prepare name operationId startedAt config ci taskId"
  for name operationId prepare startedAt config ci taskId
proof
  fix s state ws nx mat evs
  assume im: "lane_image (value_at s) name state"
    and p: "acceptCompaction_plan prepare name operationId startedAt config ci taskId state s =
      Inr (CommandCommit ws nx mat evs)"
  have none: "la_operation state = None" using p by (auto simp: acceptCompaction_plan_def split: option.splits)
  let ?meta = "\<lparr>me_operationId = operationId, me_lane = name, me_sourceTipId = la_tipId state,
    me_startedAt = startedAt, me_intent = CompactionIntent ci\<rparr>"
  let ?st = "\<lparr>op_scope = initial_scope config, op_leaf = SummaryDeciding
    \<lparr>st_taskId = taskId, st_reason = Some ManualReason, st_customInstructions = ci, st_boundary = FinishBoundary\<rparr>\<rparr>"
  from p none obtain k v where nul: "\<not> has_nul k" "\<not> has_nul operationId" "\<not> has_nul name"
    and ws: "ws = [WValueSet ns_preparation k v, WValueSet ns_op_meta operationId (VMeta ?meta),
      WValueSet ns_op_state operationId (VOpState ?st),
      WValueSet ns_lane_state name (VLaneState
        (durableLaneState (Some operationId) (la_inbox state) (la_lastOperationId state)))]"
    and nx: "nx = state\<lparr>la_operation := Some \<lparr>op_meta = ?meta, op_state = ?st\<rparr>\<rparr>"
    by (auto simp: acceptCompaction_plan_def Let_def operationPreparation_def operationMeta_def operationState_def
        laneState_def mkValue_eq_Inr setValue_def split: option.splits)
  have "lane_image (write_values ws (value_at s)) name nx"
    using im nul by (simp add: ws nx lane_image_def current_operation_id_def none)
  then show "list_all addressed ws \<and>
    list_all (own_write name ({operationId} \<union> set_option (current_operation_id state))) ws \<and>
    lane_image (write_values ws (value_at s)) name nx"
    using nul by (simp add: ws slot_defs)
qed

lemma navigation_matches:
  assumes "navigation_leaf summarize taskId targetId options preparation = Inr (prepared, leaf)"
  shows "stateMatchesIntent (NavigationIntent targetId summarize (no_label options) (no_customInstructions options))
    \<lparr>op_scope = sc, op_leaf = leaf\<rparr>"
  using assms by (auto simp: navigation_leaf_def stateMatchesIntent_def split: if_splits option.splits)

interpretation navigation_plan:
  durable_plan name "{operationId}"
    "acceptNavigation_plan observed preparation name operationId startedAt config targetId options taskId"
  for name operationId observed preparation startedAt config targetId options taskId
proof
  fix s state ws nx mat evs
  assume im: "lane_image (value_at s) name state"
    and p: "acceptNavigation_plan observed preparation name operationId startedAt config targetId options taskId
      state s = Inr (CommandCommit ws nx mat evs)"
  let ?sum = "case no_summarize options of None \<Rightarrow> False | Some b \<Rightarrow> b"
  have none: "la_operation state = None"
    using p by (auto simp: acceptNavigation_plan_def split: option.splits)
  from p none obtain prepared leaf prepWrites where
    leaf: "navigation_leaf ?sum taskId targetId options preparation = Inr (prepared, leaf)"
    and prep: "(case prepared of None \<Rightarrow> Inr [] | Some p \<Rightarrow>
      ebind (operationPreparation operationId taskId) (\<lambda>a. Inr [setValue a (VPreparation p)])) = Inr prepWrites"
    and nul: "\<not> has_nul operationId" "\<not> has_nul name"
    and ws: "ws = prepWrites @ [WValueSet ns_op_meta operationId (VMeta \<lparr>me_operationId = operationId, me_lane = name,
        me_sourceTipId = la_tipId state, me_startedAt = startedAt,
        me_intent = NavigationIntent targetId ?sum (no_label options) (no_customInstructions options)\<rparr>),
      WValueSet ns_op_state operationId (VOpState \<lparr>op_scope = initial_scope config, op_leaf = leaf\<rparr>),
      WValueSet ns_lane_state name (VLaneState
        (durableLaneState (Some operationId) (la_inbox state) (la_lastOperationId state)))]"
    and nx: "nx = state\<lparr>la_operation := Some \<lparr>op_meta = \<lparr>me_operationId = operationId, me_lane = name,
        me_sourceTipId = la_tipId state, me_startedAt = startedAt,
        me_intent = NavigationIntent targetId ?sum (no_label options) (no_customInstructions options)\<rparr>,
      op_state = \<lparr>op_scope = initial_scope config, op_leaf = leaf\<rparr>\<rparr>\<rparr>"
    by (auto simp: acceptNavigation_plan_def Let_def operationMeta_def operationState_def laneState_def
        mkValue_eq_Inr setValue_def split: if_splits)
  have prepWrites: "prepWrites = [] \<or> (\<exists>k v. prepWrites = [WValueSet ns_preparation k v] \<and> \<not> has_nul k)"
    using prep by (auto simp: operationPreparation_def mkValue_eq_Inr setValue_def split: option.splits)
  have "lane_image (write_values ws (value_at s)) name nx"
    using im nul prepWrites navigation_matches[OF leaf]
    by (auto simp: ws nx lane_image_def current_operation_id_def none)
  then show "list_all addressed ws \<and>
    list_all (own_write name ({operationId} \<union> set_option (current_operation_id state))) ws \<and>
    lane_image (write_values ws (value_at s)) name nx"
    using nul prepWrites by (auto simp: ws slot_defs)
qed

section \<open>Queues, cancellation, usage and configuration\<close>

text \<open>A commit that only changes the inbox: pending payloads and the lane slot.\<close>

lemma lane_slot_write_eq:
  "lane_slot_write name state inbox = Inr w \<longleftrightarrow> \<not> has_nul name \<and>
     w = WValueSet ns_lane_state name (VLaneState
       (durableLaneState (current_operation_id state) inbox (la_lastOperationId state)))"
  by (auto simp: lane_slot_write_def laneState_def ebind_eq_Inr_iff mkValue_eq_Inr setValue_def)

lemma inbox_image:
  assumes "lane_image V name state"
  shows "lane_image (V((ns_lane_state, name) \<mapsto> VLaneState
      (durableLaneState (current_operation_id state) inbox (la_lastOperationId state)))) name (state\<lparr>la_inbox := inbox\<rparr>)"
  using assms by (auto simp: lane_image_def current_operation_id_def Let_def split: option.splits)

lemma image_other:
  assumes "lane_image V name state" "ns \<notin> {ns_branch_tip, ns_lane_config, ns_lane_state, ns_op_meta, ns_op_state}"
  shows "lane_image (V((ns, k) := v)) name state"
  using assms by (auto simp: lane_image_def Let_def split: option.splits)

interpretation enqueue_plan: durable_plan name "{}" "enqueue_plan name kind message entryId"
  for name kind message entryId
proof
  fix s state ws nx mat evs
  assume im: "lane_image (value_at s) name state"
    and p: "enqueue_plan name kind message entryId state s = Inr (CommandCommit ws nx mat evs)"
  from p obtain inbox where nul: "\<not> has_nul entryId" "\<not> has_nul name"
    and ws: "ws = [WValueSet ns_pending_entry entryId (VPending (PendingMessage message)),
      WValueSet ns_lane_state name (VLaneState
        (durableLaneState (current_operation_id state) inbox (la_lastOperationId state)))]"
    and nx: "nx = state\<lparr>la_inbox := inbox\<rparr>"
    by (auto simp: enqueue_plan_def Let_def pendingEntry_def mkValue_eq_Inr setValue_def lane_slot_write_eq)
  have "lane_image (write_values ws (value_at s)) name nx"
    using inbox_image[OF image_other[OF im, of ns_pending_entry]] by (simp add: ws nx)
  then show "list_all addressed ws \<and> list_all (own_write name ({} \<union> set_option (current_operation_id state))) ws \<and>
    lane_image (write_values ws (value_at s)) name nx"
    using nul by (simp add: ws slot_defs)
qed

interpretation cancel_plan: durable_plan name "{}" "cancelQueued_plan name entryId" for name entryId
proof
  fix s state ws nx mat evs
  assume im: "lane_image (value_at s) name state"
    and p: "cancelQueued_plan name entryId state s = Inr (CommandCommit ws nx mat evs)"
  from p obtain inbox where nul: "\<not> has_nul entryId" "\<not> has_nul name"
    and ws: "ws = [WValueDelete ns_pending_entry entryId,
      WValueSet ns_lane_state name (VLaneState
        (durableLaneState (current_operation_id state) inbox (la_lastOperationId state)))]"
    and nx: "nx = state\<lparr>la_inbox := inbox\<rparr>"
    by (auto simp: cancelQueued_plan_def Let_def pendingEntry_def mkValue_eq_Inr deleteValue_def lane_slot_write_eq
        split: option.splits if_splits)
  have "lane_image (write_values ws (value_at s)) name nx"
    using inbox_image[OF image_other[OF im, of ns_pending_entry]] by (simp add: ws nx)
  then show "list_all addressed ws \<and> list_all (own_write name ({} \<union> set_option (current_operation_id state))) ws \<and>
    lane_image (write_values ws (value_at s)) name nx"
    using nul by (simp add: ws slot_defs)
qed

interpretation append_plan: durable_plan name "{}" "append_plan name pending newId" for name pending newId
proof
  fix s state ws nx mat evs
  assume im: "lane_image (value_at s) name state"
    and p: "append_plan name pending newId state s = Inr (CommandCommit ws nx mat evs)"
  show "list_all addressed ws \<and> list_all (own_write name ({} \<union> set_option (current_operation_id state))) ws \<and>
    lane_image (write_values ws (value_at s)) name nx"
  proof (cases "la_operation state")
    case None
    let ?queued = "inboxItems (la_inbox state) WriteItem"
    from p None have idle: "append_idle name pending newId state s = Inr (CommandCommit ws nx mat evs)"
      by (simp add: append_plan_def)
    obtain captured slots tipSlot laneSlot where
      "esequence (map (captured_write s) ?queued) = Inr captured"
      and slots: "esequence (map (\<lambda>item. pendingEntry (ii_entryId item)) ?queued) = Inr slots"
      and tail: "branchTip name = Inr tipSlot" "laneState name = Inr laneSlot"
      and ws': "ws = map insertEntry (chainEntries (la_tipId state) (captured @ [pendingEntryWrite newId pending])) @
        map deleteValue slots @ [setValue tipSlot (VTip (Some newId)), setValue laneSlot (VLaneState
          (durableLaneState None (withoutInboxItems (la_inbox state) ?queued) (la_lastOperationId state)))]"
      and nx: "nx = state\<lparr>la_tipId := Some newId, la_inbox := withoutInboxItems (la_inbox state) ?queued\<rparr>"
      using idle unfolding append_idle_def Let_def
      by (elim ebind_Inr_E) (simp only: sum.inject lane_decision.inject)
    have nul: "\<not> has_nul name" using tail by (simp add: branchTip_def mkValue_eq_Inr)
    have ws: "ws = map insertEntry (chainEntries (la_tipId state) (captured @ [pendingEntryWrite newId pending])) @
        map deleteValue slots @ [WValueSet ns_branch_tip name (VTip (Some newId)), WValueSet ns_lane_state name (VLaneState
          (durableLaneState None (withoutInboxItems (la_inbox state) ?queued) (la_lastOperationId state)))]"
      using tail by (auto simp: ws' branchTip_def laneState_def mkValue_eq_Inr setValue_def)
    have "lane_image (write_values ws (value_at s)) name nx"
      unfolding ws lane_image_tail[OF pending_slots_only[OF slots]]
      using im by (simp add: lane_image_def nx current_operation_id_def None)
    then show ?thesis
      using nul pending_slots_writes[OF slots] by (simp add: ws entry_writes slot_defs)
  next
    case (Some operation)
    from p Some obtain inbox where nul: "\<not> has_nul newId" "\<not> has_nul name"
      and ws: "ws = [WValueSet ns_pending_entry newId (VPending pending),
        WValueSet ns_lane_state name (VLaneState
          (durableLaneState (current_operation_id state) inbox (la_lastOperationId state)))]"
      and nx: "nx = state\<lparr>la_inbox := inbox\<rparr>"
      by (auto simp: append_plan_def append_queued_def Let_def pendingEntry_def mkValue_eq_Inr setValue_def
          lane_slot_write_eq)
    have "lane_image (write_values ws (value_at s)) name nx"
      using inbox_image[OF image_other[OF im, of ns_pending_entry]] by (simp add: ws nx)
    then show ?thesis using nul by (simp add: ws slot_defs)
  qed
qed

lemma control_matches:
  "stateMatchesIntent intent (st\<lparr>op_scope := sc\<rparr>) = stateMatchesIntent intent st"
proof -
  have "op_leaf (st\<lparr>op_scope := sc\<rparr>) = op_leaf st" by simp
  then show ?thesis by (simp only: stateMatchesIntent_def)
qed

interpretation abort_plan: durable_plan name "{}" "requestAbort_plan name operationId requestedAt"
  for name operationId requestedAt
proof
  fix s state ws nx mat evs
  assume im: "lane_image (value_at s) name state"
    and p: "requestAbort_plan name operationId requestedAt state s = Inr (CommandCommit ws nx mat evs)"
  obtain operation where op: "la_operation state = Some operation" "me_operationId (op_meta operation) = operationId"
    using p by (cases "la_operation state") (auto simp: requestAbort_plan_def current_operation_id_def split: if_splits)
  let ?st = "(op_state operation)\<lparr>op_scope := (op_scope (op_state operation))\<lparr>os_control := CancelRequested requestedAt\<rparr>\<rparr>"
  let ?removed = "filter (\<lambda>item. ii_kind item = Steer \<or> ii_kind item = FollowUp) (la_inbox state)"
  from p op obtain slots inbox where nul: "\<not> has_nul name" "\<not> has_nul operationId"
    and slots: "esequence (map (\<lambda>item. pendingEntry (ii_entryId item)) ?removed) = Inr slots"
    and ws: "ws = map insertEntry [] @ map deleteValue slots @ [WValueSet ns_op_state operationId (VOpState ?st),
        WValueSet ns_lane_state name (VLaneState
          (durableLaneState (Some operationId) inbox (la_lastOperationId state)))]"
    and nx: "nx = state\<lparr>la_inbox := inbox, la_operation := Some (operation\<lparr>op_state := ?st\<rparr>)\<rparr>"
    by (auto simp: requestAbort_plan_def Let_def current_operation_id_def operationState_def mkValue_eq_Inr setValue_def
        lane_slot_write_eq split: control.splits)
  have "lane_image (write_values ws (value_at s)) name nx"
    unfolding ws lane_image_tail[OF pending_slots_only[OF slots]]
    using im op by (simp add: lane_image_def nx current_operation_id_def control_matches Let_def)
  then show "list_all addressed ws \<and> list_all (own_write name ({} \<union> set_option (current_operation_id state))) ws \<and>
    lane_image (write_values ws (value_at s)) name nx"
    using nul op pending_slots_writes[OF slots] by (simp add: ws slot_defs current_operation_id_def)
qed

interpretation usage_plan: durable_plan name "{}" "recordUsage_plan name u entryId details usageId"
  for name u entryId details usageId
  by unfold_locales (auto simp: recordUsage_plan_def insertUsage_def Let_def)

interpretation configuration_plan: durable_plan name "{}" "setConfiguration_plan name update event"
  for name update event
proof
  fix s state ws nx mat evs
  assume im: "lane_image (value_at s) name state"
    and p: "setConfiguration_plan name update event state s = Inr (CommandCommit ws nx mat evs)"
  from p have nul: "\<not> has_nul name"
    and ws: "ws = [WValueSet ns_lane_config name (VConfig (update (la_configuration state)))]"
    and nx: "nx = state\<lparr>la_configuration := update (la_configuration state)\<rparr>"
    by (auto simp: setConfiguration_plan_def Let_def laneConfig_def mkValue_eq_Inr setValue_def)
  have "lane_image (write_values ws (value_at s)) name nx"
    using im by (auto simp: ws nx lane_image_def current_operation_id_def Let_def split: option.splits)
  then show "list_all addressed ws \<and> list_all (own_write name ({} \<union> set_option (current_operation_id state))) ws \<and>
    lane_image (write_values ws (value_at s)) name nx"
    using nul by (simp add: ws slot_defs)
qed

section \<open>Operation commands\<close>

text \<open>
  The contract of the planners that advance an operation: they may write their own slots and the branch
  tip, report the tip and the configuration they wrote in the patch, and leave the metadata of the operation alone
  until they finish it. \<open>guard\<close> says at which operations the procedure runs the planner.
\<close>

definition plan_writes ::
  "jstring \<Rightarrow> jstring \<Rightarrow> lane_patch \<Rightarrow> storage_write list \<Rightarrow> (jstring \<times> jstring \<Rightarrow> stored option) \<Rightarrow> bool" where
  "plan_writes name i p ws V \<longleftrightarrow> list_all addressed ws \<and> list_all (own_write name {i}) ws \<and>
     write_values ws V (ns_branch_tip, name) =
       (case lp_tipId p of None \<Rightarrow> V (ns_branch_tip, name) | Some t \<Rightarrow> Some (VTip t)) \<and>
     write_values ws V (ns_lane_config, name) =
       (case lp_configuration p of None \<Rightarrow> V (ns_lane_config, name) | Some c \<Rightarrow> Some (VConfig c)) \<and>
     write_values ws V (ns_lane_state, name) = V (ns_lane_state, name)"

locale operation_planner =
  fixes name :: jstring and guard :: "operation \<Rightarrow> bool" and plan :: "'r operation_plan"
  assumes commit: "storage_inv s \<Longrightarrow> lane_image (value_at s) name state \<Longrightarrow> la_operation state = Some operation \<Longrightarrow>
      guard operation \<Longrightarrow>
      plan state (op_state operation) (op_meta operation) s = Inr (OperationCommit ws st p m ev) \<Longrightarrow>
      plan_writes name (me_operationId (op_meta operation)) p ws (value_at s) \<and>
      write_values ws (value_at s) (ns_op_meta, me_operationId (op_meta operation)) = Some (VMeta (op_meta operation)) \<and>
      stateMatchesIntent (me_intent (op_meta operation)) st"
    and finish: "storage_inv s \<Longrightarrow> lane_image (value_at s) name state \<Longrightarrow> la_operation state = Some operation \<Longrightarrow>
      guard operation \<Longrightarrow>
      plan state (op_state operation) (op_meta operation) s = Inr (OperationFinish ws result p m ev) \<Longrightarrow>
      plan_writes name (me_operationId (op_meta operation)) p ws (value_at s)"
begin

lemma settle_commits:
  assumes inv: "storage_inv s" and im: "lane_image (value_at s) name state"
    and g: "pred_option guard (la_operation state)"
    and p: "settle_plan name plan state s = Inr (CommandCommit ws nx mat evs)"
  shows "list_all addressed ws \<and> list_all (own_write name ({} \<union> set_option (current_operation_id state))) ws \<and>
    lane_image (write_values ws (value_at s)) name nx"
proof -
  from p obtain operation decision where op: "la_operation state = Some operation"
    and d: "plan state (op_state operation) (op_meta operation) s = Inr decision"
      "settle_decision name state (op_meta operation) decision = Inr (CommandCommit ws nx mat evs)"
    by (auto simp: settle_plan_def split: option.splits)
  let ?i = "me_operationId (op_meta operation)"
  have run: "guard operation" using g op by simp
  have ids: "set_option (current_operation_id state) = {?i}" by (simp add: op current_operation_id_def)
  have nul: "\<not> has_nul name" "\<not> has_nul ?i" using im op by (auto simp: lane_image_def Let_def)
  show ?thesis
  proof (cases decision)
    case (OperationReturn r)
    then show ?thesis using d by (simp add: settle_decision_def)
  next
    case (OperationCommit cws st pt m ev)
    note ok = commit[OF inv im op run d(1)[unfolded OperationCommit]]
    let ?tail = "WValueSet ns_op_state ?i (VOpState st) # (case lp_inbox pt of None \<Rightarrow> [] | Some inbox \<Rightarrow>
        [WValueSet ns_lane_state name (VLaneState (durableLaneState (Some ?i) inbox (la_lastOperationId state)))])"
    have ws: "ws = cws @ ?tail" and nx: "nx = (apply_patch pt state)\<lparr>la_operation := Some \<lparr>op_meta = op_meta operation, op_state = st\<rparr>\<rparr>"
      using d(2) unfolding OperationCommit
      by (auto simp: settle_decision_def operationState_def laneState_def mkValue_eq_Inr setValue_def split: option.splits)
    have "lane_image (write_values ws (value_at s)) name nx"
      using ok im nul op
      by (auto simp: ws nx lane_image_def plan_writes_def apply_patch_def current_operation_id_def Let_def split: option.splits)
    then show ?thesis using ok nul by (auto simp: ids ws plan_writes_def slot_defs split: option.splits)
  next
    case (OperationFinish cws result pt m ev)
    note ok = finish[OF inv im op run d(1)[unfolded OperationFinish]]
    let ?inbox = "case lp_inbox pt of None \<Rightarrow> la_inbox state | Some i \<Rightarrow> i"
    have ws: "ws = cws @ [WValueSet ns_result ?i (VResult result),
        WValueSet ns_lane_state name (VLaneState (durableLaneState None ?inbox (Some ?i)))]"
      and nx: "nx = (apply_patch pt state)\<lparr>la_inbox := ?inbox, la_lastOperationId := Some ?i, la_operation := None\<rparr>"
      using d(2) unfolding OperationFinish
      by (auto simp: settle_decision_def operationResult_def laneState_def mkValue_eq_Inr setValue_def Let_def)
    have "lane_image (write_values ws (value_at s)) name nx"
      using ok im nul
      by (auto simp: ws nx lane_image_def plan_writes_def apply_patch_def current_operation_id_def split: option.splits)
    then show ?thesis using ok nul by (simp add: ids ws plan_writes_def slot_defs)
  qed
qed

end

sublocale operation_planner \<subseteq> settle: guarded_plan name "{}" "\<lambda>state. pred_option guard (la_operation state)" "settle_plan name plan"
  by unfold_locales (rule settle_commits)

context operation_planner
begin

lemma continues: "operation_planner name guard (continue_plan plan)"
proof
  fix s state operation ws st p m ev
  assume a: "storage_inv s" "lane_image (value_at s) name state" "la_operation state = Some operation"
    "guard operation" "continue_plan plan state (op_state operation) (op_meta operation) s = Inr (OperationCommit ws st p m ev)"
  from a(5) obtain d where d: "plan state (op_state operation) (op_meta operation) s = Inr d"
    "lift_decision d = OperationCommit ws st p m ev"
    by (auto simp: continue_plan_def split: control.splits)
  then obtain m' where "plan state (op_state operation) (op_meta operation) s = Inr (OperationCommit ws st p m' ev)"
    by (cases d) auto
  from commit[OF a(1-4) this] show "plan_writes name (me_operationId (op_meta operation)) p ws (value_at s) \<and>
      write_values ws (value_at s) (ns_op_meta, me_operationId (op_meta operation)) = Some (VMeta (op_meta operation)) \<and>
      stateMatchesIntent (me_intent (op_meta operation)) st" .
next
  fix s state operation ws result p m ev
  assume a: "storage_inv s" "lane_image (value_at s) name state" "la_operation state = Some operation"
    "guard operation" "continue_plan plan state (op_state operation) (op_meta operation) s = Inr (OperationFinish ws result p m ev)"
  from a(5) obtain d where d: "plan state (op_state operation) (op_meta operation) s = Inr d"
    "lift_decision d = OperationFinish ws result p m ev"
    by (auto simp: continue_plan_def split: control.splits)
  then obtain m' where "plan state (op_state operation) (op_meta operation) s = Inr (OperationFinish ws result p m' ev)"
    by (cases d) auto
  from finish[OF a(1-4) this] show "plan_writes name (me_operationId (op_meta operation)) p ws (value_at s)" .
qed

lemma settle_keeps:
  assumes "harness_inv h"
    and "\<And>l. map_get (ha_lanes h) name = Some l \<Longrightarrow> pred_option guard (la_operation (ln_state l))"
  shows "harness_inv (snd (settleOperation name plan now h))"
  unfolding settleOperation_def by (rule settle.keeps_ready[OF assms]) simp_all

end

context operation_planner
begin

lemma continue_keeps:
  assumes "harness_inv h"
    and "\<And>l. map_get (ha_lanes h) name = Some l \<Longrightarrow> pred_option guard (la_operation (ln_state l))"
  shows "harness_inv (snd (continueOperation name plan now h))"
  unfolding continueOperation_def by (rule operation_planner.settle_keeps[OF continues assms])

end

end
