(* ===== verification/BoundaryFacts.thy ===== *)
theory BoundaryFacts
  imports Boundary LaneDurable
begin

text \<open>
  The commands of a run's boundaries meet the contract of \<open>operation_planner\<close>: what a placement writes,
  what the terminal cleanup deletes, and one interpretation for each procedure.
\<close>

section \<open>The writes of a placement\<close>

lemma chainEntries_eq_Nil [simp]: "chainEntries t es = [] \<longleftrightarrow> es = []"
  by (cases es) simp_all

lemma placed_tip_Nil [simp]: "placed_tip t [] = t"
  by (simp add: placed_tip_def)

lemma placement_commits:
  assumes p: "planBoundaryInbox name projectors state scope s t follow = Inr pl"
    and nul: "\<not> has_nul name" and tip: "V (ns_branch_tip, name) = Some (VTip t)"
  shows "list_all addressed (bp_writes pl)" "list_all (own_write name ids) (bp_writes pl)"
    "write_values (bp_writes pl) V (ns_branch_tip, name) = Some (VTip (bp_tipId pl))"
    "ns \<noteq> ns_pending_entry \<Longrightarrow> ns \<noteq> ns_branch_tip \<Longrightarrow> write_values (bp_writes pl) V (ns, k) = V (ns, k)"
proof -
  obtain selected :: "(nat \<times> inbox_item) list" and pending slots tipWrites queues where
    slots: "esequence (map (\<lambda>x. pendingEntry (ii_entryId (snd x))) selected) = Inr slots"
    and tw: "(if placed_entries t pending = [] then Inr []
      else ebind (branchTip name) (\<lambda>a. Inr [setValue a (VTip (placed_tip t pending))])) = Inr tipWrites"
    and pl': "\<lparr>bp_entries = placed_entries t pending,
        bp_writes = map insertEntry (placed_entries t pending) @ map deleteValue slots @ tipWrites,
        bp_tipId = placed_tip t pending,
        bp_inbox = withoutInboxItems (la_inbox state) (map snd selected),
        bp_triggerEntryId = placed_trigger projectors pending, bp_queues = queues\<rparr> = pl"
    using p unfolding planBoundaryInbox_def Let_def
    by (elim ebind_Inr_E) (simp only: sum.inject)
  have pl: "bp_tipId pl = placed_tip t pending"
      "bp_writes pl = map insertEntry (placed_entries t pending) @ map deleteValue slots @
        (if pending = [] then [] else [WValueSet ns_branch_tip name (VTip (placed_tip t pending))])"
    using tw pl'[symmetric]
    by (auto simp: branchTip_def mkValue_eq_Inr setValue_def placed_entries_def split: if_splits)
  show "list_all addressed (bp_writes pl)" "list_all (own_write name ids) (bp_writes pl)"
    using pending_slots_writes[OF slots] nul by (auto simp: pl entry_writes slot_defs)
  have tail: "write_values (bp_writes pl) V (ns, k) =
      write_values (if pending = [] then [] else [WValueSet ns_branch_tip name (VTip (placed_tip t pending))]) V (ns, k)"
    if "ns \<noteq> ns_pending_entry" for ns k
    unfolding pl(2) by (rule write_values_tail[OF pending_slots_only[OF slots] that])
  show "write_values (bp_writes pl) V (ns_branch_tip, name) = Some (VTip (bp_tipId pl))"
    using tail[of ns_branch_tip name] tip by (simp add: pl)
  show "write_values (bp_writes pl) V (ns, k) = V (ns, k)" if "ns \<noteq> ns_pending_entry" "ns \<noteq> ns_branch_tip"
    using tail[OF that(1), of k] that(2) by simp
qed

text \<open>A placement that is published in full, followed by writes outside the lane's own slots.\<close>

lemma placement_plan_writes:
  assumes p: "planBoundaryInbox name projectors state scope s (la_tipId state) follow = Inr pl"
    and im: "lane_image V name state"
    and extra: "list_all addressed ws" "list_all (own_write name {i}) ws"
      "\<And>V. write_values ws V (ns_branch_tip, name) = V (ns_branch_tip, name)"
      "\<And>V. write_values ws V (ns_lane_config, name) = V (ns_lane_config, name)"
      "\<And>V. write_values ws V (ns_lane_state, name) = V (ns_lane_state, name)"
  shows "plan_writes name i (placement_patch (bp_tipId pl) pl) (bp_writes pl @ ws) V"
proof -
  have h: "\<not> has_nul name" "V (ns_branch_tip, name) = Some (VTip (la_tipId state))"
    using im by (auto simp: lane_image_def)
  note pw = placement_commits[where V = V, OF p h]
  show ?thesis
    using extra pw(1,2) by (simp add: plan_writes_def placement_patch_def pw(3,4))
qed

section \<open>The terminal cleanup\<close>

lemma scanned_deletes:
  assumes inv: "storage_inv s" and w: "w \<in> set (delete_scanned pre s)"
  obtains k where "w = WValueDelete (ad_namespace pre) k" "validateAddress (ad_namespace pre) k = Inr ()"
proof -
  from w obtain v where v: "w = deleteValue (sv_address v)" "ad_namespace (sv_address v) = ad_namespace pre"
    "v \<in> set (map_values (sst_scalarValues s))"
    by (auto simp: delete_scanned_def scanValues_def)
  from v(3) obtain key where "(key, v) \<in> set (sst_scalarValues s)" by (auto simp: map_values_def)
  then have "mkValue (ad_namespace (sv_address v)) (ad_key (sv_address v)) = Inr (sv_address v)"
    using inv by (auto simp: storage_inv_def scalars_wf_def scalar_wf_def)
  then show thesis using that v by (auto simp: mkValue_eq_Inr deleteValue_def validateAddress_def)
qed

definition cleanup_write :: "jstring \<Rightarrow> storage_write \<Rightarrow> bool" where
  "cleanup_write i w \<longleftrightarrow> addressed w \<and>
     (case w of
        WValueDelete ns k \<Rightarrow> ns \<in> {ns_tool_args, ns_tool_memo, ns_preparation, ns_tool_output, ns_pending_entry} \<or>
          (ns \<in> {ns_op_meta, ns_op_state} \<and> k = i)
      | WListDelete ns k \<Rightarrow> True
      | _ \<Rightarrow> False)"

lemma cleanup_writes:
  assumes inv: "storage_inv s" and c: "operationCleanupWrites s i state = Inr ws"
  shows "list_all (cleanup_write i) ws"
proof -
  from c obtain argsP memoP prepP outP frames meta st pending where
    addr: "operationToolArgsPrefix i None = Inr argsP" "operationToolMemoPrefix i None = Inr memoP"
      "operationPreparationPrefix i = Inr prepP" "pendingToolOutputPrefix i = Inr outP"
      "operationMeta i = Inr meta" "operationState i = Inr st"
    and frames: "frame_delete i (op_leaf state) = Inr frames"
    and pending: "esequence (map pendingEntry (ready_ids (op_leaf state))) = Inr pending"
    and ws: "ws = [deleteValue meta, deleteValue st] @ delete_scanned argsP s @ delete_scanned memoP s @
      delete_scanned prepP s @ delete_scanned outP s @ frames @ map deleteValue pending"
    by (auto simp: operationCleanupWrites_def)
  note defs = operationToolArgsPrefix_def operationToolMemoPrefix_def operationPreparationPrefix_def
    pendingToolOutputPrefix_def operationMeta_def operationState_def mkValue_eq_Inr
  have ns: "ad_namespace argsP = ns_tool_args" "ad_namespace memoP = ns_tool_memo"
    "ad_namespace prepP = ns_preparation" "ad_namespace outP = ns_tool_output"
    using addr by (simp_all add: defs)
  have scanned: "list_all (cleanup_write i) (delete_scanned p s)"
    if "ad_namespace p \<in> {ns_tool_args, ns_tool_memo, ns_preparation, ns_tool_output}" for p
    unfolding list_all_iff
  proof
    fix w assume "w \<in> set (delete_scanned p s)"
    then obtain k where "w = WValueDelete (ad_namespace p) k" "validateAddress (ad_namespace p) k = Inr ()"
      by (rule scanned_deletes[OF inv])
    then show "cleanup_write i w" using that by (auto simp: cleanup_write_def)
  qed
  have slots: "cleanup_write i (deleteValue meta)" "cleanup_write i (deleteValue st)"
    using addr by (auto simp: defs cleanup_write_def deleteValue_def validateAddress_def)
  have fr: "list_all (cleanup_write i) frames"
    using frames by (auto simp: frame_delete_def cleanup_write_def deleteList_def pendingAssistantFrames_def
        mkList_eq_Inr validateAddress_def split: operation_leaf.splits)
  have pe: "list_all (cleanup_write i) (map deleteValue pending)"
    unfolding list_all_iff
  proof
    fix w assume "w \<in> set (map deleteValue pending)"
    then obtain a where a: "a \<in> set pending" "w = deleteValue a" by auto
    with pending_slots[of "\<lambda>x. x"] pending have "ad_namespace a = ns_pending_entry" "addressed (deleteValue a)" by auto
    then show "cleanup_write i w" by (simp add: cleanup_write_def a(2) deleteValue_def)
  qed
  show ?thesis unfolding ws using slots fr pe by (simp add: scanned ns)
qed

lemma cleanup_frames:
  assumes "list_all (cleanup_write i) ws"
  shows "list_all addressed ws" "list_all (own_write name {i}) ws"
    "lane_ns ns \<Longrightarrow> write_values ws V (ns, k) = V (ns, k)"
proof -
  show "list_all addressed ws" using assms by (induction ws) (auto simp: cleanup_write_def)
  show "list_all (own_write name {i}) ws"
    using assms by (induction ws) (auto simp: cleanup_write_def lane_ns_def operation_ns_def split: storage_write.splits)
  show "write_values ws V (ns, k) = V (ns, k)" if "lane_ns ns"
    using assms
  proof (induction ws arbitrary: V)
    case (Cons w ws)
    then show ?case using that by (cases w) (auto simp: cleanup_write_def lane_ns_def)
  qed simp
qed

section \<open>The procedures as planners\<close>

definition run_guard :: "jstring \<Rightarrow> operation \<Rightarrow> bool" where
  "run_guard runId operation \<longleftrightarrow>
     me_operationId (op_meta operation) = runId \<and> intent_kind (me_intent (op_meta operation)) = RunKind"

lemma run_intent: "intent_kind i = RunKind \<longleftrightarrow> (\<exists>ps. i = RunIntent ps)"
  by (cases i) auto

text \<open>The leaves a run may move to.\<close>

lemma ready_matches [simp]:
  "stateMatchesIntent (RunIntent ps) (assistantReadyAtBoundary config stepId state scope trigger used)"
  "stateMatchesIntent (RunIntent ps) \<lparr>op_scope = sc, op_leaf = Checkpoint ck\<rparr>"
  "stateMatchesIntent (RunIntent ps) \<lparr>op_scope = sc, op_leaf = SummaryDeciding t\<rparr> \<longleftrightarrow>
     (\<exists>ck. st_boundary t = ResumeCheckpoint ck)"
  by (auto simp: stateMatchesIntent_def assistantReadyAtBoundary_def split: result_boundary.splits)

interpretation finish_context: operation_planner name guard "finish_context_plan projectors" for name guard projectors
  by unfold_locales (auto simp: finish_context_plan_def split: option.splits)

interpretation start_prompt: operation_planner name guard start_prompt_plan for name guard
  by unfold_locales (auto simp: start_prompt_plan_def split: op_intent.splits)

interpretation start_run: operation_planner name "run_guard runId" "start_run_plan name runId reserved"
  for name runId reserved
proof
  fix s state operation ws st pt m ev
  assume im: "lane_image (value_at s) name state" and op: "la_operation state = Some operation"
    and g: "run_guard runId operation"
    and p: "start_run_plan name runId reserved state (op_state operation) (op_meta operation) s = Inr (OperationCommit ws st pt m ev)"
  let ?entries = "chainEntries (la_tipId state)
    (map (\<lambda>(i, m). \<lparr>ne_id = i, ne_parentId = None, ne_body = MessageBody m False\<rparr>) reserved)"
  from p obtain trigger where t: "(if ?entries = [] then la_tipId state else Some (ne_id (last ?entries))) = Some trigger"
    by (auto simp: start_run_plan_def Let_def split: option.splits)
  with p have ws: "ws = map insertEntry ?entries @ map deleteValue [] @
      (if reserved = [] then [] else [WValueSet ns_branch_tip name (VTip (Some trigger))])"
    and pt: "pt = \<lparr>lp_tipId = Some (Some trigger), lp_configuration = None, lp_inbox = None\<rparr>"
    and st: "st = \<lparr>op_scope = operationScopeOf (op_state operation),
       op_leaf = Checkpoint \<lparr>ck_continuation = NeedAssistant False, ck_triggerEntryId = trigger\<rparr>\<rparr>"
    by (auto simp: start_run_plan_def Let_def branchTip_def mkValue_eq_Inr setValue_def split: if_splits)
  have "write_values ws (value_at s) (ns, k) =
      write_values (if reserved = [] then [] else [WValueSet ns_branch_tip name (VTip (Some trigger))]) (value_at s) (ns, k)" for ns k
    unfolding ws by simp
  with im t op have V: "write_values ws (value_at s) (ns_branch_tip, name) = Some (VTip (Some trigger))"
    "ns \<noteq> ns_branch_tip \<Longrightarrow> write_values ws (value_at s) (ns, k) = value_at s (ns, k)" for ns k
    by (auto simp: lane_image_def split: if_splits)
  show "plan_writes name (me_operationId (op_meta operation)) pt ws (value_at s) \<and>
      write_values ws (value_at s) (ns_op_meta, me_operationId (op_meta operation)) = Some (VMeta (op_meta operation)) \<and>
      stateMatchesIntent (me_intent (op_meta operation)) st"
    using im op g
    by (auto simp: plan_writes_def V pt st run_guard_def run_intent lane_image_def Let_def)
      (auto simp: ws entry_writes slot_defs)
qed (auto simp: start_run_plan_def Let_def split: option.splits)

text \<open>A commit of a placement: its writes, then writes to slots no lane is restored from.\<close>

lemma placement_operation:
  assumes p: "planBoundaryInbox name projectors state scope s (la_tipId state) follow = Inr pl"
    and im: "lane_image (value_at s) name state" and op: "la_operation state = Some operation"
    and i: "me_operationId (op_meta operation) = i"
    and extra: "list_all addressed ws" "list_all (own_write name {i}) ws"
      "\<And>V ns k. lane_ns ns \<or> ns = ns_op_meta \<Longrightarrow> write_values ws V (ns, k) = V (ns, k)"
  shows "plan_writes name i (placement_patch (bp_tipId pl) pl) (bp_writes pl @ ws) (value_at s) \<and>
    write_values (bp_writes pl @ ws) (value_at s) (ns_op_meta, i) = Some (VMeta (op_meta operation))"
proof -
  have "write_values (bp_writes pl @ ws) (value_at s) (ns_op_meta, i) = value_at s (ns_op_meta, i)"
    using extra(3)[of ns_op_meta] placement_commits(4)[OF p, of "value_at s" ns_op_meta i] im
    by (auto simp: lane_image_def)
  then show ?thesis
    using placement_plan_writes[OF p im extra(1,2)] extra(3) im op i
    by (auto simp: lane_image_def lane_ns_def Let_def)
qed


lemma renew_run_commits:
  assumes r: "renew_run config stepId name runId state current pl trigger used evs = OperationCommit ws st pt m ev"
    and p: "planBoundaryInbox name projectors state scope s (la_tipId state) follow = Inr pl"
    and im: "lane_image (value_at s) name state" and op: "la_operation state = Some operation"
    and g: "run_guard runId operation"
  shows "plan_writes name (me_operationId (op_meta operation)) pt ws (value_at s) \<and>
    write_values ws (value_at s) (ns_op_meta, me_operationId (op_meta operation)) = Some (VMeta (op_meta operation)) \<and>
    stateMatchesIntent (me_intent (op_meta operation)) st"
  using placement_operation[OF p im op refl, of "[]"] r g
  by (auto simp: renew_run_def run_guard_def run_intent)

text \<open>What follows a placement when the run goes on: at most the tip, an entry and a preparation.\<close>

lemma placement_tip_operation:
  assumes p: "planBoundaryInbox name projectors state scope s (la_tipId state) follow = Inr pl"
    and im: "lane_image (value_at s) name state" and op: "la_operation state = Some operation"
  shows "plan_writes name (me_operationId (op_meta operation)) (placement_patch (Some t) pl)
      (bp_writes pl @ [insertEntry e, WValueSet ns_branch_tip name (VTip (Some t))]) (value_at s) \<and>
    write_values (bp_writes pl @ [insertEntry e, WValueSet ns_branch_tip name (VTip (Some t))]) (value_at s)
      (ns_op_meta, me_operationId (op_meta operation)) = Some (VMeta (op_meta operation))"
proof -
  have h: "\<not> has_nul name" "value_at s (ns_branch_tip, name) = Some (VTip (la_tipId state))"
    "value_at s (ns_op_meta, me_operationId (op_meta operation)) = Some (VMeta (op_meta operation))"
    using im op by (auto simp: lane_image_def Let_def)
  note pw = placement_commits[where V = "value_at s", OF p h(1,2)]
  show ?thesis
    using pw(1,2) h(1,3) by (auto simp: plan_writes_def placement_patch_def pw(4) insertEntry_def slot_defs)
qed

interpretation finish_boundary: operation_planner name "run_guard runId"
  "finish_boundary_plan config name runId stepId includeFinal planned followUp pendingEvents now"
  for name runId config stepId includeFinal planned followUp pendingEvents now
proof
  fix s state operation ws st pt m ev
  assume im: "lane_image (value_at s) name state" and op: "la_operation state = Some operation"
    and g: "run_guard runId operation"
    and c: "finish_boundary_plan config name runId stepId includeFinal planned followUp pendingEvents now state
      (op_state operation) (op_meta operation) s = Inr (OperationCommit ws st pt m ev)"
  from c obtain pl where p: "planBoundaryInbox name (cf_entryProjectors config) state (op_scope (op_state operation)) s
      (la_tipId state) True = Inr pl"
    unfolding finish_boundary_plan_def by (rule ebind_Inr_E)
  show "plan_writes name (me_operationId (op_meta operation)) pt ws (value_at s) \<and>
      write_values ws (value_at s) (ns_op_meta, me_operationId (op_meta operation)) = Some (VMeta (op_meta operation)) \<and>
      stateMatchesIntent (me_intent (op_meta operation)) st"
  proof (cases "bp_triggerEntryId pl")
    case None
    then obtain f msg where "ws = bp_writes pl @ [insertEntry \<lparr>ne_id = f, ne_parentId = bp_tipId pl, ne_body = MessageBody msg False\<rparr>,
        WValueSet ns_branch_tip name (VTip (Some f))]"
      and "st = assistantReadyAtBoundary config stepId state (op_scope (op_state operation)) f False"
      and "pt = placement_patch (Some f) pl"
      using c p by (auto simp: finish_boundary_plan_def Let_def branchTip_def mkValue_eq_Inr setValue_def
          split: if_splits option.splits)
    then show ?thesis using placement_tip_operation[OF p im op] g by (auto simp: run_guard_def run_intent)
  next
    case (Some trigger)
    then have "renew_run config stepId name runId state (op_state operation) pl trigger False pendingEvents =
        OperationCommit ws st pt m ev"
      using c p by (simp add: finish_boundary_plan_def)
    then show ?thesis by (rule renew_run_commits[OF _ p im op g])
  qed
next
  fix s state operation ws result pt m ev
  assume inv: "storage_inv s" and im: "lane_image (value_at s) name state" and op: "la_operation state = Some operation"
    and g: "run_guard runId operation"
    and c: "finish_boundary_plan config name runId stepId includeFinal planned followUp pendingEvents now state
      (op_state operation) (op_meta operation) s = Inr (OperationFinish ws result pt m ev)"
  from c obtain pl where p: "planBoundaryInbox name (cf_entryProjectors config) state (op_scope (op_state operation)) s
      (la_tipId state) True = Inr pl"
    unfolding finish_boundary_plan_def by (rule ebind_Inr_E)
  with c obtain cleanup where cl: "operationCleanupWrites s runId (op_state operation) = Inr cleanup"
    and ws: "ws = bp_writes pl @ cleanup" and pt: "pt = placement_patch (bp_tipId pl) pl"
    by (auto simp: finish_boundary_plan_def Let_def renew_run_def split: if_splits option.splits)
  note cf = cleanup_frames[OF cleanup_writes[OF inv cl]]
  have i: "me_operationId (op_meta operation) = runId" using g by (simp add: run_guard_def)
  show "plan_writes name (me_operationId (op_meta operation)) pt ws (value_at s)"
    unfolding ws pt i
    by (rule placement_plan_writes[OF p im cf(1,2)]) (simp_all add: cf(3) lane_ns_def)
qed

interpretation checkpoint: operation_planner name "run_guard runId"
  "checkpoint_plan config name runId stepId threshold" for name runId config stepId threshold
proof
  fix s state operation ws st pt m ev
  assume im: "lane_image (value_at s) name state" and op: "la_operation state = Some operation"
    and g: "run_guard runId operation"
    and c: "checkpoint_plan config name runId stepId threshold state (op_state operation) (op_meta operation) s =
      Inr (OperationCommit ws st pt m ev)"
  then obtain ck where ck: "op_leaf (op_state operation) = Checkpoint ck"
    by (auto simp: checkpoint_plan_def split: operation_leaf.splits)
  from c ck obtain follow pl where p: "planBoundaryInbox name (cf_entryProjectors config) state (op_scope (op_state operation)) s
      (la_tipId state) follow = Inr pl"
    and d: "checkpoint_decision config name runId stepId threshold state (op_state operation) ck pl = Inr (OperationCommit ws st pt m ev)"
    by (auto simp: checkpoint_plan_def)
  show "plan_writes name (me_operationId (op_meta operation)) pt ws (value_at s) \<and>
      write_values ws (value_at s) (ns_op_meta, me_operationId (op_meta operation)) = Some (VMeta (op_meta operation)) \<and>
      stateMatchesIntent (me_intent (op_meta operation)) st"
  proof (cases "bp_triggerEntryId pl = None \<and> threshold \<noteq> None")
    case True
    with d obtain taskId prep where ws: "ws = bp_writes pl @ [WValueSet ns_preparation (runId @ COLON @ taskId) (VPreparation prep)]"
      and nul: "\<not> has_nul (runId @ COLON @ taskId)"
      and eqs: "pt = placement_patch (bp_tipId pl) pl" "op_leaf st = SummaryDeciding \<lparr>st_taskId = taskId, st_reason = Some ThresholdReason,
        st_customInstructions = None, st_boundary = ResumeCheckpoint ck\<rparr>"
      by (auto simp: checkpoint_decision_def Let_def operationPreparation_def mkValue_eq_Inr setValue_def)
    have "plan_writes name (me_operationId (op_meta operation)) pt ws (value_at s) \<and>
      write_values ws (value_at s) (ns_op_meta, me_operationId (op_meta operation)) = Some (VMeta (op_meta operation))"
      unfolding ws eqs(1)
      by (rule placement_operation[OF p im op refl]) (use nul in \<open>auto simp: slot_defs\<close>)
    then show ?thesis using g eqs(2) by (cases st) (auto simp: run_guard_def run_intent)
  next
    case False
    then obtain trigger used m' where
      "renew_run config stepId name runId state (op_state operation) pl trigger used [] = OperationCommit ws st pt m' ev"
      using d by (cases "bp_triggerEntryId pl"; cases threshold) (auto simp: checkpoint_decision_def Let_def renew_run_def split: continuation.splits)
    then show ?thesis by (rule renew_run_commits[OF _ p im op g])
  qed
qed (auto simp: checkpoint_plan_def checkpoint_decision_def Let_def renew_run_def
    split: operation_leaf.splits option.splits continuation.splits)

end
