(* ===== verification/LaneDrive.thy ===== *)
theory LaneDrive
  imports LaneQueue
begin

text \<open>
  Drives, idle ownership and the reading calls of a lane (\<open>runtime/lane.ts\<close>), and the loop of
  \<open>runtime/drive.ts\<close>. A drive is a process-local object: its serial number stands for its identity. The
  waiting calls (\<open>drive\<close>, \<open>waitForIdle\<close>, \<open>runWhenIdle\<close>) are modelled by one turn of their loop; a turn that
  has to wait changes nothing and the caller makes another one later. In the calls that accept an
  operation and then drive it, the two phases are arguments, so that anything may happen between them.
\<close>

section \<open>Owners of a lane\<close>

definition update_lane :: "jstring \<Rightarrow> (lane \<Rightarrow> lane) \<Rightarrow> harness \<Rightarrow> harness" where
  "update_lane name f h =
     (case map_get (ha_lanes h) name of
        None \<Rightarrow> h
      | Some l \<Rightarrow> h\<lparr>ha_lanes := map_set name (f l) (ha_lanes h)\<rparr>)"

datatype drive_claim =
    Observe drive bool
  | Occupied drive
  | ClaimSettled operation_result_record
  | ClaimMismatch lane_error

text \<open>\<open>aborted\<close> is the reason of the caller's abort signal, if it is aborted.\<close>

definition drive_claim_plan ::
  "jstring \<Rightarrow> js_error option \<Rightarrow> drive_options \<Rightarrow> nat \<Rightarrow> lane \<Rightarrow> storage_state \<Rightarrow>
   js_error + ((js_error + drive_claim) \<times> lane)" where
  "drive_claim_plan name aborted options serial l s =
     (case aborted of
        Some e \<Rightarrow> Inr (Inl e, l)
      | None \<Rightarrow>
          if current_operation_id (ln_state l) = Some (do_operationId options) then
            (case ln_drive l of
               None \<Rightarrow> (let d = new_drive serial options in Inr (Inr (Observe d True), l\<lparr>ln_drive := Some d\<rparr>))
             | Some d \<Rightarrow>
                 Inr (Inr (if dr_operationId d = do_operationId options then Observe d False else Occupied d), l))
          else
            ebind (operationResult (do_operationId options)) (\<lambda>slot.
            case getValue slot s of
              None \<Rightarrow> Inr (Inr (ClaimMismatch (lane_mismatch name (do_operationId options) (ln_state l))), l)
            | Some v \<Rightarrow> ebind (as_result (sv_value v)) (\<lambda>r. Inr (Inr (ClaimSettled r), l))))"

fun installed :: "drive_claim outcome \<Rightarrow> bool" where
  "installed (Returned (Observe d fresh)) = fresh"
| "installed _ = False"

definition drive_claim ::
  "jstring \<Rightarrow> js_error option \<Rightarrow> drive_options \<Rightarrow> harness \<Rightarrow> drive_claim lane_result outcome \<times> harness" where
  "drive_claim name aborted options h =
     when_open name h
       (let (out, h') = lane_claim name (drive_claim_plan name aborted options (ha_serial h)) h in
        (map_outcome Inr out, if installed out then h'\<lparr>ha_serial := Suc (ha_serial h')\<rparr> else h'))"

text \<open>The two callbacks of an installed drive: the pass returned an outcome, or failed.\<close>

definition clear_drive :: "nat \<Rightarrow> lane \<Rightarrow> lane" where
  "clear_drive serial l =
     (if map_option dr_serial (ln_drive l) = Some serial then l\<lparr>ln_drive := None\<rparr> else l)"

definition drive_settled :: "jstring \<Rightarrow> nat \<Rightarrow> harness \<Rightarrow> harness" where
  "drive_settled name serial h = update_lane name (clear_drive serial) h"

definition drive_failed :: "jstring \<Rightarrow> nat \<Rightarrow> harness \<Rightarrow> js_error \<times> harness" where
  "drive_failed name serial h =
     (case map_get (ha_lanes h) name of
        None \<Rightarrow> harness_fault h
      | Some l \<Rightarrow>
          (let (failure, h') = (case ln_closed l of Some e \<Rightarrow> (e, h) | None \<Rightarrow> harness_fault h) in
           (failure, update_lane name (clear_drive serial) h')))"

text \<open>What the claim means for the caller of \<open>drive\<close>: an answer, or a drive to wait for (\<open>None\<close>).\<close>

definition claim_answer :: "drive_claim \<Rightarrow> drive_outcome lane_result option" where
  "claim_answer c =
     (case c of
        ClaimSettled r \<Rightarrow> Some (Inr (DriveSettled r))
      | ClaimMismatch e \<Rightarrow> Some (Inl e)
      | _ \<Rightarrow> None)"

section \<open>Idle ownership\<close>

definition is_idle :: "lane \<Rightarrow> bool" where
  "is_idle l \<longleftrightarrow> la_operation (ln_state l) = None \<and> ln_drive l = None"

text \<open>One turn of \<open>waitForIdle\<close>: \<open>True\<close> when the lane is idle, \<open>False\<close> when the caller has to wait.\<close>

definition waitForIdle :: "jstring \<Rightarrow> harness \<Rightarrow> bool outcome \<times> harness" where
  "waitForIdle name = lane_claim name (\<lambda>l s. Inr (Inr (is_idle l), l))"

text \<open>One turn of the claim of \<open>runWhenIdle\<close>: the serial number of the owner, or \<open>None\<close> to wait.\<close>

definition idle_claim_plan :: "nat \<Rightarrow> lane \<Rightarrow> storage_state \<Rightarrow> js_error + ((js_error + nat option) \<times> lane)" where
  "idle_claim_plan serial l s =
     Inr (if is_idle l then (Inr (Some serial), l\<lparr>ln_idle := Some serial\<rparr>) else (Inr None, l))"

definition idle_claim :: "jstring \<Rightarrow> harness \<Rightarrow> nat option outcome \<times> harness" where
  "idle_claim name h =
     (let (out, h') = lane_claim name (idle_claim_plan (ha_serial h)) h in
      (out, case out of Returned (Some owner) \<Rightarrow> h'\<lparr>ha_serial := Suc (ha_serial h')\<rparr> | _ \<Rightarrow> h'))"

text \<open>The \<open>finally\<close> block, after the callback returned or threw.\<close>

definition idle_release :: "jstring \<Rightarrow> nat \<Rightarrow> harness \<Rightarrow> harness" where
  "idle_release name owner = update_lane name (\<lambda>l. if ln_idle l = Some owner then l\<lparr>ln_idle := None\<rparr> else l)"

section \<open>Reading calls\<close>

definition capturedModel :: "operation \<Rightarrow> model_identity option" where
  "capturedModel operation =
     (case op_leaf (op_state operation) of
        AssistantReady g n \<Rightarrow> Some (lc_model (gc_configuration g))
      | AssistantEffectPending g n a b c d \<Rightarrow> Some (lc_model (gc_configuration g))
      | AssistantRetryWait g w \<Rightarrow> Some (lc_model (gc_configuration g))
      | Tools batch \<Rightarrow> Some (lc_model (tb_configuration batch))
      | DeferredSuspended d \<Rightarrow> Some (lc_model (ds_configuration d))
      | DeferredEffectPending d a b \<Rightarrow> Some (lc_model (ds_configuration d))
      | SummaryReady t c n \<Rightarrow> Some (lc_model (sc_configuration c))
      | SummaryEffectPending t c n r us \<Rightarrow> Some (lc_model (sc_configuration c))
      | SummaryRetryWait t c w \<Rightarrow> Some (lc_model (sc_configuration c))
      | _ \<Rightarrow> None)"

definition operation_status_of :: "operation_state \<Rightarrow> operation_status" where
  "operation_status_of state =
     (case os_control (op_scope state) of CancelRequested t \<Rightarrow> AbortingStatus | Running \<Rightarrow> OpenStatus)"

definition execution_info :: "jstring \<Rightarrow> lane_state \<Rightarrow> lane_execution_info" where
  "execution_info name state =
     \<lparr>le_lane = name, le_tipId = la_tipId state, le_configuredModel = lc_model (la_configuration state),
      le_current = map_option (\<lambda>operation.
        \<lparr>ci_id = me_operationId (op_meta operation), ci_kind = intent_kind (me_intent (op_meta operation)),
         ci_startedAt = me_startedAt (op_meta operation), ci_status = operation_status_of (op_state operation),
         ci_capturedModel = capturedModel operation\<rparr>) (la_operation state),
      le_lastOperationId = la_lastOperationId state\<rparr>"

definition inspectExecution :: "jstring \<Rightarrow> harness \<Rightarrow> lane_execution_info outcome \<times> harness" where
  "inspectExecution name = readLane name (\<lambda>state s. Inr (execution_info name state))"

text \<open>Calls outside the mutation line: the open check, then the live state or a read of the session.\<close>

definition when_lane_open :: "jstring \<Rightarrow> harness \<Rightarrow> (lane \<Rightarrow> 'a outcome) \<Rightarrow> 'a outcome" where
  "when_lane_open name h f =
     (case map_get (ha_lanes h) name of
        None \<Rightarrow> Threw (SessionInvariant ''no such lane object'')
      | Some l \<Rightarrow> (case ln_closed l of Some e \<Rightarrow> Threw e | None \<Rightarrow> f l))"

definition outcome_of :: "js_error + 'a \<Rightarrow> 'a outcome" where
  "outcome_of r = (case r of Inl e \<Rightarrow> Threw e | Inr x \<Rightarrow> Returned x)"

definition getTipId :: "jstring \<Rightarrow> harness \<Rightarrow> jstring option outcome" where
  "getTipId name h = when_lane_open name h (\<lambda>l. Returned (la_tipId (ln_state l)))"

definition getThinkingLevel :: "jstring \<Rightarrow> harness \<Rightarrow> thinking_level outcome" where
  "getThinkingLevel name h = when_lane_open name h (\<lambda>l. Returned (lc_thinkingLevel (la_configuration (ln_state l))))"

definition getActiveTools :: "jstring \<Rightarrow> harness \<Rightarrow> jstring list outcome" where
  "getActiveTools name h = when_lane_open name h (\<lambda>l. Returned (lc_activeToolNames (la_configuration (ln_state l))))"

text \<open>\<open>models\<close> is \<open>Models.getModel\<close>.\<close>

definition getModel :: "(jstring \<Rightarrow> jstring \<Rightarrow> 'model option) \<Rightarrow> jstring \<Rightarrow> harness \<Rightarrow> 'model option outcome" where
  "getModel models name h = when_lane_open name h (\<lambda>l.
     let m = lc_model (la_configuration (ln_state l)) in Returned (models (mi_provider m) (mi_modelId m)))"

definition read_result :: "jstring \<Rightarrow> storage_state \<Rightarrow> js_error + operation_result_record option" where
  "read_result operationId s =
     ebind (operationResult operationId) (\<lambda>slot. case getValue slot s of
       None \<Rightarrow> Inr None | Some v \<Rightarrow> ebind (as_result (sv_value v)) (\<lambda>r. Inr (Some r)))"

definition getResult :: "jstring \<Rightarrow> jstring \<Rightarrow> harness \<Rightarrow> operation_result_record option outcome" where
  "getResult name operationId h = when_lane_open name h (\<lambda>l.
     outcome_of (session_read (read_result operationId) (ha_session h)))"

text \<open>A lane query starts at the tip unless it names a start; \<open>None\<close> is a scan that never returns.\<close>

definition lane_findEntries ::
  "jstring \<Rightarrow> jstring option \<Rightarrow> branch_scan \<Rightarrow> harness \<Rightarrow> entry list outcome option" where
  "lane_findEntries name start query h =
     (case map_get (ha_lanes h) name of
        None \<Rightarrow> Some (Threw (SessionInvariant ''no such lane object''))
      | Some l \<Rightarrow>
          (case ln_closed l of
             Some e \<Rightarrow> Some (Threw e)
           | None \<Rightarrow>
               (case (case start of Some i \<Rightarrow> Some i | None \<Rightarrow> la_tipId (ln_state l)) of
                  None \<Rightarrow> Some (Returned [])
                | Some i \<Rightarrow>
                    (if se_state (ha_session h) \<noteq> Open then Some (Threw SessionClosed)
                     else map_option outcome_of (memory_scanBranch
                       (query\<lparr>bs_start := i,
                          bs_order := Some (case bs_order query of None \<Rightarrow> NewestFirst | Some d \<Rightarrow> d)\<rparr>)
                       (se_storage (ha_session h)))))))"

definition lane_findEntry ::
  "jstring \<Rightarrow> jstring option \<Rightarrow> branch_scan \<Rightarrow> harness \<Rightarrow> entry option outcome option" where
  "lane_findEntry name start query h =
     map_option (\<lambda>out. case out of
         Returned es \<Rightarrow> Returned (first_of es) | Threw e \<Rightarrow> Threw e | Blocked \<Rightarrow> Blocked)
       (lane_findEntries name start
         (query\<lparr>bs_limit := Some (case bs_limit query of None \<Rightarrow> 1 | Some n \<Rightarrow> min n 1)\<rparr>) h)"

section \<open>Accepting and driving\<close>

datatype driven_run = RunSettled operation_result_record | RunSuspended jstring deferred_handle

type_synonym 'a phase = "harness \<Rightarrow> 'a lane_result outcome \<times> harness"

text \<open>Continue with the value of a phase; an expected error is passed on, any other one is a fault.\<close>

definition then_or_fault :: "(lane_error \<Rightarrow> bool) \<Rightarrow> 'a phase \<Rightarrow> ('a \<Rightarrow> 'b phase) \<Rightarrow> 'b phase" where
  "then_or_fault expected phase k h =
     (case phase h of
        (Blocked, h') \<Rightarrow> (Blocked, h')
      | (Threw e, h') \<Rightarrow> (Threw e, h')
      | (Returned (Inr x), h') \<Rightarrow> k x h'
      | (Returned (Inl e), h') \<Rightarrow>
          if expected e then (Returned (Inl e), h') else (let (f, h'') = harness_fault h' in (Threw f, h'')))"

definition fault_phase :: "'a phase" where
  "fault_phase h = (let (f, h') = harness_fault h in (Threw f, h'))"

fun run_error :: "lane_error \<Rightarrow> bool" where
  "run_error (LaneBusy l i k) = True"
| "run_error (InvalidMessage l r) = True"
| "run_error (UnknownSkill n) = True"
| "run_error (UnknownTemplate n) = True"
| "run_error ClosedError = True"
| "run_error e = False"

fun compaction_error :: "lane_error \<Rightarrow> bool" where
  "compaction_error (LaneBusy l i k) = True"
| "compaction_error (NothingToCompact l) = True"
| "compaction_error ClosedError = True"
| "compaction_error e = False"

fun navigation_error :: "lane_error \<Rightarrow> bool" where
  "navigation_error (LaneBusy l i k) = True"
| "navigation_error (InvalidNavigation l r) = True"
| "navigation_error (UnknownTarget t) = True"
| "navigation_error ClosedError = True"
| "navigation_error e = False"

definition waited :: "jstring \<Rightarrow> drive_options" where
  "waited operationId = \<lparr>do_operationId = operationId, do_waitForRetry = Some True, do_pollDeferred = None\<rparr>"

text \<open>Drive an operation to its end or to a deferred suspension.\<close>

definition drive_run ::
  "(drive_options \<Rightarrow> drive_outcome phase) \<Rightarrow> drive_options \<Rightarrow> driven_run phase" where
  "drive_run drive options =
     then_or_fault (\<lambda>e. e = ClosedError) (drive options) (\<lambda>driven h. case driven of
       DriveSettled r \<Rightarrow> (Returned (Inr (RunSettled r)), h)
     | WaitingDeferred i handle \<Rightarrow> (Returned (Inr (RunSuspended (do_operationId options) handle)), h)
     | WaitingRetry i t \<Rightarrow> fault_phase h)"

definition driveRunRequest ::
  "operation_admission phase \<Rightarrow> (drive_options \<Rightarrow> drive_outcome phase) \<Rightarrow> driven_run phase" where
  "driveRunRequest accept_run drive =
     then_or_fault run_error accept_run (\<lambda>a. drive_run drive (waited (ad_operationId a)))"

definition driveStructuralAdmission ::
  "(drive_options \<Rightarrow> drive_outcome phase) \<Rightarrow> operation_admission \<Rightarrow> operation_result_record phase" where
  "driveStructuralAdmission drive a =
     then_or_fault (\<lambda>e. e = ClosedError) (drive (waited (ad_operationId a))) (\<lambda>driven h. case driven of
       DriveSettled r \<Rightarrow> (Returned (Inr r), h)
     | _ \<Rightarrow> fault_phase h)"

text \<open>
  The run of the queued messages that follows a structural operation, unless it was aborted. A lane that
  is busy or has nothing queued gets no run.
\<close>

definition continueAfterStructural ::
  "operation_admission phase \<Rightarrow> (drive_options \<Rightarrow> drive_outcome phase) \<Rightarrow> operation_result_record \<Rightarrow> driven_run option phase" where
  "continueAfterStructural accept_empty drive record h =
     (if or_status record = AbortedStatus then (Returned (Inr None), h)
      else (case accept_empty h of
          (Returned (Inl (InvalidMessage l r)), h') \<Rightarrow> (Returned (Inr None), h')
        | (Returned (Inl (LaneBusy l i k)), h') \<Rightarrow> (Returned (Inr None), h')
        | result \<Rightarrow> then_or_fault (\<lambda>e. e = ClosedError) (\<lambda>h''. result)
            (\<lambda>a. then_or_fault (\<lambda>e. True) (drive_run drive (waited (ad_operationId a)))
               (\<lambda>r h''. (Returned (Inr (Some r)), h''))) h))"

definition structural_call ::
  "(lane_error \<Rightarrow> bool) \<Rightarrow> operation_admission phase \<Rightarrow> operation_admission phase \<Rightarrow>
   (drive_options \<Rightarrow> drive_outcome phase) \<Rightarrow> (operation_result_record \<times> driven_run option) phase" where
  "structural_call expected accept_structural accept_empty drive =
     then_or_fault expected accept_structural (\<lambda>a.
     then_or_fault (\<lambda>e. True) (driveStructuralAdmission drive a) (\<lambda>record.
     then_or_fault (\<lambda>e. True) (continueAfterStructural accept_empty drive record)
       (\<lambda>run h. (Returned (Inr (record, run)), h))))"

definition lane_compact where "lane_compact = structural_call compaction_error"
definition navigateTree where "navigateTree = structural_call navigation_error"

definition inspect_resume :: "jstring \<Rightarrow> jstring phase" where
  "inspect_resume name h =
     when_open name h (lane_command name (\<lambda>state s. Inr (CommandReturn
       (case current_operation_id state of None \<Rightarrow> Inl (NothingToResume name) | Some i \<Rightarrow> Inr i))) 0 h)"

definition resume :: "jstring \<Rightarrow> (drive_options \<Rightarrow> drive_outcome phase) \<Rightarrow> driven_run phase" where
  "resume name drive =
     then_or_fault (\<lambda>e. True) (inspect_resume name) (\<lambda>i.
       drive_run drive \<lparr>do_operationId = i, do_waitForRetry = Some True, do_pollDeferred = Some True\<rparr>)"

record abort_result =
  at_operationId :: jstring
  at_steer :: "agent_message list"
  at_followUp :: "agent_message list"

definition inspect_abort :: "jstring \<Rightarrow> jstring phase" where
  "inspect_abort name h =
     when_open name h (lane_command name (\<lambda>state s. Inr (CommandReturn
       (case current_operation_id state of None \<Rightarrow> Inl (NoActiveOperation name) | Some i \<Rightarrow> Inr i))) 0 h)"

definition lane_abort ::
  "jstring \<Rightarrow> (jstring \<Rightarrow> abort_request phase) \<Rightarrow> (drive_options \<Rightarrow> drive_outcome phase) \<Rightarrow> abort_result phase" where
  "lane_abort name request drive =
     then_or_fault (\<lambda>e. True) (inspect_abort name) (\<lambda>i.
     then_or_fault (\<lambda>e. True) (\<lambda>h. case request i h of
         (Returned (Inl e), h') \<Rightarrow> (Returned (Inl (if e = ClosedError then ClosedError else NoActiveOperation name)), h')
       | result \<Rightarrow> result) (\<lambda>requested.
     then_or_fault (\<lambda>e. e = ClosedError)
       (drive \<lparr>do_operationId = i, do_waitForRetry = None, do_pollDeferred = None\<rparr>)
       (\<lambda>driven h. (Returned (Inr
          \<lparr>at_operationId = i, at_steer = ab_steer requested, at_followUp = ab_followUp requested\<rparr>), h))))"

end
