(* ===== verification/Harness.thy ===== *)
theory Harness
  imports LaneDrive
begin

text \<open>
  The harness of \<open>runtime/harness.ts\<close>: attaching to a session, acquiring lanes, the session's name and
  labels, and the process-local configuration with the validators of \<open>config.ts\<close>. A tool is only known by its
  name here.
\<close>

section \<open>Configuration\<close>

definition validateToolNames :: "jstring list \<Rightarrow> bool" where
  "validateToolNames names = distinct names"

definition validateRetryPolicy :: "retry_policy \<Rightarrow> bool" where
  "validateRetryPolicy policy \<longleftrightarrow>
     is_safe_integer (ry_maxRetries policy) \<and> \<not> ry_maxRetries policy < 0 \<and>
     ry_maxRetries policy \<noteq> MAX_SAFE_INTEGER \<and>
     is_safe_integer (ry_baseDelayMs policy) \<and> \<not> ry_baseDelayMs policy < 0 \<and>
     (case ry_maxAgentDelayMs policy of None \<Rightarrow> True | Some m \<Rightarrow> is_safe_integer m \<and> \<not> m < 0)"

definition validateCompactionSettings :: "compaction_settings \<Rightarrow> bool" where
  "validateCompactionSettings settings \<longleftrightarrow>
     is_safe_integer (cp_reserveTokens settings) \<and> \<not> cp_reserveTokens settings < 0 \<and>
     is_safe_integer (cp_keepRecentTokens settings) \<and> \<not> cp_keepRecentTokens settings < 0"

definition DEFAULT_RETRY_POLICY :: retry_policy where
  "DEFAULT_RETRY_POLICY = \<lparr>ry_enabled = True, ry_maxRetries = 3, ry_baseDelayMs = 1000, ry_maxAgentDelayMs = Some 60000\<rparr>"

definition DEFAULT_COMPACTION_SETTINGS :: compaction_settings where
  "DEFAULT_COMPACTION_SETTINGS = \<lparr>cp_enabled = True, cp_reserveTokens = 16384, cp_keepRecentTokens = 20000\<rparr>"

record harness_options =
  ho_model :: model_identity
  ho_thinkingLevel :: "thinking_level option"
  ho_toolNames :: "jstring list option"
  ho_activeToolNames :: "jstring list option"
  ho_skills :: "skill list option"
  ho_promptTemplates :: "prompt_template list option"
  ho_streamOptions :: "stream_options option"
  ho_retry :: "retry_policy option"
  ho_compaction :: "compaction_settings option"
  ho_steeringMode :: "queue_mode option"
  ho_followUpMode :: "queue_mode option"
  ho_toolExecution :: "tool_execution option"
  ho_entryProjectors :: entry_projectors

definition no_stream_options :: stream_options where
  "no_stream_options = \<lparr>so_transport = None, so_timeoutMs = None, so_maxRetries = None, so_maxRetryDelayMs = None,
     so_headers = None, so_metadata = None, so_cacheRetention = None, so_deferred = None\<rparr>"

abbreviation or_else :: "'a option \<Rightarrow> 'a \<Rightarrow> 'a" where
  "or_else x d \<equiv> (case x of None \<Rightarrow> d | Some v \<Rightarrow> v)"

definition initial_config :: "harness_options \<Rightarrow> harness_config" where
  "initial_config options =
     \<lparr>cf_skills = ho_skills options, cf_promptTemplates = ho_promptTemplates options,
      cf_streamOptions = or_else (ho_streamOptions options) no_stream_options,
      cf_retryPolicy = or_else (ho_retry options) DEFAULT_RETRY_POLICY,
      cf_compaction = or_else (ho_compaction options) DEFAULT_COMPACTION_SETTINGS,
      cf_steeringMode = or_else (ho_steeringMode options) AllItems,
      cf_followUpMode = or_else (ho_followUpMode options) AllItems,
      cf_toolExecution = or_else (ho_toolExecution options) ParallelTools,
      cf_entryProjectors = ho_entryProjectors options\<rparr>"

definition seed_configuration :: "harness_options \<Rightarrow> lane_configuration" where
  "seed_configuration options =
     \<lparr>lc_model = ho_model options, lc_thinkingLevel = or_else (ho_thinkingLevel options) TLOff,
      lc_activeToolNames = or_else (ho_activeToolNames options) (or_else (ho_toolNames options) [])\<rparr>"

section \<open>Attaching to a session\<close>

definition new_harness :: "harness_options \<Rightarrow> backed_session \<Rightarrow> (jstring, lane_state) jsmap \<Rightarrow> harness" where
  "new_harness options session restored =
     \<lparr>ha_session = session,
      ha_lanes = foldl (\<lambda>m (name, state). map_set name (new_lane name state) m) [] restored,
      ha_seed = seed_configuration options, ha_config = initial_config options,
      ha_closed = None, ha_faulted = None, ha_serial = 0, ha_log = []\<rparr>"

definition open_operations :: "(jstring, lane_state) jsmap \<Rightarrow> open_operation list" where
  "open_operations restored =
     concat (map (\<lambda>(lane, state). case la_operation state of
         None \<Rightarrow> []
       | Some operation \<Rightarrow>
           [\<lparr>oo_lane = lane, oo_operationId = me_operationId (op_meta operation),
             oo_kind = intent_kind (me_intent (op_meta operation)), oo_startedAt = me_startedAt (op_meta operation),
             oo_aborting = (case os_control (op_scope (op_state operation)) of CancelRequested t \<Rightarrow> True | Running \<Rightarrow> False)\<rparr>])
       restored)"

datatype attach_error = DuplicateToolName | InvalidRetryPolicy | InvalidCompactionSettings | AttachFault js_error

text \<open>A value read by a mutation that writes nothing: \<open>restoreSession\<close> runs in one.\<close>

definition createAgentHarness ::
  "harness_options \<Rightarrow> backed_session \<Rightarrow> attach_error + (harness \<times> open_operation list)" where
  "createAgentHarness options session =
     (if \<not> validateToolNames (or_else (ho_toolNames options) []) then Inl DuplicateToolName
      else if \<not> validateRetryPolicy (or_else (ho_retry options) DEFAULT_RETRY_POLICY) then Inl InvalidRetryPolicy
      else if \<not> validateCompactionSettings (or_else (ho_compaction options) DEFAULT_COMPACTION_SETTINGS)
           then Inl InvalidCompactionSettings
      else (case session_mutate (mutation_read restoreSession) session of
          (Inl e, se) \<Rightarrow> Inl (AttachFault e)
        | (Inr restored, se) \<Rightarrow> Inr (new_harness options se restored, open_operations restored)))"

section \<open>Acquiring a lane\<close>

definition invalid_lane_name :: "jstring \<Rightarrow> string option" where
  "invalid_lane_name name =
     (if name = [] then Some ''lane name must not be empty''
      else if has_nul name then Some ''lane name must not contain NUL'' else None)"

text \<open>What the callback of \<open>lane()\<close> decides: an existing or restored lane, a new one with its writes, or no target.\<close>

datatype attachment =
    RestoredLane lane_state
  | AttachedLane lane_state "storage_write list"
  | MissingTarget jstring

definition attached_state :: "lane_configuration \<Rightarrow> jstring option \<Rightarrow> lane_state" where
  "attached_state seed tipId =
     \<lparr>la_tipId = tipId, la_configuration = seed, la_inbox = [], la_lastOperationId = None, la_operation = None\<rparr>"

definition attach_lane :: "lane_configuration \<Rightarrow> jstring \<Rightarrow> bool \<Rightarrow> jstring option \<Rightarrow> js_error + attachment" where
  "attach_lane seed name absent tipId =
     ebind (if absent then ebind (branchTip name) (\<lambda>a. Inr [setValue a (VTip tipId)]) else Inr []) (\<lambda>tipWrites.
     ebind (laneConfig name) (\<lambda>configSlot.
     ebind (laneState name) (\<lambda>stateSlot.
     Inr (AttachedLane (attached_state seed tipId)
       (tipWrites @ [setValue configSlot (VConfig seed),
          setValue stateSlot (VLaneState (durableLaneState None [] None))])))))"

definition lane_attachment ::
  "lane_configuration \<Rightarrow> jstring \<Rightarrow> jstring option option \<Rightarrow> storage_state \<Rightarrow> js_error + attachment" where
  "lane_attachment seed name createAt s =
     ebind (readLaneStorage s name) (\<lambda>stored. case stored of
       LaneComplete tip configuration state \<Rightarrow>
         ebind (restoreLaneState s name tip configuration state) (\<lambda>restored. Inr (RestoredLane restored))
     | LaneBranch tip \<Rightarrow> attach_lane seed name False tip
     | LaneAbsent \<Rightarrow>
         (case or_else createAt None of
            None \<Rightarrow> attach_lane seed name True None
          | Some tipId \<Rightarrow>
              if map_has (getEntries [tipId] s) tipId then attach_lane seed name True (Some tipId)
              else Inr (MissingTarget tipId)))"

text \<open>\<open>assertOpen\<close> and the \<open>catch\<close> blocks of \<open>lane\<close>, \<open>setName\<close> and \<open>setLabel\<close>.\<close>

definition harness_call ::
  "(mutation_handle \<times> memory_storage, 'r) action \<Rightarrow> harness \<Rightarrow> ('r \<Rightarrow> harness \<Rightarrow> 'o outcome \<times> harness) \<Rightarrow> 'o outcome \<times> harness" where
  "harness_call job h k =
     (case ha_faulted h of Some e \<Rightarrow> (Threw e, h) | None \<Rightarrow>
      (case ha_closed h of Some e \<Rightarrow> (Threw e, h) | None \<Rightarrow>
        (case session_mutate job (ha_session h) of
           (Inl e, se) \<Rightarrow> (let (f, h') = harness_fault (h\<lparr>ha_session := se\<rparr>) in (Threw f, h'))
         | (Inr r, se) \<Rightarrow> k r (h\<lparr>ha_session := se\<rparr>))))"

datatype lane_acquired = KeptLane | BuiltLane lane_state bool | NoTarget jstring

definition acquire_job :: "harness \<Rightarrow> jstring \<Rightarrow> jstring option option \<Rightarrow> int \<Rightarrow> (mutation_handle \<times> memory_storage, lane_acquired) action" where
  "acquire_job h name createAt now =
     (if map_has (ha_lanes h) name then act_return KeptLane
      else act_bind (mutation_read (lane_attachment (ha_seed h) name createAt)) (\<lambda>a. case a of
          RestoredLane state \<Rightarrow> act_return (BuiltLane state False)
        | MissingTarget targetId \<Rightarrow> act_return (NoTarget targetId)
        | AttachedLane state writes \<Rightarrow>
            act_bind (mutation_commit writes now) (\<lambda>c. act_return (BuiltLane state True))))"

definition acquire_lane ::
  "jstring \<Rightarrow> jstring option option \<Rightarrow> int \<Rightarrow> harness \<Rightarrow> unit lane_result outcome \<times> harness" where
  "acquire_lane name createAt now h =
     (case ha_faulted h of Some e \<Rightarrow> (Threw e, h) | None \<Rightarrow>
      (case ha_closed h of Some e \<Rightarrow> (Threw e, h) | None \<Rightarrow>
        (case invalid_lane_name name of
           Some reason \<Rightarrow> (Returned (Inl (InvalidLane name reason)), h)
         | None \<Rightarrow>
             harness_call (acquire_job h name createAt now) h (\<lambda>acquired h'. case acquired of
               KeptLane \<Rightarrow> (Returned (Inr ()), h')
             | NoTarget targetId \<Rightarrow> (Returned (Inl (UnknownTarget targetId)), h')
             | BuiltLane state created \<Rightarrow>
                 (Returned (Inr ()),
                  h'\<lparr>ha_lanes := map_set name (new_lane name state) (ha_lanes h'),
                     ha_log := ha_log h' @ (if created then [lane_event name (LaneCreated (la_tipId state))] else [])\<rparr>)))))"

section \<open>Other calls\<close>

text \<open>\<open>lanes()\<close> reads every lane on the mutation line; the first failure is thrown.\<close>

fun inspect_lanes :: "jstring list \<Rightarrow> harness \<Rightarrow> lane_execution_info outcome list \<times> harness" where
  "inspect_lanes [] h = ([], h)"
| "inspect_lanes (name # names) h =
     (let (out, h') = inspectExecution name h; (outs, h'') = inspect_lanes names h' in (out # outs, h''))"

fun all_returned :: "'a outcome list \<Rightarrow> 'a list outcome" where
  "all_returned [] = Returned []"
| "all_returned (Returned x # outs) = (case all_returned outs of Returned xs \<Rightarrow> Returned (x # xs) | out \<Rightarrow> out)"
| "all_returned (Threw e # outs) = Threw e"
| "all_returned (Blocked # outs) = Blocked"

definition harness_lanes :: "harness \<Rightarrow> lane_info list outcome \<times> harness" where
  "harness_lanes h =
     (case ha_faulted h of Some e \<Rightarrow> (Threw e, h) | None \<Rightarrow>
      (case ha_closed h of Some e \<Rightarrow> (Threw e, h) | None \<Rightarrow>
        (let (outs, h') = inspect_lanes (map fst (ha_lanes h)) h in
         (map_outcome (map (\<lambda>x. \<lparr>li_name = le_lane x, li_tipId = le_tipId x, li_operation = le_current x\<rparr>))
            (all_returned outs), h'))))"

definition value_job :: "(js_error + storage_write) \<Rightarrow> int \<Rightarrow> (mutation_handle \<times> memory_storage, commit_result) action" where
  "value_job w now = act_bind (act_lift w) (\<lambda>w. mutation_commit [w] now)"

definition harness_setName :: "jstring option \<Rightarrow> int \<Rightarrow> harness \<Rightarrow> unit outcome \<times> harness" where
  "harness_setName name now h =
     harness_call (value_job (ebind sessionName (\<lambda>a. Inr (case name of None \<Rightarrow> deleteValue a | Some n \<Rightarrow> setValue a (VText n)))) now) h
       (\<lambda>c h'. (Returned (), h'\<lparr>ha_log := ha_log h' @ [global_event (SessionNameUpdate name)]\<rparr>))"

definition harness_setLabel :: "jstring \<Rightarrow> jstring option \<Rightarrow> int \<Rightarrow> harness \<Rightarrow> unit outcome \<times> harness" where
  "harness_setLabel targetId label now h =
     harness_call (value_job (ebind (entryLabel targetId) (\<lambda>a. Inr (case label of None \<Rightarrow> deleteValue a | Some l \<Rightarrow> setValue a (VText l)))) now) h
       (\<lambda>c h'. (Returned (), h'\<lparr>ha_log := ha_log h' @ [global_event (EntryLabelUpdate targetId label)]\<rparr>))"

definition when_harness_open :: "harness \<Rightarrow> 'a outcome \<Rightarrow> 'a outcome" where
  "when_harness_open h out =
     (case ha_faulted h of Some e \<Rightarrow> Threw e | None \<Rightarrow> (case ha_closed h of Some e \<Rightarrow> Threw e | None \<Rightarrow> out))"

definition harness_getName :: "harness \<Rightarrow> jstring option outcome" where
  "harness_getName h = when_harness_open h (outcome_of (session_getName (ha_session h)))"

definition harness_getLabel :: "jstring \<Rightarrow> harness \<Rightarrow> jstring option outcome" where
  "harness_getLabel targetId h = when_harness_open h (outcome_of (session_getLabel targetId (ha_session h)))"

definition getConfig :: "(harness_config \<Rightarrow> 'a) \<Rightarrow> harness \<Rightarrow> 'a outcome" where
  "getConfig field h = when_harness_open h (Returned (field (ha_config h)))"

definition setConfig ::
  "(harness_config \<Rightarrow> harness_config) \<Rightarrow> (harness_config \<Rightarrow> harness_config \<Rightarrow> config_property) \<Rightarrow> harness \<Rightarrow> unit outcome \<times> harness" where
  "setConfig update event h =
     (case ha_faulted h of Some e \<Rightarrow> (Threw e, h) | None \<Rightarrow>
      (case ha_closed h of Some e \<Rightarrow> (Threw e, h) | None \<Rightarrow>
        (Returned (), h\<lparr>ha_config := update (ha_config h),
           ha_log := ha_log h @ [global_event (ConfigUpdate (event (ha_config h) (update (ha_config h))))]\<rparr>)))"

definition setStreamOptions where
  "setStreamOptions v = setConfig (\<lambda>c. c\<lparr>cf_streamOptions := v\<rparr>)
     (\<lambda>old new. StreamOptionsProperty (cf_streamOptions new) (cf_streamOptions old))"

text \<open>\<open>None\<close> is the \<open>RangeError\<close> of a rejected value, thrown before anything else.\<close>

definition setRetryPolicy :: "retry_policy \<Rightarrow> harness \<Rightarrow> (unit outcome \<times> harness) option" where
  "setRetryPolicy v h =
     (if validateRetryPolicy v
      then Some (setConfig (\<lambda>c. c\<lparr>cf_retryPolicy := v\<rparr>)
        (\<lambda>old new. RetryPolicyProperty (cf_retryPolicy new) (cf_retryPolicy old)) h)
      else None)"

definition setCompactionSettings :: "compaction_settings \<Rightarrow> harness \<Rightarrow> (unit outcome \<times> harness) option" where
  "setCompactionSettings v h =
     (if validateCompactionSettings v
      then Some (setConfig (\<lambda>c. c\<lparr>cf_compaction := v\<rparr>)
        (\<lambda>old new. CompactionSettingsProperty (cf_compaction new) (cf_compaction old)) h)
      else None)"

definition setSteeringMode where
  "setSteeringMode v = setConfig (\<lambda>c. c\<lparr>cf_steeringMode := v\<rparr>)
     (\<lambda>old new. SteeringModeProperty (cf_steeringMode new) (cf_steeringMode old))"

definition setFollowUpMode where
  "setFollowUpMode v = setConfig (\<lambda>c. c\<lparr>cf_followUpMode := v\<rparr>)
     (\<lambda>old new. FollowUpModeProperty (cf_followUpMode new) (cf_followUpMode old))"

definition setResources where
  "setResources skills templates = setConfig (\<lambda>c. c\<lparr>cf_skills := skills, cf_promptTemplates := templates\<rparr>)
     (\<lambda>old new. ResourcesProperty)"

end
