(* ===== verification/Restart.thy ===== *)
theory Restart
  imports BoundaryFacts Harness
begin

text \<open>
  What a restart reads back. The scans of \<open>restoreSession\<close> are reduced to lookups in the abstract store, so
  that a restored session is the map of all lanes whose slots form a lane image.
\<close>

section \<open>Scans as lookups\<close>

lemma fold_map_set_get:
  "map_get (fold (\<lambda>(k, x) m. map_set k x m) kvs m) k =
     (case map_of (rev kvs) k of Some x \<Rightarrow> Some x | None \<Rightarrow> map_get m k)"
  by (induction kvs arbitrary: m) (auto simp: update_conv' map_add_def split: option.splits)

lemma fold_map_set_distinct:
  "distinct (map fst m) \<Longrightarrow> distinct (map fst (fold (\<lambda>(k, x) m. map_set k x m) kvs m))"
  by (induction kvs arbitrary: m) (auto simp: distinct_update)

lemma scanned:
  assumes inv: "storage_inv s" and p: "p = \<lparr>ad_namespace = ns, ad_key = [], ad_kind = ValueKind\<rparr>" and nul: "\<not> has_nul ns"
  shows "distinct (map (\<lambda>v. ad_key (sv_address v)) (scanValues p s))"
    and "(\<exists>v \<in> set (scanValues p s). ad_key (sv_address v) = k \<and> sv_value v = x) \<longleftrightarrow> value_at s (ns, k) = Some x"
proof -
  have wf: "scalars_wf s" using inv by (simp add: storage_inv_def)
  have set: "set (scanValues p s) = {v \<in> set (map_values (sst_scalarValues s)). ad_namespace (sv_address v) = ns}"
    by (auto simp: scanValues_def p)
  have "distinct (scanValues p s)"
    unfolding scanValues_def
    by (metis (no_types, lifting) distinct_filter scalar_values_distinct[OF wf] mset_js_sort mset_eq_imp_distinct_iff)
  moreover have "inj_on (\<lambda>v. ad_key (sv_address v)) (set (scanValues p s))"
    unfolding set by (auto intro!: inj_onI intro: scalar_value_unique[OF wf])
  ultimately show "distinct (map (\<lambda>v. ad_key (sv_address v)) (scanValues p s))" by (simp add: distinct_map)
  have dist: "distinct (map fst (sst_scalarValues s))" using wf by (simp add: scalars_wf_def)
  have at: "value_at s (ns, k) = Some x \<longleftrightarrow> (\<exists>v. (physicalKey ns k, v) \<in> set (sst_scalarValues s) \<and> sv_value v = x)"
    using nul map_of_is_SomeI[OF dist] by (auto simp: value_at_def dest: map_of_SomeD)
  have key: "(q, v) \<in> set (sst_scalarValues s) \<Longrightarrow> q = physicalKey (ad_namespace (sv_address v)) (ad_key (sv_address v)) \<and>
      \<not> has_nul (ad_namespace (sv_address v))" for q v
    using wf by (auto simp: scalars_wf_def scalar_wf_def mkValue_eq_Inr)
  show "(\<exists>v \<in> set (scanValues p s). ad_key (sv_address v) = k \<and> sv_value v = x) \<longleftrightarrow> value_at s (ns, k) = Some x"
  proof
    assume "\<exists>v \<in> set (scanValues p s). ad_key (sv_address v) = k \<and> sv_value v = x"
    then obtain v q where "(q, v) \<in> set (sst_scalarValues s)" "ad_namespace (sv_address v) = ns" "ad_key (sv_address v) = k"
      "sv_value v = x" by (auto simp: set map_values_def)
    then show "value_at s (ns, k) = Some x" using key at by blast
  next
    assume "value_at s (ns, k) = Some x"
    then obtain v where v: "(physicalKey ns k, v) \<in> set (sst_scalarValues s)" "sv_value v = x" using at by blast
    then have "ad_namespace (sv_address v) = ns" "ad_key (sv_address v) = k"
      using key[OF v(1)] nul physicalKey_inj by metis+
    then show "\<exists>v \<in> set (scanValues p s). ad_key (sv_address v) = k \<and> sv_value v = x"
      using v by (force simp: set map_values_def)
  qed
qed

lemma esequence_map_Inr:
  "esequence (map f xs) = Inr ys \<longleftrightarrow> list_all2 (\<lambda>x y. f x = Inr y) xs ys"
proof (induction xs arbitrary: ys)
  case (Cons x xs)
  show ?case by (cases ys; cases "f x"; cases "esequence (map f xs)") (auto simp: Cons.IH[symmetric])
qed auto

lemma map_of_rev_distinct: "distinct (map fst kvs) \<Longrightarrow> map_of (rev kvs) = map_of kvs"
  by (simp add: map_of_inject_set rev_map[symmetric])

text \<open>The map of a typed scan is the abstract store under its namespace.\<close>

lemma scan_typed_get:
  assumes inv: "storage_inv s" and p: "pre = Inr \<lparr>ad_namespace = ns, ad_key = [], ad_kind = ValueKind\<rparr>" and nul: "\<not> has_nul ns"
    and m: "scan_typed pre typed s = Inr m"
  shows "distinct (map fst m)"
    and "map_get m k = None \<longleftrightarrow> value_at s (ns, k) = None"
    and "map_get m k = Some x \<Longrightarrow> \<exists>v. value_at s (ns, k) = Some v \<and> typed v = Inr x"
proof -
  let ?p = "\<lparr>ad_namespace = ns, ad_key = [], ad_kind = ValueKind\<rparr>"
  let ?f = "\<lambda>v. ebind (typed (sv_value v)) (\<lambda>x. Inr (ad_key (sv_address v), x))"
  obtain kvs where kvs: "esequence (map ?f (scanValues ?p s)) = Inr kvs" "m = fold (\<lambda>(k, x) m. map_set k x m) kvs []"
    using m p by (auto simp: scan_typed_def)
  have all: "list_all2 (\<lambda>v (k, x). ad_key (sv_address v) = k \<and> typed (sv_value v) = Inr x) (scanValues ?p s) kvs"
    using kvs(1) unfolding esequence_map_Inr by (rule list_all2_mono) (auto simp: ebind_eq_Inr_iff)
  have keys: "map fst kvs = map (\<lambda>v. ad_key (sv_address v)) (scanValues ?p s)"
    using all by (induction rule: list_all2_induct) auto
  have get: "map_get m k = map_of kvs k" for k
    using scanned(1)[OF inv refl nul] keys
    by (simp add: kvs(2) fold_map_set_get map_of_rev_distinct split: option.split)
  show "distinct (map fst m)" unfolding kvs(2) by (rule fold_map_set_distinct) simp
  have "map_get m k = None \<longleftrightarrow> k \<notin> set (map (\<lambda>v. ad_key (sv_address v)) (scanValues ?p s))"
    by (simp add: get map_of_eq_None_iff flip: keys)
  also have "... \<longleftrightarrow> \<not> (\<exists>x. \<exists>v \<in> set (scanValues ?p s). ad_key (sv_address v) = k \<and> sv_value v = x)" by auto
  also have "... \<longleftrightarrow> value_at s (ns, k) = None" unfolding scanned(2)[OF inv refl nul] by simp
  finally show "map_get m k = None \<longleftrightarrow> value_at s (ns, k) = None" .
  show "\<exists>v. value_at s (ns, k) = Some v \<and> typed v = Inr x" if "map_get m k = Some x"
  proof -
    have "(k, x) \<in> set kvs" using that by (simp add: get map_of_SomeD)
    then obtain v where "v \<in> set (scanValues ?p s)" "ad_key (sv_address v) = k" "typed (sv_value v) = Inr x"
      using all by (force simp: list_all2_conv_all_nth set_conv_nth)
    then show ?thesis using scanned(2)[OF inv refl nul, of k "sv_value v"] by blast
  qed
qed

section \<open>Restoring all lanes\<close>

lemma restore_lanes_spec:
  assumes "\<And>lane. lane \<in> set names \<Longrightarrow>
      classifyLaneStorage (map_get tips lane) (map_get cfgs lane) (map_get states lane) = readLaneStorage s lane"
  shows "restore_lanes s tips cfgs states names r = Inr m \<longleftrightarrow>
    (\<forall>lane \<in> set names. \<exists>c. readLaneStorage s lane = Inr c \<and>
       (\<forall>t cfg d. c = LaneComplete t cfg d \<longrightarrow> (\<exists>l. restoreLane s lane = Inr l))) \<and>
    m = fold (\<lambda>lane m. case restoreLane s lane of Inr l \<Rightarrow> map_set lane l m | Inl e \<Rightarrow> m) names r"
  using assms
proof (induction names arbitrary: r)
  case (Cons lane lanes)
  have cl: "classifyLaneStorage (map_get tips lane) (map_get cfgs lane) (map_get states lane) = readLaneStorage s lane"
    using Cons.prems by simp
  note IH = Cons.IH[OF Cons.prems]
  show ?case
  proof (cases "readLaneStorage s lane")
    case (Inr c)
    show ?thesis
    proof (cases c)
      case (LaneComplete t cfg d)
      then have "restoreLane s lane = restoreLaneState s lane t cfg d" using Inr by (simp add: restoreLane_def)
      then show ?thesis using IH LaneComplete Inr cl by (cases "restoreLaneState s lane t cfg d") auto
    qed (use IH Inr cl in \<open>auto simp: restoreLane_def\<close>)
  qed (use cl in auto)
qed auto

lemma restored_fold_get:
  "map_get (fold (\<lambda>lane m. case f lane of Inr l \<Rightarrow> map_set lane l m | Inl e \<Rightarrow> m) names r) k =
     (if k \<in> set names then (case f k of Inr l \<Rightarrow> Some l | Inl e \<Rightarrow> map_get r k) else map_get r k)"
  by (induction names arbitrary: r) (auto simp: update_conv' split: sum.splits)

lemma restored_fold_distinct:
  "distinct (map fst r) \<Longrightarrow>
   distinct (map fst (fold (\<lambda>lane m. case f lane of Inr l \<Rightarrow> map_set lane l m | Inl e \<Rightarrow> m) names r))"
  by (induction names arbitrary: r) (auto simp: distinct_update split: sum.splits)

lemma names_set: "set (fold (\<lambda>k ks. if k \<in> set ks then ks else ks @ [k]) xs ys) = set xs \<union> set ys"
  by (induction xs arbitrary: ys) auto

text \<open>\<open>readLaneStorage\<close> sees what the three scans see.\<close>

lemma slot_lookup:
  assumes "storage_inv s" "pre = Inr \<lparr>ad_namespace = ns, ad_key = [], ad_kind = ValueKind\<rparr>" "\<not> has_nul ns"
    and "scan_typed pre typed s = Inr m" "\<not> has_nul k" "ns \<noteq> []"
  shows "read_slot (mkValue ns k) typed s = Inr (map_get m k)"
  using scan_typed_get(2)[OF assms(1-4), of k] scan_typed_get(3)[OF assms(1-4), of k]
  by (cases "map_get m k") (auto simp: read_slot_mkValue assms)

lemma stored_key: "storage_inv s \<Longrightarrow> value_at s (ns, k) = Some v \<Longrightarrow> \<not> has_nul k"
proof -
  assume inv: "storage_inv s" and v: "value_at s (ns, k) = Some v"
  then obtain w where w: "map_get (sst_scalarValues s) (physicalKey ns k) = Some w" "\<not> has_nul ns"
    by (auto simp: value_at_def split: if_splits)
  then have "scalar_wf (sst_nextSeq s) (physicalKey ns k) w"
    using inv by (auto simp: storage_inv_def scalars_wf_def dest: map_of_SomeD)
  then have "\<not> has_nul (ad_namespace (sv_address w))" "\<not> has_nul (ad_key (sv_address w))"
    "physicalKey (ad_namespace (sv_address w)) (ad_key (sv_address w)) = physicalKey ns k"
    by (auto simp: scalar_wf_def mkValue_eq_Inr)
  then show ?thesis using w(2) physicalKey_inj by metis
qed

lemma has_nul_Nil [simp]: "\<not> has_nul []"
  by (simp add: has_nul_def)

lemma lane_prefixes:
  "branchTipInventoryPrefix = Inr \<lparr>ad_namespace = ns_branch_tip, ad_key = [], ad_kind = ValueKind\<rparr>"
  "laneConfig [] = Inr \<lparr>ad_namespace = ns_lane_config, ad_key = [], ad_kind = ValueKind\<rparr>"
  "laneState [] = Inr \<lparr>ad_namespace = ns_lane_state, ad_key = [], ad_kind = ValueKind\<rparr>"
  by (simp_all add: branchTipInventoryPrefix_def laneConfig_def laneState_def mkValue_eq_Inr)

text \<open>A session restores exactly when no lane is incomplete, and then to the map of its lane images.\<close>

lemma restoreSession_lanes:
  assumes inv: "storage_inv s" and r: "restoreSession s = Inr m"
  shows "distinct (map fst m)"
    and "map_get m k = Some state \<longleftrightarrow> lane_image (value_at s) k state"
    and "lane_slots (fst ` set m) (value_at s)"
proof -
  from r obtain tips cfgs states where t: "scan_typed branchTipInventoryPrefix as_tip s = Inr tips"
    and c: "scan_typed (laneConfig []) as_config s = Inr cfgs"
    and st: "scan_typed (laneState []) as_lane_state s = Inr states"
    and m: "restore_lanes s tips cfgs states
         (fold (\<lambda>k ks. if k \<in> set ks then ks else ks @ [k]) (map fst tips @ map fst cfgs @ map fst states) []) [] = Inr m"
    by (auto simp: restoreSession_def)
  let ?names = "fold (\<lambda>k ks. if k \<in> set ks then ks else ks @ [k]) (map fst tips @ map fst cfgs @ map fst states) []"
  have pre: "branchTipInventoryPrefix = Inr \<lparr>ad_namespace = ns_branch_tip, ad_key = [], ad_kind = ValueKind\<rparr>"
    "laneConfig [] = Inr \<lparr>ad_namespace = ns_lane_config, ad_key = [], ad_kind = ValueKind\<rparr>"
    "laneState [] = Inr \<lparr>ad_namespace = ns_lane_state, ad_key = [], ad_kind = ValueKind\<rparr>"
    by (simp_all add: lane_prefixes)
  have nul: "\<not> has_nul ns_branch_tip" "\<not> has_nul ns_lane_config" "\<not> has_nul ns_lane_state" by simp_all
  note tg = scan_typed_get[OF inv pre(1) nul(1) t] and cg = scan_typed_get[OF inv pre(2) nul(2) c]
    and sg = scan_typed_get[OF inv pre(3) nul(3) st]
  have mem: "k \<in> set ?names \<longleftrightarrow> value_at s (ns_branch_tip, k) \<noteq> None \<or> value_at s (ns_lane_config, k) \<noteq> None \<or>
      value_at s (ns_lane_state, k) \<noteq> None" for k
  proof -
    have "k \<in> set ?names \<longleftrightarrow> k \<in> fst ` set tips \<union> fst ` set cfgs \<union> fst ` set states"
      unfolding names_set by auto
    then show ?thesis using tg(2)[of k] cg(2)[of k] sg(2)[of k] unfolding map_of_eq_None_iff by auto
  qed
  have cl: "classifyLaneStorage (map_get tips k) (map_get cfgs k) (map_get states k) = readLaneStorage s k"
    if k: "k \<in> set ?names" for k
  proof -
    have "\<not> has_nul k" using k mem stored_key[OF inv] by blast
    then show ?thesis
      using slot_lookup[OF inv pre(1) nul(1) t] slot_lookup[OF inv pre(2) nul(2) c] slot_lookup[OF inv pre(3) nul(3) st]
      by (simp add: readLaneStorage_def branchTip_def laneConfig_def laneState_def)
  qed
  have ok: "\<forall>lane \<in> set ?names. \<exists>c. readLaneStorage s lane = Inr c \<and>
       (\<forall>t cfg d. c = LaneComplete t cfg d \<longrightarrow> (\<exists>l. restoreLane s lane = Inr l))"
    and meq: "m = fold (\<lambda>lane m. case restoreLane s lane of Inr l \<Rightarrow> map_set lane l m | Inl e \<Rightarrow> m) ?names []"
    using m restore_lanes_spec[where r = "[]" and m = m, OF cl, of ?names] by auto
  show "distinct (map fst m)" unfolding meq by (rule restored_fold_distinct) simp
  have get: "map_get m k = (if k \<in> set ?names then (case restoreLane s k of Inr l \<Rightarrow> Some l | Inl e \<Rightarrow> None) else None)" for k
    unfolding meq restored_fold_get by (simp split: sum.split)
  show img: "map_get m k = Some state \<longleftrightarrow> lane_image (value_at s) k state" for k state
    unfolding restoreLane_iff[symmetric] get
    using mem[of k] restoreLane_iff[of s k state] by (auto simp: lane_image_def split: sum.splits)
  have "k \<in> fst ` set m" if h: "value_at s (ns_lane_config, k) \<noteq> None \<or> value_at s (ns_lane_state, k) \<noteq> None" for k
  proof -
    have "k \<in> set ?names" using h mem by blast
    then obtain c where c': "readLaneStorage s k = Inr c"
        "\<And>t cfg d. c = LaneComplete t cfg d \<Longrightarrow> \<exists>l. restoreLane s k = Inr l"
      using ok by blast
    have "classifyLaneStorage (map_get tips k) (map_get cfgs k) (map_get states k) = Inr c"
      using cl \<open>k \<in> set ?names\<close> c'(1) by simp
    then obtain t cfg d where "c = LaneComplete t cfg d"
      using h cg(2)[of k] sg(2)[of k] by (auto simp: classifyLaneStorage_def split: option.splits if_splits)
    then obtain l where "map_get m k = Some l" using c'(2) \<open>k \<in> set ?names\<close> by (auto simp: get)
    then show ?thesis by (force dest: map_of_SomeD)
  qed
  moreover have "\<exists>t. v = VTip t" if h: "value_at s (ns_branch_tip, k) = Some v" for k v
  proof -
    obtain x where "map_get tips k = Some x" using h tg(2)[of k] by (cases "map_get tips k") auto
    then show ?thesis using tg(3)[of k x] h by (auto simp: typed_reads)
  qed
  ultimately show "lane_slots (fst ` set m) (value_at s)" unfolding lane_slots_def by blast
qed

lemma scan_typed_ok:
  assumes inv: "storage_inv s" and p: "pre = Inr \<lparr>ad_namespace = ns, ad_key = [], ad_kind = ValueKind\<rparr>" and nul: "\<not> has_nul ns"
    and typed: "\<And>k v. value_at s (ns, k) = Some v \<Longrightarrow> \<exists>x. typed v = Inr x"
  shows "\<exists>m. scan_typed pre typed s = Inr m"
proof -
  let ?p = "\<lparr>ad_namespace = ns, ad_key = [], ad_kind = ValueKind\<rparr>"
  have "\<exists>kvs. esequence (map (\<lambda>v. ebind (typed (sv_value v)) (\<lambda>x. Inr (ad_key (sv_address v), x))) vs) = Inr kvs"
    if "set vs \<subseteq> set (scanValues ?p s)" for vs
    using that
  proof (induction vs)
    case (Cons v vs)
    then have "value_at s (ns, ad_key (sv_address v)) = Some (sv_value v)"
      using scanned(2)[OF inv refl nul] by auto
    then show ?case using Cons typed by fastforce
  qed simp
  from this[OF order.refl] show ?thesis by (auto simp: scan_typed_def p)
qed

lemma restoreSession_ok:
  assumes inv: "storage_inv s" and slots: "lane_slots names (value_at s)"
    and im: "\<And>name. name \<in> names \<Longrightarrow> \<exists>state. lane_image (value_at s) name state"
  shows "\<exists>m. restoreSession s = Inr m"
proof -
  have tip: "\<exists>x. as_tip v = Inr x" if "value_at s (ns_branch_tip, k) = Some v" for k v
    using slots that by (fastforce simp: lane_slots_def)
  have member: "k \<in> names" if "value_at s (ns_lane_config, k) \<noteq> None \<or> value_at s (ns_lane_state, k) \<noteq> None" for k
    using slots that by (auto simp: lane_slots_def)
  have cfg: "\<exists>x. as_config v = Inr x" if "value_at s (ns_lane_config, k) = Some v" for k v
    using im[OF member, of k] that by (auto simp: lane_image_def)
  have lst: "\<exists>x. as_lane_state v = Inr x" if "value_at s (ns_lane_state, k) = Some v" for k v
    using im[OF member, of k] that by (auto simp: lane_image_def)
  have nul: "\<not> has_nul ns_branch_tip" "\<not> has_nul ns_lane_config" "\<not> has_nul ns_lane_state" by simp_all
  obtain tips where t: "scan_typed branchTipInventoryPrefix as_tip s = Inr tips"
    using scan_typed_ok[where typed = as_tip, OF inv lane_prefixes(1) nul(1)] tip by blast
  obtain cfgs where c: "scan_typed (laneConfig []) as_config s = Inr cfgs"
    using scan_typed_ok[where typed = as_config, OF inv lane_prefixes(2) nul(2)] cfg by blast
  obtain states where st: "scan_typed (laneState []) as_lane_state s = Inr states"
    using scan_typed_ok[where typed = as_lane_state, OF inv lane_prefixes(3) nul(3)] lst by blast
  let ?names = "fold (\<lambda>k ks. if k \<in> set ks then ks else ks @ [k]) (map fst tips @ map fst cfgs @ map fst states) []"
  note tg = scan_typed_get[OF inv lane_prefixes(1) nul(1) t] and cg = scan_typed_get[OF inv lane_prefixes(2) nul(2) c]
    and sg = scan_typed_get[OF inv lane_prefixes(3) nul(3) st]
  have key: "\<not> has_nul k" if "k \<in> set ?names" for k
  proof -
    have "k \<in> fst ` set tips \<union> fst ` set cfgs \<union> fst ` set states" using that unfolding names_set by auto
    then have "value_at s (ns_branch_tip, k) \<noteq> None \<or> value_at s (ns_lane_config, k) \<noteq> None \<or> value_at s (ns_lane_state, k) \<noteq> None"
      using tg(2)[of k] cg(2)[of k] sg(2)[of k] unfolding map_of_eq_None_iff by auto
    then show ?thesis using stored_key[OF inv] by blast
  qed
  have cl: "classifyLaneStorage (map_get tips k) (map_get cfgs k) (map_get states k) = readLaneStorage s k"
    if k: "k \<in> set ?names" for k
    using key[OF k] slot_lookup[OF inv lane_prefixes(1) nul(1) t] slot_lookup[OF inv lane_prefixes(2) nul(2) c]
      slot_lookup[OF inv lane_prefixes(3) nul(3) st]
    by (simp add: readLaneStorage_def branchTip_def laneConfig_def laneState_def)
  have ok: "\<exists>c. readLaneStorage s k = Inr c \<and> (\<forall>t cfg d. c = LaneComplete t cfg d \<longrightarrow> (\<exists>l. restoreLane s k = Inr l))"
    if k: "k \<in> set ?names" for k
  proof (cases "k \<in> names")
    case True
    then obtain state where "restoreLane s k = Inr state" using im restoreLane_iff by blast
    then show ?thesis by (cases "readLaneStorage s k") (auto simp: restoreLane_def)
  next
    case False
    then have "map_get cfgs k = None" "map_get states k = None"
      using cg(2)[of k] sg(2)[of k] slots by (auto simp: lane_slots_def)
    then show ?thesis unfolding cl[OF k, symmetric] by (auto simp: classifyLaneStorage_def split: option.splits)
  qed
  have "\<exists>m. restore_lanes s tips cfgs states ?names [] = Inr m"
    using restore_lanes_spec[where r = "[]", OF cl, of ?names] ok by auto
  then show ?thesis by (simp add: restoreSession_def t c st)
qed

section \<open>The invariant of an attached harness\<close>

lemma new_harness_lanes:
  "distinct (map fst m) \<Longrightarrow> ha_lanes (new_harness options se m) = map (\<lambda>(name, state). (name, new_lane name state)) m"
proof -
  have "foldl (\<lambda>m (name, state). map_set name (new_lane name state) m) acc m =
      acc @ map (\<lambda>(name, state). (name, new_lane name state)) m"
    if "distinct (map fst acc @ map fst m)" for acc
    using that
  proof (induction m arbitrary: acc)
    case (Cons x m)
    obtain name state where x: "x = (name, state)" by (cases x)
    with Cons.prems have "map_set name (new_lane name state) acc = acc @ [(name, new_lane name state)]"
      by (intro map_set_fresh) auto
    then show ?case using Cons.IH[of "acc @ [(name, new_lane name state)]"] Cons.prems x by simp
  qed simp
  from this[of "[]"] show "distinct (map fst m) \<Longrightarrow> ?thesis" by (simp add: new_harness_def)
qed

definition session_sound :: "backed_session \<Rightarrow> bool" where
  "session_sound se \<longleftrightarrow> storage_inv (ms_data (se_storage se)) \<and> (se_state se = Open \<longrightarrow> ms_state (se_storage se) = Open)"

lemma attached_inv:
  assumes "session_sound session" "createAgentHarness options session = Inr (h, ops)"
  shows "harness_inv h" "ha_session h = session"
proof -
  from assms(2) obtain restored se where r: "session_mutate (mutation_read restoreSession) session = (Inr restored, se)"
    and h: "h = new_harness options se restored"
    by (auto simp: createAgentHarness_def split: if_splits prod.splits sum.splits)
  from r have se: "se = session" "restoreSession (ms_data (se_storage session)) = Inr restored"
    by (auto simp: session_mutate_def mutation_read_def memory_read_def mutation_end_def Let_def split: if_splits)
  then show "ha_session h = session" by (simp add: h new_harness_def)
  have inv: "storage_inv (ms_data (se_storage session))" using assms(1) by (simp add: session_sound_def)
  note rs = restoreSession_lanes[OF inv se(2)]
  let ?lanes = "map (\<lambda>(name, state). (name, new_lane name state)) restored"
  have lanes: "ha_lanes h = ?lanes" by (simp only: h new_harness_lanes[OF rs(1)])
  have keys: "map fst ?lanes = map fst restored" by auto
  then have "fst ` set ?lanes = fst ` set restored" by (metis list.set_map)
  moreover have "lane_image (value_at (ms_data (se_storage session))) name (ln_state l)" if "(name, l) \<in> set ?lanes" for name l
    using that rs(2) map_of_is_SomeI[OF rs(1)] by (auto simp: new_lane_def)
  ultimately show "harness_inv h"
    using assms(1) rs(1,3) unfolding harness_inv_def lanes keys \<open>ha_session h = session\<close>
    by (auto simp only: session_sound_def)
qed

text \<open>And a restart of a harness that keeps its invariant finds its lanes again.\<close>

lemma restart_lanes:
  assumes inv: "harness_inv h"
  shows "\<exists>m. restoreSession (ms_data (se_storage (ha_session h))) = Inr m \<and>
    (\<forall>name. map_get m name = map_option ln_state (map_get (ha_lanes h) name))"
proof -
  let ?s = "ms_data (se_storage (ha_session h))"
  have sinv: "storage_inv ?s" and slots: "lane_slots (fst ` set (ha_lanes h)) (value_at ?s)"
    and dist: "distinct (map fst (ha_lanes h))"
    using inv by (simp_all add: harness_inv_def)
  have im: "lane_image (value_at ?s) name (ln_state l)" if "map_get (ha_lanes h) name = Some l" for name l
    using harness_inv_lane[OF inv that] .
  have "\<exists>state. lane_image (value_at ?s) name state" if "name \<in> fst ` set (ha_lanes h)" for name
    using im that by (metis map_of_eq_None_iff option.exhaust)
  then obtain m where m: "restoreSession ?s = Inr m" using restoreSession_ok[OF sinv slots] by blast
  note rs = restoreSession_lanes[OF sinv m]
  have "map_get m name = map_option ln_state (map_get (ha_lanes h) name)" for name
  proof (cases "map_get (ha_lanes h) name")
    case None
    have "map_get m name = None"
    proof (rule ccontr)
      assume "map_get m name \<noteq> None"
      then obtain state where "lane_image (value_at ?s) name state" using rs(2) by blast
      then have "name \<in> fst ` set (ha_lanes h)" using slots by (auto simp: lane_slots_def lane_image_def)
      then show False using None by (simp add: map_of_eq_None_iff)
    qed
    then show ?thesis using None by simp
  next
    case (Some l)
    then show ?thesis using im[OF Some] rs(2) by simp
  qed
  then show ?thesis using m by blast
qed

end
