(* ===== verification/ProviderErrors.thy ===== *)
theory ProviderErrors
  imports Boundary
begin

text \<open>
  \<open>packages/ai/src/utils/overflow.ts\<close> and \<open>retry.ts\<close>: which failed responses of a provider overflowed the context
  window, which are worth another attempt, and the bounded retry of one call. The regular expressions are kept as
  patterns with a backtracking matcher; all of them have the flag \<open>i\<close>, and their letters are ASCII, for which
  the case folding of a non-Unicode expression is that of ASCII.
\<close>

section \<open>Regular expressions\<close>

datatype atom = AnyUnit | Digit | DigitOrComma | Space | OneOf string

datatype pattern =
    PText string
  | PAtom atom
  | PStar atom
  | PPlus atom
  | POpt pattern
  | PAlt "pattern list"
  | PSeq "pattern list"

text \<open>A whole expression: searched for anywhere, or anchored by \<open>^\<close>.\<close>

datatype regex = Search pattern | Anchored pattern

definition fold_case :: "16 word \<Rightarrow> 16 word" where
  "fold_case u = (if 65 \<le> u \<and> u \<le> 90 then u + 32 else u)"

definition is_space :: "16 word \<Rightarrow> bool" where
  "is_space u \<longleftrightarrow> (9 \<le> u \<and> u \<le> 13) \<or> u = 32 \<or> u = 160 \<or> u = 0x1680 \<or> (0x2000 \<le> u \<and> u \<le> 0x200A) \<or>
     u = 0x2028 \<or> u = 0x2029 \<or> u = 0x202F \<or> u = 0x205F \<or> u = 0x3000 \<or> u = 0xFEFF"

fun atom_matches :: "atom \<Rightarrow> 16 word \<Rightarrow> bool" where
  "atom_matches AnyUnit u = (u \<noteq> 10 \<and> u \<noteq> 13 \<and> u \<noteq> 0x2028 \<and> u \<noteq> 0x2029)"
| "atom_matches Digit u = (48 \<le> u \<and> u \<le> 57)"
| "atom_matches DigitOrComma u = (48 \<le> u \<and> u \<le> 57 \<or> u = 44)"
| "atom_matches Space u = is_space u"
| "atom_matches (OneOf cs) u = (fold_case u \<in> set (map fold_case (js cs)))"

fun text_rest :: "jstring \<Rightarrow> jstring \<Rightarrow> jstring list" where
  "text_rest [] s = [s]"
| "text_rest (c # cs) [] = []"
| "text_rest (c # cs) (u # s) = (if fold_case u = fold_case c then text_rest cs s else [])"

fun star_rests :: "atom \<Rightarrow> jstring \<Rightarrow> jstring list" where
  "star_rests a [] = [[]]"
| "star_rests a (u # s) = (if atom_matches a u then star_rests a s else []) @ [u # s]"

text \<open>What may be left of a string after a match at its start, in the order the matcher tries them.\<close>

fun rests :: "pattern \<Rightarrow> jstring \<Rightarrow> jstring list" where
  "rests (PText cs) s = text_rest (js cs) s"
| "rests (PAtom a) s = (case s of [] \<Rightarrow> [] | u # t \<Rightarrow> if atom_matches a u then [t] else [])"
| "rests (PStar a) s = star_rests a s"
| "rests (PPlus a) s = (case s of [] \<Rightarrow> [] | u # t \<Rightarrow> if atom_matches a u then star_rests a t else [])"
| "rests (POpt p) s = rests p s @ [s]"
| "rests (PAlt ps) s = concat (map (\<lambda>p. rests p s) ps)"
| "rests (PSeq []) s = [s]"
| "rests (PSeq (p # ps)) s = concat (map (rests (PSeq ps)) (rests p s))"

fun found :: "pattern \<Rightarrow> jstring \<Rightarrow> bool" where
  "found p [] = (rests p [] \<noteq> [])"
| "found p (u # s) = (rests p (u # s) \<noteq> [] \<or> found p s)"

fun regex_test :: "regex \<Rightarrow> jstring \<Rightarrow> bool" where
  "regex_test (Search p) s = found p s"
| "regex_test (Anchored p) s = (rests p s \<noteq> [])"

section \<open>Context overflow\<close>

definition OVERFLOW_PATTERNS :: "regex list" where
  "OVERFLOW_PATTERNS =
    [Search (PText ''prompt is too long''),
     Search (PText ''request_too_large''),
     Search (PText ''input is too long for requested model''),
     Search (PText ''exceeds the context window''),
     Search (PSeq [PText ''exceeds '', POpt (PText ''the ''), POpt (PSeq [PText ''model'', POpt (PText [CHR 0x27]), PText ''s '']),
       PText ''maximum context length'',
       PAlt [PSeq [PText '' of '', PPlus DigitOrComma, PText '' token'', POpt (PText ''s'')],
         PSeq [PStar Space, PText ''('', PPlus DigitOrComma, PText '')'']]]),
     Search (PSeq [PText ''input token count'', PStar AnyUnit, PText ''exceeds the maximum'']),
     Search (PSeq [PText ''maximum prompt length is '', PPlus Digit]),
     Search (PText ''reduce the length of the messages''),
     Search (PSeq [PText ''maximum context length is '', PPlus Digit, PText '' tokens'']),
     Search (PSeq [PText ''exceeds '', POpt (PText ''the ''), PText ''maximum allowed input length of '', PPlus DigitOrComma,
       PText '' token'', POpt (PText ''s'')]),
     Search (PSeq [PText ''input ('', PPlus Digit, PText '' tokens) is longer than the model'', POpt (PText [CHR 0x27]),
       PText ''s context length ('', PPlus Digit, PText '' tokens)'']),
     Search (PSeq [PText ''exceeds the limit of '', PPlus Digit]),
     Search (PText ''exceeds the available context size''),
     Search (PText ''greater than the context length''),
     Search (PText ''context window exceeds limit''),
     Search (PText ''exceeded model token limit''),
     Search (PSeq [PText ''too large for model with '', PPlus Digit, PText '' maximum context length'']),
     Search (PSeq [PText ''prompt has '', PPlus DigitOrComma, PText '' token'', POpt (PText ''s''),
       PText '', but the configured context size is '', PPlus DigitOrComma, PText '' token'', POpt (PText ''s'')]),
     Search (PText ''model_context_window_exceeded''),
     Search (PSeq [PText ''prompt too long; exceeded '', POpt (PText ''max ''), PText ''context length'']),
     Search (PText ''range of input length should be''),
     Search (PSeq [PText ''context'', PAtom (OneOf ''_ ''), PText ''length'', PAtom (OneOf ''_ ''), PText ''exceeded'']),
     Search (PText ''too many tokens''),
     Search (PText ''token limit exceeded''),
     Anchored (PSeq [PText ''4'', PAlt [PText ''00'', PText ''13''], PStar Space, POpt (PText ''status code''), PStar Space,
       PText ''(no body)''])]"

definition NON_OVERFLOW_PATTERNS :: "regex list" where
  "NON_OVERFLOW_PATTERNS =
    [Anchored (PSeq [PAlt [PText ''Throttling error'', PText ''Service unavailable''], PText '':'']),
     Search (PText ''rate limit''),
     Search (PText ''too many requests'')]"

text \<open>A string property that is there and not empty.\<close>

definition present_text :: "jstring option \<Rightarrow> jstring option" where
  "present_text t = (case t of Some [] \<Rightarrow> None | _ \<Rightarrow> t)"

text \<open>
  \<open>contextWindow\<close> counts as given when it is there and not zero. \<open>contextWindow * 0.99\<close> is compared to an integer:
  for token counts below \<open>2 ^ 46\<close> the rounding of the product cannot cross one.
\<close>

definition isContextOverflow :: "assistant_message \<Rightarrow> int option \<Rightarrow> bool" where
  "isContextOverflow m contextWindow =
     (let inputTokens = us_input (am_usage m) + us_cacheRead (am_usage m);
          window = (case contextWindow of Some n \<Rightarrow> if n = 0 then None else Some n | None \<Rightarrow> None) in
      (am_stopReason m = Error \<and>
        (case present_text (am_errorMessage m) of
           None \<Rightarrow> False
         | Some e \<Rightarrow> \<not> list_ex (\<lambda>p. regex_test p e) NON_OVERFLOW_PATTERNS \<and> list_ex (\<lambda>p. regex_test p e) OVERFLOW_PATTERNS)) \<or>
      (case window of
         None \<Rightarrow> False
       | Some n \<Rightarrow> (am_stopReason m = Stop \<and> inputTokens > n) \<or>
           (am_stopReason m = Length \<and> us_output (am_usage m) = 0 \<and> 100 * inputTokens \<ge> 99 * n)))"

definition isRecoverableLength :: "assistant_message \<Rightarrow> int \<Rightarrow> bool" where
  "isRecoverableLength m desiredMaxOutput \<longleftrightarrow>
     am_stopReason m = Length \<and> desiredMaxOutput > 0 \<and> us_output (am_usage m) < desiredMaxOutput"

section \<open>Transient errors\<close>

definition NON_RETRYABLE_PROVIDER_LIMIT_ERROR_PATTERN :: regex where
  "NON_RETRYABLE_PROVIDER_LIMIT_ERROR_PATTERN = Search (PAlt (map PText
    [''GoUsageLimitError'', ''FreeUsageLimitError'', ''Monthly usage limit reached'', ''available balance'',
     ''insufficient_quota'', ''out of budget'', ''quota exceeded'', ''billing'']))"

text \<open>\<open>a.?b\<close>\<close>

definition joined :: "string \<Rightarrow> string \<Rightarrow> pattern" where
  "joined a b = PSeq [PText a, POpt (PAtom AnyUnit), PText b]"

definition RETRYABLE_PROVIDER_ERROR_PATTERN :: regex where
  "RETRYABLE_PROVIDER_ERROR_PATTERN = Search (PAlt
    [PText ''overloaded'', joined ''rate'' ''limit'', PText ''too many requests'', PText ''429'', PText ''500'', PText ''502'',
     PText ''503'', PText ''504'', PText ''524'', joined ''service'' ''unavailable'', joined ''server'' ''error'',
     joined ''internal'' ''error'',
     PSeq [PText ''provider'', POpt (PAtom AnyUnit), PText ''returned'', POpt (PAtom AnyUnit), PText ''error''],
     PText ''exceeded request buffer limit while retrying upstream'',
     joined ''network'' ''error'', joined ''connection'' ''error'', joined ''connection'' ''refused'',
     joined ''connection'' ''lost'', PText ''other side closed'', PText ''fetch failed'', PText ''getaddrinfo'',
     PText ''ENOTFOUND'', PText ''EAI_AGAIN'', joined ''upstream'' ''connect'', PText ''reset before headers'',
     PText ''socket hang up'', PText ''socket connection was closed'', PSeq [PText ''time'', POpt (PText ''d''), PText '' out''],
     PText ''timeout'', PText ''terminated'', joined ''websocket'' ''closed'', joined ''websocket'' ''error'',
     PText ''ended without'', PText ''stream ended before message_stop'',
     PText ''stream ended before a terminal response event'', PText ''http2 request did not get a response'',
     PText ''retry delay'', PText ''you can retry your request'', PText ''try your request again'',
     PText ''please retry your request'', PText ''ResourceExhausted''])"

definition isRetryableAssistantError :: "assistant_message \<Rightarrow> bool" where
  "isRetryableAssistantError m \<longleftrightarrow>
     am_stopReason m = Error \<and>
     (case present_text (am_errorMessage m) of
        None \<Rightarrow> False
      | Some e \<Rightarrow> \<not> regex_test NON_RETRYABLE_PROVIDER_LIMIT_ERROR_PATTERN e \<and> regex_test RETRYABLE_PROVIDER_ERROR_PATTERN e)"

section \<open>Retrying a call\<close>

text \<open>The callbacks, in the order they are made, as a log; \<open>'w\<close> is the world \<open>produce\<close> and \<open>sleep\<close> run in.\<close>

datatype retry_callback =
    OnRetryScheduled int int int jstring
  | OnRetryAttemptStart
  | OnRetryFinished bool int "jstring option"

definition finished_callback :: "bool \<Rightarrow> (int \<times> jstring) option \<Rightarrow> jstring option \<Rightarrow> retry_callback list" where
  "finished_callback success lastRetry finalError =
     (case lastRetry of None \<Rightarrow> [] | Some (attempt, e) \<Rightarrow> [OnRetryFinished success attempt finalError])"

function retry_loop ::
  "('w \<Rightarrow> assistant_message \<times> 'w) \<Rightarrow> (int \<Rightarrow> 'w \<Rightarrow> bool \<times> 'w) \<Rightarrow> retry_policy option \<Rightarrow> int \<Rightarrow> int \<Rightarrow> (int \<times> jstring) option \<Rightarrow>
   'w \<Rightarrow> retry_callback list \<Rightarrow> assistant_message \<times> 'w \<times> retry_callback list" where
  "retry_loop produce sleep policy maxAttempts attempt lastRetry w callbacks =
     (let (response, w1) = produce w in
      if am_stopReason response = Aborted then (response, w1, callbacks @ finished_callback False lastRetry None)
      else if am_stopReason response \<noteq> Error then (response, w1, callbacks @ finished_callback True lastRetry None)
      else if attempt \<ge> maxAttempts \<or> \<not> isRetryableAssistantError response
      then (response, w1, callbacks @ finished_callback False lastRetry (am_errorMessage response))
      else
        (let next = attempt + 1;
             text = (case present_text (am_errorMessage response) of None \<Rightarrow> js ''Unknown error'' | Some e \<Rightarrow> e);
             delayMs = retryDelayMs (ry_baseDelayMs (the policy)) (ry_maxAgentDelayMs (the policy)) next;
             scheduled = callbacks @ [OnRetryScheduled next maxAttempts delayMs text];
             (interrupted, w2) = sleep delayMs w1 in
         if interrupted
         then (response\<lparr>am_errorMessage := None, am_stopReason := Aborted\<rparr>, w2,
           scheduled @ [OnRetryFinished False next (Some text)])
         else retry_loop produce sleep policy maxAttempts next (Some (next, text)) w2 (scheduled @ [OnRetryAttemptStart])))"
  by pat_completeness auto

termination
  by (relation "measure (\<lambda>(produce, sleep, policy, maxAttempts, attempt, l, w, c). nat (maxAttempts - attempt))") auto

definition retryAssistantCall ::
  "('w \<Rightarrow> assistant_message \<times> 'w) \<Rightarrow> (int \<Rightarrow> 'w \<Rightarrow> bool \<times> 'w) \<Rightarrow> retry_policy option \<Rightarrow> 'w \<Rightarrow>
   assistant_message \<times> 'w \<times> retry_callback list" where
  "retryAssistantCall produce sleep policy w =
     retry_loop produce sleep policy
       (case policy of Some p \<Rightarrow> if ry_enabled p then ry_maxRetries p else 0 | None \<Rightarrow> 0) 0 None w []"

end
