(* ===== verification/Response.thy ===== *)
theory Response
  imports Boundary ProviderErrors
begin

text \<open>
  \<open>runtime/drive/response.ts\<close>: how the response to one assistant request, or to one poll of a deferred request,
  is classified and settled: the next durable leaf, the entry and the usage row it stores, the retry it schedules,
  the compaction it starts, or the failure it ends the run with. The preparation an overflow compaction finds, the
  ids of the planned tool results and the clock are arguments.
\<close>

section \<open>Failures\<close>

definition failed_run_plan ::
  "jstring \<Rightarrow> jstring \<Rightarrow> operation_error \<Rightarrow> int \<Rightarrow> procedure_result operation_plan" where
  "failed_run_plan name runId err now state current meta s =
     (case la_tipId state of
        None \<Rightarrow> Inl (SessionInvariant ''Failed run has no Branch tip'')
      | Some tip \<Rightarrow>
          ebind (operationResultRecord meta FailedStatus (Some tip) (Some err) now) (\<lambda>result.
          ebind (operationCleanupWrites s runId current) (\<lambda>cleanup.
          Inr (OperationFinish cleanup result no_patch (\<lambda>c. ProcSettled result)
            (\<lambda>c. [lane_event name (RunEnd runId (me_sourceTipId meta) (Some tip) (or_endedAt result) FailedStatus (Some err))])))))"

definition publishConfigurationFailure ::
  "jstring \<Rightarrow> jstring \<Rightarrow> operation_error \<Rightarrow> int \<Rightarrow> harness \<Rightarrow> procedure_result outcome \<times> harness" where
  "publishConfigurationFailure name runId err now h =
     continue_or ProcContinue (continueOperation name (failed_run_plan name runId err now) now h)"

text \<open>\<open>Number.parseInt(text, 16)\<close>: white space, a sign and \<open>0x\<close> may come first, and the rest is cut at the first other unit.\<close>

definition hex_digit :: "16 word \<Rightarrow> int option" where
  "hex_digit u =
     (if 48 \<le> u \<and> u \<le> 57 then Some (uint u - 48)
      else if 65 \<le> u \<and> u \<le> 70 then Some (uint u - 55)
      else if 97 \<le> u \<and> u \<le> 102 then Some (uint u - 87)
      else None)"

fun hex_value :: "int \<Rightarrow> jstring \<Rightarrow> int" where
  "hex_value n [] = n"
| "hex_value n (u # us) = (case hex_digit u of None \<Rightarrow> n | Some d \<Rightarrow> hex_value (16 * n + d) us)"

definition without_prefix :: "jstring \<Rightarrow> jstring" where
  "without_prefix t = (case t of u # v # us \<Rightarrow> if u = 48 \<and> (v = 88 \<or> v = 120) then us else t | _ \<Rightarrow> t)"

definition parse_hex :: "jstring \<Rightarrow> int option" where
  "parse_hex text =
     (let t = dropWhile is_space text;
          sign = (case t of u # us \<Rightarrow> if u = 45 then -1 else 1 | [] \<Rightarrow> (1 :: int));
          body = without_prefix (case t of u # us \<Rightarrow> if u = 45 \<or> u = 43 then us else t | [] \<Rightarrow> t) in
      case body of
        u # us \<Rightarrow> if hex_digit u = None then None else Some (sign * hex_value 0 body)
      | [] \<Rightarrow> None)"

definition uuidV7Timestamp :: "jstring \<Rightarrow> js_error + int" where
  "uuidV7Timestamp i =
     (case parse_hex (take 8 i @ take 4 (drop 9 i)) of
        Some n \<Rightarrow> if is_safe_integer n then Inr n else Inl (SessionInvariant ''Invalid reserved UUIDv7'')
      | None \<Rightarrow> Inl (SessionInvariant ''Invalid reserved UUIDv7''))"

datatype response_source = AssistantSource | DeferredSource

fun source_text :: "response_source \<Rightarrow> jstring" where
  "source_text AssistantSource = js ''Assistant''"
| "source_text DeferredSource = js ''Deferred''"

fun stop_text :: "stop_reason \<Rightarrow> jstring" where
  "stop_text Pending = js ''pending''"
| "stop_text Stop = js ''stop''"
| "stop_text Length = js ''length''"
| "stop_text ToolUse = js ''toolUse''"
| "stop_text Error = js ''error''"
| "stop_text Aborted = js ''aborted''"
| "stop_text Deferred = js ''deferred''"

definition text_or :: "jstring option \<Rightarrow> jstring \<Rightarrow> jstring" where
  "text_or t fallback = (case t of None \<Rightarrow> fallback | Some x \<Rightarrow> x)"

definition providerError :: "response_source \<Rightarrow> assistant_message \<Rightarrow> operation_error" where
  "providerError source m =
     \<lparr>oe_code = js ''assistant_error'',
      oe_message = text_or (am_errorMessage m) (source_text source @ js '' request ended with '' @ stop_text (am_stopReason m)),
      oe_details = None\<rparr>"

definition normalizeError :: "assistant_message \<Rightarrow> jstring \<Rightarrow> assistant_message" where
  "normalizeError m text = m\<lparr>am_stopReason := Error, am_errorMessage := Some text\<rparr>"

definition normalizeAborted :: "response_source \<Rightarrow> assistant_message \<Rightarrow> assistant_message" where
  "normalizeAborted source m =
     m\<lparr>am_stopReason := Aborted,
       am_errorMessage := Some (text_or (am_errorMessage m) (source_text source @ js '' request was cancelled''))\<rparr>"

definition deferredHandleIsValid :: "assistant_message \<Rightarrow> generation_context \<Rightarrow> bool" where
  "deferredHandleIsValid m generation =
     (am_stopReason m = Deferred \<and>
      (case am_deferred m of
         None \<Rightarrow> False
       | Some handle \<Rightarrow>
           dh_id handle \<noteq> [] \<and> dh_provider handle = mi_provider (lc_model (gc_configuration generation)) \<and>
           dh_modelId handle = mi_modelId (lc_model (gc_configuration generation)) \<and> dh_api handle = am_api m))"

section \<open>Classification\<close>

text \<open>The request a response answers: what \<open>publishResponse\<close> reads of the current leaf.\<close>

datatype effect = AssistantEffect generation_context int | DeferredEffect deferred_scope

fun effect_source :: "effect \<Rightarrow> response_source" where
  "effect_source (AssistantEffect g n) = AssistantSource"
| "effect_source (DeferredEffect d) = DeferredSource"

fun effect_configuration :: "effect \<Rightarrow> lane_configuration" where
  "effect_configuration (AssistantEffect g n) = gc_configuration g"
| "effect_configuration (DeferredEffect d) = ds_configuration d"

fun effect_turnId :: "effect \<Rightarrow> jstring" where
  "effect_turnId (AssistantEffect g n) = gc_stepId g"
| "effect_turnId (DeferredEffect d) = ds_stepId d @ js '':poll:'' @ index_text (ds_poll d)"

fun effect_of :: "operation_leaf \<Rightarrow> effect option" where
  "effect_of (AssistantEffectPending g n responseId usageId outputLimit window) = Some (AssistantEffect g n)"
| "effect_of (DeferredEffectPending d responseId usageId) = Some (DeferredEffect d)"
| "effect_of _ = None"

text \<open>The message to store, the next leaf if the run goes on, and the failure if it does not.\<close>

type_synonym disposition = "assistant_message \<times> operation_leaf option \<times> operation_error option"

definition response_checkpoint :: "jstring \<Rightarrow> operation_leaf" where
  "response_checkpoint responseEntryId =
     Checkpoint \<lparr>ck_continuation = MayFinish True, ck_triggerEntryId = responseEntryId\<rparr>"

definition settle_overflow ::
  "generation_context \<Rightarrow> jstring option \<Rightarrow> assistant_message \<Rightarrow> disposition" where
  "settle_overflow g taskId response =
     (let committed = normalizeError response
            (text_or (am_errorMessage response) (js ''Assistant request exceeded the context window'')) in
      case (if gc_overflowRecoveryUsed g then None else taskId) of
        None \<Rightarrow> (committed, None, Some (providerError AssistantSource committed))
      | Some i \<Rightarrow>
          (committed,
           Some (SummaryDeciding \<lparr>st_taskId = i, st_reason = Some OverflowReason, st_customInstructions = None,
             st_boundary = ResumeCheckpoint
               \<lparr>ck_continuation = NeedAssistant True, ck_triggerEntryId = gc_triggerEntryId g\<rparr>\<rparr>),
           None))"

definition settle_deferred :: "effect \<Rightarrow> jstring \<Rightarrow> assistant_message \<Rightarrow> disposition" where
  "settle_deferred effect responseEntryId response =
     (case effect of
        AssistantEffect g n \<Rightarrow>
          if deferredHandleIsValid response g
          then (response,
            Some (DeferredSuspended \<lparr>ds_stepId = gc_stepId g, ds_sourceEntryId = responseEntryId, ds_poll = 0,
              ds_configuration = gc_configuration g, ds_streamOptions = gc_streamOptions g\<rparr>), None)
          else
            (let committed = normalizeError response (js ''Provider returned an invalid deferred handle'') in
             (committed, None, Some (providerError AssistantSource committed)))
      | DeferredEffect d \<Rightarrow>
          (response,
           Some (DeferredSuspended \<lparr>ds_stepId = ds_stepId d, ds_sourceEntryId = responseEntryId, ds_poll = ds_poll d,
             ds_configuration = ds_configuration d, ds_streamOptions = ds_streamOptions d\<rparr>), None))"

definition settle_error :: "bool \<Rightarrow> effect \<Rightarrow> int \<Rightarrow> assistant_message \<Rightarrow> disposition" where
  "settle_error recovery effect now response =
     (case effect of
        AssistantEffect g attempt \<Rightarrow>
          if (recovery \<or> isRetryableAssistantError response) \<and> attempt < rp_maxAttempts (gc_retryPolicy g)
          then (response,
            Some (AssistantRetryWait g \<lparr>rw_nextAttempt = attempt + 1, rw_notBefore = retryNotBefore (gc_retryPolicy g) attempt now,
              rw_errorMessage = text_or (am_errorMessage response) (js ''Assistant request failed'')\<rparr>), None)
          else (response, None, Some (providerError AssistantSource response))
      | DeferredEffect d \<Rightarrow> (response, None, Some (providerError DeferredSource response)))"

fun is_tool_call :: "assistant_block \<Rightarrow> bool" where
  "is_tool_call (AToolCall c) = True"
| "is_tool_call b = False"

text \<open>The source indices of the tool calls, and the calls planned under fresh result ids.\<close>

definition call_indices :: "assistant_message \<Rightarrow> nat list" where
  "call_indices m = filter (\<lambda>k. is_tool_call (am_content m ! k)) [0..<length (am_content m)]"

definition planned_calls :: "(nat \<Rightarrow> jstring) \<Rightarrow> assistant_message \<Rightarrow> batch_call list" where
  "planned_calls resultId m =
     map (\<lambda>k. \<lparr>bc_sourceIndex = int k, bc_resultEntryId = resultId k, bc_status = Planned\<rparr>) (call_indices m)"

definition settle_answer ::
  "effect \<Rightarrow> jstring \<Rightarrow> (nat \<Rightarrow> jstring) \<Rightarrow> assistant_message \<Rightarrow> js_error + disposition" where
  "settle_answer effect responseEntryId resultId response =
     (if call_indices response \<noteq> [] then
        ebind (uuidV7Timestamp responseEntryId) (\<lambda>timestamp.
        Inr (response,
          Some (Tools \<lparr>tb_assistantEntryId = responseEntryId, tb_configuration = effect_configuration effect,
            tb_turnId = effect_turnId effect, tb_calls = planned_calls resultId response\<rparr>), None))
      else if am_stopReason response = ToolUse then
        (let committed = normalizeError response (js ''Provider reported tool use without any tool calls'') in
         Inr (committed, None, Some (providerError (effect_source effect) committed)))
      else Inr (response, Some (response_checkpoint responseEntryId), None))"

text \<open>\<open>overflow\<close> is \<open>None\<close> unless the response overflowed; then it is the task id the preparation was made for, if any.\<close>

definition settle_response ::
  "bool \<Rightarrow> control \<Rightarrow> effect \<Rightarrow> jstring \<Rightarrow> (nat \<Rightarrow> jstring) \<Rightarrow> jstring option option \<Rightarrow> int \<Rightarrow> assistant_message \<Rightarrow>
   js_error + disposition" where
  "settle_response recovery control effect responseEntryId resultId overflow now response =
     (case (control, effect, overflow) of
        (CancelRequested t, _, _) \<Rightarrow>
          Inr (normalizeAborted (effect_source effect) response, Some (response_checkpoint responseEntryId), None)
      | (Running, AssistantEffect g n, Some taskId) \<Rightarrow>
          if am_stopReason response = Aborted
          then Inl (SessionInvariant ''response is aborted while durable control is running'')
          else Inr (settle_overflow g taskId response)
      | _ \<Rightarrow>
          if am_stopReason response = Aborted
          then Inl (SessionInvariant ''response is aborted while durable control is running'')
          else if am_stopReason response = Deferred then Inr (settle_deferred effect responseEntryId response)
          else if am_stopReason response = Error then Inr (settle_error recovery effect now response)
          else settle_answer effect responseEntryId resultId response)"

section \<open>Events\<close>

definition recovery_event :: "bool \<Rightarrow> jstring \<Rightarrow> event_payload \<Rightarrow> harness_event" where
  "recovery_event recovery name p = (lane_event name p)\<lparr>ev_recovery := recovery\<rparr>"

fun is_retry_wait :: "operation_leaf option \<Rightarrow> bool" where
  "is_retry_wait (Some (AssistantRetryWait g w)) = True"
| "is_retry_wait _ = False"

fun is_tools :: "operation_leaf option \<Rightarrow> bool" where
  "is_tools (Some (Tools b)) = True"
| "is_tools _ = False"

definition retry_end_event :: "jstring \<Rightarrow> jstring \<Rightarrow> jstring \<Rightarrow> int \<Rightarrow> assistant_message \<Rightarrow> harness_event" where
  "retry_end_event name runId turnId attempt committed =
     (let success = am_stopReason committed \<noteq> Error \<and> am_stopReason committed \<noteq> Aborted in
      lane_event name (RetryEnd runId turnId attempt success
        (if success then None
         else Some (text_or (am_errorMessage committed)
           (js ''Assistant request ended with '' @ stop_text (am_stopReason committed))))))"

definition effect_events ::
  "bool \<Rightarrow> jstring \<Rightarrow> jstring \<Rightarrow> effect \<Rightarrow> assistant_message \<Rightarrow> operation_leaf option \<Rightarrow> int \<Rightarrow> harness_event list" where
  "effect_events recovery name runId effect committed settled startedAt =
     (let turnId = effect_turnId effect in
      case effect of
        AssistantEffect g attempt \<Rightarrow>
          (if \<not> recovery \<and> attempt > 1 \<and> \<not> is_retry_wait settled then [retry_end_event name runId turnId attempt committed] else []) @
          (case settled of
             Some (AssistantRetryWait g' w) \<Rightarrow>
               if recovery then []
               else [lane_event name (RetryScheduled runId turnId (rw_nextAttempt w) (rp_maxAttempts (gc_retryPolicy g'))
                 (retryDelayMs (rp_baseDelayMs (gc_retryPolicy g)) (Some (rp_maxAgentDelayMs (gc_retryPolicy g))) attempt)
                 (rw_notBefore w) (rw_errorMessage w))]
           | _ \<Rightarrow> []) @
          (if \<not> recovery \<and> \<not> is_tools settled \<and> \<not> is_retry_wait settled
           then [lane_event name (TurnEnd runId turnId committed [])] else []) @
          (case settled of
             Some (SummaryDeciding t) \<Rightarrow> [lane_event name (CompactionStart runId OverflowReason startedAt)]
           | _ \<Rightarrow> [])
      | DeferredEffect d \<Rightarrow>
          if is_tools settled then [] else [recovery_event recovery name (TurnEnd runId turnId committed [])])"

definition suspend_events ::
  "bool \<Rightarrow> jstring \<Rightarrow> jstring \<Rightarrow> effect \<Rightarrow> assistant_message \<Rightarrow> operation_leaf option \<Rightarrow> harness_event list" where
  "suspend_events recovery name runId effect committed settled =
     (case (settled, am_deferred committed) of
        (Some (DeferredSuspended d), Some handle) \<Rightarrow>
          (case effect of
             AssistantEffect g n \<Rightarrow> if recovery then [] else [lane_event name (RunSuspend runId handle (ds_poll d))]
           | DeferredEffect d' \<Rightarrow> [recovery_event recovery name (RunSuspend runId handle (ds_poll d))])
      | _ \<Rightarrow> [])"

section \<open>Publication\<close>

text \<open>\<open>overflow\<close> carries the task id and its preparation.\<close>

definition response_entry :: "jstring \<Rightarrow> jstring option \<Rightarrow> assistant_message \<Rightarrow> new_entry" where
  "response_entry responseEntryId tipId committed =
     \<lparr>ne_id = responseEntryId, ne_parentId = tipId, ne_body = MessageBody (AssistantMsg committed) False\<rparr>"

definition response_usage :: "jstring \<Rightarrow> jstring \<Rightarrow> assistant_message \<Rightarrow> new_usage_row" where
  "response_usage usageId responseEntryId committed =
     \<lparr>nu_id = usageId, nu_usage = am_usage committed, nu_entryId = Some responseEntryId, nu_adjustment = False, nu_details = None\<rparr>"

definition preparation_writes ::
  "jstring \<Rightarrow> (jstring \<times> structural_preparation) option \<Rightarrow> operation_leaf option \<Rightarrow> js_error + storage_write list" where
  "preparation_writes runId prepared settled =
     (case (settled, prepared) of
        (Some (SummaryDeciding t), Some (taskId, preparation)) \<Rightarrow>
          ebind (operationPreparation runId taskId) (\<lambda>slot. Inr [setValue slot (VPreparation preparation)])
      | _ \<Rightarrow> Inr [])"

definition response_plan ::
  "jstring \<Rightarrow> jstring \<Rightarrow> jstring \<Rightarrow> jstring \<Rightarrow> bool \<Rightarrow> bool \<Rightarrow> (jstring \<times> structural_preparation) option \<Rightarrow> (nat \<Rightarrow> jstring) \<Rightarrow>
   int \<Rightarrow> assistant_message \<Rightarrow> procedure_result operation_plan" where
  "response_plan name runId responseEntryId usageId recovery overflow prepared resultId now response state current meta s =
     (case effect_of (op_leaf current) of
        None \<Rightarrow> Inl (SessionInvariant ''the operation awaits no response'')
      | Some effect \<Rightarrow>
          ebind (settle_response recovery (os_control (op_scope current)) effect responseEntryId resultId
            (if overflow then Some (map_option fst prepared) else None) now response) (\<lambda>(committed, settled, failure).
          let entry = response_entry responseEntryId (la_tipId state) committed;
              row = response_usage usageId responseEntryId committed;
              patch = no_patch\<lparr>lp_tipId := Some (Some responseEntryId)\<rparr>;
              events = (\<lambda>result c.
                [recovery_event recovery name (EntryAdded (materializeCommittedEntry entry (cr_seqs c ! 0) (cr_timestamp c))),
                 lane_event name (UsageEvent (materializeUsageRow row (cr_seqs c ! 1)) (ss_usage (cr_stats c)))] @
                effect_events recovery name runId effect committed settled (cr_timestamp c) @
                suspend_events recovery name runId effect committed settled @
                (case (result, failure) of
                   (Some r, Some e) \<Rightarrow>
                     [lane_event name (RunEnd runId (me_sourceTipId meta) (Some responseEntryId) (or_endedAt r) FailedStatus (Some e))]
                 | _ \<Rightarrow> [])) in
          ebind (branchTip name) (\<lambda>tipSlot.
          let writes = [insertEntry entry, insertUsage row, setValue tipSlot (VTip (Some responseEntryId))] in
          case failure of
            Some err \<Rightarrow>
              ebind (operationResultRecord meta FailedStatus (Some responseEntryId) (Some err) now) (\<lambda>result.
              ebind (operationCleanupWrites s runId current) (\<lambda>cleanup.
              Inr (OperationFinish (writes @ cleanup) result patch (\<lambda>c. ProcSettled result) (events (Some result)))))
          | None \<Rightarrow>
              (case settled of
                 None \<Rightarrow> Inl (SessionInvariant ''Response settlement has no durable disposition'')
               | Some leaf \<Rightarrow>
                   ebind (pendingAssistantFrames runId responseEntryId) (\<lambda>frames.
                   ebind (preparation_writes runId prepared settled) (\<lambda>preparation.
                   Inr (OperationCommit (writes @ [deleteList frames] @ preparation)
                     \<lparr>op_scope = (operationScopeOf current)\<lparr>os_latestAssistantEntryId := Some responseEntryId\<rparr>, op_leaf = leaf\<rparr>
                     patch (\<lambda>c. ProcContinue) (events None))))))))"

text \<open>The intent carries the reserved ids; an overflow is only looked for in the answer to an assistant request.\<close>

fun intent_ids :: "operation_leaf \<Rightarrow> (jstring \<times> jstring) option" where
  "intent_ids (AssistantEffectPending g n responseId usageId outputLimit window) = Some (responseId, usageId)"
| "intent_ids (DeferredEffectPending d responseId usageId) = Some (responseId, usageId)"
| "intent_ids _ = None"

fun response_overflows :: "operation_leaf \<Rightarrow> assistant_message \<Rightarrow> bool" where
  "response_overflows (AssistantEffectPending g n responseId usageId outputLimit window) response =
     (isContextOverflow response (Some window) \<or> isRecoverableLength response outputLimit)"
| "response_overflows _ response = False"

fun recovery_left :: "operation_leaf \<Rightarrow> bool" where
  "recovery_left (AssistantEffectPending g n responseId usageId outputLimit window) = (\<not> gc_overflowRecoveryUsed g)"
| "recovery_left _ = False"

text \<open>\<open>prepare\<close> is what \<open>prepareOverflowCompaction\<close> returns, if it is called.\<close>

definition publishResponse ::
  "jstring \<Rightarrow> jstring \<Rightarrow> operation_leaf \<Rightarrow> assistant_message \<Rightarrow> bool \<Rightarrow> (jstring \<times> structural_preparation) option \<Rightarrow>
   (nat \<Rightarrow> jstring) \<Rightarrow> int \<Rightarrow> harness \<Rightarrow> procedure_result outcome \<times> harness" where
  "publishResponse name runId intent response recovery prepare resultId now h =
     (case intent_ids intent of
        None \<Rightarrow> (Threw (SessionInvariant ''the intent awaits no response''), h)
      | Some (responseEntryId, usageId) \<Rightarrow>
          (let overflow = response_overflows intent response;
               prepared = (if overflow \<and> recovery_left intent then prepare else None) in
           settleOperation name
             (response_plan name runId responseEntryId usageId recovery overflow prepared resultId now response) now h))"

end
