(* ===== verification/Frames.thy ===== *)
theory Frames
  imports HarnessTypes
begin

text \<open>
  \<open>packages/ai/src/utils/assistant-message-frame.ts\<close>: the encoder that turns the live events of one assistant
  stream into compact frames, and the reducer that replays stored frames. The records here have no shared
  structure, so the clones of the code are the values themselves. \<open>parse\<close> is \<open>parseStreamingJson\<close>, which rests on
  the package \<open>partial-json\<close>, and \<open>serialize\<close> is \<open>JSON.stringify\<close> on tool-call arguments.
\<close>

section \<open>Events, errors and states\<close>

datatype assistant_event =
    EvStart assistant_message
  | EvTextStart int assistant_message
  | EvTextDelta int jstring
  | EvTextEnd int jstring assistant_message
  | EvThinkingStart int assistant_message
  | EvThinkingDelta int jstring
  | EvThinkingEnd int jstring assistant_message
  | EvToolStart int assistant_message
  | EvToolDelta int jstring
  | EvToolEnd int tool_call assistant_message
  | EvDone
  | EvError

datatype frame_error =
    InvalidContentIndex int | NoContentBlock int | WrongContentBlock int | StartsTwice int | NotStarted int
  | WrongKind int | BlockEnded int | BlockExists int | BlockGap int | MoreThanOneStart | BeforeStart | AfterTerminal

datatype block_kind = TextKind | ThinkingKind | ToolKind

type_synonym arguments = "(jstring \<times> json) list"

text \<open>\<open>EncodedText kind coveredChars deltaChars\<close> and \<open>EncodedTool caughtUp catchupJson snapshotArguments\<close>\<close>

datatype encoder_block = EncodedText block_kind nat nat | EncodedTool bool jstring jstring

record encoder =
  fe_started :: bool
  fe_terminal :: bool
  fe_blocks :: "(int, encoder_block) jsmap"

definition new_encoder :: encoder where
  "new_encoder = \<lparr>fe_started = False, fe_terminal = False, fe_blocks = []\<rparr>"

definition cloneStartMessage :: "assistant_message \<Rightarrow> assistant_message" where
  "cloneStartMessage m = m\<lparr>am_content := [], am_stopReason := Pending, am_deferred := None, am_errorMessage := None,
     am_rawStopReason := None, am_endTurn := None\<rparr>"

definition assertContentIndex :: "int \<Rightarrow> frame_error + unit" where
  "assertContentIndex i = check (is_safe_integer i \<and> \<not> i < 0) (InvalidContentIndex i)"

definition content_block :: "assistant_message \<Rightarrow> int \<Rightarrow> assistant_block option" where
  "content_block m i = (if 0 \<le> i \<and> nat i < length (am_content m) then Some (am_content m ! nat i) else None)"

definition eventBlock :: "int \<Rightarrow> assistant_message \<Rightarrow> frame_error + assistant_block" where
  "eventBlock i partial_message =
     ebind (assertContentIndex i) (\<lambda>u. case content_block partial_message i of
       None \<Rightarrow> Inl (NoContentBlock i) | Some b \<Rightarrow> Inr b)"

fun isJsonPrefix :: "json \<Rightarrow> json \<Rightarrow> bool"
  and prefix_items :: "json list \<Rightarrow> json list \<Rightarrow> bool"
  and prefix_fields :: "(jstring \<times> json) list \<Rightarrow> (jstring \<times> json) list \<Rightarrow> bool" where
  "isJsonPrefix (JStr s) current = (case current of JStr t \<Rightarrow> prefix s t | _ \<Rightarrow> False)"
| "isJsonPrefix (JArr xs) current = (case current of JArr ys \<Rightarrow> prefix_items xs ys | _ \<Rightarrow> False)"
| "isJsonPrefix (JObj fs) current = (case current of JObj gs \<Rightarrow> prefix_fields fs gs | _ \<Rightarrow> False)"
| "isJsonPrefix snapshot current = (snapshot = current)"
| "prefix_items [] ys = True"
| "prefix_items (x # xs) ys = (case ys of [] \<Rightarrow> False | y # ys' \<Rightarrow> isJsonPrefix x y \<and> prefix_items xs ys')"
| "prefix_fields [] gs = True"
| "prefix_fields ((k, v) # fs) gs = ((case map_get gs k of None \<Rightarrow> False | Some w \<Rightarrow> isJsonPrefix v w) \<and> prefix_fields fs gs)"

section \<open>The encoder\<close>

definition startBlock :: "int \<Rightarrow> encoder_block \<Rightarrow> encoder \<Rightarrow> frame_error + encoder" where
  "startBlock i b e =
     ebind (assertContentIndex i) (\<lambda>u.
     if map_has (fe_blocks e) i then Inl (StartsTwice i) else Inr (e\<lparr>fe_blocks := map_set i b (fe_blocks e)\<rparr>))"

fun encoder_kind :: "encoder_block \<Rightarrow> block_kind" where
  "encoder_kind (EncodedText k c d) = k"
| "encoder_kind (EncodedTool c j s) = ToolKind"

definition block :: "int \<Rightarrow> block_kind \<Rightarrow> encoder \<Rightarrow> frame_error + encoder_block" where
  "block i kind e =
     ebind (assertContentIndex i) (\<lambda>u. case map_get (fe_blocks e) i of
       None \<Rightarrow> Inl (NotStarted i)
     | Some b \<Rightarrow> if encoder_kind b \<noteq> kind then Inl (WrongKind i) else Inr b)"

definition endBlock :: "int \<Rightarrow> block_kind \<Rightarrow> encoder \<Rightarrow> frame_error + encoder" where
  "endBlock i kind e = ebind (block i kind e) (\<lambda>b. Inr (e\<lparr>fe_blocks := map_delete i (fe_blocks e)\<rparr>))"

definition encodeTextDelta ::
  "int \<Rightarrow> jstring \<Rightarrow> block_kind \<Rightarrow> encoder \<Rightarrow> frame_error + (jstring option \<times> encoder)" where
  "encodeTextDelta i delta kind e =
     ebind (block i kind e) (\<lambda>b. case b of
       EncodedText k coveredChars deltaChars \<Rightarrow>
         (let e' = e\<lparr>fe_blocks := map_set i (EncodedText k coveredChars (deltaChars + length delta)) (fe_blocks e)\<rparr>;
              covered = coveredChars - deltaChars in
          Inr (if covered \<ge> length delta then None else Some (drop covered delta), e'))
     | EncodedTool c j s \<Rightarrow> Inl (WrongKind i))"

definition encodeToolDelta ::
  "(jstring \<Rightarrow> arguments) \<Rightarrow> (arguments \<Rightarrow> jstring) \<Rightarrow> int \<Rightarrow> jstring \<Rightarrow> encoder \<Rightarrow>
   frame_error + (assistant_frame option \<times> encoder)" where
  "encodeToolDelta parse serialize i delta e =
     ebind (block i ToolKind e) (\<lambda>b. case b of
       EncodedText k c d \<Rightarrow> Inl (WrongKind i)
     | EncodedTool True catchup snapshot \<Rightarrow>
         Inr (if delta = [] then None else Some (FToolCallDelta i delta), e)
     | EncodedTool False catchup snapshot \<Rightarrow>
         (let catchup' = catchup @ delta;
              arguments = parse catchup' in
          if serialize arguments \<noteq> snapshot \<and> \<not> isJsonPrefix (JObj (parse snapshot)) (JObj arguments)
          then Inr (None, e\<lparr>fe_blocks := map_set i (EncodedTool False catchup' snapshot) (fe_blocks e)\<rparr>)
          else Inr (if catchup' = [] then None else Some (FToolCallCheckpoint i catchup'),
                 e\<lparr>fe_blocks := map_set i (EncodedTool True [] []) (fe_blocks e)\<rparr>)))"

definition encode ::
  "(jstring \<Rightarrow> arguments) \<Rightarrow> (arguments \<Rightarrow> jstring) \<Rightarrow> assistant_event \<Rightarrow> encoder \<Rightarrow>
   frame_error + (assistant_frame option \<times> encoder)" where
  "encode parse serialize ev e =
     (if fe_terminal e then Inl AfterTerminal
      else case ev of
        EvStart m \<Rightarrow>
          if fe_started e then Inl MoreThanOneStart else Inr (Some (FStart (cloneStartMessage m)), e\<lparr>fe_started := True\<rparr>)
      | EvDone \<Rightarrow> if \<not> fe_started e then Inl BeforeStart else Inr (None, e\<lparr>fe_terminal := True\<rparr>)
      | EvError \<Rightarrow> Inr (None, e\<lparr>fe_terminal := True\<rparr>)
      | _ \<Rightarrow>
          if \<not> fe_started e then Inl BeforeStart
          else case ev of
            EvTextStart i m \<Rightarrow>
              ebind (eventBlock i m) (\<lambda>b. case b of
                AText content \<Rightarrow>
                  ebind (startBlock i (EncodedText TextKind (length (tx_text content)) 0) e) (\<lambda>e'.
                    Inr (Some (FTextStart i content), e'))
              | _ \<Rightarrow> Inl (WrongContentBlock i))
          | EvTextDelta i delta \<Rightarrow>
              ebind (encodeTextDelta i delta TextKind e) (\<lambda>(d, e'). Inr (map_option (FTextDelta i) d, e'))
          | EvTextEnd i content m \<Rightarrow>
              ebind (eventBlock i m) (\<lambda>b. case b of
                AText live \<Rightarrow>
                  ebind (endBlock i TextKind e) (\<lambda>e'. Inr (Some (FTextEnd i content (tx_signature live)), e'))
              | _ \<Rightarrow> Inl (WrongContentBlock i))
          | EvThinkingStart i m \<Rightarrow>
              ebind (eventBlock i m) (\<lambda>b. case b of
                AThinking content \<Rightarrow>
                  ebind (startBlock i (EncodedText ThinkingKind (length (th_thinking content)) 0) e) (\<lambda>e'.
                    Inr (Some (FThinkingStart i content), e'))
              | _ \<Rightarrow> Inl (WrongContentBlock i))
          | EvThinkingDelta i delta \<Rightarrow>
              ebind (encodeTextDelta i delta ThinkingKind e) (\<lambda>(d, e'). Inr (map_option (FThinkingDelta i) d, e'))
          | EvThinkingEnd i content m \<Rightarrow>
              ebind (eventBlock i m) (\<lambda>b. case b of
                AThinking live \<Rightarrow>
                  ebind (endBlock i ThinkingKind e) (\<lambda>e'.
                    Inr (Some (FThinkingEnd i content (th_signature live) (th_redacted live)), e'))
              | _ \<Rightarrow> Inl (WrongContentBlock i))
          | EvToolStart i m \<Rightarrow>
              ebind (eventBlock i m) (\<lambda>b. case b of
                AToolCall content \<Rightarrow>
                  (let snapshot = serialize (tc_arguments content);
                       caughtUp = (snapshot = serialize (parse [])) in
                   ebind (startBlock i (EncodedTool caughtUp [] (if caughtUp then [] else snapshot)) e) (\<lambda>e'.
                     Inr (Some (FToolCallStart i content), e')))
              | _ \<Rightarrow> Inl (WrongContentBlock i))
          | EvToolDelta i delta \<Rightarrow> encodeToolDelta parse serialize i delta e
          | EvToolEnd i call m \<Rightarrow>
              ebind (eventBlock i m) (\<lambda>b. case b of
                AToolCall live \<Rightarrow>
                  ebind (endBlock i ToolKind e) (\<lambda>e'.
                    Inr (Some (FToolCallEnd i (tc_id call) (tc_name call) (tc_arguments call)
                      (tc_thoughtSignature call) (tc_namespace call)), e'))
              | _ \<Rightarrow> Inl (WrongContentBlock i)))"

text \<open>The frames of a whole stream, in order.\<close>

fun encode_events ::
  "(jstring \<Rightarrow> arguments) \<Rightarrow> (arguments \<Rightarrow> jstring) \<Rightarrow> assistant_event list \<Rightarrow> encoder \<Rightarrow>
   frame_error + (assistant_frame list \<times> encoder)" where
  "encode_events parse serialize [] e = Inr ([], e)"
| "encode_events parse serialize (ev # evs) e =
     ebind (encode parse serialize ev e) (\<lambda>(f, e'). ebind (encode_events parse serialize evs e') (\<lambda>(fs, e'').
       Inr ((case f of None \<Rightarrow> [] | Some x \<Rightarrow> [x]) @ fs, e'')))"

section \<open>The reducer\<close>

datatype reducer_block = ReducedText bool | ReducedThinking bool | ReducedTool bool jstring

record reducer =
  fr_message :: "assistant_message option"
  fr_frameBeforeStart :: bool
  fr_states :: "(int, reducer_block) jsmap"

definition new_reducer :: reducer where
  "new_reducer = \<lparr>fr_message = None, fr_frameBeforeStart = False, fr_states = []\<rparr>"

fun reducer_kind :: "reducer_block \<Rightarrow> block_kind" where
  "reducer_kind (ReducedText e) = TextKind"
| "reducer_kind (ReducedThinking e) = ThinkingKind"
| "reducer_kind (ReducedTool e j) = ToolKind"

fun reducer_ended :: "reducer_block \<Rightarrow> bool" where
  "reducer_ended (ReducedText e) = e"
| "reducer_ended (ReducedThinking e) = e"
| "reducer_ended (ReducedTool e j) = e"

fun content_kind :: "assistant_block \<Rightarrow> block_kind" where
  "content_kind (AText c) = TextKind"
| "content_kind (AThinking c) = ThinkingKind"
| "content_kind (AToolCall c) = ToolKind"

definition appendBlock ::
  "int \<Rightarrow> assistant_block \<Rightarrow> reducer_block \<Rightarrow> assistant_message \<Rightarrow> reducer \<Rightarrow> frame_error + reducer" where
  "appendBlock i b st m r =
     ebind (assertContentIndex i) (\<lambda>u.
     if i \<noteq> int (length (am_content m))
     then Inl (if i < int (length (am_content m)) then BlockExists i else BlockGap i)
     else Inr (r\<lparr>fr_message := Some (m\<lparr>am_content := am_content m @ [b]\<rparr>), fr_states := map_set i st (fr_states r)\<rparr>))"

definition activeBlock ::
  "int \<Rightarrow> block_kind \<Rightarrow> assistant_message \<Rightarrow> reducer \<Rightarrow> frame_error + (assistant_block \<times> reducer_block)" where
  "activeBlock i kind m r =
     ebind (assertContentIndex i) (\<lambda>u.
     case (map_get (fr_states r) i, content_block m i) of
       (Some st, Some b) \<Rightarrow>
         if reducer_kind st \<noteq> kind \<or> content_kind b \<noteq> kind then Inl (WrongKind i)
         else if reducer_ended st then Inl (BlockEnded i)
         else Inr (b, st)
     | _ \<Rightarrow> Inl (NotStarted i))"

text \<open>Replace the block and its state: the code mutates both in place.\<close>

definition put_block :: "int \<Rightarrow> assistant_block \<Rightarrow> reducer_block \<Rightarrow> assistant_message \<Rightarrow> reducer \<Rightarrow> reducer" where
  "put_block i b st m r =
     r\<lparr>fr_message := Some (m\<lparr>am_content := (am_content m)[nat i := b]\<rparr>), fr_states := map_set i st (fr_states r)\<rparr>"

fun append_text :: "jstring \<Rightarrow> assistant_block \<Rightarrow> assistant_block" where
  "append_text delta (AText c) = AText (c\<lparr>tx_text := tx_text c @ delta\<rparr>)"
| "append_text delta (AThinking c) = AThinking (c\<lparr>th_thinking := th_thinking c @ delta\<rparr>)"
| "append_text delta (AToolCall c) = AToolCall c"

fun set_arguments :: "arguments \<Rightarrow> assistant_block \<Rightarrow> assistant_block" where
  "set_arguments a (AToolCall c) = AToolCall (c\<lparr>tc_arguments := a\<rparr>)"
| "set_arguments a b = b"

fun tool_json :: "reducer_block \<Rightarrow> jstring" where
  "tool_json (ReducedTool e j) = j"
| "tool_json st = []"

definition reduce_block ::
  "(jstring \<Rightarrow> arguments) \<Rightarrow> assistant_frame \<Rightarrow> assistant_message \<Rightarrow> reducer \<Rightarrow> frame_error + reducer" where
  "reduce_block parse f m r =
     (case f of
        FStart partial_message \<Rightarrow> Inl MoreThanOneStart
      | FTextStart i content \<Rightarrow> appendBlock i (AText content) (ReducedText False) m r
      | FTextDelta i delta \<Rightarrow>
          ebind (activeBlock i TextKind m r) (\<lambda>(b, st). Inr (put_block i (append_text delta b) st m r))
      | FTextEnd i content signature \<Rightarrow>
          ebind (activeBlock i TextKind m r) (\<lambda>(b, st).
            Inr (put_block i (AText \<lparr>tx_text = content, tx_signature = signature\<rparr>) (ReducedText True) m r))
      | FThinkingStart i content \<Rightarrow> appendBlock i (AThinking content) (ReducedThinking False) m r
      | FThinkingDelta i delta \<Rightarrow>
          ebind (activeBlock i ThinkingKind m r) (\<lambda>(b, st). Inr (put_block i (append_text delta b) st m r))
      | FThinkingEnd i content signature redacted \<Rightarrow>
          ebind (activeBlock i ThinkingKind m r) (\<lambda>(b, st).
            Inr (put_block i (AThinking \<lparr>th_thinking = content, th_signature = signature, th_redacted = redacted\<rparr>)
              (ReducedThinking True) m r))
      | FToolCallStart i call \<Rightarrow> appendBlock i (AToolCall call) (ReducedTool False []) m r
      | FToolCallCheckpoint i json \<Rightarrow>
          ebind (activeBlock i ToolKind m r) (\<lambda>(b, st).
            Inr (put_block i (set_arguments (parse json) b) (ReducedTool False json) m r))
      | FToolCallDelta i delta \<Rightarrow>
          ebind (activeBlock i ToolKind m r) (\<lambda>(b, st).
            Inr (put_block i b (ReducedTool False (tool_json st @ delta)) m r))
      | FToolCallEnd i callId callName arguments signature space \<Rightarrow>
          ebind (activeBlock i ToolKind m r) (\<lambda>(b, st).
            Inr (put_block i (AToolCall \<lparr>tc_id = callId, tc_name = callName, tc_arguments = arguments,
                tc_thoughtSignature = signature, tc_namespace = space\<rparr>) (ReducedTool True (tool_json st)) m r)))"

definition reduce_frame ::
  "(jstring \<Rightarrow> arguments) \<Rightarrow> assistant_frame \<Rightarrow> reducer \<Rightarrow> frame_error + reducer" where
  "reduce_frame parse f r =
     (case f of
        FStart partial_message \<Rightarrow>
          if fr_message r \<noteq> None then Inl MoreThanOneStart
          else if fr_frameBeforeStart r then Inl BeforeStart
          else Inr (r\<lparr>fr_message := Some partial_message\<rparr>)
      | _ \<Rightarrow>
          (case fr_message r of
             None \<Rightarrow> Inr (r\<lparr>fr_frameBeforeStart := True\<rparr>)
           | Some m \<Rightarrow> reduce_block parse f m r))"

fun reduce_frames :: "(jstring \<Rightarrow> arguments) \<Rightarrow> assistant_frame list \<Rightarrow> reducer \<Rightarrow> frame_error + reducer" where
  "reduce_frames parse [] r = Inr r"
| "reduce_frames parse (f # fs) r = ebind (reduce_frame parse f r) (reduce_frames parse fs)"

text \<open>The last loop: the arguments of every tool call still open, from the JSON text it has so far.\<close>

fun settle_arguments :: "(jstring \<Rightarrow> arguments) \<Rightarrow> (int \<times> reducer_block) list \<Rightarrow> assistant_message \<Rightarrow> assistant_message" where
  "settle_arguments parse [] m = m"
| "settle_arguments parse ((i, st) # states) m =
     settle_arguments parse states
       (case st of
          ReducedTool False (c # cs) \<Rightarrow>
            (case content_block m i of
               None \<Rightarrow> m
             | Some b \<Rightarrow> m\<lparr>am_content := (am_content m)[nat i := set_arguments (parse (c # cs)) b]\<rparr>)
        | _ \<Rightarrow> m)"

definition reduceAssistantMessageFrames ::
  "(jstring \<Rightarrow> arguments) \<Rightarrow> assistant_frame list \<Rightarrow> frame_error + assistant_message option" where
  "reduceAssistantMessageFrames parse frames =
     ebind (reduce_frames parse frames new_reducer) (\<lambda>r.
       Inr (map_option (settle_arguments parse (fr_states r)) (fr_message r)))"

end
