(* ===== verification/Generation.thy ===== *)
theory Generation
  imports Response Frames LaneDrive
begin

text \<open>
  The requests of a run: \<open>runtime/drive/generation.ts\<close> (preparing one, publishing its intent, waiting for a retry),
  \<open>recovery.ts\<close> (settling an orphaned one from its frames), \<open>deferred.ts\<close> (polling a suspended one), the reconciliation
  of a cancelled operation in \<open>reconcile.ts\<close> and the progress channels of \<open>runtime/progress.ts\<close>. The request itself is
  the provider's. A procedure with a request or a hook between two commands is one definition for each part; the model
  catalogue, the tools of the process, the fresh ids and the clock are arguments.
\<close>

section \<open>Preparing a request\<close>

definition identity_json :: "model_identity \<Rightarrow> json" where
  "identity_json identity =
     JObj [(js ''provider'', JStr (mi_provider identity)), (js ''modelId'', JStr (mi_modelId identity))]"

definition model_unavailable :: "model_identity \<Rightarrow> operation_error" where
  "model_unavailable identity =
     \<lparr>oe_code = js ''model_unavailable'', oe_message = js ''The configured model is unavailable in this process'',
      oe_details = Some (identity_json identity)\<rparr>"

definition tools_unavailable :: "jstring list \<Rightarrow> operation_error" where
  "tools_unavailable names =
     \<lparr>oe_code = js ''configured_tools_unavailable'',
      oe_message = js ''One or more configured tools are unavailable in this process'',
      oe_details = Some (JObj [(js ''tools'', JArr (map JStr names))])\<rparr>"

text \<open>A model of the catalogue: its output limit and its context window.\<close>

record model_limits =
  ml_maxTokens :: int
  ml_contextWindow :: int

datatype generation_preparation =
    GenerationReady model_limits "agent_message list"
  | ConfigurationFailure operation_error
  | GenerationCancelled

definition prepareGeneration ::
  "(model_identity \<Rightarrow> model_limits option) \<Rightarrow> jstring list \<Rightarrow> jstring \<Rightarrow> generation_context \<Rightarrow> int \<Rightarrow> harness \<Rightarrow>
   generation_preparation outcome \<times> harness" where
  "prepareGeneration catalogue tools name g now h =
     (case catalogue (lc_model (gc_configuration g)) of
        None \<Rightarrow> (Returned (ConfigurationFailure (model_unavailable (lc_model (gc_configuration g)))), h)
      | Some limits \<Rightarrow>
          (let missingTools = filter (\<lambda>t. t \<notin> set tools) (lc_activeToolNames (gc_configuration g)) in
           if missingTools \<noteq> [] then (Returned (ConfigurationFailure (tools_unavailable missingTools)), h)
           else
             (case continueOperation name (finish_context_plan (cf_entryProjectors (ha_config h))) now h of
                (Blocked, h') \<Rightarrow> (Blocked, h')
              | (Threw e, h') \<Rightarrow> (Threw e, h')
              | (Returned CancelRequestedResult, h') \<Rightarrow> (Returned GenerationCancelled, h')
              | (Returned (ContinueResult ms), h') \<Rightarrow> (Returned (GenerationReady limits ms), h'))))"

definition generation_intent_plan ::
  "jstring \<Rightarrow> jstring \<Rightarrow> generation_context \<Rightarrow> int \<Rightarrow> jstring \<Rightarrow> jstring \<Rightarrow> model_limits \<Rightarrow> operation_leaf operation_plan" where
  "generation_intent_plan name runId g nextAttempt responseEntryId usageId limits state current meta s =
     (let leaf = AssistantEffectPending g nextAttempt responseEntryId usageId (ml_maxTokens limits) (ml_contextWindow limits) in
      Inr (OperationCommit [] \<lparr>op_scope = operationScopeOf current, op_leaf = leaf\<rparr> no_patch (\<lambda>c. leaf)
        (\<lambda>c. if nextAttempt = 1 then [lane_event name (TurnStart runId (gc_stepId g))] else [])))"

definition publishGenerationIntent ::
  "jstring \<Rightarrow> jstring \<Rightarrow> generation_context \<Rightarrow> int \<Rightarrow> jstring \<Rightarrow> jstring \<Rightarrow> model_limits \<Rightarrow> int \<Rightarrow> harness \<Rightarrow>
   operation_leaf continue_result outcome \<times> harness" where
  "publishGenerationIntent name runId g nextAttempt responseEntryId usageId limits now h =
     continueOperation name (generation_intent_plan name runId g nextAttempt responseEntryId usageId limits) now h"

section \<open>Waiting for a retry\<close>

definition retry_wait_plan ::
  "jstring \<Rightarrow> jstring \<Rightarrow> generation_context \<Rightarrow> retry_wait \<Rightarrow> procedure_result operation_plan" where
  "retry_wait_plan name runId g w state current meta s =
     Inr (OperationCommit []
       \<lparr>op_scope = operationScopeOf current, op_leaf = AssistantReady g (rw_nextAttempt w)\<rparr> no_patch (\<lambda>c. ProcContinue)
       (\<lambda>c. [lane_event name (RetryStart runId (gc_stepId g) (rw_nextAttempt w))]))"

text \<open>One turn of the wait: \<open>Blocked\<close> before the time has come, when the pass waits for it.\<close>

definition runRetryWait ::
  "jstring \<Rightarrow> jstring \<Rightarrow> generation_context \<Rightarrow> retry_wait \<Rightarrow> bool \<Rightarrow> int \<Rightarrow> harness \<Rightarrow> procedure_result outcome \<times> harness" where
  "runRetryWait name runId g w waitForRetry now h =
     (if now < rw_notBefore w
      then (if \<not> waitForRetry then Returned (ProcWaiting (WaitingRetry runId (rw_notBefore w))) else Blocked, h)
      else continue_or ProcContinue (continueOperation name (retry_wait_plan name runId g w) now h))"

text \<open>
  \<open>runGeneration\<close> up to its request: a result of the procedure, or the intent to perform. The response is then settled
  by \<open>publishResponse\<close>.
\<close>

definition runGeneration_prepare ::
  "(model_identity \<Rightarrow> model_limits option) \<Rightarrow> jstring list \<Rightarrow> jstring \<Rightarrow> jstring \<Rightarrow> generation_context \<Rightarrow> int \<Rightarrow> harness \<Rightarrow>
   (procedure_result + (model_limits \<times> agent_message list)) outcome \<times> harness" where
  "runGeneration_prepare catalogue tools name runId g now h =
     (case prepareGeneration catalogue tools name g now h of
        (Returned (ConfigurationFailure e), h') \<Rightarrow>
          (let (out, h'') = publishConfigurationFailure name runId e now h' in (map_outcome Inl out, h''))
      | (Returned GenerationCancelled, h') \<Rightarrow> (Returned (Inl ProcContinue), h')
      | (Returned (GenerationReady limits ms), h') \<Rightarrow> (Returned (Inr (limits, ms)), h')
      | (Blocked, h') \<Rightarrow> (Blocked, h')
      | (Threw e, h') \<Rightarrow> (Threw e, h'))"

definition runGeneration_intent ::
  "jstring \<Rightarrow> jstring \<Rightarrow> generation_context \<Rightarrow> int \<Rightarrow> jstring \<Rightarrow> jstring \<Rightarrow> model_limits \<Rightarrow> int \<Rightarrow> harness \<Rightarrow>
   (procedure_result + operation_leaf) outcome \<times> harness" where
  "runGeneration_intent name runId g nextAttempt responseEntryId usageId limits now h =
     (case publishGenerationIntent name runId g nextAttempt responseEntryId usageId limits now h of
        (Returned CancelRequestedResult, h') \<Rightarrow> (Returned (Inl ProcContinue), h')
      | (Returned (ContinueResult leaf), h') \<Rightarrow> (Returned (Inr leaf), h')
      | (Blocked, h') \<Rightarrow> (Blocked, h')
      | (Threw e, h') \<Rightarrow> (Threw e, h'))"

section \<open>Recovering an orphaned request\<close>

definition interrupted_warning :: jstring where
  "interrupted_warning =
     js ''Assistant request was interrupted. The preceding content is the latest committed partial; newer live output may be missing and the external outcome is unknown.''"

definition interruptedAssistantMessage :: "model_identity \<Rightarrow> assistant_message option \<Rightarrow> int \<Rightarrow> assistant_message" where
  "interruptedAssistantMessage identity partial_message now =
     (case partial_message of
        None \<Rightarrow>
          \<lparr>am_content = [], am_api = js ''unknown'', am_provider = mi_provider identity, am_model = mi_modelId identity,
           am_responseModel = None, am_responseId = None, am_providerThinkingLevel = None, am_diagnostics = None,
           am_usage = emptyUsage, am_stopReason = Error, am_deferred = None, am_errorMessage = Some interrupted_warning,
           am_rawStopReason = None, am_endTurn = None, am_timestamp = now\<rparr>
      | Some m \<Rightarrow> m\<lparr>am_usage := emptyUsage, am_stopReason := Error, am_errorMessage := Some interrupted_warning\<rparr>)"

definition frames_plan :: "jstring \<Rightarrow> jstring \<Rightarrow> assistant_frame list operation_plan" where
  "frames_plan runId responseEntryId state current meta s =
     (case readAssistantFrames s runId responseEntryId of
        None \<Rightarrow> Inl (SessionInvariant ''the frames never end'')
      | Some r \<Rightarrow> ebind r (\<lambda>fs. Inr (OperationReturn fs)))"

fun effect_identity :: "effect \<Rightarrow> model_identity" where
  "effect_identity (AssistantEffect g n) = lc_model (gc_configuration g)"
| "effect_identity (DeferredEffect d) = lc_model (ds_configuration d)"

text \<open>The message a replay of the frames gives; a frame the reducer rejects is an error of the pass.\<close>

definition recovered_message ::
  "(jstring \<Rightarrow> arguments) \<Rightarrow> model_identity \<Rightarrow> assistant_frame list \<Rightarrow> int \<Rightarrow> js_error + assistant_message" where
  "recovered_message parse identity frames now =
     (case reduceAssistantMessageFrames parse frames of
        Inl e \<Rightarrow> Inl (SessionInvariant ''invalid assistant message frames'')
      | Inr m \<Rightarrow> Inr (interruptedAssistantMessage identity m now))"

definition recoverAssistantGeneration_read ::
  "jstring \<Rightarrow> jstring \<Rightarrow> jstring \<Rightarrow> int \<Rightarrow> harness \<Rightarrow> assistant_frame list continue_result outcome \<times> harness" where
  "recoverAssistantGeneration_read name runId responseEntryId now h =
     continueOperation name (frames_plan runId responseEntryId) now h"

definition recoverCancelledAssistantEffect_read ::
  "jstring \<Rightarrow> jstring \<Rightarrow> jstring \<Rightarrow> int \<Rightarrow> harness \<Rightarrow> assistant_frame list outcome \<times> harness" where
  "recoverCancelledAssistantEffect_read name runId responseEntryId now h =
     settleOperation name (frames_plan runId responseEntryId) now h"

text \<open>What both do with the frames: announce the message and settle it under the reserved ids.\<close>

definition recovery_events :: "jstring \<Rightarrow> jstring \<Rightarrow> jstring \<Rightarrow> assistant_message \<Rightarrow> harness_event list" where
  "recovery_events name runId responseEntryId m =
     [recovery_event True name (MessageStart (Some runId) (AssistantMsg m)),
      recovery_event True name (MessageEnd (Some runId) (AssistantMsg m) (Some responseEntryId))]"

definition recover_settle ::
  "(jstring \<Rightarrow> arguments) \<Rightarrow> jstring \<Rightarrow> jstring \<Rightarrow> operation_leaf \<Rightarrow> assistant_frame list \<Rightarrow>
   (jstring \<times> structural_preparation) option \<Rightarrow> (nat \<Rightarrow> jstring) \<Rightarrow> int \<Rightarrow> harness \<Rightarrow> procedure_result outcome \<times> harness" where
  "recover_settle parse name runId intent frames prepare resultId now h =
     (case (effect_of intent, intent_ids intent) of
        (Some effect, Some (responseEntryId, usageId)) \<Rightarrow>
          (case recovered_message parse (effect_identity effect) frames now of
             Inl e \<Rightarrow> (Threw e, h)
           | Inr m \<Rightarrow>
               publishResponse name runId intent m True prepare resultId now
                 (h\<lparr>ha_log := ha_log h @ recovery_events name runId responseEntryId m\<rparr>))
      | _ \<Rightarrow> (Threw (SessionInvariant ''the intent awaits no response''), h))"

section \<open>Polling a deferred request\<close>

definition readDeferredSourceHandle :: "storage_state \<Rightarrow> deferred_scope \<Rightarrow> js_error + deferred_handle" where
  "readDeferredSourceHandle s d =
     (case map_get (getEntries [ds_sourceEntryId d] s) (ds_sourceEntryId d) of
        None \<Rightarrow> Inl (SessionInvariant ''Deferred source is missing its assistant handle'')
      | Some e \<Rightarrow>
          (case en_body e of
             MessageBody (AssistantMsg m) t \<Rightarrow>
               (case am_deferred m of
                  None \<Rightarrow> Inl (SessionInvariant ''Deferred source is missing its assistant handle'')
                | Some handle \<Rightarrow>
                    if am_stopReason m \<noteq> Deferred
                    then Inl (SessionInvariant ''Deferred source is missing its assistant handle'')
                    else if dh_id handle = [] \<or> dh_provider handle \<noteq> mi_provider (lc_model (ds_configuration d)) \<or>
                      dh_modelId handle \<noteq> mi_modelId (lc_model (ds_configuration d)) \<or> dh_api handle \<noteq> am_api m
                    then Inl (SessionInvariant ''Deferred source has an invalid handle'')
                    else Inr handle)
           | _ \<Rightarrow> Inl (SessionInvariant ''Deferred source is missing its assistant handle'')))"

definition source_handle_plan :: "deferred_scope \<Rightarrow> deferred_handle operation_plan" where
  "source_handle_plan d state current meta s =
     ebind (readDeferredSourceHandle s d) (\<lambda>handle. Inr (OperationReturn handle))"

fun deferred_leaf :: "operation_leaf \<Rightarrow> (deferred_scope \<times> jstring option) option" where
  "deferred_leaf (DeferredSuspended d) = Some (d, None)"
| "deferred_leaf (DeferredEffectPending d responseId usageId) = Some (d, Some responseId)"
| "deferred_leaf _ = None"

datatype deferred_preparation =
    PollReady deferred_handle int
  | PollCancelled
  | PollWaiting deferred_handle
  | PollConfigurationFailure

text \<open>\<open>orphan\<close> is the response id of an orphaned poll, which is polled again under its number.\<close>

definition prepareDeferredPoll ::
  "(model_identity \<Rightarrow> model_limits option) \<Rightarrow> jstring \<Rightarrow> deferred_scope \<Rightarrow> jstring option \<Rightarrow> int \<Rightarrow> int \<Rightarrow> harness \<Rightarrow>
   deferred_preparation outcome \<times> harness" where
  "prepareDeferredPoll catalogue name d orphan permits now h =
     (case continueOperation name (source_handle_plan d) now h of
        (Blocked, h') \<Rightarrow> (Blocked, h')
      | (Threw e, h') \<Rightarrow> (Threw e, h')
      | (Returned CancelRequestedResult, h') \<Rightarrow> (Returned PollCancelled, h')
      | (Returned (ContinueResult handle), h') \<Rightarrow>
          (Returned
            (if permits = 0 then PollWaiting handle
             else if catalogue (lc_model (ds_configuration d)) = None then PollConfigurationFailure
             else PollReady handle (if orphan = None then ds_poll d + 1 else ds_poll d)), h'))"

definition poll_intent_plan ::
  "jstring \<Rightarrow> jstring \<Rightarrow> deferred_scope \<Rightarrow> jstring option \<Rightarrow> int \<Rightarrow> jstring \<Rightarrow> jstring \<Rightarrow> bool \<Rightarrow> operation_leaf operation_plan" where
  "poll_intent_plan name runId d orphan poll responseEntryId usageId recovery state current meta s =
     (let next = d\<lparr>ds_poll := poll\<rparr>;
          leaf = DeferredEffectPending next responseEntryId usageId in
      ebind (case orphan of
          None \<Rightarrow> Inr []
        | Some old \<Rightarrow> ebind (pendingAssistantFrames runId old) (\<lambda>a. Inr [deleteList a])) (\<lambda>writes.
      Inr (OperationCommit writes \<lparr>op_scope = operationScopeOf current, op_leaf = leaf\<rparr> no_patch (\<lambda>c. leaf)
        (\<lambda>c. [recovery_event recovery name (RunResume runId),
          recovery_event recovery name (TurnStart runId (effect_turnId (DeferredEffect next)))]))))"

text \<open>The committed poll spends a permit of its drive.\<close>

definition spend_permit :: "nat \<Rightarrow> lane \<Rightarrow> lane" where
  "spend_permit serial l =
     l\<lparr>ln_drive := map_option (\<lambda>d. if dr_serial d = serial then d\<lparr>dr_deferredPermits := dr_deferredPermits d - 1\<rparr> else d) (ln_drive l)\<rparr>"

definition publishPollIntent ::
  "jstring \<Rightarrow> jstring \<Rightarrow> nat \<Rightarrow> deferred_scope \<Rightarrow> jstring option \<Rightarrow> int \<Rightarrow> jstring \<Rightarrow> jstring \<Rightarrow> bool \<Rightarrow> int \<Rightarrow> harness \<Rightarrow>
   operation_leaf continue_result outcome \<times> harness" where
  "publishPollIntent name runId serial d orphan poll responseEntryId usageId recovery now h =
     (let (out, h') = continueOperation name (poll_intent_plan name runId d orphan poll responseEntryId usageId recovery) now h in
      (out, case out of Returned (ContinueResult leaf) \<Rightarrow> update_lane name (spend_permit serial) h' | _ \<Rightarrow> h'))"

text \<open>\<open>pollDeferred\<close> up to its request, and its intent.\<close>

definition pollDeferred_prepare ::
  "(model_identity \<Rightarrow> model_limits option) \<Rightarrow> jstring \<Rightarrow> jstring \<Rightarrow> deferred_scope \<Rightarrow> jstring option \<Rightarrow> int \<Rightarrow> int \<Rightarrow> harness \<Rightarrow>
   (procedure_result + (deferred_handle \<times> int)) outcome \<times> harness" where
  "pollDeferred_prepare catalogue name runId d orphan permits now h =
     (case prepareDeferredPoll catalogue name d orphan permits now h of
        (Returned PollCancelled, h') \<Rightarrow> (Returned (Inl ProcContinue), h')
      | (Returned (PollWaiting handle), h') \<Rightarrow> (Returned (Inl (ProcWaiting (WaitingDeferred runId handle))), h')
      | (Returned PollConfigurationFailure, h') \<Rightarrow>
          (let (out, h'') = publishConfigurationFailure name runId (model_unavailable (lc_model (ds_configuration d))) now h' in
           (map_outcome Inl out, h''))
      | (Returned (PollReady handle poll), h') \<Rightarrow> (Returned (Inr (handle, poll)), h')
      | (Blocked, h') \<Rightarrow> (Blocked, h')
      | (Threw e, h') \<Rightarrow> (Threw e, h'))"

definition pollDeferred_intent ::
  "jstring \<Rightarrow> jstring \<Rightarrow> nat \<Rightarrow> deferred_scope \<Rightarrow> jstring option \<Rightarrow> int \<Rightarrow> jstring \<Rightarrow> jstring \<Rightarrow> int \<Rightarrow> harness \<Rightarrow>
   (procedure_result + operation_leaf) outcome \<times> harness" where
  "pollDeferred_intent name runId serial d orphan poll responseEntryId usageId now h =
     (case publishPollIntent name runId serial d orphan poll responseEntryId usageId (orphan \<noteq> None) now h of
        (Returned CancelRequestedResult, h') \<Rightarrow> (Returned (Inl ProcContinue), h')
      | (Returned (ContinueResult leaf), h') \<Rightarrow> (Returned (Inr leaf), h')
      | (Blocked, h') \<Rightarrow> (Blocked, h')
      | (Threw e, h') \<Rightarrow> (Threw e, h'))"

section \<open>Reconciling a cancelled operation\<close>

definition readDeferredHandle :: "jstring \<Rightarrow> deferred_scope \<Rightarrow> int \<Rightarrow> harness \<Rightarrow> deferred_handle outcome \<times> harness" where
  "readDeferredHandle name d now h = settleOperation name (source_handle_plan d) now h"

definition aborted_summary_events ::
  "jstring \<Rightarrow> jstring \<Rightarrow> operation_leaf \<Rightarrow> int \<Rightarrow> js_error + harness_event list" where
  "aborted_summary_events name runId leaf endedAt =
     (case summary_task_of leaf of
        None \<Rightarrow> Inr []
      | Some t \<Rightarrow>
          (case (st_boundary t, st_reason t) of
             (ResumeCheckpoint ck, Some reason) \<Rightarrow> Inr [lane_event name (CompactionEnd runId reason endedAt AbortedStatus None None)]
           | _ \<Rightarrow> Inl (SessionInvariant ''Cancelled run summary has an invalid result boundary'')))"

definition aborted_terminal_plan :: "jstring \<Rightarrow> jstring \<Rightarrow> int \<Rightarrow> procedure_result operation_plan" where
  "aborted_terminal_plan name runId now state current meta s =
     (if os_control (op_scope current) = Running
      then Inl (SessionInvariant ''Cancellation reconciliation requires cancelled durable control'')
      else
        ebind (operationResultRecord meta AbortedStatus (la_tipId state) None now) (\<lambda>result.
        ebind (operationCleanupWrites s runId current) (\<lambda>cleanup.
        ebind (case me_intent meta of
            RunIntent ps \<Rightarrow>
              ebind (aborted_summary_events name runId (op_leaf current) (or_endedAt result)) (\<lambda>evs.
              Inr (evs @ [lane_event name (RunEnd runId (me_sourceTipId meta) (la_tipId state) (or_endedAt result) AbortedStatus None)]))
          | CompactionIntent ci \<Rightarrow>
              Inr [lane_event name (CompactionEnd runId ManualReason (or_endedAt result) AbortedStatus None None)]
          | NavigationIntent t sm l ci \<Rightarrow>
              Inr [lane_event name (NavigationEnd runId (me_sourceTipId meta) (la_tipId state) (or_endedAt result) AbortedStatus None)])
          (\<lambda>events. Inr (OperationFinish cleanup result no_patch (\<lambda>c. ProcSettled result) (\<lambda>c. events))))))"

definition publishAbortedTerminal :: "jstring \<Rightarrow> jstring \<Rightarrow> int \<Rightarrow> harness \<Rightarrow> procedure_result outcome \<times> harness" where
  "publishAbortedTerminal name runId now h = settleOperation name (aborted_terminal_plan name runId now) now h"

section \<open>Progress of a request\<close>

text \<open>One write of a progress channel: nothing once the operation has left the effect that owns it.\<close>

definition owns_frames :: "jstring \<Rightarrow> lane_state \<Rightarrow> bool" where
  "owns_frames responseEntryId state =
     (case la_operation state of
        None \<Rightarrow> False
      | Some operation \<Rightarrow> map_option fst (intent_ids (op_leaf (op_state operation))) = Some responseEntryId)"

definition owns_tool_output :: "jstring \<Rightarrow> int \<Rightarrow> jstring \<Rightarrow> lane_state \<Rightarrow> bool" where
  "owns_tool_output turnId sourceIndex invocationId state =
     (case la_operation state of
        None \<Rightarrow> False
      | Some operation \<Rightarrow>
          (case op_leaf (op_state operation) of
             Tools batch \<Rightarrow> tb_turnId batch = turnId \<and>
               list_ex (\<lambda>call. bc_sourceIndex call = sourceIndex \<and> bc_resultEntryId call = invocationId \<and>
                 (case bc_status call of EffectPending r \<Rightarrow> True | _ \<Rightarrow> False)) (tb_calls batch)
           | _ \<Rightarrow> False))"

definition progress_plan ::
  "storage_write \<Rightarrow> (lane_state \<Rightarrow> bool) \<Rightarrow> lane_state \<Rightarrow> storage_state \<Rightarrow> js_error + unit lane_decision" where
  "progress_plan write stillOwns state s =
     Inr (if \<not> stillOwns state then CommandReturn () else CommandCommit [write] state (\<lambda>c. ()) (\<lambda>c. []))"

definition frame_progress :: "jstring \<Rightarrow> jstring \<Rightarrow> jstring \<Rightarrow> assistant_frame \<Rightarrow> int \<Rightarrow> harness \<Rightarrow> unit outcome \<times> harness" where
  "frame_progress name runId responseEntryId frame now h =
     (case pendingAssistantFrames runId responseEntryId of
        Inl e \<Rightarrow> (Threw e, h)
      | Inr a \<Rightarrow> lane_command name (progress_plan (appendList a (VFrame frame)) (owns_frames responseEntryId)) now h)"

definition tool_progress ::
  "jstring \<Rightarrow> jstring \<Rightarrow> jstring \<Rightarrow> int \<Rightarrow> jstring \<Rightarrow> agent_tool_result \<Rightarrow> int \<Rightarrow> harness \<Rightarrow> unit outcome \<times> harness" where
  "tool_progress name runId turnId sourceIndex invocationId snapshot now h =
     (case pendingToolOutput runId invocationId of
        Inl e \<Rightarrow> (Threw e, h)
      | Inr a \<Rightarrow>
          lane_command name
            (progress_plan (setValue a (VToolOutput snapshot)) (owns_tool_output turnId sourceIndex invocationId)) now h)"

end
