(* ===== verification/ToolPlacement.thy ===== *)
theory ToolPlacement
  imports Generation
begin

text \<open>
  \<open>runtime/drive/tool-placement.ts\<close>: where the results of a tool batch enter the transcript. Results are staged as
  pending entries in any order; placement takes the staged ones that follow the completed calls, in source order, and
  chains their entries to the branch tip.
\<close>

section \<open>The calls of a batch\<close>

record tool_batch_source =
  ts_assistant :: assistant_message
  ts_calls :: "(int, tool_call) jsmap"

fun is_planned :: "tool_call_status \<Rightarrow> bool" where
  "is_planned Planned = True"
| "is_planned _ = False"

fun is_pending :: "tool_call_status \<Rightarrow> bool" where
  "is_pending (EffectPending r) = True"
| "is_pending _ = False"

fun is_ready :: "tool_call_status \<Rightarrow> bool" where
  "is_ready (OutcomeReady t) = True"
| "is_ready _ = False"

fun is_completed :: "tool_call_status \<Rightarrow> bool" where
  "is_completed (CallCompleted t) = True"
| "is_completed _ = False"

text \<open>The flag a call carries once it has an outcome.\<close>

fun call_terminates :: "tool_call_status \<Rightarrow> bool" where
  "call_terminates (OutcomeReady t) = t"
| "call_terminates (CallCompleted t) = t"
| "call_terminates _ = False"

definition same_call :: "batch_call \<Rightarrow> batch_call \<Rightarrow> bool" where
  "same_call a b \<longleftrightarrow> bc_sourceIndex a = bc_sourceIndex b \<and> bc_resultEntryId a = bc_resultEntryId b"

definition source_block :: "assistant_message \<Rightarrow> batch_call \<Rightarrow> js_error + (int \<times> tool_call)" where
  "source_block m call =
     (let k = bc_sourceIndex call in
      if k < 0 \<or> int (length (am_content m)) \<le> k
      then Inl (SessionInvariant ''Tool call source index does not name a tool-call block'')
      else (case am_content m ! nat k of
              AToolCall c \<Rightarrow> Inr (k, c)
            | _ \<Rightarrow> Inl (SessionInvariant ''Tool call source index does not name a tool-call block'')))"

definition source_plan :: "tool_batch \<Rightarrow> lane_state \<Rightarrow> storage_state \<Rightarrow> js_error + tool_batch_source lane_decision" where
  "source_plan batch state s =
     (case map_get (getEntries [tb_assistantEntryId batch] s) (tb_assistantEntryId batch) of
        None \<Rightarrow> Inl (SessionInvariant ''Tool batch assistant entry is invalid'')
      | Some e \<Rightarrow>
          (case en_body e of
             MessageBody (AssistantMsg m) t \<Rightarrow>
               ebind (esequence (map (source_block m) (tb_calls batch))) (\<lambda>calls.
               Inr (CommandReturn \<lparr>ts_assistant = m, ts_calls = fold (\<lambda>(k, c). map_set k c) calls []\<rparr>))
           | _ \<Rightarrow> Inl (SessionInvariant ''Tool batch assistant entry is invalid'')))"

definition readToolBatchSource :: "jstring \<Rightarrow> tool_batch \<Rightarrow> int \<Rightarrow> harness \<Rightarrow> tool_batch_source outcome \<times> harness" where
  "readToolBatchSource name batch now h = lane_command name (source_plan batch) now h"

definition toolCallFor :: "tool_batch_source \<Rightarrow> batch_call \<Rightarrow> js_error + tool_call" where
  "toolCallFor sources call =
     (case map_get (ts_calls sources) (bc_sourceIndex call) of
        None \<Rightarrow> Inl (SessionInvariant ''Tool call source index is invalid'')
      | Some c \<Rightarrow> Inr c)"

definition withToolBatch :: "operation_state \<Rightarrow> tool_batch \<Rightarrow> operation_state" where
  "withToolBatch current batch = \<lparr>op_scope = operationScopeOf current, op_leaf = Tools batch\<rparr>"

section \<open>Reading what can be placed\<close>

record placement_read =
  pr_items :: "(batch_call \<times> tool_result_message) list"
  pr_turnResults :: "tool_result_message list option"

text \<open>The staged calls after the completed ones; the batch is complete when they reach its end.\<close>

definition after_completed :: "tool_batch \<Rightarrow> batch_call list" where
  "after_completed batch = dropWhile (\<lambda>c. is_completed (bc_status c)) (tb_calls batch)"

definition ready_calls :: "tool_batch \<Rightarrow> batch_call list" where
  "ready_calls batch = takeWhile (\<lambda>c. is_ready (bc_status c)) (after_completed batch)"

definition staged_result :: "storage_state \<Rightarrow> tool_batch_source \<Rightarrow> batch_call \<Rightarrow> js_error + (batch_call \<times> tool_result_message)" where
  "staged_result s sources call =
     ebind (read_pending s (bc_resultEntryId call)) (\<lambda>stored. case stored of
       Some (PendingMessage (ToolResultMsg m)) \<Rightarrow>
         ebind (toolCallFor sources call) (\<lambda>source.
         if tr_toolCallId m \<noteq> tc_id source \<or> tr_toolName m \<noteq> tc_name source
         then Inl (SessionInvariant ''Tool call has a mismatched staged result'')
         else Inr (call, m))
     | _ \<Rightarrow> Inl (SessionInvariant ''Tool call is missing its staged result''))"

text \<open>The results of the turn: the staged ones, and for the completed calls the placed ones.\<close>

definition turn_result ::
  "(batch_call \<times> tool_result_message) list \<Rightarrow> (jstring, entry) jsmap \<Rightarrow> batch_call \<Rightarrow> js_error + tool_result_message" where
  "turn_result items placed call =
     (case map_get (fold (\<lambda>(c, m). map_set (bc_resultEntryId c) m) items []) (bc_resultEntryId call) of
        Some m \<Rightarrow> Inr m
      | None \<Rightarrow>
          (case map_get placed (bc_resultEntryId call) of
             None \<Rightarrow> Inl (SessionInvariant ''Completed tool call is missing its result entry'')
           | Some e \<Rightarrow>
               (case en_body e of
                  MessageBody (ToolResultMsg m) t \<Rightarrow> Inr m
                | _ \<Rightarrow> Inl (SessionInvariant ''Completed tool call is missing its result entry''))))"

definition placement_plan ::
  "tool_batch_source \<Rightarrow> lane_state \<Rightarrow> storage_state \<Rightarrow> js_error + placement_read option lane_decision" where
  "placement_plan sources state s =
     (case la_operation state of
        None \<Rightarrow> Inr (CommandReturn None)
      | Some operation \<Rightarrow>
          (case op_leaf (op_state operation) of
             Tools batch \<Rightarrow>
               (let ready = ready_calls batch in
                if ready = [] then Inr (CommandReturn None)
                else
                  ebind (esequence (map (staged_result s sources) ready)) (\<lambda>items.
                  ebind (if length ready = length (after_completed batch)
                    then (let placed = getEntries (map bc_resultEntryId (filter (\<lambda>c. is_completed (bc_status c)) (tb_calls batch))) s in
                      ebind (esequence (map (turn_result items placed) (tb_calls batch))) (\<lambda>ms. Inr (Some ms)))
                    else Inr None) (\<lambda>turnResults.
                  Inr (CommandReturn (Some \<lparr>pr_items = items, pr_turnResults = turnResults\<rparr>)))))
           | _ \<Rightarrow> Inr (CommandReturn None)))"

definition readPlacement ::
  "jstring \<Rightarrow> tool_batch_source \<Rightarrow> int \<Rightarrow> harness \<Rightarrow> placement_read option outcome \<times> harness" where
  "readPlacement name sources now h = lane_command name (placement_plan sources) now h"

section \<open>Placing results\<close>

definition result_entry :: "jstring option \<Rightarrow> batch_call \<Rightarrow> tool_result_message \<Rightarrow> new_entry" where
  "result_entry parentId call m =
     \<lparr>ne_id = bc_resultEntryId call, ne_parentId = parentId,
      ne_body = MessageBody (ToolResultMsg m) (call_terminates (bc_status call))\<rparr>"

definition result_usage :: "jstring option \<Rightarrow> batch_call \<Rightarrow> tool_result_message \<Rightarrow> new_usage_row list" where
  "result_usage usageId call m =
     (case (usageId, tr_usage m) of
        (Some i, Some u) \<Rightarrow>
          [\<lparr>nu_id = i, nu_usage = u, nu_entryId = Some (bc_resultEntryId call), nu_adjustment = False, nu_details = None\<rparr>]
      | _ \<Rightarrow> [])"

text \<open>
  The loop over the items, from the first free write index: the entries with their index, the usage rows with theirs,
  the writes and the tip.
\<close>

fun place_items ::
  "nat \<Rightarrow> jstring option \<Rightarrow> ((batch_call \<times> tool_result_message) \<times> jstring option) list \<Rightarrow>
   js_error + ((new_entry \<times> nat) list \<times> (new_usage_row \<times> nat) list \<times> storage_write list \<times> jstring option)" where
  "place_items k parentId [] = Inr ([], [], [], parentId)"
| "place_items k parentId (((call, m), usageId) # items) =
     (let entry = result_entry parentId call m; rows = result_usage usageId call m in
      ebind (pendingEntry (bc_resultEntryId call)) (\<lambda>slot.
      ebind (place_items (k + 2 + length rows) (Some (bc_resultEntryId call)) items) (\<lambda>(entries, usage, writes, tip).
      Inr ((entry, k) # entries, map (\<lambda>r. (r, k + 2)) rows @ usage,
        [insertEntry entry, deleteValue slot] @ map insertUsage rows @ writes, tip))))"

definition completed_call :: "(batch_call \<times> tool_result_message) list \<Rightarrow> batch_call \<Rightarrow> batch_call" where
  "completed_call items call =
     (case List.find (\<lambda>item. same_call (fst item) call) items of
        None \<Rightarrow> call
      | Some item \<Rightarrow> call\<lparr>bc_status := CallCompleted (call_terminates (bc_status (fst item)))\<rparr>)"

text \<open>The tool names the results add to the configuration, each once, in order.\<close>

definition added_names :: "lane_configuration \<Rightarrow> (batch_call \<times> tool_result_message) list \<Rightarrow> jstring list" where
  "added_names configuration items =
     fold (\<lambda>t added. if t \<notin> set (lc_activeToolNames configuration) \<and> t \<notin> set added then added @ [t] else added)
       (concat (map (\<lambda>(c, m). case tr_addedToolNames m of None \<Rightarrow> [] | Some ns \<Rightarrow> ns) items)) []"

definition result_events ::
  "jstring \<Rightarrow> (new_usage_row \<times> nat) list \<Rightarrow> commit_result \<Rightarrow> new_entry \<times> nat \<Rightarrow> harness_event list" where
  "result_events name usage c = (\<lambda>(entry, k).
     lane_event name (EntryAdded (materializeCommittedEntry entry (cr_seqs c ! k) (cr_timestamp c))) #
     (case List.find (\<lambda>(row, i). nu_entryId row = Some (ne_id entry)) usage of
        None \<Rightarrow> []
      | Some (row, i) \<Rightarrow>
          [lane_event name (UsageEvent (materializeUsageRow row (cr_seqs c ! i)) (ss_usage (cr_stats c)))]))"

text \<open>
  The batch once the items are placed: another batch, or the checkpoint after its last call. A placement is never empty,
  so that \<open>parentId!\<close> is the id of an entry.
\<close>

definition placed_leaf :: "tool_batch \<Rightarrow> batch_call list \<Rightarrow> jstring option \<Rightarrow> js_error + operation_leaf" where
  "placed_leaf batch calls tip =
     (if list_all (\<lambda>c. is_completed (bc_status c)) calls then
        (case tip of
           None \<Rightarrow> Inl (SessionInvariant ''a checkpoint needs its trigger'')
         | Some t \<Rightarrow>
             Inr (Checkpoint \<lparr>ck_continuation =
               (if list_all (\<lambda>c. call_terminates (bc_status c)) calls then MayFinish False else NeedAssistant False),
               ck_triggerEntryId = t\<rparr>))
      else Inr (Tools (batch\<lparr>tb_calls := calls\<rparr>)))"

definition commit_placement_plan ::
  "jstring \<Rightarrow> jstring \<Rightarrow> jstring \<Rightarrow> placement_read \<Rightarrow> jstring option list \<Rightarrow> bool operation_plan" where
  "commit_placement_plan name runId turnId read usageIds state current meta s =
     (case op_leaf current of
        Tools batch \<Rightarrow>
          ebind (place_items 0 (la_tipId state) (zip (pr_items read) usageIds)) (\<lambda>(entries, usage, writes, tip).
          let calls = map (completed_call (pr_items read)) (tb_calls batch);
              finished = list_all (\<lambda>c. is_completed (bc_status c)) calls;
              added = added_names (la_configuration state) (pr_items read);
              configuration = (if added = [] then la_configuration state
                else (la_configuration state)\<lparr>lc_activeToolNames := lc_activeToolNames (la_configuration state) @ added\<rparr>) in
          ebind (if added = [] then Inr [] else ebind (laneConfig name) (\<lambda>a. Inr [setValue a (VConfig configuration)])) (\<lambda>config.
          ebind (branchTip name) (\<lambda>tipSlot.
          ebind (placed_leaf batch calls tip) (\<lambda>leaf.
          ebind (if finished then ebind (operationToolArgsPrefix runId (Some turnId)) (\<lambda>a. Inr (delete_scanned a s)) else Inr []) (\<lambda>args.
          Inr (OperationCommit (writes @ config @ [setValue tipSlot (VTip tip)] @ args)
            \<lparr>op_scope = operationScopeOf current, op_leaf = leaf\<rparr>
            \<lparr>lp_tipId = Some tip, lp_configuration = Some configuration, lp_inbox = None\<rparr>
            (\<lambda>c. finished)
            (\<lambda>c. concat (map (result_events name usage c) entries) @
              (if added = [] then []
               else [lane_event name (ConfigUpdate (ActiveToolsProperty (lc_activeToolNames (la_configuration state))
                 (lc_activeToolNames configuration)))]))))))))
      | _ \<Rightarrow> Inl (SessionInvariant ''the operation has no tool batch''))"

definition commitPlacement ::
  "jstring \<Rightarrow> jstring \<Rightarrow> jstring \<Rightarrow> placement_read \<Rightarrow> jstring option list \<Rightarrow> int \<Rightarrow> harness \<Rightarrow> bool outcome \<times> harness" where
  "commitPlacement name runId turnId read usageIds now h =
     settleOperation name (commit_placement_plan name runId turnId read usageIds) now h"

text \<open>
  \<open>materializeReady\<close> up to its commit and from it on; a fresh usage id for each item that reports usage is drawn between.
\<close>

definition item_events :: "jstring \<Rightarrow> jstring \<Rightarrow> bool \<Rightarrow> batch_call \<times> tool_result_message \<Rightarrow> harness_event list" where
  "item_events name runId recovery = (\<lambda>(call, m).
     [recovery_event recovery name (MessageStart (Some runId) (ToolResultMsg m)),
      recovery_event recovery name (MessageEnd (Some runId) (ToolResultMsg m) (Some (bc_resultEntryId call)))])"

definition materialize_read ::
  "jstring \<Rightarrow> jstring \<Rightarrow> tool_batch_source \<Rightarrow> bool \<Rightarrow> int \<Rightarrow> harness \<Rightarrow> placement_read option outcome \<times> harness" where
  "materialize_read name runId sources recovery now h =
     (case readPlacement name sources now h of
        (Returned (Some read), h') \<Rightarrow>
          (Returned (Some read), h'\<lparr>ha_log := ha_log h' @ concat (map (item_events name runId recovery) (pr_items read))\<rparr>)
      | r \<Rightarrow> r)"

definition materialize_commit ::
  "jstring \<Rightarrow> jstring \<Rightarrow> jstring \<Rightarrow> tool_batch_source \<Rightarrow> bool \<Rightarrow> placement_read \<Rightarrow> (nat \<Rightarrow> jstring) \<Rightarrow> int \<Rightarrow> harness \<Rightarrow>
   unit outcome \<times> harness" where
  "materialize_commit name runId turnId sources recovery read usageId now h =
     (let usageIds = map (\<lambda>k. if tr_usage (snd (pr_items read ! k)) = None then None else Some (usageId k)) [0..<length (pr_items read)] in
      case commitPlacement name runId turnId read usageIds now h of
        (Returned finished, h') \<Rightarrow>
          (Returned (),
           (case (finished, pr_turnResults read) of
              (True, Some results) \<Rightarrow>
                h'\<lparr>ha_log := ha_log h' @ [recovery_event recovery name (TurnEnd runId turnId (ts_assistant sources) results)]\<rparr>
            | _ \<Rightarrow> h'))
      | (Blocked, h') \<Rightarrow> (Blocked, h')
      | (Threw e, h') \<Rightarrow> (Threw e, h'))"

end
