(* ===== verification/ToolCalls.thy ===== *)
theory ToolCalls
  imports ToolPlacement
begin

text \<open>
  The calls of a tool batch: \<open>execution/tools.ts\<close> (preparing a call, the decisions of the hooks, its result message) and
  \<open>runtime/drive/tools.ts\<close> (publishing its intent and its outcome, recovering it, and the order of the calls). A tool of
  the process is a record of functions; what it answers, what the hooks decide and the clock are arguments.
\<close>

section \<open>Preparing a call\<close>

text \<open>A tool prepares and validates arguments; \<open>Inl\<close> is the message of the error it throws.\<close>

type_synonym tool_arguments = "(jstring \<times> json) list"

record harness_tool =
  tl_name :: jstring
  tl_replay :: "replay option"
  tl_prepareArguments :: "(tool_arguments \<Rightarrow> jstring + tool_arguments) option"
  tl_validate :: "tool_arguments \<Rightarrow> jstring + tool_arguments"

record prepared_tool_call =
  pt_toolCall :: tool_call
  pt_tool :: harness_tool
  pt_args :: tool_arguments

record finalized_tool_call =
  fz_toolCall :: tool_call
  fz_result :: agent_tool_result
  fz_isError :: bool
  fz_terminate :: bool

record before_tool_decision =
  bd_args :: "tool_arguments option"
  bd_block :: "(jstring \<times> bool option) option"

record after_tool_patch =
  ap_content :: "user_block list option"
  ap_details :: "json option"
  ap_isError :: "bool option"
  ap_usage :: "usage option"
  ap_terminate :: "bool option"

definition createErrorToolResult :: "jstring \<Rightarrow> agent_tool_result" where
  "createErrorToolResult message =
     \<lparr>ar_content = [text_block message], ar_details = None, ar_usage = None, ar_addedToolNames = None, ar_terminate = None\<rparr>"

definition immediateError :: "tool_call \<Rightarrow> jstring \<Rightarrow> bool \<Rightarrow> finalized_tool_call" where
  "immediateError call message terminate =
     \<lparr>fz_toolCall = call, fz_result = createErrorToolResult message, fz_isError = True, fz_terminate = terminate\<rparr>"

text \<open>\<open>JSON.stringify\<close> of a string.\<close>

definition hex_unit :: "16 word \<Rightarrow> 16 word" where
  "hex_unit d = (if d < 10 then d + 48 else d + 87)"

definition json_char :: "16 word \<Rightarrow> jstring" where
  "json_char c =
     (if c = 34 \<or> c = 92 then [92, c]
      else if c = 8 then [92, 98] else if c = 9 then [92, 116] else if c = 10 then [92, 110]
      else if c = 12 then [92, 102] else if c = 13 then [92, 114]
      else if c < 32 \<or> is_high_surrogate c \<or> is_low_surrogate c
      then [92, 117, hex_unit (c div 4096), hex_unit (c div 256 mod 16), hex_unit (c div 16 mod 16), hex_unit (c mod 16)]
      else [c])"

fun json_units :: "jstring \<Rightarrow> jstring" where
  "json_units [] = []"
| "json_units [c] = json_char c"
| "json_units (c # d # cs) =
     (if is_high_surrogate c \<and> is_low_surrogate d then c # d # json_units cs else json_char c @ json_units (d # cs))"

definition json_quote :: "jstring \<Rightarrow> jstring" where
  "json_quote s = [34] @ json_units s @ [34]"

definition prepareToolCall :: "tool_call \<Rightarrow> harness_tool list \<Rightarrow> finalized_tool_call + prepared_tool_call" where
  "prepareToolCall call tools =
     (case List.find (\<lambda>t. tl_name t = tc_name call) tools of
        None \<Rightarrow> Inl (immediateError call (js ''Tool '' @ json_quote (tc_name call) @ js '' is unavailable'') False)
      | Some tool \<Rightarrow>
          (case ebind (case tl_prepareArguments tool of None \<Rightarrow> Inr (tc_arguments call) | Some f \<Rightarrow> f (tc_arguments call))
             (tl_validate tool) of
             Inl message \<Rightarrow> Inl (immediateError call message False)
           | Inr args \<Rightarrow> Inr \<lparr>pt_toolCall = call, pt_tool = tool, pt_args = args\<rparr>))"

definition applyBeforeToolDecision ::
  "prepared_tool_call \<Rightarrow> before_tool_decision option \<Rightarrow> finalized_tool_call + prepared_tool_call" where
  "applyBeforeToolDecision prepared decision =
     (case decision of
        None \<Rightarrow> Inr prepared
      | Some d \<Rightarrow>
          (case bd_block d of
             Some (reason, terminate) \<Rightarrow> Inl (immediateError (pt_toolCall prepared) reason (terminate = Some True))
           | None \<Rightarrow>
               (case bd_args d of
                  None \<Rightarrow> Inr prepared
                | Some args \<Rightarrow>
                    (case tl_validate (pt_tool prepared) args of
                       Inl message \<Rightarrow> Inl (immediateError (pt_toolCall prepared) message False)
                     | Inr validated \<Rightarrow> Inr (prepared\<lparr>pt_args := validated\<rparr>)))))"

text \<open>The answer of a tool, or the message it threw, with the error flag.\<close>

fun executeToolCall :: "jstring + agent_tool_result \<Rightarrow> agent_tool_result \<times> bool" where
  "executeToolCall (Inr result) = (result, False)"
| "executeToolCall (Inl message) = (createErrorToolResult message, True)"

definition finalizeToolCall ::
  "prepared_tool_call \<Rightarrow> agent_tool_result \<times> bool \<Rightarrow> after_tool_patch option \<Rightarrow> finalized_tool_call" where
  "finalizeToolCall call executed patch =
     (let r = fst executed;
          result = (case patch of
            None \<Rightarrow> r
          | Some p \<Rightarrow>
              r\<lparr>ar_content := (case ap_content p of None \<Rightarrow> ar_content r | Some c \<Rightarrow> c),
                ar_details := (case ap_details p of None \<Rightarrow> ar_details r | Some d \<Rightarrow> Some d),
                ar_usage := (case ap_usage p of None \<Rightarrow> ar_usage r | Some u \<Rightarrow> Some u),
                ar_terminate := (case ap_terminate p of None \<Rightarrow> ar_terminate r | Some t \<Rightarrow> Some t)\<rparr>)
      in \<lparr>fz_toolCall = pt_toolCall call, fz_result = result,
          fz_isError = (case patch of None \<Rightarrow> snd executed
            | Some p \<Rightarrow> (case ap_isError p of None \<Rightarrow> snd executed | Some e \<Rightarrow> e)),
          fz_terminate = (ar_terminate result = Some True)\<rparr>)"

definition toolResultFromMessage :: "tool_result_message \<Rightarrow> bool \<Rightarrow> agent_tool_result" where
  "toolResultFromMessage m terminate =
     \<lparr>ar_content = tr_content m, ar_details = tr_details m, ar_usage = tr_usage m,
      ar_addedToolNames = tr_addedToolNames m, ar_terminate = (if terminate then Some True else None)\<rparr>"

definition createToolResultMessage :: "finalized_tool_call \<Rightarrow> int \<Rightarrow> tool_result_message" where
  "createToolResultMessage call now =
     \<lparr>tr_toolCallId = tc_id (fz_toolCall call), tr_toolName = tc_name (fz_toolCall call),
      tr_content = ar_content (fz_result call), tr_details = ar_details (fz_result call), tr_usage = ar_usage (fz_result call),
      tr_addedToolNames = (if ar_addedToolNames (fz_result call) = Some [] then None else ar_addedToolNames (fz_result call)),
      tr_isError = fz_isError call, tr_timestamp = now\<rparr>"

section \<open>Outcomes\<close>

record tool_outcome =
  to_toolCall :: tool_call
  to_message :: tool_result_message
  to_terminate :: bool

definition syntheticMessage ::
  "tool_call \<Rightarrow> user_block list \<Rightarrow> json option \<Rightarrow> usage option \<Rightarrow> int \<Rightarrow> tool_result_message" where
  "syntheticMessage call content details u now =
     \<lparr>tr_toolCallId = tc_id call, tr_toolName = tc_name call, tr_content = content, tr_details = details, tr_usage = u,
      tr_addedToolNames = None, tr_isError = True, tr_timestamp = now\<rparr>"

definition synthetic_outcome :: "tool_call \<Rightarrow> user_block list \<Rightarrow> json option \<Rightarrow> usage option \<Rightarrow> int \<Rightarrow> tool_outcome" where
  "synthetic_outcome call content details u now =
     \<lparr>to_toolCall = call, to_message = syntheticMessage call content details u now, to_terminate = False\<rparr>"

definition abortedOutcome :: "tool_call \<Rightarrow> int \<Rightarrow> tool_outcome" where
  "abortedOutcome call now =
     synthetic_outcome call [text_block (js ''Tool execution was cancelled before completion.'')] None None now"

definition INTERRUPTION_MARKER :: jstring where
  "INTERRUPTION_MARKER = js ''[Tool execution was interrupted. The preceding output is the latest durable progress snapshot; newer live output may be missing, and the external outcome is unknown.]''"

definition interruptedOutcome :: "tool_call \<Rightarrow> agent_tool_result option \<Rightarrow> int \<Rightarrow> tool_outcome" where
  "interruptedOutcome call checkpoint now =
     (let marker = text_block INTERRUPTION_MARKER in
      case checkpoint of
        None \<Rightarrow> synthetic_outcome call [marker] None None now
      | Some r \<Rightarrow> synthetic_outcome call (ar_content r @ [marker]) (ar_details r) (ar_usage r) now)"

definition truncatedOutcome :: "tool_call \<Rightarrow> int \<Rightarrow> tool_outcome" where
  "truncatedOutcome call now =
     synthetic_outcome call [text_block (js ''Tool call '' @ json_quote (tc_name call) @ js '' was not executed because the assistant response hit the output token limit, so its arguments may be truncated. Re-issue the tool call with complete arguments.'')]
       None None now"

definition outcomeFromFinalizedCall :: "finalized_tool_call \<Rightarrow> int \<Rightarrow> tool_outcome" where
  "outcomeFromFinalizedCall call now =
     \<lparr>to_toolCall = fz_toolCall call, to_message = createToolResultMessage call now, to_terminate = fz_terminate call\<rparr>"

section \<open>The calls of the batch\<close>

definition currentBatch :: "lane_state \<Rightarrow> (operation_state \<times> tool_batch) option" where
  "currentBatch state =
     (case la_operation state of
        None \<Rightarrow> None
      | Some operation \<Rightarrow>
          (case op_leaf (op_state operation) of Tools batch \<Rightarrow> Some (op_state operation, batch) | _ \<Rightarrow> None))"

definition findCall :: "tool_batch \<Rightarrow> int \<Rightarrow> jstring \<Rightarrow> batch_call option" where
  "findCall batch sourceIndex resultEntryId =
     List.find (\<lambda>c. bc_sourceIndex c = sourceIndex \<and> bc_resultEntryId c = resultEntryId) (tb_calls batch)"

definition replaceCall :: "tool_batch \<Rightarrow> batch_call \<Rightarrow> tool_batch" where
  "replaceCall batch replacement =
     batch\<lparr>tb_calls := map (\<lambda>c. if same_call c replacement then replacement else c) (tb_calls batch)\<rparr>"

section \<open>Memos of an invocation\<close>

definition validateMemoName :: "jstring \<Rightarrow> js_error + unit" where
  "validateMemoName memo =
     (if memo = [] then Inl (InvalidMemoName ''Tool invocation memo name must not be empty'')
      else check (hd COLON \<notin> set memo) (InvalidMemoName (''Tool invocation memo name must not contain '' @ [CHR 0x27, CHR 0x3A, CHR 0x27])))"

definition owns_effect :: "batch_call \<Rightarrow> lane_state \<Rightarrow> bool" where
  "owns_effect call state =
     (case currentBatch state of
        None \<Rightarrow> False
      | Some (current, batch) \<Rightarrow>
          (case findCall batch (bc_sourceIndex call) (bc_resultEntryId call) of
             None \<Rightarrow> False | Some c \<Rightarrow> is_pending (bc_status c)))"

definition get_memo_plan ::
  "jstring \<Rightarrow> batch_call \<Rightarrow> jstring \<Rightarrow> lane_state \<Rightarrow> storage_state \<Rightarrow> js_error + stored option lane_decision" where
  "get_memo_plan runId call memo state s =
     (if \<not> owns_effect call state then Inr (CommandReject ToolInvocationEnded)
      else ebind (operationToolMemo runId (bc_resultEntryId call) memo) (\<lambda>a.
        Inr (CommandReturn (map_option sv_value (getValue a s)))))"

definition set_memo_plan ::
  "jstring \<Rightarrow> batch_call \<Rightarrow> jstring \<Rightarrow> json option \<Rightarrow> lane_state \<Rightarrow> storage_state \<Rightarrow> js_error + unit lane_decision" where
  "set_memo_plan runId call memo v state s =
     (if \<not> owns_effect call state then Inr (CommandReject ToolInvocationEnded)
      else ebind (operationToolMemo runId (bc_resultEntryId call) memo) (\<lambda>a.
        Inr (CommandCommit [case v of None \<Rightarrow> deleteValue a | Some x \<Rightarrow> setValue a (VJson x)] state (\<lambda>c. ()) (\<lambda>c. []))))"

text \<open>\<open>active\<close> until the tool has answered; afterwards the capability rejects.\<close>

definition getMemo :: "bool \<Rightarrow> jstring \<Rightarrow> jstring \<Rightarrow> batch_call \<Rightarrow> jstring \<Rightarrow> int \<Rightarrow> harness \<Rightarrow> stored option outcome \<times> harness" where
  "getMemo active name runId call memo now h =
     (case validateMemoName memo of
        Inl e \<Rightarrow> (Threw e, h)
      | Inr u \<Rightarrow> if \<not> active then (Threw ToolInvocationEnded, h) else lane_command name (get_memo_plan runId call memo) now h)"

definition setMemo ::
  "bool \<Rightarrow> jstring \<Rightarrow> jstring \<Rightarrow> batch_call \<Rightarrow> jstring \<Rightarrow> json option \<Rightarrow> int \<Rightarrow> harness \<Rightarrow> unit outcome \<times> harness" where
  "setMemo active name runId call memo v now h =
     (case validateMemoName memo of
        Inl e \<Rightarrow> (Threw e, h)
      | Inr u \<Rightarrow> if \<not> active then (Threw ToolInvocationEnded, h) else lane_command name (set_memo_plan runId call memo v) now h)"

section \<open>Publishing intents and outcomes\<close>

definition tool_intent_plan ::
  "jstring \<Rightarrow> jstring \<Rightarrow> batch_call \<Rightarrow> tool_call \<Rightarrow> tool_arguments \<Rightarrow> replay \<Rightarrow> bool \<Rightarrow> batch_call operation_plan" where
  "tool_intent_plan name runId planned toolCall args replay recovery state current meta s =
     (case op_leaf current of
        Tools batch \<Rightarrow>
          ebind (operationToolArgs runId (tb_turnId batch) (bc_sourceIndex planned)) (\<lambda>slot.
          let pending = planned\<lparr>bc_status := EffectPending replay\<rparr> in
          Inr (OperationCommit [setValue slot (VToolArgs args)] (withToolBatch current (replaceCall batch pending)) no_patch
            (\<lambda>c. pending)
            (\<lambda>c. [recovery_event recovery name
              (ToolStart runId (tb_turnId batch) (tc_id toolCall) (tc_name toolCall) (JObj args))])))
      | _ \<Rightarrow> Inl (SessionInvariant ''the operation has no tool batch''))"

definition publishToolIntent ::
  "jstring \<Rightarrow> jstring \<Rightarrow> batch_call \<Rightarrow> tool_call \<Rightarrow> tool_arguments \<Rightarrow> replay \<Rightarrow> bool \<Rightarrow> int \<Rightarrow> harness \<Rightarrow>
   batch_call continue_result outcome \<times> harness" where
  "publishToolIntent name runId planned toolCall args replay recovery now h =
     continueOperation name (tool_intent_plan name runId planned toolCall args replay recovery) now h"

definition tool_outcome_plan :: "jstring \<Rightarrow> jstring \<Rightarrow> batch_call \<Rightarrow> tool_outcome \<Rightarrow> bool \<Rightarrow> unit operation_plan" where
  "tool_outcome_plan name runId call finalized recovery state current meta s =
     (case op_leaf current of
        Tools batch \<Rightarrow>
          ebind (operationToolMemoPrefix runId (Some (bc_resultEntryId call))) (\<lambda>memos.
          let toolCall = to_toolCall finalized;
              terminate = (os_control (op_scope current) = Running \<and> to_terminate finalized);
              ready = call\<lparr>bc_status := OutcomeReady terminate\<rparr> in
          ebind (pendingEntry (bc_resultEntryId call)) (\<lambda>slot.
          ebind (pendingToolOutput runId (bc_resultEntryId call)) (\<lambda>output.
          Inr (OperationCommit
            ([setValue slot (VPending (PendingMessage (ToolResultMsg (to_message finalized)))), deleteValue output] @
             delete_scanned memos s)
            (withToolBatch current (replaceCall batch ready)) no_patch (\<lambda>c. ())
            (\<lambda>c. (if is_planned (bc_status call)
                then [recovery_event recovery name
                  (ToolStart runId (tb_turnId batch) (tc_id toolCall) (tc_name toolCall) (JObj (tc_arguments toolCall)))]
                else []) @
              [recovery_event recovery name
                (ToolEnd runId (tb_turnId batch) (tc_id toolCall) (tc_name toolCall)
                  (toolResultFromMessage (to_message finalized) terminate) (tr_isError (to_message finalized)) terminate)])))))
      | _ \<Rightarrow> Inl (SessionInvariant ''the operation has no tool batch''))"

definition publishToolOutcome ::
  "jstring \<Rightarrow> jstring \<Rightarrow> batch_call \<Rightarrow> tool_outcome \<Rightarrow> bool \<Rightarrow> int \<Rightarrow> harness \<Rightarrow> unit outcome \<times> harness" where
  "publishToolOutcome name runId call finalized recovery now h =
     settleOperation name (tool_outcome_plan name runId call finalized recovery) now h"

definition replay_plan ::
  "jstring \<Rightarrow> jstring \<Rightarrow> tool_batch \<Rightarrow> batch_call \<Rightarrow> tool_call \<Rightarrow> lane_state \<Rightarrow> storage_state \<Rightarrow>
   js_error + tool_arguments lane_decision" where
  "replay_plan name runId batch call toolCall state s =
     ebind (operationToolArgs runId (tb_turnId batch) (bc_sourceIndex call)) (\<lambda>a.
     case getValue a s of
       None \<Rightarrow> Inl (SessionInvariant ''Tool call is missing persisted arguments'')
     | Some v \<Rightarrow>
         ebind (as_tool_args (sv_value v)) (\<lambda>args.
         ebind (pendingToolOutput runId (bc_resultEntryId call)) (\<lambda>output.
         Inr (CommandCommit [deleteValue output] state (\<lambda>c. args)
           (\<lambda>c. [recovery_event True name (ToolStart runId (tb_turnId batch) (tc_id toolCall) (tc_name toolCall) (JObj args))])))))"

definition clearReplayCheckpoint ::
  "jstring \<Rightarrow> jstring \<Rightarrow> tool_batch \<Rightarrow> batch_call \<Rightarrow> tool_call \<Rightarrow> int \<Rightarrow> harness \<Rightarrow> tool_arguments outcome \<times> harness" where
  "clearReplayCheckpoint name runId batch call toolCall now h = lane_command name (replay_plan name runId batch call toolCall) now h"

definition checkpoint_read ::
  "jstring \<Rightarrow> batch_call \<Rightarrow> lane_state \<Rightarrow> storage_state \<Rightarrow> js_error + agent_tool_result option lane_decision" where
  "checkpoint_read runId call state s =
     ebind (pendingToolOutput runId (bc_resultEntryId call)) (\<lambda>a.
     case getValue a s of
       None \<Rightarrow> Inr (CommandReturn None)
     | Some v \<Rightarrow> ebind (as_tool_output (sv_value v)) (\<lambda>r. Inr (CommandReturn (Some r))))"

definition readCheckpoint ::
  "jstring \<Rightarrow> jstring \<Rightarrow> batch_call \<Rightarrow> int \<Rightarrow> harness \<Rightarrow> agent_tool_result option outcome \<times> harness" where
  "readCheckpoint name runId call now h = lane_command name (checkpoint_read runId call) now h"

section \<open>One invocation\<close>

text \<open>What the effect gate and the hooks answer: an abort, or a value.\<close>

datatype 'a gated = GateAborted | Admitted 'a

definition prepareToolInvocation_call ::
  "tool_batch_source \<Rightarrow> batch_call \<Rightarrow> harness_tool list \<Rightarrow> int \<Rightarrow> js_error + (tool_outcome + prepared_tool_call)" where
  "prepareToolInvocation_call sources call tools now =
     ebind (toolCallFor sources call) (\<lambda>toolCall.
     Inr (if am_stopReason (ts_assistant sources) = Length then Inl (truncatedOutcome toolCall now)
       else (case prepareToolCall toolCall tools of
               Inl immediate \<Rightarrow> Inl (outcomeFromFinalizedCall immediate now)
             | Inr prepared \<Rightarrow> Inr prepared)))"

definition prepareToolInvocation_decide ::
  "prepared_tool_call \<Rightarrow> before_tool_decision option gated \<Rightarrow> int \<Rightarrow> tool_outcome + prepared_tool_call" where
  "prepareToolInvocation_decide prepared decision now =
     (case decision of
        GateAborted \<Rightarrow> Inl (abortedOutcome (pt_toolCall prepared) now)
      | Admitted d \<Rightarrow>
          (case applyBeforeToolDecision prepared d of
             Inl immediate \<Rightarrow> Inl (outcomeFromFinalizedCall immediate now)
           | Inr cleared \<Rightarrow> Inr cleared))"

text \<open>\<open>startToolInvocation\<close> of a cleared call: the pending call to perform, or the outcome to publish.\<close>

definition startToolInvocation_intent ::
  "jstring \<Rightarrow> jstring \<Rightarrow> batch_call \<Rightarrow> prepared_tool_call \<Rightarrow> bool \<Rightarrow> int \<Rightarrow> harness \<Rightarrow> (tool_outcome + batch_call) outcome \<times> harness" where
  "startToolInvocation_intent name runId call cleared recovery now h =
     (case publishToolIntent name runId call (pt_toolCall cleared) (pt_args cleared)
        (case tl_replay (pt_tool cleared) of None \<Rightarrow> ReplayNever | Some r \<Rightarrow> r) recovery now h of
        (Returned CancelRequestedResult, h') \<Rightarrow> (Returned (Inl (abortedOutcome (pt_toolCall cleared) now)), h')
      | (Returned (ContinueResult pending), h') \<Rightarrow> (Returned (Inr pending), h')
      | (Blocked, h') \<Rightarrow> (Blocked, h')
      | (Threw e, h') \<Rightarrow> (Threw e, h'))"

text \<open>\<open>performToolInvocation\<close>: the effect was not admitted, or answered; then the hook may patch the answer.\<close>

definition performToolInvocation ::
  "prepared_tool_call \<Rightarrow> (jstring + agent_tool_result) gated \<Rightarrow> after_tool_patch option gated \<Rightarrow> bool \<Rightarrow> int \<Rightarrow> tool_outcome" where
  "performToolInvocation cleared answer patch recovery now =
     (case answer of
        GateAborted \<Rightarrow>
          if recovery then interruptedOutcome (pt_toolCall cleared) None now else abortedOutcome (pt_toolCall cleared) now
      | Admitted r \<Rightarrow>
          outcomeFromFinalizedCall (finalizeToolCall cleared (executeToolCall r)
            (case patch of GateAborted \<Rightarrow> None | Admitted p \<Rightarrow> p)) now)"

text \<open>\<open>recoverToolInvocation\<close>: a call both sides declare safe is performed again; any other reports its checkpoint.\<close>

definition replays :: "batch_call \<Rightarrow> tool_call \<Rightarrow> harness_tool list \<Rightarrow> bool \<Rightarrow> harness_tool option" where
  "replays call toolCall tools cancelled =
     (case map_of (rev (map (\<lambda>t. (tl_name t, t)) tools)) (tc_name toolCall) of
        None \<Rightarrow> None
      | Some tool \<Rightarrow>
          if \<not> cancelled \<and> bc_status call = EffectPending ReplaySafe \<and> tl_replay tool = Some ReplaySafe then Some tool else None)"

definition recoverToolInvocation ::
  "jstring \<Rightarrow> jstring \<Rightarrow> tool_batch \<Rightarrow> tool_batch_source \<Rightarrow> batch_call \<Rightarrow> harness_tool list \<Rightarrow> bool \<Rightarrow> int \<Rightarrow> harness \<Rightarrow>
   (tool_outcome + prepared_tool_call) outcome \<times> harness" where
  "recoverToolInvocation name runId batch sources call tools cancelled now h =
     (case toolCallFor sources call of
        Inl e \<Rightarrow> (Threw e, h)
      | Inr toolCall \<Rightarrow>
          (case replays call toolCall tools cancelled of
             Some tool \<Rightarrow>
               (let (out, h') = clearReplayCheckpoint name runId batch call toolCall now h in
                (map_outcome (\<lambda>args. Inr \<lparr>pt_toolCall = toolCall, pt_tool = tool, pt_args = args\<rparr>) out, h'))
           | None \<Rightarrow>
               (let (out, h') = readCheckpoint name runId call now h in
                (map_outcome (\<lambda>checkpoint. Inl (interruptedOutcome toolCall checkpoint now)) out, h'))))"

section \<open>The order of the calls\<close>

text \<open>What the pass does with a call next; the flag of a recovery is \<open>cancelled\<close>.\<close>

datatype tool_task =
    StartTask batch_call
  | RecoverTask batch_call bool
  | AbortTask batch_call
  | InterruptTask batch_call

text \<open>One turn of \<open>runSequential\<close> after its placement; \<open>None\<close> when the batch is over.\<close>

definition sequential_next :: "bool \<Rightarrow> lane_state \<Rightarrow> js_error + tool_task option" where
  "sequential_next execution state =
     (case currentBatch state of
        None \<Rightarrow> Inr None
      | Some (current, batch) \<Rightarrow>
          (case List.find (\<lambda>c. \<not> is_completed (bc_status c)) (tb_calls batch) of
             None \<Rightarrow> Inl (SessionInvariant ''Tool batch remained open after every call completed'')
           | Some call \<Rightarrow>
               if is_ready (bc_status call) then Inl (SessionInvariant ''Ready tool outcome was not materialized'')
               else if os_control (op_scope current) \<noteq> Running
               then Inr (Some (if is_planned (bc_status call) then AbortTask call else InterruptTask call))
               else if \<not> execution then Inl (SessionInvariant ''Running tool batch is missing execution context'')
               else Inr (Some (if is_planned (bc_status call) then StartTask call else RecoverTask call False))))"

text \<open>\<open>runParallel\<close> takes the calls of the batch it was given in order.\<close>

definition parallel_task :: "lane_state \<Rightarrow> batch_call \<Rightarrow> tool_task option" where
  "parallel_task state call =
     (case bc_status call of
        Planned \<Rightarrow> Some (StartTask call)
      | EffectPending r \<Rightarrow>
          Some (RecoverTask call (case la_operation state of
             None \<Rightarrow> False | Some operation \<Rightarrow> os_control (op_scope (op_state operation)) \<noteq> Running))
      | _ \<Rightarrow> None)"

definition tools_recovery :: "tool_batch \<Rightarrow> bool" where
  "tools_recovery batch = list_ex (\<lambda>c. is_pending (bc_status c) \<or> is_ready (bc_status c)) (tb_calls batch)"

text \<open>\<open>runTools\<close> up to its sources, and how it goes on after the first placement.\<close>

definition runTools_begin :: "jstring \<Rightarrow> jstring \<Rightarrow> tool_batch \<Rightarrow> int \<Rightarrow> harness \<Rightarrow> tool_batch_source outcome \<times> harness" where
  "runTools_begin name runId batch now h =
     readToolBatchSource name batch now
       (if tools_recovery batch
        then h\<lparr>ha_log := ha_log h @ [recovery_event True name (TurnStart runId (tb_turnId batch))]\<rparr> else h)"

datatype tools_mode = ToolsOver | CancelledSequence | SequentialMode "harness_tool list" | ParallelMode "harness_tool list"

definition runTools_mode :: "harness_tool list \<Rightarrow> tool_batch \<Rightarrow> run_settings \<Rightarrow> lane_state \<Rightarrow> tools_mode" where
  "runTools_mode tools batch settings state =
     (case currentBatch state of
        None \<Rightarrow> ToolsOver
      | Some (current, b) \<Rightarrow>
          if os_control (op_scope current) \<noteq> Running then CancelledSequence
          else
            (let active = filter (\<lambda>t. tl_name t \<in> set (lc_activeToolNames (tb_configuration batch))) tools in
             if rs_toolExecution settings = SequentialTools then SequentialMode active else ParallelMode active))"

end
