(* ===== verification/ResponseFacts.thy ===== *)
theory ResponseFacts
  imports Generation BoundaryFacts
begin

text \<open>
  The commands of a request, its recovery, its polls and the reconciliation meet the contract of
  \<open>operation_planner\<close>: one interpretation for each, over one lemma on writes beside the lane's own slots.
\<close>

section \<open>Writes beside a lane\<close>

lemma beside_operation:
  assumes im: "lane_image (value_at s) name state" and op: "la_operation state = Some operation"
    and extra: "list_all addressed ws" "list_all (own_write name {me_operationId (op_meta operation)}) ws"
      "\<And>V ns k. lane_ns ns \<or> ns = ns_op_meta \<Longrightarrow> write_values ws V (ns, k) = V (ns, k)"
  shows "plan_writes name (me_operationId (op_meta operation)) no_patch ws (value_at s) \<and>
    write_values ws (value_at s) (ns_op_meta, me_operationId (op_meta operation)) = Some (VMeta (op_meta operation))"
  using assms by (simp add: plan_writes_def no_patch_def lane_ns_def lane_image_def Let_def)

text \<open>The writes of a response: an entry, a usage row and the tip, then writes beside the lane.\<close>

abbreviation response_writes :: "jstring \<Rightarrow> jstring \<Rightarrow> new_entry \<Rightarrow> new_usage_row \<Rightarrow> storage_write list" where
  "response_writes name t e u \<equiv> [insertEntry e, insertUsage u, WValueSet ns_branch_tip name (VTip (Some t))]"

lemma tip_writes:
  assumes nul: "\<not> has_nul name"
    and extra: "list_all addressed ws" "list_all (own_write name {i}) ws"
      "\<And>V ns k. lane_ns ns \<Longrightarrow> write_values ws V (ns, k) = V (ns, k)"
  shows "plan_writes name i (no_patch\<lparr>lp_tipId := Some (Some t)\<rparr>) (response_writes name t e u @ ws) V"
  using assms
  by (auto simp: plan_writes_def no_patch_def insertEntry_def insertUsage_def slot_defs)

lemma tip_meta:
  assumes im: "lane_image (value_at s) name state" and op: "la_operation state = Some operation"
    and extra: "\<And>V k. write_values ws V (ns_op_meta, k) = V (ns_op_meta, k)"
  shows "write_values (response_writes name t e u @ ws) (value_at s) (ns_op_meta, me_operationId (op_meta operation)) =
    Some (VMeta (op_meta operation))"
  using assms by (auto simp: insertEntry_def insertUsage_def lane_image_def Let_def)

section \<open>Guards\<close>

definition operation_guard :: "jstring \<Rightarrow> operation \<Rightarrow> bool" where
  "operation_guard runId operation \<longleftrightarrow> me_operationId (op_meta operation) = runId"

lemma run_is_operation: "run_guard runId operation \<Longrightarrow> operation_guard runId operation"
  by (simp add: run_guard_def operation_guard_def)

lemma leaf_matches [simp]:
  "stateMatchesIntent (RunIntent ps) \<lparr>op_scope = sc, op_leaf = AssistantReady g n\<rparr>"
  "stateMatchesIntent (RunIntent ps) \<lparr>op_scope = sc, op_leaf = AssistantEffectPending g n a b c d\<rparr>"
  "stateMatchesIntent (RunIntent ps) \<lparr>op_scope = sc, op_leaf = AssistantRetryWait g w\<rparr>"
  "stateMatchesIntent (RunIntent ps) \<lparr>op_scope = sc, op_leaf = Tools batch\<rparr>"
  "stateMatchesIntent (RunIntent ps) \<lparr>op_scope = sc, op_leaf = DeferredSuspended ds\<rparr>"
  "stateMatchesIntent (RunIntent ps) \<lparr>op_scope = sc, op_leaf = DeferredEffectPending ds a b\<rparr>"
  by (simp_all add: stateMatchesIntent_def)

section \<open>Terminal plans\<close>

lemma cleanup_finishes:
  assumes inv: "storage_inv s" and g: "operation_guard runId operation"
    and cl: "operationCleanupWrites s runId current = Inr cleanup"
  shows "plan_writes name (me_operationId (op_meta operation)) no_patch cleanup (value_at s)"
  using cleanup_frames[OF cleanup_writes[OF inv cl]] g
  by (simp add: plan_writes_def no_patch_def lane_ns_def operation_guard_def)

interpretation failed_run: operation_planner name "operation_guard runId" "failed_run_plan name runId err now"
  for name runId err now
proof
  fix s state operation ws result pt m ev
  assume inv: "storage_inv s" and g: "operation_guard runId operation"
    and c: "failed_run_plan name runId err now state (op_state operation) (op_meta operation) s = Inr (OperationFinish ws result pt m ev)"
  from c have "operationCleanupWrites s runId (op_state operation) = Inr ws" "pt = no_patch"
    by (auto simp: failed_run_plan_def split: option.splits)
  then show "plan_writes name (me_operationId (op_meta operation)) pt ws (value_at s)"
    using cleanup_finishes[OF inv g] by simp
qed (auto simp: failed_run_plan_def split: option.splits)

interpretation aborted_terminal: operation_planner name "operation_guard runId" "aborted_terminal_plan name runId now"
  for name runId now
proof
  fix s state operation ws result pt m ev
  assume inv: "storage_inv s" and g: "operation_guard runId operation"
    and c: "aborted_terminal_plan name runId now state (op_state operation) (op_meta operation) s = Inr (OperationFinish ws result pt m ev)"
  from c have "operationCleanupWrites s runId (op_state operation) = Inr ws" "pt = no_patch"
    by (auto simp: aborted_terminal_plan_def split: if_splits)
  then show "plan_writes name (me_operationId (op_meta operation)) pt ws (value_at s)"
    using cleanup_finishes[OF inv g] by simp
qed (auto simp: aborted_terminal_plan_def split: if_splits)

section \<open>Plans that only read, or only move the leaf\<close>

interpretation frames_read: operation_planner name guard "frames_plan runId responseEntryId" for name guard runId responseEntryId
  by unfold_locales (auto simp: frames_plan_def split: option.splits)

interpretation source_handle: operation_planner name guard "source_handle_plan ds" for name guard ds
  by unfold_locales (auto simp: source_handle_plan_def)

interpretation generation_intent: operation_planner name "run_guard runId"
  "generation_intent_plan name runId g nextAttempt responseEntryId usageId limits"
  for name runId g nextAttempt responseEntryId usageId limits
proof
  fix s state operation ws st pt m ev
  assume im: "lane_image (value_at s) name state" and op: "la_operation state = Some operation"
    and g: "run_guard runId operation"
    and c: "generation_intent_plan name runId g nextAttempt responseEntryId usageId limits state (op_state operation)
      (op_meta operation) s = Inr (OperationCommit ws st pt m ev)"
  then show "plan_writes name (me_operationId (op_meta operation)) pt ws (value_at s) \<and>
      write_values ws (value_at s) (ns_op_meta, me_operationId (op_meta operation)) = Some (VMeta (op_meta operation)) \<and>
      stateMatchesIntent (me_intent (op_meta operation)) st"
    using beside_operation[OF im op, of "[]"] by (auto simp: generation_intent_plan_def Let_def run_guard_def run_intent)
qed (auto simp: generation_intent_plan_def Let_def)

interpretation retry_wait: operation_planner name "run_guard runId" "retry_wait_plan name runId g w" for name runId g w
proof
  fix s state operation ws st pt m ev
  assume im: "lane_image (value_at s) name state" and op: "la_operation state = Some operation"
    and g: "run_guard runId operation"
    and c: "retry_wait_plan name runId g w state (op_state operation) (op_meta operation) s = Inr (OperationCommit ws st pt m ev)"
  then show "plan_writes name (me_operationId (op_meta operation)) pt ws (value_at s) \<and>
      write_values ws (value_at s) (ns_op_meta, me_operationId (op_meta operation)) = Some (VMeta (op_meta operation)) \<and>
      stateMatchesIntent (me_intent (op_meta operation)) st"
    using beside_operation[OF im op, of "[]"] by (auto simp: retry_wait_plan_def run_guard_def run_intent)
qed (auto simp: retry_wait_plan_def)

lemma frames_deleted:
  assumes "pendingAssistantFrames runId i = Inr a"
  shows "addressed (deleteList a)" "own_write name ids (deleteList a)" "write_value (deleteList a) V = V"
  using assms by (auto simp: pendingAssistantFrames_def mkList_eq_Inr deleteList_def validateAddress_def)

interpretation poll_intent: operation_planner name "run_guard runId"
  "poll_intent_plan name runId ds orphan poll responseEntryId usageId recovery"
  for name runId ds orphan poll responseEntryId usageId recovery
proof
  fix s state operation ws st pt m ev
  assume im: "lane_image (value_at s) name state" and op: "la_operation state = Some operation"
    and g: "run_guard runId operation"
    and c: "poll_intent_plan name runId ds orphan poll responseEntryId usageId recovery state (op_state operation)
      (op_meta operation) s = Inr (OperationCommit ws st pt m ev)"
  from c have ws: "ws = [] \<or> (\<exists>i a. pendingAssistantFrames runId i = Inr a \<and> ws = [deleteList a])"
    and eqs: "pt = no_patch" "st = \<lparr>op_scope = operationScopeOf (op_state operation),
      op_leaf = DeferredEffectPending (ds\<lparr>ds_poll := poll\<rparr>) responseEntryId usageId\<rparr>"
    by (auto simp: poll_intent_plan_def Let_def split: option.splits)
  from ws have "plan_writes name (me_operationId (op_meta operation)) no_patch ws (value_at s) \<and>
      write_values ws (value_at s) (ns_op_meta, me_operationId (op_meta operation)) = Some (VMeta (op_meta operation))"
    by (intro beside_operation[OF im op]) (auto simp: frames_deleted)
  then show "plan_writes name (me_operationId (op_meta operation)) pt ws (value_at s) \<and>
      write_values ws (value_at s) (ns_op_meta, me_operationId (op_meta operation)) = Some (VMeta (op_meta operation)) \<and>
      stateMatchesIntent (me_intent (op_meta operation)) st"
    using g by (auto simp: eqs run_guard_def run_intent)
qed (auto simp: poll_intent_plan_def Let_def)

section \<open>Settling a response\<close>

lemma settled_matches:
  assumes "settle_response recovery control effect i resultId overflow now response = Inr (committed, Some leaf, failure)"
  shows "stateMatchesIntent (RunIntent ps) \<lparr>op_scope = sc, op_leaf = leaf\<rparr>"
  using assms
  by (auto simp: settle_response_def settle_overflow_def settle_deferred_def settle_error_def settle_answer_def
      response_checkpoint_def Let_def split: control.splits effect.splits option.splits if_splits)

lemma preparation_beside:
  assumes "preparation_writes runId prepared settled = Inr ws"
  shows "list_all addressed ws" "list_all (own_write name ids) ws"
    "lane_ns ns \<or> ns = ns_op_meta \<Longrightarrow> write_values ws V (ns, k) = V (ns, k)"
  using assms
  by (auto simp: preparation_writes_def slot_defs split: option.splits operation_leaf.splits)

text \<open>The two ways a response is settled.\<close>

abbreviation settled_as ::
  "bool \<Rightarrow> operation_state \<Rightarrow> jstring \<Rightarrow> (nat \<Rightarrow> jstring) \<Rightarrow> bool \<Rightarrow> (jstring \<times> structural_preparation) option \<Rightarrow> int \<Rightarrow>
   assistant_message \<Rightarrow> effect \<Rightarrow> disposition \<Rightarrow> bool" where
  "settled_as recovery current responseEntryId resultId overflow prepared now response effect d \<equiv>
     effect_of (op_leaf current) = Some effect \<and>
     settle_response recovery (os_control (op_scope current)) effect responseEntryId resultId
       (if overflow then Some (map_option fst prepared) else None) now response = Inr d"

lemma response_plan_cases:
  assumes p: "response_plan name runId responseEntryId usageId recovery overflow prepared resultId now response state current meta s = Inr d"
  obtains (finish) effect committed settled err cleanup result ev where
      "settled_as recovery current responseEntryId resultId overflow prepared now response effect (committed, settled, Some err)"
      "operationResultRecord meta FailedStatus (Some responseEntryId) (Some err) now = Inr result"
      "operationCleanupWrites s runId current = Inr cleanup"
      "d = OperationFinish (response_writes name responseEntryId (response_entry responseEntryId (la_tipId state) committed)
          (response_usage usageId responseEntryId committed) @ cleanup) result
        (no_patch\<lparr>lp_tipId := Some (Some responseEntryId)\<rparr>) (\<lambda>c. ProcSettled result) ev"
  | (commit) effect committed leaf frames preparation ev where
      "settled_as recovery current responseEntryId resultId overflow prepared now response effect (committed, Some leaf, None)"
      "pendingAssistantFrames runId responseEntryId = Inr frames"
      "preparation_writes runId prepared (Some leaf) = Inr preparation"
      "d = OperationCommit (response_writes name responseEntryId (response_entry responseEntryId (la_tipId state) committed)
          (response_usage usageId responseEntryId committed) @ deleteList frames # preparation)
        \<lparr>op_scope = (operationScopeOf current)\<lparr>os_latestAssistantEntryId := Some responseEntryId\<rparr>, op_leaf = leaf\<rparr>
        (no_patch\<lparr>lp_tipId := Some (Some responseEntryId)\<rparr>) (\<lambda>c. ProcContinue) ev"
proof -
  from p obtain effect where eff: "effect_of (op_leaf current) = Some effect"
    by (auto simp: response_plan_def split: option.splits)
  with p obtain committed settled failure where
    st: "settle_response recovery (os_control (op_scope current)) effect responseEntryId resultId
      (if overflow then Some (map_option fst prepared) else None) now response = Inr (committed, settled, failure)"
    by (auto simp: response_plan_def)
  let ?e = "response_entry responseEntryId (la_tipId state) committed"
  let ?u = "response_usage usageId responseEntryId committed"
  show thesis
  proof (cases failure)
    case (Some err)
    then have "\<exists>cleanup result ev. operationResultRecord meta FailedStatus (Some responseEntryId) (Some err) now = Inr result \<and>
      operationCleanupWrites s runId current = Inr cleanup \<and>
      d = OperationFinish (response_writes name responseEntryId ?e ?u @ cleanup) result
        (no_patch\<lparr>lp_tipId := Some (Some responseEntryId)\<rparr>) (\<lambda>c. ProcSettled result) ev"
      using p eff st by (auto simp: response_plan_def Let_def branchTip_def mkValue_eq_Inr setValue_def)
    then show thesis using eff st Some by (elim exE conjE) (rule finish, simp_all)
  next
    case None
    then have "\<exists>frames preparation leaf ev. settled = Some leaf \<and> pendingAssistantFrames runId responseEntryId = Inr frames \<and>
      preparation_writes runId prepared (Some leaf) = Inr preparation \<and>
      d = OperationCommit (response_writes name responseEntryId ?e ?u @ deleteList frames # preparation)
        \<lparr>op_scope = (operationScopeOf current)\<lparr>os_latestAssistantEntryId := Some responseEntryId\<rparr>, op_leaf = leaf\<rparr>
        (no_patch\<lparr>lp_tipId := Some (Some responseEntryId)\<rparr>) (\<lambda>c. ProcContinue) ev"
      using p eff st
      by (auto simp: response_plan_def Let_def branchTip_def mkValue_eq_Inr setValue_def split: option.splits)
    then show thesis using eff st None by (elim exE conjE) (rule commit, simp_all)
  qed
qed

interpretation response: operation_planner name "run_guard runId"
  "response_plan name runId responseEntryId usageId recovery overflow prepared resultId now response"
  for name runId responseEntryId usageId recovery overflow prepared resultId now response
proof
  fix s state operation ws st pt m ev
  assume im: "lane_image (value_at s) name state" and op: "la_operation state = Some operation"
    and g: "run_guard runId operation"
    and c: "response_plan name runId responseEntryId usageId recovery overflow prepared resultId now response state
      (op_state operation) (op_meta operation) s = Inr (OperationCommit ws st pt m ev)"
  have nul: "\<not> has_nul name" using im by (simp add: lane_image_def)
  from c show "plan_writes name (me_operationId (op_meta operation)) pt ws (value_at s) \<and>
      write_values ws (value_at s) (ns_op_meta, me_operationId (op_meta operation)) = Some (VMeta (op_meta operation)) \<and>
      stateMatchesIntent (me_intent (op_meta operation)) st"
  proof (cases rule: response_plan_cases)
    case (commit effect committed leaf frames preparation ev)
    note fr = frames_deleted[OF commit(2)] and pr = preparation_beside[OF commit(3)]
    have "plan_writes name (me_operationId (op_meta operation)) pt ws (value_at s)"
      using tip_writes[OF nul, of "deleteList frames # preparation"] commit(4) fr pr by auto
    moreover have "write_values ws (value_at s) (ns_op_meta, me_operationId (op_meta operation)) = Some (VMeta (op_meta operation))"
      using tip_meta[OF im op, of "deleteList frames # preparation"] commit(4) fr pr by auto
    moreover have "stateMatchesIntent (me_intent (op_meta operation)) st"
      using commit(1,4) g settled_matches by (auto simp: run_guard_def run_intent)
    ultimately show ?thesis by blast
  qed simp
next
  fix s state operation ws result pt m ev
  assume inv: "storage_inv s" and im: "lane_image (value_at s) name state"
    and g: "run_guard runId operation"
    and c: "response_plan name runId responseEntryId usageId recovery overflow prepared resultId now response state
      (op_state operation) (op_meta operation) s = Inr (OperationFinish ws result pt m ev)"
  have nul: "\<not> has_nul name" using im by (simp add: lane_image_def)
  from c show "plan_writes name (me_operationId (op_meta operation)) pt ws (value_at s)"
  proof (cases rule: response_plan_cases)
    case (finish effect committed settled err cleanup result ev)
    note cf = cleanup_frames[OF cleanup_writes[OF inv finish(3)]]
    have i: "me_operationId (op_meta operation) = runId" using g by (simp add: run_guard_def)
    show ?thesis using tip_writes[OF nul, of cleanup] finish(4) cf unfolding i by auto
  qed simp
qed

section \<open>Progress\<close>

lemma progress_beside:
  assumes "progress_plan w owns state s = Inr (CommandCommit ws nx mat evs)" "lane_image (value_at s) name state"
    and "addressed w" "\<And>ids. own_write name ids w" "\<And>V ns k. lane_ns ns \<or> operation_ns ns \<Longrightarrow> write_value w V (ns, k) = V (ns, k)"
  shows "list_all addressed ws \<and> list_all (own_write name ({} \<union> set_option (current_operation_id state))) ws \<and>
    lane_image (write_values ws (value_at s)) name nx"
  using assms
  by (cases "la_operation state")
    (auto simp: progress_plan_def lane_image_def lane_ns_def operation_ns_def Let_def split: if_splits)

lemma frame_progress_inv:
  assumes "harness_inv h"
  shows "harness_inv (snd (frame_progress name runId responseEntryId frame now h))"
proof (cases "pendingAssistantFrames runId responseEntryId")
  case (Inr a)
  have "durable_plan name {} (progress_plan (appendList a (VFrame frame)) (owns_frames responseEntryId))"
    by unfold_locales
      (rule progress_beside, assumption+, insert Inr, auto simp: pendingAssistantFrames_def mkList_eq_Inr appendList_def validateAddress_def)
  from durable_plan.keeps[OF this assms] show ?thesis by (simp add: frame_progress_def Inr)
qed (simp add: frame_progress_def assms)

lemma tool_progress_inv:
  assumes "harness_inv h"
  shows "harness_inv (snd (tool_progress name runId turnId sourceIndex invocationId snapshot now h))"
proof (cases "pendingToolOutput runId invocationId")
  case (Inr a)
  have "durable_plan name {} (progress_plan (setValue a (VToolOutput snapshot)) (owns_tool_output turnId sourceIndex invocationId))"
    by unfold_locales
      (rule progress_beside, assumption+, insert Inr, auto simp: pendingToolOutput_def slot_defs)
  from durable_plan.keeps[OF this assms] show ?thesis by (simp add: tool_progress_def Inr)
qed (simp add: tool_progress_def assms)

end
