(* ===== verification/ToolFacts.thy ===== *)
theory ToolFacts
  imports ToolCalls ResponseFacts
begin

text \<open>
  The commands of a tool batch meet the contracts of \<open>operation_planner\<close> and \<open>durable_plan\<close>: they write their own
  slots, the tip and the configuration they report.
\<close>

section \<open>Writes beside the lane\<close>

lemma deletes_beside:
  assumes "storage_inv s" "ad_namespace a \<in> {ns_tool_args, ns_tool_memo, ns_tool_output}"
  shows "list_all addressed (delete_scanned a s)" "list_all (own_write name ids) (delete_scanned a s)"
    "lane_ns ns \<or> ns = ns_op_meta \<Longrightarrow> write_values (delete_scanned a s) V (ns, k) = V (ns, k)"
proof -
  have w: "\<exists>k. w = WValueDelete (ad_namespace a) k \<and> validateAddress (ad_namespace a) k = Inr ()"
    if "w \<in> set (delete_scanned a s)" for w
    by (rule scanned_deletes[OF assms(1) that]) blast
  then show "list_all addressed (delete_scanned a s)" "list_all (own_write name ids) (delete_scanned a s)"
    using assms(2) by (fastforce simp: list_all_iff lane_ns_def operation_ns_def)+
  have "write_values ws V (ns, k) = V (ns, k)" if "lane_ns ns \<or> ns = ns_op_meta"
    "\<And>w. w \<in> set ws \<Longrightarrow> \<exists>k. w = WValueDelete (ad_namespace a) k" for ws
    using that
  proof (induction ws arbitrary: V)
    case (Cons w ws)
    then obtain k' where "w = WValueDelete (ad_namespace a) k'" by fastforce
    then have "write_value w V (ns, k) = V (ns, k)" using Cons.prems(1) assms(2) by (auto simp: lane_ns_def)
    moreover have "write_values ws (write_value w V) (ns, k) = write_value w V (ns, k)"
      by (rule Cons.IH[OF Cons.prems(1)]) (rule Cons.prems(2), simp)
    ultimately show ?case by simp
  qed simp
  then show "lane_ns ns \<or> ns = ns_op_meta \<Longrightarrow> write_values (delete_scanned a s) V (ns, k) = V (ns, k)"
    using w by blast
qed

lemma tool_addresses:
  "operationToolArgsPrefix i p = Inr a \<Longrightarrow> ad_namespace a = ns_tool_args"
  "operationToolMemoPrefix i p = Inr a \<Longrightarrow> ad_namespace a = ns_tool_memo"
  by (auto simp: operationToolArgsPrefix_def operationToolMemoPrefix_def mkValue_eq_Inr)

lemma batch_matches [simp]:
  "stateMatchesIntent (RunIntent ps) (withToolBatch current batch)"
  "stateMatchesIntent (RunIntent ps) \<lparr>op_scope = sc, op_leaf = Checkpoint c\<rparr>"
  by (simp_all add: withToolBatch_def stateMatchesIntent_def)

section \<open>Intents and outcomes\<close>

interpretation tool_intent: operation_planner name "run_guard runId"
  "tool_intent_plan name runId planned toolCall args replay recovery"
  for name runId planned toolCall args replay recovery
proof
  fix s state operation ws st pt m ev
  assume im: "lane_image (value_at s) name state" and op: "la_operation state = Some operation"
    and g: "run_guard runId operation"
    and c: "tool_intent_plan name runId planned toolCall args replay recovery state (op_state operation)
      (op_meta operation) s = Inr (OperationCommit ws st pt m ev)"
  from c obtain batch where "op_leaf (op_state operation) = Tools batch"
    by (auto simp: tool_intent_plan_def split: operation_leaf.splits)
  with c obtain a where b: "operationToolArgs runId (tb_turnId batch) (bc_sourceIndex planned) = Inr a"
    "ws = [setValue a (VToolArgs args)]" "pt = no_patch"
    "st = withToolBatch (op_state operation) (replaceCall batch (planned\<lparr>bc_status := EffectPending replay\<rparr>))"
    by (auto simp: tool_intent_plan_def Let_def)
  then have "plan_writes name (me_operationId (op_meta operation)) no_patch ws (value_at s) \<and>
      write_values ws (value_at s) (ns_op_meta, me_operationId (op_meta operation)) = Some (VMeta (op_meta operation))"
    by (intro beside_operation[OF im op]) (auto simp: operationToolArgs_def slot_defs)
  then show "plan_writes name (me_operationId (op_meta operation)) pt ws (value_at s) \<and>
      write_values ws (value_at s) (ns_op_meta, me_operationId (op_meta operation)) = Some (VMeta (op_meta operation)) \<and>
      stateMatchesIntent (me_intent (op_meta operation)) st"
    using b g by (auto simp: run_guard_def run_intent)
qed (auto simp: tool_intent_plan_def Let_def split: operation_leaf.splits)

interpretation tool_outcome: operation_planner name "run_guard runId" "tool_outcome_plan name runId call finalized recovery"
  for name runId call finalized recovery
proof
  fix s state operation ws st pt m ev
  assume inv: "storage_inv s" and im: "lane_image (value_at s) name state" and op: "la_operation state = Some operation"
    and g: "run_guard runId operation"
    and c: "tool_outcome_plan name runId call finalized recovery state (op_state operation) (op_meta operation) s =
      Inr (OperationCommit ws st pt m ev)"
  from c obtain memos slot outp b' where b: "operationToolMemoPrefix runId (Some (bc_resultEntryId call)) = Inr memos"
    "pendingEntry (bc_resultEntryId call) = Inr slot" "pendingToolOutput runId (bc_resultEntryId call) = Inr outp"
    "ws = [setValue slot (VPending (PendingMessage (ToolResultMsg (to_message finalized)))), deleteValue outp] @ delete_scanned memos s"
    "pt = no_patch" "st = withToolBatch (op_state operation) b'"
    by (auto simp: tool_outcome_plan_def Let_def split: operation_leaf.splits)
  have ns: "ad_namespace memos \<in> {ns_tool_args, ns_tool_memo, ns_tool_output}" using tool_addresses(2)[OF b(1)] by simp
  have "plan_writes name (me_operationId (op_meta operation)) no_patch ws (value_at s) \<and>
      write_values ws (value_at s) (ns_op_meta, me_operationId (op_meta operation)) = Some (VMeta (op_meta operation))"
    using b(2-4) deletes_beside[OF inv ns]
    by (intro beside_operation[OF im op]) (auto simp: pendingToolOutput_def slot_defs)
  then show "plan_writes name (me_operationId (op_meta operation)) pt ws (value_at s) \<and>
      write_values ws (value_at s) (ns_op_meta, me_operationId (op_meta operation)) = Some (VMeta (op_meta operation)) \<and>
      stateMatchesIntent (me_intent (op_meta operation)) st"
    using b g by (auto simp: run_guard_def run_intent)
qed (auto simp: tool_outcome_plan_def Let_def split: operation_leaf.splits)

section \<open>Placement\<close>

lemma place_items_writes:
  assumes "place_items k t items = Inr (entries, usage, writes, tip)"
  shows "list_all addressed writes" "list_all (own_write name ids) writes"
    "ns \<noteq> ns_pending_entry \<Longrightarrow> write_values writes V (ns, key) = V (ns, key)"
proof -
  have "list_all addressed writes \<and> list_all (own_write name ids) writes \<and>
      (ns \<noteq> ns_pending_entry \<longrightarrow> (\<forall>V. write_values writes V (ns, key) = V (ns, key)))"
    using assms
  proof (induction k t items arbitrary: entries usage writes tip rule: place_items.induct)
    case (2 k parentId call m usageId items)
    then obtain slot es us rest where p: "pendingEntry (bc_resultEntryId call) = Inr slot"
      "place_items (k + 2 + length (result_usage usageId call m)) (Some (bc_resultEntryId call)) items = Inr (es, us, rest, tip)"
      "writes = [insertEntry (result_entry parentId call m), deleteValue slot] @
        map insertUsage (result_usage usageId call m) @ rest"
      by (auto simp: Let_def)
    have rows: "result_usage usageId call m = [] \<or> (\<exists>r. result_usage usageId call m = [r])"
      by (auto simp: result_usage_def split: option.split)
    show ?case using 2(1)[OF refl refl p(2)] p(1,3) rows by (auto simp: insertEntry_def insertUsage_def slot_defs)
  qed simp
  then show "list_all addressed writes" "list_all (own_write name ids) writes"
    "ns \<noteq> ns_pending_entry \<Longrightarrow> write_values writes V (ns, key) = V (ns, key)" by auto
qed

text \<open>What a committed placement writes and publishes.\<close>

lemma placement_shape:
  assumes c: "commit_placement_plan name runId turnId read usageIds state current meta s = Inr d"
  obtains batch entries usage writes tip leaf args ev where
    "op_leaf current = Tools batch"
    "place_items 0 (la_tipId state) (zip (pr_items read) usageIds) = Inr (entries, usage, writes, tip)"
    "placed_leaf batch (map (completed_call (pr_items read)) (tb_calls batch)) tip = Inr leaf"
    "args = [] \<or> (\<exists>a. operationToolArgsPrefix runId (Some turnId) = Inr a \<and> args = delete_scanned a s)"
    "d = OperationCommit (writes @ (if added_names (la_configuration state) (pr_items read) = [] then []
          else [WValueSet ns_lane_config name (VConfig ((la_configuration state)\<lparr>lc_activeToolNames :=
            lc_activeToolNames (la_configuration state) @ added_names (la_configuration state) (pr_items read)\<rparr>))]) @
          [WValueSet ns_branch_tip name (VTip tip)] @ args)
        \<lparr>op_scope = operationScopeOf current, op_leaf = leaf\<rparr>
        \<lparr>lp_tipId = Some tip, lp_configuration = Some (if added_names (la_configuration state) (pr_items read) = []
            then la_configuration state
            else (la_configuration state)\<lparr>lc_activeToolNames :=
              lc_activeToolNames (la_configuration state) @ added_names (la_configuration state) (pr_items read)\<rparr>), lp_inbox = None\<rparr>
        (\<lambda>c. list_all (\<lambda>c. is_completed (bc_status c)) (map (completed_call (pr_items read)) (tb_calls batch))) ev"
proof -
  from c obtain batch where b: "op_leaf current = Tools batch"
    by (auto simp: commit_placement_plan_def split: operation_leaf.splits)
  from c[unfolded commit_placement_plan_def b operation_leaf.case] obtain entries usage writes tip where
    p: "place_items 0 (la_tipId state) (zip (pr_items read) usageIds) = Inr (entries, usage, writes, tip)"
    by (auto simp: Let_def)
  from c obtain leaf args ev where
    "placed_leaf batch (map (completed_call (pr_items read)) (tb_calls batch)) tip = Inr leaf"
    "args = [] \<or> (\<exists>a. operationToolArgsPrefix runId (Some turnId) = Inr a \<and> args = delete_scanned a s)"
    "d = OperationCommit (writes @ (if added_names (la_configuration state) (pr_items read) = [] then []
          else [WValueSet ns_lane_config name (VConfig ((la_configuration state)\<lparr>lc_activeToolNames :=
            lc_activeToolNames (la_configuration state) @ added_names (la_configuration state) (pr_items read)\<rparr>))]) @
          [WValueSet ns_branch_tip name (VTip tip)] @ args)
        \<lparr>op_scope = operationScopeOf current, op_leaf = leaf\<rparr>
        \<lparr>lp_tipId = Some tip, lp_configuration = Some (if added_names (la_configuration state) (pr_items read) = []
            then la_configuration state
            else (la_configuration state)\<lparr>lc_activeToolNames :=
              lc_activeToolNames (la_configuration state) @ added_names (la_configuration state) (pr_items read)\<rparr>), lp_inbox = None\<rparr>
        (\<lambda>c. list_all (\<lambda>c. is_completed (bc_status c)) (map (completed_call (pr_items read)) (tb_calls batch))) ev"
    unfolding commit_placement_plan_def b operation_leaf.case p ebind_simps Let_def prod.case
    by (auto simp: branchTip_def laneConfig_def mkValue_eq_Inr setValue_def split: if_splits)
  then show thesis using that b p by blast
qed

interpretation placement: operation_planner name "run_guard runId" "commit_placement_plan name runId turnId read usageIds"
  for name runId turnId read usageIds
proof
  fix s state operation ws st pt m ev
  assume inv: "storage_inv s" and im: "lane_image (value_at s) name state" and op: "la_operation state = Some operation"
    and g: "run_guard runId operation"
    and c: "commit_placement_plan name runId turnId read usageIds state (op_state operation) (op_meta operation) s =
      Inr (OperationCommit ws st pt m ev)"
  from c obtain batch entries usage writes tip leaf args where
    p: "place_items 0 (la_tipId state) (zip (pr_items read) usageIds) = Inr (entries, usage, writes, tip)"
    and leaf: "placed_leaf batch (map (completed_call (pr_items read)) (tb_calls batch)) tip = Inr leaf"
    and args: "args = [] \<or> (\<exists>a. operationToolArgsPrefix runId (Some turnId) = Inr a \<and> args = delete_scanned a s)"
    and ws: "ws = writes @ (if added_names (la_configuration state) (pr_items read) = [] then []
          else [WValueSet ns_lane_config name (VConfig ((la_configuration state)\<lparr>lc_activeToolNames :=
            lc_activeToolNames (la_configuration state) @ added_names (la_configuration state) (pr_items read)\<rparr>))]) @
          [WValueSet ns_branch_tip name (VTip tip)] @ args"
    and st: "st = \<lparr>op_scope = operationScopeOf (op_state operation), op_leaf = leaf\<rparr>"
    and pt: "pt = \<lparr>lp_tipId = Some tip, lp_configuration = Some (if added_names (la_configuration state) (pr_items read) = []
            then la_configuration state
            else (la_configuration state)\<lparr>lc_activeToolNames :=
              lc_activeToolNames (la_configuration state) @ added_names (la_configuration state) (pr_items read)\<rparr>), lp_inbox = None\<rparr>"
    by (elim placement_shape) (simp only: operation_command.inject)
  have nul: "\<not> has_nul name" and cfg: "value_at s (ns_lane_config, name) = Some (VConfig (la_configuration state))"
    and meta: "value_at s (ns_op_meta, me_operationId (op_meta operation)) = Some (VMeta (op_meta operation))"
    using im op by (auto simp: lane_image_def Let_def)
  have a: "list_all addressed args" "list_all (own_write name ids) args"
    "lane_ns ns \<or> ns = ns_op_meta \<Longrightarrow> write_values args V (ns, k) = V (ns, k)" for ids ns k V
    using args deletes_beside[OF inv] tool_addresses(1) by fastforce+
  note w = place_items_writes[OF p]
  have "plan_writes name (me_operationId (op_meta operation)) pt ws (value_at s)"
    using w a nul cfg by (simp add: plan_writes_def ws pt lane_ns_def slot_defs)
  moreover have "write_values ws (value_at s) (ns_op_meta, me_operationId (op_meta operation)) = Some (VMeta (op_meta operation))"
    using w(3) a(3) meta by (simp add: ws)
  moreover have "stateMatchesIntent (me_intent (op_meta operation)) st"
    using g leaf by (auto simp: st run_guard_def run_intent placed_leaf_def split: if_splits option.splits)
  ultimately show "plan_writes name (me_operationId (op_meta operation)) pt ws (value_at s) \<and>
      write_values ws (value_at s) (ns_op_meta, me_operationId (op_meta operation)) = Some (VMeta (op_meta operation)) \<and>
      stateMatchesIntent (me_intent (op_meta operation)) st" by blast
qed (auto elim: placement_shape)

section \<open>Plans of the calls\<close>

lemma beside_command:
  assumes "lane_image (value_at s) name state" "list_all addressed ws" "\<And>ids. list_all (own_write name ids) ws"
    and "\<And>V ns k. lane_ns ns \<or> operation_ns ns \<Longrightarrow> write_values ws V (ns, k) = V (ns, k)"
  shows "list_all addressed ws \<and> list_all (own_write name ({} \<union> set_option (current_operation_id state))) ws \<and>
    lane_image (write_values ws (value_at s)) name state"
  using assms by (cases "la_operation state") (auto simp: lane_image_def lane_ns_def operation_ns_def Let_def)

interpretation replay: durable_plan name "{}" "replay_plan name runId batch call toolCall" for name runId batch call toolCall
proof
  fix s state ws nx mat evs
  assume im: "lane_image (value_at s) name state"
    and p: "replay_plan name runId batch call toolCall state s = Inr (CommandCommit ws nx mat evs)"
  from p obtain a where "pendingToolOutput runId (bc_resultEntryId call) = Inr a" "ws = [deleteValue a]" "nx = state"
    by (auto simp: replay_plan_def split: option.splits)
  then have "list_all addressed ws" "list_all (own_write name ids) ws"
    "lane_ns ns \<or> operation_ns ns \<Longrightarrow> write_values ws V (ns, k) = V (ns, k)" for ids V ns k
    by (auto simp: pendingToolOutput_def slot_defs)
  from beside_command[OF im this] show "list_all addressed ws \<and>
    list_all (own_write name ({} \<union> set_option (current_operation_id state))) ws \<and> lane_image (write_values ws (value_at s)) name nx"
    using \<open>nx = state\<close> by simp
qed

interpretation memo: durable_plan name "{}" "set_memo_plan runId call memo v" for name runId call memo v
proof
  fix s state ws nx mat evs
  assume im: "lane_image (value_at s) name state"
    and p: "set_memo_plan runId call memo v state s = Inr (CommandCommit ws nx mat evs)"
  from p obtain a where "operationToolMemo runId (bc_resultEntryId call) memo = Inr a" "nx = state"
    "ws = [case v of None \<Rightarrow> deleteValue a | Some x \<Rightarrow> setValue a (VJson x)]"
    by (auto simp: set_memo_plan_def split: if_splits)
  then have "list_all addressed ws" "list_all (own_write name ids) ws"
    "lane_ns ns \<or> operation_ns ns \<Longrightarrow> write_values ws V (ns, k) = V (ns, k)" for ids V ns k
    by (auto simp: operationToolMemo_def slot_defs split: option.split)
  from beside_command[OF im this] show "list_all addressed ws \<and>
    list_all (own_write name ({} \<union> set_option (current_operation_id state))) ws \<and> lane_image (write_values ws (value_at s)) name nx"
    using \<open>nx = state\<close> by simp
qed

text \<open>The commands that only read.\<close>

interpretation tool_source: durable_plan name "{}" "source_plan batch" for name batch
  by unfold_locales (auto simp: source_plan_def split: option.splits entry_body.splits agent_message.splits)

interpretation placement_read: durable_plan name "{}" "placement_plan sources" for name sources
  by unfold_locales (auto simp: placement_plan_def Let_def split: option.splits operation_leaf.splits if_splits)

interpretation get_memo: durable_plan name "{}" "get_memo_plan runId call memo" for name runId call memo
  by unfold_locales (auto simp: get_memo_plan_def split: if_splits)

interpretation checkpoint_reading: durable_plan name "{}" "checkpoint_read runId call" for name runId call
  by unfold_locales (auto simp: checkpoint_read_def split: option.splits)

end
