(* ===== verification/Structural.thy ===== *)
theory Structural
  imports Generation
begin

text \<open>
  The summaries of a compaction or a navigation: \<open>runtime/drive/structural.ts\<close>. The provider's part of an attempt
  (\<open>performStructuralAttempt\<close>) is one value for its result; what it stores before and after each of its requests is
  modelled. The hooks' answers, the preparations, the model catalogue, fresh ids and the clock are arguments. The
  missing reason of an in-run compaction is an error before the commit here and inside its events in the code; every
  such task is created with a reason.
\<close>

section \<open>Preparations\<close>

text \<open>A \<open>Set\<close> made of an array: the first of equal strings stays.\<close>

definition js_set :: "'a list \<Rightarrow> 'a list" where
  "js_set xs = foldl (\<lambda>acc x. if x \<in> set acc then acc else acc @ [x]) [] xs"

definition fileOperations :: "durable_file_operations \<Rightarrow> durable_file_operations" where
  "fileOperations f = \<lparr>df_read = js_set (df_read f), df_written = js_set (df_written f), df_edited = js_set (df_edited f)\<rparr>"

text \<open>\<open>compactionPreparation\<close> and \<open>branchPreparation\<close>: the preparation in memory has sets where the stored one has arrays.\<close>

fun live_preparation :: "structural_preparation \<Rightarrow> structural_preparation" where
  "live_preparation (CompactionPrep ms turn tail split tokens previous ops settings) =
     CompactionPrep ms turn tail split tokens previous (fileOperations ops) settings"
| "live_preparation (BranchSummaryPrep ms ops tokens) = BranchSummaryPrep ms (fileOperations ops) tokens"

datatype summary_kind = CompactionSummary | BranchSummary

fun preparation_kind :: "structural_preparation \<Rightarrow> summary_kind" where
  "preparation_kind (CompactionPrep ms turn tail split tokens previous ops settings) = CompactionSummary"
| "preparation_kind (BranchSummaryPrep ms ops tokens) = BranchSummary"

definition summaryKind :: "summary_task \<Rightarrow> summary_kind" where
  "summaryKind task = (case st_boundary task of CommitNavigation t l \<Rightarrow> BranchSummary | _ \<Rightarrow> CompactionSummary)"

definition compactionReason :: "summary_task \<Rightarrow> js_error + summary_reason" where
  "compactionReason task =
     (case st_reason task of
        Some reason \<Rightarrow> Inr reason
      | None \<Rightarrow> if st_boundary task = FinishBoundary then Inr ManualReason
          else Inl (SessionInvariant ''In-run compaction task is missing its reason''))"

definition navigationBoundary :: "summary_task \<Rightarrow> js_error + (jstring \<times> jstring option)" where
  "navigationBoundary task =
     (case st_boundary task of
        CommitNavigation target label \<Rightarrow> Inr (target, label)
      | _ \<Rightarrow> Inl (SessionInvariant ''Summary task is not a navigation''))"

fun as_preparation :: "stored \<Rightarrow> js_error + structural_preparation" where
  "as_preparation (VPreparation p) = Inr p"
| "as_preparation _ = Inl (SessionInvariant ''not a preparation'')"

definition task_of :: "operation_state \<Rightarrow> js_error + summary_task" where
  "task_of current =
     (case summary_task_of (op_leaf current) of
        Some task \<Rightarrow> Inr task | None \<Rightarrow> Inl (SessionInvariant ''the operation has no summary task''))"

definition stored_preparation :: "jstring \<Rightarrow> summary_task \<Rightarrow> storage_state \<Rightarrow> js_error + structural_preparation" where
  "stored_preparation runId task s =
     ebind (read_slot (operationPreparation runId (st_taskId task)) as_preparation s) (\<lambda>stored.
     case stored of
       Some p \<Rightarrow> if preparation_kind p = summaryKind task then Inr (live_preparation p)
         else Inl (SessionInvariant ''Structural task has another preparation'')
     | None \<Rightarrow> Inl (SessionInvariant ''Structural task is missing its preparation''))"

text \<open>\<open>readStructuralPreparation\<close> also looks for the target of a navigation; \<open>readAttemptPreparation\<close> does not.\<close>

definition structural_preparation_plan :: "jstring \<Rightarrow> structural_preparation operation_plan" where
  "structural_preparation_plan runId state current meta s =
     ebind (task_of current) (\<lambda>task.
     ebind (stored_preparation runId task s) (\<lambda>p.
     ebind (case st_boundary task of
         CommitNavigation target label \<Rightarrow>
           check (map_has (getEntries [target] s) target) (SessionInvariant ''Navigation target is missing'')
       | _ \<Rightarrow> Inr ()) (\<lambda>u.
     Inr (OperationReturn p))))"

definition attempt_preparation_plan :: "jstring \<Rightarrow> structural_preparation operation_plan" where
  "attempt_preparation_plan runId state current meta s =
     ebind (task_of current) (\<lambda>task. ebind (stored_preparation runId task s) (\<lambda>p. Inr (OperationReturn p)))"

definition summaryContext :: "harness_config \<Rightarrow> jstring \<Rightarrow> lane_configuration \<Rightarrow> summary_context" where
  "summaryContext config resultEntryId configuration =
     \<lparr>sc_resultEntryId = resultEntryId, sc_configuration = configuration,
      sc_streamOptions = (cf_streamOptions config)\<lparr>so_deferred := Some (DeferredFlag False)\<rparr>,
      sc_retryPolicy = normalizedRetryPolicy config\<rparr>"

section \<open>Outcomes\<close>

record compact_result =
  cres_summary :: jstring
  cres_tokensBefore :: int
  cres_usage :: "usage option"
  cres_retainedTail :: "agent_message list"
  cres_details :: "json option"

record branch_summary_result =
  br_summary :: jstring
  br_usage :: "usage option"
  br_readFiles :: "jstring list"
  br_modifiedFiles :: "jstring list"

datatype structural_outcome =
    CompactionOutcome jstring compact_result bool
  | BranchOutcome jstring branch_summary_result bool
  | DeclinedOutcome
  | FailedOutcome operation_error

fun outcome_kind :: "structural_outcome \<Rightarrow> summary_kind option" where
  "outcome_kind (CompactionOutcome i r fromHook) = Some CompactionSummary"
| "outcome_kind (BranchOutcome i r fromHook) = Some BranchSummary"
| "outcome_kind _ = None"

text \<open>The usage a hook reports for the summary it made; the usage of requests is stored with each request.\<close>

fun hook_usage :: "structural_outcome \<Rightarrow> usage option" where
  "hook_usage (CompactionOutcome i r fromHook) = (if fromHook then cres_usage r else None)"
| "hook_usage (BranchOutcome i r fromHook) = (if fromHook then br_usage r else None)"
| "hook_usage _ = None"

definition usage_only_row :: "jstring \<Rightarrow> usage \<Rightarrow> new_usage_row" where
  "usage_only_row usageId u = \<lparr>nu_id = usageId, nu_usage = u, nu_entryId = None, nu_adjustment = False, nu_details = None\<rparr>"

definition usage_event :: "jstring \<Rightarrow> new_usage_row \<Rightarrow> nat \<Rightarrow> commit_result \<Rightarrow> harness_event" where
  "usage_event name row writeIndex commit =
     lane_event name (UsageEvent (materializeUsageRow row (cr_seqs commit ! writeIndex)) (ss_usage (cr_stats commit)))"

definition compaction_entry :: "jstring \<Rightarrow> jstring option \<Rightarrow> compact_result \<Rightarrow> bool \<Rightarrow> new_entry" where
  "compaction_entry entryId tipId r fromHook =
     \<lparr>ne_id = entryId, ne_parentId = tipId,
      ne_body = CompactionBody \<lparr>cd_summary = cres_summary r, cd_retainedTail = cres_retainedTail r,
        cd_tokensBefore = cres_tokensBefore r, cd_details = cres_details r, cd_usage = cres_usage r, cd_fromHook = fromHook\<rparr>\<rparr>"

definition file_lists_json :: "jstring list \<Rightarrow> jstring list \<Rightarrow> json" where
  "file_lists_json readFiles modifiedFiles =
     JObj [(js ''readFiles'', JArr (map JStr readFiles)), (js ''modifiedFiles'', JArr (map JStr modifiedFiles))]"

definition branch_summary_entry :: "jstring \<Rightarrow> jstring \<Rightarrow> jstring option \<Rightarrow> branch_summary_result \<Rightarrow> bool \<Rightarrow> new_entry" where
  "branch_summary_entry entryId targetId fromId r fromHook =
     \<lparr>ne_id = entryId, ne_parentId = Some targetId,
      ne_body = BranchSummaryBody \<lparr>bd_fromId = fromId, bd_summary = br_summary r,
        bd_details = Some (file_lists_json (br_readFiles r) (br_modifiedFiles r)), bd_usage = br_usage r, bd_fromHook = fromHook\<rparr>\<rparr>"

text \<open>What an outcome writes, from the write index \<open>k\<close> on, the tip after it, and its events.\<close>

definition outcome_writes ::
  "jstring \<Rightarrow> jstring \<Rightarrow> jstring option \<Rightarrow> jstring option \<Rightarrow> summary_task \<Rightarrow> nat \<Rightarrow> structural_outcome \<Rightarrow>
   js_error + (storage_write list \<times> jstring option \<times> (commit_result \<Rightarrow> harness_event list))" where
  "outcome_writes name runId tipId fromId task k outcome =
     (case outcome of
        CompactionOutcome entryId r fromHook \<Rightarrow>
          (let entry = compaction_entry entryId tipId r fromHook in
           ebind (branchTip name) (\<lambda>tipSlot.
           Inr ([insertEntry entry, setValue tipSlot (VTip (Some entryId))], Some entryId,
             \<lambda>c. committedEntryEvents [entry] c name (Some runId) k)))
      | BranchOutcome entryId r fromHook \<Rightarrow>
          ebind (navigationBoundary task) (\<lambda>(targetId, label).
          let entry = branch_summary_entry entryId targetId fromId r fromHook in
          ebind (branchTip name) (\<lambda>tipSlot.
          ebind (case label of None \<Rightarrow> Inr []
            | Some l \<Rightarrow> ebind (entryLabel targetId) (\<lambda>a. Inr [setValue a (VText l)])) (\<lambda>labelWrites.
          Inr ([setValue tipSlot (VTip (Some targetId)), insertEntry entry, setValue tipSlot (VTip (Some entryId))] @ labelWrites,
            Some entryId, \<lambda>c. committedEntryEvents [entry] c name (Some runId) (k + 1)))))
      | _ \<Rightarrow> Inr ([], tipId, \<lambda>c. []))"

fun attempt_of :: "operation_leaf \<Rightarrow> int option" where
  "attempt_of (SummaryReady task context n) = Some n"
| "attempt_of (SummaryEffectPending task context n request ids) = Some n"
| "attempt_of _ = None"

definition attempt_events :: "jstring \<Rightarrow> jstring \<Rightarrow> summary_task \<Rightarrow> operation_leaf \<Rightarrow> structural_outcome \<Rightarrow> harness_event list" where
  "attempt_events name runId task leaf outcome =
     (case attempt_of leaf of
        Some attempt \<Rightarrow>
          if attempt > 1
          then [lane_event name (RetryEnd runId (st_taskId task) attempt (outcome_kind outcome \<noteq> None)
            (case outcome of FailedOutcome e \<Rightarrow> Some (oe_message e) | _ \<Rightarrow> None))]
          else []
      | None \<Rightarrow> [])"

text \<open>The end of a compaction that made its entry, at the end of the operation or at the commit.\<close>

definition compaction_events ::
  "jstring \<Rightarrow> jstring \<Rightarrow> summary_task \<Rightarrow> structural_outcome \<Rightarrow> int option \<Rightarrow> js_error + (commit_result \<Rightarrow> harness_event list)" where
  "compaction_events name runId task outcome terminalEndedAt =
     (case outcome of
        CompactionOutcome entryId r fromHook \<Rightarrow>
          ebind (compactionReason task) (\<lambda>reason.
          Inr (\<lambda>c. [lane_event name (CompactionEnd runId reason
            (case terminalEndedAt of None \<Rightarrow> cr_timestamp c | Some t \<Rightarrow> t) Completed (Some entryId) None)]))
      | _ \<Rightarrow> Inr (\<lambda>c. []))"

section \<open>Publication\<close>

text \<open>What the three boundaries share: the writes so far, the tip after them, and their events.\<close>

record published_outcome =
  po_writes :: "storage_write list"
  po_tip :: "jstring option"
  po_events :: "commit_result \<Rightarrow> harness_event list"

definition published_outcome_of ::
  "jstring \<Rightarrow> jstring \<Rightarrow> jstring option \<Rightarrow> structural_outcome \<Rightarrow> int option \<Rightarrow> summary_task \<Rightarrow>
   lane_state \<Rightarrow> operation_state \<Rightarrow> operation_meta \<Rightarrow> js_error + published_outcome" where
  "published_outcome_of name runId hookUsageId outcome terminalEndedAt task state current meta =
     ebind (case (hookUsageId, hook_usage outcome) of
         (None, _) \<Rightarrow> Inr None
       | (Some i, Some u) \<Rightarrow> Inr (Some (usage_only_row i u))
       | (Some i, None) \<Rightarrow> Inl (SessionInvariant ''Hook usage id exists without structural usage'')) (\<lambda>row.
     let usageWrites = (case row of None \<Rightarrow> [] | Some r \<Rightarrow> [insertUsage r]) in
     ebind (outcome_writes name runId (la_tipId state) (me_sourceTipId meta) task (length usageWrites) outcome)
       (\<lambda>(writes, tip, entryEvents).
     ebind (compaction_events name runId task outcome terminalEndedAt) (\<lambda>endEvents.
     Inr \<lparr>po_writes = usageWrites @ writes, po_tip = tip,
       po_events = (\<lambda>c. (case row of None \<Rightarrow> [] | Some r \<Rightarrow> [usage_event name r 0 c]) @ entryEvents c @
         attempt_events name runId task (op_leaf current) outcome @ endEvents c)\<rparr>)))"

text \<open>An in-run compaction that was made, or declined where it was not needed: the run goes on at its boundary.\<close>

definition resume_plan ::
  "harness_config \<Rightarrow> jstring \<Rightarrow> jstring \<Rightarrow> jstring \<Rightarrow> checkpoint_data \<Rightarrow> bool \<Rightarrow> published_outcome \<Rightarrow>
   checkpoint_result operation_plan" where
  "resume_plan config name runId stepId ck declined po state current meta s =
     (case po_tip po of
        None \<Rightarrow> Inl (SessionInvariant ''Run compaction has no Branch tip'')
      | Some tip \<Rightarrow>
          (let finishes = (case ck_continuation ck of MayFinish f \<Rightarrow> True | NeedAssistant used \<Rightarrow> False) in
           ebind (planBoundaryInbox name (cf_entryProjectors config) state (op_scope current) s (Some tip) (declined \<and> finishes))
             (\<lambda>placement.
           if declined \<and> bp_triggerEntryId placement = None \<and> finishes
           then Inr (OperationReturn (FinishPending (map ne_id (bp_entries placement))))
           else
             (let opState = (case (bp_triggerEntryId placement, ck_continuation ck) of
                  (Some trigger, _) \<Rightarrow> assistantReadyAtBoundary config stepId state (op_scope current) trigger False
                | (None, NeedAssistant used) \<Rightarrow>
                    assistantReadyAtBoundary config stepId state (op_scope current) (ck_triggerEntryId ck) used
                | (None, MayFinish f) \<Rightarrow> \<lparr>op_scope = operationScopeOf current, op_leaf = Checkpoint ck\<rparr>) in
              Inr (OperationCommit (po_writes po @ bp_writes placement) opState (placement_patch (bp_tipId placement) placement)
                (\<lambda>c. CheckpointDone ProcContinue)
                (\<lambda>c. (if declined
                    then [lane_event name (CompactionEnd runId ThresholdReason (cr_timestamp c) Declined None None)]
                    else po_events po c) @
                  boundaryPlacementEvents placement c (length (po_writes po)) name runId))))))"

definition compaction_declined :: operation_error where
  "compaction_declined = \<lparr>oe_code = js ''compaction_declined'', oe_message = js ''Overflow compaction was declined'', oe_details = None\<rparr>"

text \<open>An in-run compaction that failed, or that was declined after an overflow: the run fails.\<close>

definition fail_run_plan ::
  "jstring \<Rightarrow> jstring \<Rightarrow> summary_task \<Rightarrow> operation_error option \<Rightarrow> published_outcome \<Rightarrow> int \<Rightarrow> checkpoint_result operation_plan" where
  "fail_run_plan name runId task failure po now state current meta s =
     (case la_tipId state of
        None \<Rightarrow> Inl (SessionInvariant ''Failed run has no Branch tip'')
      | Some tip \<Rightarrow>
          (let err = (case failure of None \<Rightarrow> compaction_declined | Some e \<Rightarrow> e) in
           ebind (operationCleanupWrites s runId current) (\<lambda>cleanup.
           ebind (operationResultRecord meta FailedStatus (Some tip) (Some err) now) (\<lambda>result.
           ebind (compactionReason task) (\<lambda>reason.
           Inr (OperationFinish (po_writes po @ cleanup) result no_patch (\<lambda>c. CheckpointDone (ProcSettled result))
             (\<lambda>c. po_events po c @
                [lane_event name (CompactionEnd runId reason (or_endedAt result)
                   (if failure = None then Declined else FailedStatus) None failure),
                 lane_event name (RunEnd runId (me_sourceTipId meta) (Some tip) (or_endedAt result) FailedStatus (Some err))])))))))"

fun outcome_status :: "structural_outcome \<Rightarrow> terminal_status" where
  "outcome_status DeclinedOutcome = Declined"
| "outcome_status (FailedOutcome e) = FailedStatus"
| "outcome_status _ = Completed"

fun outcome_error :: "structural_outcome \<Rightarrow> operation_error option" where
  "outcome_error (FailedOutcome e) = Some e"
| "outcome_error _ = None"

text \<open>The end of a compaction or a navigation of its own; \<open>made\<close> says whether an entry was made for the new tip.\<close>

definition finish_structural_plan ::
  "jstring \<Rightarrow> jstring \<Rightarrow> bool \<Rightarrow> structural_outcome \<Rightarrow> published_outcome \<Rightarrow> int \<Rightarrow>
   (operation_meta \<Rightarrow> operation_result_record \<Rightarrow> harness_event list) \<Rightarrow> checkpoint_result operation_plan" where
  "finish_structural_plan name runId made outcome po now ends state current meta s =
     ebind (operationCleanupWrites s runId current) (\<lambda>cleanup.
     ebind (operationResultRecord meta (outcome_status outcome) (po_tip po) (outcome_error outcome) now) (\<lambda>result.
     Inr (OperationFinish (po_writes po @ cleanup) result (if made then no_patch\<lparr>lp_tipId := Some (po_tip po)\<rparr> else no_patch)
       (\<lambda>c. CheckpointDone (ProcSettled result)) (\<lambda>c. po_events po c @ ends meta result))))"

definition compaction_ends ::
  "jstring \<Rightarrow> jstring \<Rightarrow> structural_outcome \<Rightarrow> operation_meta \<Rightarrow> operation_result_record \<Rightarrow> harness_event list" where
  "compaction_ends name runId outcome meta result =
     (if outcome_kind outcome = Some CompactionSummary then []
      else [lane_event name (CompactionEnd runId ManualReason (or_endedAt result) (outcome_status outcome) None (outcome_error outcome))])"

definition navigation_ends ::
  "jstring \<Rightarrow> jstring \<Rightarrow> structural_outcome \<Rightarrow> jstring option \<Rightarrow> operation_meta \<Rightarrow> operation_result_record \<Rightarrow> harness_event list" where
  "navigation_ends name runId outcome tip meta result =
     [lane_event name (NavigationEnd runId (me_sourceTipId meta) tip (or_endedAt result) (outcome_status outcome) (outcome_error outcome))]"

definition structural_outcome_plan ::
  "harness_config \<Rightarrow> jstring \<Rightarrow> jstring \<Rightarrow> jstring \<Rightarrow> jstring option \<Rightarrow> structural_outcome \<Rightarrow> int \<Rightarrow>
   checkpoint_result operation_plan" where
  "structural_outcome_plan config name runId stepId hookUsageId outcome now state current meta s =
     ebind (task_of current) (\<lambda>task.
     ebind (check (outcome_kind outcome = None \<or> outcome_kind outcome = Some (summaryKind task))
       (SessionInvariant ''Structural result does not match its task'')) (\<lambda>u.
     ebind (published_outcome_of name runId hookUsageId outcome
         (if st_boundary task = FinishBoundary then Some now else None) task state current meta) (\<lambda>po.
     case st_boundary task of
       ResumeCheckpoint ck \<Rightarrow>
         (case outcome of
            BranchOutcome i r fromHook \<Rightarrow> Inl (SessionInvariant ''Run compaction boundary received a branch summary'')
          | CompactionOutcome i r fromHook \<Rightarrow> resume_plan config name runId stepId ck False po state current meta s
          | DeclinedOutcome \<Rightarrow>
              if st_reason task = Some ThresholdReason
              then resume_plan config name runId stepId ck True po state current meta s
              else fail_run_plan name runId task None po now state current meta s
          | FailedOutcome e \<Rightarrow> fail_run_plan name runId task (Some e) po now state current meta s)
     | FinishBoundary \<Rightarrow>
         if outcome_kind outcome = Some BranchSummary
         then Inl (SessionInvariant ''Compaction finish boundary received a branch summary'')
         else if outcome_kind outcome = None \<and> la_tipId state = None
         then Inl (SessionInvariant ''Standalone compaction has no Branch tip'')
         else finish_structural_plan name runId (outcome_kind outcome \<noteq> None) outcome po now (compaction_ends name runId outcome)
           state current meta s
     | CommitNavigation targetId label \<Rightarrow>
         if outcome_kind outcome = Some CompactionSummary
         then Inl (SessionInvariant ''Navigation boundary received a compaction result'')
         else finish_structural_plan name runId (outcome_kind outcome \<noteq> None) outcome po now
           (navigation_ends name runId outcome (po_tip po)) state current meta s)))"

text \<open>
  \<open>publishStructuralOutcome\<close> up to the finish of the run, which has a hook of its own: \<open>FinishPending\<close> goes on with
  \<open>finishRunBoundary\<close>, whose events begin with \<open>declined_events\<close>.
\<close>

definition publishStructuralOutcome ::
  "jstring \<Rightarrow> jstring \<Rightarrow> jstring \<Rightarrow> jstring \<Rightarrow> structural_outcome \<Rightarrow> int \<Rightarrow> harness \<Rightarrow> checkpoint_result outcome \<times> harness" where
  "publishStructuralOutcome name runId stepId usageId outcome now h =
     continue_or (CheckpointDone ProcContinue)
       (continueOperation name
         (structural_outcome_plan (ha_config h) name runId stepId
           (if hook_usage outcome = None then None else Some usageId) outcome now) now h)"

definition declined_events :: "jstring \<Rightarrow> jstring \<Rightarrow> int \<Rightarrow> harness_event list" where
  "declined_events name runId now = [lane_event name (CompactionEnd runId ThresholdReason now Declined None None)]"

definition finish_after_declined ::
  "jstring \<Rightarrow> jstring \<Rightarrow> jstring \<Rightarrow> summary_task \<Rightarrow> jstring list \<Rightarrow> (jstring \<times> agent_message) option \<Rightarrow> int \<Rightarrow> int \<Rightarrow> harness \<Rightarrow>
   procedure_result outcome \<times> harness" where
  "finish_after_declined name runId stepId task plannedEntryIds follow declinedAt now h =
     (case st_boundary task of
        ResumeCheckpoint ck \<Rightarrow>
          (case ck_continuation ck of
             MayFinish includeFinal \<Rightarrow>
               finishRunBoundary_commit name runId stepId includeFinal plannedEntryIds follow (declined_events name runId declinedAt) now h
           | NeedAssistant used \<Rightarrow> (Threw (SessionInvariant ''Structural finish mediation requires a resumable finish boundary''), h))
      | _ \<Rightarrow> (Threw (SessionInvariant ''Structural finish mediation requires a resumable finish boundary''), h))"

section \<open>The decision\<close>

definition structural_ready_plan :: "harness_config \<Rightarrow> jstring \<Rightarrow> procedure_result operation_plan" where
  "structural_ready_plan config resultEntryId state current meta s =
     ebind (task_of current) (\<lambda>task.
     Inr (OperationCommit []
       \<lparr>op_scope = operationScopeOf current,
        op_leaf = SummaryReady task (summaryContext config resultEntryId (la_configuration state)) 1\<rparr>
       no_patch (\<lambda>c. ProcContinue) (\<lambda>c. [])))"

definition publishStructuralReady :: "jstring \<Rightarrow> jstring \<Rightarrow> int \<Rightarrow> harness \<Rightarrow> procedure_result outcome \<times> harness" where
  "publishStructuralReady name resultEntryId now h =
     continue_or ProcContinue (continueOperation name (structural_ready_plan (ha_config h) resultEntryId) now h)"

text \<open>\<open>runStructuralDecision\<close> before its hook, and after it: the hook declines, brings a summary, or leaves it to a request.\<close>

definition runStructuralDecision_read ::
  "jstring \<Rightarrow> jstring \<Rightarrow> int \<Rightarrow> harness \<Rightarrow> structural_preparation continue_result outcome \<times> harness" where
  "runStructuralDecision_read name runId now h = continueOperation name (structural_preparation_plan runId) now h"

datatype decision_hook = HookDeclines | HookCompaction compact_result | HookBranchSummary branch_summary_result | HookPasses

fun decision_outcome :: "jstring \<Rightarrow> decision_hook \<Rightarrow> structural_outcome option" where
  "decision_outcome resultEntryId HookDeclines = Some DeclinedOutcome"
| "decision_outcome resultEntryId (HookCompaction r) = Some (CompactionOutcome resultEntryId r True)"
| "decision_outcome resultEntryId (HookBranchSummary r) = Some (BranchOutcome resultEntryId r True)"
| "decision_outcome resultEntryId HookPasses = None"

definition runStructuralDecision_publish ::
  "jstring \<Rightarrow> jstring \<Rightarrow> jstring \<Rightarrow> jstring \<Rightarrow> jstring \<Rightarrow> decision_hook \<Rightarrow> int \<Rightarrow> harness \<Rightarrow> checkpoint_result outcome \<times> harness" where
  "runStructuralDecision_publish name runId stepId resultEntryId usageId hook now h =
     (case decision_outcome resultEntryId hook of
        Some outcome \<Rightarrow> publishStructuralOutcome name runId stepId usageId outcome now h
      | None \<Rightarrow> (let (out, h') = publishStructuralReady name resultEntryId now h in (map_outcome CheckpointDone out, h')))"

section \<open>An attempt\<close>

definition attempt_intent_plan :: "operation_leaf operation_plan" where
  "attempt_intent_plan state current meta s =
     (case op_leaf current of
        SummaryReady task context nextAttempt \<Rightarrow>
          (let leaf = SummaryEffectPending task context nextAttempt None [] in
           Inr (OperationCommit [] \<lparr>op_scope = operationScopeOf current, op_leaf = leaf\<rparr> no_patch (\<lambda>c. leaf) (\<lambda>c. [])))
      | _ \<Rightarrow> Inl (SessionInvariant ''the operation is not at summary.ready''))"

definition publishAttemptIntent :: "jstring \<Rightarrow> int \<Rightarrow> harness \<Rightarrow> operation_leaf continue_result outcome \<times> harness" where
  "publishAttemptIntent name now h = continueOperation name attempt_intent_plan now h"

text \<open>Around each of its requests: the index and the usage id before, the usage after.\<close>

definition request_intent_plan :: "int \<Rightarrow> jstring \<Rightarrow> operation_leaf operation_plan" where
  "request_intent_plan index usageId state current meta s =
     (case op_leaf current of
        SummaryEffectPending task context attempt request usageIds \<Rightarrow>
          (let leaf = SummaryEffectPending task context attempt (Some (index, usageId)) usageIds in
           Inr (OperationCommit [] \<lparr>op_scope = op_scope current, op_leaf = leaf\<rparr> no_patch (\<lambda>c. leaf) (\<lambda>c. [])))
      | _ \<Rightarrow> Inl (SessionInvariant ''the operation is not at summary.effect_pending''))"

definition publishNestedRequestIntent ::
  "jstring \<Rightarrow> int \<Rightarrow> jstring \<Rightarrow> int \<Rightarrow> harness \<Rightarrow> operation_leaf continue_result outcome \<times> harness" where
  "publishNestedRequestIntent name index usageId now h = continueOperation name (request_intent_plan index usageId) now h"

definition request_outcome_plan :: "jstring \<Rightarrow> jstring \<Rightarrow> usage \<Rightarrow> unit operation_plan" where
  "request_outcome_plan name usageId u state current meta s =
     (case op_leaf current of
        SummaryEffectPending task context attempt request usageIds \<Rightarrow>
          (let row = usage_only_row usageId u in
           Inr (OperationCommit [insertUsage row]
             \<lparr>op_scope = op_scope current, op_leaf = SummaryEffectPending task context attempt None (usageIds @ [usageId])\<rparr>
             no_patch (\<lambda>c. ()) (\<lambda>c. [usage_event name row 0 c])))
      | _ \<Rightarrow> Inl (SessionInvariant ''the operation is not at summary.effect_pending''))"

definition publishNestedRequestOutcome :: "jstring \<Rightarrow> jstring \<Rightarrow> usage \<Rightarrow> int \<Rightarrow> harness \<Rightarrow> unit outcome \<times> harness" where
  "publishNestedRequestOutcome name usageId u now h = settleOperation name (request_outcome_plan name usageId u) now h"

text \<open>\<open>retryWaitFromEffect\<close> and \<open>readyFromRetryWait\<close>.\<close>

definition retryWaitFromEffect :: "summary_task \<Rightarrow> summary_context \<Rightarrow> int \<Rightarrow> jstring \<Rightarrow> int \<Rightarrow> operation_leaf" where
  "retryWaitFromEffect task context attempt errorMessage now =
     SummaryRetryWait task context \<lparr>rw_nextAttempt = attempt + 1,
       rw_notBefore = retryNotBefore (sc_retryPolicy context) attempt now, rw_errorMessage = errorMessage\<rparr>"

definition schedule_event ::
  "jstring \<Rightarrow> jstring \<Rightarrow> bool \<Rightarrow> summary_task \<Rightarrow> summary_context \<Rightarrow> int \<Rightarrow> jstring \<Rightarrow> int \<Rightarrow> harness_event" where
  "schedule_event name runId recovery task context attempt errorMessage now =
     recovery_event recovery name (RetryScheduled runId (st_taskId task) (attempt + 1) (rp_maxAttempts (sc_retryPolicy context))
       (retryDelayMs (rp_baseDelayMs (sc_retryPolicy context)) (Some (rp_maxAgentDelayMs (sc_retryPolicy context))) attempt)
       (retryNotBefore (sc_retryPolicy context) attempt now) errorMessage)"

text \<open>The next leaf is made of the pending leaf of the pass, and the scope of the lane.\<close>

definition structural_retry_plan ::
  "jstring \<Rightarrow> jstring \<Rightarrow> bool \<Rightarrow> summary_task \<Rightarrow> summary_context \<Rightarrow> int \<Rightarrow> jstring \<Rightarrow> int \<Rightarrow> operation_scope \<Rightarrow>
   procedure_result operation_plan" where
  "structural_retry_plan name runId recovery task context attempt errorMessage now scope state current meta s =
     Inr (OperationCommit [] \<lparr>op_scope = scope, op_leaf = retryWaitFromEffect task context attempt errorMessage now\<rparr>
       no_patch (\<lambda>c. ProcContinue) (\<lambda>c. [schedule_event name runId recovery task context attempt errorMessage now]))"

datatype attempt_result =
    AttemptCompaction compact_result
  | AttemptBranchSummary branch_summary_result
  | AttemptError operation_error bool
  | AttemptCancelled

definition lane_running :: "jstring \<Rightarrow> harness \<Rightarrow> bool" where
  "lane_running name h =
     (case map_get (ha_lanes h) name of
        None \<Rightarrow> False
      | Some l \<Rightarrow> (case la_operation (ln_state l) of
          None \<Rightarrow> False | Some operation \<Rightarrow> os_control (op_scope (op_state operation)) = Running))"

text \<open>\<open>effect\<close> is the pending leaf the attempt was started with, and \<open>scope\<close> its scope.\<close>

definition publishAttemptResult ::
  "jstring \<Rightarrow> jstring \<Rightarrow> jstring \<Rightarrow> jstring \<Rightarrow> summary_task \<Rightarrow> summary_context \<Rightarrow> int \<Rightarrow> operation_scope \<Rightarrow> attempt_result \<Rightarrow>
   int \<Rightarrow> harness \<Rightarrow> checkpoint_result outcome \<times> harness" where
  "publishAttemptResult name runId stepId usageId task context attempt scope result now h =
     (case result of
        AttemptCancelled \<Rightarrow> (Returned (CheckpointDone ProcContinue), h)
      | AttemptCompaction r \<Rightarrow>
          publishStructuralOutcome name runId stepId usageId (CompactionOutcome (sc_resultEntryId context) r False) now h
      | AttemptBranchSummary r \<Rightarrow>
          publishStructuralOutcome name runId stepId usageId (BranchOutcome (sc_resultEntryId context) r False) now h
      | AttemptError e retryable \<Rightarrow>
          if oe_code e = js ''aborted'' \<and> lane_running name h
          then (Threw (SessionInvariant ''Structural provider response is aborted while durable control is running''), h)
          else if retryable \<and> attempt < rp_maxAttempts (sc_retryPolicy context)
          then (let (out, h') = continue_or ProcContinue (continueOperation name
                  (structural_retry_plan name runId False task context attempt (oe_message e) now scope) now h) in
                (map_outcome CheckpointDone out, h'))
          else publishStructuralOutcome name runId stepId usageId (FailedOutcome e) now h)"

text \<open>\<open>runStructuralGeneration\<close> up to its request: what it ends with, or the preparation to summarize.\<close>

definition runStructuralGeneration_prepare ::
  "(model_identity \<Rightarrow> model_limits option) \<Rightarrow> jstring \<Rightarrow> jstring \<Rightarrow> jstring \<Rightarrow> jstring \<Rightarrow> summary_context \<Rightarrow> int \<Rightarrow> harness \<Rightarrow>
   (checkpoint_result + structural_preparation) outcome \<times> harness" where
  "runStructuralGeneration_prepare catalogue name runId stepId usageId context now h =
     (case continueOperation name (attempt_preparation_plan runId) now h of
        (Blocked, h') \<Rightarrow> (Blocked, h')
      | (Threw e, h') \<Rightarrow> (Threw e, h')
      | (Returned CancelRequestedResult, h') \<Rightarrow> (Returned (Inl (CheckpointDone ProcContinue)), h')
      | (Returned (ContinueResult p), h') \<Rightarrow>
          (let identity = lc_model (sc_configuration context) in
           if catalogue identity = None
           then (let (out, h'') = publishStructuralOutcome name runId stepId usageId (FailedOutcome (model_unavailable identity)) now h' in
                 (map_outcome Inl out, h''))
           else (Returned (Inr p), h')))"

definition runStructuralGeneration_intent ::
  "jstring \<Rightarrow> int \<Rightarrow> harness \<Rightarrow> (checkpoint_result + operation_leaf) outcome \<times> harness" where
  "runStructuralGeneration_intent name now h =
     (case publishAttemptIntent name now h of
        (Returned CancelRequestedResult, h') \<Rightarrow> (Returned (Inl (CheckpointDone ProcContinue)), h')
      | (Returned (ContinueResult leaf), h') \<Rightarrow> (Returned (Inr leaf), h')
      | (Blocked, h') \<Rightarrow> (Blocked, h')
      | (Threw e, h') \<Rightarrow> (Threw e, h'))"

section \<open>Waiting and recovering\<close>

definition structural_ready_again_plan :: "jstring \<Rightarrow> jstring \<Rightarrow> procedure_result operation_plan" where
  "structural_ready_again_plan name runId state current meta s =
     (case op_leaf current of
        SummaryRetryWait task context w \<Rightarrow>
          Inr (OperationCommit [] \<lparr>op_scope = operationScopeOf current, op_leaf = SummaryReady task context (rw_nextAttempt w)\<rparr>
            no_patch (\<lambda>c. ProcContinue) (\<lambda>c. [lane_event name (RetryStart runId (st_taskId task) (rw_nextAttempt w))]))
      | _ \<Rightarrow> Inl (SessionInvariant ''the operation is not at summary.retry_wait''))"

text \<open>One turn of the wait: \<open>Blocked\<close> before the time has come, when the pass waits for it.\<close>

definition runStructuralRetryWait ::
  "jstring \<Rightarrow> jstring \<Rightarrow> retry_wait \<Rightarrow> bool \<Rightarrow> int \<Rightarrow> harness \<Rightarrow> procedure_result outcome \<times> harness" where
  "runStructuralRetryWait name runId w waitForRetry now h =
     (if now < rw_notBefore w
      then (if \<not> waitForRetry then Returned (ProcWaiting (WaitingRetry runId (rw_notBefore w))) else Blocked, h)
      else continue_or ProcContinue (continueOperation name (structural_ready_again_plan name runId) now h))"

definition structural_interrupted :: operation_error where
  "structural_interrupted =
     \<lparr>oe_code = js ''structural_interrupted'',
      oe_message = js ''Structural summary attempt was interrupted and its external outcome is unknown'', oe_details = None\<rparr>"

definition recoverStructuralGeneration ::
  "jstring \<Rightarrow> jstring \<Rightarrow> jstring \<Rightarrow> jstring \<Rightarrow> summary_task \<Rightarrow> summary_context \<Rightarrow> int \<Rightarrow> operation_scope \<Rightarrow> int \<Rightarrow> harness \<Rightarrow>
   checkpoint_result outcome \<times> harness" where
  "recoverStructuralGeneration name runId stepId usageId task context attempt scope now h =
     (if attempt \<ge> rp_maxAttempts (sc_retryPolicy context)
      then publishStructuralOutcome name runId stepId usageId (FailedOutcome structural_interrupted) now h
      else (let (out, h') = continue_or ProcContinue (continueOperation name
              (structural_retry_plan name runId True task context attempt (oe_message structural_interrupted) now scope) now h) in
            (map_outcome CheckpointDone out, h')))"

section \<open>When a run compacts\<close>

text \<open>The index of the newest compaction and of the trigger on the bounded path; -1 where there is none.\<close>

definition index_where :: "('a \<Rightarrow> bool) \<Rightarrow> 'a list \<Rightarrow> int" where
  "index_where P xs = (if list_ex P xs then int (length (takeWhile (\<lambda>x. \<not> P x) xs)) else -1)"

definition last_index_where :: "('a \<Rightarrow> bool) \<Rightarrow> 'a list \<Rightarrow> int" where
  "last_index_where P xs = (if list_ex P xs then int (length xs) - 1 - index_where P (rev xs) else -1)"

definition bounded_entries_plan :: "entry list operation_plan" where
  "bounded_entries_plan state current meta s =
     (case readBoundedEntries state s of
        None \<Rightarrow> Inl CorruptBranch
      | Some r \<Rightarrow> ebind r (\<lambda>entries. Inr (OperationReturn entries)))"

text \<open>What the path of a checkpoint says, for the model of the lane and the settings of the run; \<open>prepare\<close> is \<open>prepareCompaction\<close> made durable.\<close>

definition threshold_preparation ::
  "(entry list \<Rightarrow> compaction_settings \<Rightarrow> js_error + (structural_preparation \<times> int) option) \<Rightarrow> compaction_settings \<Rightarrow> int \<Rightarrow>
   jstring \<Rightarrow> entry list \<Rightarrow> js_error + structural_preparation option" where
  "threshold_preparation prepare settings contextWindow triggerEntryId path =
     (let triggerIndex = index_where (\<lambda>e. en_id e = triggerEntryId) path;
          newest = last_index_where (\<lambda>e. body_type (en_body e) = CompactionType) path in
      if newest \<ge> triggerIndex \<and> newest \<noteq> -1 then Inr None
      else if triggerIndex = -1 then Inl (SessionInvariant ''Checkpoint trigger is missing from its Branch'')
      else ebind (prepare path settings) (\<lambda>prepared. case prepared of
        None \<Rightarrow> Inr None
      | Some (preparation, tokensBefore) \<Rightarrow>
          Inr (if cp_enabled settings \<and> tokensBefore > contextWindow - cp_reserveTokens settings then Some preparation else None)))"

definition prepareCompactionThreshold ::
  "(entry list \<Rightarrow> compaction_settings \<Rightarrow> js_error + (structural_preparation \<times> int) option) \<Rightarrow> (model_identity \<Rightarrow> model_limits option) \<Rightarrow>
   jstring \<Rightarrow> model_identity \<Rightarrow> compaction_settings \<Rightarrow> checkpoint_data \<Rightarrow> jstring \<Rightarrow> int \<Rightarrow> harness \<Rightarrow>
   (jstring \<times> structural_preparation) option continue_result outcome \<times> harness" where
  "prepareCompactionThreshold prepare catalogue name identity settings ck taskId now h =
     (case (cp_enabled settings, catalogue identity) of
        (True, Some limits) \<Rightarrow>
          (case continueOperation name bounded_entries_plan now h of
             (Blocked, h') \<Rightarrow> (Blocked, h')
           | (Threw e, h') \<Rightarrow> (Threw e, h')
           | (Returned CancelRequestedResult, h') \<Rightarrow> (Returned CancelRequestedResult, h')
           | (Returned (ContinueResult path), h') \<Rightarrow>
               (case threshold_preparation prepare settings (ml_contextWindow limits) (ck_triggerEntryId ck) path of
                  Inl e \<Rightarrow> (Threw e, h')
                | Inr None \<Rightarrow> (Returned (ContinueResult None), h')
                | Inr (Some preparation) \<Rightarrow> (Returned (ContinueResult (Some (taskId, preparation))), h')))
      | _ \<Rightarrow> (Returned (ContinueResult None), h))"

definition prepareOverflowCompaction ::
  "(entry list \<Rightarrow> compaction_settings \<Rightarrow> js_error + (structural_preparation \<times> int) option) \<Rightarrow> jstring \<Rightarrow> generation_context \<Rightarrow>
   compaction_settings \<Rightarrow> jstring \<Rightarrow> int \<Rightarrow> harness \<Rightarrow> (jstring \<times> structural_preparation) option outcome \<times> harness" where
  "prepareOverflowCompaction prepare name g settings taskId now h =
     (if gc_overflowRecoveryUsed g then (Returned None, h)
      else
        (case continueOperation name bounded_entries_plan now h of
           (Blocked, h') \<Rightarrow> (Blocked, h')
         | (Threw e, h') \<Rightarrow> (Threw e, h')
         | (Returned CancelRequestedResult, h') \<Rightarrow> (Returned None, h')
         | (Returned (ContinueResult path), h') \<Rightarrow>
             (case prepare path settings of
                Inl e \<Rightarrow> (Threw e, h')
              | Inr None \<Rightarrow> (Returned None, h')
              | Inr (Some (preparation, tokensBefore)) \<Rightarrow> (Returned (Some (taskId, preparation)), h'))))"

section \<open>A navigation without a summary\<close>

definition commit_navigation_plan :: "jstring \<Rightarrow> jstring \<Rightarrow> int \<Rightarrow> procedure_result operation_plan" where
  "commit_navigation_plan name runId now state current meta s =
     (case op_leaf current of
        NavigationReadyToCommit targetId label \<Rightarrow>
          ebind (check (case targetId of None \<Rightarrow> True | Some t \<Rightarrow> map_has (getEntries [t] s) t)
            (SessionInvariant ''Navigation target is missing'')) (\<lambda>u.
          ebind (check (targetId \<noteq> me_sourceTipId meta) (SessionInvariant ''Navigation target must differ from its source tip'')) (\<lambda>u.
          ebind (check (targetId \<noteq> None \<or> label = None) (SessionInvariant ''Root navigation cannot set a label'')) (\<lambda>u.
          ebind (branchTip name) (\<lambda>tipSlot.
          ebind (case (label, targetId) of
              (Some l, Some t) \<Rightarrow> ebind (entryLabel t) (\<lambda>a. Inr [setValue a (VText l)])
            | _ \<Rightarrow> Inr []) (\<lambda>labelWrites.
          ebind (operationCleanupWrites s runId current) (\<lambda>cleanup.
          ebind (operationResultRecord meta Completed targetId None now) (\<lambda>result.
          Inr (OperationFinish ([setValue tipSlot (VTip targetId)] @ labelWrites @ cleanup) result
            (no_patch\<lparr>lp_tipId := Some targetId\<rparr>) (\<lambda>c. ProcSettled result)
            (\<lambda>c. [lane_event name (NavigationEnd runId (me_sourceTipId meta) targetId (or_endedAt result) Completed None)])))))))))
      | _ \<Rightarrow> Inl (SessionInvariant ''the operation is not at navigation.ready_to_commit''))"

definition commitNavigation :: "jstring \<Rightarrow> jstring \<Rightarrow> int \<Rightarrow> harness \<Rightarrow> procedure_result outcome \<times> harness" where
  "commitNavigation name runId now h = continue_or ProcContinue (continueOperation name (commit_navigation_plan name runId now) now h)"

end
