(* ===== verification/StructuralFacts.thy ===== *)
theory StructuralFacts
  imports Structural ToolFacts
begin

text \<open>
  The commands of summaries and navigations meet the contract of \<open>operation_planner\<close>: what an outcome writes, and one
  interpretation for each plan.
\<close>

section \<open>Plans that only read\<close>

interpretation structural_preparation: operation_planner name guard "structural_preparation_plan runId" for name guard runId
  by unfold_locales (auto simp: structural_preparation_plan_def)

interpretation attempt_preparation: operation_planner name guard "attempt_preparation_plan runId" for name guard runId
  by unfold_locales (auto simp: attempt_preparation_plan_def)

interpretation bounded_entries: operation_planner name guard bounded_entries_plan for name guard
  by unfold_locales (auto simp: bounded_entries_plan_def split: option.splits)

section \<open>Plans that only move the leaf\<close>

text \<open>A leaf of the same summary task is as good for the intent of the operation as the one before.\<close>

lemma same_task_matches:
  assumes "stateMatchesIntent intent st" "summary_task_of (op_leaf st) = Some task" "summary_task_of leaf = Some task"
  shows "stateMatchesIntent intent \<lparr>op_scope = sc, op_leaf = leaf\<rparr>"
  using assms
  by (cases intent; cases "op_leaf st"; cases leaf) (auto simp: stateMatchesIntent_def)

lemma current_matches:
  "lane_image V name state \<Longrightarrow> la_operation state = Some operation \<Longrightarrow>
   stateMatchesIntent (me_intent (op_meta operation)) (op_state operation)"
  by (simp add: lane_image_def Let_def)

text \<open>The contract of the plans that stay at the task: at most a usage row, and another leaf of the same task.\<close>

locale task_planner =
  fixes name :: jstring and guard :: "operation \<Rightarrow> bool" and plan :: "'r operation_plan"
  assumes stays: "guard operation \<Longrightarrow>
      plan state (op_state operation) (op_meta operation) s = Inr (OperationCommit ws st pt m ev) \<Longrightarrow>
      pt = no_patch \<and> list_all (\<lambda>w. \<exists>row. w = insertUsage row) ws \<and>
      (\<exists>task. summary_task_of (op_leaf (op_state operation)) = Some task \<and> summary_task_of (op_leaf st) = Some task)"
    and unfinished: "plan state current meta s \<noteq> Inr (OperationFinish ws result pt m ev)"
begin

lemma usage_rows:
  assumes "list_all (\<lambda>w. \<exists>row. w = insertUsage row) ws"
  shows "list_all addressed ws" "list_all (own_write name ids) ws" "write_values ws V = V"
  using assms by (induction ws arbitrary: V) (auto simp: insertUsage_def)

lemma commits:
  assumes im: "lane_image (value_at s) name state" and op: "la_operation state = Some operation" and g: "guard operation"
    and p: "plan state (op_state operation) (op_meta operation) s = Inr (OperationCommit ws st pt m ev)"
  shows "plan_writes name (me_operationId (op_meta operation)) pt ws (value_at s) \<and>
    write_values ws (value_at s) (ns_op_meta, me_operationId (op_meta operation)) = Some (VMeta (op_meta operation)) \<and>
    stateMatchesIntent (me_intent (op_meta operation)) st"
proof -
  obtain task where t: "pt = no_patch" "list_all (\<lambda>w. \<exists>row. w = insertUsage row) ws"
    "summary_task_of (op_leaf (op_state operation)) = Some task" "summary_task_of (op_leaf st) = Some task"
    using stays[OF g p] by blast
  have "st = \<lparr>op_scope = op_scope st, op_leaf = op_leaf st\<rparr>" by simp
  then have "stateMatchesIntent (me_intent (op_meta operation)) st"
    using same_task_matches[OF current_matches[OF im op] t(3,4)] by metis
  then show ?thesis using beside_operation[OF im op] usage_rows[OF t(2)] t(1) by simp
qed

end

sublocale task_planner \<subseteq> operation_planner name guard plan
  using unfinished by unfold_locales (use commits in blast)+

interpretation structural_ready: task_planner name guard "structural_ready_plan config resultEntryId"
  for name guard config resultEntryId
  by unfold_locales (auto simp: structural_ready_plan_def task_of_def split: option.splits)

interpretation attempt_intent: task_planner name guard attempt_intent_plan for name guard
  by unfold_locales (auto simp: attempt_intent_plan_def Let_def split: operation_leaf.splits)

interpretation request_intent: task_planner name guard "request_intent_plan index usageId" for name guard index usageId
  by unfold_locales (auto simp: request_intent_plan_def Let_def split: operation_leaf.splits)

interpretation request_outcome: task_planner name guard "request_outcome_plan evName usageId u" for name guard evName usageId u
  by unfold_locales (auto simp: request_outcome_plan_def Let_def split: operation_leaf.splits)

interpretation ready_again: task_planner name guard "structural_ready_again_plan evName runId" for name guard evName runId
  by unfold_locales (auto simp: structural_ready_again_plan_def split: operation_leaf.splits)

text \<open>The retry is made of the leaf the pass holds, so the operation must still be at that task.\<close>

definition task_guard :: "jstring \<Rightarrow> summary_task \<Rightarrow> operation \<Rightarrow> bool" where
  "task_guard runId task operation \<longleftrightarrow>
     me_operationId (op_meta operation) = runId \<and> summary_task_of (op_leaf (op_state operation)) = Some task"

interpretation structural_retry: task_planner name "task_guard runId task"
  "structural_retry_plan evName evRun recovery task ctx attempt errorMessage now scope"
  for name runId task evName evRun recovery ctx attempt errorMessage now scope
  by unfold_locales (auto simp: structural_retry_plan_def retryWaitFromEffect_def task_guard_def)

section \<open>What an outcome writes\<close>

lemma published_writes:
  assumes p: "published_outcome_of name runId hookUsageId outcome terminalEndedAt task state current meta = Inr po"
    and nul: "\<not> has_nul name"
  shows "list_all addressed (po_writes po)" "list_all (own_write name ids) (po_writes po)"
    "outcome_kind outcome = None \<Longrightarrow> po_tip po = la_tipId state \<and> write_values (po_writes po) V = V"
    "outcome_kind outcome \<noteq> None \<Longrightarrow> write_values (po_writes po) V (ns_branch_tip, name) = Some (VTip (po_tip po))"
    "ns \<noteq> ns_branch_tip \<Longrightarrow> ns \<noteq> ns_entry_label \<Longrightarrow> write_values (po_writes po) V (ns, k) = V (ns, k)"
proof -
  obtain row :: "new_usage_row option" and writes tip evs where
    w: "outcome_writes name runId (la_tipId state) (me_sourceTipId meta) task
      (length (case row of None \<Rightarrow> [] | Some r \<Rightarrow> [insertUsage r])) outcome = Inr (writes, tip, evs)"
    and po: "po_writes po = (case row of None \<Rightarrow> [] | Some r \<Rightarrow> [insertUsage r]) @ writes" "po_tip po = tip"
    using p by (auto simp: published_outcome_of_def Let_def)
  have u: "list_all addressed (case row of None \<Rightarrow> [] | Some r \<Rightarrow> [insertUsage r])"
    "list_all (own_write name ids) (case row of None \<Rightarrow> [] | Some r \<Rightarrow> [insertUsage r])"
    "write_values ((case row of None \<Rightarrow> [] | Some r \<Rightarrow> [insertUsage r]) @ ws) V = write_values ws V" for ws V
    by (auto simp: insertUsage_def split: option.split)
  note defs = outcome_writes_def Let_def branchTip_def entryLabel_def mkValue_eq_Inr setValue_def insertEntry_def
    slot_defs
  show "list_all addressed (po_writes po)" "list_all (own_write name ids) (po_writes po)"
    using w nul by (auto simp: po u defs split: structural_outcome.splits option.splits)
  show "outcome_kind outcome = None \<Longrightarrow> po_tip po = la_tipId state \<and> write_values (po_writes po) V = V"
    using w unfolding po u(3) by (auto simp: defs split: structural_outcome.splits)
  show "outcome_kind outcome \<noteq> None \<Longrightarrow> write_values (po_writes po) V (ns_branch_tip, name) = Some (VTip (po_tip po))"
    using w unfolding po u(3) by (auto simp: defs split: structural_outcome.splits option.splits)
  show "ns \<noteq> ns_branch_tip \<Longrightarrow> ns \<noteq> ns_entry_label \<Longrightarrow> write_values (po_writes po) V (ns, k) = V (ns, k)"
    using w unfolding po u(3) by (auto simp: defs split: structural_outcome.splits option.splits)
qed

lemma write_values_append [simp]: "write_values (xs @ ys) V = write_values ys (write_values xs V)"
  by (induction xs arbitrary: V) auto

text \<open>After its writes the tip of the branch is the one the outcome reports.\<close>

lemma published_tip:
  assumes p: "published_outcome_of name runId hookUsageId outcome terminalEndedAt task state current meta = Inr po"
    and im: "lane_image V name state"
  shows "write_values (po_writes po) V (ns_branch_tip, name) = Some (VTip (po_tip po))"
    "write_values (po_writes po) V (ns_lane_config, name) = Some (VConfig (la_configuration state))"
    "write_values (po_writes po) V (ns_lane_state, name) = V (ns_lane_state, name)"
    "write_values (po_writes po) V (ns_op_meta, k) = V (ns_op_meta, k)"
proof -
  have nul: "\<not> has_nul name" and tip: "V (ns_branch_tip, name) = Some (VTip (la_tipId state))"
    and cfg: "V (ns_lane_config, name) = Some (VConfig (la_configuration state))"
    using im by (simp_all add: lane_image_def)
  note w = published_writes[OF p nul]
  show "write_values (po_writes po) V (ns_branch_tip, name) = Some (VTip (po_tip po))"
  proof (cases "outcome_kind outcome")
    case None
    then show ?thesis using w(3)[where V = V] tip by simp
  next
    case (Some k)
    then show ?thesis using w(4)[where V = V] by simp
  qed
  show "write_values (po_writes po) V (ns_lane_config, name) = Some (VConfig (la_configuration state))"
    using w(5)[where V = V and ns = ns_lane_config and k = name] cfg by simp
  show "write_values (po_writes po) V (ns_lane_state, name) = V (ns_lane_state, name)"
    by (rule w(5)) simp_all
  show "write_values (po_writes po) V (ns_op_meta, k) = V (ns_op_meta, k)"
    by (rule w(5)) simp_all
qed

lemma resume_shape:
  assumes "resume_plan config name runId stepId ck declined po state current meta s = Inr d"
  obtains (pending) ids where "d = OperationReturn (FinishPending ids)"
  | (resumes) tip follow pl st ev where "po_tip po = Some tip"
      "planBoundaryInbox name (cf_entryProjectors config) state (op_scope current) s (Some tip) follow = Inr pl"
      "d = OperationCommit (po_writes po @ bp_writes pl) st (placement_patch (bp_tipId pl) pl) (\<lambda>c. CheckpointDone ProcContinue) ev"
      "(\<exists>trigger used. st = assistantReadyAtBoundary config stepId state (op_scope current) trigger used) \<or>
        st = \<lparr>op_scope = operationScopeOf current, op_leaf = Checkpoint ck\<rparr>"
proof -
  obtain tip pl where t: "po_tip po = Some tip"
    "planBoundaryInbox name (cf_entryProjectors config) state (op_scope current) s (Some tip)
      (declined \<and> (case ck_continuation ck of MayFinish f \<Rightarrow> True | NeedAssistant used \<Rightarrow> False)) = Inr pl"
    using assms by (auto simp: resume_plan_def Let_def split: option.splits)
  let ?pending = "declined \<and> bp_triggerEntryId pl = None \<and> (case ck_continuation ck of MayFinish f \<Rightarrow> True | NeedAssistant used \<Rightarrow> False)"
  show thesis
  proof (cases ?pending)
    case True
    then show thesis using assms t by (intro pending[of "map ne_id (bp_entries pl)"]) (simp add: resume_plan_def Let_def)
  next
    case False
    let ?st = "case (bp_triggerEntryId pl, ck_continuation ck) of
        (Some trigger, _) \<Rightarrow> assistantReadyAtBoundary config stepId state (op_scope current) trigger False
      | (None, NeedAssistant used) \<Rightarrow> assistantReadyAtBoundary config stepId state (op_scope current) (ck_triggerEntryId ck) used
      | (None, MayFinish f) \<Rightarrow> \<lparr>op_scope = operationScopeOf current, op_leaf = Checkpoint ck\<rparr>"
    have "\<exists>ev. d = OperationCommit (po_writes po @ bp_writes pl) ?st (placement_patch (bp_tipId pl) pl)
        (\<lambda>c. CheckpointDone ProcContinue) ev"
      using assms t False by (auto simp: resume_plan_def Let_def)
    then obtain ev where d: "d = OperationCommit (po_writes po @ bp_writes pl) ?st (placement_patch (bp_tipId pl) pl)
        (\<lambda>c. CheckpointDone ProcContinue) ev" ..
    have "(\<exists>trigger used. ?st = assistantReadyAtBoundary config stepId state (op_scope current) trigger used) \<or>
        ?st = \<lparr>op_scope = operationScopeOf current, op_leaf = Checkpoint ck\<rparr>"
      by (cases "bp_triggerEntryId pl"; cases "ck_continuation ck") auto
    then show thesis by (rule resumes[OF t d])
  qed
qed

lemma resume_commits:
  assumes po: "published_outcome_of name runId hookUsageId outcome terminalEndedAt task state (op_state operation) (op_meta operation) = Inr po"
    and pl: "planBoundaryInbox name projectors state scope s (po_tip po) follow = Inr pl"
    and im: "lane_image (value_at s) name state" and op: "la_operation state = Some operation"
  shows "plan_writes name (me_operationId (op_meta operation)) (placement_patch (bp_tipId pl) pl) (po_writes po @ bp_writes pl) (value_at s) \<and>
    write_values (po_writes po @ bp_writes pl) (value_at s) (ns_op_meta, me_operationId (op_meta operation)) = Some (VMeta (op_meta operation))"
proof -
  have nul: "\<not> has_nul name" using im by (simp add: lane_image_def)
  note po_ok = published_writes(1,2)[OF po nul] published_tip[OF po im]
  note pl_ok = placement_commits[where V = "write_values (po_writes po) (value_at s)", OF pl nul po_ok(3)]
  show ?thesis using im op
    by (auto simp: plan_writes_def placement_patch_def po_ok pl_ok lane_image_def Let_def)
qed

lemma finish_commits:
  assumes inv: "storage_inv s"
    and po: "published_outcome_of name runId hookUsageId outcome terminalEndedAt task state (op_state operation) (op_meta operation) = Inr po"
    and im: "lane_image (value_at s) name state" and g: "operation_guard runId operation"
    and cl: "operationCleanupWrites s runId (op_state operation) = Inr cleanup"
    and pt: "pt = no_patch \<and> po_tip po = la_tipId state \<or> pt = no_patch\<lparr>lp_tipId := Some (po_tip po)\<rparr>"
  shows "plan_writes name (me_operationId (op_meta operation)) pt (po_writes po @ cleanup) (value_at s)"
proof -
  have nul: "\<not> has_nul name" using im by (simp add: lane_image_def)
  have tip: "value_at s (ns_branch_tip, name) = Some (VTip (la_tipId state))" using im by (simp add: lane_image_def)
  note po_ok = published_writes(1,2)[OF po nul] published_tip[OF po im]
  note cf = cleanup_frames[OF cleanup_writes[OF inv cl]]
  have i: "me_operationId (op_meta operation) = runId" using g by (simp add: operation_guard_def)
  show ?thesis using pt im tip
    by (auto simp: plan_writes_def no_patch_def po_ok cf lane_ns_def i lane_image_def)
qed

text \<open>What an outcome publishes is either a resumed run or the end of the operation.\<close>

definition outcome_ends ::
  "storage_state \<Rightarrow> jstring \<Rightarrow> operation_state \<Rightarrow> jstring option \<Rightarrow> published_outcome \<Rightarrow> checkpoint_result operation_command \<Rightarrow> bool" where
  "outcome_ends s runId current tip po d \<longleftrightarrow>
     (\<exists>cleanup result m ev pt. d = OperationFinish (po_writes po @ cleanup) result pt m ev \<and>
        operationCleanupWrites s runId current = Inr cleanup \<and>
        (pt = no_patch \<and> po_tip po = tip \<or> pt = no_patch\<lparr>lp_tipId := Some (po_tip po)\<rparr>))"

lemma fail_run_ends:
  assumes "fail_run_plan name runId task failure po now state current meta s = Inr d" and "po_tip po = la_tipId state"
  shows "outcome_ends s runId current (la_tipId state) po d"
  using assms unfolding outcome_ends_def by (auto simp: fail_run_plan_def Let_def split: option.splits)

lemma finish_structural_ends:
  assumes "finish_structural_plan name runId made outcome po now ends state current meta s = Inr d"
    and "made \<or> po_tip po = la_tipId state"
  shows "outcome_ends s runId current (la_tipId state) po d"
  using assms unfolding outcome_ends_def by (auto simp: finish_structural_plan_def)

lemma outcome_shape:
  assumes p: "structural_outcome_plan config name runId stepId hookUsageId outcome now state current meta s = Inr d"
  obtains (resumed) task po t ck declined where "summary_task_of (op_leaf current) = Some task"
      "published_outcome_of name runId hookUsageId outcome t task state current meta = Inr po"
      "st_boundary task = ResumeCheckpoint ck" "resume_plan config name runId stepId ck declined po state current meta s = Inr d"
  | (ended) task po t where "published_outcome_of name runId hookUsageId outcome t task state current meta = Inr po"
      "outcome_ends s runId current (la_tipId state) po d"
proof -
  obtain task where t: "summary_task_of (op_leaf current) = Some task"
    using p by (auto simp: structural_outcome_plan_def task_of_def split: option.splits)
  obtain po where po: "published_outcome_of name runId hookUsageId outcome (if st_boundary task = FinishBoundary then Some now else None)
      task state current meta = Inr po"
    using p t by (auto simp: structural_outcome_plan_def task_of_def)
  have same_tip: "outcome_kind outcome = None \<Longrightarrow> po_tip po = la_tipId state"
    using po by (auto simp: published_outcome_of_def Let_def outcome_writes_def split: structural_outcome.splits)
  show thesis
  proof (cases "st_boundary task")
    case (ResumeCheckpoint ck)
    then have "(\<exists>declined. resume_plan config name runId stepId ck declined po state current meta s = Inr d) \<or>
        (\<exists>failure. fail_run_plan name runId task failure po now state current meta s = Inr d \<and> outcome_kind outcome = None)"
      using p t po by (cases outcome) (auto simp: structural_outcome_plan_def task_of_def split: if_splits)
    then show thesis using resumed[OF t po ResumeCheckpoint] ended[OF po] fail_run_ends same_tip by blast
  next
    case FinishBoundary
    then have "finish_structural_plan name runId (outcome_kind outcome \<noteq> None) outcome po now
        (compaction_ends name runId outcome) state current meta s = Inr d"
      using p t po by (auto simp: structural_outcome_plan_def task_of_def split: if_splits)
    then show thesis using ended[OF po] finish_structural_ends same_tip by blast
  next
    case (CommitNavigation targetId label)
    then have "finish_structural_plan name runId (outcome_kind outcome \<noteq> None) outcome po now
        (navigation_ends name runId outcome (po_tip po)) state current meta s = Inr d"
      using p t po by (auto simp: structural_outcome_plan_def task_of_def split: if_splits)
    then show thesis using ended[OF po] finish_structural_ends same_tip by blast
  qed
qed

interpretation structural_outcome: operation_planner name "operation_guard runId"
  "structural_outcome_plan config name runId stepId hookUsageId outcome now"
  for name runId config stepId hookUsageId outcome now
proof
  fix s state operation ws st pt m ev
  assume im: "lane_image (value_at s) name state" and op: "la_operation state = Some operation"
    and c: "structural_outcome_plan config name runId stepId hookUsageId outcome now state (op_state operation) (op_meta operation) s =
      Inr (OperationCommit ws st pt m ev)"
  from c show "plan_writes name (me_operationId (op_meta operation)) pt ws (value_at s) \<and>
      write_values ws (value_at s) (ns_op_meta, me_operationId (op_meta operation)) = Some (VMeta (op_meta operation)) \<and>
      stateMatchesIntent (me_intent (op_meta operation)) st"
  proof (cases rule: outcome_shape)
    case (resumed task po t ck declined)
    have run: "\<exists>ps. me_intent (op_meta operation) = RunIntent ps"
      using current_matches[OF im op] resumed(1,3)
      by (cases "me_intent (op_meta operation)"; cases "op_leaf (op_state operation)") (auto simp: stateMatchesIntent_def)
    from resumed(4) show ?thesis
    proof (cases rule: resume_shape)
      case (resumes tip follow pl st' ev')
      then have pl: "planBoundaryInbox name (cf_entryProjectors config) state (op_scope (op_state operation)) s (po_tip po) follow = Inr pl"
        by simp
      from resume_commits[OF resumed(2) pl im op] resumes(3,4) run show ?thesis by auto
    qed simp
  qed (simp add: outcome_ends_def)
next
  fix s state operation ws result pt m ev
  assume inv: "storage_inv s" and im: "lane_image (value_at s) name state" and g: "operation_guard runId operation"
    and c: "structural_outcome_plan config name runId stepId hookUsageId outcome now state (op_state operation) (op_meta operation) s =
      Inr (OperationFinish ws result pt m ev)"
  from c show "plan_writes name (me_operationId (op_meta operation)) pt ws (value_at s)"
  proof (cases rule: outcome_shape)
    case (resumed task po t ck declined)
    from resumed(4) show ?thesis by (cases rule: resume_shape) simp_all
  next
    case (ended task po t)
    then obtain cleanup where w: "ws = po_writes po @ cleanup" and cl: "operationCleanupWrites s runId (op_state operation) = Inr cleanup"
      and pt: "pt = no_patch \<and> po_tip po = la_tipId state \<or> pt = no_patch\<lparr>lp_tipId := Some (po_tip po)\<rparr>"
      by (auto simp: outcome_ends_def)
    show ?thesis unfolding w by (rule finish_commits[OF inv ended(1) im g cl pt])
  qed
qed

interpretation commit_navigation: operation_planner name "operation_guard runId" "commit_navigation_plan name runId now"
  for name runId now
proof
  fix s state operation ws result pt m ev
  assume inv: "storage_inv s" and im: "lane_image (value_at s) name state" and g: "operation_guard runId operation"
    and c: "commit_navigation_plan name runId now state (op_state operation) (op_meta operation) s = Inr (OperationFinish ws result pt m ev)"
  from c obtain targetId labels cleanup where w: "ws = [WValueSet ns_branch_tip name (VTip targetId)] @ labels @ cleanup"
    "pt = no_patch\<lparr>lp_tipId := Some targetId\<rparr>" "operationCleanupWrites s runId (op_state operation) = Inr cleanup"
    "labels = [] \<or> (\<exists>k l. \<not> has_nul k \<and> labels = [WValueSet ns_entry_label k (VText l)])" and nul: "\<not> has_nul name"
    by (auto simp: commit_navigation_plan_def branchTip_def entryLabel_def mkValue_eq_Inr setValue_def
        split: operation_leaf.splits option.splits)
  note cf = cleanup_frames[OF cleanup_writes[OF inv w(3)]]
  have i: "me_operationId (op_meta operation) = runId" using g by (simp add: operation_guard_def)
  show "plan_writes name (me_operationId (op_meta operation)) pt ws (value_at s)"
    using w(4) nul im
    by (auto simp: w(1,2) plan_writes_def no_patch_def cf lane_ns_def i lane_image_def slot_defs)
qed (auto simp: commit_navigation_plan_def split: operation_leaf.splits)

end
