(* ===== verification/Reachable.thy ===== *)
theory Reachable
  imports Restart ToolFacts StructuralFacts
begin

text \<open>
  The states a harness can reach: attach to a session, then any sequence of the calls that change it and of
  the modelled drive procedures, in any interleaving. Every step keeps the invariant of \<open>LaneFacts\<close>.
\<close>

section \<open>Steps that write nothing\<close>

lemma session_mutate_read:
  "session_mutate (mutation_read f) se =
     (if se_state se \<noteq> Open then Inl SessionClosed else memory_read f (se_storage se), se)"
  by (simp add: session_mutate_def mutation_read_def mutation_end_def Let_def)

lemma session_mutate_then_return:
  "session_mutate (act_bind (mutation_read f) (\<lambda>x. act_return (g x))) se =
     (if se_state se \<noteq> Open then Inl SessionClosed else ebind (memory_read f (se_storage se)) (\<lambda>x. Inr (g x)), se)"
  by (auto simp: session_mutate_def mutation_read_def mutation_end_def act_bind_def act_return_def Let_def split: sum.split)

lemma readLane_inv: "harness_inv h \<Longrightarrow> harness_inv (snd (readLane name f h))"
  using harness_inv_fault[of h]
  by (auto simp: readLane_def session_mutate_read Let_def split: option.splits sum.splits prod.splits)

text \<open>Replacing a lane object that keeps its state.\<close>

lemma harness_inv_lane_object:
  assumes inv: "harness_inv h" and l: "map_get (ha_lanes h) name = Some l" and s: "ln_state l' = ln_state l"
  shows "harness_inv (h\<lparr>ha_lanes := map_set name l' (ha_lanes h)\<rparr>)"
proof -
  have "harness_inv (h\<lparr>ha_session := ha_session h, ha_lanes := map_set name l' (ha_lanes h), ha_log := ha_log h\<rparr>)"
    by (rule harness_inv_publish[where ws = "[]" and ids = "{}", OF inv])
      (use inv harness_inv_lane[OF inv l] s in \<open>auto simp: harness_inv_def\<close>)
  then show ?thesis by simp
qed

lemma harness_inv_log: "harness_inv (h\<lparr>ha_log := evs\<rparr>) = harness_inv h"
  "harness_inv (h\<lparr>ha_serial := n\<rparr>) = harness_inv h" "harness_inv (h\<lparr>ha_config := c\<rparr>) = harness_inv h"
  "harness_inv (h\<lparr>ha_closed := e\<rparr>) = harness_inv h"
  by (simp_all add: harness_inv_def)

lemma update_lane_inv:
  assumes "harness_inv h" "\<And>l. ln_state (f l) = ln_state l"
  shows "harness_inv (update_lane name f h)"
  using assms harness_inv_lane_object by (auto simp: update_lane_def split: option.splits)

lemma lane_claim_inv:
  assumes inv: "harness_inv h"
    and keeps: "\<And>l s r l'. plan l s = Inr (r, l') \<Longrightarrow> ln_state l' = ln_state l"
  shows "harness_inv (snd (lane_claim name plan h))"
proof -
  have job: "session_mutate (act_bind (mutation_read (plan l)) (\<lambda>(r, l'). act_return (r, l', []))) se =
     (if se_state se \<noteq> Open then Inl SessionClosed
      else ebind (memory_read (plan l) (se_storage se)) (\<lambda>x. Inr (fst x, snd x, [])), se)" for l se
    by (auto simp: session_mutate_def mutation_read_def mutation_end_def act_bind_def act_return_def Let_def
        split: sum.split prod.split)
  show ?thesis
  proof (cases "map_get (ha_lanes h) name")
    case None
    then show ?thesis using inv by (simp add: lane_claim_def run_on_line_def)
  next
    case (Some l)
    let ?p = "memory_read (plan l) (se_storage (ha_session h))"
    show ?thesis
    proof (cases "ln_closed l = None \<and> ln_idle l = None \<and> se_state (ha_session h) = Open")
      case False
      then show ?thesis using inv Some
        by (auto simp: lane_claim_def run_on_line_def job Let_def split: option.splits)
    next
      case True
      show ?thesis
      proof (cases ?p)
        case (Inl e)
        then show ?thesis using inv Some True harness_inv_fault[OF inv]
          by (auto simp: lane_claim_def run_on_line_def job Let_def split: prod.splits)
      next
        case (Inr x)
        then have "ln_state (snd x) = ln_state l"
          by (cases x) (auto simp: memory_read_def intro: keeps split: if_splits)
        from harness_inv_lane_object[OF inv Some this] show ?thesis using Some True Inr
          by (simp add: lane_claim_def run_on_line_def job)
      qed
    qed
  qed
qed

text \<open>The two claims end in the state of their command, up to the next serial number.\<close>

lemma drive_claim_state:
  "snd (drive_claim name aborted options h) = h \<or>
   (\<exists>n. snd (drive_claim name aborted options h) =
      (snd (lane_claim name (drive_claim_plan name aborted options (ha_serial h)) h))\<lparr>ha_serial := n\<rparr>)"
proof -
  obtain out h' where r: "lane_claim name (drive_claim_plan name aborted options (ha_serial h)) h = (out, h')" by fastforce
  let ?n = "if installed out then Suc (ha_serial h') else ha_serial h'"
  have "(if installed out then h'\<lparr>ha_serial := Suc (ha_serial h')\<rparr> else h') = h'\<lparr>ha_serial := ?n\<rparr>" by simp
  then have "snd (drive_claim name aborted options h) = h \<or> snd (drive_claim name aborted options h) = h'\<lparr>ha_serial := ?n\<rparr>"
    by (simp add: drive_claim_def when_open_def r split: option.split)
  then show ?thesis unfolding r by auto
qed

lemma idle_claim_state:
  "\<exists>n. snd (idle_claim name h) = (snd (lane_claim name (idle_claim_plan (ha_serial h)) h))\<lparr>ha_serial := n\<rparr>"
proof -
  obtain out h' where r: "lane_claim name (idle_claim_plan (ha_serial h)) h = (out, h')" by fastforce
  have "(case out of Returned (Some owner) \<Rightarrow> h'\<lparr>ha_serial := Suc (ha_serial h')\<rparr> | _ \<Rightarrow> h') =
      h'\<lparr>ha_serial := case out of Returned (Some owner) \<Rightarrow> Suc (ha_serial h') | _ \<Rightarrow> ha_serial h'\<rparr>"
    by (simp split: outcome.split option.split)
  then show ?thesis by (auto simp: idle_claim_def r)
qed

lemma drive_claim_inv: "harness_inv h \<Longrightarrow> harness_inv (snd (drive_claim name aborted options h))"
proof -
  assume inv: "harness_inv h"
  have "harness_inv (snd (lane_claim name (drive_claim_plan name aborted options (ha_serial h)) h))"
    by (rule lane_claim_inv[OF inv])
      (auto simp: drive_claim_plan_def Let_def ebind_eq_Inr_iff split: option.splits if_splits)
  then show ?thesis using inv drive_claim_state[of name aborted options h] by (auto simp: harness_inv_log)
qed

lemma idle_claim_inv: "harness_inv h \<Longrightarrow> harness_inv (snd (idle_claim name h))"
proof -
  assume inv: "harness_inv h"
  have "harness_inv (snd (lane_claim name (idle_claim_plan (ha_serial h)) h))"
    by (rule lane_claim_inv[OF inv]) (auto simp: idle_claim_plan_def split: if_splits)
  then show ?thesis using idle_claim_state[of name h] by (auto simp: harness_inv_log)
qed

lemma drive_failed_inv: "harness_inv h \<Longrightarrow> harness_inv (snd (drive_failed name serial h))"
  using harness_inv_fault[of h]
  by (auto simp: drive_failed_def Let_def clear_drive_def intro!: update_lane_inv split: option.splits prod.splits)

lemma harness_close_inv: "harness_inv h \<Longrightarrow> harness_inv (harness_close h)"
proof -
  assume inv: "harness_inv h"
  note sealed = harness_inv_seal[OF inv, of HarnessWasClosed]
  have "harness_inv (h\<lparr>ha_closed := e, ha_lanes := seal_lanes HarnessWasClosed (ha_lanes h),
        ha_session := session_close (ha_session h)\<rparr>)" for e
    using sealed by (auto simp: harness_inv_def session_close_def memory_close_def)
  then show ?thesis using inv by (simp add: harness_close_def)
qed

section \<open>Calls of the harness\<close>

text \<open>The writes of a call that does not touch a lane.\<close>

lemma harness_call_value:
  assumes inv: "harness_inv h"
    and w: "\<And>w. mw = Inr w \<Longrightarrow> addressed w \<and> (\<forall>V ns k. lane_ns ns \<or> operation_ns ns \<longrightarrow> write_value w V (ns, k) = V (ns, k))"
    and k: "\<And>c h'. harness_inv h' \<Longrightarrow> harness_inv (snd (k c h'))"
  shows "harness_inv (snd (harness_call (value_job mw now) h k))"
proof -
  let ?ms = "se_storage (ha_session h)"
  have refl: "(ha_session h)\<lparr>se_storage := ?ms\<rparr> = ha_session h" "h\<lparr>ha_session := ha_session h\<rparr> = h" by simp_all
  have fault: "harness_inv (snd (harness_fault h))" by (rule harness_inv_fault[OF inv])
  note defs = harness_call_def session_mutate_def value_job_def act_bind_def act_lift_def mutation_commit_def
    memory_commit_def mutation_end_def Let_def
  show ?thesis
  proof (cases "ha_faulted h = None \<and> ha_closed h = None \<and> se_state (ha_session h) = Open")
    case False
    then show ?thesis using inv fault by (auto simp: defs refl split: option.splits prod.splits)
  next
    case True
    then have ms: "ms_state ?ms = Open" using inv by (simp add: harness_inv_def)
    show ?thesis
    proof (cases mw)
      case (Inl e)
      then show ?thesis using True fault by (auto simp: defs refl split: prod.splits)
    next
      case (Inr w)
      show ?thesis
      proof (cases "is_pending_write w")
        case pending: True
        then show ?thesis using True Inr fault ms by (auto simp: defs refl split: prod.splits)
      next
        case settled: False
        obtain d r where c: "commitStorage [w] now (ms_data ?ms) = (d, r)" by fastforce
        have sinv: "storage_inv (ms_data ?ms)" using inv by (simp add: harness_inv_def)
        have ad: "list_all addressed [w]" using assms(2)[OF Inr] by simp
        show ?thesis
        proof (cases r)
          case (Inl e)
          then have "d = ms_data ?ms" using commitStorage_addressed[OF ad, of now "ms_data ?ms"] c by auto
          then have "h\<lparr>ha_session := (ha_session h)\<lparr>se_storage := ?ms\<lparr>ms_data := d\<rparr>\<rparr>\<rparr> = h" by simp
          then show ?thesis using True \<open>mw = Inr w\<close> settled c Inl fault ms
            by (auto simp: defs split: prod.splits)
        next
          case (Inr cr)
          have "value_at d = write_values [w] (value_at (ms_data ?ms))"
            using commitStorage_values[OF sinv ad] c Inr by simp
          moreover have "storage_inv d" using commitStorage_inv[OF sinv, of "[w]" now] c Inr by simp
          ultimately have "harness_inv (h\<lparr>ha_session := (ha_session h)\<lparr>se_storage := ?ms\<lparr>ms_data := d\<rparr>\<rparr>\<rparr>)"
            using assms(2)[OF \<open>mw = Inr w\<close>] by (intro harness_inv_unrelated[OF inv, of d]) auto
          from k[OF this] show ?thesis using True \<open>mw = Inr w\<close> settled c Inr ms by (simp add: defs)
        qed
      qed
    qed
  qed
qed

lemma harness_setName_inv: "harness_inv h \<Longrightarrow> harness_inv (snd (harness_setName name now h))"
  unfolding harness_setName_def
  by (erule harness_call_value)
    (auto simp: sessionName_def mkValue_eq_Inr setValue_def deleteValue_def validateAddress_def lane_ns_def operation_ns_def
      harness_inv_log split: option.splits)

lemma harness_setLabel_inv: "harness_inv h \<Longrightarrow> harness_inv (snd (harness_setLabel targetId label now h))"
  unfolding harness_setLabel_def
  by (erule harness_call_value)
    (auto simp: entryLabel_def mkValue_eq_Inr setValue_def deleteValue_def validateAddress_def lane_ns_def operation_ns_def
      harness_inv_log split: option.splits)

lemma setConfig_inv: "harness_inv h \<Longrightarrow> harness_inv (snd (setConfig update event h))"
  by (auto simp: setConfig_def harness_inv_log split: option.splits)

section \<open>Acquiring a lane\<close>

lemma attach_lane_commits:
  assumes a: "attach_lane seed name absent tipId = Inr (AttachedLane state ws)"
    and t: "\<not> absent \<Longrightarrow> V (ns_branch_tip, name) = Some (VTip tipId)"
  shows "list_all addressed ws \<and> list_all (own_write name {}) ws \<and> lane_image (write_values ws V) name state"
  using a t
  by (auto simp: attach_lane_def slot_defs lane_image_def attached_state_def current_operation_id_def split: if_splits)

lemma lane_attachment_commits:
  assumes "lane_attachment seed name createAt s = Inr (AttachedLane state ws)"
  shows "list_all addressed ws \<and> list_all (own_write name {}) ws \<and> lane_image (write_values ws (value_at s)) name state"
proof -
  from assms obtain c where c: "readLaneStorage s name = Inr c"
    unfolding lane_attachment_def by (rule ebind_Inr_E)
  note attached = assms[unfolded lane_attachment_def c ebind_simps]
  show ?thesis
  proof (cases c)
    case LaneAbsent
    then have "\<exists>tipId. attach_lane seed name True tipId = Inr (AttachedLane state ws)"
      using attached by (auto split: option.splits if_splits)
    then show ?thesis using attach_lane_commits by blast
  next
    case (LaneBranch tip)
    then have "value_at s (ns_branch_tip, name) = Some (VTip tip)"
      using c by (auto simp: readLaneStorage_def branchTip_def laneConfig_def laneState_def read_slots typed_reads
          classifyLaneStorage_def split: option.splits if_splits)
    then show ?thesis using attached LaneBranch attach_lane_commits by simp
  qed (use attached in auto)
qed

lemma lane_attachment_restores:
  assumes "lane_attachment seed name createAt s = Inr (RestoredLane state)"
  shows "lane_image (value_at s) name state"
proof -
  from assms obtain t cfg d where "readLaneStorage s name = Inr (LaneComplete t cfg d)" "restoreLaneState s name t cfg d = Inr state"
    unfolding lane_attachment_def attach_lane_def by (auto split: classified_lane.splits option.splits if_splits)
  then show ?thesis unfolding restoreLane_iff[symmetric] by (simp add: restoreLane_def)
qed

lemma acquire_lane_inv:
  assumes inv: "harness_inv h"
  shows "harness_inv (snd (acquire_lane name createAt now h))"
proof -
  let ?ms = "se_storage (ha_session h)"
  have refl: "(ha_session h)\<lparr>se_storage := ?ms\<rparr> = ha_session h" "h\<lparr>ha_session := ha_session h\<rparr> = h" by simp_all
  have fault: "harness_inv (snd (harness_fault h))" by (rule harness_inv_fault[OF inv])
  have sinv: "storage_inv (ms_data ?ms)" using inv by (simp add: harness_inv_def)
  note defs = acquire_lane_def harness_call_def session_mutate_def acquire_job_def act_bind_def act_return_def
    mutation_read_def memory_read_def mutation_commit_def memory_commit_def mutation_end_def Let_def
  show ?thesis
  proof (cases "ha_faulted h = None \<and> ha_closed h = None \<and> invalid_lane_name name = None \<and>
      se_state (ha_session h) = Open \<and> \<not> map_has (ha_lanes h) name")
    case False
    then show ?thesis using inv fault by (auto simp: defs refl split: option.splits prod.splits)
  next
    case True
    then have ms: "ms_state ?ms = Open" using inv by (simp add: harness_inv_def)
    show ?thesis
    proof (cases "lane_attachment (ha_seed h) name createAt (ms_data ?ms)")
      case (Inl e)
      then show ?thesis using True fault ms by (auto simp: defs refl split: prod.splits)
    next
      case (Inr att)
      show ?thesis
      proof (cases att)
        case (MissingTarget t)
        then show ?thesis using True Inr inv ms by (simp add: defs refl)
      next
        case (RestoredLane state)
        then have im: "lane_image (value_at (ms_data ?ms)) name state" using Inr lane_attachment_restores by blast
        have "harness_inv (h\<lparr>ha_session := ha_session h, ha_lanes := map_set name (new_lane name state) (ha_lanes h), ha_log := evs\<rparr>)" for evs
          by (rule harness_inv_publish[where ws = "[]" and ids = "{}", OF inv sinv]) (use im in \<open>auto simp: new_lane_def\<close>)
        from this[of "ha_log h"] show ?thesis using True Inr RestoredLane ms by (simp add: defs refl)
      next
        case (AttachedLane state ws)
        note ok = lane_attachment_commits[OF Inr[unfolded AttachedLane]]
        show ?thesis
        proof (cases "list_ex is_pending_write ws")
          case pending: True
          then show ?thesis using True Inr AttachedLane fault ms by (auto simp: defs refl split: prod.splits)
        next
          case settled: False
          obtain d r where c: "commitStorage ws now (ms_data ?ms) = (d, r)" by fastforce
          show ?thesis
          proof (cases r)
            case (Inl e)
            then have "d = ms_data ?ms" using commitStorage_addressed[of ws now "ms_data ?ms"] ok c by auto
            then have "h\<lparr>ha_session := (ha_session h)\<lparr>se_storage := ?ms\<lparr>ms_data := d\<rparr>\<rparr>\<rparr> = h" by simp
            then show ?thesis using True \<open>lane_attachment (ha_seed h) name createAt (ms_data ?ms) = Inr att\<close> AttachedLane settled c Inl fault ms
              by (auto simp: defs split: prod.splits)
          next
            case (Inr cr)
            have dv: "value_at d = write_values ws (value_at (ms_data ?ms))"
              using commitStorage_values[OF sinv _, of ws now d cr] ok c Inr by simp
            have dinv: "storage_inv d" using commitStorage_inv[OF sinv, of ws now] c Inr by simp
            have "harness_inv (h\<lparr>ha_session := (ha_session h)\<lparr>se_storage := ?ms\<lparr>ms_data := d\<rparr>\<rparr>,
                ha_lanes := map_set name (new_lane name state) (ha_lanes h), ha_log := evs\<rparr>)" for evs
              by (rule harness_inv_publish[where ws = ws and ids = "{}", OF inv dinv dv]) (use ok dv in \<open>auto simp: new_lane_def\<close>)
            then show ?thesis using True \<open>lane_attachment (ha_seed h) name createAt (ms_data ?ms) = Inr att\<close> AttachedLane settled c Inr ms
              by (simp add: defs)
          qed
        qed
      qed
    qed
  qed
qed

section \<open>Calls of a lane\<close>

lemma when_open_inv: "harness_inv h \<Longrightarrow> (harness_inv (snd body)) \<Longrightarrow> harness_inv (snd (when_open name h body))"
  by (simp add: when_open_def split: option.split)

definition fresh_operation :: "jstring \<Rightarrow> jstring \<Rightarrow> harness \<Rightarrow> bool" where
  "fresh_operation name operationId h \<longleftrightarrow>
     list_all (\<lambda>(m, l). m = name \<or> current_operation_id (ln_state l) \<noteq> Some operationId) (ha_lanes h)"

lemma fresh_operation_free:
  "fresh_operation name i h \<Longrightarrow> (m, l) \<in> set (ha_lanes h) \<Longrightarrow> m \<noteq> name \<Longrightarrow>
   set_option (current_operation_id (ln_state l)) \<inter> {i} = {}"
  by (auto simp: fresh_operation_def list_all_iff)

lemma accept_inv:
  assumes inv: "harness_inv h" and fresh: "fresh_operation name operationId h"
  shows "harness_inv (snd (accept prepare prepareBranch name request operationId startedAt ids now observed h))"
proof -
  note free = fresh_operation_free[OF fresh]
  have run: "harness_inv (snd (acceptRun name req operationId startedAt (ha_config h) ids now h))" for req
    using run_plan.keeps[OF inv free] inv by (auto simp: acceptRun_def Let_def split: sum.splits if_splits)
  have comp: "harness_inv (snd (lane_command name
      (acceptCompaction_plan prepare name operationId startedAt (ha_config h) ci (hd ids)) now h))" for ci
    by (rule compaction_plan.keeps[OF inv free])
  have nav: "harness_inv (snd (acceptNavigation_turn prepareBranch name targetId options operationId startedAt
      (ha_config h) (hd ids) now observed h))" for targetId options
    using navigation_plan.keeps[OF inv free] inv by (auto simp: acceptNavigation_turn_def Let_def split: sum.splits)
  have retry: "snd (retry_or x) = snd x" for x :: "'a option outcome \<times> harness"
    by (cases x rule: retry_or.cases) simp_all
  show ?thesis unfolding accept_def
    by (rule when_open_inv[OF inv]) (auto simp: retry comp nav run split: operation_request.split)
qed

lemma lane_calls_inv:
  assumes inv: "harness_inv h"
  shows "harness_inv (snd (enqueue name kind input images timestamp entryId now h))"
    "harness_inv (snd (cancelQueued name entryId now h))"
    "harness_inv (snd (lane_append name pending newId now h))"
    "harness_inv (snd (requestOperationAbort name operationId requestedAt now h))"
    "harness_inv (snd (recordUsage name u usageEntry details usageId now h))"
    "harness_inv (snd (setModel name m now h))"
    "harness_inv (snd (setThinkingLevel name level now h))"
    "harness_inv (snd (setActiveTools name names now h))"
proof -
  show "harness_inv (snd (enqueue name kind input images timestamp entryId now h))"
    unfolding enqueue_def by (rule when_open_inv[OF inv]) (auto intro: enqueue_plan.keeps[OF inv] inv split: sum.split)
  show "harness_inv (snd (cancelQueued name entryId now h))"
    unfolding cancelQueued_def by (rule when_open_inv[OF inv]) (auto intro: cancel_plan.keeps[OF inv])
  show "harness_inv (snd (lane_append name pending newId now h))"
    using append_plan.keeps[OF inv] inv by (auto simp: lane_append_def split: option.split)
  show "harness_inv (snd (requestOperationAbort name operationId requestedAt now h))"
    unfolding requestOperationAbort_def by (rule when_open_inv[OF inv]) (auto intro: abort_plan.keeps[OF inv])
  show "harness_inv (snd (recordUsage name u usageEntry details usageId now h))"
    unfolding recordUsage_def by (rule when_open_inv[OF inv]) (auto intro: usage_plan.keeps[OF inv])
  show "harness_inv (snd (setModel name m now h))" "harness_inv (snd (setThinkingLevel name level now h))"
    "harness_inv (snd (setActiveTools name names now h))"
    unfolding setModel_def setThinkingLevel_def setActiveTools_def by (auto intro: configuration_plan.keeps[OF inv])
qed

section \<open>Drive procedures\<close>

text \<open>The operation a drive of \<open>runId\<close> works on: \<open>driveOperation\<close> checks it before every procedure.\<close>

definition drives_run :: "jstring \<Rightarrow> jstring \<Rightarrow> harness \<Rightarrow> bool" where
  "drives_run name runId h \<longleftrightarrow>
     (case map_get (ha_lanes h) name of
        None \<Rightarrow> False
      | Some l \<Rightarrow> (case la_operation (ln_state l) of None \<Rightarrow> False | Some operation \<Rightarrow> run_guard runId operation))"

lemma drives_run_ready:
  "drives_run name runId h \<Longrightarrow> map_get (ha_lanes h) name = Some l \<Longrightarrow>
   pred_option (run_guard runId) (la_operation (ln_state l))"
  by (auto simp: drives_run_def split: option.splits)

lemma continue_or_state: "snd (continue_or r x) = snd x"
  by (cases x) (auto simp: continue_or_def split: outcome.splits continue_result.splits)

lemma procedures_inv:
  assumes inv: "harness_inv h"
  shows "harness_inv (snd (startRun_prompt name now h))"
    "harness_inv (snd (finishRunBoundary_context name now h))"
    "drives_run name runId h \<Longrightarrow> harness_inv (snd (startRun_commit name runId injected now h))"
    "drives_run name runId h \<Longrightarrow> harness_inv (snd (runCheckpoint_plan name runId stepId threshold now h))"
    "drives_run name runId h \<Longrightarrow>
       harness_inv (snd (finishRunBoundary_commit name runId stepId includeFinal planned follow pendingEvents now h))"
proof -
  have any: "pred_option (\<lambda>op. True) x" for x :: "operation option" by (cases x) simp_all
  show "harness_inv (snd (startRun_prompt name now h))"
    unfolding startRun_prompt_def by (rule start_prompt.continue_keeps[OF inv any])
  show "harness_inv (snd (finishRunBoundary_context name now h))"
    unfolding finishRunBoundary_context_def by (rule finish_context.continue_keeps[OF inv any])
  show "drives_run name runId h \<Longrightarrow> harness_inv (snd (startRun_commit name runId injected now h))"
    using start_run.continue_keeps[OF inv] drives_run_ready inv
    by (auto simp: startRun_commit_def continue_or_state split: sum.split)
  show "drives_run name runId h \<Longrightarrow> harness_inv (snd (runCheckpoint_plan name runId stepId threshold now h))"
    unfolding runCheckpoint_plan_def continue_or_state by (rule checkpoint.continue_keeps[OF inv]) (rule drives_run_ready)
  show "drives_run name runId h \<Longrightarrow>
       harness_inv (snd (finishRunBoundary_commit name runId stepId includeFinal planned follow pendingEvents now h))"
    unfolding finishRunBoundary_commit_def continue_or_state
    by (rule finish_boundary.continue_keeps[OF inv]) (rule drives_run_ready)
qed

text \<open>The procedures that end an operation of any kind.\<close>

definition drives_operation :: "jstring \<Rightarrow> jstring \<Rightarrow> harness \<Rightarrow> bool" where
  "drives_operation name runId h \<longleftrightarrow>
     (case map_get (ha_lanes h) name of
        None \<Rightarrow> False
      | Some l \<Rightarrow> (case la_operation (ln_state l) of None \<Rightarrow> False | Some operation \<Rightarrow> operation_guard runId operation))"

lemma drives_operation_ready:
  "drives_operation name runId h \<Longrightarrow> map_get (ha_lanes h) name = Some l \<Longrightarrow>
   pred_option (operation_guard runId) (la_operation (ln_state l))"
  by (auto simp: drives_operation_def split: option.splits)

lemma drives_run_operation: "drives_run name runId h \<Longrightarrow> drives_operation name runId h"
  by (auto simp: drives_run_def drives_operation_def run_is_operation split: option.splits)

text \<open>A command that returned without a commit leaves the lanes as they were.\<close>

lemma read_returned:
  assumes inv: "harness_inv h"
    and run: "continueOperation name plan now h = (Returned x, h')"
    and reads: "\<And>state current meta s d. plan state current meta s = Inr d \<Longrightarrow> \<exists>r. d = OperationReturn r"
  shows "map_get (ha_lanes h') = map_get (ha_lanes h)"
proof -
  have p: "\<exists>r. decision = CommandReturn r" if h: "settle_plan name (continue_plan plan) state s = Inr decision" for state s decision
  proof -
    obtain operation where op: "la_operation state = Some operation"
      using h by (cases "la_operation state") (simp_all add: settle_plan_def)
    obtain d where d: "continue_plan plan state (op_state operation) (op_meta operation) s = Inr d"
        "settle_decision name state (op_meta operation) d = Inr decision"
      using h by (auto simp: settle_plan_def op)
    have "\<exists>r. d = OperationReturn r"
      using d(1) by (auto simp: continue_plan_def dest!: reads split: control.splits)
    then show ?thesis using d(2) by (auto simp: settle_decision_def)
  qed
  show ?thesis
  proof (cases "map_get (ha_lanes h) name")
    case None
    then show ?thesis using run by (simp add: continueOperation_def settleOperation_def lane_command_def run_on_line_def)
  next
    case (Some l)
    note cmd = run[unfolded continueOperation_def settleOperation_def]
    show ?thesis
    proof (cases rule: lane_command_cases[OF Some inv cmd])
      case 3
      then show ?thesis using Some by (auto simp: update_conv')
    qed (use p in \<open>fastforce split: prod.splits\<close>)+
  qed
qed

lemma publishConfigurationFailure_inv:
  assumes "harness_inv h" "drives_operation name runId h"
  shows "harness_inv (snd (publishConfigurationFailure name runId err now h))"
  unfolding publishConfigurationFailure_def continue_or_state
  by (rule failed_run.continue_keeps[OF assms(1)]) (rule drives_operation_ready[OF assms(2)])

lemma publishResponse_inv:
  assumes "harness_inv h" "drives_run name runId h"
  shows "harness_inv (snd (publishResponse name runId intent m recovery prepare resultId now h))"
  using response.settle_keeps[OF assms(1) drives_run_ready[OF assms(2)]] assms(1)
  by (auto simp: publishResponse_def Let_def split: option.split)

lemma drives_run_log [simp]: "drives_run name runId (h\<lparr>ha_log := evs\<rparr>) = drives_run name runId h"
  by (simp add: drives_run_def)

lemma request_inv:
  assumes inv: "harness_inv h" and d: "drives_run name runId h"
  shows "harness_inv (snd (runGeneration_prepare catalogue tools name runId g now h))"
    "harness_inv (snd (runGeneration_intent name runId g nextAttempt responseEntryId usageId limits now h))"
    "harness_inv (snd (runRetryWait name runId g w waitForRetry now h))"
    "harness_inv (snd (recover_settle parse name runId intent frames prepare resultId now h))"
    "harness_inv (snd (pollDeferred_prepare catalogue name runId ds orphan permits now h))"
    "harness_inv (snd (pollDeferred_intent name runId serial ds orphan poll responseEntryId usageId now h))"
proof -
  have any: "pred_option (\<lambda>op. True) x" for x :: "operation option" by (cases x) simp_all
  note op = drives_run_operation[OF d]
  have context_read: "harness_inv (snd (continueOperation name (finish_context_plan projectors) now h))" for projectors
    by (rule finish_context.continue_keeps[OF inv any])
  show "harness_inv (snd (runGeneration_prepare catalogue tools name runId g now h))"
  proof (cases "prepareGeneration catalogue tools name g now h")
    case (Pair out h')
    have inv': "harness_inv h'"
      using inv context_read[of "cf_entryProjectors (ha_config h)"] Pair
      by (auto simp: prepareGeneration_def Let_def split: option.splits prod.splits outcome.splits continue_result.splits if_splits)
    have "h' = h" if "out = Returned (ConfigurationFailure e)" for e
      using Pair that
      by (auto simp: prepareGeneration_def Let_def split: option.splits prod.splits outcome.splits continue_result.splits if_splits)
    then show ?thesis
      using inv' publishConfigurationFailure_inv[OF inv op] Pair
      by (auto simp: runGeneration_prepare_def case_prod_unfold Let_def split: outcome.splits generation_preparation.splits)
  qed
  show "harness_inv (snd (runGeneration_intent name runId g nextAttempt responseEntryId usageId limits now h))"
  proof -
    have "harness_inv (snd (publishGenerationIntent name runId g nextAttempt responseEntryId usageId limits now h))"
      unfolding publishGenerationIntent_def by (rule generation_intent.continue_keeps[OF inv drives_run_ready[OF d]])
    then show ?thesis by (auto simp: runGeneration_intent_def split: prod.splits outcome.splits continue_result.splits)
  qed
  show "harness_inv (snd (runRetryWait name runId g w waitForRetry now h))"
    using retry_wait.continue_keeps[OF inv drives_run_ready[OF d]] inv
    by (simp add: runRetryWait_def continue_or_state)
  show "harness_inv (snd (recover_settle parse name runId intent frames prepare resultId now h))"
    using inv d by (auto simp: recover_settle_def publishResponse_inv harness_inv_log split: option.splits sum.splits)
  have source: "harness_inv (snd (continueOperation name (source_handle_plan ds) now h))"
    by (rule source_handle.continue_keeps[OF inv any])
  show "harness_inv (snd (pollDeferred_prepare catalogue name runId ds orphan permits now h))"
  proof (cases "prepareDeferredPoll catalogue name ds orphan permits now h")
    case (Pair out h')
    have inv': "harness_inv h'"
      using source Pair by (auto simp: prepareDeferredPoll_def split: prod.splits outcome.splits continue_result.splits)
    have "map_get (ha_lanes h') = map_get (ha_lanes h)" if "out = Returned PollConfigurationFailure"
      using Pair that read_returned[OF inv, of name "source_handle_plan ds" now]
      by (fastforce simp: prepareDeferredPoll_def source_handle_plan_def split: prod.splits outcome.splits continue_result.splits)
    then have "out = Returned PollConfigurationFailure \<Longrightarrow> drives_operation name runId h'"
      using op by (simp add: drives_operation_def)
    then show ?thesis
      using inv' publishConfigurationFailure_inv[OF inv'] Pair
      by (auto simp: pollDeferred_prepare_def case_prod_unfold Let_def split: outcome.splits deferred_preparation.splits)
  qed
  show "harness_inv (snd (pollDeferred_intent name runId serial ds orphan poll responseEntryId usageId now h))"
  proof -
    have "harness_inv (snd (continueOperation name (poll_intent_plan name runId ds orphan poll responseEntryId usageId (orphan \<noteq> None)) now h))"
      by (rule poll_intent.continue_keeps[OF inv drives_run_ready[OF d]])
    then show ?thesis
      by (auto simp: pollDeferred_intent_def publishPollIntent_def case_prod_unfold Let_def update_lane_inv spend_permit_def
          split: outcome.splits continue_result.splits)
  qed
qed

lemma settlement_inv:
  assumes inv: "harness_inv h"
  shows "harness_inv (snd (recoverAssistantGeneration_read name runId responseEntryId now h))"
    "harness_inv (snd (recoverCancelledAssistantEffect_read name runId responseEntryId now h))"
    "harness_inv (snd (readDeferredHandle name ds now h))"
    "drives_operation name runId h \<Longrightarrow> harness_inv (snd (publishAbortedTerminal name runId now h))"
proof -
  have any: "pred_option (\<lambda>op. True) x" for x :: "operation option" by (cases x) simp_all
  show "harness_inv (snd (recoverAssistantGeneration_read name runId responseEntryId now h))"
    unfolding recoverAssistantGeneration_read_def by (rule frames_read.continue_keeps[OF inv any])
  show "harness_inv (snd (recoverCancelledAssistantEffect_read name runId responseEntryId now h))"
    unfolding recoverCancelledAssistantEffect_read_def by (rule frames_read.settle_keeps[OF inv any])
  show "harness_inv (snd (readDeferredHandle name ds now h))"
    unfolding readDeferredHandle_def by (rule source_handle.settle_keeps[OF inv any])
  show "drives_operation name runId h \<Longrightarrow> harness_inv (snd (publishAbortedTerminal name runId now h))"
    unfolding publishAbortedTerminal_def by (rule aborted_terminal.settle_keeps[OF inv]) (rule drives_operation_ready)
qed

text \<open>The commands of a tool batch.\<close>

lemma tools_inv:
  assumes inv: "harness_inv h"
  shows "harness_inv (snd (runTools_begin name runId batch now h))"
    "harness_inv (snd (materialize_read name runId sources recovery now h))"
    "harness_inv (snd (recoverToolInvocation name runId batch sources call tools cancelled now h))"
    "harness_inv (snd (getMemo active name runId call memo now h))"
    "harness_inv (snd (setMemo active name runId call memo v now h))"
    "drives_run name runId h \<Longrightarrow> harness_inv (snd (materialize_commit name runId turnId sources recovery read usageId now h))"
    "drives_run name runId h \<Longrightarrow> harness_inv (snd (startToolInvocation_intent name runId call cleared recovery now h))"
    "drives_run name runId h \<Longrightarrow> harness_inv (snd (publishToolOutcome name runId call finalized recovery now h))"
proof -
  show "harness_inv (snd (runTools_begin name runId batch now h))"
    using inv by (auto simp: runTools_begin_def readToolBatchSource_def harness_inv_log intro!: tool_source.keeps)
  have "harness_inv (snd (readPlacement name sources now h))"
    unfolding readPlacement_def by (rule placement_read.keeps[OF inv]) simp
  then show "harness_inv (snd (materialize_read name runId sources recovery now h))"
    by (auto simp: materialize_read_def case_prod_unfold harness_inv_log split: prod.splits outcome.splits option.splits)
  have "harness_inv (snd (clearReplayCheckpoint name runId batch call toolCall now h))" for toolCall
    unfolding clearReplayCheckpoint_def by (rule replay.keeps[OF inv]) simp
  moreover have "harness_inv (snd (readCheckpoint name runId call now h))"
    unfolding readCheckpoint_def by (rule checkpoint_reading.keeps[OF inv]) simp
  ultimately show "harness_inv (snd (recoverToolInvocation name runId batch sources call tools cancelled now h))"
    using inv by (simp add: recoverToolInvocation_def case_prod_unfold Let_def split: sum.split option.split)
  show "harness_inv (snd (getMemo active name runId call memo now h))"
    using inv get_memo.keeps[OF inv] by (simp add: getMemo_def split: sum.split)
  show "harness_inv (snd (setMemo active name runId call memo v now h))"
    using inv memo.keeps[OF inv] by (simp add: setMemo_def split: sum.split)
  assume d: "drives_run name runId h"
  have "harness_inv (snd (commitPlacement name runId turnId read usageIds now h))" for usageIds
    unfolding commitPlacement_def by (rule placement.settle_keeps[OF inv drives_run_ready[OF d]])
  then show "harness_inv (snd (materialize_commit name runId turnId sources recovery read usageId now h))"
    by (simp add: materialize_commit_def case_prod_unfold Let_def harness_inv_log split: outcome.split bool.split option.split)
  have "harness_inv (snd (publishToolIntent name runId call toolCall args rp recovery now h))" for toolCall args rp
    unfolding publishToolIntent_def by (rule tool_intent.continue_keeps[OF inv drives_run_ready[OF d]])
  then show "harness_inv (snd (startToolInvocation_intent name runId call cleared recovery now h))"
    by (simp add: startToolInvocation_intent_def case_prod_unfold split: outcome.split continue_result.split)
  show "harness_inv (snd (publishToolOutcome name runId call finalized recovery now h))"
    unfolding publishToolOutcome_def by (rule tool_outcome.settle_keeps[OF inv drives_run_ready[OF d]])
qed

text \<open>The commands of a summary. A retry is made of the leaf the pass holds, so the operation is still at its task.\<close>

definition drives_task :: "jstring \<Rightarrow> jstring \<Rightarrow> summary_task \<Rightarrow> harness \<Rightarrow> bool" where
  "drives_task name runId task h \<longleftrightarrow>
     (case map_get (ha_lanes h) name of
        None \<Rightarrow> False
      | Some l \<Rightarrow> (case la_operation (ln_state l) of None \<Rightarrow> False | Some operation \<Rightarrow> task_guard runId task operation))"

lemma drives_task_ready:
  "drives_task name runId task h \<Longrightarrow> map_get (ha_lanes h) name = Some l \<Longrightarrow>
   pred_option (task_guard runId task) (la_operation (ln_state l))"
  by (auto simp: drives_task_def split: option.splits)

lemma drives_task_operation: "drives_task name runId task h \<Longrightarrow> drives_operation name runId h"
  by (auto simp: drives_task_def drives_operation_def task_guard_def operation_guard_def split: option.splits)

lemma map_outcome_cases: "snd (case x of (out, h') \<Rightarrow> (map_outcome f out, h')) = snd x"
  by (simp add: case_prod_unfold)

lemma publishStructuralOutcome_inv:
  assumes "harness_inv h" "drives_operation name runId h"
  shows "harness_inv (snd (publishStructuralOutcome name runId stepId usageId outcome now h))"
  unfolding publishStructuralOutcome_def continue_or_state
  by (rule structural_outcome.continue_keeps[OF assms(1)]) (rule drives_operation_ready[OF assms(2)])

lemma summary_retry_inv:
  assumes "harness_inv h" "drives_task name runId task h"
  shows "harness_inv (snd (continueOperation name
    (structural_retry_plan name runId recovery task ctx attempt msg now scope) now h))"
  by (rule structural_retry.continue_keeps[OF assms(1)]) (rule drives_task_ready[OF assms(2)])

lemma structural_inv:
  assumes inv: "harness_inv h"
  shows "harness_inv (snd (runStructuralDecision_read name runId now h))"
    "harness_inv (snd (runStructuralGeneration_intent name now h))"
    "harness_inv (snd (publishNestedRequestIntent name index usageId now h))"
    "harness_inv (snd (publishNestedRequestOutcome name usageId u now h))"
    "harness_inv (snd (runStructuralRetryWait name runId w waitForRetry now h))"
    "harness_inv (snd (prepareCompactionThreshold prepare catalogue name identity settings ck taskId now h))"
    "harness_inv (snd (prepareOverflowCompaction prepare name g settings taskId now h))"
    "drives_operation name runId h \<Longrightarrow>
       harness_inv (snd (runStructuralDecision_publish name runId stepId resultEntryId usageId hook now h))"
    "drives_operation name runId h \<Longrightarrow>
       harness_inv (snd (runStructuralGeneration_prepare catalogue name runId stepId usageId ctx now h))"
    "drives_task name runId task h \<Longrightarrow>
       harness_inv (snd (publishAttemptResult name runId stepId usageId task ctx attempt scope result now h))"
    "drives_task name runId task h \<Longrightarrow>
       harness_inv (snd (recoverStructuralGeneration name runId stepId usageId task ctx attempt scope now h))"
    "drives_run name runId h \<Longrightarrow>
       harness_inv (snd (finish_after_declined name runId stepId task planned follow declinedAt now h))"
    "drives_operation name runId h \<Longrightarrow> harness_inv (snd (commitNavigation name runId now h))"
proof -
  have any: "pred_option (\<lambda>op. True) x" for x :: "operation option" by (cases x) simp_all
  show "harness_inv (snd (runStructuralDecision_read name runId now h))"
    unfolding runStructuralDecision_read_def by (rule structural_preparation.continue_keeps[OF inv any])
  have "harness_inv (snd (publishAttemptIntent name now h))"
    unfolding publishAttemptIntent_def by (rule attempt_intent.continue_keeps[OF inv any])
  then show "harness_inv (snd (runStructuralGeneration_intent name now h))"
    by (auto simp: runStructuralGeneration_intent_def split: prod.splits outcome.splits continue_result.splits)
  show "harness_inv (snd (publishNestedRequestIntent name index usageId now h))"
    unfolding publishNestedRequestIntent_def by (rule request_intent.continue_keeps[OF inv any])
  show "harness_inv (snd (publishNestedRequestOutcome name usageId u now h))"
    unfolding publishNestedRequestOutcome_def by (rule request_outcome.settle_keeps[OF inv any])
  show "harness_inv (snd (runStructuralRetryWait name runId w waitForRetry now h))"
    using ready_again.continue_keeps[OF inv any] inv by (simp add: runStructuralRetryWait_def continue_or_state)
  have entries: "harness_inv (snd (continueOperation name bounded_entries_plan now h))"
    by (rule bounded_entries.continue_keeps[OF inv any])
  show "harness_inv (snd (prepareCompactionThreshold prepare catalogue name identity settings ck taskId now h))"
    using entries inv by (auto simp: prepareCompactionThreshold_def
        split: bool.splits option.splits prod.splits outcome.splits continue_result.splits sum.splits)
  show "harness_inv (snd (prepareOverflowCompaction prepare name g settings taskId now h))"
    using entries inv by (auto simp: prepareOverflowCompaction_def
        split: option.splits prod.splits outcome.splits continue_result.splits sum.splits)
  have "harness_inv (snd (publishStructuralReady name resultEntryId now h))"
    unfolding publishStructuralReady_def continue_or_state by (rule structural_ready.continue_keeps[OF inv any])
  then show "drives_operation name runId h \<Longrightarrow>
       harness_inv (snd (runStructuralDecision_publish name runId stepId resultEntryId usageId hook now h))"
    using publishStructuralOutcome_inv[OF inv]
    by (auto simp: runStructuralDecision_publish_def map_outcome_cases split: option.split)
  show "drives_operation name runId h \<Longrightarrow>
       harness_inv (snd (runStructuralGeneration_prepare catalogue name runId stepId usageId ctx now h))"
  proof -
    assume d: "drives_operation name runId h"
    obtain out h' where run: "continueOperation name (attempt_preparation_plan runId) now h = (out, h')" by fastforce
    have inv': "harness_inv h'"
      using attempt_preparation.continue_keeps[OF inv any, of name runId now] run by simp
    have "drives_operation name runId h'" if "out = Returned x" for x
      using read_returned[OF inv run[unfolded that]] d
      by (fastforce simp: drives_operation_def attempt_preparation_plan_def)
    then show ?thesis
      using run inv' publishStructuralOutcome_inv[OF inv']
      by (auto simp: runStructuralGeneration_prepare_def Let_def map_outcome_cases split: outcome.split continue_result.split)
  qed
  show "drives_task name runId task h \<Longrightarrow>
       harness_inv (snd (publishAttemptResult name runId stepId usageId task ctx attempt scope result now h))"
    using publishStructuralOutcome_inv[OF inv] summary_retry_inv[OF inv] inv drives_task_operation
    by (simp add: publishAttemptResult_def Let_def map_outcome_cases continue_or_state split: attempt_result.split)
  show "drives_task name runId task h \<Longrightarrow>
       harness_inv (snd (recoverStructuralGeneration name runId stepId usageId task ctx attempt scope now h))"
    using publishStructuralOutcome_inv[OF inv] summary_retry_inv[OF inv] drives_task_operation
    by (simp add: recoverStructuralGeneration_def Let_def map_outcome_cases continue_or_state)
  show "drives_run name runId h \<Longrightarrow>
       harness_inv (snd (finish_after_declined name runId stepId task planned follow declinedAt now h))"
    using procedures_inv(5)[OF inv] inv
    by (simp add: finish_after_declined_def split: result_boundary.split continuation.split)
  show "drives_operation name runId h \<Longrightarrow> harness_inv (snd (commitNavigation name runId now h))"
    unfolding commitNavigation_def continue_or_state
    by (rule commit_navigation.continue_keeps[OF inv]) (rule drives_operation_ready)
qed

text \<open>The pass that polls holds a permit: \<open>prepareDeferredPoll\<close> checked it, and no one else spends it.\<close>

definition holds_permit :: "nat \<Rightarrow> lane \<Rightarrow> bool" where
  "holds_permit serial l \<longleftrightarrow>
     (case ln_drive l of None \<Rightarrow> True | Some d \<Rightarrow> dr_serial d = serial \<longrightarrow> dr_deferredPermits d \<noteq> 0)"

definition may_poll :: "jstring \<Rightarrow> nat \<Rightarrow> harness \<Rightarrow> bool" where
  "may_poll name serial h \<longleftrightarrow> (case map_get (ha_lanes h) name of None \<Rightarrow> True | Some l \<Rightarrow> holds_permit serial l)"

section \<open>Reachable states\<close>

text \<open>
  One step is one call with any arguments. Ids of new operations are fresh, as the id generator makes them; a drive
  procedure runs on the operation of its drive.
\<close>

inductive harness_step :: "harness \<Rightarrow> harness \<Rightarrow> bool" where
  step_accept: "fresh_operation name operationId h \<Longrightarrow>
    harness_step h (snd (accept prepare prepareBranch name request operationId startedAt ids now observed h))"
| step_enqueue: "harness_step h (snd (enqueue name kind input images timestamp entryId now h))"
| step_cancelQueued: "harness_step h (snd (cancelQueued name entryId now h))"
| step_append: "harness_step h (snd (lane_append name pending newId now h))"
| step_abort: "harness_step h (snd (requestOperationAbort name operationId requestedAt now h))"
| step_usage: "harness_step h (snd (recordUsage name u usageEntry details usageId now h))"
| step_setModel: "harness_step h (snd (setModel name m now h))"
| step_setThinkingLevel: "harness_step h (snd (setThinkingLevel name level now h))"
| step_setActiveTools: "harness_step h (snd (setActiveTools name names now h))"
| step_inspect: "harness_step h (snd (inspectExecution name h))"
| step_drive: "harness_step h (snd (drive_claim name aborted options h))"
| step_drive_settled: "harness_step h (drive_settled name serial h)"
| step_drive_failed: "harness_step h (snd (drive_failed name serial h))"
| step_waitForIdle: "harness_step h (snd (waitForIdle name h))"
| step_idle_claim: "harness_step h (snd (idle_claim name h))"
| step_idle_release: "harness_step h (idle_release name owner h)"
| step_start_prompt: "harness_step h (snd (startRun_prompt name now h))"
| step_start_commit: "drives_run name runId h \<Longrightarrow> harness_step h (snd (startRun_commit name runId injected now h))"
| step_checkpoint: "drives_run name runId h \<Longrightarrow>
    harness_step h (snd (runCheckpoint_plan name runId stepId threshold now h))"
| step_finish_context: "harness_step h (snd (finishRunBoundary_context name now h))"
| step_finish_commit: "drives_run name runId h \<Longrightarrow>
    harness_step h (snd (finishRunBoundary_commit name runId stepId includeFinal planned follow pendingEvents now h))"
| step_generation_prepare: "drives_run name runId h \<Longrightarrow>
    harness_step h (snd (runGeneration_prepare catalogue tools name runId g now h))"
| step_generation_intent: "drives_run name runId h \<Longrightarrow>
    harness_step h (snd (runGeneration_intent name runId g nextAttempt responseEntryId usageId limits now h))"
| step_retry_wait: "drives_run name runId h \<Longrightarrow> harness_step h (snd (runRetryWait name runId g w waitForRetry now h))"
| step_response: "drives_run name runId h \<Longrightarrow>
    harness_step h (snd (publishResponse name runId intent m False prepare resultId now h))"
| step_recover_read: "harness_step h (snd (recoverAssistantGeneration_read name runId responseEntryId now h))"
| step_recover_cancelled: "harness_step h (snd (recoverCancelledAssistantEffect_read name runId responseEntryId now h))"
| step_recover_settle: "drives_run name runId h \<Longrightarrow>
    harness_step h (snd (recover_settle parse name runId intent frames prepare resultId now h))"
| step_poll_prepare: "drives_run name runId h \<Longrightarrow>
    harness_step h (snd (pollDeferred_prepare catalogue name runId ds orphan permits now h))"
| step_poll_intent: "drives_run name runId h \<Longrightarrow> may_poll name serial h \<Longrightarrow>
    harness_step h (snd (pollDeferred_intent name runId serial ds orphan poll responseEntryId usageId now h))"
| step_poll_response: "drives_run name runId h \<Longrightarrow>
    harness_step h (snd (publishResponse name runId intent m True prepare resultId now h))"
| step_deferred_handle: "harness_step h (snd (readDeferredHandle name ds now h))"
| step_aborted: "drives_operation name runId h \<Longrightarrow> harness_step h (snd (publishAbortedTerminal name runId now h))"
| step_frame_progress: "harness_step h (snd (frame_progress name runId responseEntryId frame now h))"
| step_tool_progress: "harness_step h (snd (tool_progress name runId turnId sourceIndex invocationId snapshot now h))"
| step_tools_begin: "harness_step h (snd (runTools_begin name runId batch now h))"
| step_tools_read: "harness_step h (snd (materialize_read name runId sources recovery now h))"
| step_tools_place: "drives_run name runId h \<Longrightarrow>
    harness_step h (snd (materialize_commit name runId turnId sources recovery read usageId now h))"
| step_tool_intent: "drives_run name runId h \<Longrightarrow>
    harness_step h (snd (startToolInvocation_intent name runId call cleared recovery now h))"
| step_tool_outcome: "drives_run name runId h \<Longrightarrow>
    harness_step h (snd (publishToolOutcome name runId call finalized recovery now h))"
| step_tool_recover: "harness_step h (snd (recoverToolInvocation name runId batch sources call tools cancelled now h))"
| step_memo_get: "harness_step h (snd (getMemo active name runId call memo now h))"
| step_memo_set: "harness_step h (snd (setMemo active name runId call memo v now h))"
| step_summary_read: "harness_step h (snd (runStructuralDecision_read name runId now h))"
| step_summary_decide: "drives_operation name runId h \<Longrightarrow>
    harness_step h (snd (runStructuralDecision_publish name runId stepId resultEntryId usageId hook now h))"
| step_summary_prepare: "drives_operation name runId h \<Longrightarrow>
    harness_step h (snd (runStructuralGeneration_prepare catalogue name runId stepId usageId ctx now h))"
| step_summary_intent: "harness_step h (snd (runStructuralGeneration_intent name now h))"
| step_summary_request: "harness_step h (snd (publishNestedRequestIntent name index usageId now h))"
| step_summary_usage: "harness_step h (snd (publishNestedRequestOutcome name usageId u now h))"
| step_summary_result: "drives_task name runId task h \<Longrightarrow>
    harness_step h (snd (publishAttemptResult name runId stepId usageId task ctx attempt scope result now h))"
| step_summary_wait: "harness_step h (snd (runStructuralRetryWait name runId w waitForRetry now h))"
| step_summary_recover: "drives_task name runId task h \<Longrightarrow>
    harness_step h (snd (recoverStructuralGeneration name runId stepId usageId task ctx attempt scope now h))"
| step_summary_declined: "drives_run name runId h \<Longrightarrow>
    harness_step h (snd (finish_after_declined name runId stepId task planned follow declinedAt now h))"
| step_threshold: "harness_step h (snd (prepareCompactionThreshold prepare catalogue name identity settings ck taskId now h))"
| step_overflow: "harness_step h (snd (prepareOverflowCompaction prepare name g settings taskId now h))"
| step_navigation: "drives_operation name runId h \<Longrightarrow> harness_step h (snd (commitNavigation name runId now h))"
| step_lane: "harness_step h (snd (acquire_lane name createAt now h))"
| step_setName: "harness_step h (snd (harness_setName sessionTitle now h))"
| step_setLabel: "harness_step h (snd (harness_setLabel targetId label now h))"
| step_setStreamOptions: "harness_step h (snd (setStreamOptions streamOptions h))"
| step_setRetryPolicy: "setRetryPolicy policy h = Some result \<Longrightarrow> harness_step h (snd result)"
| step_setCompactionSettings: "setCompactionSettings settings h = Some result \<Longrightarrow> harness_step h (snd result)"
| step_setSteeringMode: "harness_step h (snd (setSteeringMode mode h))"
| step_setFollowUpMode: "harness_step h (snd (setFollowUpMode mode h))"
| step_setResources: "harness_step h (snd (setResources skills templates h))"
| step_close: "harness_step h (harness_close h)"

inductive harness_reachable :: "harness_options \<Rightarrow> backed_session \<Rightarrow> harness \<Rightarrow> bool"
  for options :: harness_options and session :: backed_session where
  attached: "createAgentHarness options session = Inr (h, ops) \<Longrightarrow> harness_reachable options session h"
| stepped: "harness_reachable options session h \<Longrightarrow> harness_step h h' \<Longrightarrow> harness_reachable options session h'"

lemma harness_step_inv:
  assumes "harness_step h h'" "harness_inv h"
  shows "harness_inv h'"
  using assms
proof (induction rule: harness_step.induct)
  case (step_accept name operationId h)
  then show ?case by (simp add: accept_inv)
next
  case (step_drive_settled h name serial)
  then show ?case by (simp add: drive_settled_def update_lane_inv clear_drive_def)
next
  case (step_waitForIdle h name)
  then show ?case by (auto simp: waitForIdle_def intro!: lane_claim_inv)
next
  case (step_idle_release h name owner)
  then show ?case by (simp add: idle_release_def update_lane_inv)
next
  case (step_inspect h name)
  then show ?case by (simp add: inspectExecution_def readLane_inv)
next
  case (step_setRetryPolicy policy h result)
  then show ?case by (auto simp: setRetryPolicy_def setConfig_inv split: if_splits)
next
  case (step_setCompactionSettings settings h result)
  then show ?case by (auto simp: setCompactionSettings_def setConfig_inv split: if_splits)
qed (simp_all add: setStreamOptions_def setSteeringMode_def setFollowUpMode_def setResources_def setConfig_inv lane_calls_inv procedures_inv request_inv settlement_inv tools_inv structural_inv
    publishResponse_inv frame_progress_inv tool_progress_inv drive_claim_inv drive_failed_inv idle_claim_inv acquire_lane_inv
    harness_setName_inv harness_setLabel_inv harness_close_inv)

lemma harness_reachable_inv:
  "harness_reachable options session h \<Longrightarrow> session_sound session \<Longrightarrow> harness_inv h"
  by (induction rule: harness_reachable.induct) (auto intro: attached_inv harness_step_inv)

end
