(* ===== verification/LaneSteps.thy ===== *)
theory LaneSteps
  imports Reachable
begin

text \<open>
  What one step does to the lane objects. Every call on the mutation line either leaves the lanes alone, seals
  them all by a fault, or replaces one open lane without an idle owner; the lemmas here say by what.
\<close>

section \<open>Runs on the mutation line\<close>

lemma harness_fault_lanes:
  "ha_lanes (snd (harness_fault h)) = (if ha_faulted h = None \<and> ha_closed h = None then seal_lanes HarnessFaulted (ha_lanes h) else ha_lanes h)"
  "ha_closed (snd (harness_fault h)) = ha_closed h"
  "ha_config (snd (harness_fault h)) = ha_config h"
  "ha_session (snd (harness_fault h)) = ha_session h"
  "ha_serial (snd (harness_fault h)) = ha_serial h"
  by (auto simp: harness_fault_def split: option.splits)

text \<open>How a call on the mutation line ends.\<close>

lemma run_on_line_cases:
  assumes run: "run_on_line name job h = (out, h')"
  obtains (unchanged) "h' = h"
  | (fault) d where "h' = snd (harness_fault (h\<lparr>ha_session := d\<rparr>))"
      "\<exists>l. map_get (ha_lanes h) name = Some l \<and> ln_closed l = None \<and> ln_idle l = None"
  | (published) l l' r events d where "map_get (ha_lanes h) name = Some l" "ln_closed l = None" "ln_idle l = None"
      "session_mutate (job l) (ha_session h) = (Inr (r, l', events), d)"
      "h' = h\<lparr>ha_session := d, ha_lanes := map_set name l' (ha_lanes h), ha_log := ha_log h @ events\<rparr>"
      "out = (case r of Inl e \<Rightarrow> Threw e | Inr x \<Rightarrow> Returned x)"
proof (cases "map_get (ha_lanes h) name")
  case None
  then show thesis using run unchanged by (simp add: run_on_line_def)
next
  case (Some l)
  show thesis
  proof (cases "ln_closed l = None \<and> ln_idle l = None")
    case False
    then show thesis using run Some unchanged by (auto simp: run_on_line_def split: option.splits if_splits)
  next
    case True
    obtain res d where m: "session_mutate (job l) (ha_session h) = (res, d)" by fastforce
    show thesis
    proof (cases res)
      case (Inl e)
      then show thesis
        using run Some True m unchanged fault[of d]
        by (auto simp: run_on_line_def Let_def split: if_splits prod.splits)
    next
      case (Inr x)
      obtain r l' events where "x = (r, l', events)" by (cases x) auto
      then show thesis using run Some True m Inr published[of l r l' events d] by (auto simp: run_on_line_def)
    qed
  qed
qed

section \<open>The kinds of steps\<close>

text \<open>
  Every call is one of a few kinds of steps, whatever it plans: a command on the mutation line, a claim, a read, the
  release of an owner, a call of the harness, a configuration change, or closing. What does not depend on the plans
  is proved for these.
\<close>

inductive kernel_step :: "harness \<Rightarrow> harness \<Rightarrow> bool" where
  kernel_same: "kernel_step h h"
| kernel_fault: "map_get (ha_lanes h) name = Some l \<Longrightarrow> ln_closed l = None \<Longrightarrow>
    kernel_step h (snd (harness_fault (h\<lparr>ha_session := d\<rparr>)))"
| kernel_publish: "map_get (ha_lanes h) name = Some l \<Longrightarrow> ln_closed l = None \<Longrightarrow> ln_idle l = None \<Longrightarrow>
    kernel_step h (h\<lparr>ha_session := d, ha_lanes := map_set name (l\<lparr>ln_state := nx\<rparr>) (ha_lanes h), ha_log := ha_log h @ events\<rparr>)"
| kernel_wait: "kernel_step h (snd (waitForIdle name h))"
| kernel_drive: "kernel_step h (snd (drive_claim name aborted options h))"
| kernel_idle: "kernel_step h (snd (idle_claim name h))"
| kernel_clear: "kernel_step h (update_lane name (clear_drive serial) h)"
| kernel_release: "kernel_step h (idle_release name owner h)"
| kernel_failed: "kernel_step h (snd (drive_failed name serial h))"
| kernel_acquire: "kernel_step h (snd (acquire_lane name createAt now h))"
| kernel_name: "kernel_step h (snd (harness_setName title now h))"
| kernel_label: "kernel_step h (snd (harness_setLabel targetId label now h))"
| kernel_config: "(\<And>c. validateRetryPolicy (cf_retryPolicy c) \<Longrightarrow> validateRetryPolicy (cf_retryPolicy (update c))) \<Longrightarrow>
    (\<And>c. validateCompactionSettings (cf_compaction c) \<Longrightarrow> validateCompactionSettings (cf_compaction (update c))) \<Longrightarrow>
    kernel_step h (snd (setConfig update event h))"
| kernel_close: "kernel_step h (harness_close h)"
| kernel_emit: "kernel_step h (h\<lparr>ha_log := evs\<rparr>)"
| kernel_spend: "may_poll name serial h \<Longrightarrow> kernel_step h (update_lane name (spend_permit serial) h)"

abbreviation kernel_steps :: "harness \<Rightarrow> harness \<Rightarrow> bool" where
  "kernel_steps \<equiv> kernel_step\<^sup>*\<^sup>*"

text \<open>What a command publishes is the lane with another state, and with the rest unchanged.\<close>

lemma command_job_result:
  assumes "session_mutate (command_job plan now l) se = (Inr (r, l', events), d)"
  shows "l' = l \<or> (\<exists>ws nx mat evs. plan (ln_state l) (ms_data (se_storage se)) = Inr (CommandCommit ws nx mat evs) \<and>
      l' = l\<lparr>ln_state := nx\<rparr>)"
proof (cases "se_state se = Open \<and> ms_state (se_storage se) = Open")
  case True
  show ?thesis
  proof (cases "plan (ln_state l) (ms_data (se_storage se))")
    case (Inr decision)
    then show ?thesis using assms True
      by (cases decision)
        (auto simp: session_mutate_def command_job_def act_bind_def mutation_read_def memory_read_def act_return_def Let_def
          split: prod.splits sum.splits)
  qed (use assms True in \<open>auto simp: session_mutate_def command_job_def act_bind_def mutation_read_def memory_read_def
      Let_def split: prod.splits\<close>)
qed (use assms in \<open>auto simp: session_mutate_def command_job_def act_bind_def mutation_read_def memory_read_def Let_def
    split: if_splits prod.splits\<close>)

lemma kernel_command: "kernel_step h (snd (lane_command name plan now h))"
proof -
  obtain out h' where run: "run_on_line name (command_job plan now) h = (out, h')" by fastforce
  show ?thesis
  proof (cases rule: run_on_line_cases[OF run])
    case 1
    then show ?thesis using run by (simp add: lane_command_def kernel_same)
  next
    case (2 d)
    then show ?thesis using run by (auto simp: lane_command_def intro: kernel_fault)
  next
    case (3 l l' r events d)
    have "l' = l\<lparr>ln_state := ln_state l'\<rparr>" using command_job_result[OF 3(4)] by auto
    then obtain nx where "l' = l\<lparr>ln_state := nx\<rparr>" by blast
    then show ?thesis using kernel_publish[OF 3(1-3)] 3(5) run by (simp add: lane_command_def)
  qed
qed

lemma kernel_read: "kernel_step h (snd (readLane name f h))"
  using kernel_fault[of h name _ "ha_session h"]
  by (auto simp: readLane_def session_mutate_read Let_def case_prod_unfold kernel_same split: option.split sum.split)

lemma kernel_open: "kernel_step h (snd body) \<Longrightarrow> kernel_step h (snd (when_open name h body))"
  by (auto simp: when_open_def kernel_same split: option.split)

lemma kernel_settle: "kernel_step h (snd (settleOperation name plan now h))"
  unfolding settleOperation_def by (rule kernel_command)

lemma kernel_continue: "kernel_step h (snd (continueOperation name plan now h))"
  unfolding continueOperation_def by (rule kernel_settle)

lemma kernel_accept: "kernel_step h (snd (accept prepare prepareBranch name request operationId startedAt ids now observed h))"
proof -
  have run: "kernel_step h (snd (acceptRun name req operationId startedAt (ha_config h) ids now h))" for req
    by (auto simp: acceptRun_def Let_def kernel_same kernel_command split: sum.splits if_splits)
  have nav: "kernel_step h (snd (acceptNavigation_turn prepareBranch name targetId options operationId startedAt
      (ha_config h) (hd ids) now observed h))" for targetId options
    by (auto simp: acceptNavigation_turn_def Let_def kernel_same kernel_command split: sum.splits)
  have retry: "snd (retry_or x) = snd x" for x :: "'a option outcome \<times> harness"
    by (cases x rule: retry_or.cases) simp_all
  show ?thesis unfolding accept_def
    by (rule kernel_open) (auto simp: retry kernel_command nav run split: operation_request.split)
qed

text \<open>The procedures of a request are a command or two, with events or a spent permit between.\<close>

lemma kernel_one: "kernel_step h h' \<Longrightarrow> kernel_steps h h'"
  by (rule r_into_rtranclp)

lemmas kernel_calls = kernel_accept[THEN kernel_one] kernel_command[THEN kernel_one] kernel_read[THEN kernel_one]
  kernel_open[THEN kernel_one] kernel_settle[THEN kernel_one] kernel_continue[THEN kernel_one]

lemma map_get_seal: "map_get (seal_lanes e lanes) name = map_option (lane_seal e) (map_get lanes name)"
  by (induction lanes) (auto simp: seal_lanes_def)

lemma command_keeps_drives:
  "map_option ln_drive (map_get (ha_lanes (snd (lane_command name plan now h))) m) = map_option ln_drive (map_get (ha_lanes h) m)"
proof -
  obtain out h' where run: "run_on_line name (command_job plan now) h = (out, h')" by fastforce
  show ?thesis
  proof (cases rule: run_on_line_cases[OF run])
    case 1
    then show ?thesis using run by (simp add: lane_command_def)
  next
    case (2 d)
    have "ln_drive \<circ> lane_seal e = ln_drive" for e by (auto simp: lane_seal_def)
    then show ?thesis using 2 run by (simp add: lane_command_def harness_fault_lanes map_get_seal option.map_comp)
  next
    case (3 l l' r events d)
    then show ?thesis using command_job_result[OF 3(4)] run by (auto simp: lane_command_def update_conv')
  qed
qed

lemma may_poll_command: "may_poll name serial (snd (lane_command m plan now h)) = may_poll name serial h"
  using command_keeps_drives[of m plan now h name]
  by (auto simp: may_poll_def holds_permit_def split: option.splits)

lemma kernel_poll: "may_poll name serial h \<Longrightarrow>
  kernel_steps h (snd (pollDeferred_intent name runId serial ds orphan poll responseEntryId usageId now h))"
proof -
  assume h: "may_poll name serial h"
  let ?h = "snd (continueOperation name (poll_intent_plan name runId ds orphan poll responseEntryId usageId (orphan \<noteq> None)) now h)"
  have one: "kernel_steps h ?h" by (rule kernel_one[OF kernel_continue])
  have "may_poll name serial ?h" using h by (simp add: continueOperation_def settleOperation_def may_poll_command)
  then have "kernel_steps h (update_lane name (spend_permit serial) ?h)"
    by (rule rtranclp.rtrancl_into_rtrancl[OF one kernel_spend])
  then show ?thesis using one
    by (auto simp: pollDeferred_intent_def publishPollIntent_def case_prod_unfold Let_def split: outcome.splits continue_result.splits)
qed

lemma kernel_failure: "kernel_step h (snd (publishConfigurationFailure name runId err now h))"
  by (simp add: publishConfigurationFailure_def continue_or_state kernel_continue)

lemma kernel_then_failure:
  "kernel_steps h h1 \<Longrightarrow> kernel_steps h (snd (publishConfigurationFailure name runId err now h1))"
  by (erule rtranclp.rtrancl_into_rtrancl) (rule kernel_failure)

lemma kernel_response: "kernel_step h (snd (publishResponse name runId intent m recovery prepare resultId now h))"
  by (auto simp: publishResponse_def Let_def kernel_same kernel_settle split: option.split)

lemma kernel_recover: "kernel_steps h (snd (recover_settle parse name runId intent frames prepare resultId now h))"
  by (auto simp: recover_settle_def intro: converse_rtranclp_into_rtranclp[OF kernel_emit kernel_one[OF kernel_response]]
      split: option.split sum.split)

lemma kernel_prepare: "kernel_steps h (snd (runGeneration_prepare catalogue tools name runId g now h))"
proof -
  have "kernel_steps h (snd (prepareGeneration catalogue tools name g now h))"
    using kernel_continue[of h name "finish_context_plan (cf_entryProjectors (ha_config h))" now]
    by (auto simp: prepareGeneration_def Let_def intro: kernel_one
        split: option.split prod.split outcome.split continue_result.split)
  then show ?thesis
    by (auto simp: runGeneration_prepare_def case_prod_unfold Let_def
        intro: kernel_then_failure split: outcome.split generation_preparation.split)
qed

lemma kernel_poll_prepare: "kernel_steps h (snd (pollDeferred_prepare catalogue name runId ds orphan permits now h))"
proof -
  have "kernel_steps h (snd (prepareDeferredPoll catalogue name ds orphan permits now h))"
    using kernel_continue[of h name "source_handle_plan ds" now]
    by (auto simp: prepareDeferredPoll_def intro: kernel_one split: prod.split outcome.split continue_result.split)
  then show ?thesis
    by (auto simp: pollDeferred_prepare_def case_prod_unfold Let_def
        intro: kernel_then_failure split: outcome.split deferred_preparation.split)
qed

lemma kernel_requests:
  "kernel_steps h (snd (runGeneration_intent name runId g nextAttempt responseEntryId usageId limits now h))"
  "kernel_steps h (snd (runRetryWait name runId g w waitForRetry now h))"
  "kernel_steps h (snd (frame_progress name runId responseEntryId frame now h))"
  "kernel_steps h (snd (tool_progress name runId turnId sourceIndex invocationId snapshot now h))"
  using kernel_continue[of h name "generation_intent_plan name runId g nextAttempt responseEntryId usageId limits" now]
  by (auto simp: runGeneration_intent_def publishGenerationIntent_def runRetryWait_def continue_or_state frame_progress_def
      tool_progress_def kernel_calls intro: kernel_one split: prod.split outcome.split continue_result.split sum.split)

lemma kernel_then_emit: "kernel_steps h h1 \<Longrightarrow> kernel_steps h (h1\<lparr>ha_log := evs\<rparr>)"
  by (erule rtranclp.rtrancl_into_rtrancl) (rule kernel_emit)

lemma kernel_tools:
  "kernel_steps h (snd (runTools_begin name runId batch now h))"
  "kernel_steps h (snd (materialize_read name runId sources recovery now h))"
  "kernel_steps h (snd (materialize_commit name runId turnId sources recovery read usageId now h))"
  "kernel_steps h (snd (startToolInvocation_intent name runId call cleared recovery now h))"
  "kernel_steps h (snd (publishToolOutcome name runId call finalized recovery now h))"
  "kernel_steps h (snd (recoverToolInvocation name runId batch sources call tools cancelled now h))"
  "kernel_steps h (snd (getMemo active name runId call memo now h))"
  "kernel_steps h (snd (setMemo active name runId call memo v now h))"
proof -
  note cmd = kernel_calls kernel_one[OF kernel_same]
  show "kernel_steps h (snd (runTools_begin name runId batch now h))"
    by (auto simp: runTools_begin_def readToolBatchSource_def cmd
        intro: converse_rtranclp_into_rtranclp[OF kernel_emit kernel_one[OF kernel_command]])
  have "kernel_steps h (snd (readPlacement name sources now h))" by (simp add: readPlacement_def cmd)
  then show "kernel_steps h (snd (materialize_read name runId sources recovery now h))"
    by (auto simp: materialize_read_def case_prod_unfold intro: kernel_then_emit
        split: prod.splits outcome.splits option.splits)
  have "kernel_steps h (snd (commitPlacement name runId turnId read usageIds now h))" for usageIds
    by (simp add: commitPlacement_def cmd)
  then show "kernel_steps h (snd (materialize_commit name runId turnId sources recovery read usageId now h))"
    by (auto simp: materialize_commit_def case_prod_unfold Let_def intro: kernel_then_emit
        split: outcome.split bool.split option.split)
  have "kernel_steps h (snd (publishToolIntent name runId call toolCall args rp recovery now h))" for toolCall args rp
    by (simp add: publishToolIntent_def cmd)
  then show "kernel_steps h (snd (startToolInvocation_intent name runId call cleared recovery now h))"
    by (simp add: startToolInvocation_intent_def case_prod_unfold split: outcome.split continue_result.split)
  show "kernel_steps h (snd (publishToolOutcome name runId call finalized recovery now h))"
    by (simp add: publishToolOutcome_def cmd)
  show "kernel_steps h (snd (recoverToolInvocation name runId batch sources call tools cancelled now h))"
    by (simp add: recoverToolInvocation_def clearReplayCheckpoint_def readCheckpoint_def case_prod_unfold Let_def cmd
        split: sum.split option.split)
  show "kernel_steps h (snd (getMemo active name runId call memo now h))"
    by (simp add: getMemo_def cmd split: sum.split)
  show "kernel_steps h (snd (setMemo active name runId call memo v now h))"
    by (simp add: setMemo_def cmd split: sum.split)
qed

lemma kernel_outcome: "kernel_step h (snd (publishStructuralOutcome name runId stepId usageId result now h))"
  by (simp add: publishStructuralOutcome_def continue_or_state kernel_continue)

lemma kernel_then_outcome:
  "kernel_steps h h1 \<Longrightarrow> kernel_steps h (snd (publishStructuralOutcome name runId stepId usageId result now h1))"
  by (erule rtranclp.rtrancl_into_rtrancl) (rule kernel_outcome)

lemma kernel_structural:
  "kernel_steps h (snd (runStructuralDecision_read name runId now h))"
  "kernel_steps h (snd (runStructuralDecision_publish name runId stepId resultEntryId usageId hook now h))"
  "kernel_steps h (snd (runStructuralGeneration_prepare catalogue name runId stepId usageId ctx now h))"
  "kernel_steps h (snd (runStructuralGeneration_intent name now h))"
  "kernel_steps h (snd (publishNestedRequestIntent name index usageId now h))"
  "kernel_steps h (snd (publishNestedRequestOutcome name usageId u now h))"
  "kernel_steps h (snd (publishAttemptResult name runId stepId usageId task ctx attempt scope attempt_result now h))"
  "kernel_steps h (snd (runStructuralRetryWait name runId w waitForRetry now h))"
  "kernel_steps h (snd (recoverStructuralGeneration name runId stepId usageId task ctx attempt scope now h))"
  "kernel_steps h (snd (finish_after_declined name runId stepId task planned follow declinedAt now h))"
  "kernel_steps h (snd (prepareCompactionThreshold prepare catalogue name identity settings ck taskId now h))"
  "kernel_steps h (snd (prepareOverflowCompaction prepare name g settings taskId now h))"
  "kernel_steps h (snd (commitNavigation name runId now h))"
proof -
  note cmd = kernel_calls kernel_one[OF kernel_same] kernel_one[OF kernel_outcome]
  note one = continue_or_state map_outcome_cases Let_def
  show "kernel_steps h (snd (runStructuralDecision_read name runId now h))"
    by (simp add: runStructuralDecision_read_def cmd)
  show "kernel_steps h (snd (runStructuralDecision_publish name runId stepId resultEntryId usageId hook now h))"
    by (simp add: runStructuralDecision_publish_def publishStructuralReady_def one cmd split: option.split)
  have "kernel_steps h (snd (continueOperation name (attempt_preparation_plan runId) now h))" by (rule cmd)
  then show "kernel_steps h (snd (runStructuralGeneration_prepare catalogue name runId stepId usageId ctx now h))"
    by (auto simp: runStructuralGeneration_prepare_def case_prod_unfold Let_def intro: kernel_then_outcome
        split: outcome.split continue_result.split)
  have "kernel_steps h (snd (publishAttemptIntent name now h))" by (simp add: publishAttemptIntent_def cmd)
  then show "kernel_steps h (snd (runStructuralGeneration_intent name now h))"
    by (auto simp: runStructuralGeneration_intent_def split: prod.split outcome.split continue_result.split)
  show "kernel_steps h (snd (publishNestedRequestIntent name index usageId now h))"
    by (simp add: publishNestedRequestIntent_def cmd)
  show "kernel_steps h (snd (publishNestedRequestOutcome name usageId u now h))"
    by (simp add: publishNestedRequestOutcome_def cmd)
  show "kernel_steps h (snd (publishAttemptResult name runId stepId usageId task ctx attempt scope attempt_result now h))"
    by (simp add: publishAttemptResult_def one cmd split: attempt_result.split)
  show "kernel_steps h (snd (runStructuralRetryWait name runId w waitForRetry now h))"
    by (simp add: runStructuralRetryWait_def one cmd)
  show "kernel_steps h (snd (recoverStructuralGeneration name runId stepId usageId task ctx attempt scope now h))"
    by (simp add: recoverStructuralGeneration_def one cmd)
  show "kernel_steps h (snd (finish_after_declined name runId stepId task planned follow declinedAt now h))"
    by (simp add: finish_after_declined_def finishRunBoundary_commit_def one cmd
        split: result_boundary.split continuation.split)
  have entries: "kernel_steps h (snd (continueOperation name bounded_entries_plan now h))" by (rule cmd)
  show "kernel_steps h (snd (prepareCompactionThreshold prepare catalogue name identity settings ck taskId now h))"
    using entries by (auto simp: prepareCompactionThreshold_def kernel_one[OF kernel_same]
        split: bool.split option.split prod.split outcome.split continue_result.split sum.split)
  show "kernel_steps h (snd (prepareOverflowCompaction prepare name g settings taskId now h))"
    using entries by (auto simp: prepareOverflowCompaction_def kernel_one[OF kernel_same]
        split: option.split prod.split outcome.split continue_result.split sum.split)
  show "kernel_steps h (snd (commitNavigation name runId now h))"
    by (simp add: commitNavigation_def one cmd)
qed

lemma step_kernel: "harness_step h h' \<Longrightarrow> kernel_steps h h'"
proof (induction rule: harness_step.induct)
  case (step_enqueue h name kind input images timestamp entryId now)
  then show ?case unfolding enqueue_def
    by (intro kernel_one kernel_open) (auto simp: kernel_same kernel_command split: sum.split)
next
  case (step_append h name pending newId now)
  then show ?case by (auto simp: lane_append_def kernel_calls split: option.split)
next
  case (step_start_commit name runId h injected now)
  then show ?case by (auto simp: startRun_commit_def continue_or_state kernel_calls split: sum.split)
next
  case (step_setRetryPolicy policy h result)
  then show ?case by (auto simp: setRetryPolicy_def intro!: kernel_one intro: kernel_config split: if_splits)
next
  case (step_setCompactionSettings settings h result)
  then show ?case by (auto simp: setCompactionSettings_def intro!: kernel_one intro: kernel_config split: if_splits)
next
  case (step_setStreamOptions h streamOptions)
  then show ?case unfolding setStreamOptions_def by (intro kernel_one kernel_config) simp_all
next
  case (step_setSteeringMode h mode)
  then show ?case unfolding setSteeringMode_def by (intro kernel_one kernel_config) simp_all
next
  case (step_setFollowUpMode h mode)
  then show ?case unfolding setFollowUpMode_def by (intro kernel_one kernel_config) simp_all
next
  case (step_setResources h skills templates)
  then show ?case unfolding setResources_def by (intro kernel_one kernel_config) simp_all
qed (auto simp: kernel_calls kernel_open kernel_command kernel_one cancelQueued_def requestOperationAbort_def recordUsage_def
    setModel_def setThinkingLevel_def setActiveTools_def inspectExecution_def kernel_drive
    drive_settled_def kernel_clear kernel_failed kernel_wait kernel_idle kernel_release startRun_prompt_def
    runCheckpoint_plan_def continue_or_state finishRunBoundary_context_def
    finishRunBoundary_commit_def kernel_acquire kernel_name kernel_label kernel_close kernel_poll kernel_response
    kernel_recover kernel_prepare kernel_poll_prepare kernel_requests kernel_tools kernel_structural recoverAssistantGeneration_read_def
    recoverCancelledAssistantEffect_read_def readDeferredHandle_def publishAbortedTerminal_def)

text \<open>What every kind of step keeps, every call keeps.\<close>

lemma kernel_steps_keep:
  assumes "kernel_steps h h'" "Q h" "\<And>h h'. kernel_step h h' \<Longrightarrow> Q h \<Longrightarrow> Q h'"
  shows "Q h'"
  using assms(1,2) by (induction rule: rtranclp_induct) (auto intro: assms(3))

section \<open>Predicates on single lanes\<close>

text \<open>
  A predicate that holds of every lane object and survives sealing is kept by a call, if the job's result satisfies it.
\<close>

definition all_lanes :: "(lane \<Rightarrow> bool) \<Rightarrow> harness \<Rightarrow> bool" where
  "all_lanes P h \<longleftrightarrow> (\<forall>(name, l) \<in> set (ha_lanes h). P l)"

lemma all_lanes_set: "all_lanes P h \<Longrightarrow> P l' \<Longrightarrow> \<forall>(name, l) \<in> set (map_set name l' (ha_lanes h)). P l"
  using set_update_subset[of name l' "ha_lanes h"] by (fastforce simp: all_lanes_def)

lemma all_lanes_get: "all_lanes P h \<Longrightarrow> map_get (ha_lanes h) name = Some l \<Longrightarrow> P l"
  unfolding all_lanes_def by (blast dest: map_of_SomeD)

lemma all_lanes_log: "all_lanes P (h\<lparr>ha_log := evs\<rparr>) = all_lanes P h"
  "all_lanes P (h\<lparr>ha_serial := n\<rparr>) = all_lanes P h"
  by (simp_all add: all_lanes_def)

lemma all_lanes_seal:
  assumes "\<And>l e. P l \<Longrightarrow> P (lane_seal e l)" "all_lanes P h"
  shows "\<forall>(name, l) \<in> set (seal_lanes e (ha_lanes h)). P l"
  using assms by (fastforce simp: all_lanes_def seal_lanes_def)

lemma all_lanes_fault:
  assumes "\<And>l e. P l \<Longrightarrow> P (lane_seal e l)" "all_lanes P h"
  shows "all_lanes P (snd (harness_fault h))"
  using all_lanes_seal[where P = P, OF assms, of HarnessFaulted] assms(2)
  by (simp add: all_lanes_def harness_fault_lanes)

lemma all_lanes_run:
  assumes P: "all_lanes P h" and seal: "\<And>l e. P l \<Longrightarrow> P (lane_seal e l)"
    and job: "\<And>l r l' events d. P l \<Longrightarrow> ln_closed l = None \<Longrightarrow> ln_idle l = None \<Longrightarrow>
      session_mutate (job l) (ha_session h) = (Inr (r, l', events), d) \<Longrightarrow> P l'"
  shows "all_lanes P (snd (run_on_line name job h))"
proof -
  obtain out h' where run: "run_on_line name job h = (out, h')" by fastforce
  show ?thesis
  proof (cases rule: run_on_line_cases[OF run])
    case 1
    then show ?thesis using P run by simp
  next
    case (2 d)
    have "all_lanes P (h\<lparr>ha_session := d\<rparr>)" using P by (simp add: all_lanes_def)
    then show ?thesis using all_lanes_fault[where P = P, OF seal] 2 run by simp
  next
    case (3 l l' r events d)
    then show ?thesis
      using all_lanes_set[OF P, of l' name] job[OF all_lanes_get[OF P 3(1)] 3(2-4)] run by (simp add: all_lanes_def)
  qed
qed

lemma claim_job_result:
  assumes "session_mutate (act_bind (mutation_read (plan l)) (\<lambda>(r, l'). act_return (r, l', []))) se = (Inr (r, l', events), d)"
  shows "plan l (ms_data (se_storage se)) = Inr (r, l') \<and> d = se \<and> events = []"
  using assms
  by (auto simp: session_mutate_def mutation_read_def memory_read_def mutation_end_def act_bind_def act_return_def Let_def
      split: if_splits sum.splits prod.splits)

lemma all_lanes_claim:
  assumes P: "all_lanes P h" and seal: "\<And>l e. P l \<Longrightarrow> P (lane_seal e l)"
    and plan: "\<And>l r l'. P l \<Longrightarrow> ln_closed l = None \<Longrightarrow> ln_idle l = None \<Longrightarrow>
      plan l (ms_data (se_storage (ha_session h))) = Inr (r, l') \<Longrightarrow> P l'"
  shows "all_lanes P (snd (lane_claim name plan h))"
  unfolding lane_claim_def
proof (rule all_lanes_run[where P = P, OF P seal])
  fix l r l' events d
  assume l: "P l" "ln_closed l = None" "ln_idle l = None"
    and m: "session_mutate (act_bind (mutation_read (plan l)) (\<lambda>(r, l'). act_return (r, l', []))) (ha_session h) = (Inr (r, l', events), d)"
  show "P l'" using plan[OF l] claim_job_result[where plan = plan and l = l, OF m] by blast
qed

lemma all_lanes_update:
  assumes P: "all_lanes P h" and f: "\<And>l. P l \<Longrightarrow> P (f l)"
  shows "all_lanes P (update_lane name f h)"
proof (cases "map_get (ha_lanes h) name")
  case (Some l)
  then show ?thesis using all_lanes_set[OF P f[OF all_lanes_get[OF P Some]], of name] by (simp add: update_lane_def all_lanes_def)
qed (use P in \<open>simp add: update_lane_def\<close>)

lemma all_lanes_spend:
  assumes P: "all_lanes P h" and f: "\<And>l. P l \<Longrightarrow> holds_permit serial l \<Longrightarrow> P (spend_permit serial l)" and m: "may_poll name serial h"
  shows "all_lanes P (update_lane name (spend_permit serial) h)"
proof (cases "map_get (ha_lanes h) name")
  case (Some l)
  then have "P (spend_permit serial l)" using m f all_lanes_get[OF P Some] by (simp add: may_poll_def)
  then show ?thesis using all_lanes_set[OF P, of _ name] Some by (simp add: update_lane_def all_lanes_def)
qed (use P in \<open>simp add: update_lane_def\<close>)

section \<open>Invariants of single lanes\<close>

text \<open>
  The contract of a predicate on lane objects that every call keeps: what each kind of assignment to a lane
  needs. Commands and drives only reach lanes without an idle owner.
\<close>

locale lane_invariant =
  fixes P :: "lane \<Rightarrow> bool"
  assumes built: "P (new_lane name state)"
    and sealed: "P l \<Longrightarrow> P (lane_seal e l)"
    and published: "P l \<Longrightarrow> ln_idle l = None \<Longrightarrow> P (l\<lparr>ln_state := nx\<rparr>)"
    and driven: "P l \<Longrightarrow> ln_idle l = None \<Longrightarrow> P (l\<lparr>ln_drive := Some (new_drive serial options)\<rparr>)"
    and released: "P l \<Longrightarrow> P (l\<lparr>ln_drive := None\<rparr>)"
    and claimed: "P l \<Longrightarrow> is_idle l \<Longrightarrow> P (l\<lparr>ln_idle := Some n\<rparr>)"
    and unclaimed: "P l \<Longrightarrow> P (l\<lparr>ln_idle := None\<rparr>)"
    and spent: "P l \<Longrightarrow> holds_permit serial l \<Longrightarrow> P (spend_permit serial l)"
begin

lemma drive_claimed: "all_lanes P h \<Longrightarrow> all_lanes P (snd (drive_claim name aborted options h))"
proof -
  assume P: "all_lanes P h"
  have "all_lanes P (snd (lane_claim name (drive_claim_plan name aborted options (ha_serial h)) h))"
    by (rule all_lanes_claim[where P = P, OF P sealed])
      (auto simp: drive_claim_plan_def Let_def ebind_eq_Inr_iff driven split: option.splits if_splits)
  then show ?thesis using P drive_claim_state[of name aborted options h] by (auto simp: all_lanes_log)
qed

lemma idle_claimed: "all_lanes P h \<Longrightarrow> all_lanes P (snd (idle_claim name h))"
proof -
  assume P: "all_lanes P h"
  have "all_lanes P (snd (lane_claim name (idle_claim_plan (ha_serial h)) h))"
    by (rule all_lanes_claim[where P = P, OF P sealed]) (auto simp: idle_claim_plan_def claimed split: if_splits)
  then show ?thesis using idle_claim_state[of name h] by (auto simp: all_lanes_log)
qed

lemma fault: "all_lanes P h \<Longrightarrow> all_lanes P (snd (harness_fault h))"
  by (rule all_lanes_fault[where P = P, OF sealed])

lemma called:
  assumes "all_lanes P h" "\<And>r h'. all_lanes P h' \<Longrightarrow> all_lanes P (snd (k r h'))"
  shows "all_lanes P (snd (harness_call job h k))"
proof -
  have "all_lanes P (h\<lparr>ha_session := se\<rparr>)" for se using assms(1) by (simp add: all_lanes_def)
  then show ?thesis using assms fault
    by (auto simp: harness_call_def Let_def case_prod_unfold split: option.split sum.split)
qed

lemma acquired: "all_lanes P h \<Longrightarrow> all_lanes P (snd (acquire_lane name createAt now h))"
proof -
  assume P: "all_lanes P h"
  have "all_lanes P (h'\<lparr>ha_lanes := map_set name (new_lane name state) (ha_lanes h'), ha_log := evs\<rparr>)"
    if h: "all_lanes P h'" for h' state evs
    using all_lanes_set[OF h built, of name name state] by (simp add: all_lanes_def)
  then show ?thesis using P
    by (auto simp: acquire_lane_def intro!: called split: option.split lane_acquired.split)
qed

lemma cleared: "all_lanes P h \<Longrightarrow> all_lanes P (update_lane name (clear_drive serial) h)"
  by (rule all_lanes_update[where P = P]) (simp_all add: clear_drive_def released)

lemma configured: "all_lanes P h \<Longrightarrow> all_lanes P (snd (setConfig update event h))"
  by (auto simp: setConfig_def all_lanes_def split: option.splits)

lemma valued: "all_lanes P h \<Longrightarrow> all_lanes P (snd (harness_setName title now h))"
  "all_lanes P h \<Longrightarrow> all_lanes P (snd (harness_setLabel targetId label now h))"
  unfolding harness_setName_def harness_setLabel_def by (erule called, simp add: all_lanes_log)+

lemma closed: "all_lanes P h \<Longrightarrow> all_lanes P (harness_close h)"
  using all_lanes_seal[where P = P, OF sealed, of h HarnessWasClosed] by (simp add: harness_close_def all_lanes_def)

lemma failed: "all_lanes P h \<Longrightarrow> all_lanes P (snd (drive_failed name serial h))"
  using fault cleared by (auto simp: drive_failed_def Let_def case_prod_unfold split: option.splits)

lemma step: "kernel_step h h' \<Longrightarrow> all_lanes P h \<Longrightarrow> all_lanes P h'"
proof (induction rule: kernel_step.induct)
  case (kernel_wait h name)
  then show ?case unfolding waitForIdle_def by (intro all_lanes_claim[where P = P, OF _ sealed]) auto
next
  case (kernel_release h name owner)
  then show ?case unfolding idle_release_def by (intro all_lanes_update[where P = P]) (simp_all add: unclaimed)
next
  case (kernel_fault h name l d)
  then show ?case using fault[of "h\<lparr>ha_session := d\<rparr>"] by (simp add: all_lanes_def)
next
  case (kernel_publish h name l d nx events)
  then show ?case using published[of l nx] all_lanes_get[of P h name l] all_lanes_set[of P h "l\<lparr>ln_state := nx\<rparr>" name]
    by (simp add: all_lanes_def)
next
  case (kernel_spend name serial h)
  then show ?case by (intro all_lanes_spend[where P = P]) (simp_all add: spent)
qed (simp_all add: drive_claimed cleared failed idle_claimed acquired valued closed configured all_lanes_log)

lemma reachable: "harness_reachable options session h \<Longrightarrow> all_lanes P h"
proof (induction rule: harness_reachable.induct)
  case (attached h ops)
  then obtain restored se where h: "h = new_harness options se restored"
    by (auto simp: createAgentHarness_def split: if_splits prod.splits sum.splits)
  have "\<forall>(name, l) \<in> set (foldl (\<lambda>m (name, state). map_set name (new_lane name state) m) acc restored). P l"
    if "\<forall>(name, l) \<in> set acc. P l" for acc
    using that
  proof (induction restored arbitrary: acc)
    case (Cons x xs)
    obtain name state where x: "x = (name, state)" by (cases x)
    have "\<forall>(name, l) \<in> set (map_set name (new_lane name state) acc). P l"
      using Cons.prems built set_update_subset[of name "new_lane name state" acc] by fastforce
    then show ?case using Cons.IH x by simp
  qed simp
  from this[of "[]"] show ?case by (simp add: h new_harness_def all_lanes_def)
qed (rule kernel_steps_keep[where Q = "all_lanes P", OF step_kernel _ step])

end

text \<open>An idle owner has the lane to itself.\<close>

interpretation idle: lane_invariant "\<lambda>l. ln_idle l \<noteq> None \<longrightarrow> is_idle l"
  by unfold_locales (auto simp: new_lane_def lane_seal_def is_idle_def spend_permit_def)

text \<open>A drive may poll a deferred response at most once.\<close>

interpretation permits: lane_invariant "\<lambda>l. pred_option (\<lambda>d. dr_deferredPermits d \<in> {0, 1}) (ln_drive l)"
  by unfold_locales (auto simp: new_lane_def lane_seal_def new_drive_def spend_permit_def holds_permit_def split: option.splits)

section \<open>A halted harness\<close>

definition halted :: "harness \<Rightarrow> bool" where
  "halted h \<longleftrightarrow> ha_faulted h \<noteq> None \<or> ha_closed h \<noteq> None"

definition sealed_ok :: "harness \<Rightarrow> bool" where
  "sealed_ok h \<longleftrightarrow> (halted h \<longrightarrow> all_lanes (\<lambda>l. ln_closed l \<noteq> None) h)"

lemma sealed_ok_fields:
  "sealed_ok (h\<lparr>ha_session := se\<rparr>) = sealed_ok h" "sealed_ok (h\<lparr>ha_log := evs\<rparr>) = sealed_ok h"
  "sealed_ok (h\<lparr>ha_serial := n\<rparr>) = sealed_ok h" "sealed_ok (h\<lparr>ha_config := c\<rparr>) = sealed_ok h"
  by (simp_all add: sealed_ok_def halted_def all_lanes_def)

lemma sealed_all: "\<forall>(name, l) \<in> set (seal_lanes e lanes). ln_closed l \<noteq> None"
  by (auto simp: seal_lanes_def lane_seal_def split: option.splits)

lemma sealed_fault: "sealed_ok h \<Longrightarrow> sealed_ok (snd (harness_fault h))"
  using sealed_all[of HarnessFaulted "ha_lanes h"]
  by (auto simp: harness_fault_def sealed_ok_def halted_def all_lanes_def split: option.splits)

lemma sealed_run:
  assumes s: "sealed_ok h"
  shows "sealed_ok (snd (run_on_line name job h))"
proof -
  obtain out h' where run: "run_on_line name job h = (out, h')" by fastforce
  show ?thesis
  proof (cases rule: run_on_line_cases[OF run])
    case 1
    then show ?thesis using s run by simp
  next
    case (2 d)
    then show ?thesis using sealed_fault[of "h\<lparr>ha_session := d\<rparr>"] s run by (simp add: sealed_ok_fields)
  next
    case (3 l l' r events d)
    then have "\<not> halted h" using s all_lanes_get[of "\<lambda>l. ln_closed l \<noteq> None" h name l] by (auto simp: sealed_ok_def)
    then show ?thesis using 3 run by (simp add: sealed_ok_def halted_def)
  qed
qed

lemma halted_run: "sealed_ok h \<Longrightarrow> halted h \<Longrightarrow> snd (run_on_line name job h) = h"
  using all_lanes_get[of "\<lambda>l. ln_closed l \<noteq> None" h name]
  by (auto simp: run_on_line_def sealed_ok_def split: option.splits)

lemma sealed_update:
  assumes "sealed_ok h" "\<And>l. ln_closed (f l) = ln_closed l"
  shows "sealed_ok (update_lane name f h)"
proof (cases "halted h")
  case True
  then have "all_lanes (\<lambda>l. ln_closed l \<noteq> None) (update_lane name f h)"
    using assms by (intro all_lanes_update) (simp_all add: sealed_ok_def)
  then show ?thesis by (simp add: sealed_ok_def)
qed (auto simp: sealed_ok_def update_lane_def halted_def split: option.splits)

lemma sealed_call:
  assumes "sealed_ok h" "\<And>r h'. \<not> halted h' \<Longrightarrow> sealed_ok (snd (k r h'))"
  shows "sealed_ok (snd (harness_call job h k))"
  using assms sealed_fault[of "h\<lparr>ha_session := d\<rparr>" for d]
  by (auto simp: harness_call_def Let_def case_prod_unfold halted_def sealed_ok_fields split: option.split sum.split)

lemma sealed_value: "sealed_ok h \<Longrightarrow> sealed_ok (snd (harness_setName title now h))"
  "sealed_ok h \<Longrightarrow> sealed_ok (snd (harness_setLabel targetId label now h))"
  unfolding harness_setName_def harness_setLabel_def by (erule sealed_call, simp add: sealed_ok_def halted_def)+

lemma sealed_acquire: "sealed_ok h \<Longrightarrow> sealed_ok (snd (acquire_lane name createAt now h))"
  by (auto simp: acquire_lane_def intro!: sealed_call split: option.split lane_acquired.split)
    (simp_all add: sealed_ok_def halted_def)

lemma sealed_drive: "sealed_ok h \<Longrightarrow> sealed_ok (snd (drive_claim name aborted options h))"
  using drive_claim_state[of name aborted options h] by (auto simp: lane_claim_def sealed_run sealed_ok_fields)

lemma sealed_idle: "sealed_ok h \<Longrightarrow> sealed_ok (snd (idle_claim name h))"
  using idle_claim_state[of name h] by (auto simp: lane_claim_def sealed_run sealed_ok_fields)

lemma sealed_failed: "sealed_ok h \<Longrightarrow> sealed_ok (snd (drive_failed name serial h))"
  using sealed_fault
  by (auto simp: drive_failed_def Let_def case_prod_unfold clear_drive_def intro!: sealed_update split: option.splits)

lemma sealed_step: "kernel_step h h' \<Longrightarrow> sealed_ok h \<Longrightarrow> sealed_ok h'"
proof (induction rule: kernel_step.induct)
  case (kernel_release h name owner)
  then show ?case unfolding idle_release_def by (intro sealed_update) simp_all
next
  case (kernel_clear h name serial)
  then show ?case by (intro sealed_update) (simp_all add: clear_drive_def)
next
  case (kernel_spend name serial h)
  then show ?case by (intro sealed_update) (simp_all add: spend_permit_def)
next
  case (kernel_close h)
  then show ?case using sealed_all[of HarnessWasClosed "ha_lanes h"]
    by (auto simp: harness_close_def sealed_ok_def halted_def all_lanes_def)
next
  case (kernel_fault h name l d)
  then show ?case using sealed_fault[of "h\<lparr>ha_session := d\<rparr>"] by (simp add: sealed_ok_fields)
next
  case (kernel_publish h name l d nx events)
  then have "\<not> halted h" using all_lanes_get[of "\<lambda>l. ln_closed l \<noteq> None" h name l] by (auto simp: sealed_ok_def)
  then show ?case by (simp add: sealed_ok_def halted_def)
qed (auto simp: sealed_drive sealed_failed waitForIdle_def lane_claim_def sealed_idle
    sealed_acquire sealed_value sealed_run setConfig_def sealed_ok_fields split: option.splits)

lemma sealed_reachable: "harness_reachable options session h \<Longrightarrow> sealed_ok h"
proof (induction rule: harness_reachable.induct)
  case (attached h ops)
  then show ?case
    by (auto simp: createAgentHarness_def new_harness_def sealed_ok_def halted_def split: if_splits prod.splits sum.splits)
qed (rule kernel_steps_keep[where Q = sealed_ok, OF step_kernel _ sealed_step])

text \<open>What a halted harness keeps: the stored data and the state of every lane.\<close>

definition frozen :: "harness \<Rightarrow> harness \<Rightarrow> bool" where
  "frozen h h' \<longleftrightarrow> halted h' \<and> ms_data (se_storage (ha_session h')) = ms_data (se_storage (ha_session h)) \<and>
     (\<forall>name. map_option ln_state (map_get (ha_lanes h') name) = map_option ln_state (map_get (ha_lanes h) name))"

lemma frozen_refl: "halted h \<Longrightarrow> frozen h h"
  by (simp add: frozen_def)

lemma frozen_serial: "halted h \<Longrightarrow> frozen h (h\<lparr>ha_serial := n\<rparr>)"
  by (simp add: frozen_def halted_def)

lemma frozen_emit: "halted h \<Longrightarrow> frozen h (h\<lparr>ha_log := evs\<rparr>)"
  by (simp add: frozen_def halted_def)

lemma frozen_update: "halted h \<Longrightarrow> (\<And>l. ln_state (f l) = ln_state l) \<Longrightarrow> frozen h (update_lane name f h)"
  by (auto simp: frozen_def halted_def update_lane_def update_conv' split: option.splits)

lemma halted_call: "halted h \<Longrightarrow> snd (harness_call job h k) = h"
  by (auto simp: harness_call_def halted_def split: option.splits)

lemma halted_fault: "halted h \<Longrightarrow> snd (harness_fault h) = h"
  by (auto simp: harness_fault_def halted_def split: option.splits)

lemma frozen_drive: "sealed_ok h \<Longrightarrow> halted h \<Longrightarrow> frozen h (snd (drive_claim name aborted options h))"
  using drive_claim_state[of name aborted options h] by (auto simp: lane_claim_def halted_run frozen_refl frozen_serial)

lemma frozen_idle: "sealed_ok h \<Longrightarrow> halted h \<Longrightarrow> frozen h (snd (idle_claim name h))"
  using idle_claim_state[of name h] by (auto simp: lane_claim_def halted_run frozen_refl frozen_serial)

lemma frozen_failed: "halted h \<Longrightarrow> frozen h (snd (drive_failed name serial h))"
  by (auto simp: drive_failed_def halted_fault frozen_refl Let_def case_prod_unfold clear_drive_def intro!: frozen_update split: option.splits)

lemma frozen_close: "halted h \<Longrightarrow> frozen h (harness_close h)"
proof -
  have "lane_seal e l = l\<lparr>ln_closed := ln_closed (lane_seal e l)\<rparr>" for e l by (simp add: lane_seal_def)
  then have "ln_state (lane_seal e l) = ln_state l" for e l by (simp add: lane_seal_def)
  then show "halted h \<Longrightarrow> frozen h (harness_close h)"
    by (auto simp: harness_close_def frozen_def halted_def session_close_def memory_close_def map_get_seal
        option.map_comp comp_def)
qed

lemma halted_kernel: "kernel_step h h' \<Longrightarrow> sealed_ok h \<Longrightarrow> halted h \<Longrightarrow> frozen h h'"
proof (induction rule: kernel_step.induct)
  case (kernel_config update h event)
  then show ?case by (auto simp: setConfig_def halted_def frozen_def split: option.splits)
next
  case (kernel_fault h name l d)
  then show ?case using all_lanes_get[of "\<lambda>l. ln_closed l \<noteq> None" h name l] by (auto simp: sealed_ok_def)
next
  case (kernel_publish h name l d nx events)
  then show ?case using all_lanes_get[of "\<lambda>l. ln_closed l \<noteq> None" h name l] by (auto simp: sealed_ok_def)
qed (auto simp: halted_run frozen_drive frozen_failed waitForIdle_def lane_claim_def frozen_idle
    acquire_lane_def halted_call harness_setName_def harness_setLabel_def idle_release_def clear_drive_def
    frozen_refl frozen_close frozen_emit spend_permit_def halted_def frozen_update split: option.splits)

lemma frozen_trans: "frozen h h1 \<Longrightarrow> frozen h1 h2 \<Longrightarrow> frozen h h2"
  by (simp add: frozen_def)

lemma halted_step:
  assumes "harness_step h h'" "sealed_ok h" "halted h"
  shows "frozen h h'"
proof -
  have "sealed_ok h' \<and> frozen h h'"
  proof (rule kernel_steps_keep[OF step_kernel[OF assms(1)]])
    show "sealed_ok h \<and> frozen h h" using assms(2,3) by (simp add: frozen_refl)
    fix h1 h2 assume k: "kernel_step h1 h2" and f: "sealed_ok h1 \<and> frozen h h1"
    then have "frozen h1 h2" by (intro halted_kernel[OF k]) (simp_all add: frozen_def)
    then show "sealed_ok h2 \<and> frozen h h2" using f sealed_step[OF k] frozen_trans by blast
  qed
  then show ?thesis ..
qed

section \<open>The configuration\<close>

definition config_ok :: "harness_config \<Rightarrow> bool" where
  "config_ok c \<longleftrightarrow> validateRetryPolicy (cf_retryPolicy c) \<and> validateCompactionSettings (cf_compaction c)"

lemma config_fault: "ha_config (snd (harness_fault h)) = ha_config h"
  by (simp add: harness_fault_lanes)

lemma config_line: "ha_config (snd (lane_claim name plan h)) = ha_config h"
proof -
  obtain out h' where run: "lane_claim name plan h = (out, h')" by fastforce
  show ?thesis
    by (cases rule: run_on_line_cases[OF run[unfolded lane_claim_def]]) (simp_all add: run config_fault)
qed

lemma config_update: "ha_config (update_lane name f h) = ha_config h"
  by (simp add: update_lane_def split: option.split)

lemma config_call:
  "(\<And>r h'. ha_config (snd (k r h')) = ha_config h') \<Longrightarrow> ha_config (snd (harness_call job h k)) = ha_config h"
  by (auto simp: harness_call_def Let_def case_prod_unfold config_fault split: option.split sum.split)

lemma config_step: "kernel_step h h' \<Longrightarrow> config_ok (ha_config h) \<Longrightarrow> config_ok (ha_config h')"
proof (induction rule: kernel_step.induct)
  case (kernel_config update h event)
  then show ?case by (auto simp: setConfig_def config_ok_def split: option.split)
next
  case (kernel_drive h name aborted options)
  then show ?case using drive_claim_state[of name aborted options h]
      config_line[of name "drive_claim_plan name aborted options (ha_serial h)" h] by auto
next
  case (kernel_idle h name)
  then show ?case using idle_claim_state[of name h] config_line[of name "idle_claim_plan (ha_serial h)" h] by auto
next
  case (kernel_acquire h name createAt now)
  have "ha_config (snd (acquire_lane name createAt now h)) = ha_config h"
    by (auto simp: acquire_lane_def intro!: config_call split: option.split lane_acquired.split)
  then show ?case using kernel_acquire by simp
next
  case (kernel_failed h name serial)
  then show ?case
    by (auto simp: drive_failed_def Let_def case_prod_unfold config_fault config_update split: option.split)
qed (simp_all add: config_fault waitForIdle_def config_line config_update idle_release_def harness_setName_def
    harness_setLabel_def config_call harness_close_def)

lemma config_reachable: "harness_reachable options session h \<Longrightarrow> config_ok (ha_config h)"
proof (induction rule: harness_reachable.induct)
  case (attached h ops)
  then show ?case
    by (auto simp: createAgentHarness_def new_harness_def config_ok_def initial_config_def split: if_splits prod.splits sum.splits)
qed (rule kernel_steps_keep[where Q = "\<lambda>h. config_ok (ha_config h)", OF step_kernel _ config_step])

end
