(* ===== verification/HarnessSamples.thy ===== *)
theory HarnessSamples
  imports LaneSteps
begin

text \<open>
  A small harness with one lane and one run, for the witnesses of the properties: attached to an empty session,
  then with the lane \<open>main\<close>, then with the run \<open>op\<close> accepted on it.
\<close>

definition sample_options :: harness_options where
  "sample_options = \<lparr>ho_model = \<lparr>mi_provider = js ''p'', mi_modelId = js ''m''\<rparr>, ho_thinkingLevel = None,
     ho_toolNames = None, ho_activeToolNames = None, ho_skills = None, ho_promptTemplates = None,
     ho_streamOptions = None, ho_retry = None, ho_compaction = None, ho_steeringMode = None,
     ho_followUpMode = None, ho_toolExecution = None, ho_entryProjectors = (\<lambda>c. None)\<rparr>"

definition sample_backed :: backed_session where
  "sample_backed = new_session sample_metadata new_memory_storage"

definition sample_attached :: harness where
  "sample_attached = new_harness sample_options sample_backed []"

definition sample_harness :: harness where
  "sample_harness = snd (acquire_lane (js ''main'') None 1 sample_attached)"

definition sample_running :: harness where
  "sample_running = snd (accept (\<lambda>es st. Inr None) (\<lambda>es. undefined) (js ''main'')
     (PromptRequest (PromptText (js ''hi'') None)) (js ''op'') 2 [js ''e1''] 2 sample_harness sample_harness)"

lemma sample_options_valid:
  "validateToolNames (or_else (ho_toolNames sample_options) [])"
  "validateRetryPolicy (or_else (ho_retry sample_options) DEFAULT_RETRY_POLICY)"
  "validateCompactionSettings (or_else (ho_compaction sample_options) DEFAULT_COMPACTION_SETTINGS)"
  by code_simp+

lemma sample_create: "createAgentHarness sample_options sample_backed = Inr (sample_attached, [])"
proof -
  have "fst (session_mutate (mutation_read restoreSession) sample_backed) = Inr []"
    "snd (session_mutate (mutation_read restoreSession) sample_backed) = sample_backed" by code_simp+
  then have "session_mutate (mutation_read restoreSession) sample_backed = (Inr [], sample_backed)"
    by (metis prod.collapse)
  then show ?thesis by (simp add: createAgentHarness_def sample_attached_def open_operations_def sample_options_valid)
qed

lemma sample_sound: "session_sound sample_backed"
  unfolding sample_backed_def new_session_def new_memory_storage_def session_sound_def by (simp add: storage_inv_empty)

text \<open>What the examples use of the two states, each evaluated once.\<close>

definition harness_ready :: "harness \<Rightarrow> bool" where
  "harness_ready h \<longleftrightarrow> fresh_operation (js ''main'') (js ''op'') h \<and> map_get (ha_lanes h) (js ''main'') \<noteq> None \<and>
     value_at (ms_data (se_storage (ha_session h))) (ns_pending_entry, js ''e2'') = None \<and>
     js ''e2'' \<notin> ii_entryId ` set (la_inbox (ln_state (the (map_get (ha_lanes h) (js ''main'')))))"

definition harness_running :: "harness \<Rightarrow> bool" where
  "harness_running h \<longleftrightarrow> se_state (ha_session h) = Open \<and> ms_state (se_storage (ha_session h)) = Open \<and>
     map_get (ha_lanes h) (js ''main'') \<noteq> None \<and>
     current_operation_id (ln_state (the (map_get (ha_lanes h) (js ''main'')))) = Some (js ''op'')"

lemma sample_harness_ready: "harness_ready sample_harness"
  by code_simp

lemma sample_harness_running: "harness_running sample_running"
  by code_simp

lemma sample_harness_facts:
  "map_get (ha_lanes sample_harness) (js ''main'') = Some (the (map_get (ha_lanes sample_harness) (js ''main'')))"
  "value_at (ms_data (se_storage (ha_session sample_harness))) (ns_pending_entry, js ''e2'') = None"
  "js ''e2'' \<notin> ii_entryId ` set (la_inbox (ln_state (the (map_get (ha_lanes sample_harness) (js ''main'')))))"
  using sample_harness_ready by (auto simp: harness_ready_def)

lemma sample_running_facts:
  "se_state (ha_session sample_running) = Open" "ms_state (se_storage (ha_session sample_running)) = Open"
  "map_get (ha_lanes sample_running) (js ''main'') = Some (the (map_get (ha_lanes sample_running) (js ''main'')))"
  "current_operation_id (ln_state (the (map_get (ha_lanes sample_running) (js ''main'')))) = Some (js ''op'')"
  using sample_harness_running by (auto simp: harness_running_def)

lemma sample_reachable:
  "harness_reachable sample_options sample_backed sample_attached"
  "harness_reachable sample_options sample_backed sample_harness"
  "harness_reachable sample_options sample_backed sample_running"
proof -
  show a: "harness_reachable sample_options sample_backed sample_attached"
    by (rule harness_reachable.attached[OF sample_create])
  show b: "harness_reachable sample_options sample_backed sample_harness"
    unfolding sample_harness_def by (rule harness_reachable.stepped[OF a harness_step.step_lane])
  have "fresh_operation (js ''main'') (js ''op'') sample_harness"
    using sample_harness_ready by (simp add: harness_ready_def)
  then show "harness_reachable sample_options sample_backed sample_running"
    unfolding sample_running_def by (intro harness_reachable.stepped[OF b harness_step.step_accept])
qed

end
