(* ===== verification/HarnessProps.thy ===== *)
theory HarnessProps
  imports HarnessSamples
begin

text \<open>
  What the harness promises: the properties of every state reachable by its calls, and of the calls themselves.
\<close>

section \<open>Restart\<close>

lemma open_operations_set:
  "set (open_operations restored) = (\<Union>(name, state) \<in> set restored. set (open_operations [(name, state)]))"
  by (auto simp: open_operations_def)

lemma map_get_keyed: "map_get (map (\<lambda>(name, x). (name, f name x)) m) k = map_option (f k) (map_get m k)"
  by (induction m) auto

lemma ln_state_new: "ln_state (new_lane name state) = state"
  by (simp add: new_lane_def)

lemma mutate_read_open:
  "se_state se = Open \<Longrightarrow> ms_state (se_storage se) = Open \<Longrightarrow>
   session_mutate (mutation_read f) se = (f (ms_data (se_storage se)), se)"
  by (simp add: session_mutate_read memory_read_def)

lemma create_restored:
  assumes "validateToolNames (or_else (ho_toolNames options) [])"
    and "validateRetryPolicy (or_else (ho_retry options) DEFAULT_RETRY_POLICY)"
    and "validateCompactionSettings (or_else (ho_compaction options) DEFAULT_COMPACTION_SETTINGS)"
    and "se_state session = Open" "ms_state (se_storage session) = Open"
    and "restoreSession (ms_data (se_storage session)) = Inr m"
  shows "createAgentHarness options session = Inr (new_harness options session m, open_operations m)"
  using assms by (simp add: createAgentHarness_def mutate_read_open)



section \<open>Halting\<close>



text \<open>C20: While an idle callback owns a lane, the lane has no operation and no drive: what the callback sees
  stays as it is until it returns.\<close>

theorem idle_owner_exclusive:
  assumes "harness_reachable options session h" "map_get (ha_lanes h) name = Some l" "ln_idle l \<noteq> None"
  shows "la_operation (ln_state l) = None \<and> ln_drive l = None"
  using idle.reachable[OF assms(1)] all_lanes_get[of _ h name l] assms(2,3) unfolding is_idle_def by fastforce

theorem idle_owner_exclusive_witness:
  "ln_drive (the (map_get (ha_lanes (snd (idle_claim (js ''main'') sample_harness))) (js ''main''))) = None"
proof -
  let ?h = "snd (idle_claim (js ''main'') sample_harness)"
  have "harness_reachable sample_options sample_backed ?h"
    by (rule harness_reachable.stepped[OF sample_reachable(2) harness_step.step_idle_claim])
  moreover have c: "(\<lambda>h. map_get (ha_lanes h) (js ''main'') \<noteq> None \<and> ln_idle (the (map_get (ha_lanes h) (js ''main''))) \<noteq> None) ?h"
    by code_simp
  then have "map_get (ha_lanes ?h) (js ''main'') = Some (the (map_get (ha_lanes ?h) (js ''main'')))" by simp
  moreover have "ln_idle (the (map_get (ha_lanes ?h) (js ''main''))) \<noteq> None" using c by simp
  ultimately show ?thesis using idle_owner_exclusive by blast
qed

section \<open>Durability\<close>



text \<open>An operation is current on one lane only, so two drives never work on the same operation from two lanes.\<close>

theorem operation_on_one_lane:
  assumes "harness_reachable options session h" "session_sound session"
    and "map_get (ha_lanes h) name = Some l" "map_get (ha_lanes h) name' = Some l'"
    and "current_operation_id (ln_state l) = Some i" "current_operation_id (ln_state l') = Some i"
  shows "name = name'"
proof -
  note inv = harness_reachable_inv[OF assms(1,2)]
  show ?thesis
    using lane_image_operation_unique[OF harness_inv_lane[OF inv assms(3)] harness_inv_lane[OF inv assms(4)] _ assms(5)]
      assms(6) by blast
qed

theorem operation_on_one_lane_witness:
  "js ''main'' = js ''main'' \<and> current_operation_id (ln_state (the (map_get (ha_lanes sample_running) (js ''main'')))) = Some (js ''op'')"
proof -
  note l = sample_running_facts(3) and i = sample_running_facts(4)
  show ?thesis using operation_on_one_lane[OF sample_reachable(3) sample_sound l l i i] i by blast
qed

section \<open>Retry delays\<close>

lemma power_max: "MAX_SAFE_INTEGER < 2 ^ 1024"
  unfolding MAX_SAFE_INTEGER_def by simp

lemma safe_delay:
  assumes "is_safe_integer b" "0 \<le> b" "is_safe_integer m" "0 \<le> m" "e < 1024 \<or> 0 < b"
  shows "min (safe_or_max (scaled_delay b e)) m = min (b * 2 ^ e) m"
proof -
  have m: "m \<le> MAX_SAFE_INTEGER" using assms(3) by (simp add: is_safe_integer_def)
  show ?thesis
  proof (cases "e < 1024")
    case True
    have "0 \<le> b * 2 ^ e" using assms(2) by simp
    moreover have "\<not> is_safe_integer (b * 2 ^ e) \<Longrightarrow> MAX_SAFE_INTEGER < b * 2 ^ e"
      using \<open>0 \<le> b * 2 ^ e\<close> unfolding is_safe_integer_def MAX_SAFE_INTEGER_def by linarith
    ultimately show ?thesis using True m by (auto simp: scaled_delay_def safe_or_max_def)
  next
    case False
    then have "(2::int) ^ 1024 \<le> 2 ^ e" by (intro power_increasing) simp_all
    moreover have "2 ^ e \<le> b * 2 ^ e" using assms(5) False by simp
    ultimately have "MAX_SAFE_INTEGER < b * 2 ^ e" using power_max by linarith
    then show ?thesis using False m by (simp add: scaled_delay_def safe_or_max_def)
  qed
qed

text \<open>C23: The retry policy every generation captures allows at least one attempt and at most a safe integer of
  them, and the delay before a retry is the base delay doubled for each attempt made, up to the policy's cap; the
  time to wait for is never in the past and stays a safe integer.\<close>

theorem retry_delay_bounds:
  assumes "harness_reachable options session h" and p: "p = normalizedRetryPolicy (ha_config h)"
    and "1 \<le> attempt" "attempt \<le> 1024 \<or> 0 < rp_baseDelayMs p" and now: "is_safe_integer now" "0 \<le> now"
  shows "1 \<le> rp_maxAttempts p \<and> rp_maxAttempts p \<le> MAX_SAFE_INTEGER \<and>
    retryDelayMs (rp_baseDelayMs p) (Some (rp_maxAgentDelayMs p)) attempt =
      min (rp_baseDelayMs p * 2 ^ nat (attempt - 1)) (rp_maxAgentDelayMs p) \<and>
    now \<le> retryNotBefore p attempt now \<and> is_safe_integer (retryNotBefore p attempt now)"
proof -
  have ok: "validateRetryPolicy (cf_retryPolicy (ha_config h))"
    using config_reachable[OF assms(1)] by (simp add: config_ok_def)
  have cap: "is_safe_integer (rp_maxAgentDelayMs p)" "0 \<le> rp_maxAgentDelayMs p"
    using ok by (auto simp: p normalizedRetryPolicy_def validateRetryPolicy_def Let_def is_safe_integer_def
        MAX_SAFE_INTEGER_def DEFAULT_MAX_AGENT_RETRY_DELAY_MS_def split: option.splits)
  have base: "is_safe_integer (rp_baseDelayMs p)" "0 \<le> rp_baseDelayMs p"
    using ok by (auto simp: p normalizedRetryPolicy_def validateRetryPolicy_def Let_def)
  have attempts: "1 \<le> rp_maxAttempts p \<and> rp_maxAttempts p \<le> MAX_SAFE_INTEGER"
    using ok by (auto simp: p normalizedRetryPolicy_def validateRetryPolicy_def Let_def is_safe_integer_def MAX_SAFE_INTEGER_def)
  have delay: "retryDelayMs (rp_baseDelayMs p) (Some (rp_maxAgentDelayMs p)) attempt =
      min (rp_baseDelayMs p * 2 ^ nat (attempt - 1)) (rp_maxAgentDelayMs p)"
  proof -
    have "nat (attempt - 1) < 1024 \<or> 0 < rp_baseDelayMs p" using assms(3,4) by linarith
    then show ?thesis using safe_delay[OF base cap] assms(3) by (simp add: retryDelayMs_def)
  qed
  moreover have "0 \<le> min (rp_baseDelayMs p * 2 ^ nat (attempt - 1)) (rp_maxAgentDelayMs p)"
    using base(2) cap(2) by simp
  ultimately show ?thesis
    using attempts now cap
    by (auto simp: retryNotBefore_def safe_or_max_def is_safe_integer_def MAX_SAFE_INTEGER_def)
qed

theorem retry_delay_bounds_witness:
  "retryDelayMs 1000 (Some 60000) 3 = 4000 \<and> 1 \<le> rp_maxAttempts (normalizedRetryPolicy (ha_config sample_attached))"
proof -
  have p: "rp_baseDelayMs (normalizedRetryPolicy (ha_config sample_attached)) = 1000"
    "rp_maxAgentDelayMs (normalizedRetryPolicy (ha_config sample_attached)) = 60000" by code_simp+
  show ?thesis
    using retry_delay_bounds[OF sample_reachable(1) refl, of 3 5] unfolding p
    by (simp add: is_safe_integer_def MAX_SAFE_INTEGER_def)
qed

end
