(* ===== verification/QueueProps.thy ===== *)
theory QueueProps
  imports HarnessSamples
begin

text \<open>
  What the queues of a lane promise: which queued input an acceptance takes, what a boundary places on the
  branch, and that queueing and cancelling are inverse.
\<close>

section \<open>Taking queued input\<close>

definition free_kind :: "inbox_item_kind \<Rightarrow> queue_mode \<Rightarrow> bool \<Rightarrow> inbox_item list \<Rightarrow> nat \<Rightarrow> bool" where
  "free_kind kind mode taken inbox k \<longleftrightarrow>
     ii_kind (inbox ! k) = kind \<and> (mode = AllItems \<or> \<not> taken \<and> kind \<notin> ii_kind ` set (take k inbox))"

definition eligible :: "queue_mode \<Rightarrow> queue_mode \<Rightarrow> bool \<Rightarrow> bool \<Rightarrow> inbox_item list \<Rightarrow> nat \<Rightarrow> bool" where
  "eligible sm fm st ft inbox k \<longleftrightarrow>
     ii_kind (inbox ! k) = WriteItem \<or> ii_kind (inbox ! k) = NextRun \<or>
     free_kind Steer sm st inbox k \<or> free_kind FollowUp fm ft inbox k"

lemma eligible_Suc:
  "eligible sm fm st ft (x # xs) (Suc k) =
   eligible sm fm (st \<or> ii_kind x = Steer) (ft \<or> ii_kind x = FollowUp) xs k"
  by (auto simp: eligible_def free_kind_def)

lemma select_inbox_loop_nths:
  "select_inbox_loop sm fm inbox st ft selected remainder =
     (selected @ nths inbox {k. eligible sm fm st ft inbox k}, remainder @ nths inbox {k. \<not> eligible sm fm st ft inbox k})"
proof (induction sm fm inbox st ft selected remainder rule: select_inbox_loop.induct)
  case (2 sm fm item items st ft selected remainder)
  let ?c = "ii_kind item = WriteItem \<or> ii_kind item = NextRun \<or>
      ii_kind item = Steer \<and> (sm = AllItems \<or> \<not> st) \<or> ii_kind item = FollowUp \<and> (fm = AllItems \<or> \<not> ft)"
  have zero: "eligible sm fm st ft (item # items) 0 \<longleftrightarrow> ?c"
    by (auto simp: eligible_def free_kind_def)
  show ?case
  proof (cases ?c)
    case True
    then have loop: "select_inbox_loop sm fm (item # items) st ft selected remainder =
        select_inbox_loop sm fm items (st \<or> ii_kind item = Steer) (ft \<or> ii_kind item = FollowUp) (selected @ [item]) remainder"
      by (simp only: select_inbox_loop.simps if_True)
    show ?thesis unfolding loop 2(1)[OF True] using True zero by (simp add: nths_Cons eligible_Suc)
  next
    case False
    then have loop: "select_inbox_loop sm fm (item # items) st ft selected remainder =
        select_inbox_loop sm fm items st ft selected (remainder @ [item])"
      by (simp only: select_inbox_loop.simps if_False)
    have flags: "eligible sm fm (st \<or> ii_kind item = Steer) (ft \<or> ii_kind item = FollowUp) items k = eligible sm fm st ft items k" for k
      using False by (cases "ii_kind item") (auto simp: eligible_def free_kind_def)
    have no: "\<not> eligible sm fm st ft (item # items) 0" using False zero by blast
    show ?thesis unfolding loop 2(2)[OF False] by (simp add: nths_Cons no eligible_Suc flags)
  qed
qed simp

text \<open>An acceptance takes, in queue order, every queued write and next-run message, and every steering and
  follow-up message, or only the first of each where its mode is one at a time; the rest stays queued, in order.\<close>

theorem selectAcceptedInbox_splits:
  "selectAcceptedInbox inbox sm fm =
     (nths inbox {k. ii_kind (inbox ! k) = WriteItem \<or> ii_kind (inbox ! k) = NextRun \<or>
        ii_kind (inbox ! k) = Steer \<and> (sm = AllItems \<or> Steer \<notin> ii_kind ` set (take k inbox)) \<or>
        ii_kind (inbox ! k) = FollowUp \<and> (fm = AllItems \<or> FollowUp \<notin> ii_kind ` set (take k inbox))},
      nths inbox {k. \<not> (ii_kind (inbox ! k) = WriteItem \<or> ii_kind (inbox ! k) = NextRun \<or>
        ii_kind (inbox ! k) = Steer \<and> (sm = AllItems \<or> Steer \<notin> ii_kind ` set (take k inbox)) \<or>
        ii_kind (inbox ! k) = FollowUp \<and> (fm = AllItems \<or> FollowUp \<notin> ii_kind ` set (take k inbox)))})"
  by (simp add: selectAcceptedInbox_def select_inbox_loop_nths eligible_def free_kind_def)

definition sample_inbox :: "inbox_item list" where
  "sample_inbox = map (\<lambda>(i, k). \<lparr>ii_entryId = js i, ii_kind = k\<rparr>)
     [(''a'', Steer), (''b'', FollowUp), (''c'', Steer), (''d'', WriteItem)]"

theorem selectAcceptedInbox_splits_witness:
  "map ii_entryId (fst (selectAcceptedInbox sample_inbox OneAtATime AllItems)) = [js ''a'', js ''b'', js ''d''] \<and>
   set (fst (selectAcceptedInbox sample_inbox OneAtATime AllItems)) \<subseteq> set sample_inbox"
proof
  show "map ii_entryId (fst (selectAcceptedInbox sample_inbox OneAtATime AllItems)) = [js ''a'', js ''b'', js ''d'']"
    by code_simp
  show "set (fst (selectAcceptedInbox sample_inbox OneAtATime AllItems)) \<subseteq> set sample_inbox"
    unfolding selectAcceptedInbox_splits by (auto simp: set_nths)
qed

section \<open>Queueing and cancelling\<close>

text \<open>A command whose commit is admissible is carried out.\<close>

lemma command_commits:
  assumes inv: "harness_inv h" and l: "map_get (ha_lanes h) name = Some l"
    and live: "ln_closed l = None" "ln_idle l = None" "se_state (ha_session h) = Open"
    and plan: "plan (ln_state l) (ms_data (se_storage (ha_session h))) = Inr (CommandCommit ws nx mat evs)"
    and ok: "list_all addressed ws" "admissible (ms_data (se_storage (ha_session h))) ws" "\<not> list_ex is_pending_write ws"
  shows "\<exists>c d. lane_command name plan now h = (Returned (mat c),
      h\<lparr>ha_session := (ha_session h)\<lparr>se_storage := (se_storage (ha_session h))\<lparr>ms_data := d\<rparr>\<rparr>,
        ha_lanes := map_set name (l\<lparr>ln_state := nx\<rparr>) (ha_lanes h), ha_log := ha_log h @ evs c\<rparr>) \<and>
    value_at d = write_values ws (value_at (ms_data (se_storage (ha_session h))))"
proof -
  let ?ms = "se_storage (ha_session h)"
  have s: "storage_inv (ms_data ?ms)" "ms_state ?ms = Open" using inv live(3) by (simp_all add: harness_inv_def)
  obtain d r where m: "memory_commit ws now ?ms = (Inr r, ?ms\<lparr>ms_data := d\<rparr>)"
    and c: "commitStorage ws now (ms_data ?ms) = (d, Inr r)"
    by (rule memory_commit_accepted[OF s ok(1,2)])
  have "value_at d = write_values ws (value_at (ms_data ?ms))" by (rule commitStorage_values[OF s(1) ok(1) c])
  moreover have "lane_command name plan now h = (Returned (mat r),
      h\<lparr>ha_session := (ha_session h)\<lparr>se_storage := ?ms\<lparr>ms_data := d\<rparr>\<rparr>,
        ha_lanes := map_set name (l\<lparr>ln_state := nx\<rparr>) (ha_lanes h), ha_log := ha_log h @ evs r\<rparr>)"
    using l live plan s(2) ok(3) m
    by (simp add: lane_command_def run_on_line_def session_mutate_def command_job_def act_bind_def
      mutation_read_def mutation_commit_def memory_read_def mutation_end_def Let_def)
  ultimately show ?thesis by blast
qed

lemma returned_commit:
  assumes inv: "harness_inv h" and run: "lane_command name plan now h = (Returned out, h')"
    and plan: "\<And>state s d. plan state s = Inr d \<Longrightarrow> \<exists>ws nx mat evs. d = CommandCommit ws nx mat evs"
  obtains l ws nx mat evs d c where "map_get (ha_lanes h) name = Some l" "ln_closed l = None"
    "ln_idle l = None" "se_state (ha_session h) = Open"
    "plan (ln_state l) (ms_data (se_storage (ha_session h))) = Inr (CommandCommit ws nx mat evs)"
    "commitStorage ws now (ms_data (se_storage (ha_session h))) = (d, Inr c)" "\<not> list_ex is_pending_write ws" "out = mat c"
    "h' = h\<lparr>ha_session := (ha_session h)\<lparr>se_storage := (se_storage (ha_session h))\<lparr>ms_data := d\<rparr>\<rparr>,
         ha_lanes := map_set name (l\<lparr>ln_state := nx\<rparr>) (ha_lanes h), ha_log := ha_log h @ evs c\<rparr>"
proof -
  obtain l where l: "map_get (ha_lanes h) name = Some l"
    using run by (cases "map_get (ha_lanes h) name") (auto simp: lane_command_def run_on_line_def)
  have live: "ln_idle l = None" "se_state (ha_session h) = Open"
    using run l by (auto simp: lane_command_def run_on_line_def session_mutate_def split: option.splits if_splits)
  show thesis
  proof (cases rule: lane_command_cases[OF l inv run])
    case (2 f)
    then show thesis by simp
  next
    case 3
    then show thesis using plan by fastforce
  next
    case (4 ws nx mat evs d e)
    then show thesis by (auto split: prod.splits)
  next
    case (5 ws nx mat evs d c)
    then show thesis using that[OF l 5(1) live] by blast
  qed blast
qed

lemma read_pending_eq:
  "read_pending s i = (if has_nul i then Inl NulInKey
     else case value_at s (ns_pending_entry, i) of None \<Rightarrow> Inr None | Some v \<Rightarrow> ebind (as_pending v) (\<lambda>p. Inr (Some p)))"
proof -
  have "read_pending s i = read_slot (pendingEntry i) as_pending s"
    by (simp add: read_pending_def read_slot_def)
  then show ?thesis by (simp add: pendingEntry_def read_slots)
qed

lemma readLaneQueues_cong:
  assumes "\<And>item. item \<in> set inbox \<Longrightarrow>
    value_at s (ns_pending_entry, ii_entryId item) = value_at s' (ns_pending_entry, ii_entryId item)"
  shows "readLaneQueues s inbox = readLaneQueues s' inbox"
proof -
  have "map (queued_item s) inbox = map (queued_item s') inbox"
    using assms by (simp add: queued_item_def read_pending_eq)
  then show ?thesis by (simp only: readLaneQueues_def)
qed

lemma enqueue_plan_commit:
  "enqueue_plan name kind message entryId state s = Inr dec \<longleftrightarrow>
     \<not> has_nul entryId \<and> \<not> has_nul name \<and>
     (\<exists>queues. readLaneQueues s (la_inbox state) = Inr queues \<and>
       (let inbox = la_inbox state @ [\<lparr>ii_entryId = entryId, ii_kind = kind\<rparr>] in
        dec = CommandCommit [WValueSet ns_pending_entry entryId (VPending (PendingMessage message)),
          WValueSet ns_lane_state name (VLaneState
            (durableLaneState (current_operation_id state) inbox (la_lastOperationId state)))]
          (state\<lparr>la_inbox := inbox\<rparr>) (\<lambda>commit. Inr entryId)
          (\<lambda>commit. [lane_event name (QueueUpdate (queues @ [QueuedMessage entryId kind message]))])))"
  by (auto simp: enqueue_plan_def Let_def ebind_eq_Inr_iff pendingEntry_def mkValue_eq_Inr setValue_def lane_slot_write_eq)

lemma cancel_plan_commit:
  assumes "\<not> has_nul entryId" "\<not> has_nul name" "value_at s (ns_pending_entry, entryId) \<noteq> None"
    and "entryId \<in> ii_entryId ` set (la_inbox state)"
    and "inbox = filter (\<lambda>item. ii_entryId item \<noteq> entryId) (la_inbox state)"
    and "readLaneQueues s inbox = Inr queues"
  shows "cancelQueued_plan name entryId state s = Inr (CommandCommit
    [WValueDelete ns_pending_entry entryId, WValueSet ns_lane_state name (VLaneState
       (durableLaneState (current_operation_id state) inbox (la_lastOperationId state)))]
    (state\<lparr>la_inbox := inbox\<rparr>) (\<lambda>commit. Inr Cancelled) (\<lambda>commit. [lane_event name (QueueUpdate queues)]))"
proof -
  obtain q where q: "List.find (\<lambda>item. ii_entryId item = entryId) (la_inbox state) = Some q"
    using assms(4) by (cases "List.find (\<lambda>item. ii_entryId item = entryId) (la_inbox state)") (auto simp: find_None_iff)
  have slot: "pendingEntry entryId = Inr \<lparr>ad_namespace = ns_pending_entry, ad_key = entryId, ad_kind = ValueKind\<rparr>"
    using assms(1) by (simp add: pendingEntry_def mkValue_eq_Inr)
  have "getValue \<lparr>ad_namespace = ns_pending_entry, ad_key = entryId, ad_kind = ValueKind\<rparr> s \<noteq> None"
    using getValue_value_at[of ns_pending_entry entryId s] assms(3) by auto
  moreover have "lane_slot_write name state inbox = Inr (WValueSet ns_lane_state name (VLaneState
       (durableLaneState (current_operation_id state) inbox (la_lastOperationId state))))"
    using assms(2) by (simp add: lane_slot_write_eq)
  ultimately show ?thesis
    using assms(6) by (simp add: cancelQueued_plan_def q slot Let_def deleteValue_def assms(5)[symmetric])
qed

text \<open>C22: Queueing a message and cancelling it again is undone completely: the second call reports the item as
  cancelled, the lane is exactly as before, and every stored value is.\<close>

theorem enqueue_cancel_roundtrip:
  assumes "harness_reachable options session h" "session_sound session"
    and l: "map_get (ha_lanes h) name = Some l"
    and enq: "enqueue name kind input images timestamp entryId now h = (Returned (Inr i), h1)"
    and fresh: "entryId \<notin> ii_entryId ` set (la_inbox (ln_state l))"
      "value_at (ms_data (se_storage (ha_session h))) (ns_pending_entry, entryId) = None"
  shows "i = entryId \<and> (\<exists>h2. cancelQueued name entryId now' h1 = (Returned (Inr Cancelled), h2) \<and>
    map_get (ha_lanes h2) name = Some l \<and>
    value_at (ms_data (se_storage (ha_session h2))) = value_at (ms_data (se_storage (ha_session h))))"
proof -
  let ?V = "value_at (ms_data (se_storage (ha_session h)))"
  have inv: "harness_inv h" by (rule harness_reachable_inv[OF assms(1,2)])
  obtain message where cmd: "lane_command name (enqueue_plan name kind message entryId) now h = (Returned (Inr i), h1)"
    using enq l by (auto simp: enqueue_def when_open_def split: option.splits sum.splits if_splits)
  have shape: "\<exists>ws nx mat evs. dec = CommandCommit ws nx mat evs"
    if "enqueue_plan name kind message entryId state s = Inr dec" for state s dec
    using that by (auto simp: enqueue_plan_commit Let_def)
  show ?thesis
  proof (rule returned_commit[OF inv cmd shape], assumption)
    fix l' ws nx mat evs d c
    assume l': "map_get (ha_lanes h) name = Some l'" and live: "ln_closed l' = None" "ln_idle l' = None"
      "se_state (ha_session h) = Open"
      and p: "enqueue_plan name kind message entryId (ln_state l') (ms_data (se_storage (ha_session h))) = Inr (CommandCommit ws nx mat evs)"
      and c: "commitStorage ws now (ms_data (se_storage (ha_session h))) = (d, Inr c)" and out: "Inr i = mat c"
      and h1: "h1 = h\<lparr>ha_session := (ha_session h)\<lparr>se_storage := (se_storage (ha_session h))\<lparr>ms_data := d\<rparr>\<rparr>,
         ha_lanes := map_set name (l'\<lparr>ln_state := nx\<rparr>) (ha_lanes h), ha_log := ha_log h @ evs c\<rparr>"
    let ?state = "ln_state l"
    have eq: "l' = l" using l l' by simp
    let ?new = "la_inbox ?state @ [\<lparr>ii_entryId = entryId, ii_kind = kind\<rparr>]"
    obtain queues where nul: "\<not> has_nul entryId" "\<not> has_nul name"
      and queues: "readLaneQueues (ms_data (se_storage (ha_session h))) (la_inbox ?state) = Inr queues"
      and ws: "ws = [WValueSet ns_pending_entry entryId (VPending (PendingMessage message)),
          WValueSet ns_lane_state name (VLaneState
            (durableLaneState (current_operation_id ?state) ?new (la_lastOperationId ?state)))]"
      and nx: "nx = ?state\<lparr>la_inbox := ?new\<rparr>" and i: "i = entryId"
      using p out by (auto simp: enqueue_plan_commit eq Let_def)
    have addr: "list_all addressed ws" using nul by (simp add: ws slot_defs)
    have sinv: "storage_inv (ms_data (se_storage (ha_session h)))" using inv by (simp add: harness_inv_def)
    have d: "value_at d = write_values ws ?V" by (rule commitStorage_values[OF sinv addr c])
    have inv1: "harness_inv h1" using enqueue_plan.keeps[OF inv, of name kind message entryId now] cmd by simp
    have id_eq: "current_operation_id (?state\<lparr>la_inbox := x\<rparr>) = current_operation_id ?state" for x
      by (simp add: current_operation_id_def)
    have q1: "readLaneQueues d (la_inbox ?state) = Inr queues"
      unfolding queues[symmetric] by (rule readLaneQueues_cong) (use fresh(1) in \<open>auto simp: d ws image_iff\<close>)
    have rest: "la_inbox ?state = filter (\<lambda>item. ii_entryId item \<noteq> entryId) (la_inbox nx)"
      using fresh(1) by (auto simp: nx image_iff intro!: filter_True[symmetric])
    have plan: "cancelQueued_plan name entryId nx d = Inr (CommandCommit
        [WValueDelete ns_pending_entry entryId, WValueSet ns_lane_state name (VLaneState
           (durableLaneState (current_operation_id nx) (la_inbox ?state) (la_lastOperationId nx)))]
        (nx\<lparr>la_inbox := la_inbox ?state\<rparr>) (\<lambda>commit. Inr Cancelled) (\<lambda>commit. [lane_event name (QueueUpdate queues)]))"
      by (rule cancel_plan_commit[OF nul _ _ rest q1]) (simp_all add: d ws nx)
    have restored: "nx\<lparr>la_inbox := la_inbox ?state\<rparr> = ?state" by (simp add: nx)
    let ?ws = "[WValueDelete ns_pending_entry entryId, WValueSet ns_lane_state name (VLaneState
           (durableLaneState (current_operation_id nx) (la_inbox ?state) (la_lastOperationId nx)))]"
    obtain c' d' where run: "lane_command name (cancelQueued_plan name entryId) now' h1 = (Returned (Inr Cancelled),
        h1\<lparr>ha_session := (ha_session h1)\<lparr>se_storage := (se_storage (ha_session h1))\<lparr>ms_data := d'\<rparr>\<rparr>,
          ha_lanes := map_set name (l\<lparr>ln_state := ?state\<rparr>) (ha_lanes h1),
          ha_log := ha_log h1 @ [lane_event name (QueueUpdate queues)]\<rparr>)"
      and d': "value_at d' = write_values ?ws (value_at d)"
      using command_commits[OF inv1, of name "l\<lparr>ln_state := nx\<rparr>" "cancelQueued_plan name entryId" ?ws "nx\<lparr>la_inbox := la_inbox ?state\<rparr>"
          "\<lambda>commit. Inr Cancelled" "\<lambda>commit. [lane_event name (QueueUpdate queues)]" now'] live plan nul
      by (auto simp: h1 eq update_conv' slot_defs admissible_def parents_known_Cons restored)
    have image: "lane_image ?V name ?state" by (rule harness_inv_lane[OF inv l])
    have "value_at d' = ?V"
      unfolding d' d ws using image fresh(2)
      by (auto simp: fun_eq_iff nx id_eq lane_image_def)
    then show ?thesis
      using run live by (auto simp: i cancelQueued_def when_open_def h1 eq update_conv')
  qed
qed

theorem enqueue_cancel_roundtrip_witness:
  "\<exists>h2. cancelQueued (js ''main'') (js ''e2'') 9
      (snd (enqueue (js ''main'') FollowUp (QueueText (js ''go'')) None 3 (js ''e2'') 3 sample_harness)) = (Returned (Inr Cancelled), h2)"
proof -
  let ?l = "the (map_get (ha_lanes sample_harness) (js ''main''))"
  let ?e = "enqueue (js ''main'') FollowUp (QueueText (js ''go'')) None 3 (js ''e2'') 3 sample_harness"
  note l = sample_harness_facts(1) and f = sample_harness_facts(3,2)
  have "fst ?e = Returned (Inr (js ''e2''))" by code_simp
  then have e: "?e = (Returned (Inr (js ''e2'')), snd ?e)" by (metis prod.collapse)
  show ?thesis using enqueue_cancel_roundtrip[OF sample_reachable(2) sample_sound l e f] by blast
qed

end
