(* ===== verification/BoundaryProps.thy ===== *)
theory BoundaryProps
  imports HarnessSamples
begin

text \<open>
  What the boundary of a run places on the branch (\<open>planBoundaryInbox\<close>): a specification over the inbox alone, and
  the proof that the index arithmetic of the code computes it.
\<close>

section \<open>The specification\<close>

definition boundary_choice :: "queue_mode \<Rightarrow> queue_mode \<Rightarrow> bool \<Rightarrow> inbox_item list \<Rightarrow> inbox_item list" where
  "boundary_choice steeringMode followUpMode followed inbox =
     filter (\<lambda>item. ii_kind item = WriteItem \<or>
         item \<in> set (limited steeringMode (filter (\<lambda>i. ii_kind i = Steer) inbox)) \<or>
         followed \<and> item \<in> set (limited followUpMode (filter (\<lambda>i. ii_kind i = FollowUp) inbox))) inbox"

section \<open>Lists with their indices\<close>

lemma zip_index: "x \<in> set (zip [0..<length xs] xs) \<longleftrightarrow> fst x < length xs \<and> snd x = xs ! fst x"
  by (cases x) (auto simp: in_set_zip intro!: exI[of _ "fst x"])

lemma filter_zip_snd: "map snd (filter (\<lambda>x. P (snd x)) (zip [0..<length xs] xs)) = filter P xs"
  using filter_map[of P snd "zip [0..<length xs] xs", symmetric] by (simp add: comp_def)

lemma sorted_zip_filter: "sorted_wrt (<) (map fst (filter P (zip [0..<length xs] xs)))"
proof -
  have "sorted_wrt (\<lambda>x y. fst x < fst y) (zip [0..<length xs] xs)"
    by (simp add: sorted_wrt_iff_nth_less)
  then have "sorted_wrt (\<lambda>x y. fst x < fst y) (filter P (zip [0..<length xs] xs))"
    by (rule sorted_wrt_filter)
  then show ?thesis by (simp add: sorted_wrt_map)
qed

lemma indexed_determined:
  assumes "set L \<subseteq> set (zip [0..<length xs] xs)" "set L' = set L"
    and "sorted_wrt (<) (map fst L)" "sorted_wrt (<) (map fst L')"
  shows "L' = L"
proof -
  have "map fst L' = map fst L"
    by (rule sorted_distinct_set_unique) (use assms(2-4) in \<open>auto simp: strict_sorted_iff\<close>)
  moreover have "M = map (\<lambda>k. (k, xs ! k)) (map fst M)" if "set M \<subseteq> set (zip [0..<length xs] xs)" for M
    using that by (induction M) (auto simp: zip_index)
  ultimately show ?thesis using assms(1,2) by metis
qed

interpretation index_order: comparator "\<lambda>a b. int (fst a) - int (fst b)"
  by unfold_locales auto

lemma index_sort:
  assumes sub: "set L \<subseteq> set (zip [0..<length xs] xs)" and dist: "distinct L"
  shows "js_sort (\<lambda>a b. int (fst a) - int (fst b)) L = filter (\<lambda>x. x \<in> set L) (zip [0..<length xs] xs)"
    (is "?S = ?F")
proof (rule indexed_determined[where xs = xs])
  have inj: "inj_on fst (set L)" by (rule inj_onI) (metis prod_eq_iff sub subsetD zip_index)
  have "sorted (map fst ?S)"
    using index_order.sorted_js_sort[of L] by (simp add: sorted_wrt_map)
  moreover have "distinct ?S" by (metis dist mset_js_sort mset_eq_imp_distinct_iff)
  then have "distinct (map fst ?S)" using inj by (simp add: distinct_map)
  ultimately show "sorted_wrt (<) (map fst ?S)" by (simp add: strict_sorted_iff)
  show "sorted_wrt (<) (map fst ?F)" by (rule sorted_zip_filter)
qed (use sub in auto)

lemma filter_take: "distinct xs \<Longrightarrow> filter (\<lambda>x. x \<in> set (take n xs)) xs = take n xs"
proof -
  assume "distinct xs"
  then have "set (take n xs) \<inter> set (drop n xs) = {}" by (rule set_take_disj_set_drop_if_distinct) simp
  then have "filter (\<lambda>x. x \<in> set (take n xs)) (take n xs @ drop n xs) = take n xs"
    unfolding filter_append by (auto simp: filter_empty_conv)
  then show ?thesis by simp
qed

lemma limited_subset: "set (limited mode xs) \<subseteq> set xs"
  by (auto simp: limited_def dest: in_set_takeD)

lemma map_limited: "map f (limited mode xs) = limited mode (map f xs)"
  by (simp add: limited_def take_map)

section \<open>The code computes the choice\<close>

lemma selection_choice:
  assumes "distinct (map ii_entryId inbox)"
  shows "boundary_selection sm inbox = filter (\<lambda>x. snd x \<in> set (boundary_choice sm fm False inbox)) (zip [0..<length inbox] inbox)"
  unfolding boundary_selection_def Let_def
proof (rule filter_cong[OF refl])
  fix x assume "x \<in> set (zip [0..<length inbox] inbox)"
  then have mem: "snd x \<in> set inbox" by (auto simp: zip_index)
  let ?steer = "limited sm (filter (\<lambda>item. ii_kind item = Steer) inbox)"
  have "set ?steer \<subseteq> set inbox" using limited_subset[of sm "filter (\<lambda>item. ii_kind item = Steer) inbox"] by auto
  then have "ii_entryId (snd x) \<in> set (map ii_entryId ?steer) \<longleftrightarrow> snd x \<in> set ?steer"
    using inj_on_image_mem_iff[of ii_entryId "set inbox" "snd x" "set ?steer"] assms mem by (simp add: distinct_map)
  then show "(case x of (k, item) \<Rightarrow> ii_kind item = WriteItem \<or> ii_entryId item \<in> set (map ii_entryId ?steer)) \<longleftrightarrow>
      snd x \<in> set (boundary_choice sm fm False inbox)"
    using mem by (simp add: boundary_choice_def case_prod_unfold)
qed

lemma choice_items:
  assumes "distinct (map ii_entryId inbox)"
  shows "map snd (boundary_selection sm inbox) = boundary_choice sm fm False inbox"
  unfolding selection_choice[OF assms, where fm = fm]
  by (rule trans[OF filter_zip_snd[of "\<lambda>x. x \<in> set (boundary_choice sm fm False inbox)"]])
    (auto simp: boundary_choice_def intro!: filter_cong)

lemma follow_up_items:
  assumes dist: "distinct (map ii_entryId inbox)"
  shows "map snd (with_follow_up fm inbox (boundary_selection sm inbox)) = boundary_choice sm fm True inbox"
proof -
  let ?Z = "zip [0..<length inbox] inbox"
  let ?follow = "limited fm (filter (\<lambda>(k, item). ii_kind item = FollowUp) ?Z)"
  let ?sel = "boundary_selection sm inbox"
  have dinbox: "distinct inbox" using dist by (simp add: distinct_map)
  have dz: "distinct ?Z" by (simp add: distinct_zipI1)
  have sub: "set ?follow \<subseteq> set ?Z" using limited_subset[of fm "filter (\<lambda>(k, item). ii_kind item = FollowUp) ?Z"] by auto
  have snds: "map snd ?follow = limited fm (filter (\<lambda>i. ii_kind i = FollowUp) inbox)"
    unfolding map_limited using filter_zip_snd[of "\<lambda>i. ii_kind i = FollowUp" inbox] by (simp add: case_prod_unfold)
  have mem: "x \<in> set ?follow \<longleftrightarrow> snd x \<in> set (limited fm (filter (\<lambda>i. ii_kind i = FollowUp) inbox))" if x: "x \<in> set ?Z" for x
  proof -
    have "snd x \<in> snd ` set ?follow \<longleftrightarrow> x \<in> set ?follow"
    proof
      assume "snd x \<in> snd ` set ?follow"
      then obtain y where y: "y \<in> set ?follow" "snd y = snd x" by auto
      then have "y \<in> set ?Z" using sub by blast
      then have "fst y = fst x"
        using x y(2) nth_eq_iff_index_eq[OF dinbox, of "fst y" "fst x"] by (simp add: zip_index)
      then show "x \<in> set ?follow" using y by (metis prod.collapse)
    qed auto
    then show ?thesis by (simp flip: snds)
  qed
  have kinds: "ii_kind (snd x) = FollowUp" if "x \<in> set ?follow" for x
    using limited_subset[of fm "filter (\<lambda>(k, item). ii_kind item = FollowUp) ?Z"] that by auto
  have "snd x \<notin> set (boundary_choice sm fm False inbox)" if "x \<in> set ?follow" for x
    using kinds[OF that] limited_subset[of sm "filter (\<lambda>i. ii_kind i = Steer) inbox"] by (auto simp: boundary_choice_def)
  then have disj: "set ?sel \<inter> set ?follow = {}"
    unfolding selection_choice[OF dist, where fm = fm] by auto
  have "distinct (?sel @ ?follow)"
    using disj dz by (auto simp: boundary_selection_def limited_def)
  moreover have "set (?sel @ ?follow) \<subseteq> set ?Z"
    using sub by (auto simp: selection_choice[OF dist, where fm = fm])
  ultimately have "with_follow_up fm inbox ?sel = filter (\<lambda>x. x \<in> set (?sel @ ?follow)) ?Z"
    unfolding with_follow_up_def Let_def by (rule index_sort[rotated])
  also have "\<dots> = filter (\<lambda>x. snd x \<in> set (boundary_choice sm fm True inbox)) ?Z"
  proof (rule filter_cong[OF refl])
    fix x assume x: "x \<in> set ?Z"
    then have "snd x \<in> set inbox" by (auto simp: zip_index)
    moreover have "x \<in> set ?sel \<longleftrightarrow> snd x \<in> set (boundary_choice sm fm False inbox)"
      unfolding selection_choice[OF dist, where fm = fm] using x by simp
    ultimately show "x \<in> set (?sel @ ?follow) \<longleftrightarrow> snd x \<in> set (boundary_choice sm fm True inbox)"
      using mem[OF x] by (auto simp: boundary_choice_def)
  qed
  finally have wf: "with_follow_up fm inbox ?sel = filter (\<lambda>x. snd x \<in> set (boundary_choice sm fm True inbox)) ?Z" .
  show ?thesis unfolding wf
    by (rule trans[OF filter_zip_snd[of "\<lambda>x. x \<in> set (boundary_choice sm fm True inbox)"]])
      (auto simp: boundary_choice_def intro!: filter_cong)
qed

section \<open>The placement\<close>

lemma load_items_eq:
  "load_items s items = Inr pending \<Longrightarrow>
   list_all2 (\<lambda>item x. fst x = item \<and> read_pending s (ii_entryId item) = Inr (Some (snd x))) items pending"
proof (induction items arbitrary: pending)
  case (Cons item items)
  then show ?case
    by (auto simp: load_items_def load_item_def list_all2_Cons1 split: option.splits pending_entry.splits if_splits)
qed (simp add: load_items_def)

lemma chain_parents:
  "k < length es \<Longrightarrow> ne_parentId (chainEntries t es ! k) = (if k = 0 then t else Some (ne_id (chainEntries t es ! (k - 1))))"
proof (induction es arbitrary: t k)
  case (Cons e es)
  then show ?case by (cases k; cases "k - 1") auto
qed simp

lemma chain_bodies:
  "list_all2 (\<lambda>x e. ne_id e = ne_id x \<and> ne_body e = ne_body x) es (chainEntries t es)"
  by (induction es arbitrary: t) auto

lemma placed_tip_last: "placed_tip t pending = (if pending = [] then t else Some (ii_entryId (fst (last pending))))"
proof -
  have "foldl (\<lambda>t (item, p). Some (ii_entryId item)) t (pending @ [x]) = Some (ii_entryId (fst x))" for x
    by (simp add: case_prod_unfold)
  then show ?thesis by (cases pending rule: rev_cases) (simp_all add: placed_tip_def)
qed

lemma placed_trigger_last:
  "placed_trigger projectors pending = (let ps = filter (\<lambda>x. projects projectors (snd x)) pending in
     if ps = [] then None else Some (ii_entryId (fst (last ps))))"
  unfolding placed_trigger_def Let_def
  by (induction pending rule: rev_induct) (auto simp: case_prod_unfold)


definition sample_queued :: harness where
  "sample_queued = snd (enqueue (js ''main'') Steer (QueueText (js ''go'')) None 3 (js ''e2'') 3 sample_running)"

definition sample_queued_state :: lane_state where
  "sample_queued_state = ln_state (the (map_get (ha_lanes sample_queued) (js ''main'')))"

definition sample_placement :: "js_error + boundary_placement" where
  "sample_placement = planBoundaryInbox (js ''main'') (\<lambda>c. None) sample_queued_state
     (op_scope (op_state (the (la_operation sample_queued_state)))) (ms_data (se_storage (ha_session sample_queued)))
     (la_tipId sample_queued_state) False"

text \<open>Whether the placement of a state is made, of ids that differ.\<close>

definition placement_made :: "lane_state \<Rightarrow> storage_state \<Rightarrow> bool" where
  "placement_made st s \<longleftrightarrow> distinct (map ii_entryId (la_inbox st)) \<and>
     \<not> isl (planBoundaryInbox (js ''main'') (\<lambda>c. None) st (op_scope (op_state (the (la_operation st)))) s (la_tipId st) False)"

lemma sample_placement_made:
  "(\<lambda>h. placement_made (ln_state (the (map_get (ha_lanes h) (js ''main'')))) (ms_data (se_storage (ha_session h)))) sample_queued"
  by code_simp

lemma placed_ids: "list_all2 (\<lambda>item e. ne_id e = f item \<and> Q item e) items es \<Longrightarrow> map ne_id es = map f items"
  by (induction rule: list_all2_induct) auto


end
