(* ===== verification/FrameProps.thy ===== *)
theory FrameProps
  imports Frames
begin

text \<open>
  Replaying the frames of a stream that may have stopped anywhere gives the content received so far: a simulation
  between the encoder, the reducer and a reference reading of the events.
\<close>

section \<open>The reference\<close>

text \<open>A block of the live stream: its start snapshot, or its final content, with the deltas since and whether it ended.\<close>

datatype live = Live (live_block: assistant_block) (live_deltas: jstring) (live_ended: bool)

definition add_delta :: "nat \<Rightarrow> jstring \<Rightarrow> live list \<Rightarrow> live list" where
  "add_delta i delta ls = ls[i := Live (live_block (ls ! i)) (live_deltas (ls ! i) @ delta) False]"

fun live_step :: "assistant_event \<Rightarrow> live list \<Rightarrow> live list" where
  "live_step (EvTextStart i m) ls = ls @ [Live (am_content m ! nat i) [] False]"
| "live_step (EvThinkingStart i m) ls = ls @ [Live (am_content m ! nat i) [] False]"
| "live_step (EvToolStart i m) ls = ls @ [Live (am_content m ! nat i) [] False]"
| "live_step (EvTextDelta i delta) ls = add_delta (nat i) delta ls"
| "live_step (EvThinkingDelta i delta) ls = add_delta (nat i) delta ls"
| "live_step (EvToolDelta i delta) ls = add_delta (nat i) delta ls"
| "live_step (EvTextEnd i content m) ls =
     ls[nat i := Live (case am_content m ! nat i of
         AText live \<Rightarrow> AText \<lparr>tx_text = content, tx_signature = tx_signature live\<rparr> | b \<Rightarrow> b) [] True]"
| "live_step (EvThinkingEnd i content m) ls =
     ls[nat i := Live (case am_content m ! nat i of
         AThinking live \<Rightarrow> AThinking \<lparr>th_thinking = content, th_signature = th_signature live, th_redacted = th_redacted live\<rparr>
       | b \<Rightarrow> b) [] True]"
| "live_step (EvToolEnd i call m) ls = ls[nat i := Live (AToolCall call) [] True]"
| "live_step _ ls = ls"

text \<open>The blocks are opened one after the other, as the content array of a message grows.\<close>

fun in_order :: "nat \<Rightarrow> assistant_event list \<Rightarrow> bool" where
  "in_order n [] = True"
| "in_order n (EvTextStart i m # evs) = (i = int n \<and> in_order (Suc n) evs)"
| "in_order n (EvThinkingStart i m # evs) = (i = int n \<and> in_order (Suc n) evs)"
| "in_order n (EvToolStart i m # evs) = (i = int n \<and> in_order (Suc n) evs)"
| "in_order n (ev # evs) = in_order n evs"

text \<open>What a replay shows of a live block.\<close>

fun received :: "(jstring \<Rightarrow> arguments) \<Rightarrow> live \<Rightarrow> assistant_block \<Rightarrow> bool" where
  "received parse (Live (AText c) deltas ended) b \<longleftrightarrow>
     b = AText (c\<lparr>tx_text := tx_text c @ drop (length (tx_text c)) deltas\<rparr>)"
| "received parse (Live (AThinking c) deltas ended) b \<longleftrightarrow>
     b = AThinking (c\<lparr>th_thinking := th_thinking c @ drop (length (th_thinking c)) deltas\<rparr>)"
| "received parse (Live (AToolCall c) deltas ended) b \<longleftrightarrow>
     b = AToolCall c \<or> \<not> ended \<and> b = AToolCall (c\<lparr>tc_arguments := parse deltas\<rparr>)"

section \<open>The simulation\<close>

fun block_related :: "(jstring \<Rightarrow> arguments) \<Rightarrow> encoder_block option \<Rightarrow> reducer_block option \<Rightarrow> live \<Rightarrow> assistant_block \<Rightarrow> bool" where
  "block_related parse eb rb (Live (AText c) deltas ended) b \<longleftrightarrow>
     b = AText (c\<lparr>tx_text := tx_text c @ drop (length (tx_text c)) deltas\<rparr>) \<and> rb = Some (ReducedText ended) \<and>
     eb = (if ended then None else Some (EncodedText TextKind (length (tx_text c)) (length deltas)))"
| "block_related parse eb rb (Live (AThinking c) deltas ended) b \<longleftrightarrow>
     b = AThinking (c\<lparr>th_thinking := th_thinking c @ drop (length (th_thinking c)) deltas\<rparr>) \<and> rb = Some (ReducedThinking ended) \<and>
     eb = (if ended then None else Some (EncodedText ThinkingKind (length (th_thinking c)) (length deltas)))"
| "block_related parse eb rb (Live (AToolCall c) deltas ended) b \<longleftrightarrow>
     (if ended then b = AToolCall c \<and> eb = None \<and> (\<exists>json. rb = Some (ReducedTool True json))
      else (\<exists>json a. rb = Some (ReducedTool False json) \<and> b = AToolCall (c\<lparr>tc_arguments := a\<rparr>) \<and>
        (json = [] \<longrightarrow> a = tc_arguments c) \<and>
        (\<exists>snapshot. eb = Some (EncodedTool True [] snapshot) \<and> json = deltas \<or>
           eb = Some (EncodedTool False deltas snapshot) \<and> json = [])))"

definition related :: "(jstring \<Rightarrow> arguments) \<Rightarrow> encoder \<Rightarrow> reducer \<Rightarrow> live list \<Rightarrow> bool" where
  "related parse e r ls \<longleftrightarrow>
     \<not> fr_frameBeforeStart r \<and> fe_started e = (fr_message r \<noteq> None) \<and> (fr_message r = None \<longrightarrow> ls = []) \<and>
     (\<forall>i. i < 0 \<or> int (length ls) \<le> i \<longrightarrow> map_get (fe_blocks e) i = None \<and> map_get (fr_states r) i = None) \<and>
     distinct (map fst (fr_states r)) \<and>
     (\<forall>m. fr_message r = Some m \<longrightarrow> length (am_content m) = length ls \<and>
       (\<forall>i < length ls. block_related parse (map_get (fe_blocks e) (int i)) (map_get (fr_states r) (int i))
          (ls ! i) (am_content m ! i)))"

text \<open>Opening and replacing one block.\<close>

lemma related_open:
  assumes rel: "related parse e r ls" and m: "fr_message r = Some m" and i: "i = int (length ls)" "is_safe_integer i"
    and start: "startBlock i eb e = Inr e'"
    and b: "block_related parse (Some eb) (Some st) (Live b [] False) b"
  shows "\<exists>r'. appendBlock i b st m r = Inr r' \<and> related parse e' r' (ls @ [Live b [] False])"
proof -
  have e': "e' = e\<lparr>fe_blocks := map_set i eb (fe_blocks e)\<rparr>"
    using start by (auto simp: startBlock_def split: if_splits)
  let ?r = "r\<lparr>fr_message := Some (m\<lparr>am_content := am_content m @ [b]\<rparr>), fr_states := map_set i st (fr_states r)\<rparr>"
  have len: "length (am_content m) = length ls" using rel m by (simp add: related_def)
  then have "appendBlock i b st m r = Inr ?r" using i by (simp add: appendBlock_def assertContentIndex_def)
  moreover have "related parse e' ?r (ls @ [Live b [] False])"
    using rel m i b len
    by (auto simp: related_def e' update_conv' distinct_update nth_append less_Suc_eq)
  ultimately show ?thesis by blast
qed

lemma related_put:
  assumes rel: "related parse e r ls" and m: "fr_message r = Some m" and k: "k < length ls"
    and b: "block_related parse eb (Some st) l b"
    and eb: "\<And>j. map_get blocks j = (if j = int k then eb else map_get (fe_blocks e) j)"
  shows "related parse (e\<lparr>fe_blocks := blocks\<rparr>) (put_block (int k) b st m r) (ls[k := l])"
  using rel m k b eb
  by (auto simp: related_def put_block_def update_conv' distinct_update nth_list_update)

text \<open>An active block of the encoder is one of the reducer.\<close>

lemma related_active:
  assumes rel: "related parse e r ls" and act: "block i kind e = Inr eb"
  shows "\<exists>m k st. fr_message r = Some m \<and> i = int k \<and> k < length ls \<and>
    map_get (fe_blocks e) (int k) = Some eb \<and> encoder_kind eb = kind \<and> map_get (fr_states r) (int k) = Some st \<and>
    block_related parse (Some eb) (Some st) (ls ! k) (am_content m ! k) \<and>
    activeBlock i kind m r = Inr (am_content m ! k, st) \<and> \<not> live_ended (ls ! k)"
proof -
  have eb: "map_get (fe_blocks e) i = Some eb" "encoder_kind eb = kind" "assertContentIndex i = Inr ()"
    using act by (auto simp: block_def split: option.splits if_splits)
  then have bounds: "0 \<le> i" "i < int (length ls)" using rel by (auto simp: related_def) (metis not_le option.distinct(1))+
  then obtain k where k: "i = int k" "k < length ls" by (metis nonneg_int_cases of_nat_less_iff)
  obtain m where m: "fr_message r = Some m"
    using rel bounds by (cases "fr_message r") (auto simp: related_def)
  have len: "length (am_content m) = length ls" using rel m by (simp add: related_def)
  have b: "block_related parse (Some eb) (map_get (fr_states r) (int k)) (ls ! k) (am_content m ! k)"
    using rel m k eb by (auto simp: related_def)
  obtain lb D ended where l: "ls ! k = Live lb D ended" by (cases "ls ! k")
  obtain st where st: "map_get (fr_states r) (int k) = Some st" and open_block: "\<not> ended"
    and kinds: "reducer_kind st = kind" "content_kind (am_content m ! k) = kind" "\<not> reducer_ended st"
    using b eb(2) unfolding l by (cases lb) (auto split: if_splits)
  then have "activeBlock i kind m r = Inr (am_content m ! k, st)"
    using eb(3) k len by (simp add: activeBlock_def content_block_def)
  then show ?thesis using m k eb(1,2) st b l open_block by auto
qed

text \<open>The frames an event leads to, and their replay.\<close>

definition frames_of :: "assistant_frame option \<Rightarrow> assistant_frame list" where
  "frames_of f = (case f of None \<Rightarrow> [] | Some x \<Rightarrow> [x])"

lemma related_text_delta:
  assumes rel: "related parse e r ls" and kind: "kind = TextKind \<or> kind = ThinkingKind"
    and enc: "encodeTextDelta i delta kind e = Inr (d, e')"
    and frame: "\<And>x m. fr_message r = Some m \<Longrightarrow> reduce_frame parse (f x) r =
      ebind (activeBlock i kind m r) (\<lambda>(b, st). Inr (put_block i (append_text x b) st m r))"
  shows "\<exists>r'. reduce_frames parse (frames_of (map_option f d)) r = Inr r' \<and> related parse e' r' (add_delta (nat i) delta ls)"
proof -
  obtain eb where eb: "block i kind e = Inr eb" using enc by (auto simp: encodeTextDelta_def)
  obtain m k st where m: "fr_message r = Some m" "i = int k" "k < length ls" "encoder_kind eb = kind"
    and b: "block_related parse (Some eb) (Some st) (ls ! k) (am_content m ! k)"
    and act: "activeBlock i kind m r = Inr (am_content m ! k, st)" and op: "\<not> live_ended (ls ! k)"
    and slot: "map_get (fe_blocks e) (int k) = Some eb" "map_get (fr_states r) (int k) = Some st"
    using related_active[OF rel eb] by blast
  obtain covered n where eb': "eb = EncodedText kind covered n"
    using m(4) kind by (cases eb) auto
  let ?eb = "EncodedText kind covered (n + length delta)"
  have e': "e' = e\<lparr>fe_blocks := map_set i ?eb (fe_blocks e)\<rparr>"
    and d: "d = (if covered - n \<ge> length delta then None else Some (drop (covered - n) delta))"
    using enc eb by (auto simp: encodeTextDelta_def eb' Let_def)
  have live: "live_deltas (ls ! k) = D \<Longrightarrow> length D = n" for D
    using b kind unfolding eb' by (cases "ls ! k"; cases "live_block (ls ! k)") (auto split: if_splits)
  let ?b = "append_text (drop (covered - n) delta) (am_content m ! k)"
  have nb: "block_related parse (Some ?eb) (Some st) (Live (live_block (ls ! k)) (live_deltas (ls ! k) @ delta) False) ?b"
    using b op kind unfolding eb'
    by (cases "ls ! k"; cases "live_block (ls ! k)") (auto split: if_splits)
  have same: "?b = am_content m ! k" if "d = None"
    using that d by (cases "am_content m ! k") (auto split: if_splits)
  have put: "related parse e' (put_block (int k) ?b st m r) (add_delta k delta ls)"
    unfolding e' add_delta_def by (rule related_put[OF rel m(1,3) nb]) (simp add: update_conv' m(2))
  show ?thesis
  proof (cases d)
    case (Some x)
    then have "x = drop (covered - n) delta" using d by (simp split: if_splits)
    then show ?thesis using put frame[OF m(1)] act m(2) Some by (simp add: frames_of_def)
  next
    case None
    have len: "length (am_content m) = length ls" using rel m(1) by (simp add: related_def)
    have "map_get (map_set (int k) st (fr_states r)) = map_get (fr_states r)" using slot(2) by (auto simp: update_conv')
    moreover have "(am_content m)[k := am_content m ! k] = am_content m" by simp
    ultimately have "related parse e' r (add_delta k delta ls)"
      using put m(1) rel unfolding same[OF None] related_def put_block_def by simp
    then show ?thesis using None m(2) by (simp add: frames_of_def)
  qed
qed

lemma related_end:
  assumes rel: "related parse e r ls" and fin: "endBlock i kind e = Inr e'"
    and frame: "\<And>m b st. fr_message r = Some m \<Longrightarrow> activeBlock i kind m r = Inr (b, st) \<Longrightarrow>
      reduce_frame parse f r = Inr (put_block i b' (g st) m r)"
    and done_block: "\<And>st. reducer_kind st = kind \<Longrightarrow> block_related parse None (Some (g st)) (Live lb [] True) b'"
  shows "\<exists>r'. reduce_frame parse f r = Inr r' \<and> related parse e' r' (ls[nat i := Live lb [] True])"
proof -
  obtain eb where eb: "block i kind e = Inr eb" and e': "e' = e\<lparr>fe_blocks := map_delete i (fe_blocks e)\<rparr>"
    using fin by (auto simp: endBlock_def)
  obtain m k st where m: "fr_message r = Some m" "i = int k" "k < length ls"
    and act: "activeBlock i kind m r = Inr (am_content m ! k, st)"
    using related_active[OF rel eb] by blast
  have "reducer_kind st = kind" using act by (auto simp: activeBlock_def split: option.splits if_splits)
  note nb = done_block[OF this]
  have "related parse e' (put_block (int k) b' (g st) m r) (ls[k := Live lb [] True])"
    unfolding e' by (rule related_put[OF rel m(1,3) nb]) (simp add: delete_conv' m(2))
  then show ?thesis using frame[OF m(1) act] m(2) by auto
qed

lemma related_tool_delta:
  assumes rel: "related parse e r ls" and enc: "encodeToolDelta parse serialize i delta e = Inr (f, e')"
  shows "\<exists>r'. reduce_frames parse (frames_of f) r = Inr r' \<and> related parse e' r' (add_delta (nat i) delta ls)"
proof -
  obtain eb where eb: "block i ToolKind e = Inr eb" using enc by (auto simp: encodeToolDelta_def)
  obtain m k st where m: "fr_message r = Some m" "i = int k" "k < length ls" "encoder_kind eb = ToolKind"
    and b: "block_related parse (Some eb) (Some st) (ls ! k) (am_content m ! k)"
    and act: "activeBlock i ToolKind m r = Inr (am_content m ! k, st)" and op: "\<not> live_ended (ls ! k)"
    and slot: "map_get (fe_blocks e) (int k) = Some eb" "map_get (fr_states r) (int k) = Some st"
    using related_active[OF rel eb] by blast
  have kinds: "content_kind (am_content m ! k) = ToolKind"
    using act by (auto simp: activeBlock_def split: option.splits if_splits)
  obtain lb D ended where l: "ls ! k = Live lb D ended" by (cases "ls ! k")
  obtain c where c: "lb = AToolCall c" using b kinds unfolding l by (cases lb) auto
  obtain json a where st: "st = ReducedTool False json" and bk: "am_content m ! k = AToolCall (c\<lparr>tc_arguments := a\<rparr>)"
    and a: "json = [] \<longrightarrow> a = tc_arguments c"
    and caught: "\<exists>snapshot. eb = EncodedTool True [] snapshot \<and> json = D \<or> eb = EncodedTool False D snapshot \<and> json = []"
    using b op unfolding l c by auto
  have len: "length (am_content m) = length ls" using rel m(1) by (simp add: related_def)
  have put: "related parse (e\<lparr>fe_blocks := blocks\<rparr>) (put_block (int k) b' st' m r) (add_delta k delta ls)"
    if "block_related parse eb' (Some st') (Live (AToolCall c) (D @ delta) False) b'"
      "\<And>j. map_get blocks j = (if j = int k then eb' else map_get (fe_blocks e) j)" for blocks eb' b' st'
    using related_put[OF rel m(1,3) that] by (simp add: add_delta_def l c)
  have keep: "related parse (e\<lparr>fe_blocks := blocks\<rparr>) r (add_delta k delta ls)"
    if "block_related parse eb' (Some st) (Live (AToolCall c) (D @ delta) False) (am_content m ! k)"
      "\<And>j. map_get blocks j = (if j = int k then eb' else map_get (fe_blocks e) j)" for blocks eb'
  proof -
    have "map_get (map_set (int k) st (fr_states r)) = map_get (fr_states r)" using slot(2) by (auto simp: update_conv')
    moreover have "(am_content m)[k := am_content m ! k] = am_content m" by simp
    ultimately show ?thesis
      using put[OF that] m(1) rel unfolding related_def put_block_def by simp
  qed
  from caught obtain snapshot where
    "eb = EncodedTool True [] snapshot \<and> json = D \<or> eb = EncodedTool False D snapshot \<and> json = []" by blast
  then show ?thesis
  proof (elim disjE conjE)
    assume eb': "eb = EncodedTool True [] snapshot" and json: "json = D"
    have e': "e' = e" "f = (if delta = [] then None else Some (FToolCallDelta i delta))"
      using enc eb by (auto simp: encodeToolDelta_def eb')
    show ?thesis
    proof (cases "delta = []")
      case True
      have "related parse (e\<lparr>fe_blocks := fe_blocks e\<rparr>) r (add_delta k delta ls)"
        by (rule keep[of "Some eb"]) (use a bk json slot(1) True in \<open>auto simp: eb' st\<close>)
      then show ?thesis using True e' m(2) by (simp add: frames_of_def)
    next
      case False
      have "related parse (e\<lparr>fe_blocks := fe_blocks e\<rparr>) (put_block (int k) (am_content m ! k) (ReducedTool False (json @ delta)) m r)
          (add_delta k delta ls)"
        by (rule put[of "Some eb"]) (use a bk json slot(1) False in \<open>auto simp: eb' st\<close>)
      then show ?thesis
        using False e' m(1,2) act st by (simp add: frames_of_def reduce_frame_def reduce_block_def)
    qed
  next
    assume eb': "eb = EncodedTool False D snapshot" and json: "json = []"
    let ?wait = "serialize (parse (D @ delta)) \<noteq> snapshot \<and> \<not> isJsonPrefix (JObj (parse snapshot)) (JObj (parse (D @ delta)))"
    show ?thesis
    proof (cases ?wait)
      case True
      have e': "e' = e\<lparr>fe_blocks := map_set i (EncodedTool False (D @ delta) snapshot) (fe_blocks e)\<rparr>" "f = None"
        using enc eb True by (auto simp: encodeToolDelta_def eb' Let_def)
      have "related parse e' r (add_delta k delta ls)"
        unfolding e' by (rule keep) (use a bk json in \<open>auto simp: st update_conv' m(2)\<close>)
      then show ?thesis using e' m(2) by (simp add: frames_of_def)
    next
      case False
      have e': "e' = e\<lparr>fe_blocks := map_set i (EncodedTool True [] []) (fe_blocks e)\<rparr>"
        and f: "f = (if D @ delta = [] then None else Some (FToolCallCheckpoint i (D @ delta)))"
        using enc eb False by (auto simp: encodeToolDelta_def eb' Let_def)
      show ?thesis
      proof (cases "D @ delta = []")
        case True
        have "related parse e' r (add_delta k delta ls)"
          unfolding e' by (rule keep) (use a bk json True in \<open>auto simp: st update_conv' m(2)\<close>)
        then show ?thesis using f True m(2) by (simp add: frames_of_def)
      next
        case nonempty: False
        have "related parse e' (put_block (int k) (set_arguments (parse (D @ delta)) (am_content m ! k)) (ReducedTool False (D @ delta)) m r)
            (add_delta k delta ls)"
          unfolding e' by (rule put) (use nonempty in \<open>auto simp: bk update_conv' m(2)\<close>)
        moreover have "f = Some (FToolCallCheckpoint i (D @ delta))" using f nonempty by (simp only: if_False)
        ultimately show ?thesis
          using m(1,2) act by (simp add: frames_of_def reduce_frame_def reduce_block_def)
      qed
    qed
  qed
qed

text \<open>One event.\<close>

lemma reduce_single: "reduce_frames parse [f] r = reduce_frame parse f r"
  by (cases "reduce_frame parse f r") simp_all

lemma related_message: "related parse e r ls \<Longrightarrow> fe_started e \<Longrightarrow> \<exists>m. fr_message r = Some m"
  by (auto simp: related_def)

lemma related_step:
  assumes rel: "related parse e r ls" and enc: "encode parse serialize ev e = Inr (f, e')"
    and order: "in_order (length ls) [ev]"
  shows "\<exists>r'. reduce_frames parse (frames_of f) r = Inr r' \<and> related parse e' r' (live_step ev ls)"
proof (cases ev)
  case (EvStart m)
  then have "f = Some (FStart (cloneStartMessage m))" "e' = e\<lparr>fe_started := True\<rparr>" "\<not> fe_started e"
    using enc by (auto simp: encode_def split: if_splits)
  then show ?thesis
    using rel EvStart by (auto simp: related_def frames_of_def reduce_frame_def cloneStartMessage_def)
next
  case (EvTextDelta i delta)
  then obtain d where "encodeTextDelta i delta TextKind e = Inr (d, e')" "f = map_option (FTextDelta i) d"
    using enc by (auto simp: encode_def split: if_splits)
  then show ?thesis
    using related_text_delta[OF rel, where kind = TextKind and i = i and delta = delta and d = d and e' = e' and f = "FTextDelta i"] EvTextDelta
    by (simp add: reduce_frame_def reduce_block_def)
next
  case (EvThinkingDelta i delta)
  then obtain d where "encodeTextDelta i delta ThinkingKind e = Inr (d, e')" "f = map_option (FThinkingDelta i) d"
    using enc by (auto simp: encode_def split: if_splits)
  then show ?thesis
    using related_text_delta[OF rel, where kind = ThinkingKind and i = i and delta = delta and d = d and e' = e' and f = "FThinkingDelta i"] EvThinkingDelta
    by (simp add: reduce_frame_def reduce_block_def)
next
  case (EvToolDelta i delta)
  then have "encodeToolDelta parse serialize i delta e = Inr (f, e')"
    using enc by (auto simp: encode_def split: if_splits)
  then show ?thesis using related_tool_delta[OF rel] EvToolDelta by simp
next
  case (EvTextEnd i content m)
  then obtain live where b: "eventBlock i m = Inr (AText live)" "endBlock i TextKind e = Inr e'"
    and f: "f = Some (FTextEnd i content (tx_signature live))"
    using enc by (auto simp: encode_def split: if_splits assistant_block.splits)
  have live: "am_content m ! nat i = AText live"
    using b(1) by (auto simp: eventBlock_def content_block_def split: if_splits)
  show ?thesis
    using related_end[OF rel b(2), where f = "FTextEnd i content (tx_signature live)" and g = "\<lambda>st. ReducedText True"
        and b' = "AText \<lparr>tx_text = content, tx_signature = tx_signature live\<rparr>"
        and lb = "AText \<lparr>tx_text = content, tx_signature = tx_signature live\<rparr>"]
    by (simp add: f EvTextEnd live frames_of_def reduce_single reduce_frame_def reduce_block_def del: reduce_frames.simps)
next
  case (EvThinkingEnd i content m)
  then obtain live where b: "eventBlock i m = Inr (AThinking live)" "endBlock i ThinkingKind e = Inr e'"
    and f: "f = Some (FThinkingEnd i content (th_signature live) (th_redacted live))"
    using enc by (auto simp: encode_def split: if_splits assistant_block.splits)
  have live: "am_content m ! nat i = AThinking live"
    using b(1) by (auto simp: eventBlock_def content_block_def split: if_splits)
  let ?b = "AThinking \<lparr>th_thinking = content, th_signature = th_signature live, th_redacted = th_redacted live\<rparr>"
  show ?thesis
    using related_end[OF rel b(2), where f = "FThinkingEnd i content (th_signature live) (th_redacted live)"
        and g = "\<lambda>st. ReducedThinking True" and b' = ?b and lb = ?b]
    by (simp add: f EvThinkingEnd live frames_of_def reduce_single reduce_frame_def reduce_block_def del: reduce_frames.simps)
next
  case (EvToolEnd i call m)
  let ?f = "FToolCallEnd i (tc_id call) (tc_name call) (tc_arguments call) (tc_thoughtSignature call) (tc_namespace call)"
  have whole: "\<lparr>tc_id = tc_id call, tc_name = tc_name call, tc_arguments = tc_arguments call,
      tc_thoughtSignature = tc_thoughtSignature call, tc_namespace = tc_namespace call\<rparr> = call"
    by simp
  have b: "endBlock i ToolKind e = Inr e'" and f: "f = Some ?f"
    using enc EvToolEnd by (auto simp: encode_def split: if_splits assistant_block.splits)
  show ?thesis
    using related_end[OF rel b, where f = ?f and g = "\<lambda>st. ReducedTool True (tool_json st)"
        and b' = "AToolCall call" and lb = "AToolCall call"]
    by (simp add: f EvToolEnd whole frames_of_def reduce_single reduce_frame_def reduce_block_def del: reduce_frames.simps)
next
  case (EvTextStart i m)
  then obtain content where b: "eventBlock i m = Inr (AText content)"
      "startBlock i (EncodedText TextKind (length (tx_text content)) 0) e = Inr e'"
    and f: "f = Some (FTextStart i content)" and started: "fe_started e"
    using enc by (auto simp: encode_def split: if_splits assistant_block.splits)
  have live: "am_content m ! nat i = AText content" "is_safe_integer i"
    using b(1) by (auto simp: eventBlock_def content_block_def assertContentIndex_def split: if_splits)
  obtain m' where m': "fr_message r = Some m'" using related_message[OF rel started] by blast
  have i: "i = int (length ls)" using order by (simp add: EvTextStart)
  show ?thesis
    using related_open[OF rel m' i live(2) b(2), where st = "ReducedText False" and b = "AText content"]
    using live(1) by (simp add: f EvTextStart i m' frames_of_def reduce_single reduce_frame_def reduce_block_def del: reduce_frames.simps)
next
  case (EvThinkingStart i m)
  then obtain content where b: "eventBlock i m = Inr (AThinking content)"
      "startBlock i (EncodedText ThinkingKind (length (th_thinking content)) 0) e = Inr e'"
    and f: "f = Some (FThinkingStart i content)" and started: "fe_started e"
    using enc by (auto simp: encode_def split: if_splits assistant_block.splits)
  have live: "am_content m ! nat i = AThinking content" "is_safe_integer i"
    using b(1) by (auto simp: eventBlock_def content_block_def assertContentIndex_def split: if_splits)
  obtain m' where m': "fr_message r = Some m'" using related_message[OF rel started] by blast
  have i: "i = int (length ls)" using order by (simp add: EvThinkingStart)
  show ?thesis
    using related_open[OF rel m' i live(2) b(2), where st = "ReducedThinking False" and b = "AThinking content"]
    using live(1) by (simp add: f EvThinkingStart i m' frames_of_def reduce_single reduce_frame_def reduce_block_def del: reduce_frames.simps)
next
  case (EvToolStart i m)
  then obtain content where b: "eventBlock i m = Inr (AToolCall content)" and started: "fe_started e"
    and f: "f = Some (FToolCallStart i content)"
    and start: "startBlock i (EncodedTool (serialize (tc_arguments content) = serialize (parse [])) []
      (if serialize (tc_arguments content) = serialize (parse []) then [] else serialize (tc_arguments content))) e = Inr e'"
    using enc by (auto simp: encode_def Let_def split: if_splits assistant_block.splits)
  then obtain caught snapshot where s: "startBlock i (EncodedTool caught [] snapshot) e = Inr e'" by blast
  have live: "am_content m ! nat i = AToolCall content" "is_safe_integer i"
    using b(1) by (auto simp: eventBlock_def content_block_def assertContentIndex_def split: if_splits)
  obtain m' where m': "fr_message r = Some m'" using related_message[OF rel started] by blast
  have i: "i = int (length ls)" using order by (simp add: EvToolStart)
  have "block_related parse (Some (EncodedTool caught [] snapshot)) (Some (ReducedTool False []))
      (Live (AToolCall content) [] False) (AToolCall content)"
    by (cases caught) (auto intro: exI[of _ "tc_arguments content"])
  then show ?thesis
    using related_open[OF rel m' i live(2) s, where st = "ReducedTool False []" and b = "AToolCall content"]
    using live(1) by (simp add: f EvToolStart i m' frames_of_def reduce_single reduce_frame_def reduce_block_def del: reduce_frames.simps)
next
  case EvDone
  then show ?thesis using enc rel by (auto simp: encode_def frames_of_def related_def split: if_splits)
next
  case EvError
  then show ?thesis using enc rel by (auto simp: encode_def frames_of_def related_def split: if_splits)
qed

section \<open>The whole stream\<close>

lemma reduce_frames_append: "reduce_frames parse (fs @ gs) r = ebind (reduce_frames parse fs r) (reduce_frames parse gs)"
proof (induction fs arbitrary: r)
  case (Cons f fs)
  then show ?case by (cases "reduce_frame parse f r") simp_all
qed simp

lemma length_live_step:
  "in_order n (ev # evs) \<Longrightarrow> length ls = n \<Longrightarrow> in_order (length (live_step ev ls)) evs \<and> in_order (length ls) [ev]"
  by (cases ev) (auto simp: add_delta_def)

lemma related_events:
  assumes "related parse e r ls" "encode_events parse serialize evs e = Inr (frames, e')" "in_order (length ls) evs"
  shows "\<exists>r'. reduce_frames parse frames r = Inr r' \<and> related parse e' r' (foldl (\<lambda>ls ev. live_step ev ls) ls evs)"
  using assms
proof (induction evs arbitrary: e r ls frames)
  case Nil
  then show ?case by simp
next
  case (Cons ev evs)
  obtain f e1 fs where one: "encode parse serialize ev e = Inr (f, e1)"
    and rest: "encode_events parse serialize evs e1 = Inr (fs, e')" and frames: "frames = frames_of f @ fs"
    using Cons.prems(2) by (auto simp: frames_of_def elim!: ebind_Inr_E)
  note order = length_live_step[OF Cons.prems(3) refl]
  obtain r1 where r1: "reduce_frames parse (frames_of f) r = Inr r1" "related parse e1 r1 (live_step ev ls)"
    using related_step[OF Cons.prems(1) one] order by blast
  show ?case using Cons.IH[OF r1(2) rest] order r1(1) by (simp add: frames reduce_frames_append)
qed

text \<open>The last loop of the reducer touches the open tool calls only.\<close>

definition settled :: "(jstring \<Rightarrow> arguments) \<Rightarrow> reducer_block option \<Rightarrow> assistant_block \<Rightarrow> assistant_block" where
  "settled parse st b = (case st of Some (ReducedTool False json) \<Rightarrow> if json = [] then b else set_arguments (parse json) b | _ \<Rightarrow> b)"

lemma length_settle: "length (am_content (settle_arguments parse states m)) = length (am_content m)"
proof (induction states arbitrary: m)
  case (Cons s states)
  then show ?case by (cases s) (auto split: reducer_block.split bool.split list.split option.split)
qed simp

lemma settle_nth:
  assumes "distinct (map fst states)" "k < length (am_content m)"
  shows "am_content (settle_arguments parse states m) ! k = settled parse (map_get states (int k)) (am_content m ! k)"
  using assms
proof (induction states arbitrary: m)
  case Nil
  then show ?case by (simp add: settled_def)
next
  case (Cons s states)
  obtain i st where s: "s = (i, st)" by (cases s)
  have fresh: "map_get states i = None" using Cons.prems(1) s by (simp add: map_of_eq_None_iff)
  show ?case
    using Cons.IH Cons.prems fresh
    by (auto simp: s settled_def content_block_def nth_list_update
        split: reducer_block.split bool.split list.split option.split)
qed

lemma settled_received:
  "block_related parse eb st l b \<Longrightarrow> received parse l (settled parse st b)"
  by (cases l; cases "live_block l") (auto simp: settled_def split: if_splits)

lemma replayed:
  assumes "encode_events parse serialize evs new_encoder = Inr (frames, e)" "in_order 0 evs"
  shows "\<exists>reply. reduceAssistantMessageFrames parse frames = Inr reply \<and> (reply = None \<longleftrightarrow> \<not> fe_started e) \<and>
    (\<forall>m. reply = Some m \<longrightarrow> list_all2 (received parse) (foldl (\<lambda>ls ev. live_step ev ls) [] evs) (am_content m))"
proof -
  have "related parse new_encoder new_reducer []" by (simp add: related_def new_encoder_def new_reducer_def)
  from related_events[OF this assms(1)] assms(2) obtain r where
    r: "reduce_frames parse frames new_reducer = Inr r" and rel: "related parse e r (foldl (\<lambda>ls ev. live_step ev ls) [] evs)"
    by auto
  have "list_all2 (received parse) (foldl (\<lambda>ls ev. live_step ev ls) [] evs)
      (am_content (settle_arguments parse (fr_states r) m))" if "fr_message r = Some m" for m
    using rel that settled_received
    by (fastforce simp: list_all2_conv_all_nth length_settle settle_nth related_def)
  then show ?thesis using r rel by (auto simp: reduceAssistantMessageFrames_def related_def)
qed

section \<open>A concrete stream\<close>

text \<open>
  A text whose snapshot has already the first delta, and a tool call whose snapshot is ahead of its deltas: the stream
  stops before either ends.
\<close>

definition sample_partial :: "assistant_block list \<Rightarrow> assistant_message" where
  "sample_partial blocks = \<lparr>am_content = blocks, am_api = js ''api'', am_provider = js ''anthropic'', am_model = js ''opus'',
     am_responseModel = None, am_responseId = None, am_providerThinkingLevel = None, am_diagnostics = None,
     am_usage = emptyUsage, am_stopReason = Pending, am_deferred = None, am_errorMessage = None, am_rawStopReason = None,
     am_endTurn = None, am_timestamp = 0\<rparr>"

definition sample_parse :: "jstring \<Rightarrow> arguments" where
  "sample_parse s = (if s = [] then [] else [(js ''path'', JStr s)])"

definition sample_serialize :: "arguments \<Rightarrow> jstring" where
  "sample_serialize a = (case a of (k, JStr s) # fs \<Rightarrow> s | _ \<Rightarrow> [])"

definition sample_text :: assistant_block where
  "sample_text = AText \<lparr>tx_text = js ''He'', tx_signature = None\<rparr>"

definition sample_call :: assistant_block where
  "sample_call = AToolCall \<lparr>tc_id = js ''t1'', tc_name = js ''read'', tc_arguments = sample_parse (js ''ab''),
     tc_thoughtSignature = None, tc_namespace = None\<rparr>"

definition sample_events :: "assistant_event list" where
  "sample_events = [EvStart (sample_partial []), EvTextStart 0 (sample_partial [sample_text]), EvTextDelta 0 (js ''He''),
     EvTextDelta 0 (js ''llo''), EvToolStart 1 (sample_partial [sample_text, sample_call]), EvToolDelta 1 (js ''ab''),
     EvToolDelta 1 (js ''c'')]"

definition sample_replay :: "assistant_message option" where
  "sample_replay = (case encode_events sample_parse sample_serialize sample_events new_encoder of
     Inl e \<Rightarrow> None
   | Inr (frames, e) \<Rightarrow> (case reduceAssistantMessageFrames sample_parse frames of Inl e \<Rightarrow> None | Inr m \<Rightarrow> m))"


theorem sample_replay_content:
  "map_option (map (\<lambda>b. case b of AText c \<Rightarrow> tx_text c | AToolCall c \<Rightarrow> sample_serialize (tc_arguments c) | b \<Rightarrow> []) \<circ> am_content)
     sample_replay = Some [js ''Hello'', js ''abc'']"
  by code_simp

end
