(* ===== verification/ProviderProps.thy ===== *)
theory ProviderProps
  imports ProviderErrors
begin

text \<open>
  What the classification of provider errors and the bounded retry guarantee: a text pattern is found exactly where
  its letters occur in either case, and a retried call makes at most one request more than the policy allows retries,
  with one report at its end.
\<close>

section \<open>Searching a text\<close>

lemma text_rest_iff: "t \<in> set (text_rest cs s) \<longleftrightarrow> (\<exists>b. s = b @ t \<and> map fold_case b = map fold_case cs)"
proof (induction cs s rule: text_rest.induct)
  case (3 c cs u s)
  show ?case
  proof (cases "fold_case u = fold_case c")
    case True
    then show ?thesis using 3 by (auto simp: Cons_eq_append_conv)
  next
    case False
    then show ?thesis by (auto simp: Cons_eq_append_conv)
  qed
qed auto

lemma found_iff: "found p s \<longleftrightarrow> (\<exists>a b. s = a @ b \<and> rests p b \<noteq> [])"
proof (induction s)
  case (Cons u s)
  show ?case using Cons by (auto simp: Cons_eq_append_conv)
qed simp

lemma text_found:
  "regex_test (Search (PText cs)) s \<longleftrightarrow> (\<exists>a b c. s = a @ b @ c \<and> map fold_case b = map fold_case (js cs))"
proof -
  have "text_rest (js cs) s' \<noteq> [] \<longleftrightarrow> (\<exists>b c. s' = b @ c \<and> map fold_case b = map fold_case (js cs))" for s'
    using text_rest_iff[of _ "js cs" s'] by (metis list.set_intros(1) list.set_sel(1) empty_iff list.set(1))
  then show ?thesis by (auto simp: found_iff)
qed

section \<open>The bounded retry\<close>

fun scheduled_retry :: "retry_callback \<Rightarrow> (int \<times> int \<times> int) option" where
  "scheduled_retry (OnRetryScheduled k n d t) = Some (k, n, d)"
| "scheduled_retry _ = None"

definition scheduled :: "retry_callback list \<Rightarrow> (int \<times> int \<times> int) list" where
  "scheduled cs = List.map_filter scheduled_retry cs"

definition starts :: "retry_callback list \<Rightarrow> nat" where
  "starts cs = length (filter (\<lambda>c. c = OnRetryAttemptStart) cs)"

definition finishes :: "retry_callback list \<Rightarrow> nat" where
  "finishes cs = length (filter (\<lambda>c. case c of OnRetryFinished s k e \<Rightarrow> True | _ \<Rightarrow> False) cs)"

lemma log_simps [simp]:
  "scheduled [] = []" "scheduled (c # cs) = (case scheduled_retry c of None \<Rightarrow> scheduled cs | Some x \<Rightarrow> x # scheduled cs)"
  "scheduled (as @ bs) = scheduled as @ scheduled bs"
  "starts [] = 0" "starts (c # cs) = (if c = OnRetryAttemptStart then Suc (starts cs) else starts cs)"
  "starts (as @ bs) = starts as + starts bs"
  "finishes [] = 0" "finishes (as @ bs) = finishes as + finishes bs"
  "finishes (OnRetryScheduled k n d t # cs) = finishes cs" "finishes (OnRetryAttemptStart # cs) = finishes cs"
  "finishes (OnRetryFinished b k' e # cs) = Suc (finishes cs)"
  by (simp_all add: scheduled_def starts_def finishes_def map_filter_simps map_filter_def split: option.split)

text \<open>A request that counts itself in the world it runs in.\<close>

definition counted :: "('w \<Rightarrow> 'r \<times> 'w) \<Rightarrow> nat \<times> 'w \<Rightarrow> 'r \<times> (nat \<times> 'w)" where
  "counted f = (\<lambda>(n, w). let (r, w') = f w in (r, (Suc n, w')))"

definition uncounted :: "('w \<Rightarrow> 'r \<times> 'w) \<Rightarrow> nat \<times> 'w \<Rightarrow> 'r \<times> (nat \<times> 'w)" where
  "uncounted f = (\<lambda>(n, w). let (r, w') = f w in (r, (n, w')))"

text \<open>What the loop adds to the log from attempt \<open>k\<close> on.\<close>

definition retry_shape ::
  "retry_policy option \<Rightarrow> int \<Rightarrow> int \<Rightarrow> bool \<Rightarrow> assistant_message \<Rightarrow> nat \<Rightarrow> retry_callback list \<Rightarrow> bool" where
  "retry_shape policy maxAttempts attempt retried m calls entries \<longleftrightarrow>
     calls = Suc (starts entries) \<and> starts entries \<le> length (scheduled entries) \<and> length (scheduled entries) \<le> Suc (starts entries) \<and>
     scheduled entries = map (\<lambda>k. (k, maxAttempts, retryDelayMs (ry_baseDelayMs (the policy)) (ry_maxAgentDelayMs (the policy)) k))
       [attempt + 1..attempt + int (length (scheduled entries))] \<and>
     (attempt \<le> maxAttempts \<longrightarrow> attempt + int (length (scheduled entries)) \<le> maxAttempts) \<and>
     (maxAttempts < attempt \<longrightarrow> scheduled entries = []) \<and>
     finishes entries = (if retried \<or> scheduled entries \<noteq> [] then 1 else 0) \<and>
     (am_stopReason m = Error \<longrightarrow> maxAttempts \<le> attempt + int (length (scheduled entries)) \<or> \<not> isRetryableAssistantError m)"

lemma finished_log [simp]:
  "scheduled (finished_callback b l e) = []" "starts (finished_callback b l e) = 0"
  "finishes (finished_callback b l e) = (if l = None then 0 else 1)"
  by (auto simp: finished_callback_def split: option.split)

lemma retry_loop_shape:
  assumes "retry_loop (counted produce) (\<lambda>d. uncounted (sleep d)) policy maxAttempts attempt lastRetry (c, w) callbacks =
    (m, (c', w'), entries)"
  shows "\<exists>calls new. c' = c + calls \<and> entries = callbacks @ new \<and> retry_shape policy maxAttempts attempt (lastRetry \<noteq> None) m calls new"
  using assms
proof (induction "nat (maxAttempts - attempt)" arbitrary: attempt lastRetry c w callbacks rule: less_induct)
  case less
  obtain response w1 where p: "produce w = (response, w1)" by (cases "produce w")
  have head: "counted produce (c, w) = (response, (Suc c, w1))" by (simp add: counted_def p)
  consider (stop) "am_stopReason response = Aborted \<or> am_stopReason response \<noteq> Error \<or> attempt \<ge> maxAttempts \<or> \<not> isRetryableAssistantError response"
    | (again) "am_stopReason response = Error" "attempt < maxAttempts" "isRetryableAssistantError response"
    by linarith
  then show ?case
  proof cases
    case stop
    then have "\<exists>b e. c' = Suc c \<and> m = response \<and> entries = callbacks @ finished_callback b lastRetry e"
      using less.prems by (subst (asm) retry_loop.simps) (auto simp: head Let_def split: if_splits)
    then obtain b e where "c' = c + 1" "m = response" "entries = callbacks @ finished_callback b lastRetry e" by auto
    then show ?thesis using stop by (intro exI[of _ 1] exI[of _ "finished_callback b lastRetry e"]) (auto simp: retry_shape_def)
  next
    case again
    let ?t = "case present_text (am_errorMessage response) of None \<Rightarrow> js ''Unknown error'' | Some e \<Rightarrow> e"
    let ?d = "retryDelayMs (ry_baseDelayMs (the policy)) (ry_maxAgentDelayMs (the policy)) (attempt + 1)"
    obtain interrupted w2 where s: "sleep ?d w1 = (interrupted, w2)" by (cases "sleep ?d w1")
    have nap: "uncounted (sleep ?d) (Suc c, w1) = (interrupted, (Suc c, w2))" by (simp add: uncounted_def s)
    have one: "[attempt + 1..attempt + 1] = [attempt + 1]" by (simp add: upto.simps)
    show ?thesis
    proof (cases interrupted)
      case True
      let ?new = "[OnRetryScheduled (attempt + 1) maxAttempts ?d ?t, OnRetryFinished False (attempt + 1) (Some ?t)]"
      have "c' = c + 1 \<and> m = response\<lparr>am_errorMessage := None, am_stopReason := Aborted\<rparr> \<and> entries = callbacks @ ?new"
        using less.prems again True by (subst (asm) retry_loop.simps) (simp add: head nap Let_def)
      then show ?thesis using again one by (intro exI[of _ 1] exI[of _ ?new]) (auto simp: retry_shape_def)
    next
      case False
      let ?new = "[OnRetryScheduled (attempt + 1) maxAttempts ?d ?t, OnRetryAttemptStart]"
      have "retry_loop (counted produce) (\<lambda>d. uncounted (sleep d)) policy maxAttempts (attempt + 1) (Some (attempt + 1, ?t))
          (Suc c, w2) (callbacks @ ?new) = (m, (c', w'), entries)"
        using less.prems again False by (subst (asm) retry_loop.simps) (simp add: head nap Let_def)
      from less.hyps[OF _ this] again obtain calls new where
        r: "c' = Suc c + calls" "entries = (callbacks @ ?new) @ new" "retry_shape policy maxAttempts (attempt + 1) True m calls new"
        by auto
      have "[attempt + 1..attempt + 1 + int (length (scheduled new))] =
          (attempt + 1) # [attempt + 1 + 1..attempt + 1 + int (length (scheduled new))]"
        by (subst upto.simps) simp
      then have "retry_shape policy maxAttempts attempt (lastRetry \<noteq> None) m (Suc calls) (?new @ new)"
        using r(3) again unfolding retry_shape_def by (auto simp: algebra_simps)
      then show ?thesis using r by (intro exI[of _ "Suc calls"] exI[of _ "?new @ new"]) simp
    qed
  qed
qed

text \<open>The retries a policy allows.\<close>

definition allowed_retries :: "retry_policy option \<Rightarrow> int" where
  "allowed_retries policy = (case policy of Some p \<Rightarrow> if ry_enabled p then ry_maxRetries p else 0 | None \<Rightarrow> 0)"


definition provider_reply :: "stop_reason \<Rightarrow> string \<Rightarrow> assistant_message" where
  "provider_reply reason text =
     \<lparr>am_content = [], am_api = js ''api'', am_provider = js ''anthropic'', am_model = js ''opus'', am_responseModel = None,
      am_responseId = None, am_providerThinkingLevel = None, am_diagnostics = None, am_usage = emptyUsage,
      am_stopReason = reason, am_deferred = None, am_errorMessage = (if text = [] then None else Some (js text)),
      am_rawStopReason = None, am_endTurn = None, am_timestamp = 0\<rparr>"

definition sample_policy :: "retry_policy option" where
  "sample_policy = Some \<lparr>ry_enabled = True, ry_maxRetries = 2, ry_baseDelayMs = 1000, ry_maxAgentDelayMs = None\<rparr>"

text \<open>The provider is overloaded once, then answers.\<close>

definition sample_produce :: "stop_reason list \<Rightarrow> assistant_message \<times> stop_reason list" where
  "sample_produce w = (case w of [] \<Rightarrow> (provider_reply Stop [], []) | r # rs \<Rightarrow> (provider_reply r ''Overloaded'', rs))"


section \<open>The documented throttling message\<close>

lemma overflow_text:
  assumes "Search (PText cs) \<in> set OVERFLOW_PATTERNS" "am_stopReason m = Error" "am_errorMessage m = Some (a @ b @ c)" "b \<noteq> []"
    and "map fold_case b = map fold_case (js cs)" "\<not> list_ex (\<lambda>p. regex_test p (a @ b @ c)) NON_OVERFLOW_PATTERNS"
  shows "isContextOverflow m window"
proof -
  have "regex_test (Search (PText cs)) (a @ b @ c)" unfolding text_found using assms(5) by blast
  then have "list_ex (\<lambda>p. regex_test p (a @ b @ c)) OVERFLOW_PATTERNS" using assms(1) unfolding list_ex_iff by blast
  moreover have "present_text (Some (a @ b @ c)) = Some (a @ b @ c)" using assms(4) by (cases "a @ b @ c") (auto simp: present_text_def)
  ultimately show ?thesis using assms(2,3,6) by (simp add: isContextOverflow_def)
qed

text \<open>
  The comment of \<open>NON_OVERFLOW_PATTERNS\<close> gives a throttling message as the example of what they exclude; none matches
  it, and the message counts as an overflow.
\<close>

theorem documented_throttling_overflows:
  "isContextOverflow (provider_reply Error ''ThrottlingException: Too many tokens, please wait before trying again.'') None"
proof (rule overflow_text[where cs = "''too many tokens''" and a = "js ''ThrottlingException: ''" and b = "js ''Too many tokens''"
      and c = "js '', please wait before trying again.''"])
  show "Search (PText ''too many tokens'') \<in> set OVERFLOW_PATTERNS" by (simp add: OVERFLOW_PATTERNS_def)
  show "\<not> list_ex (\<lambda>p. regex_test p (js ''ThrottlingException: '' @ js ''Too many tokens'' @ js '', please wait before trying again.''))
    NON_OVERFLOW_PATTERNS"
    by (simp add: js_def NON_OVERFLOW_PATTERNS_def fold_case_def)
qed (simp_all add: provider_reply_def js_def fold_case_def)

end
