(* ===== verification/RequestSamples.thy ===== *)
theory RequestSamples
  imports HarnessSamples
begin

text \<open>
  The run of \<open>HarnessSamples\<close> driven up to its first assistant request, for the witnesses of the request properties.
\<close>

definition sample_started :: harness where
  "sample_started = snd (startRun_commit (js ''main'') (js ''op'') [] 3 sample_running)"

definition sample_ready :: harness where
  "sample_ready = snd (runCheckpoint_plan (js ''main'') (js ''op'') (js ''s1'') None 4 sample_started)"

definition sample_lane :: "harness \<Rightarrow> lane" where
  "sample_lane h = the (map_get (ha_lanes h) (js ''main''))"

definition sample_operation :: "harness \<Rightarrow> operation" where
  "sample_operation h = the (la_operation (ln_state (sample_lane h)))"

definition sample_leaf :: "harness \<Rightarrow> operation_leaf" where
  "sample_leaf h = op_leaf (op_state (sample_operation h))"

fun leaf_generation :: "operation_leaf \<Rightarrow> generation_context" where
  "leaf_generation (AssistantReady g n) = g"
| "leaf_generation (AssistantEffectPending g n a b c d) = g"
| "leaf_generation (AssistantRetryWait g w) = g"
| "leaf_generation _ = undefined"

definition sample_limits :: model_limits where
  "sample_limits = \<lparr>ml_maxTokens = 1000, ml_contextWindow = 200000\<rparr>"

definition sample_requested :: harness where
  "sample_requested = snd (runGeneration_intent (js ''main'') (js ''op'') (leaf_generation (sample_leaf sample_ready)) 1
     (js ''r1'') (js ''u1'') sample_limits 5 sample_ready)"

definition sample_reply :: "stop_reason \<Rightarrow> string \<Rightarrow> assistant_message" where
  "sample_reply reason text =
     \<lparr>am_content = [AText \<lparr>tx_text = js ''hello'', tx_signature = None\<rparr>], am_api = js ''api'', am_provider = js ''p'',
      am_model = js ''m'', am_responseModel = None, am_responseId = None, am_providerThinkingLevel = None,
      am_diagnostics = None, am_usage = emptyUsage, am_stopReason = reason, am_deferred = None,
      am_errorMessage = (if text = [] then None else Some (js text)), am_rawStopReason = None, am_endTurn = None,
      am_timestamp = 6\<rparr>"

text \<open>One evaluation of the chain for all facts about it.\<close>

definition sample_answered :: "procedure_result outcome \<times> harness" where
  "sample_answered = publishResponse (js ''main'') (js ''op'') (sample_leaf sample_requested) (sample_reply Stop []) False None
     (\<lambda>k. []) 7 sample_requested"

text \<open>The same request answered by a deferral, then a pass that may poll it.\<close>

definition deferred_reply :: assistant_message where
  "deferred_reply = (sample_reply Deferred [])\<lparr>am_deferred := Some \<lparr>dh_provider = js ''p'', dh_modelId = js ''m'', dh_api = js ''api'',
     dh_id = js ''d'', dh_expiresAt = None, dh_pollAfterMs = None, dh_data = None\<rparr>\<rparr>"

definition sample_suspended :: harness where
  "sample_suspended = snd (publishResponse (js ''main'') (js ''op'') (sample_leaf sample_requested) deferred_reply False None
     (\<lambda>k. []) 7 sample_requested)"

definition sample_driven :: harness where
  "sample_driven = snd (drive_claim (js ''main'') None
     \<lparr>do_operationId = js ''op'', do_waitForRetry = None, do_pollDeferred = Some True\<rparr> sample_suspended)"

definition sample_drive :: "harness \<Rightarrow> drive" where
  "sample_drive h = the (ln_drive (sample_lane h))"

definition sample_deferred :: "harness \<Rightarrow> deferred_scope" where
  "sample_deferred h = fst (the (deferred_leaf (sample_leaf h)))"

definition sample_poll :: "operation_leaf continue_result outcome \<times> harness" where
  "sample_poll = publishPollIntent (js ''main'') (js ''op'') (dr_serial (sample_drive sample_driven)) (sample_deferred sample_driven) None 1
     (js ''r2'') (js ''u2'') False 9 sample_driven"

definition continues :: "'r continue_result outcome \<Rightarrow> bool" where
  "continues out = (case out of Returned (ContinueResult r) \<Rightarrow> True | _ \<Rightarrow> False)"

lemma sample_facts:
  "let h0 = sample_running;
       h1 = snd (startRun_commit (js ''main'') (js ''op'') [] 3 h0);
       h2 = snd (runCheckpoint_plan (js ''main'') (js ''op'') (js ''s1'') None 4 h1);
       h3 = snd (runGeneration_intent (js ''main'') (js ''op'') (leaf_generation (sample_leaf h2)) 1
         (js ''r1'') (js ''u1'') sample_limits 5 h2);
       answer = publishResponse (js ''main'') (js ''op'') (sample_leaf h3) (sample_reply Stop []) False None (\<lambda>k. []) 7 h3;
       h4 = snd (publishResponse (js ''main'') (js ''op'') (sample_leaf h3) deferred_reply False None (\<lambda>k. []) 7 h3);
       h5 = snd (drive_claim (js ''main'') None \<lparr>do_operationId = js ''op'', do_waitForRetry = None, do_pollDeferred = Some True\<rparr> h4);
       poll = publishPollIntent (js ''main'') (js ''op'') (dr_serial (sample_drive h5)) (sample_deferred h5) None 1 (js ''r2'') (js ''u2'') False 9 h5
   in drives_run (js ''main'') (js ''op'') h0 \<and> drives_run (js ''main'') (js ''op'') h1 \<and>
     drives_run (js ''main'') (js ''op'') h2 \<and> drives_run (js ''main'') (js ''op'') h3 \<and>
     intent_ids (sample_leaf h3) = Some (js ''r1'', js ''u1'') \<and> fst answer = Returned ProcContinue \<and>
     map_get (ha_lanes h5) (js ''main'') \<noteq> None \<and> ln_drive (sample_lane h5) \<noteq> None \<and> dr_deferredPermits (sample_drive h5) \<noteq> 0 \<and>
     continues (fst poll)"
  by code_simp

lemmas sample_chain = sample_facts[unfolded Let_def, folded sample_started_def, folded sample_ready_def,
  folded sample_requested_def, folded sample_answered_def, folded sample_suspended_def, folded sample_driven_def, folded sample_poll_def]

lemma sample_poll_facts:
  "\<exists>l. map_get (ha_lanes sample_driven) (js ''main'') = Some l" "\<exists>d. ln_drive (sample_lane sample_driven) = Some d"
  "dr_deferredPermits (sample_drive sample_driven) \<noteq> 0" "\<exists>leaf. fst sample_poll = Returned (ContinueResult leaf)"
  using sample_chain by (auto simp: continues_def split: outcome.splits continue_result.splits)

lemma sample_drives:
  "drives_run (js ''main'') (js ''op'') sample_running" "drives_run (js ''main'') (js ''op'') sample_started"
  "drives_run (js ''main'') (js ''op'') sample_ready" "drives_run (js ''main'') (js ''op'') sample_requested"
  using sample_chain by blast+

lemma sample_request_reachable:
  "harness_reachable sample_options sample_backed sample_ready"
  "harness_reachable sample_options sample_backed sample_requested"
proof -
  have "harness_reachable sample_options sample_backed sample_started"
    unfolding sample_started_def
    by (rule harness_reachable.stepped[OF sample_reachable(3) harness_step.step_start_commit[OF sample_drives(1)]])
  then show r: "harness_reachable sample_options sample_backed sample_ready"
    unfolding sample_ready_def by (rule harness_reachable.stepped) (rule harness_step.step_checkpoint[OF sample_drives(2)])
  show "harness_reachable sample_options sample_backed sample_requested"
    unfolding sample_requested_def
    by (rule harness_reachable.stepped[OF r harness_step.step_generation_intent[OF sample_drives(3)]])
qed

lemma sample_driven_reachable: "harness_reachable sample_options sample_backed sample_driven"
proof -
  have "harness_reachable sample_options sample_backed sample_suspended"
    unfolding sample_suspended_def
    by (rule harness_reachable.stepped[OF sample_request_reachable(2) harness_step.step_response[OF sample_drives(4)]])
  then show ?thesis
    unfolding sample_driven_def by (rule harness_reachable.stepped) (rule harness_step.step_drive)
qed

lemma sample_lane_at:
  assumes "drives_run (js ''main'') i h"
  shows "map_get (ha_lanes h) (js ''main'') = Some (sample_lane h)"
    "la_operation (ln_state (sample_lane h)) = Some (sample_operation h)"
  using assms by (auto simp: drives_run_def sample_lane_def sample_operation_def split: option.splits)

end
