(* ===== verification/ResponseProps.thy ===== *)
theory ResponseProps
  imports RequestSamples QueueProps
begin

text \<open>
  What a published response leaves in storage, over the abstract store of \<open>StorageCommit\<close>, and how often a request
  can follow another without anything else happening in between.
\<close>

section \<open>Writes and the abstract store\<close>

fun row_free :: "storage_write \<Rightarrow> bool" where
  "row_free (WEntry e) = False"
| "row_free (WUsage u) = False"
| "row_free (WListAppend ns k v) = False"
| "row_free _ = True"

lemma row_free_keeps:
  "list_all row_free ws \<Longrightarrow> ab_entries (fold spec_write (commit_writes_from ws n ts) a) = ab_entries a \<and>
     ab_usage (fold spec_write (commit_writes_from ws n ts) a) = ab_usage a"
proof (induction ws n ts arbitrary: a rule: commit_writes_from.induct)
  case (2 w ws n ts)
  then show ?case by (cases w) auto
qed simp

lemma row_free_lists:
  assumes "list_all row_free ws"
  shows "ab_lists (fold spec_write (commit_writes_from ws n ts) a) (ns, k) =
    (if WListDelete ns k \<in> set ws then [] else ab_lists a (ns, k))"
  using assms
proof (induction ws n ts arbitrary: a rule: commit_writes_from.induct)
  case (2 w ws n ts)
  then show ?case by (cases w) auto
qed simp

text \<open>What a response adds, whatever row-free writes follow.\<close>

definition stored_response ::
  "jstring \<Rightarrow> jstring \<Rightarrow> jstring option \<Rightarrow> assistant_message \<Rightarrow> int \<Rightarrow> abstract_store \<Rightarrow> abstract_store \<Rightarrow> bool" where
  "stored_response i u tip committed now before after \<longleftrightarrow>
     (\<exists>n. ab_entries after = ab_entries before @
         [\<lparr>en_id = i, en_parentId = tip, en_seq = n, en_timestamp = now, en_body = MessageBody (AssistantMsg committed) False\<rparr>] \<and>
       ab_usage after = ab_usage before @
         [\<lparr>ur_id = u, ur_seq = n + 1, ur_usage = am_usage committed, ur_entryId = Some i, ur_adjustment = False, ur_details = None\<rparr>])"

lemma response_stored:
  assumes "list_all row_free ws"
  shows "stored_response i u tip committed now a
    (fold spec_write (commit_writes_from (response_writes name t (response_entry i tip committed) (response_usage u i committed) @ ws) n now) a)"
  using row_free_keeps[OF assms]
  by (auto simp: stored_response_def response_entry_def response_usage_def insertEntry_def insertUsage_def
      materializeCommittedEntry_def materializeUsageRow_def)

lemma response_lists:
  assumes "list_all row_free ws" "WListDelete ns k \<in> set ws"
  shows "ab_lists (fold spec_write (commit_writes_from (response_writes name t e u @ ws) n now) a) (ns, k) = []"
  using assms by (simp add: insertEntry_def insertUsage_def row_free_lists)

lemma cleanup_row_free: "list_all (cleanup_write i) ws \<Longrightarrow> list_all row_free ws"
  by (induction ws) (auto simp: cleanup_write_def split: storage_write.splits)

lemma cleanup_deletes:
  assumes "list_all (cleanup_write i) ws" "WValueDelete ns k \<in> set ws \<or> V (ns, k) = None"
  shows "write_values ws V (ns, k) = None"
  using assms
proof (induction ws arbitrary: V)
  case (Cons w ws)
  then show ?case by (cases w) (auto simp: cleanup_write_def)
qed simp

lemma cleanup_members:
  assumes c: "operationCleanupWrites s i state = Inr ws"
  shows "WValueDelete ns_op_meta i \<in> set ws \<and> WValueDelete ns_op_state i \<in> set ws \<and>
    (\<forall>r u. intent_ids (op_leaf state) = Some (r, u) \<longrightarrow> WListDelete ns_frame (i @ COLON @ r) \<in> set ws)"
  using c
  by (auto simp: operationCleanupWrites_def operationMeta_def operationState_def mkValue_eq_Inr deleteValue_def
      frame_delete_def pendingAssistantFrames_def mkList_eq_Inr deleteList_def split: operation_leaf.splits)

section \<open>A published response\<close>

lemma settle_returned:
  assumes inv: "harness_inv h" and run: "settleOperation name plan now h = (Returned out, h')"
    and plan: "\<And>state current meta s d. plan state current meta s = Inr d \<Longrightarrow> \<nexists>r. d = OperationReturn r"
  obtains l operation d ws nx mat evs s' c where "map_get (ha_lanes h) name = Some l" "la_operation (ln_state l) = Some operation"
    "plan (ln_state l) (op_state operation) (op_meta operation) (ms_data (se_storage (ha_session h))) = Inr d"
    "settle_decision name (ln_state l) (op_meta operation) d = Inr (CommandCommit ws nx mat evs)"
    "settle_plan name plan (ln_state l) (ms_data (se_storage (ha_session h))) = Inr (CommandCommit ws nx mat evs)"
    "commitStorage ws now (ms_data (se_storage (ha_session h))) = (s', Inr c)" "out = mat c"
    "ms_data (se_storage (ha_session h')) = s'" "map_get (ha_lanes h') name = Some (l\<lparr>ln_state := nx\<rparr>)"
proof -
  have commits: "\<exists>ws nx mat evs. d = CommandCommit ws nx mat evs" if h: "settle_plan name plan state s = Inr d" for state s d
  proof -
    obtain operation where op: "la_operation state = Some operation"
      using h by (cases "la_operation state") (simp_all add: settle_plan_def)
    obtain x where x: "plan state (op_state operation) (op_meta operation) s = Inr x"
        "settle_decision name state (op_meta operation) x = Inr d"
      using h by (auto simp: settle_plan_def op)
    show ?thesis using x(2) plan[OF x(1)] by (cases x) (auto simp: settle_decision_def Let_def)
  qed
  obtain l ws nx mat evs s' c where r: "map_get (ha_lanes h) name = Some l"
    "settle_plan name plan (ln_state l) (ms_data (se_storage (ha_session h))) = Inr (CommandCommit ws nx mat evs)"
    "commitStorage ws now (ms_data (se_storage (ha_session h))) = (s', Inr c)" "out = mat c"
    "h' = h\<lparr>ha_session := (ha_session h)\<lparr>se_storage := (se_storage (ha_session h))\<lparr>ms_data := s'\<rparr>\<rparr>,
         ha_lanes := map_set name (l\<lparr>ln_state := nx\<rparr>) (ha_lanes h), ha_log := ha_log h @ evs c\<rparr>"
    by (rule returned_commit[OF inv run[unfolded settleOperation_def]], erule commits) blast
  obtain operation where op: "la_operation (ln_state l) = Some operation"
    using r(2) by (cases "la_operation (ln_state l)") (simp_all add: settle_plan_def)
  obtain d where d: "plan (ln_state l) (op_state operation) (op_meta operation) (ms_data (se_storage (ha_session h))) = Inr d"
      "settle_decision name (ln_state l) (op_meta operation) d = Inr (CommandCommit ws nx mat evs)"
    using r(2) by (auto simp: settle_plan_def op)
  show thesis by (rule that[OF r(1) op d r(2-4)]) (simp_all add: r(5) update_conv')
qed

text \<open>What the writes of a settlement leave in the abstract store.\<close>

lemma finish_store:
  assumes cl: "operationCleanupWrites s runId current = Inr cleanup" and inv: "storage_inv s"
    and i: "intent_ids (op_leaf current) = Some (i, u)"
    and ws: "ws = response_writes name i (response_entry i tip committed) (response_usage u i committed) @ cleanup @
      [WValueSet ns_result runId (VResult result), WValueSet ns_lane_state name v]"
    and after: "after = fold spec_write (commit_writes_from ws n now) before"
  shows "stored_response i u tip committed now before after \<and> ab_lists after (ns_frame, runId @ COLON @ i) = [] \<and>
    ab_values after (ns_op_meta, runId) = None \<and> ab_values after (ns_op_state, runId) = None \<and>
    ab_values after (ns_result, runId) = Some (VResult result)"
proof -
  let ?tail = "cleanup @ [WValueSet ns_result runId (VResult result), WValueSet ns_lane_state name v]"
  note cw = cleanup_writes[OF inv cl] and members = cleanup_members[OF cl]
  have free: "list_all row_free ?tail" using cleanup_row_free[OF cw] by simp
  have vals: "ab_values after = write_values ws (ab_values before)" by (simp add: after spec_write_values)
  have "WListDelete ns_frame (runId @ COLON @ i) \<in> set ?tail" using members i by simp
  from response_stored[OF free] response_lists[OF free this]
  have "stored_response i u tip committed now before after \<and> ab_lists after (ns_frame, runId @ COLON @ i) = []"
    unfolding after ws by blast
  moreover have "write_values (response_writes name i e r @ cleanup) V (ns, runId) = None"
    if "ns = ns_op_meta \<or> ns = ns_op_state" for ns V e r
    using cleanup_deletes[OF cw] members that by (auto simp: insertEntry_def insertUsage_def)
  then have "ab_values after (ns_op_meta, runId) = None" "ab_values after (ns_op_state, runId) = None"
    "ab_values after (ns_result, runId) = Some (VResult result)"
    unfolding vals ws by auto
  ultimately show ?thesis by blast
qed

lemma commit_store:
  assumes fr: "pendingAssistantFrames runId i = Inr frames" and pr: "preparation_writes runId prepared (Some leaf) = Inr preparation"
    and ws: "ws = response_writes name i (response_entry i tip committed) (response_usage u i committed) @ deleteList frames # preparation @
      [WValueSet ns_op_state runId (VOpState st)]"
    and after: "after = fold spec_write (commit_writes_from ws n now) before"
  shows "stored_response i u tip committed now before after \<and> ab_lists after (ns_frame, runId @ COLON @ i) = [] \<and>
    ab_values after (ns_op_state, runId) = Some (VOpState st)"
proof -
  let ?tail = "deleteList frames # preparation @ [WValueSet ns_op_state runId (VOpState st)]"
  have d: "deleteList frames = WListDelete ns_frame (runId @ COLON @ i)"
    using fr by (auto simp: pendingAssistantFrames_def mkList_eq_Inr deleteList_def)
  have "list_all row_free preparation"
    using pr by (auto simp: preparation_writes_def operationPreparation_def mkValue_eq_Inr setValue_def
        split: option.splits operation_leaf.splits)
  then have free: "list_all row_free ?tail" by (simp add: d)
  have vals: "ab_values after = write_values ws (ab_values before)" by (simp add: after spec_write_values)
  have "WListDelete ns_frame (runId @ COLON @ i) \<in> set ?tail" by (simp add: d)
  from response_stored[OF free] response_lists[OF free this]
  have "stored_response i u tip committed now before after \<and> ab_lists after (ns_frame, runId @ COLON @ i) = []"
    unfolding after ws by blast
  moreover have "ab_values after (ns_op_state, runId) = Some (VOpState st)" unfolding vals ws by simp
  ultimately show ?thesis by blast
qed

definition published ::
  "jstring \<Rightarrow> jstring \<Rightarrow> jstring \<Rightarrow> operation \<Rightarrow> lane_state \<Rightarrow> disposition \<Rightarrow> procedure_result \<Rightarrow> int \<Rightarrow> lane_state \<Rightarrow>
   abstract_store \<Rightarrow> abstract_store \<Rightarrow> bool" where
  "published runId i u operation state d r now next before after \<longleftrightarrow>
     (case d of (committed, settled, failure) \<Rightarrow>
       la_tipId next = Some i \<and> stored_response i u (la_tipId state) committed now before after \<and>
       ab_lists after (ns_frame, runId @ COLON @ i) = [] \<and>
       (case failure of
          None \<Rightarrow>
            r = ProcContinue \<and> (\<exists>leaf st. settled = Some leaf \<and> op_leaf st = leaf \<and>
              os_latestAssistantEntryId (op_scope st) = Some i \<and> os_control (op_scope st) = os_control (op_scope (op_state operation)) \<and>
              la_operation next = Some \<lparr>op_meta = op_meta operation, op_state = st\<rparr> \<and>
              ab_values after (ns_op_state, runId) = Some (VOpState st))
        | Some err \<Rightarrow>
            (\<exists>result. r = ProcSettled result \<and> or_status result = FailedStatus \<and> or_error result = Some err \<and>
              la_operation next = None \<and> la_lastOperationId next = Some runId \<and>
              ab_values after (ns_op_meta, runId) = None \<and> ab_values after (ns_op_state, runId) = None \<and>
              ab_values after (ns_result, runId) = Some (VResult result))))"

text \<open>C25: A response published for the request that is open settles it exactly once: the message its classification
  commits is stored as a child of the tip and becomes the tip, its usage is recorded under the reserved id, the frames
  streamed for it are deleted, and either the operation moves to the classified leaf, in memory and in storage, or it
  ends with the classified failure as its stored result and leaves no operation slot.\<close>

theorem response_published:
  assumes reach: "harness_reachable options session h" "session_sound session" and d: "drives_run name runId h"
    and l: "map_get (ha_lanes h) name = Some l" "la_operation (ln_state l) = Some operation"
    and intent: "intent_ids (op_leaf (op_state operation)) = Some (i, u)"
    and run: "publishResponse name runId (op_leaf (op_state operation)) response recovery prepare resultId now h = (Returned r, h')"
  shows "\<exists>effect disposition l'. effect_of (op_leaf (op_state operation)) = Some effect \<and>
    settle_response recovery (os_control (op_scope (op_state operation))) effect i resultId
      (if response_overflows (op_leaf (op_state operation)) response
       then Some (if recovery_left (op_leaf (op_state operation)) then map_option fst prepare else None) else None)
      now response = Inr disposition \<and>
    map_get (ha_lanes h') name = Some l' \<and>
    published runId i u operation (ln_state l) disposition r now (ln_state l')
      (abs_store (ms_data (se_storage (ha_session h)))) (abs_store (ms_data (se_storage (ha_session h'))))"
proof -
  let ?leaf = "op_leaf (op_state operation)" and ?s = "ms_data (se_storage (ha_session h))"
  let ?over = "response_overflows ?leaf response"
  define prepared where "prepared = (if ?over \<and> recovery_left ?leaf then prepare else None)"
  have inv: "harness_inv h" by (rule harness_reachable_inv[OF reach])
  have sinv: "storage_inv ?s" using inv by (simp add: harness_inv_def)
  have im: "lane_image (value_at ?s) name (ln_state l)" by (rule harness_inv_lane[OF inv l(1)])
  have g: "run_guard runId operation" using d l by (simp add: drives_run_def)
  have run': "settleOperation name (response_plan name runId i u recovery ?over prepared resultId now response) now h = (Returned r, h')"
    using run intent by (simp add: publishResponse_def prepared_def Let_def)
  have no_return: "\<nexists>x. d = OperationReturn x"
    if "response_plan name runId i u recovery ?over prepared resultId now response state current meta s = Inr d" for state current meta s d
    using that by (cases rule: response_plan_cases) simp_all
  obtain l0 op0 d ws nx mat evs s' c where cmd: "map_get (ha_lanes h) name = Some l0" "la_operation (ln_state l0) = Some op0"
    "response_plan name runId i u recovery ?over prepared resultId now response (ln_state l0) (op_state op0) (op_meta op0) ?s = Inr d"
    "settle_decision name (ln_state l0) (op_meta op0) d = Inr (CommandCommit ws nx mat evs)"
    "settle_plan name (response_plan name runId i u recovery ?over prepared resultId now response) (ln_state l0) ?s = Inr (CommandCommit ws nx mat evs)"
    "commitStorage ws now ?s = (s', Inr c)" "r = mat c"
    "ms_data (se_storage (ha_session h')) = s'" "map_get (ha_lanes h') name = Some (l0\<lparr>ln_state := nx\<rparr>)"
    by (rule settle_returned[OF inv run'], erule no_return) blast
  have eqs: "l0 = l" "op0 = operation" using cmd(1,2) l by simp_all
  have ready: "pred_option (run_guard runId) (la_operation (ln_state l))" using l(2) g by simp
  have ok: "list_all addressed ws" using response.settle_commits[OF sinv im ready cmd(5)[unfolded eqs]] by simp
  have after: "abs_store s' = fold spec_write (commit_writes_from ws (sst_nextSeq ?s) now) (abs_store ?s)"
    by (rule commitStorage_refines[OF sinv ok cmd(6)])
  have rid: "me_operationId (op_meta operation) = runId" using g by (simp add: run_guard_def)
  have over: "(if ?over then Some (map_option fst prepared) else None) =
      (if ?over then Some (if recovery_left ?leaf then map_option fst prepare else None) else None)"
    by (simp add: prepared_def)
  from cmd(3)[unfolded eqs] show ?thesis
  proof (cases rule: response_plan_cases)
    case (finish effect committed settled err cleanup result ev)
    have res: "or_status result = FailedStatus" "or_error result = Some err"
      using finish(2) by (auto simp: operationResultRecord_def split: if_splits)
    from cmd(4)[unfolded eqs finish(4)] rid obtain v where
      ws: "ws = response_writes name i (response_entry i (la_tipId (ln_state l)) committed) (response_usage u i committed) @ cleanup @
        [WValueSet ns_result runId (VResult result), WValueSet ns_lane_state name v]"
      and nx: "la_tipId nx = Some i" "la_operation nx = None" "la_lastOperationId nx = Some runId" and mat: "mat = (\<lambda>c. ProcSettled result)"
      by (auto simp: settle_decision_def operationResult_def laneState_def mkValue_eq_Inr setValue_def Let_def apply_patch_def no_patch_def)
    show ?thesis
      using finish(1) over finish_store[OF finish(3) sinv intent ws after] res nx cmd(7-9) mat eqs
      by (auto simp: published_def)
  next
    case (commit effect committed leaf frames preparation ev)
    from cmd(4)[unfolded eqs commit(4)] rid obtain st where
      ws: "ws = response_writes name i (response_entry i (la_tipId (ln_state l)) committed) (response_usage u i committed) @
        deleteList frames # preparation @ [WValueSet ns_op_state runId (VOpState st)]"
      and st: "op_leaf st = leaf" "os_latestAssistantEntryId (op_scope st) = Some i"
        "os_control (op_scope st) = os_control (op_scope (op_state operation))"
      and nx: "la_tipId nx = Some i" "la_operation nx = Some \<lparr>op_meta = op_meta operation, op_state = st\<rparr>"
      and mat: "mat = (\<lambda>c. ProcContinue)"
      by (auto simp: settle_decision_def operationState_def laneState_def mkValue_eq_Inr setValue_def apply_patch_def no_patch_def
          operationScopeOf_def)
    show ?thesis
      using commit(1) over commit_store[OF commit(2,3) ws after] st nx cmd(7-9) mat eqs
      by (auto simp: published_def)
  qed
qed

theorem response_published_witness:
  "\<exists>l'. map_get (ha_lanes (snd sample_answered)) (js ''main'') = Some l' \<and> la_tipId (ln_state l') = Some (js ''r1'')"
proof -
  note l = sample_lane_at[OF sample_drives(4)]
  have i: "intent_ids (op_leaf (op_state (sample_operation sample_requested))) = Some (js ''r1'', js ''u1'')"
    using sample_chain by (simp add: sample_leaf_def)
  have run: "publishResponse (js ''main'') (js ''op'') (op_leaf (op_state (sample_operation sample_requested)))
      (sample_reply Stop []) False None (\<lambda>k. []) 7 sample_requested = (Returned ProcContinue, snd sample_answered)"
    using sample_chain unfolding sample_answered_def sample_leaf_def by (metis prod.collapse)
  from response_published[OF sample_request_reachable(2) sample_sound sample_drives(4) l i run]
  show ?thesis by (auto simp: published_def split: prod.splits)
qed

end
