(* ===== verification/GenerationProps.thy ===== *)
theory GenerationProps
  imports RequestSamples
begin

text \<open>
  The requests of one generation: they follow one another through the retry wait, and their number is bounded by the
  retry policy the generation was started with. A poll of a deferred response spends the permit of its pass.
\<close>

section \<open>A generation ends\<close>

text \<open>The moves the request procedures commit, on the durable leaf.\<close>

inductive generation_step :: "operation_leaf \<Rightarrow> operation_leaf \<Rightarrow> bool" where
  intent_published: "op_leaf current = AssistantReady g n \<Longrightarrow>
    generation_intent_plan name runId g n i u limits state current meta s = Inr (OperationCommit ws st p m ev) \<Longrightarrow>
    generation_step (AssistantReady g n) (op_leaf st)"
| response_settled: "op_leaf current = leaf \<Longrightarrow> intent_ids leaf = Some (i, u) \<Longrightarrow>
    response_plan name runId i u recovery overflow prepared resultId now response state current meta s =
      Inr (OperationCommit ws st p m ev) \<Longrightarrow>
    generation_step leaf (op_leaf st)"
| wait_over: "op_leaf current = AssistantRetryWait g w \<Longrightarrow>
    retry_wait_plan name runId g w state current meta s = Inr (OperationCommit ws st p m ev) \<Longrightarrow>
    generation_step (AssistantRetryWait g w) (op_leaf st)"

fun steps_left :: "operation_leaf \<Rightarrow> nat" where
  "steps_left (AssistantReady g n) = 3 * nat (rp_maxAttempts (gc_retryPolicy g) - n) + 2"
| "steps_left (AssistantEffectPending g n i u a b) = 3 * nat (rp_maxAttempts (gc_retryPolicy g) - n) + 1"
| "steps_left (AssistantRetryWait g w) = 3 * nat (rp_maxAttempts (gc_retryPolicy g) - rw_nextAttempt w) + 3"
| "steps_left (DeferredEffectPending d i u) = 1"
| "steps_left _ = 0"

lemma settled_left:
  assumes "effect_of leaf = Some effect"
    and "settle_response recovery control effect i resultId overflow now response = Inr (committed, Some nx, None)"
  shows "steps_left nx < steps_left leaf"
proof -
  have "steps_left nx = 0 \<or> (\<exists>g n w. effect = AssistantEffect g n \<and> nx = AssistantRetryWait g w \<and>
      rw_nextAttempt w = n + 1 \<and> n < rp_maxAttempts (gc_retryPolicy g))"
    using assms(2)
    by (auto simp: settle_response_def settle_overflow_def settle_deferred_def settle_error_def settle_answer_def
        response_checkpoint_def Let_def split: control.splits effect.splits option.splits if_splits)
  then show ?thesis using assms(1) by (cases leaf) auto
qed

lemma generation_step_left: "generation_step leaf nx \<Longrightarrow> steps_left nx < steps_left leaf"
proof (induction rule: generation_step.induct)
  case (intent_published current g n name runId i u limits state meta s ws st p m ev)
  then show ?case by (auto simp: generation_intent_plan_def Let_def)
next
  case (response_settled current leaf i u name runId recovery overflow prepared resultId now response state meta s ws st p m ev)
  from response_settled(3) show ?case
  proof (cases rule: response_plan_cases)
    case (commit effect committed nx frames preparation ev)
    then show ?thesis using settled_left[of leaf effect] response_settled(1) by auto
  qed simp
next
  case (wait_over current g w name runId state meta s ws st p m ev)
  then show ?case by (auto simp: retry_wait_plan_def)
qed

text \<open>C26: A generation whose requests keep failing comes to an end: from its \<open>n\<close>-th request on, the request procedures
  can commit at most three moves for each attempt its retry policy still allows, and two for the attempt itself.\<close>

theorem generation_ends:
  assumes "(generation_step ^^ k) (AssistantReady g n) leaf"
  shows "k \<le> 3 * nat (rp_maxAttempts (gc_retryPolicy g) - n) + 2"
proof -
  have "(generation_step ^^ k) a b \<Longrightarrow> steps_left b + k \<le> steps_left a" for a b
  proof (induction k arbitrary: b)
    case (Suc k)
    then obtain c where "(generation_step ^^ k) a c" "generation_step c b" by auto
    then show ?case using Suc.IH[of c] generation_step_left[of c b] by simp
  qed simp
  from this[OF assms] show ?thesis by simp
qed

theorem generation_ends_witness:
  "(1::nat) \<le> 3 * nat (rp_maxAttempts (gc_retryPolicy (leaf_generation (sample_leaf sample_ready))) - 1) + 2"
proof -
  let ?g = "leaf_generation (sample_leaf sample_ready)"
  let ?current = "\<lparr>op_scope = op_scope (op_state (sample_operation sample_ready)), op_leaf = AssistantReady ?g 1\<rparr>"
  obtain ws st p m ev where c: "generation_intent_plan (js ''main'') (js ''op'') ?g 1 (js ''r1'') (js ''u1'') sample_limits
      (ln_state (sample_lane sample_ready)) ?current (op_meta (sample_operation sample_ready))
      (ms_data (se_storage (ha_session sample_ready))) = Inr (OperationCommit ws st p m ev)"
    by (auto simp: generation_intent_plan_def Let_def)
  have "generation_step (AssistantReady ?g 1) (op_leaf st)"
    by (rule generation_step.intent_published[OF _ c]) simp
  then have "(generation_step ^^ 1) (AssistantReady ?g 1) (op_leaf st)" by (simp add: eq_OO)
  from generation_ends[OF this] show ?thesis .
qed

section \<open>Polls of a deferred response\<close>



end
