(* ===== verification/ToolProps.thy ===== *)
theory ToolProps
  imports ToolFacts Samples Harness
begin

text \<open>
  A batch of tool calls as a whole: the calls are started, answered and placed by the three commands of the pass, in
  whatever order the answers come; the results enter the transcript in source order, and the batch ends.
\<close>

section \<open>Runs of a batch\<close>

text \<open>
  The moves of the pass on the leaf and the tip of the lane, with the entries each adds. A task publishes the intent and
  the outcome of a call that is still its own; a placement takes staged calls that follow the completed ones.
\<close>

inductive tool_step ::
  "operation_leaf \<times> jstring option \<Rightarrow> new_entry list \<Rightarrow> operation_leaf \<times> jstring option \<Rightarrow> bool" where
  call_started: "op_leaf current = Tools batch \<Longrightarrow> call \<in> set (tb_calls batch) \<Longrightarrow> is_planned (bc_status call) \<Longrightarrow>
    tool_intent_plan name runId call toolCall args rp recovery state current meta s = Inr (OperationCommit ws st p m ev) \<Longrightarrow>
    tool_step (Tools batch, la_tipId state) [e. WEntry e \<leftarrow> ws] (op_leaf st, la_tipId (apply_patch p state))"
| call_answered: "op_leaf current = Tools batch \<Longrightarrow> call \<in> set (tb_calls batch) \<Longrightarrow>
    is_planned (bc_status call) \<or> is_pending (bc_status call) \<Longrightarrow>
    tool_outcome_plan name runId call finalized recovery state current meta s = Inr (OperationCommit ws st p m ev) \<Longrightarrow>
    tool_step (Tools batch, la_tipId state) [e. WEntry e \<leftarrow> ws] (op_leaf st, la_tipId (apply_patch p state))"
| calls_placed: "op_leaf current = Tools batch \<Longrightarrow> pr_items read \<noteq> [] \<Longrightarrow> length usageIds = length (pr_items read) \<Longrightarrow>
    prefix (map fst (pr_items read)) (ready_calls batch) \<Longrightarrow>
    commit_placement_plan name runId turnId read usageIds state current meta s = Inr (OperationCommit ws st p m ev) \<Longrightarrow>
    tool_step (Tools batch, la_tipId state) [e. WEntry e \<leftarrow> ws] (op_leaf st, la_tipId (apply_patch p state))"

inductive tool_run ::
  "operation_leaf \<times> jstring option \<Rightarrow> nat \<Rightarrow> new_entry list \<Rightarrow> operation_leaf \<times> jstring option \<Rightarrow> bool" for start where
  run_nil: "tool_run start 0 [] start"
| run_step: "tool_run start k es a \<Longrightarrow> tool_step a fs b \<Longrightarrow> tool_run start (Suc k) (es @ fs) b"

section \<open>The shape of a batch\<close>

text \<open>The calls without their status: what a step never changes.\<close>

definition call_keys :: "tool_batch \<Rightarrow> (int \<times> jstring) list" where
  "call_keys batch = map (\<lambda>c. (bc_sourceIndex c, bc_resultEntryId c)) (tb_calls batch)"

text \<open>Completed calls come first, and the calls are in source order.\<close>

definition batch_ok :: "tool_batch \<Rightarrow> bool" where
  "batch_ok batch \<longleftrightarrow> sorted_wrt (<) (map bc_sourceIndex (tb_calls batch)) \<and>
     list_all (\<lambda>c. \<not> is_completed (bc_status c)) (after_completed batch)"

definition completed_calls :: "tool_batch \<Rightarrow> batch_call list" where
  "completed_calls batch = takeWhile (\<lambda>c. is_completed (bc_status c)) (tb_calls batch)"

lemma batch_split: "tb_calls batch = completed_calls batch @ after_completed batch"
  by (simp add: completed_calls_def after_completed_def)

lemma ready_split: "\<exists>rest. after_completed batch = ready_calls batch @ rest"
  unfolding ready_calls_def by (rule exI) (rule takeWhile_dropWhile_id[symmetric])

text \<open>In source order a call is found by its index.\<close>

lemma same_call_unique:
  assumes "sorted_wrt (<) (map bc_sourceIndex calls)" "a \<in> set calls" "b \<in> set calls"
  shows "same_call a b \<longleftrightarrow> a = b"
proof -
  have "distinct (map bc_sourceIndex calls)" using assms(1) by (simp add: strict_sorted_iff)
  then show ?thesis using assms(2,3) by (auto simp: same_call_def distinct_map inj_on_def)
qed

section \<open>A call changes its status\<close>

lemma replaced_call:
  assumes "sorted_wrt (<) (map bc_sourceIndex (tb_calls batch))" "call \<in> set (tb_calls batch)" "c \<in> set (tb_calls batch)"
  shows "(if same_call c (call\<lparr>bc_status := st\<rparr>) then call\<lparr>bc_status := st\<rparr> else c) = (if c = call then call\<lparr>bc_status := st\<rparr> else c)"
  using same_call_unique[OF assms(1,3,2)] by (simp add: same_call_def)

lemma replaceCall_calls:
  assumes "batch_ok batch" "call \<in> set (tb_calls batch)"
  shows "tb_calls (replaceCall batch (call\<lparr>bc_status := st\<rparr>)) =
    map (\<lambda>c. if c = call then call\<lparr>bc_status := st\<rparr> else c) (tb_calls batch)"
  using assms replaced_call[of batch call] by (auto simp: replaceCall_def batch_ok_def intro!: map_cong)

text \<open>A status changes before the call is completed; the completed calls stay as they are.\<close>

lemma status_changed:
  assumes ok: "batch_ok batch" and c: "call \<in> set (tb_calls batch)"
    and st: "\<not> is_completed (bc_status call)" "\<not> is_completed st"
  shows "batch_ok (replaceCall batch (call\<lparr>bc_status := st\<rparr>))"
    "call_keys (replaceCall batch (call\<lparr>bc_status := st\<rparr>)) = call_keys batch"
    "completed_calls (replaceCall batch (call\<lparr>bc_status := st\<rparr>)) = completed_calls batch"
proof -
  let ?f = "\<lambda>c. if c = call then call\<lparr>bc_status := st\<rparr> else c"
  note calls = replaceCall_calls[OF ok c, of st]
  have same: "is_completed (bc_status (?f c)) = is_completed (bc_status c)" for c using st by simp
  have fixed: "is_completed (bc_status c) \<Longrightarrow> ?f c = c" for c using st(1) by auto
  show "call_keys (replaceCall batch (call\<lparr>bc_status := st\<rparr>)) = call_keys batch"
    by (simp add: call_keys_def calls)
  have "map ?f (completed_calls batch) = completed_calls batch"
  proof (rule map_idI)
    fix c assume "c \<in> set (completed_calls batch)"
    then have "is_completed (bc_status c)" unfolding completed_calls_def by (rule set_takeWhileD[THEN conjunct2])
    then show "?f c = c" by (rule fixed)
  qed
  then show "completed_calls (replaceCall batch (call\<lparr>bc_status := st\<rparr>)) = completed_calls batch"
    by (simp add: completed_calls_def calls takeWhile_map o_def same cong: if_cong)
  have idx: "map bc_sourceIndex (tb_calls (replaceCall batch (call\<lparr>bc_status := st\<rparr>))) = map bc_sourceIndex (tb_calls batch)"
    by (simp add: calls)
  have "after_completed (replaceCall batch (call\<lparr>bc_status := st\<rparr>)) = map ?f (after_completed batch)"
    by (simp add: after_completed_def calls dropWhile_map o_def same)
  then show "batch_ok (replaceCall batch (call\<lparr>bc_status := st\<rparr>))"
    using ok st(2) unfolding batch_ok_def idx by (auto simp: list_all_iff)
qed

section \<open>Results are placed\<close>

definition placed_call :: "batch_call \<Rightarrow> batch_call" where
  "placed_call call = call\<lparr>bc_status := CallCompleted (call_terminates (bc_status call))\<rparr>"

lemma completed_call_items:
  assumes sorted: "sorted_wrt (<) (map bc_sourceIndex calls)" and c: "c \<in> set calls"
    and items: "set (map fst items) \<subseteq> set calls"
  shows "completed_call items c = (if c \<in> set (map fst items) then placed_call c else c)"
proof -
  have same: "same_call (fst item) c \<longleftrightarrow> fst item = c" if "item \<in> set items" for item
    using same_call_unique[OF sorted _ c] items that by auto
  show ?thesis
  proof (cases "List.find (\<lambda>item. same_call (fst item) c) items")
    case None
    then have "\<forall>item \<in> set items. \<not> same_call (fst item) c" by (auto simp: find_None_iff)
    then have "c \<notin> set (map fst items)" using same by auto
    then show ?thesis by (simp add: completed_call_def None)
  next
    case (Some item)
    then have "item \<in> set items" "same_call (fst item) c" by (auto simp: find_Some_iff)
    then show ?thesis using Some same by (auto simp: completed_call_def placed_call_def)
  qed
qed

lemma calls_after_placement:
  assumes ok: "batch_ok batch" and pre: "prefix (map fst items) (ready_calls batch)"
  obtains rest where "tb_calls batch = completed_calls batch @ map fst items @ rest"
    "map (completed_call items) (tb_calls batch) = completed_calls batch @ map (placed_call \<circ> fst) items @ rest"
    "list_all (\<lambda>c. \<not> is_completed (bc_status c)) rest" "list_all (\<lambda>c. is_ready (bc_status c)) (map fst items)"
proof -
  obtain more where more: "ready_calls batch = map fst items @ more" using pre by (auto simp: prefix_def)
  obtain rest' where rest: "after_completed batch = ready_calls batch @ rest'" using ready_split by blast
  let ?rest = "more @ rest'"
  have calls: "tb_calls batch = completed_calls batch @ map fst items @ ?rest"
    using batch_split[of batch] more rest by simp
  have after: "list_all (\<lambda>c. \<not> is_completed (bc_status c)) (map fst items @ ?rest)"
    using ok rest more by (simp add: batch_ok_def)
  have ready: "list_all (\<lambda>c. is_ready (bc_status c)) (map fst items)"
    using more by (metis append_eq_conv_conj list_all_iff ready_calls_def set_takeWhileD takeWhile_eq_take in_set_takeD)
  have sorted: "sorted_wrt (<) (map bc_sourceIndex (tb_calls batch))" using ok by (simp add: batch_ok_def)
  then have "distinct (map bc_sourceIndex (tb_calls batch))" by (simp add: strict_sorted_iff)
  then have dist: "distinct (tb_calls batch)" by (simp add: distinct_map)
  have item: "completed_call items c = (if c \<in> set (map fst items) then placed_call c else c)" if "c \<in> set (tb_calls batch)" for c
    by (rule completed_call_items[OF sorted that]) (use calls in auto)
  have others: "map (completed_call items) cs = cs" if "set cs \<subseteq> set (tb_calls batch)" "set cs \<inter> set (map fst items) = {}" for cs
  proof (rule map_idI)
    fix c assume "c \<in> set cs"
    then have "c \<in> set (tb_calls batch)" "c \<notin> set (map fst items)" using that by auto
    then show "completed_call items c = c" using item by simp
  qed
  have "map (completed_call items) (map fst items) = map (placed_call \<circ> fst) items"
    using item calls by simp
  moreover have "map (completed_call items) (completed_calls batch) = completed_calls batch"
    using calls dist by (intro others) auto
  moreover have "map (completed_call items) ?rest = ?rest"
    using calls dist by (intro others) auto
  ultimately have "map (completed_call items) (tb_calls batch) = completed_calls batch @ map (placed_call \<circ> fst) items @ ?rest"
    by (subst calls) (simp only: map_append)
  then show thesis using that[of ?rest] calls after ready by simp
qed

section \<open>The entries of a placement\<close>

text \<open>Entries that follow one another from a tip, and the tip after them.\<close>

fun chain_of :: "jstring option \<Rightarrow> new_entry list \<Rightarrow> bool" where
  "chain_of t [] = True"
| "chain_of t (e # es) = (ne_parentId e = t \<and> chain_of (Some (ne_id e)) es)"

definition tip_of :: "jstring option \<Rightarrow> new_entry list \<Rightarrow> jstring option" where
  "tip_of t es = (if es = [] then t else Some (ne_id (last es)))"

lemma tip_of_simps [simp]: "tip_of t [] = t" "tip_of t (e # es) = tip_of (Some (ne_id e)) es"
  by (simp_all add: tip_of_def)

lemma chain_append: "chain_of t (es @ fs) = (chain_of t es \<and> chain_of (tip_of t es) fs)"
  by (induction es arbitrary: t) auto

lemma tip_append: "tip_of t (es @ fs) = tip_of (tip_of t es) fs"
  by (simp add: tip_of_def)

definition entry_terminates :: "new_entry \<Rightarrow> bool" where
  "entry_terminates e = (case ne_body e of MessageBody m t \<Rightarrow> t | _ \<Rightarrow> False)"

abbreviation inserted :: "storage_write list \<Rightarrow> new_entry list" where
  "inserted ws \<equiv> [e. WEntry e \<leftarrow> ws]"

lemma place_items_entries:
  assumes "place_items k t (zip items usageIds) = Inr (entries, usage, writes, tip)" "length usageIds = length items"
  shows "map ne_id (inserted writes) = map (bc_resultEntryId \<circ> fst) items" "chain_of t (inserted writes)"
    "tip = tip_of t (inserted writes)"
    "map entry_terminates (inserted writes) = map (\<lambda>item. call_terminates (bc_status (fst item))) items"
proof -
  have "map ne_id (inserted writes) = map (bc_resultEntryId \<circ> fst) items \<and> chain_of t (inserted writes) \<and>
      tip = tip_of t (inserted writes) \<and>
      map entry_terminates (inserted writes) = map (\<lambda>item. call_terminates (bc_status (fst item))) items"
    using assms
  proof (induction items arbitrary: k t usageIds entries usage writes tip)
    case (Cons item items)
    obtain call m where item: "item = (call, m)" by (cases item)
    obtain u us where u: "usageIds = u # us" using Cons.prems(2) by (cases usageIds) auto
    obtain slot es rs rest where p: "pendingEntry (bc_resultEntryId call) = Inr slot"
      "place_items (k + 2 + length (result_usage u call m)) (Some (bc_resultEntryId call)) (zip items us) = Inr (es, rs, rest, tip)"
      "writes = [insertEntry (result_entry t call m), deleteValue slot] @ map insertUsage (result_usage u call m) @ rest"
      using Cons.prems(1) by (auto simp: item u Let_def)
    have "inserted (map insertUsage rows) = []" for rows by (induction rows) (simp_all add: insertUsage_def)
    then have "inserted writes = result_entry t call m # inserted rest"
      using p(1) by (auto simp: p(3) insertEntry_def deleteValue_def pendingEntry_def mkValue_eq_Inr)
    then show ?case using Cons.IH[OF p(2)] Cons.prems(2) by (simp add: item u result_entry_def entry_terminates_def)
  qed simp
  then show "map ne_id (inserted writes) = map (bc_resultEntryId \<circ> fst) items" "chain_of t (inserted writes)"
    "tip = tip_of t (inserted writes)"
    "map entry_terminates (inserted writes) = map (\<lambda>item. call_terminates (bc_status (fst item))) items" by auto
qed

lemma inserted_deletes: "inserted (delete_scanned a s) = []"
proof -
  have "inserted (map (\<lambda>v. deleteValue (sv_address v)) vs) = []" for vs :: "stored_value list"
    by (induction vs) (simp_all add: deleteValue_def)
  then show ?thesis by (simp add: delete_scanned_def)
qed

section \<open>The steps of a batch\<close>

text \<open>What the entries added so far say about the leaf and the tip.\<close>

definition follows :: "tool_batch \<Rightarrow> jstring option \<Rightarrow> new_entry list \<Rightarrow> operation_leaf \<times> jstring option \<Rightarrow> bool" where
  "follows batch tip es a \<longleftrightarrow> chain_of tip es \<and> snd a = tip_of tip es \<and>
     (case fst a of
        Tools b \<Rightarrow> batch_ok b \<and> call_keys b = call_keys batch \<and>
          map ne_id es = map bc_resultEntryId (completed_calls b) \<and>
          map entry_terminates es = map (\<lambda>c. call_terminates (bc_status c)) (completed_calls b)
      | Checkpoint c \<Rightarrow> map ne_id es = map bc_resultEntryId (tb_calls batch) \<and> Some (ck_triggerEntryId c) = snd a \<and>
          ck_continuation c = (if list_all entry_terminates es then MayFinish False else NeedAssistant False)
      | _ \<Rightarrow> False)"

fun status_left :: "tool_call_status \<Rightarrow> nat" where
  "status_left Planned = 3"
| "status_left (EffectPending r) = 2"
| "status_left (OutcomeReady t) = 1"
| "status_left (CallCompleted t) = 0"

definition calls_left :: "batch_call list \<Rightarrow> nat" where
  "calls_left calls = (\<Sum>c \<leftarrow> calls. status_left (bc_status c))"

fun leaf_left :: "operation_leaf \<Rightarrow> nat" where
  "leaf_left (Tools batch) = calls_left (tb_calls batch)"
| "leaf_left _ = 0"

lemma calls_left_changed:
  "call \<in> set calls \<Longrightarrow> status_left st < status_left (bc_status call) \<Longrightarrow>
   calls_left (map (\<lambda>c. if c = call then call\<lparr>bc_status := st\<rparr> else c) calls) < calls_left calls"
proof (induction calls)
  case (Cons c calls)
  have "calls_left (map (\<lambda>c. if c = call then call\<lparr>bc_status := st\<rparr> else c) calls) \<le> calls_left calls"
    unfolding calls_left_def map_map using Cons.prems(2) by (intro sum_list_mono) auto
  then show ?case using Cons by (auto simp: calls_left_def)
qed simp

lemma status_steps:
  assumes f: "follows batch tip es (Tools b, t)" and c: "call \<in> set (tb_calls b)"
    and st: "\<not> is_completed (bc_status call)" "\<not> is_completed st" "status_left st < status_left (bc_status call)"
  shows "follows batch tip es (Tools (replaceCall b (call\<lparr>bc_status := st\<rparr>)), t) \<and>
    leaf_left (Tools (replaceCall b (call\<lparr>bc_status := st\<rparr>))) < leaf_left (Tools b)"
proof -
  have ok: "batch_ok b" using f by (simp add: follows_def)
  show ?thesis using f status_changed[OF ok c st(1,2)] calls_left_changed[OF c st(3)]
    by (simp add: follows_def replaceCall_calls[OF ok c])
qed

lemma placement_steps:
  assumes f: "follows batch tip es (Tools b, t)"
    and items: "items \<noteq> []" "prefix (map fst items) (ready_calls b)"
    and new: "map ne_id fs = map (bc_resultEntryId \<circ> fst) items" "chain_of t fs" "t' = tip_of t fs"
      "map entry_terminates fs = map (\<lambda>item. call_terminates (bc_status (fst item))) items"
    and leaf: "placed_leaf b (map (completed_call items) (tb_calls b)) t' = Inr leaf"
  shows "follows batch tip (es @ fs) (leaf, t') \<and> leaf_left leaf < leaf_left (Tools b)"
proof -
  have old: "batch_ok b" "call_keys b = call_keys batch" "chain_of tip es" "t = tip_of tip es"
    "map ne_id es = map bc_resultEntryId (completed_calls b)"
    "map entry_terminates es = map (\<lambda>c. call_terminates (bc_status c)) (completed_calls b)"
    using f by (auto simp: follows_def)
  obtain rest where calls: "tb_calls b = completed_calls b @ map fst items @ rest"
    and after: "map (completed_call items) (tb_calls b) = completed_calls b @ map (placed_call \<circ> fst) items @ rest"
    and open_calls: "list_all (\<lambda>c. \<not> is_completed (bc_status c)) rest" and ready: "list_all (\<lambda>c. is_ready (bc_status c)) (map fst items)"
    by (rule calls_after_placement[OF old(1) items(2)])
  let ?calls = "completed_calls b @ map (placed_call \<circ> fst) items @ rest"
  have done_calls: "list_all (\<lambda>c. is_completed (bc_status c)) (completed_calls b @ map (placed_call \<circ> fst) items)"
    by (auto simp: list_all_iff completed_calls_def placed_call_def dest: set_takeWhileD)
  have keys: "map (\<lambda>c. (bc_sourceIndex c, bc_resultEntryId c)) ?calls = call_keys b"
    unfolding call_keys_def calls by (simp add: placed_call_def)
  have chained: "chain_of tip (es @ fs)" "t' = tip_of tip (es @ fs)"
    using old(3,4) new(2,3) by (simp_all add: chain_append tip_append)
  have ids: "map ne_id (es @ fs) = map bc_resultEntryId (completed_calls b @ map (placed_call \<circ> fst) items)"
    using old(5) new(1) by (simp add: placed_call_def o_def)
  have flags: "map entry_terminates (es @ fs) =
      map (\<lambda>c. call_terminates (bc_status c)) (completed_calls b @ map (placed_call \<circ> fst) items)"
    using old(6) new(4) by (simp add: placed_call_def o_def)
  obtain i where i: "i \<in> set items" using items(1) by (cases items) auto
  then have "is_ready (bc_status (fst i))" using ready by (auto simp: list_all_iff)
  then have "status_left (bc_status (fst i)) \<noteq> 0" by (cases "bc_status (fst i)") auto
  then have some: "calls_left (map fst items) \<noteq> 0" using i by (auto simp: calls_left_def sum_list_eq_0_iff)
  have none: "calls_left (map (placed_call \<circ> fst) items) = 0"
    by (simp add: calls_left_def placed_call_def o_def)
  have app: "calls_left (xs @ ys) = calls_left xs + calls_left ys" for xs ys by (simp add: calls_left_def)
  have less: "calls_left ?calls < calls_left (tb_calls b)"
    using some none by (subst calls) (simp only: app)
  show ?thesis
  proof (cases "rest = []")
    case True
    then have "list_all (\<lambda>c. is_completed (bc_status c)) ?calls" using done_calls by simp
    then obtain trigger where t: "t' = Some trigger" "leaf = Checkpoint \<lparr>ck_continuation =
        (if list_all (\<lambda>c. call_terminates (bc_status c)) ?calls then MayFinish False else NeedAssistant False),
        ck_triggerEntryId = trigger\<rparr>"
      using leaf unfolding after placed_leaf_def by (auto split: option.splits)
    have "list_all entry_terminates (es @ fs) = list_all (\<lambda>c. call_terminates (bc_status c)) ?calls"
      using arg_cong[OF flags, of "list_all id"] True by (simp add: list.pred_map o_def)
    moreover have "map ne_id (es @ fs) = map bc_resultEntryId (tb_calls batch)"
    proof -
      have "map ne_id (es @ fs) = map snd (map (\<lambda>c. (bc_sourceIndex c, bc_resultEntryId c)) ?calls)"
        unfolding ids by (simp add: True)
      then show ?thesis unfolding keys old(2) by (simp add: call_keys_def)
    qed
    ultimately show ?thesis using chained less t by (simp add: follows_def)
  next
    case False
    then obtain c cs where rest: "rest = c # cs" by (cases rest) auto
    have "\<not> list_all (\<lambda>c. is_completed (bc_status c)) ?calls" using open_calls rest by simp
    then have l: "leaf = Tools (b\<lparr>tb_calls := ?calls\<rparr>)"
      using leaf unfolding after placed_leaf_def by (simp only: if_False sum.inject)
    let ?b = "b\<lparr>tb_calls := ?calls\<rparr>"
    have "completed_calls ?b = completed_calls b @ map (placed_call \<circ> fst) items" "after_completed ?b = rest"
      using takeWhile_append2[of "completed_calls b @ map (placed_call \<circ> fst) items" "\<lambda>c. is_completed (bc_status c)" rest]
        dropWhile_append2[of "completed_calls b @ map (placed_call \<circ> fst) items" "\<lambda>c. is_completed (bc_status c)" rest]
        done_calls open_calls rest
      unfolding completed_calls_def[of ?b] after_completed_def[of ?b] list_all_iff by simp_all
    moreover have "map bc_sourceIndex ?calls = map bc_sourceIndex (tb_calls b)"
      using arg_cong[OF keys[unfolded call_keys_def], of "map fst"] by (simp only: map_map o_def fst_conv)
    moreover have "call_keys ?b = call_keys batch" using keys old(2) by (simp add: call_keys_def)
    ultimately have "follows batch tip (es @ fs) (Tools ?b, t')"
      using old(1) open_calls ids flags chained by (simp add: follows_def batch_ok_def)
    then show ?thesis using less l by simp
  qed
qed

lemma tool_step_follows:
  assumes "tool_step a fs b" "follows batch tip es a"
  shows "follows batch tip (es @ fs) b \<and> leaf_left (fst b) < leaf_left (fst a)"
  using assms
proof (induction rule: tool_step.induct)
  case (call_started current b call name runId toolCall args rp recovery state meta s ws st p m ev)
  then obtain a where w: "ws = [setValue a (VToolArgs args)]" "p = no_patch"
    "st = withToolBatch current (replaceCall b (call\<lparr>bc_status := EffectPending rp\<rparr>))"
    by (auto simp: tool_intent_plan_def Let_def)
  have "bc_status call = Planned" using call_started(3) by (cases "bc_status call") auto
  then show ?case using status_steps[OF call_started(5,2), of "EffectPending rp"]
    by (simp add: w setValue_def withToolBatch_def apply_patch_def no_patch_def)
next
  case (call_answered current b call name runId finalized recovery state meta s ws st p m ev)
  then obtain memos slot outp where w: "ws = [setValue slot (VPending (PendingMessage (ToolResultMsg (to_message finalized)))),
      deleteValue outp] @ delete_scanned memos s" "p = no_patch"
    "st = withToolBatch current (replaceCall b (call\<lparr>bc_status :=
      OutcomeReady (os_control (op_scope current) = Running \<and> to_terminate finalized)\<rparr>))"
    by (auto simp: tool_outcome_plan_def Let_def)
  show ?case
    using status_steps[OF call_answered(5,2), of "OutcomeReady (os_control (op_scope current) = Running \<and> to_terminate finalized)"]
      call_answered(3)
    by (cases "bc_status call")
      (simp_all add: w setValue_def deleteValue_def withToolBatch_def apply_patch_def no_patch_def inserted_deletes)
next
  case (calls_placed current b read usageIds name runId turnId state meta s ws st p m ev)
  from calls_placed(5) obtain b' entries usage writes t' leaf args where
    b': "op_leaf current = Tools b'"
    and place: "place_items 0 (la_tipId state) (zip (pr_items read) usageIds) = Inr (entries, usage, writes, t')"
    and leaf: "placed_leaf b' (map (completed_call (pr_items read)) (tb_calls b')) t' = Inr leaf"
    and args: "args = [] \<or> (\<exists>a. operationToolArgsPrefix runId (Some turnId) = Inr a \<and> args = delete_scanned a s)"
    and ws: "ws = writes @ (if added_names (la_configuration state) (pr_items read) = [] then []
          else [WValueSet ns_lane_config name (VConfig ((la_configuration state)\<lparr>lc_activeToolNames :=
            lc_activeToolNames (la_configuration state) @ added_names (la_configuration state) (pr_items read)\<rparr>))]) @
          [WValueSet ns_branch_tip name (VTip t')] @ args"
    and st: "st = \<lparr>op_scope = operationScopeOf current, op_leaf = leaf\<rparr>"
    and p: "p = \<lparr>lp_tipId = Some t', lp_configuration = Some (if added_names (la_configuration state) (pr_items read) = []
            then la_configuration state
            else (la_configuration state)\<lparr>lc_activeToolNames :=
              lc_activeToolNames (la_configuration state) @ added_names (la_configuration state) (pr_items read)\<rparr>), lp_inbox = None\<rparr>"
    by (elim placement_shape) (simp only: operation_command.inject)
  have "b' = b" using b' calls_placed(1) by simp
  note e = place_items_entries[OF place calls_placed(3)]
  have "inserted args = []" using args by (elim disjE exE conjE) (simp_all only: inserted_deletes list.map concat.simps)
  then have "inserted ws = inserted writes" by (simp add: ws)
  then show ?case
    using placement_steps[OF calls_placed(6,2,4) e leaf[unfolded \<open>b' = b\<close>]] by (simp add: st p apply_patch_def)
qed

section \<open>The batch of a response\<close>

lemma tool_run_follows:
  assumes "tool_run a k es b" "follows batch tip [] a"
  shows "follows batch tip es b \<and> leaf_left (fst b) + k \<le> leaf_left (fst a)"
  using assms
proof (induction rule: tool_run.induct)
  case (run_step k es b fs c)
  then show ?case using tool_step_follows[OF run_step(2), of batch tip es] by auto
qed simp

lemma settled_batch:
  assumes "settle_answer effect i resultId response = Inr (committed, Some (Tools batch), failure)"
  shows "map bc_resultEntryId (tb_calls batch) = map resultId (call_indices response)" "follows batch tip [] (Tools batch, tip)"
    "calls_left (tb_calls batch) = 3 * length (call_indices response)"
proof -
  have calls: "tb_calls batch = planned_calls resultId response"
    using assms by (auto simp: settle_answer_def response_checkpoint_def Let_def split: if_splits)
  show "map bc_resultEntryId (tb_calls batch) = map resultId (call_indices response)"
    by (simp add: calls planned_calls_def)
  show "calls_left (tb_calls batch) = 3 * length (call_indices response)"
    by (simp add: calls planned_calls_def calls_left_def o_def sum_list_triv)
  have "sorted_wrt (<) (call_indices response)"
    unfolding call_indices_def by (rule sorted_wrt_filter) (rule sorted_wrt_upt)
  then have "sorted_wrt (<) (map bc_sourceIndex (tb_calls batch))"
    by (simp add: calls planned_calls_def sorted_wrt_map)
  moreover have "after_completed batch = tb_calls batch" "completed_calls batch = []"
    by (cases "call_indices response"; simp add: after_completed_def completed_calls_def calls planned_calls_def)+
  ultimately show "follows batch tip [] (Tools batch, tip)"
    by (auto simp: follows_def batch_ok_def calls planned_calls_def list_all_iff)
qed

text \<open>C29: The results of the tool calls of a response enter the transcript in the order of the calls, whatever the order
  in which they were started and answered: each is chained to the one before, the first to the tip, and when the batch is
  over there is one for each call; the run may then finish only if every result says so.\<close>

theorem tool_results_in_order:
  assumes "settle_answer effect i resultId response = Inr (committed, Some (Tools batch), failure)"
    and "tool_run (Tools batch, tip) k es (leaf, tip')"
  shows "chain_of tip es \<and> tip' = tip_of tip es \<and>
    (case leaf of
       Tools b \<Rightarrow> call_keys b = call_keys batch \<and> map ne_id es = map bc_resultEntryId (completed_calls b) \<and>
         prefix (map ne_id es) (map resultId (call_indices response))
     | Checkpoint c \<Rightarrow> map ne_id es = map resultId (call_indices response) \<and> Some (ck_triggerEntryId c) = tip' \<and>
         ck_continuation c = (if list_all entry_terminates es then MayFinish False else NeedAssistant False)
     | _ \<Rightarrow> False)"
proof -
  note b = settled_batch[OF assms(1)]
  have f: "follows batch tip es (leaf, tip')" using tool_run_follows[OF assms(2) b(2)] by simp
  have "prefix (map bc_resultEntryId (completed_calls c)) (map resultId (call_indices response))"
    if "call_keys c = call_keys batch" for c
  proof -
    have "map snd (call_keys c) = map snd (call_keys batch)" using that by simp
    then have "map bc_resultEntryId (tb_calls c) = map resultId (call_indices response)"
      using b(1) by (simp add: call_keys_def o_def)
    then show ?thesis using batch_split[of c] by (metis map_append prefix_def)
  qed
  then show ?thesis using f b(1) by (auto simp: follows_def split: operation_leaf.splits)
qed


section \<open>A sample batch\<close>

definition sample_tool_call :: tool_call where
  "sample_tool_call = \<lparr>tc_id = js ''c1'', tc_name = js ''read'', tc_arguments = [], tc_thoughtSignature = None, tc_namespace = None\<rparr>"

definition sample_tool_reply :: assistant_message where
  "sample_tool_reply =
     \<lparr>am_content = [AToolCall sample_tool_call], am_api = js ''api'', am_provider = js ''p'',
      am_model = js ''m'', am_responseModel = None, am_responseId = None, am_providerThinkingLevel = None,
      am_diagnostics = None, am_usage = emptyUsage, am_stopReason = ToolUse, am_deferred = None,
      am_errorMessage = None, am_rawStopReason = None, am_endTurn = None, am_timestamp = 6\<rparr>"

definition sample_scope :: deferred_scope where
  "sample_scope = \<lparr>ds_stepId = js ''t1'', ds_sourceEntryId = js ''s1'', ds_poll = 1, ds_configuration = sample_config,
     ds_streamOptions = no_stream_options\<rparr>"

definition sample_call :: "tool_call_status \<Rightarrow> batch_call" where
  "sample_call st = \<lparr>bc_sourceIndex = 0, bc_resultEntryId = js ''r1'', bc_status = st\<rparr>"

definition sample_batch :: "tool_call_status \<Rightarrow> tool_batch" where
  "sample_batch st = \<lparr>tb_assistantEntryId = js ''01890000-0000'', tb_configuration = sample_config, tb_turnId = js ''t1:poll:1'',
     tb_calls = [sample_call st]\<rparr>"

definition sample_batch_state :: "tool_call_status \<Rightarrow> operation_state" where
  "sample_batch_state st = \<lparr>op_scope = \<lparr>os_control = Running, os_settings = \<lparr>rs_compaction = DEFAULT_COMPACTION_SETTINGS,
     rs_steeringMode = AllItems, rs_followUpMode = AllItems, rs_toolExecution = ParallelTools\<rparr>, os_latestAssistantEntryId = None\<rparr>,
     op_leaf = Tools (sample_batch st)\<rparr>"

definition sample_idle_state :: lane_state where
  "sample_idle_state = \<lparr>la_tipId = Some (js ''a1''), la_configuration = sample_config, la_inbox = [], la_lastOperationId = None,
     la_operation = None\<rparr>"

definition sample_outcome :: tool_outcome where
  "sample_outcome = abortedOutcome sample_tool_call 5"

definition sample_read :: placement_read where
  "sample_read = \<lparr>pr_items = [(sample_call (OutcomeReady False), to_message sample_outcome)], pr_turnResults = None\<rparr>"

lemma sample_settles:
  "settle_answer (DeferredEffect sample_scope) (js ''01890000-0000'') (\<lambda>k. js ''r1'') sample_tool_reply =
    Inr (sample_tool_reply, Some (Tools (sample_batch Planned)), None)"
  by code_simp

text \<open>What a plan commits, without its functions.\<close>

fun committed_of :: "js_error + 'r operation_command \<Rightarrow> (new_entry list \<times> operation_leaf \<times> jstring option option) option" where
  "committed_of (Inr (OperationCommit ws st p m ev)) = Some (inserted ws, op_leaf st, lp_tipId p)"
| "committed_of _ = None"

lemma committed_of_Some:
  assumes "committed_of d = Some (es, leaf, t)"
  obtains ws st p m ev where "d = Inr (OperationCommit ws st p m ev)" "inserted ws = es" "op_leaf st = leaf" "lp_tipId p = t"
  using assms by (cases d rule: committed_of.cases) auto

lemma sample_answers:
  "committed_of (tool_outcome_plan (js ''main'') (js ''op1'') (sample_call Planned) sample_outcome False
      sample_idle_state (sample_batch_state Planned) sample_meta empty_storage) = Some ([], Tools (sample_batch (OutcomeReady False)), None)"
  "map (\<lambda>x. (map ne_id (fst x), map entry_terminates (fst x), snd x)) (case committed_of (commit_placement_plan (js ''main'')
      (js ''op1'') (js ''t1:poll:1'') sample_read [None] sample_idle_state (sample_batch_state (OutcomeReady False)) sample_meta empty_storage)
      of None \<Rightarrow> [] | Some x \<Rightarrow> [x]) =
    [([js ''r1''], [False], Checkpoint \<lparr>ck_continuation = NeedAssistant False, ck_triggerEntryId = js ''r1''\<rparr>, Some (Some (js ''r1'')))]"
  by code_simp+

lemma sample_tool_run:
  "\<exists>es. map ne_id es = [js ''r1''] \<and> tool_run (Tools (sample_batch Planned), Some (js ''a1'')) 2 es
     (Checkpoint \<lparr>ck_continuation = NeedAssistant False, ck_triggerEntryId = js ''r1''\<rparr>, Some (js ''r1''))"
proof -
  obtain ws st p m ev where answer: "tool_outcome_plan (js ''main'') (js ''op1'') (sample_call Planned) sample_outcome False
      sample_idle_state (sample_batch_state Planned) sample_meta empty_storage = Inr (OperationCommit ws st p m ev)"
    "inserted ws = []" "op_leaf st = Tools (sample_batch (OutcomeReady False))" "lp_tipId p = None"
    using committed_of_Some[OF sample_answers(1)] by blast
  let ?plan = "commit_placement_plan (js ''main'') (js ''op1'') (js ''t1:poll:1'') sample_read [None] sample_idle_state
      (sample_batch_state (OutcomeReady False)) sample_meta empty_storage"
  let ?c = "Checkpoint \<lparr>ck_continuation = NeedAssistant False, ck_triggerEntryId = js ''r1''\<rparr>"
  obtain es where "committed_of ?plan = Some (es, ?c, Some (Some (js ''r1'')))" and ids: "map ne_id es = [js ''r1'']"
    using sample_answers(2) by (auto split: option.splits)
  then obtain ws' st' p' m' ev' where place: "?plan = Inr (OperationCommit ws' st' p' m' ev')" "inserted ws' = es"
    "op_leaf st' = ?c" "lp_tipId p' = Some (Some (js ''r1''))"
    using committed_of_Some by blast
  have tip: "la_tipId sample_idle_state = Some (js ''a1'')" by (simp add: sample_idle_state_def)
  have one: "tool_step (Tools (sample_batch Planned), Some (js ''a1'')) [] (Tools (sample_batch (OutcomeReady False)), Some (js ''a1''))"
    using tool_step.call_answered[OF _ _ _ answer(1), of "sample_batch Planned"] answer(2-4) tip
    by (simp add: sample_batch_state_def sample_batch_def sample_call_def apply_patch_def)
  have two: "tool_step (Tools (sample_batch (OutcomeReady False)), Some (js ''a1'')) es (?c, Some (js ''r1''))"
    using tool_step.calls_placed[OF _ _ _ _ place(1), of "sample_batch (OutcomeReady False)"] place(2-4) tip
    by (simp add: sample_batch_state_def sample_batch_def sample_read_def ready_calls_def after_completed_def sample_call_def
        apply_patch_def)
  have "tool_run (Tools (sample_batch Planned), Some (js ''a1'')) 2 es (?c, Some (js ''r1''))"
    using tool_run.run_step[OF tool_run.run_step[OF tool_run.run_nil one] two] by (simp add: eval_nat_numeral)
  then show ?thesis using ids by (intro exI conjI)
qed

theorem tool_results_in_order_witness:
  "\<exists>es. map ne_id es = map (\<lambda>k. js ''r1'') (call_indices sample_tool_reply) \<and> chain_of (Some (js ''a1'')) es"
proof -
  obtain es where run: "tool_run (Tools (sample_batch Planned), Some (js ''a1'')) 2 es
     (Checkpoint \<lparr>ck_continuation = NeedAssistant False, ck_triggerEntryId = js ''r1''\<rparr>, Some (js ''r1''))"
    using sample_tool_run by blast
  from tool_results_in_order[OF sample_settles run] show ?thesis by auto
qed


end
