(* ===== verification/Framing.thy ===== *)
theory Framing
  imports Prelude
begin

text \<open>
  \<open>packages/protocol/src/framing.ts\<close>: payloads with a 32-bit big-endian length in front, and the decoder that splits any
  sequence of chunks into them. A byte array is a list of bytes; the loops are \<open>partial_function (option)\<close>, since nothing in
  the code bounds them but the state they run on.
\<close>

type_synonym bytes = "8 word list"

datatype wire_error =
    BadFrameLimit int | PayloadTooLong | FrameTooLong int int | TruncatedFrame | DecoderEnded | DecoderFailed

definition FRAME_HEADER_LENGTH :: nat where "FRAME_HEADER_LENGTH = 4"
definition MAX_UINT32 :: int where "MAX_UINT32 = 0xffffffff"
definition PAYLOAD_BLOCK_SIZE :: int where "PAYLOAD_BLOCK_SIZE = 64 * 1024"
definition DEFAULT_MAX_FRAME_LENGTH :: int where "DEFAULT_MAX_FRAME_LENGTH = 16 * 1024 * 1024"

definition resolveMaxFrameLength :: "int option \<Rightarrow> wire_error + int" where
  "resolveMaxFrameLength limit =
     (let v = (case limit of None \<Rightarrow> DEFAULT_MAX_FRAME_LENGTH | Some x \<Rightarrow> x) in
      if v < 0 \<or> v > MAX_UINT32 then Inl (BadFrameLimit v) else Inr v)"

section \<open>Encoding\<close>

text \<open>A number stored in a byte array is taken modulo 256.\<close>

definition to_byte :: "int \<Rightarrow> 8 word" where
  "to_byte n = word_of_int n"

definition uint32_bytes :: "int \<Rightarrow> bytes" where
  "uint32_bytes n = [to_byte (n div 2 ^ 24), to_byte (n div 2 ^ 16), to_byte (n div 2 ^ 8), to_byte n]"

definition encodeFrame :: "bytes \<Rightarrow> wire_error + bytes" where
  "encodeFrame payload =
     (if int (length payload) > MAX_UINT32 then Inl PayloadTooLong else Inr (uint32_bytes (int (length payload)) @ payload))"

definition read_uint32 :: "bytes \<Rightarrow> int" where
  "read_uint32 h = uint (h ! 0) * 0x1000000 + uint (h ! 1) * 0x10000 + uint (h ! 2) * 0x100 + uint (h ! 3)"

section \<open>Decoding\<close>

datatype decoder_state = DecoderOpen | DecoderIsEnded | DecoderIsFailed

text \<open>
  A payload block is an array of a fixed length and the part of it filled so far; the current block is the last one.
\<close>

type_synonym payload_block = "int \<times> bytes"

record frame_decoder =
  fd_header :: bytes
  fd_maxFrameLength :: int
  fd_payloadBlocks :: "payload_block list"
  fd_expectedPayloadLength :: "int option"
  fd_payloadLength :: int
  fd_state :: decoder_state

definition new_decoder :: "int option \<Rightarrow> wire_error + frame_decoder" where
  "new_decoder limit = ebind (resolveMaxFrameLength limit) (\<lambda>m.
     Inr \<lparr>fd_header = [], fd_maxFrameLength = m, fd_payloadBlocks = [], fd_expectedPayloadLength = None,
       fd_payloadLength = 0, fd_state = DecoderOpen\<rparr>)"

definition block_bytes :: "payload_block \<Rightarrow> bytes" where
  "block_bytes b = snd b @ replicate (nat (fst b - int (length (snd b)))) 0"

definition full_block :: "payload_block \<Rightarrow> bool" where
  "full_block b \<longleftrightarrow> int (length (snd b)) = fst b"

definition decoder_fail :: "frame_decoder \<Rightarrow> frame_decoder" where
  "decoder_fail d = d\<lparr>fd_state := DecoderIsFailed, fd_header := [], fd_payloadBlocks := [],
     fd_expectedPayloadLength := None, fd_payloadLength := 0\<rparr>"

text \<open>The inner loop: blocks are added as the last one fills up, until the payload or the chunk ends.\<close>

partial_function (option) fill_payload ::
  "int \<Rightarrow> payload_block list \<Rightarrow> int \<Rightarrow> bytes \<Rightarrow> (payload_block list \<times> int \<times> bytes) option" where
  [code]: "fill_payload expected blocks payloadLength chunk =
     (if chunk \<noteq> [] \<and> payloadLength < expected then
        let blocks' = (if blocks = [] \<or> full_block (last blocks)
              then blocks @ [(min PAYLOAD_BLOCK_SIZE (expected - payloadLength), [])] else blocks);
            (capacity, filled) = last blocks';
            payloadBytes = min (capacity - int (length filled)) (int (length chunk))
        in fill_payload expected (butlast blocks' @ [(capacity, filled @ take (nat payloadBytes) chunk)])
             (payloadLength + payloadBytes) (drop (nat payloadBytes) chunk)
      else Some (blocks, payloadLength, chunk))"

text \<open>The payload once all its bytes are there.\<close>

definition finish_payload :: "frame_decoder \<Rightarrow> frame_decoder" where
  "finish_payload d = d\<lparr>fd_payloadBlocks := [], fd_expectedPayloadLength := None, fd_payloadLength := 0\<rparr>"

definition joined_payload :: "payload_block list \<Rightarrow> bytes" where
  "joined_payload blocks = concat (map block_bytes blocks)"

text \<open>The bytes of the chunk that belong to the header of the next frame.\<close>

definition header_bytes :: "frame_decoder \<Rightarrow> bytes \<Rightarrow> nat" where
  "header_bytes d chunk = min (FRAME_HEADER_LENGTH - length (fd_header d)) (length chunk)"

text \<open>The first half of a turn of \<open>push\<close>: the header, unless the payload of a frame is under way.\<close>

datatype header_turn =
    HeaderShort frame_decoder bytes
  | HeaderRejected wire_error frame_decoder
  | EmptyFrame frame_decoder bytes
  | InPayload int frame_decoder bytes

definition read_header :: "frame_decoder \<Rightarrow> bytes \<Rightarrow> header_turn" where
  "read_header d chunk =
     (case fd_expectedPayloadLength d of
        Some expected \<Rightarrow> InPayload expected d chunk
      | None \<Rightarrow>
          (let k = header_bytes d chunk;
               header = fd_header d @ take k chunk;
               chunk' = drop k chunk in
           if length header < FRAME_HEADER_LENGTH then HeaderShort (d\<lparr>fd_header := header\<rparr>) chunk'
           else
             (let frameLength = read_uint32 header; d' = d\<lparr>fd_header := []\<rparr> in
              if frameLength > fd_maxFrameLength d
              then HeaderRejected (FrameTooLong frameLength (fd_maxFrameLength d)) (decoder_fail d')
              else if frameLength = 0 then EmptyFrame d' chunk'
              else InPayload frameLength
                (d'\<lparr>fd_expectedPayloadLength := Some frameLength, fd_payloadBlocks := [], fd_payloadLength := 0\<rparr>) chunk')))"

text \<open>The loop of \<open>push\<close> over the rest of the chunk, with the frames so far; an error comes with the decoder it leaves.\<close>

partial_function (option) push_loop ::
  "frame_decoder \<Rightarrow> bytes \<Rightarrow> bytes list \<Rightarrow> ((wire_error + bytes list) \<times> frame_decoder) option" where
  [code]: "push_loop d chunk frames =
     (if chunk = [] then Some (Inr frames, d)
      else
        case read_header d chunk of
          HeaderShort d' chunk' \<Rightarrow> push_loop d' chunk' frames
        | HeaderRejected e d' \<Rightarrow> Some (Inl e, d')
        | EmptyFrame d' chunk' \<Rightarrow> push_loop d' chunk' (frames @ [[]])
        | InPayload expected d' chunk' \<Rightarrow>
            Option.bind (fill_payload expected (fd_payloadBlocks d') (fd_payloadLength d') chunk') (\<lambda>(blocks, n, rest).
            if n = expected then push_loop (finish_payload d') rest (frames @ [joined_payload blocks])
            else push_loop (d'\<lparr>fd_payloadBlocks := blocks, fd_payloadLength := n\<rparr>) rest frames))"

definition decoder_push :: "frame_decoder \<Rightarrow> bytes \<Rightarrow> ((wire_error + bytes list) \<times> frame_decoder) option" where
  "decoder_push d chunk =
     (case fd_state d of
        DecoderIsEnded \<Rightarrow> Some (Inl DecoderEnded, d)
      | DecoderIsFailed \<Rightarrow> Some (Inl DecoderFailed, d)
      | DecoderOpen \<Rightarrow> push_loop d chunk [])"

definition decoder_end :: "frame_decoder \<Rightarrow> (wire_error + unit) \<times> frame_decoder" where
  "decoder_end d =
     (case fd_state d of
        DecoderIsEnded \<Rightarrow> (Inl DecoderEnded, d)
      | DecoderIsFailed \<Rightarrow> (Inl DecoderFailed, d)
      | DecoderOpen \<Rightarrow>
          if fd_header d \<noteq> [] \<or> fd_expectedPayloadLength d \<noteq> None then (Inl TruncatedFrame, decoder_fail d)
          else (Inr (), d\<lparr>fd_state := DecoderIsEnded\<rparr>))"

end
