(* ===== verification/Cbor.thy ===== *)
theory Cbor
  imports Framing
begin

text \<open>
  \<open>packages/protocol/src/cbor\<close>: the strict subset of CBOR the protocol uses. A JavaScript value is a tree: object identity,
  cycles, symbols and values of other classes are not part of the model. A number is an integer, or the bits of a double
  that is not one (minus zero, a fraction, an infinity or not a number). An object is the list of its own properties in
  the order of \<open>Object.keys\<close>. The growth of the writer's buffer is left out, its limit is kept.
\<close>

section \<open>Values\<close>

datatype js_value =
    JUndefined | JNull | JBool bool | JInteger int | JDouble "64 word" | JString jstring | JBytes bytes
  | JArray "js_value list" | JObject "(jstring \<times> js_value) list"

datatype cbor_error =
    BadCborLimit int | CborTooLong | CborTooDeep | CborNotFinite | CborUnsafeInteger | CborBadText | CborHole
  | CborUnsupported | CborTruncated | CborTrailing | CborIndefinite | CborMalformed | CborKeyNotString | CborDuplicateKey

record cbor_options =
  co_maxByteLength :: int
  co_maxContainerLength :: int
  co_maxDepth :: int

definition UINT32_BASE :: int where "UINT32_BASE = 0x100000000"
definition MAX_CONFIGURED_DEPTH :: int where "MAX_CONFIGURED_DEPTH = 512"
definition DEFAULT_MAX_CBOR_BYTE_LENGTH :: int where "DEFAULT_MAX_CBOR_BYTE_LENGTH = 16 * 1024 * 1024"
definition DEFAULT_MAX_CBOR_CONTAINER_LENGTH :: int where "DEFAULT_MAX_CBOR_CONTAINER_LENGTH = 1000000"
definition DEFAULT_MAX_CBOR_DEPTH :: int where "DEFAULT_MAX_CBOR_DEPTH = 64"
definition MAX_SAFE :: int where "MAX_SAFE = 0x1fffffffffffff"

definition resolveLimit :: "int \<Rightarrow> int \<Rightarrow> cbor_error + int" where
  "resolveLimit v maximum = (if v < 0 \<or> v > maximum then Inl (BadCborLimit v) else Inr v)"

text \<open>The three limits of the options, where given.\<close>

definition resolveOptions :: "int option \<times> int option \<times> int option \<Rightarrow> cbor_error + cbor_options" where
  "resolveOptions = (\<lambda>(bytesLimit, containerLimit, depthLimit).
     ebind (resolveLimit (case bytesLimit of None \<Rightarrow> DEFAULT_MAX_CBOR_BYTE_LENGTH | Some v \<Rightarrow> v) MAX_UINT32) (\<lambda>b.
     ebind (resolveLimit (case containerLimit of None \<Rightarrow> DEFAULT_MAX_CBOR_CONTAINER_LENGTH | Some v \<Rightarrow> v) MAX_UINT32) (\<lambda>c.
     ebind (resolveLimit (case depthLimit of None \<Rightarrow> DEFAULT_MAX_CBOR_DEPTH | Some v \<Rightarrow> v) MAX_CONFIGURED_DEPTH) (\<lambda>d.
     Inr \<lparr>co_maxByteLength = b, co_maxContainerLength = c, co_maxDepth = d\<rparr>))))"

section \<open>Doubles\<close>

definition double_negative :: "64 word \<Rightarrow> bool" where
  "double_negative w \<longleftrightarrow> uint w div 2 ^ 63 = 1"

definition double_exponent :: "64 word \<Rightarrow> int" where
  "double_exponent w = uint w div 2 ^ 52 mod 2048"

definition double_mantissa :: "64 word \<Rightarrow> int" where
  "double_mantissa w = uint w mod 2 ^ 52"

definition double_finite :: "64 word \<Rightarrow> bool" where
  "double_finite w \<longleftrightarrow> double_exponent w \<noteq> 2047"

text \<open>The value of a finite double that is an integer.\<close>

definition double_integer :: "64 word \<Rightarrow> int option" where
  "double_integer w =
     (let e = double_exponent w; m = double_mantissa w; s = (if double_negative w then -1 else 1) in
      if e = 0 then (if m = 0 then Some 0 else None)
      else if e \<ge> 1075 then Some (s * (2 ^ 52 + m) * 2 ^ nat (e - 1075))
      else if (2 ^ 52 + m) mod 2 ^ nat (1075 - e) = 0 then Some (s * ((2 ^ 52 + m) div 2 ^ nat (1075 - e)))
      else None)"

definition double_number :: "64 word \<Rightarrow> js_value" where
  "double_number w =
     (case double_integer w of
        None \<Rightarrow> JDouble w
      | Some n \<Rightarrow> if n = 0 \<and> double_negative w then JDouble w else JInteger n)"

definition double_bytes :: "64 word \<Rightarrow> bytes" where
  "double_bytes w = uint32_bytes (uint w div UINT32_BASE) @ uint32_bytes (uint w mod UINT32_BASE)"

definition read_double :: "bytes \<Rightarrow> 64 word" where
  "read_double bs = word_of_int (read_uint32 bs * UINT32_BASE + read_uint32 (drop 4 bs))"

section \<open>Text\<close>

text \<open>\<open>TextEncoder\<close>: the scalar values of a string, a lone surrogate replaced, each in one to four bytes.\<close>

definition high_surrogate :: "16 word \<Rightarrow> bool" where
  "high_surrogate u \<longleftrightarrow> 0xD800 \<le> u \<and> u \<le> 0xDBFF"

definition low_surrogate :: "16 word \<Rightarrow> bool" where
  "low_surrogate u \<longleftrightarrow> 0xDC00 \<le> u \<and> u \<le> 0xDFFF"

definition single_scalar :: "16 word \<Rightarrow> int" where
  "single_scalar u = (if high_surrogate u \<or> low_surrogate u then 0xFFFD else uint u)"

fun scalar_values :: "jstring \<Rightarrow> int list" where
  "scalar_values [] = []"
| "scalar_values [u] = [single_scalar u]"
| "scalar_values (u # v # us) =
     (if high_surrogate u \<and> low_surrogate v
      then (0x10000 + (uint u - 0xD800) * 0x400 + (uint v - 0xDC00)) # scalar_values us
      else single_scalar u # scalar_values (v # us))"

definition continuation :: "int \<Rightarrow> 8 word" where
  "continuation n = to_byte (0x80 + n mod 64)"

definition utf8_scalar :: "int \<Rightarrow> bytes" where
  "utf8_scalar c =
     (if c < 0x80 then [to_byte c]
      else if c < 0x800 then [to_byte (0xC0 + c div 64), continuation c]
      else if c < 0x10000 then [to_byte (0xE0 + c div 4096), continuation (c div 64), continuation c]
      else [to_byte (0xF0 + c div 262144), continuation (c div 4096), continuation (c div 64), continuation c])"

definition utf8_encode :: "jstring \<Rightarrow> bytes" where
  "utf8_encode s = concat (map utf8_scalar (scalar_values s))"

text \<open>\<open>TextDecoder\<close> with \<open>fatal\<close>: \<open>None\<close> when it throws. Overlong forms, surrogates and values beyond the last plane are invalid.\<close>

definition is_continuation :: "int \<Rightarrow> int \<Rightarrow> 8 word \<Rightarrow> bool" where
  "is_continuation lo hi b \<longleftrightarrow> lo \<le> uint b \<and> uint b \<le> hi"

fun utf8_values :: "bytes \<Rightarrow> int list option" where
  "utf8_values [] = Some []"
| "utf8_values (b # bs) =
     (let c = uint b in
      if c < 0x80 then map_option ((#) c) (utf8_values bs)
      else if 0xC2 \<le> c \<and> c \<le> 0xDF then
        (case bs of
           x # bs' \<Rightarrow> if is_continuation 0x80 0xBF x
             then map_option ((#) ((c - 0xC0) * 64 + (uint x - 0x80))) (utf8_values bs') else None
         | _ \<Rightarrow> None)
      else if 0xE0 \<le> c \<and> c \<le> 0xEF then
        (case bs of
           x # y # bs' \<Rightarrow>
             if is_continuation (if c = 0xE0 then 0xA0 else 0x80) (if c = 0xED then 0x9F else 0xBF) x \<and> is_continuation 0x80 0xBF y
             then map_option ((#) ((c - 0xE0) * 4096 + (uint x - 0x80) * 64 + (uint y - 0x80))) (utf8_values bs') else None
         | _ \<Rightarrow> None)
      else if 0xF0 \<le> c \<and> c \<le> 0xF4 then
        (case bs of
           x # y # z # bs' \<Rightarrow>
             if is_continuation (if c = 0xF0 then 0x90 else 0x80) (if c = 0xF4 then 0x8F else 0xBF) x \<and>
               is_continuation 0x80 0xBF y \<and> is_continuation 0x80 0xBF z
             then map_option ((#) ((c - 0xF0) * 262144 + (uint x - 0x80) * 4096 + (uint y - 0x80) * 64 + (uint z - 0x80)))
               (utf8_values bs') else None
         | _ \<Rightarrow> None)
      else None)"

definition scalar_units :: "int \<Rightarrow> jstring" where
  "scalar_units c =
     (if c < 0x10000 then [word_of_int c]
      else [word_of_int (0xD800 + (c - 0x10000) div 0x400), word_of_int (0xDC00 + (c - 0x10000) mod 0x400)])"

definition utf8_decode :: "bytes \<Rightarrow> jstring option" where
  "utf8_decode bs = map_option (\<lambda>cs. concat (map scalar_units cs)) (utf8_values bs)"

section \<open>Encoding\<close>

definition write_bytes :: "cbor_options \<Rightarrow> bytes \<Rightarrow> bytes \<Rightarrow> cbor_error + bytes" where
  "write_bytes p bs out =
     (if int (length out) + int (length bs) > co_maxByteLength p then Inl CborTooLong else Inr (out @ bs))"

definition uint16_bytes :: "int \<Rightarrow> bytes" where
  "uint16_bytes n = [to_byte (n div 2 ^ 8), to_byte n]"

definition writeArgument :: "cbor_options \<Rightarrow> int \<Rightarrow> int \<Rightarrow> bytes \<Rightarrow> cbor_error + bytes" where
  "writeArgument p majorType v out =
     (let pre = majorType * 32 in
      if v < 24 then write_bytes p [to_byte (pre + v)] out
      else if v \<le> 0xff then ebind (write_bytes p [to_byte (pre + 24)] out) (write_bytes p [to_byte v])
      else if v \<le> 0xffff then ebind (write_bytes p [to_byte (pre + 25)] out) (write_bytes p (uint16_bytes v))
      else if v \<le> MAX_UINT32 then ebind (write_bytes p [to_byte (pre + 26)] out) (write_bytes p (uint32_bytes v))
      else ebind (write_bytes p [to_byte (pre + 27)] out) (\<lambda>out.
        ebind (write_bytes p (uint32_bytes (v div UINT32_BASE)) out) (write_bytes p (uint32_bytes (v mod UINT32_BASE)))))"

definition encodeText :: "cbor_options \<Rightarrow> jstring \<Rightarrow> bytes \<Rightarrow> cbor_error + bytes" where
  "encodeText p s out =
     (let bs = utf8_encode s in
      if int (length bs) > co_maxByteLength p then Inl CborTooLong
      else if utf8_decode bs \<noteq> Some s then Inl CborBadText
      else ebind (writeArgument p 3 (int (length bs)) out) (write_bytes p bs))"

definition encode_integer :: "cbor_options \<Rightarrow> int \<Rightarrow> bytes \<Rightarrow> cbor_error + bytes" where
  "encode_integer p n out =
     (if n < - MAX_SAFE \<or> n > MAX_SAFE then Inl CborUnsafeInteger
      else if n \<ge> 0 then writeArgument p 0 n out else writeArgument p 1 (-1 - n) out)"

fun encodeValue :: "cbor_options \<Rightarrow> int \<Rightarrow> js_value \<Rightarrow> bytes \<Rightarrow> cbor_error + bytes"
  and encode_items :: "cbor_options \<Rightarrow> int \<Rightarrow> js_value list \<Rightarrow> bytes \<Rightarrow> cbor_error + bytes"
  and encode_entries :: "cbor_options \<Rightarrow> int \<Rightarrow> (jstring \<times> js_value) list \<Rightarrow> bytes \<Rightarrow> cbor_error + bytes" where
  "encodeValue p depth v out =
     (if depth > co_maxDepth p then Inl CborTooDeep
      else case v of
        JUndefined \<Rightarrow> Inl CborUnsupported
      | JNull \<Rightarrow> write_bytes p [0xf6] out
      | JBool b \<Rightarrow> write_bytes p [if b then 0xf5 else 0xf4] out
      | JInteger n \<Rightarrow> encode_integer p n out
      | JDouble w \<Rightarrow> if \<not> double_finite w then Inl CborNotFinite else write_bytes p (0xfb # double_bytes w) out
      | JString s \<Rightarrow> encodeText p s out
      | JBytes bs \<Rightarrow>
          if int (length bs) > co_maxByteLength p then Inl CborTooLong
          else ebind (writeArgument p 2 (int (length bs)) out) (write_bytes p bs)
      | JArray vs \<Rightarrow>
          if int (length vs) > co_maxContainerLength p then Inl CborTooLong
          else ebind (writeArgument p 4 (int (length vs)) out) (encode_items p (depth + 1) vs)
      | JObject kvs \<Rightarrow>
          (let n = int (length (filter (\<lambda>kv. snd kv \<noteq> JUndefined) kvs)) in
           if n > co_maxContainerLength p then Inl CborTooLong
           else ebind (writeArgument p 5 n out) (encode_entries p (depth + 1) kvs)))"
| "encode_items p depth [] out = Inr out"
| "encode_items p depth (v # vs) out =
     (if v = JUndefined then Inl CborHole else ebind (encodeValue p depth v out) (encode_items p depth vs))"
| "encode_entries p depth [] out = Inr out"
| "encode_entries p depth ((k, v) # kvs) out =
     (if v = JUndefined then encode_entries p depth kvs out
      else ebind (encodeText p k out) (\<lambda>out. ebind (encodeValue p depth v out) (encode_entries p depth kvs)))"

definition encodeCbor :: "js_value \<Rightarrow> int option \<times> int option \<times> int option \<Rightarrow> cbor_error + bytes" where
  "encodeCbor v options = ebind (resolveOptions options) (\<lambda>p. encodeValue p 0 v [])"

section \<open>Decoding\<close>

fun readByte :: "bytes \<Rightarrow> cbor_error + (int \<times> bytes)" where
  "readByte [] = Inl CborTruncated"
| "readByte (b # bs) = Inr (uint b, bs)"

definition readBytes :: "int \<Rightarrow> bytes \<Rightarrow> cbor_error + (bytes \<times> bytes)" where
  "readBytes n bs = (if n > int (length bs) then Inl CborTruncated else Inr (take (nat n) bs, drop (nat n) bs))"

definition readArgument :: "int \<Rightarrow> bytes \<Rightarrow> cbor_error + (int \<times> bytes)" where
  "readArgument ai bs =
     (if ai < 24 then Inr (ai, bs)
      else if ai = 24 then readByte bs
      else if ai = 25 then ebind (readBytes 2 bs) (\<lambda>(x, rest). Inr (uint (x ! 0) * 0x100 + uint (x ! 1), rest))
      else if ai = 26 then ebind (readBytes 4 bs) (\<lambda>(x, rest). Inr (read_uint32 x, rest))
      else if ai = 27 then
        ebind (readBytes 4 bs) (\<lambda>(high, bs).
        ebind (readBytes 4 bs) (\<lambda>(low, rest).
        if read_uint32 high > 0x1fffff then Inl CborUnsafeInteger
        else Inr (read_uint32 high * UINT32_BASE + read_uint32 low, rest)))
      else if ai = 31 then Inl CborIndefinite
      else Inl CborMalformed)"

definition readLength :: "int \<Rightarrow> int \<Rightarrow> bytes \<Rightarrow> cbor_error + (int \<times> bytes)" where
  "readLength ai limit bs =
     (if ai = 31 then Inl CborIndefinite
      else ebind (readArgument ai bs) (\<lambda>(n, rest). if n > limit then Inl CborTooLong else Inr (n, rest)))"

definition readSimple :: "int \<Rightarrow> bytes \<Rightarrow> cbor_error + (js_value \<times> bytes)" where
  "readSimple ai bs =
     (if ai = 20 then Inr (JBool False, bs)
      else if ai = 21 then Inr (JBool True, bs)
      else if ai = 22 then Inr (JNull, bs)
      else if ai = 27 then
        ebind (readBytes 8 bs) (\<lambda>(x, rest).
        let w = read_double x in
        if \<not> double_finite w then Inl CborNotFinite
        else if (case double_integer w of None \<Rightarrow> False | Some n \<Rightarrow> n < - MAX_SAFE \<or> n > MAX_SAFE) then Inl CborUnsafeInteger
        else Inr (double_number w, rest))
      else if ai = 31 then Inl CborIndefinite
      else Inl CborUnsupported)"

text \<open>The loops over the items of an array and the entries of a map, over what reads one item.\<close>

primrec read_items ::
  "nat \<Rightarrow> (bytes \<Rightarrow> cbor_error + (js_value \<times> bytes)) \<Rightarrow> bytes \<Rightarrow> cbor_error + (js_value list \<times> bytes)" where
  "read_items 0 item bs = Inr ([], bs)"
| "read_items (Suc n) item bs =
     ebind (item bs) (\<lambda>(v, bs). ebind (read_items n item bs) (\<lambda>(vs, rest). Inr (v # vs, rest)))"

primrec read_entries ::
  "nat \<Rightarrow> (bytes \<Rightarrow> cbor_error + (js_value \<times> bytes)) \<Rightarrow> jstring list \<Rightarrow> bytes \<Rightarrow>
   cbor_error + ((jstring \<times> js_value) list \<times> bytes)" where
  "read_entries 0 item keys bs = Inr ([], bs)"
| "read_entries (Suc n) item keys bs =
     ebind (item bs) (\<lambda>(key, bs).
     case key of
       JString k \<Rightarrow>
         if k \<in> set keys then Inl CborDuplicateKey
         else ebind (item bs) (\<lambda>(v, bs).
           ebind (read_entries n item (k # keys) bs) (\<lambda>(kvs, rest). Inr ((k, v) # kvs, rest)))
     | _ \<Rightarrow> Inl CborKeyNotString)"

text \<open>\<open>readItem\<close> with the levels that are left: \<open>maxDepth + 1 - depth\<close>.\<close>

primrec readItem :: "nat \<Rightarrow> cbor_options \<Rightarrow> bytes \<Rightarrow> cbor_error + (js_value \<times> bytes)" where
  "readItem 0 p bs = Inl CborTooDeep"
| "readItem (Suc levels) p bs =
     ebind (readByte bs) (\<lambda>(initial, bs).
     let majorType = initial div 32; ai = initial mod 32 in
     if majorType = 0 then ebind (readArgument ai bs) (\<lambda>(n, rest). Inr (JInteger n, rest))
     else if majorType = 1 then ebind (readArgument ai bs) (\<lambda>(n, rest).
       if -1 - n < - MAX_SAFE then Inl CborUnsafeInteger else Inr (JInteger (-1 - n), rest))
     else if majorType = 2 then ebind (readLength ai (co_maxByteLength p) bs) (\<lambda>(n, bs).
       ebind (readBytes n bs) (\<lambda>(x, rest). Inr (JBytes x, rest)))
     else if majorType = 3 then ebind (readLength ai (co_maxByteLength p) bs) (\<lambda>(n, bs).
       ebind (readBytes n bs) (\<lambda>(x, rest).
       case utf8_decode x of None \<Rightarrow> Inl CborBadText | Some s \<Rightarrow> Inr (JString s, rest)))
     else if majorType = 4 then ebind (readLength ai (co_maxContainerLength p) bs) (\<lambda>(n, bs).
       ebind (read_items (nat n) (readItem levels p) bs) (\<lambda>(vs, rest). Inr (JArray vs, rest)))
     else if majorType = 5 then ebind (readLength ai (co_maxContainerLength p) bs) (\<lambda>(n, bs).
       ebind (read_entries (nat n) (readItem levels p) [] bs) (\<lambda>(kvs, rest). Inr (JObject kvs, rest)))
     else if majorType = 6 then Inl CborUnsupported
     else readSimple ai bs)"

definition decodeCbor :: "bytes \<Rightarrow> int option \<times> int option \<times> int option \<Rightarrow> cbor_error + js_value" where
  "decodeCbor bs options =
     ebind (resolveOptions options) (\<lambda>p.
     if int (length bs) > co_maxByteLength p then Inl CborTooLong
     else ebind (readItem (nat (co_maxDepth p + 1)) p bs) (\<lambda>(v, rest).
       if rest \<noteq> [] then Inl CborTrailing else Inr v))"

end
