(* ===== verification/Codec.thy ===== *)
theory Codec
  imports Cbor
begin

text \<open>
  \<open>packages/protocol/src/protocol.ts\<close> and \<open>codec.ts\<close>, with \<open>packages/chord/src/json.ts\<close>: the messages between client and
  server, as frames of CBOR. The schemas are values; what \<open>Check\<close> of TypeBox makes of them is the parameter \<open>Check\<close> of the
  definitions. The text of errors is left out, an error says which step failed.
\<close>

section \<open>Schemas\<close>

datatype schema =
    TString "int option" "jstring option" | TInteger int | TLiteral js_value | TNull | TUnknown | TOptional schema
  | TObject "(jstring \<times> schema) list" bool | TUnion "schema list"

definition PROTOCOL_VERSION :: int where "PROTOCOL_VERSION = 8"

definition IdSchema :: schema where "IdSchema = TString (Some 1) None"

definition StrictObject :: "(jstring \<times> schema) list \<Rightarrow> schema" where
  "StrictObject properties = TObject properties False"

definition ServerIdSchema :: schema where
  "ServerIdSchema = TString None (Some (js ''^[0-9a-f]{8}-[0-9a-f]{4}-4[0-9a-f]{3}-[89ab][0-9a-f]{3}-[0-9a-f]{12}$''))"

definition isServerId :: "(schema \<Rightarrow> js_value \<Rightarrow> bool) \<Rightarrow> js_value \<Rightarrow> bool" where
  "isServerId Check v = Check ServerIdSchema v"

definition ProtocolErrorSchema :: schema where
  "ProtocolErrorSchema = StrictObject [(js ''code'', IdSchema), (js ''message'', TString None None)]"

definition type_of :: "string \<Rightarrow> jstring \<times> schema" where
  "type_of t = (js ''type'', TLiteral (JString (js t)))"

definition ClientHelloSchema :: schema where
  "ClientHelloSchema = StrictObject [type_of ''hello'', (js ''version'', TInteger 0)]"

definition ServerTargetSchema :: schema where
  "ServerTargetSchema = StrictObject [(js ''serverId'', ServerIdSchema)]"

definition SessionTargetSchema :: schema where
  "SessionTargetSchema =
     StrictObject [(js ''serverId'', ServerIdSchema), (js ''sessionId'', IdSchema), (js ''attachmentId'', IdSchema)]"

definition RpcTargetSchema :: schema where
  "RpcTargetSchema = TUnion [ServerTargetSchema, SessionTargetSchema]"

definition RequestEnvelopeSchema :: schema where
  "RequestEnvelopeSchema =
     StrictObject [type_of ''request'', (js ''id'', IdSchema), (js ''target'', RpcTargetSchema), (js ''call'', TUnknown)]"

definition CancelEnvelopeSchema :: schema where
  "CancelEnvelopeSchema = StrictObject [type_of ''cancel'', (js ''id'', IdSchema), (js ''target'', RpcTargetSchema)]"

definition ClientMessageSchema :: schema where
  "ClientMessageSchema = TUnion [ClientHelloSchema, RequestEnvelopeSchema, CancelEnvelopeSchema]"

definition ServerHelloSchema :: schema where
  "ServerHelloSchema = StrictObject [type_of ''hello'', (js ''version'', TLiteral (JInteger PROTOCOL_VERSION)), (js ''serverId'', ServerIdSchema)]"

definition ServerHelloErrorSchema :: schema where
  "ServerHelloErrorSchema = StrictObject [type_of ''hello_error'', (js ''error'', ProtocolErrorSchema)]"

definition ResponseEnvelopeSchema :: schema where
  "ResponseEnvelopeSchema = TUnion
     [StrictObject [type_of ''response'', (js ''id'', IdSchema), (js ''ok'', TLiteral (JBool True)), (js ''result'', TOptional TUnknown)],
      StrictObject [type_of ''response'', (js ''id'', IdSchema), (js ''ok'', TLiteral (JBool False)), (js ''error'', ProtocolErrorSchema)]]"

definition ServiceEventEnvelopeSchema :: schema where
  "ServiceEventEnvelopeSchema = StrictObject [type_of ''service_update'', (js ''subscriptionId'', IdSchema), (js ''update'', TUnknown)]"

definition AttachmentEnvelopeSchema :: schema where
  "AttachmentEnvelopeSchema = StrictObject [type_of ''attachment'', (js ''attachment'', TUnion [SessionTargetSchema, TNull])]"

definition ServerMessageSchema :: schema where
  "ServerMessageSchema = TUnion [ServerHelloSchema, ServerHelloErrorSchema, ResponseEnvelopeSchema, ServiceEventEnvelopeSchema,
     AttachmentEnvelopeSchema]"

section \<open>Messages\<close>

text \<open>The check of \<open>isJsonValue\<close>; \<open>undefined\<close>, byte arrays and numbers that are not finite are not JSON.\<close>

fun check_json :: "int \<Rightarrow> js_value \<Rightarrow> bool"
  and check_items :: "int \<Rightarrow> js_value list \<Rightarrow> bool"
  and check_entries :: "int \<Rightarrow> (jstring \<times> js_value) list \<Rightarrow> bool" where
  "check_json depth v =
     (depth \<le> 512 \<and>
      (case v of
         JNull \<Rightarrow> True | JString _ \<Rightarrow> True | JBool _ \<Rightarrow> True | JInteger _ \<Rightarrow> True
       | JDouble w \<Rightarrow> double_finite w
       | JArray vs \<Rightarrow> check_items (depth + 1) vs
       | JObject kvs \<Rightarrow> check_entries (depth + 1) kvs
       | _ \<Rightarrow> False))"
| "check_items depth [] = True"
| "check_items depth (v # vs) = (check_json depth v \<and> check_items depth vs)"
| "check_entries depth [] = True"
| "check_entries depth ((k, v) # kvs) = (check_json depth v \<and> check_entries depth kvs)"

definition isJsonValue :: "js_value \<Rightarrow> bool" where
  "isJsonValue v = check_json 0 v"

datatype codec_error =
    InvalidMessage | UnableToEncode cbor_error | UnableToFrame wire_error | MessageDecoderFailed
  | InvalidPayload cbor_error | InvalidFrame wire_error | InvalidFraming wire_error

definition parseClientMessage :: "(schema \<Rightarrow> js_value \<Rightarrow> bool) \<Rightarrow> js_value \<Rightarrow> codec_error + js_value" where
  "parseClientMessage Check v = (if \<not> Check ClientMessageSchema v \<or> \<not> isJsonValue v then Inl InvalidMessage else Inr v)"

definition parseServerMessage :: "(schema \<Rightarrow> js_value \<Rightarrow> bool) \<Rightarrow> js_value \<Rightarrow> codec_error + js_value" where
  "parseServerMessage Check v = (if \<not> Check ServerMessageSchema v \<or> \<not> isJsonValue v then Inl InvalidMessage else Inr v)"

definition frame_limit :: "int option \<Rightarrow> int" where
  "frame_limit limit = (case limit of None \<Rightarrow> DEFAULT_MAX_FRAME_LENGTH | Some m \<Rightarrow> m)"

definition encodeProtocolMessage ::
  "(js_value \<Rightarrow> codec_error + js_value) \<Rightarrow> int option \<Rightarrow> js_value \<Rightarrow> codec_error + bytes" where
  "encodeProtocolMessage parse limit v =
     ebind (parse v) (\<lambda>validated.
     ebind (map_sum UnableToEncode id (encodeCbor validated (Some (frame_limit limit), None, None))) (\<lambda>payload.
     map_sum UnableToFrame id (encodeFrame payload)))"

definition encodeClientMessage :: "(schema \<Rightarrow> js_value \<Rightarrow> bool) \<Rightarrow> int option \<Rightarrow> js_value \<Rightarrow> codec_error + bytes" where
  "encodeClientMessage Check = encodeProtocolMessage (parseClientMessage Check)"

definition encodeServerMessage :: "(schema \<Rightarrow> js_value \<Rightarrow> bool) \<Rightarrow> int option \<Rightarrow> js_value \<Rightarrow> codec_error + bytes" where
  "encodeServerMessage Check = encodeProtocolMessage (parseServerMessage Check)"

text \<open>\<open>ValidatedMessageDecoder\<close>; what it validates with is given with each call.\<close>

record message_decoder =
  md_failed :: bool
  md_frames :: frame_decoder
  md_maxFrameLength :: int

definition new_message_decoder :: "int option \<Rightarrow> wire_error + message_decoder" where
  "new_message_decoder limit =
     ebind (new_decoder limit) (\<lambda>d. Inr \<lparr>md_failed = False, md_frames = d, md_maxFrameLength = frame_limit limit\<rparr>)"

definition decode_payload ::
  "(js_value \<Rightarrow> codec_error + js_value) \<Rightarrow> message_decoder \<Rightarrow> bytes \<Rightarrow> codec_error + js_value" where
  "decode_payload parse d payload =
     ebind (map_sum InvalidPayload id (decodeCbor payload (Some (md_maxFrameLength d), None, None))) parse"

definition message_push ::
  "(js_value \<Rightarrow> codec_error + js_value) \<Rightarrow> message_decoder \<Rightarrow> bytes \<Rightarrow>
   ((codec_error + js_value list) \<times> message_decoder) option" where
  "message_push parse d chunk =
     (if md_failed d then Some (Inl MessageDecoderFailed, d)
      else map_option (\<lambda>(r, frames).
        let d' = d\<lparr>md_frames := frames\<rparr> in
        case ebind (map_sum InvalidFrame id r) (\<lambda>payloads. esequence (map (decode_payload parse d) payloads)) of
          Inl e \<Rightarrow> (Inl e, d'\<lparr>md_failed := True\<rparr>)
        | Inr messages \<Rightarrow> (Inr messages, d')) (decoder_push (md_frames d) chunk))"

definition message_end :: "message_decoder \<Rightarrow> (codec_error + unit) \<times> message_decoder" where
  "message_end d =
     (if md_failed d then (Inl MessageDecoderFailed, d)
      else case decoder_end (md_frames d) of
        (Inl e, frames) \<Rightarrow> (Inl (InvalidFraming e), d\<lparr>md_frames := frames, md_failed := True\<rparr>)
      | (Inr u, frames) \<Rightarrow> (Inr u, d\<lparr>md_frames := frames\<rparr>))"

text \<open>\<open>ClientMessageDecoder\<close> and \<open>ServerMessageDecoder\<close>.\<close>

definition client_message_push ::
  "(schema \<Rightarrow> js_value \<Rightarrow> bool) \<Rightarrow> message_decoder \<Rightarrow> bytes \<Rightarrow> ((codec_error + js_value list) \<times> message_decoder) option" where
  "client_message_push Check = message_push (parseClientMessage Check)"

definition server_message_push ::
  "(schema \<Rightarrow> js_value \<Rightarrow> bool) \<Rightarrow> message_decoder \<Rightarrow> bytes \<Rightarrow> ((codec_error + js_value list) \<times> message_decoder) option" where
  "server_message_push Check = message_push (parseServerMessage Check)"

definition isSupportedProtocolVersion :: "js_value \<Rightarrow> bool" where
  "isSupportedProtocolVersion version \<longleftrightarrow> version = JInteger PROTOCOL_VERSION"

end
