(* ===== verification/FramingProps.thy ===== *)
theory FramingProps
  imports Framing
begin

text \<open>
  The incremental decoder against the reference: the frames of the whole byte stream, whatever the chunks it came in.
\<close>

section \<open>Headers\<close>

lemma uint_to_byte: "uint (to_byte n) = n mod 256"
  by (simp add: to_byte_def uint_word_of_int)

lemma read_uint32_bytes:
  assumes "0 \<le> n" "n \<le> MAX_UINT32"
  shows "read_uint32 (uint32_bytes n) = n"
proof -
  have d: "n div 65536 = n div 256 div 256" "n div 16777216 = n div 256 div 256 div 256"
    by (simp_all add: zdiv_zmult2_eq[symmetric])
  have "n div 256 div 256 div 256 < 256" using assms by (simp add: MAX_UINT32_def zdiv_zmult2_eq[symmetric])
  moreover have "0 \<le> n div 256 div 256 div 256" using assms(1) by (simp add: pos_imp_zdiv_nonneg_iff)
  ultimately have top: "n div 256 div 256 div 256 mod 256 = n div 256 div 256 div 256" by simp
  have "x = x div 256 * 256 + x mod 256" for x :: int by simp
  note parts = this[of n] this[of "n div 256"] this[of "n div 256 div 256"]
  show ?thesis
    unfolding read_uint32_def uint32_bytes_def
    apply (simp add: uint_to_byte d top)
    using parts by linarith
qed

lemma uint32_bytes_read:
  assumes "length h = 4"
  shows "uint32_bytes (read_uint32 h) = h" "0 \<le> read_uint32 h" "read_uint32 h \<le> MAX_UINT32"
proof -
  obtain a b c e where h: "h = [a, b, c, e]" using assms by (auto simp: numeral_eq_Suc length_Suc_conv)
  have r: "0 \<le> uint x" "uint x < 256" for x :: "8 word" using uint_lt2p[of x] by simp_all
  note bounds = r[of a] r[of b] r[of c] r[of e]
  let ?n = "uint a * 16777216 + uint b * 65536 + uint c * 256 + uint e"
  have n: "read_uint32 h = ?n" by (simp add: read_uint32_def h)
  show "0 \<le> read_uint32 h" "read_uint32 h \<le> MAX_UINT32" using bounds by (simp_all add: n MAX_UINT32_def)
  have eq: "?n = uint e + ((uint a * 256 + uint b) * 256 + uint c) * 256" by simp
  have low: "(x + q * 256) div 256 = q" if "0 \<le> x" "x < 256" for x q :: int using that by simp
  have "?n div 256 = (uint a * 256 + uint b) * 256 + uint c" unfolding eq by (rule low) (rule bounds)+
  moreover have "?n div 16777216 = uint a" "?n div 65536 = uint a * 256 + uint b" using bounds by linarith+
  ultimately have "map uint (uint32_bytes ?n) =
      [uint a mod 256, (uint a * 256 + uint b) mod 256, ((uint a * 256 + uint b) * 256 + uint c) mod 256, ?n mod 256]"
    by (simp add: uint32_bytes_def uint_to_byte)
  moreover have m: "(q * 256 + x) mod 256 = x" if "0 \<le> x" "x < 256" for x q :: int using that by simp
  have "?n mod 256 = uint e" unfolding eq add.commute[of "uint e"] by (rule m) (rule bounds)+
  moreover have "((uint a * 256 + uint b) * 256 + uint c) mod 256 = uint c" "(uint a * 256 + uint b) mod 256 = uint b"
    by ((rule m, (rule bounds)+)+)
  moreover have "uint a mod 256 = uint a" using bounds by simp
  ultimately have "map uint (uint32_bytes ?n) = map uint h" by (simp only: h list.map)
  then have "uint32_bytes ?n = h" by (rule map_injective) (simp add: inj_def word_uint_eq_iff)
  then show "uint32_bytes (read_uint32 h) = h" by (simp only: n)
qed

lemma length_uint32_bytes [simp]: "length (uint32_bytes n) = 4"
  by (simp add: uint32_bytes_def)

section \<open>The payload\<close>

definition block_content :: "payload_block list \<Rightarrow> bytes" where
  "block_content blocks = concat (map snd blocks)"

text \<open>Only the last block may have room left, and the blocks do not exceed the payload.\<close>

definition blocks_ok :: "int \<Rightarrow> payload_block list \<Rightarrow> int \<Rightarrow> bool" where
  "blocks_ok expected blocks n \<longleftrightarrow> n = int (length (block_content blocks)) \<and>
     list_all (\<lambda>b. int (length (snd b)) \<le> fst b) blocks \<and> list_all full_block (butlast blocks) \<and>
     (\<Sum>b \<leftarrow> blocks. fst b) \<le> expected"

lemma full_blocks: "list_all full_block blocks \<Longrightarrow> (\<Sum>b \<leftarrow> blocks. fst b) = int (length (block_content blocks))"
  by (induction blocks) (auto simp: block_content_def full_block_def)

lemma content_bound: "list_all (\<lambda>b. int (length (snd b)) \<le> fst b) blocks \<Longrightarrow>
  int (length (block_content blocks)) \<le> (\<Sum>b \<leftarrow> blocks. fst b)"
  by (induction blocks) (auto simp: block_content_def)

lemma complete_blocks:
  assumes "list_all (\<lambda>b. int (length (snd b)) \<le> fst b) blocks" "(\<Sum>b \<leftarrow> blocks. fst b) \<le> int (length (block_content blocks))"
  shows "joined_payload blocks = block_content blocks"
  using assms
proof (induction blocks)
  case (Cons b blocks)
  have "int (length (block_content blocks)) \<le> (\<Sum>b \<leftarrow> blocks. fst b)" using Cons.prems(1) by (intro content_bound) simp
  then have "fst b = int (length (snd b))" "(\<Sum>b \<leftarrow> blocks. fst b) \<le> int (length (block_content blocks))"
    using Cons.prems by (auto simp: block_content_def)
  then show ?case using Cons by (simp add: joined_payload_def block_content_def block_bytes_def)
qed (simp add: joined_payload_def block_content_def)

lemma content_append [simp]: "block_content (xs @ ys) = block_content xs @ block_content ys"
  by (simp add: block_content_def)

lemma fill_payload_fills:
  assumes "blocks_ok expected blocks n"
  shows "\<exists>blocks'. fill_payload expected blocks n chunk =
      Some (blocks', n + int (min (nat (expected - n)) (length chunk)), drop (nat (expected - n)) chunk) \<and>
    blocks_ok expected blocks' (n + int (min (nat (expected - n)) (length chunk))) \<and>
    block_content blocks' = block_content blocks @ take (nat (expected - n)) chunk"
  using assms
proof (induction chunk arbitrary: blocks n rule: length_induct)
  case (1 chunk)
  show ?case
  proof (cases "chunk \<noteq> [] \<and> n < expected")
    case False
    then show ?thesis using "1.prems" by (subst fill_payload.simps) auto
  next
    case True
    define blocks1 where "blocks1 = (if blocks = [] \<or> full_block (last blocks)
      then blocks @ [(min PAYLOAD_BLOCK_SIZE (expected - n), [])] else blocks)"
    have old: "n = int (length (block_content blocks))" "list_all (\<lambda>b. int (length (snd b)) \<le> fst b) blocks"
      "list_all full_block (butlast blocks)" "(\<Sum>b \<leftarrow> blocks. fst b) \<le> expected"
      using "1.prems" by (auto simp: blocks_ok_def)
    have "\<exists>bs c f. blocks1 = bs @ [(c, f)] \<and> int (length f) < c \<and> list_all full_block bs \<and>
      block_content (bs @ [(c, f)]) = block_content blocks \<and> (\<Sum>b \<leftarrow> bs @ [(c, f)]. fst b) \<le> expected"
    proof (cases "blocks = [] \<or> full_block (last blocks)")
      case new: True
      then have "list_all full_block blocks" using old(3) by (cases blocks rule: rev_cases) auto
      then show ?thesis using new full_blocks[of blocks] old(1) True
        by (auto simp: blocks1_def block_content_def PAYLOAD_BLOCK_SIZE_def)
    next
      case False
      then obtain bs c f where "blocks = bs @ [(c, f)]" by (metis rev_exhaust surj_pair)
      then show ?thesis using False old by (auto simp: blocks1_def full_block_def)
    qed
    then obtain bs c f where b1: "blocks1 = bs @ [(c, f)]" "int (length f) < c" "list_all full_block bs"
      "block_content (bs @ [(c, f)]) = block_content blocks" "(\<Sum>b \<leftarrow> bs @ [(c, f)]. fst b) \<le> expected" by blast
    define k where "k = min (c - int (length f)) (int (length chunk))"
    have k: "0 < k" "k \<le> int (length chunk)" "k \<le> c - int (length f)" using b1(2) True by (auto simp: k_def)
    have n: "n = int (length (block_content bs)) + int (length f)"
      using old(1) arg_cong[OF b1(4), of length] by (simp add: block_content_def)
    have room: "k \<le> expected - n" using b1(5) full_blocks[OF b1(3)] n k(3) by simp
    let ?next = "bs @ [(c, f @ take (nat k) chunk)]"
    have content: "block_content ?next = block_content blocks @ take (nat k) chunk"
      using b1(4) by (simp add: block_content_def)
    have len: "int (length (take (nat k) chunk)) = k" using k by simp
    have ok: "blocks_ok expected ?next (n + k)"
      using b1(3,5) k len old(1) content
      by (auto simp: blocks_ok_def list_all_iff full_block_def)
    have "length (drop (nat k) chunk) < length chunk" using k by simp
    from "1.IH"[rule_format, OF this ok] obtain blocks' where ih:
      "fill_payload expected ?next (n + k) (drop (nat k) chunk) = Some (blocks',
         n + k + int (min (nat (expected - (n + k))) (length (drop (nat k) chunk))), drop (nat (expected - (n + k))) (drop (nat k) chunk))"
      "blocks_ok expected blocks' (n + k + int (min (nat (expected - (n + k))) (length (drop (nat k) chunk))))"
      "block_content blocks' = block_content ?next @ take (nat (expected - (n + k))) (drop (nat k) chunk)" by blast
    have step: "fill_payload expected blocks n chunk = fill_payload expected ?next (n + k) (drop (nat k) chunk)"
      using True by (subst fill_payload.simps) (simp add: blocks1_def[symmetric] b1(1) k_def Let_def del: butlast.simps)
    have sum: "n + k + int (min (nat (expected - (n + k))) (length (drop (nat k) chunk))) = n + int (min (nat (expected - n)) (length chunk))"
      using k room by auto
    have split: "nat (expected - n) = nat k + nat (expected - (n + k))" using k(1) room by simp
    show ?thesis using ih unfolding step sum content
      by (intro exI[of _ blocks']) (simp add: split take_add add.commute)
  qed
qed

section \<open>The reference decoder\<close>

text \<open>The frames of a whole stream and what is left of it; \<open>None\<close> when a header announces too long a payload.\<close>

function parse_frames :: "int \<Rightarrow> bytes \<Rightarrow> (bytes list \<times> bytes) option" where
  "parse_frames limit bs =
     (if length bs < 4 then Some ([], bs)
      else
        (let n = read_uint32 (take 4 bs) in
         if n > limit then None
         else if int (length bs) - 4 < n then Some ([], bs)
         else map_option (\<lambda>(frames, rest). (take (nat n) (drop 4 bs) # frames, rest)) (parse_frames limit (drop (nat n) (drop 4 bs)))))"
  by pat_completeness auto

termination by (relation "measure (\<lambda>(limit, bs). length bs)") auto

declare parse_frames.simps [simp del]

lemma parse_header:
  assumes "length h = 4"
  shows "parse_frames limit (h @ bs) =
    (if read_uint32 h > limit then None
     else if int (length bs) < read_uint32 h then Some ([], h @ bs)
     else map_option (\<lambda>(frames, rest). (take (nat (read_uint32 h)) bs # frames, rest)) (parse_frames limit (drop (nat (read_uint32 h)) bs)))"
  using assms by (subst parse_frames.simps) (simp add: Let_def)

text \<open>The bytes of the frame under way, and the states the decoder can be in between two chunks.\<close>

definition pending_bytes :: "frame_decoder \<Rightarrow> bytes" where
  "pending_bytes d =
     (case fd_expectedPayloadLength d of
        None \<Rightarrow> fd_header d
      | Some n \<Rightarrow> uint32_bytes n @ block_content (fd_payloadBlocks d))"

definition decoder_ok :: "frame_decoder \<Rightarrow> bool" where
  "decoder_ok d \<longleftrightarrow> fd_state d = DecoderOpen \<and> fd_maxFrameLength d \<le> MAX_UINT32 \<and>
     (case fd_expectedPayloadLength d of
        None \<Rightarrow> length (fd_header d) < 4
      | Some n \<Rightarrow> fd_header d = [] \<and> 0 < n \<and> n \<le> fd_maxFrameLength d \<and>
          blocks_ok n (fd_payloadBlocks d) (fd_payloadLength d) \<and> fd_payloadLength d < n)"

lemma pending_incomplete: "decoder_ok d \<Longrightarrow> parse_frames (fd_maxFrameLength d) (pending_bytes d) = Some ([], pending_bytes d)"
  by (cases "fd_expectedPayloadLength d")
    (auto simp: decoder_ok_def pending_bytes_def parse_frames.simps[of _ "fd_header d"] parse_header read_uint32_bytes blocks_ok_def)

text \<open>What a call of \<open>push\<close> must do with the bytes it is given.\<close>

definition pushes :: "frame_decoder \<Rightarrow> bytes list \<Rightarrow> (bytes list \<times> bytes) option \<Rightarrow>
    ((wire_error + bytes list) \<times> frame_decoder) option \<Rightarrow> bool" where
  "pushes d frames parsed r \<longleftrightarrow>
     (case parsed of
        None \<Rightarrow> \<exists>n d'. r = Some (Inl (FrameTooLong n (fd_maxFrameLength d)), d') \<and> fd_state d' = DecoderIsFailed
      | Some (ps, rest) \<Rightarrow> \<exists>d'. r = Some (Inr (frames @ ps), d') \<and> decoder_ok d' \<and> pending_bytes d' = rest \<and>
          fd_maxFrameLength d' = fd_maxFrameLength d)"

lemma pushes_cong: "fd_maxFrameLength d = fd_maxFrameLength d' \<Longrightarrow> pushes d = pushes d'"
  by (intro ext) (simp only: pushes_def)

lemma pushes_frame:
  assumes "pushes d' (frames @ [p]) parsed r" "fd_maxFrameLength d' = fd_maxFrameLength d"
  shows "pushes d frames (map_option (\<lambda>(ps, rest). (p # ps, rest)) parsed) r"
  using assms by (auto simp: pushes_def split: option.splits)

text \<open>The payload of a turn, with the rest of the loop as induction hypothesis.\<close>

lemma payload_pushes:
  assumes b: "blocks_ok n blocks m" "m < n" "0 < n" "n \<le> fd_maxFrameLength d" "fd_maxFrameLength d \<le> MAX_UINT32"
    and d: "fd_header d = []" "fd_state d = DecoderOpen" "fd_expectedPayloadLength d = Some n"
      "fd_payloadBlocks d = blocks" "fd_payloadLength d = m"
    and loop: "\<And>d' rest frames. length rest < length chunk \<or> (rest = [] \<and> chunk = []) \<Longrightarrow> decoder_ok d' \<Longrightarrow>
      pushes d' frames (parse_frames (fd_maxFrameLength d') (pending_bytes d' @ rest)) (push_loop d' rest frames)"
  shows "pushes d frames (parse_frames (fd_maxFrameLength d) (uint32_bytes n @ block_content blocks @ chunk))
    (Option.bind (fill_payload n blocks m chunk) (\<lambda>(blocks, m, rest).
      if m = n then push_loop (finish_payload d) rest (frames @ [joined_payload blocks])
      else push_loop (d\<lparr>fd_payloadBlocks := blocks, fd_payloadLength := m\<rparr>) rest frames))"
proof -
  have m: "m = int (length (block_content blocks))" using b(1) by (simp add: blocks_ok_def)
  let ?r = "nat (n - m)"
  have n: "read_uint32 (uint32_bytes n) = n" using b by (intro read_uint32_bytes) auto
  obtain blocks' where f: "fill_payload n blocks m chunk = Some (blocks', m + int (min ?r (length chunk)), drop ?r chunk)"
    "blocks_ok n blocks' (m + int (min ?r (length chunk)))" "block_content blocks' = block_content blocks @ take ?r chunk"
    using fill_payload_fills[OF b(1)] by blast
  show ?thesis
  proof (cases "?r \<le> length chunk")
    case True
    then have full: "m + int (min ?r (length chunk)) = n" using b(2) by auto
    have "joined_payload blocks' = block_content blocks'"
      using f(2) full by (intro complete_blocks) (auto simp: blocks_ok_def)
    then have payload: "joined_payload blocks' = take (nat n) (block_content blocks @ chunk)"
      using f(3) m b(2) by (simp add: nat_diff_distrib')
    have rest: "drop (nat n) (block_content blocks @ chunk) = drop ?r chunk" using m b(2) by (simp add: nat_diff_distrib')
    have ok: "decoder_ok (finish_payload d)" using d b(5) by (simp add: decoder_ok_def finish_payload_def)
    have pend: "pending_bytes (finish_payload d) = []" using d by (simp add: pending_bytes_def finish_payload_def)
    have "length (drop ?r chunk) < length chunk" using True b(2) by auto
    from loop[OF disjI1[OF this] ok, of "frames @ [joined_payload blocks']"]
    have "pushes (finish_payload d) (frames @ [joined_payload blocks'])
        (parse_frames (fd_maxFrameLength d) (drop ?r chunk)) (push_loop (finish_payload d) (drop ?r chunk) (frames @ [joined_payload blocks']))"
      by (simp add: pend) (simp add: finish_payload_def)
    note pushed = pushes_frame[OF this, of d]
    have long: "\<not> int (length (block_content blocks @ chunk)) < n" using True m b(2) by auto
    have "parse_frames (fd_maxFrameLength d) (uint32_bytes n @ block_content blocks @ chunk) =
        map_option (\<lambda>(ps, rest). (joined_payload blocks' # ps, rest)) (parse_frames (fd_maxFrameLength d) (drop ?r chunk))"
      using b(4) long unfolding parse_header[OF length_uint32_bytes] n payload rest by (simp only: if_False not_less[symmetric] refl)
    moreover have "Option.bind (fill_payload n blocks m chunk) (\<lambda>(blocks, m, rest).
        if m = n then push_loop (finish_payload d) rest (frames @ [joined_payload blocks])
        else push_loop (d\<lparr>fd_payloadBlocks := blocks, fd_payloadLength := m\<rparr>) rest frames) =
      push_loop (finish_payload d) (drop ?r chunk) (frames @ [joined_payload blocks'])"
      by (simp add: f(1) full)
    ultimately show ?thesis using pushed by (simp add: finish_payload_def)
  next
    case False
    then have part: "m + int (min ?r (length chunk)) = m + int (length chunk)" "drop ?r chunk = []" "take ?r chunk = chunk"
      "m + int (length chunk) < n" by auto
    let ?d = "d\<lparr>fd_payloadBlocks := blocks', fd_payloadLength := m + int (length chunk)\<rparr>"
    have ok: "decoder_ok ?d" using d b f(2) part by (simp add: decoder_ok_def)
    have "push_loop ?d [] frames = Some (Inr frames, ?d)" by (subst push_loop.simps) simp
    moreover have "pending_bytes ?d = uint32_bytes n @ block_content blocks @ chunk" using d f(3) part by (simp add: pending_bytes_def)
    ultimately show ?thesis using pending_incomplete[OF ok] ok part f(1)
      by (simp add: pushes_def)
  qed
qed

lemma push_loop_parses:
  assumes "decoder_ok d"
  shows "pushes d frames (parse_frames (fd_maxFrameLength d) (pending_bytes d @ chunk)) (push_loop d chunk frames)"
  using assms
proof (induction chunk arbitrary: d frames rule: length_induct)
  case (1 chunk)
  show ?case
  proof (cases "chunk = []")
    case True
    then show ?thesis using pending_incomplete[OF "1.prems"] "1.prems" by (subst push_loop.simps) (simp add: pushes_def)
  next
    case chunk: False
    have loop: "pushes d' frames' (parse_frames (fd_maxFrameLength d') (pending_bytes d' @ rest)) (push_loop d' rest frames')"
      if "length rest < length chunk" "decoder_ok d'" for d' rest frames'
      using "1.IH" that by blast
    show ?thesis
    proof (cases "fd_expectedPayloadLength d")
      case (Some n)
      have turn: "push_loop d chunk frames = Option.bind (fill_payload n (fd_payloadBlocks d) (fd_payloadLength d) chunk)
          (\<lambda>(blocks, m, rest). if m = n then push_loop (finish_payload d) rest (frames @ [joined_payload blocks])
            else push_loop (d\<lparr>fd_payloadBlocks := blocks, fd_payloadLength := m\<rparr>) rest frames)"
        using chunk by (subst push_loop.simps) (simp add: read_header_def Some)
      show ?thesis unfolding turn using Some chunk "1.prems"
        payload_pushes[of n "fd_payloadBlocks d" "fd_payloadLength d" d chunk frames] loop
        by (auto simp: decoder_ok_def pending_bytes_def)
    next
      case None
      let ?k = "header_bytes d chunk"
      let ?h = "fd_header d @ take ?k chunk"
      have k: "0 < ?k" "?k \<le> length chunk" "?k = min (4 - length (fd_header d)) (length chunk)"
        using "1.prems" chunk None by (auto simp: header_bytes_def FRAME_HEADER_LENGTH_def decoder_ok_def)
      have shorter: "length (drop ?k chunk) < length chunk" using k(1) chunk by simp
      have whole: "pending_bytes d @ chunk = ?h @ drop ?k chunk" using None by (simp add: pending_bytes_def)
      show ?thesis
      proof (cases "length ?h < 4")
        case True
        let ?d = "d\<lparr>fd_header := ?h\<rparr>"
        have ok: "decoder_ok ?d" using "1.prems" None True by (simp add: decoder_ok_def)
        have "push_loop d chunk frames = push_loop ?d (drop ?k chunk) frames"
          using chunk None True by (subst push_loop.simps) (simp add: read_header_def Let_def FRAME_HEADER_LENGTH_def)
        then show ?thesis using loop[OF shorter ok, of frames] None pushes_cong[of ?d d] by (simp add: whole pending_bytes_def)
      next
        case False
        then have h: "length ?h = 4" using k by auto
        note n = uint32_bytes_read[OF h]
        let ?n = "read_uint32 ?h"
        let ?d = "d\<lparr>fd_header := []\<rparr>"
        consider (long) "?n > fd_maxFrameLength d" | (empty) "?n \<le> fd_maxFrameLength d" "?n = 0"
          | (payload) "?n \<le> fd_maxFrameLength d" "0 < ?n" using n(2) by linarith
        then show ?thesis
        proof cases
          case long
          then have "push_loop d chunk frames = Some (Inl (FrameTooLong ?n (fd_maxFrameLength d)), decoder_fail ?d)"
            using chunk None False by (subst push_loop.simps) (simp add: read_header_def Let_def FRAME_HEADER_LENGTH_def)
          then show ?thesis using long by (simp add: whole parse_header[OF h] pushes_def decoder_fail_def del: append_assoc)
        next
          case empty
          have ok: "decoder_ok ?d" using "1.prems" None by (simp add: decoder_ok_def)
          have "push_loop d chunk frames = push_loop ?d (drop ?k chunk) (frames @ [[]])"
            using chunk None False empty by (subst push_loop.simps) (simp add: read_header_def Let_def FRAME_HEADER_LENGTH_def)
          moreover have "pending_bytes ?d = []" using None by (simp add: pending_bytes_def)
          ultimately show ?thesis
            using pushes_frame[OF loop[OF shorter ok, of "frames @ [[]]"], of d] empty
            by (simp add: whole parse_header[OF h] del: append_assoc)
        next
          case payload
          let ?e = "?d\<lparr>fd_expectedPayloadLength := Some ?n, fd_payloadBlocks := [], fd_payloadLength := 0\<rparr>"
          have turn: "push_loop d chunk frames = Option.bind (fill_payload ?n [] 0 (drop ?k chunk))
              (\<lambda>(blocks, m, rest). if m = ?n then push_loop (finish_payload ?e) rest (frames @ [joined_payload blocks])
                else push_loop (?e\<lparr>fd_payloadBlocks := blocks, fd_payloadLength := m\<rparr>) rest frames)"
            using chunk None False payload by (subst push_loop.simps) (simp add: read_header_def Let_def FRAME_HEADER_LENGTH_def)
          have "pushes ?e frames (parse_frames (fd_maxFrameLength ?e) (uint32_bytes ?n @ block_content [] @ drop ?k chunk))
              (Option.bind (fill_payload ?n [] 0 (drop ?k chunk)) (\<lambda>(blocks, m, rest).
                if m = ?n then push_loop (finish_payload ?e) rest (frames @ [joined_payload blocks])
                else push_loop (?e\<lparr>fd_payloadBlocks := blocks, fd_payloadLength := m\<rparr>) rest frames))"
            by (rule payload_pushes)
              (use payload "1.prems" shorter chunk in \<open>auto simp: blocks_ok_def block_content_def decoder_ok_def intro!: loop\<close>)
          then show ?thesis using pushes_cong[of ?e d] unfolding turn whole n(1) by (simp add: block_content_def)
        qed
      qed
    qed
  qed
qed

section \<open>Any sequence of chunks\<close>

fun push_all :: "frame_decoder \<Rightarrow> bytes list \<Rightarrow> ((wire_error + bytes list) \<times> frame_decoder) option" where
  "push_all d [] = Some (Inr [], d)"
| "push_all d (chunk # chunks) =
     Option.bind (decoder_push d chunk) (\<lambda>(r, d'). case r of
       Inl e \<Rightarrow> Some (Inl e, d')
     | Inr frames \<Rightarrow> map_option (\<lambda>(r', d''). (map_sum id ((@) frames) r', d'')) (push_all d' chunks))"

lemma parse_append:
  "parse_frames limit (xs @ ys) = Some (ps, rest) \<Longrightarrow> \<exists>ps1 r ps2. parse_frames limit xs = Some (ps1, r) \<and>
     parse_frames limit (r @ ys) = Some (ps2, rest) \<and> ps = ps1 @ ps2"
proof (induction limit xs arbitrary: ps rule: parse_frames.induct)
  case (1 limit xs)
  show ?case
  proof (cases "length xs < 4")
    case True
    then have "parse_frames limit xs = Some ([], xs)" by (subst parse_frames.simps) simp
    then show ?thesis using "1.prems" by simp
  next
    case False
    then have xs: "xs = take 4 xs @ drop 4 xs" "length (take 4 xs) = 4" by auto
    define h t n where "h = take 4 xs" and "t = drop 4 xs" and "n = read_uint32 h"
    have split: "xs = h @ t" "length h = 4" using False by (simp_all add: h_def t_def)
    have whole: "parse_frames limit (h @ t @ ys) = Some (ps, rest)" using "1.prems" by (simp add: split(1))
    have limit: "\<not> n > limit" using whole by (auto simp: parse_header[OF split(2)] n_def split: if_splits)
    show ?thesis
    proof (cases "int (length t) < n")
      case True
      then have "parse_frames limit xs = Some ([], xs)"
        using limit by (simp only: split(1) parse_header[OF split(2)] n_def if_True if_False)
      then show ?thesis using "1.prems" by simp
    next
      case fits: False
      then have n: "nat n \<le> length t" by simp
      then have "\<not> int (length (t @ ys)) < n" by simp
      then obtain qs where qs: "parse_frames limit (drop (nat n) t @ ys) = Some (qs, rest)" "ps = take (nat n) t # qs"
        using whole limit n unfolding parse_header[OF split(2)] n_def[symmetric] by (auto simp: if_False)
      have "\<exists>ps1 r ps2. parse_frames limit (drop (nat n) t) = Some (ps1, r) \<and>
          parse_frames limit (r @ ys) = Some (ps2, rest) \<and> qs = ps1 @ ps2"
        using "1.IH"[OF \<open>\<not> length xs < 4\<close> n_def[unfolded h_def], of qs] qs(1) limit fits \<open>\<not> length xs < 4\<close> by (simp add: t_def of_nat_diff)
      then obtain ps1 r ps2 where ih: "parse_frames limit (drop (nat n) t) = Some (ps1, r)"
        "parse_frames limit (r @ ys) = Some (ps2, rest)" "qs = ps1 @ ps2" by blast
      have "parse_frames limit xs = Some (take (nat n) t # ps1, r)"
        using limit fits ih(1) by (simp only: split(1) parse_header[OF split(2)] n_def[symmetric] if_False option.map prod.case)
      then show ?thesis using ih qs(2) by simp
    qed
  qed
qed

lemma push_all_parses:
  assumes "decoder_ok d" "parse_frames (fd_maxFrameLength d) (pending_bytes d @ concat chunks) = Some (ps, rest)"
  shows "\<exists>d'. push_all d chunks = Some (Inr ps, d') \<and> decoder_ok d' \<and> pending_bytes d' = rest"
  using assms
proof (induction chunks arbitrary: d ps)
  case Nil
  then show ?case using pending_incomplete[OF Nil.prems(1)] by auto
next
  case (Cons chunk chunks)
  obtain ps1 r ps2 where p: "parse_frames (fd_maxFrameLength d) (pending_bytes d @ chunk) = Some (ps1, r)"
    "parse_frames (fd_maxFrameLength d) (r @ concat chunks) = Some (ps2, rest)" "ps = ps1 @ ps2"
    using parse_append[of "fd_maxFrameLength d" "pending_bytes d @ chunk" "concat chunks" ps rest] Cons.prems(2) by auto
  obtain d1 where d1: "push_loop d chunk [] = Some (Inr ps1, d1)" "decoder_ok d1" "pending_bytes d1 = r"
    "fd_maxFrameLength d1 = fd_maxFrameLength d"
    using push_loop_parses[OF Cons.prems(1), of "[]" chunk] by (auto simp: p(1) pushes_def)
  obtain d' where "push_all d1 chunks = Some (Inr ps2, d')" "decoder_ok d'" "pending_bytes d' = rest"
    using Cons.IH[OF d1(2)] p(2) d1(3,4) by auto
  moreover have "decoder_push d chunk = Some (Inr ps1, d1)"
    using Cons.prems(1) d1(1) by (simp add: decoder_push_def decoder_ok_def)
  ultimately show ?case using p(3) by simp
qed

lemma parse_encoded:
  assumes "esequence (map encodeFrame payloads) = Inr frames" "list_all (\<lambda>p. int (length p) \<le> limit) payloads"
  shows "parse_frames limit (concat frames) = Some (payloads, [])"
  using assms
proof (induction payloads arbitrary: frames)
  case Nil
  then show ?case by (simp add: parse_frames.simps)
next
  case (Cons p payloads)
  then obtain f fs where "encodeFrame p = Inr f" and rest: "esequence (map encodeFrame payloads) = Inr fs" "frames = f # fs" by auto
  then have fs: "int (length p) \<le> MAX_UINT32" "frames = (uint32_bytes (int (length p)) @ p) # fs"
    by (auto simp: encodeFrame_def split: if_splits)
  have "read_uint32 (uint32_bytes (int (length p))) = int (length p)" using fs(1) by (intro read_uint32_bytes) auto
  then show ?case using Cons.IH[OF rest(1)] Cons.prems(2) by (simp add: fs(2) parse_header)
qed

lemma new_decoder_ok: "new_decoder limit = Inr d \<Longrightarrow> decoder_ok d \<and> pending_bytes d = []"
  by (auto simp: new_decoder_def resolveMaxFrameLength_def decoder_ok_def pending_bytes_def Let_def split: if_splits)

lemma frames_decoded:
  assumes d: "new_decoder limit = Inr d" and enc: "esequence (map encodeFrame payloads) = Inr frames"
    and fit: "list_all (\<lambda>p. int (length p) \<le> fd_maxFrameLength d) payloads" and chunks: "concat chunks = concat frames"
  shows "\<exists>d'. push_all d chunks = Some (Inr payloads, d') \<and> fst (decoder_end d') = Inr ()"
proof -
  obtain d' where d': "push_all d chunks = Some (Inr payloads, d')" "decoder_ok d'" "pending_bytes d' = []"
    using push_all_parses[of d chunks payloads "[]"] new_decoder_ok[OF d] parse_encoded[OF enc fit] chunks by auto
  from d'(2,3) have "fst (decoder_end d') = Inr ()"
    by (auto simp: decoder_end_def decoder_ok_def pending_bytes_def uint32_bytes_def split: option.splits)
  then show ?thesis using d'(1) by blast
qed

end
