(* ===== verification/CborProps.thy ===== *)
theory CborProps
  imports Cbor FramingProps
begin

text \<open>
  The decoder reads back what the encoder writes: first the heads of items, then texts and numbers, then whole values by
  induction over the encoder.
\<close>

section \<open>What a value becomes on the wire\<close>

text \<open>Properties that are \<open>undefined\<close> are not written.\<close>

fun strip :: "js_value \<Rightarrow> js_value"
  and strip_items :: "js_value list \<Rightarrow> js_value list"
  and strip_entries :: "(jstring \<times> js_value) list \<Rightarrow> (jstring \<times> js_value) list" where
  "strip (JArray vs) = JArray (strip_items vs)"
| "strip (JObject kvs) = JObject (strip_entries kvs)"
| "strip v = v"
| "strip_items [] = []"
| "strip_items (v # vs) = strip v # strip_items vs"
| "strip_entries [] = []"
| "strip_entries ((k, v) # kvs) = (if v = JUndefined then strip_entries kvs else (k, strip v) # strip_entries kvs)"

text \<open>The keys of an object are distinct, and a double that is an integer is an integer.\<close>

fun value_ok :: "js_value \<Rightarrow> bool"
  and items_ok :: "js_value list \<Rightarrow> bool"
  and entries_ok :: "(jstring \<times> js_value) list \<Rightarrow> bool" where
  "value_ok (JArray vs) = items_ok vs"
| "value_ok (JObject kvs) = (distinct (map fst kvs) \<and> entries_ok kvs)"
| "value_ok (JDouble w) = (double_number w = JDouble w)"
| "value_ok v = True"
| "items_ok [] = True"
| "items_ok (v # vs) = (value_ok v \<and> items_ok vs)"
| "entries_ok [] = True"
| "entries_ok ((k, v) # kvs) = (value_ok v \<and> entries_ok kvs)"

lemma length_strip_items [simp]: "length (strip_items vs) = length vs"
  by (induction vs) auto

lemma length_strip_entries: "length (filter (\<lambda>kv. snd kv \<noteq> JUndefined) kvs) = length (strip_entries kvs)"
  by (induction kvs) auto

section \<open>Heads\<close>

lemma write_bytes_ok: "write_bytes p bs out = Inr out' \<longleftrightarrow> out' = out @ bs \<and> int (length out') \<le> co_maxByteLength p"
  by (auto simp: write_bytes_def)

lemma readBytes_append: "length xs = k \<Longrightarrow> readBytes (int k) (xs @ rest) = Inr (xs, rest)"
  by (simp add: readBytes_def)

lemma readBytes_numeral: "length xs = numeral k \<Longrightarrow> readBytes (numeral k) (xs @ rest) = Inr (xs, rest)"
  using readBytes_append[of xs "numeral k"] by simp

lemma head_byte:
  assumes "0 \<le> m" "m < 8" "0 \<le> a" "a < 32"
  shows "uint (to_byte (m * 32 + a)) div 32 = m" "uint (to_byte (m * 32 + a)) mod 32 = a"
proof -
  have "m * 32 + a < 256" "0 \<le> m * 32 + a" using assms by auto
  then have "uint (to_byte (m * 32 + a)) = m * 32 + a" by (simp add: uint_to_byte)
  then show "uint (to_byte (m * 32 + a)) div 32 = m" "uint (to_byte (m * 32 + a)) mod 32 = a" using assms by auto
qed

definition head_of :: "int \<Rightarrow> int \<Rightarrow> bytes \<Rightarrow> bool" where
  "head_of m v bs \<longleftrightarrow> (\<exists>b extra. bs = b # extra \<and> uint b div 32 = m \<and> uint b mod 32 < 28 \<and>
     (\<forall>rest. readArgument (uint b mod 32) (extra @ rest) = Inr (v, rest)))"

lemma head_intro:
  assumes "0 \<le> m" "m < 8" "0 \<le> a" "a < 28" "\<And>rest. readArgument a (extra @ rest) = Inr (v, rest)"
  shows "head_of m v (to_byte (m * 32 + a) # extra)"
  using assms by (auto simp: head_of_def head_byte)

lemma writeArgument_head:
  assumes w: "writeArgument p m v out = Inr out'" and m: "0 \<le> m" "m < 8" and v: "0 \<le> v" "v \<le> MAX_SAFE"
  shows "\<exists>bs. out' = out @ bs \<and> head_of m v bs"
proof -
  consider (short) "v < 24" | (one) "24 \<le> v" "v \<le> 0xff" | (two) "0xff < v" "v \<le> 0xffff" | (four) "0xffff < v" "v \<le> MAX_UINT32"
    | (eight) "MAX_UINT32 < v" by linarith
  then show ?thesis
  proof cases
    case short
    have "head_of m v (to_byte (m * 32 + v) # [])" using short m v(1) by (intro head_intro) (simp_all add: readArgument_def)
    then show ?thesis using w short by (auto simp: writeArgument_def write_bytes_ok)
  next
    case one
    have "head_of m v (to_byte (m * 32 + 24) # [to_byte v])"
      using one m by (intro head_intro) (simp_all add: readArgument_def uint_to_byte)
    then show ?thesis using w one by (auto simp: writeArgument_def write_bytes_ok)
  next
    case two
    have "head_of m v (to_byte (m * 32 + 25) # uint16_bytes v)"
      using two m by (intro head_intro) (simp_all add: readArgument_def readBytes_def uint16_bytes_def uint_to_byte)
    then show ?thesis using w two by (auto simp: writeArgument_def write_bytes_ok)
  next
    case four
    have "head_of m v (to_byte (m * 32 + 26) # uint32_bytes v)"
      using four m v by (intro head_intro) (simp_all add: readArgument_def readBytes_numeral read_uint32_bytes)
    then show ?thesis using w four by (auto simp: writeArgument_def write_bytes_ok)
  next
    case eight
    let ?h = "v div UINT32_BASE" and ?l = "v mod UINT32_BASE"
    have b: "0 \<le> ?h" "?h \<le> 0x1fffff" "0 \<le> ?l" "?l \<le> MAX_UINT32"
      using v by (auto simp: UINT32_BASE_def MAX_UINT32_def MAX_SAFE_def)
    then have "?h \<le> MAX_UINT32" by (simp add: MAX_UINT32_def)
    then have "head_of m v (to_byte (m * 32 + 27) # uint32_bytes ?h @ uint32_bytes ?l)"
      using m b by (intro head_intro) (simp_all add: readArgument_def readBytes_numeral read_uint32_bytes)
    then show ?thesis using w eight by (auto simp: writeArgument_def write_bytes_ok MAX_UINT32_def)
  qed
qed

section \<open>Items\<close>

definition options_ok :: "cbor_options \<Rightarrow> bool" where
  "options_ok p \<longleftrightarrow> co_maxByteLength p \<le> MAX_UINT32 \<and> co_maxContainerLength p \<le> MAX_UINT32"

lemma resolveOptions_ok: "resolveOptions options = Inr p \<Longrightarrow> options_ok p"
  by (cases options) (auto simp: resolveOptions_def resolveLimit_def options_ok_def split: if_splits)

text \<open>The bytes read as the value at any number of levels but none.\<close>

definition reads :: "nat \<Rightarrow> cbor_options \<Rightarrow> bytes \<Rightarrow> js_value \<Rightarrow> bool" where
  "reads levels p bs v \<longleftrightarrow> (\<forall>rest. readItem levels p (bs @ rest) = Inr (v, rest))"

lemma head_readLength:
  assumes "head_of m n bs" "n \<le> limit"
  shows "\<exists>b extra. bs = b # extra \<and> uint b div 32 = m \<and> (\<forall>rest. readArgument (uint b mod 32) (extra @ rest) = Inr (n, rest)) \<and>
    (\<forall>rest. readLength (uint b mod 32) limit (extra @ rest) = Inr (n, rest))"
  using assms by (auto simp: head_of_def readLength_def)

lemma reads_int:
  assumes "head_of 0 n bs" shows "reads (Suc levels) p bs (JInteger n)"
  using assms by (auto simp: head_of_def reads_def Let_def)

lemma reads_negative:
  assumes "head_of 1 (-1 - n) bs" "- MAX_SAFE \<le> n" shows "reads (Suc levels) p bs (JInteger n)"
  using assms by (auto simp: head_of_def reads_def Let_def)

lemma reads_bytes:
  assumes "head_of 2 (int (length x)) bs" "int (length x) \<le> co_maxByteLength p"
  shows "reads (Suc levels) p (bs @ x) (JBytes x)"
  using head_readLength[OF assms] by (auto simp: reads_def Let_def readBytes_append)

lemma reads_text:
  assumes "head_of 3 (int (length x)) bs" "int (length x) \<le> co_maxByteLength p" "utf8_decode x = Some s"
  shows "reads (Suc levels) p (bs @ x) (JString s)"
  using head_readLength[OF assms(1,2)] assms(3) by (auto simp: reads_def Let_def readBytes_append)

lemma reads_array:
  assumes "head_of 4 (int n) bs" "int n \<le> co_maxContainerLength p"
    "\<And>rest. read_items n (readItem levels p) (bs' @ rest) = Inr (vs, rest)"
  shows "reads (Suc levels) p (bs @ bs') (JArray vs)"
  using head_readLength[OF assms(1,2)] assms(3) by (auto simp: reads_def Let_def)

lemma reads_object:
  assumes "head_of 5 (int n) bs" "int n \<le> co_maxContainerLength p"
    "\<And>rest. read_entries n (readItem levels p) [] (bs' @ rest) = Inr (kvs, rest)"
  shows "reads (Suc levels) p (bs @ bs') (JObject kvs)"
  using head_readLength[OF assms(1,2)] assms(3) by (auto simp: reads_def Let_def)

lemma read_double_bytes: "read_double (double_bytes w) = w"
proof -
  have w: "0 \<le> uint w" "uint w < 0x10000000000000000" using uint_lt2p[of w] by simp_all
  then have "0 \<le> uint w div UINT32_BASE" "uint w div UINT32_BASE \<le> MAX_UINT32"
    "0 \<le> uint w mod UINT32_BASE" "uint w mod UINT32_BASE \<le> MAX_UINT32"
    by (simp_all add: UINT32_BASE_def MAX_UINT32_def pos_imp_zdiv_nonneg_iff)
  moreover have "read_uint32 (uint32_bytes a @ bs) = read_uint32 (uint32_bytes a)" for a bs
    by (simp add: read_uint32_def uint32_bytes_def)
  ultimately show ?thesis by (simp add: read_double_def double_bytes_def read_uint32_bytes)
qed

lemma reads_double:
  assumes "double_finite w" "double_number w = JDouble w"
  shows "reads (Suc levels) p (0xfb # double_bytes w) (JDouble w)"
proof -
  have head: "uint (0xfb :: 8 word) = 251" by simp
  have whole: "readBytes 8 (double_bytes w @ rest) = Inr (double_bytes w, rest)" for rest
    by (rule readBytes_numeral) (simp add: double_bytes_def)
  have "\<not> (case double_integer w of None \<Rightarrow> False | Some n \<Rightarrow> n < - MAX_SAFE \<or> n > MAX_SAFE)"
    using assms(2) by (auto simp: double_number_def MAX_SAFE_def split: option.splits if_splits)
  then show ?thesis using assms
    by (auto simp: reads_def head readSimple_def whole read_double_bytes Let_def)
qed

lemma reads_simple:
  "reads (Suc levels) p [0xf6] JNull" "reads (Suc levels) p [if b then 0xf5 else 0xf4] (JBool b)"
  by (simp_all add: reads_def readSimple_def)

lemma encodeText_reads:
  assumes "encodeText p s out = Inr out'" "options_ok p"
  shows "\<exists>bs. out' = out @ bs \<and> reads (Suc levels) p bs (JString s)"
proof -
  let ?x = "utf8_encode s"
  obtain out1 where w: "writeArgument p 3 (int (length ?x)) out = Inr out1" "out' = out1 @ ?x" and x: "utf8_decode ?x = Some s"
    "int (length ?x) \<le> co_maxByteLength p"
    using assms(1) by (auto simp: encodeText_def Let_def write_bytes_ok split: if_splits)
  have "int (length ?x) \<le> MAX_SAFE" using x(2) assms(2) by (simp add: options_ok_def MAX_UINT32_def MAX_SAFE_def)
  then obtain bs where "out1 = out @ bs" "head_of 3 (int (length ?x)) bs" using writeArgument_head[OF w(1)] by auto
  then show ?thesis using reads_text[OF _ x(2,1)] w(2) by auto
qed

section \<open>Values\<close>

lemma levels_left: "depth \<le> co_maxDepth p \<Longrightarrow>
  nat (co_maxDepth p + 1 - depth) = Suc (nat (co_maxDepth p + 1 - (depth + 1)))"
  by simp

lemma encode_integer_reads:
  assumes "encode_integer p n out = Inr out'"
  shows "\<exists>bs. out' = out @ bs \<and> reads (Suc levels) p bs (JInteger n)"
proof (cases "n \<ge> 0")
  case True
  then show ?thesis using assms writeArgument_head[of p 0 n out out'] reads_int[of n _ levels p]
    by (auto simp: encode_integer_def split: if_splits)
next
  case False
  then show ?thesis using assms writeArgument_head[of p 1 "-1 - n" out out'] reads_negative[of n _ levels p]
    by (auto simp: encode_integer_def split: if_splits)
qed

definition reads_items :: "nat \<Rightarrow> cbor_options \<Rightarrow> bytes \<Rightarrow> js_value list \<Rightarrow> bool" where
  "reads_items levels p bs vs \<longleftrightarrow> (\<forall>rest. read_items (length vs) (readItem levels p) (bs @ rest) = Inr (vs, rest))"

definition reads_entries :: "nat \<Rightarrow> cbor_options \<Rightarrow> bytes \<Rightarrow> (jstring \<times> js_value) list \<Rightarrow> bool" where
  "reads_entries levels p bs kvs \<longleftrightarrow> (\<forall>keys rest. set keys \<inter> set (map fst kvs) = {} \<longrightarrow>
     read_entries (length kvs) (readItem levels p) keys (bs @ rest) = Inr (kvs, rest))"

lemma reads_items_Cons:
  "reads levels p bs v \<Longrightarrow> reads_items levels p bs' vs \<Longrightarrow> reads_items levels p (bs @ bs') (v # vs)"
  by (simp add: reads_def reads_items_def)

lemma reads_entries_Cons:
  assumes "reads levels p bs (JString k)" "reads levels p bs' v" "reads_entries levels p bs'' kvs" "k \<notin> set (map fst kvs)"
  shows "reads_entries levels p (bs @ bs' @ bs'') ((k, v) # kvs)"
  using assms by (simp add: reads_def reads_entries_def)

lemma strip_keys: "map fst (strip_entries kvs) = map fst (filter (\<lambda>kv. snd kv \<noteq> JUndefined) kvs)"
  by (induction kvs) auto

lemma encode_reads:
  assumes "options_ok p"
  shows "\<lbrakk>encodeValue p depth v out = Inr out'; value_ok v\<rbrakk> \<Longrightarrow>
      \<exists>bs. out' = out @ bs \<and> reads (nat (co_maxDepth p + 1 - depth)) p bs (strip v)"
    and "\<lbrakk>encode_items p depth vs out = Inr out'; items_ok vs\<rbrakk> \<Longrightarrow>
      \<exists>bs. out' = out @ bs \<and> reads_items (nat (co_maxDepth p + 1 - depth)) p bs (strip_items vs)"
    and "\<lbrakk>encode_entries p depth kvs out = Inr out'; distinct (map fst kvs); entries_ok kvs\<rbrakk> \<Longrightarrow>
      \<exists>bs. out' = out @ bs \<and> reads_entries (nat (co_maxDepth p + 1 - depth)) p bs (strip_entries kvs)"
  using assms
proof (induction p depth v out and p depth vs out and p depth kvs out arbitrary: out' and out' and out'
    rule: encodeValue_encode_items_encode_entries.induct)
  case (1 p depth v out)
  have d: "depth \<le> co_maxDepth p" using "1.prems"(1) by (auto split: if_splits)
  note enc = "1.prems"(1)[unfolded encodeValue.simps, simplified d not_less[THEN iffD2, OF d] if_False]
  show ?case unfolding levels_left[OF d]
  proof (cases v)
    case (JBytes x)
    then obtain out1 where w: "writeArgument p 2 (int (length x)) out = Inr out1" "out' = out1 @ x"
      and x: "int (length x) \<le> co_maxByteLength p"
      using enc by (auto simp: write_bytes_ok split: if_splits)
    have "int (length x) \<le> MAX_SAFE" using x "1.prems"(3) by (simp add: options_ok_def MAX_UINT32_def MAX_SAFE_def)
    then obtain bs where "out1 = out @ bs" "head_of 2 (int (length x)) bs" using writeArgument_head[OF w(1)] by auto
    then show "\<exists>bs. out' = out @ bs \<and> reads (Suc (nat (co_maxDepth p + 1 - (depth + 1)))) p bs (strip v)"
      using reads_bytes[OF _ x] w(2) JBytes by auto
  next
    case (JArray vs)
    then obtain out1 where w: "writeArgument p 4 (int (length vs)) out = Inr out1" "encode_items p (depth + 1) vs out1 = Inr out'"
      and n: "int (length vs) \<le> co_maxContainerLength p"
      using enc by (auto split: if_splits)
    have "int (length vs) \<le> MAX_SAFE" using n "1.prems"(3) by (simp add: options_ok_def MAX_UINT32_def MAX_SAFE_def)
    then obtain bs where bs: "out1 = out @ bs" "head_of 4 (int (length vs)) bs" using writeArgument_head[OF w(1)] by auto
    have "items_ok vs" using "1.prems"(2) JArray by simp
    then obtain bs' where bs': "out' = out1 @ bs'" "reads_items (nat (co_maxDepth p + 1 - (depth + 1))) p bs' (strip_items vs)"
      using "1.IH"(1)[OF _ JArray _ w(2)] d n "1.prems"(3) by auto
    then show "\<exists>bs. out' = out @ bs \<and> reads (Suc (nat (co_maxDepth p + 1 - (depth + 1)))) p bs (strip v)"
      using reads_array[OF bs(2) n, of "nat (co_maxDepth p + 1 - (depth + 1))" bs' "strip_items vs"] bs(1) JArray
      by (auto simp: reads_items_def)
  next
    case (JObject kvs)
    then obtain out1 where w: "writeArgument p 5 (int (length (strip_entries kvs))) out = Inr out1"
      "encode_entries p (depth + 1) kvs out1 = Inr out'" and n: "int (length (strip_entries kvs)) \<le> co_maxContainerLength p"
      using enc by (auto simp: length_strip_entries Let_def split: if_splits)
    have "int (length (strip_entries kvs)) \<le> MAX_SAFE"
      using n "1.prems"(3) by (simp add: options_ok_def MAX_UINT32_def MAX_SAFE_def)
    then obtain bs where bs: "out1 = out @ bs" "head_of 5 (int (length (strip_entries kvs))) bs"
      using writeArgument_head[OF w(1)] by auto
    have ok: "distinct (map fst kvs)" "entries_ok kvs" using "1.prems"(2) JObject by auto
    obtain bs' where bs': "out' = out1 @ bs'" "reads_entries (nat (co_maxDepth p + 1 - (depth + 1))) p bs' (strip_entries kvs)"
      using "1.IH"(2)[OF _ JObject refl _ w(2) ok "1.prems"(3)] d n by (auto simp: length_strip_entries)
    then show "\<exists>bs. out' = out @ bs \<and> reads (Suc (nat (co_maxDepth p + 1 - (depth + 1)))) p bs (strip v)"
      using reads_object[OF bs(2) n, of "nat (co_maxDepth p + 1 - (depth + 1))" bs' "strip_entries kvs"] bs(1) JObject
      by (auto simp: reads_entries_def)
  next
    case (JInteger n)
    then show "\<exists>bs. out' = out @ bs \<and> reads (Suc (nat (co_maxDepth p + 1 - (depth + 1)))) p bs (strip v)"
      using enc encode_integer_reads by simp
  next
    case (JString s)
    then show "\<exists>bs. out' = out @ bs \<and> reads (Suc (nat (co_maxDepth p + 1 - (depth + 1)))) p bs (strip v)"
      using enc encodeText_reads "1.prems"(3) by simp
  next
    case (JDouble w)
    then show "\<exists>bs. out' = out @ bs \<and> reads (Suc (nat (co_maxDepth p + 1 - (depth + 1)))) p bs (strip v)"
      using enc reads_double "1.prems"(2) by (auto simp: write_bytes_ok split: if_splits)
  next
    case (JBool b)
    then show "\<exists>bs. out' = out @ bs \<and> reads (Suc (nat (co_maxDepth p + 1 - (depth + 1)))) p bs (strip v)"
      using enc reads_simple(2)[of _ p b] by (simp add: write_bytes_ok)
  next
    case JNull
    then show "\<exists>bs. out' = out @ bs \<and> reads (Suc (nat (co_maxDepth p + 1 - (depth + 1)))) p bs (strip v)"
      using enc reads_simple(1) by (simp add: write_bytes_ok)
  next
    case JUndefined
    then show "\<exists>bs. out' = out @ bs \<and> reads (Suc (nat (co_maxDepth p + 1 - (depth + 1)))) p bs (strip v)"
      using enc by simp
  qed
next
  case (2 p depth out)
  then show ?case by (simp add: reads_items_def)
next
  case (3 p depth v vs out)
  then have v: "v \<noteq> JUndefined" by auto
  obtain out1 where e: "encodeValue p depth v out = Inr out1" "encode_items p depth vs out1 = Inr out'"
    using "3.prems"(1) v by (auto simp del: encodeValue.simps)
  obtain bs1 where bs1: "out1 = out @ bs1" "reads (nat (co_maxDepth p + 1 - depth)) p bs1 (strip v)"
    using "3.IH"(1)[OF v e(1)] "3.prems"(2,3) by auto
  obtain bs2 where bs2: "out' = out1 @ bs2" "reads_items (nat (co_maxDepth p + 1 - depth)) p bs2 (strip_items vs)"
    using "3.IH"(2)[OF v e(2)] "3.prems"(2,3) by auto
  show ?case using reads_items_Cons[OF bs1(2) bs2(2)] bs1(1) bs2(1) by auto
next
  case (4 p depth out)
  then show ?case by (simp add: reads_entries_def)
next
  case (5 p depth k v kvs out)
  show ?case
  proof (cases "v = JUndefined")
    case True
    then show ?thesis using 5 by auto
  next
    case False
    obtain out1 out2 where e: "encodeText p k out = Inr out1" "encodeValue p depth v out1 = Inr out2"
      "encode_entries p depth kvs out2 = Inr out'" using "5.prems"(1) False by (auto simp del: encodeValue.simps)
    then have d: "depth \<le> co_maxDepth p" by (auto split: if_splits)
    obtain bs1 where bs1: "out1 = out @ bs1" "reads (nat (co_maxDepth p + 1 - depth)) p bs1 (JString k)"
      using encodeText_reads[OF e(1) "5.prems"(4)] unfolding levels_left[OF d] by blast
    obtain bs2 where bs2: "out2 = out1 @ bs2" "reads (nat (co_maxDepth p + 1 - depth)) p bs2 (strip v)"
      using "5.IH"(2)[OF False e(2)] "5.prems"(3,4) by auto
    obtain bs3 where bs3: "out' = out2 @ bs3" "reads_entries (nat (co_maxDepth p + 1 - depth)) p bs3 (strip_entries kvs)"
      using "5.IH"(3)[OF False e(3)] "5.prems" by auto
    have "k \<notin> set (map fst (strip_entries kvs))" using "5.prems"(2) unfolding strip_keys by auto
    then show ?thesis using reads_entries_Cons[OF bs1(2) bs2(2) bs3(2)] bs1(1) bs2(1) bs3(1) False by auto
  qed
qed

lemma writeArgument_bound: "writeArgument p m n out = Inr out' \<Longrightarrow> int (length out') \<le> co_maxByteLength p"
  by (auto simp: writeArgument_def write_bytes_ok Let_def split: if_splits)

lemma encodeText_bound: "encodeText p s out = Inr out' \<Longrightarrow> int (length out') \<le> co_maxByteLength p"
  by (auto simp: encodeText_def write_bytes_ok Let_def split: if_splits)

lemma encode_bound:
  "encodeValue p depth v out = Inr out' \<Longrightarrow> int (length out') \<le> co_maxByteLength p"
  "\<lbrakk>encode_items p depth vs out = Inr out'; int (length out) \<le> co_maxByteLength p\<rbrakk> \<Longrightarrow> int (length out') \<le> co_maxByteLength p"
  "\<lbrakk>encode_entries p depth kvs out = Inr out'; int (length out) \<le> co_maxByteLength p\<rbrakk> \<Longrightarrow> int (length out') \<le> co_maxByteLength p"
proof (induction p depth v out and p depth vs out and p depth kvs out arbitrary: out' and out' and out'
    rule: encodeValue_encode_items_encode_entries.induct)
  case (1 p depth v out)
  show ?case
  proof (cases v)
    case (JArray vs)
    then show ?thesis using "1.prems"(1) "1.IH"(1)[OF _ JArray] by (auto split: if_splits dest!: writeArgument_bound)
  next
    case (JObject kvs)
    then show ?thesis using "1.prems"(1) "1.IH"(2)[OF _ JObject refl] by (auto simp: Let_def split: if_splits dest!: writeArgument_bound)
  qed (use "1.prems"(1) in \<open>auto simp: write_bytes_ok encode_integer_def split: if_splits dest: writeArgument_bound encodeText_bound\<close>)
next
  case (3 p depth v vs out)
  then show ?case by (auto simp del: encodeValue.simps split: if_splits)
next
  case (5 p depth k v kvs out)
  then show ?case by (auto simp del: encodeValue.simps split: if_splits dest: encodeText_bound)
qed auto

section \<open>Whole payloads\<close>

lemma encoded_decodes:
  assumes v: "value_ok v" and enc: "encodeCbor v options = Inr bs"
  shows "decodeCbor bs options = Inr (strip v)"
proof -
  obtain p where p: "resolveOptions options = Inr p" "encodeValue p 0 v [] = Inr bs"
    using enc by (auto simp: encodeCbor_def)
  from encode_reads(1)[OF resolveOptions_ok[OF p(1)] p(2) v]
  have "reads (nat (co_maxDepth p + 1 - 0)) p bs (strip v)" by simp
  then have "readItem (nat (co_maxDepth p + 1)) p bs = Inr (strip v, [])"
    unfolding reads_def by (metis append_Nil2 diff_zero)
  moreover have "int (length bs) \<le> co_maxByteLength p" by (rule encode_bound(1)[OF p(2)])
  ultimately show ?thesis using p(1) by (simp add: decodeCbor_def)
qed

text \<open>C31: Whatever a value the encoder accepts, with whatever limits, the decoder with the same limits accepts the bytes
  written and returns the value, without the properties that were \<open>undefined\<close>.\<close>

theorem cbor_roundtrip:
  assumes "value_ok v" and "encodeCbor v options = Inr bs"
  shows "decodeCbor bs options = Inr (strip v)"
  by (rule encoded_decodes[OF assms])

theorem cbor_roundtrip_witness:
  "decodeCbor [0xa2, 0x61, 0x61, 0x82, 0x19, 0x01, 0x2c, 0x20, 0x62, 0xc3, 0xa9, 0xfb, 0x3f, 0xf8, 0, 0, 0, 0, 0, 0] (None, None, None) =
     Inr (JObject [([97], JArray [JInteger 300, JInteger (-1)]), ([233], JDouble 0x3ff8000000000000)])"
proof -
  let ?v = "JObject [([97], JArray [JInteger 300, JInteger (-1)]), ([98], JUndefined), ([233], JDouble 0x3ff8000000000000)]"
  have "value_ok ?v" by code_simp
  moreover have "encodeCbor ?v (None, None, None) =
    Inr [0xa2, 0x61, 0x61, 0x82, 0x19, 0x01, 0x2c, 0x20, 0x62, 0xc3, 0xa9, 0xfb, 0x3f, 0xf8, 0, 0, 0, 0, 0, 0]" by code_simp
  ultimately show ?thesis by (rule cbor_roundtrip[THEN trans]) simp
qed

end
