(* ===== verification/CodecProps.thy ===== *)
theory CodecProps
  imports Codec CborProps
begin

text \<open>
  Messages over the wire: what one side encodes the other side decodes, and whatever bytes arrive, only valid messages come
  out. Both directions share the proofs through the contract of a validation.
\<close>

section \<open>JSON values\<close>

lemma json_no_undefined:
  "check_json depth v \<Longrightarrow> strip v = v \<and> v \<noteq> JUndefined"
  "check_items depth vs \<Longrightarrow> strip_items vs = vs"
  "check_entries depth kvs \<Longrightarrow> strip_entries kvs = kvs"
proof (induction depth v and depth vs and depth kvs rule: check_json_check_items_check_entries.induct)
  case (1 depth v)
  then show ?case by (cases v) auto
qed (auto simp del: check_json.simps)

section \<open>Sequences of chunks\<close>

fun message_push_all ::
  "(js_value \<Rightarrow> codec_error + js_value) \<Rightarrow> message_decoder \<Rightarrow> bytes list \<Rightarrow>
   ((codec_error + js_value list) \<times> message_decoder) option" where
  "message_push_all parse d [] = Some (Inr [], d)"
| "message_push_all parse d (chunk # chunks) =
     Option.bind (message_push parse d chunk) (\<lambda>(r, d'). case r of
       Inl e \<Rightarrow> Some (Inl e, d')
     | Inr ms \<Rightarrow> map_option (\<lambda>(r', d''). (map_sum id ((@) ms) r', d'')) (message_push_all parse d' chunks))"

lemma map_sum_Inr: "map_sum f g r = Inr y \<longleftrightarrow> (\<exists>x. r = Inr x \<and> y = g x)"
  by (cases r) auto

text \<open>What the payload of a frame stands for, within a limit.\<close>

definition payload_message ::
  "(js_value \<Rightarrow> codec_error + js_value) \<Rightarrow> int option \<Rightarrow> bytes \<Rightarrow> codec_error + js_value" where
  "payload_message parse limit payload =
     ebind (map_sum InvalidPayload id (decodeCbor payload (Some (frame_limit limit), None, None))) parse"

lemma decode_payload_frames [simp]: "decode_payload parse (d\<lparr>md_frames := f\<rparr>) = decode_payload parse d"
  by (intro ext) (simp add: decode_payload_def)

lemma messages_of_payloads:
  assumes "push_all (md_frames d) chunks = Some (Inr payloads, frames)" "\<not> md_failed d"
    "esequence (map (decode_payload parse d) payloads) = Inr ms"
  shows "message_push_all parse d chunks = Some (Inr ms, d\<lparr>md_frames := frames\<rparr>)"
  using assms
proof (induction chunks arbitrary: d payloads ms)
  case (Cons chunk chunks)
  obtain r frames1 where p: "decoder_push (md_frames d) chunk = Some (r, frames1)"
    using Cons.prems(1) by (cases "decoder_push (md_frames d) chunk") auto
  obtain ps where r: "r = Inr ps" using Cons.prems(1) p by (cases r) auto
  obtain qs where q: "push_all frames1 chunks = Some (Inr qs, frames)" "payloads = ps @ qs"
    using Cons.prems(1) p r by (auto simp: map_sum_Inr)
  then obtain ms1 ms2 where m: "esequence (map (decode_payload parse d) ps) = Inr ms1"
    "esequence (map (decode_payload parse d) qs) = Inr ms2" "ms = ms1 @ ms2"
    using Cons.prems(3) by (auto simp: esequence_append ebind_eq_Inr_iff)
  have "message_push_all parse (d\<lparr>md_frames := frames1\<rparr>) chunks = Some (Inr ms2, d\<lparr>md_frames := frames1, md_frames := frames\<rparr>)"
    using Cons.IH[of "d\<lparr>md_frames := frames1\<rparr>" qs ms2] q(1) m(2) Cons.prems(2) by simp
  then show ?case using p r m(1,3) Cons.prems(2) by (simp add: message_push_def)
qed simp

text \<open>A chunk always has an outcome, and keeps the decoder of the frames in order unless it fails.\<close>

definition message_decoder_ok :: "message_decoder \<Rightarrow> bool" where
  "message_decoder_ok d \<longleftrightarrow> md_failed d \<or> decoder_ok (md_frames d)"

lemma message_push_returns:
  assumes "message_decoder_ok d"
  obtains r d' where "message_push parse d chunk = Some (r, d')" "message_decoder_ok d'" "md_failed d' \<longleftrightarrow> isl r"
    "\<And>ms. r = Inr ms \<Longrightarrow> \<exists>payloads. esequence (map (decode_payload parse d) payloads) = Inr ms"
proof (cases "md_failed d")
  case True
  then have "message_push parse d chunk = Some (Inl MessageDecoderFailed, d)" by (simp add: message_push_def)
  then show ?thesis using True assms by (intro that) auto
next
  case False
  then have ok: "decoder_ok (md_frames d)" using assms by (simp add: message_decoder_ok_def)
  then have "decoder_push (md_frames d) chunk = push_loop (md_frames d) chunk []"
    by (simp add: decoder_push_def decoder_ok_def)
  then obtain r frames where p: "decoder_push (md_frames d) chunk = Some (r, frames)" "isl r \<or> decoder_ok frames"
    using push_loop_parses[OF ok, of "[]" chunk] by (auto simp: pushes_def split: option.splits)
  let ?m = "ebind (map_sum InvalidFrame id r) (\<lambda>payloads. esequence (map (decode_payload parse d) payloads))"
  show ?thesis
  proof (cases ?m)
    case (Inl e)
    then have "message_push parse d chunk = Some (Inl e, d\<lparr>md_frames := frames, md_failed := True\<rparr>)"
      using False p(1) by (simp add: message_push_def)
    then show ?thesis by (rule that) (simp_all add: message_decoder_ok_def)
  next
    case (Inr ms)
    then have "message_push parse d chunk = Some (Inr ms, d\<lparr>md_frames := frames\<rparr>)"
      using False p(1) by (simp add: message_push_def)
    moreover obtain payloads where "r = Inr payloads" "esequence (map (decode_payload parse d) payloads) = Inr ms"
      using Inr by (cases r) auto
    ultimately show ?thesis using p(2) False by (intro that) (auto simp: message_decoder_ok_def)
  qed
qed

section \<open>The contract of a validation\<close>

locale message_validation =
  fixes parse :: "js_value \<Rightarrow> codec_error + js_value"
  assumes parse_same: "parse v = Inr x \<Longrightarrow> x = v"
    and parse_json: "parse v = Inr x \<Longrightarrow> isJsonValue v"
begin

lemma encoded_payload:
  assumes "encodeProtocolMessage parse limit v = Inr frame" "value_ok v"
  obtains payload where "encodeFrame payload = Inr frame" "int (length payload) \<le> frame_limit limit"
    "payload_message parse limit payload = Inr v"
proof -
  obtain x where x: "parse v = Inr x" using assms(1) by (auto simp: encodeProtocolMessage_def ebind_eq_Inr_iff)
  have v: "x = v" "strip v = v" using parse_same[OF x] parse_json[OF x] json_no_undefined(1) by (auto simp: isJsonValue_def simp del: check_json.simps)
  obtain payload where e: "encodeCbor v (Some (frame_limit limit), None, None) = Inr payload" "encodeFrame payload = Inr frame"
    using assms(1) x v(1)
    by (cases "encodeCbor v (Some (frame_limit limit), None, None)"; cases "encodeFrame (projr (encodeCbor v (Some (frame_limit limit), None, None)))")
      (auto simp: encodeProtocolMessage_def)
  have "decodeCbor payload (Some (frame_limit limit), None, None) = Inr v" using encoded_decodes[OF assms(2) e(1)] v(2) by simp
  moreover obtain p where p: "resolveOptions (Some (frame_limit limit), None, None) = Inr p" "encodeValue p 0 v [] = Inr payload"
    using e(1) by (auto simp: encodeCbor_def simp del: encodeValue.simps)
  then have "int (length payload) \<le> frame_limit limit"
    using encode_bound(1)[OF p(2)] by (auto simp: resolveOptions_def resolveLimit_def split: if_splits)
  ultimately show ?thesis using e(2) x v(1) by (intro that) (auto simp: payload_message_def)
qed

lemma encoded_payloads:
  assumes "esequence (map (encodeProtocolMessage parse limit) vs) = Inr frames" "list_all value_ok vs"
  shows "\<exists>payloads. esequence (map encodeFrame payloads) = Inr frames \<and> list_all (\<lambda>p. int (length p) \<le> frame_limit limit) payloads \<and>
    esequence (map (payload_message parse limit) payloads) = Inr vs"
  using assms
proof (induction vs arbitrary: frames)
  case Nil
  then show ?case by (intro exI[of _ "[]"]) simp
next
  case (Cons v vs)
  obtain f fs where f: "encodeProtocolMessage parse limit v = Inr f" "esequence (map (encodeProtocolMessage parse limit) vs) = Inr fs"
    "frames = f # fs" using Cons.prems(1) by (auto simp: ebind_eq_Inr_iff)
  obtain payload where p: "encodeFrame payload = Inr f" "int (length payload) \<le> frame_limit limit"
    "payload_message parse limit payload = Inr v"
    using encoded_payload[OF f(1)] Cons.prems(2) by auto
  obtain ps where "esequence (map encodeFrame ps) = Inr fs" "list_all (\<lambda>p. int (length p) \<le> frame_limit limit) ps"
    "esequence (map (payload_message parse limit) ps) = Inr vs"
    using Cons.IH[OF f(2)] Cons.prems(2) by auto
  then show ?case using p f(3) by (intro exI[of _ "payload # ps"]) simp
qed

lemma messages_decoded:
  assumes d: "new_message_decoder limit = Inr d" and enc: "esequence (map (encodeProtocolMessage parse limit) vs) = Inr frames"
    and ok: "list_all value_ok vs" and chunks: "concat chunks = concat frames"
  shows "\<exists>d'. message_push_all parse d chunks = Some (Inr vs, d') \<and> fst (message_end d') = Inr ()"
proof -
  obtain f where f: "new_decoder limit = Inr f" "d = \<lparr>md_failed = False, md_frames = f, md_maxFrameLength = frame_limit limit\<rparr>"
    using d by (auto simp: new_message_decoder_def ebind_eq_Inr_iff)
  have max: "fd_maxFrameLength f = frame_limit limit"
    using f(1) by (auto simp: new_decoder_def resolveMaxFrameLength_def frame_limit_def Let_def split: if_splits)
  obtain payloads where p: "esequence (map encodeFrame payloads) = Inr frames"
    "list_all (\<lambda>p. int (length p) \<le> fd_maxFrameLength f) payloads"
    "esequence (map (decode_payload parse d) payloads) = Inr vs"
    using encoded_payloads[OF enc ok]
    by (auto simp: max decode_payload_def[abs_def] payload_message_def[abs_def] f(2))
  obtain f' where f': "push_all f chunks = Some (Inr payloads, f')" "fst (decoder_end f') = Inr ()"
    using frames_decoded[OF f(1) p(1,2) chunks] by blast
  have "message_push_all parse d chunks = Some (Inr vs, d\<lparr>md_frames := f'\<rparr>)"
    using f'(1) p(3) by (intro messages_of_payloads) (simp_all add: f(2))
  moreover have "fst (message_end (d\<lparr>md_frames := f'\<rparr>)) = Inr ()"
    using f'(2) by (cases "decoder_end f'") (simp add: message_end_def f(2))
  ultimately show ?thesis by blast
qed

text \<open>Whatever arrives, what comes out has passed the validation.\<close>

lemma parse_again: "parse v = Inr x \<Longrightarrow> parse x = Inr x"
  by (frule parse_same) simp

lemma payloads_valid: "esequence (map (decode_payload parse d) payloads) = Inr ms \<Longrightarrow> list_all (\<lambda>m. parse m = Inr m) ms"
  by (induction payloads arbitrary: ms) (auto simp: decode_payload_def ebind_eq_Inr_iff dest: parse_again)

lemma push_all_valid:
  assumes "message_decoder_ok d"
  shows "\<exists>r d'. message_push_all parse d chunks = Some (r, d') \<and> message_decoder_ok d' \<and>
    (case r of Inl e \<Rightarrow> md_failed d' | Inr ms \<Rightarrow> list_all (\<lambda>m. parse m = Inr m) ms)"
  using assms
proof (induction chunks arbitrary: d)
  case (Cons chunk chunks)
  obtain r d' where p: "message_push parse d chunk = Some (r, d')" "message_decoder_ok d'" "md_failed d' \<longleftrightarrow> isl r"
    and ms: "\<And>ms. r = Inr ms \<Longrightarrow> \<exists>payloads. esequence (map (decode_payload parse d) payloads) = Inr ms"
    using message_push_returns[OF Cons.prems] by blast
  show ?case
  proof (cases r)
    case (Inl e)
    then show ?thesis using p by simp
  next
    case (Inr ms1)
    then have valid: "list_all (\<lambda>m. parse m = Inr m) ms1" using ms payloads_valid by blast
    obtain r2 d2 where "message_push_all parse d' chunks = Some (r2, d2)" "message_decoder_ok d2"
      "case r2 of Inl e \<Rightarrow> md_failed d2 | Inr ms \<Rightarrow> list_all (\<lambda>m. parse m = Inr m) ms"
      using Cons.IH[OF p(2)] by blast
    then show ?thesis using p Inr valid by (cases r2) auto
  qed
qed simp

end

interpretation client: message_validation "parseClientMessage Check" for Check
  by unfold_locales (auto simp: parseClientMessage_def split: if_splits)

interpretation server: message_validation "parseServerMessage Check" for Check
  by unfold_locales (auto simp: parseServerMessage_def split: if_splits)

lemma new_message_decoder_ok: "new_message_decoder limit = Inr d \<Longrightarrow> message_decoder_ok d"
  by (auto simp: new_message_decoder_def message_decoder_ok_def ebind_eq_Inr_iff dest: new_decoder_ok)

section \<open>The protocol\<close>

text \<open>C32: Messages that one side encodes within a limit reach the other side unchanged and in order, however the stream is cut
  into chunks, and the stream then ends properly; for the messages of the client and those of the server.\<close>

theorem protocol_roundtrip:
  assumes "new_message_decoder limit = Inr d" and "list_all value_ok ms" and "concat chunks = concat frames"
  shows "(esequence (map (encodeClientMessage Check limit) ms) = Inr frames \<longrightarrow>
      (\<exists>d'. message_push_all (parseClientMessage Check) d chunks = Some (Inr ms, d') \<and> fst (message_end d') = Inr ())) \<and>
    (esequence (map (encodeServerMessage Check limit) ms) = Inr frames \<longrightarrow>
      (\<exists>d'. message_push_all (parseServerMessage Check) d chunks = Some (Inr ms, d') \<and> fst (message_end d') = Inr ()))"
  using client.messages_decoded[OF assms(1) _ assms(2,3)] server.messages_decoded[OF assms(1) _ assms(2,3)]
  by (simp add: encodeClientMessage_def encodeServerMessage_def)

definition sample_hello :: js_value where
  "sample_hello = JObject [(js ''type'', JString (js ''hello'')), (js ''version'', JInteger 8)]"

definition sample_check :: "schema \<Rightarrow> js_value \<Rightarrow> bool" where
  "sample_check s v \<longleftrightarrow> (case v of JObject _ \<Rightarrow> True | _ \<Rightarrow> False)"

definition sample_frame :: bytes where
  "sample_frame = [0, 0, 0, 21, 0xa2, 0x64, 116, 121, 112, 101, 0x65, 104, 101, 108, 108, 111, 0x67, 118, 101, 114, 115, 105, 111, 110, 8]"

definition sample_decoder :: message_decoder where
  "sample_decoder = \<lparr>md_failed = False, md_frames = \<lparr>fd_header = [], fd_maxFrameLength = DEFAULT_MAX_FRAME_LENGTH,
     fd_payloadBlocks = [], fd_expectedPayloadLength = None, fd_payloadLength = 0, fd_state = DecoderOpen\<rparr>,
     md_maxFrameLength = DEFAULT_MAX_FRAME_LENGTH\<rparr>"

lemma sample_decoder_new: "new_message_decoder None = Inr sample_decoder"
  by (simp add: new_message_decoder_def new_decoder_def resolveMaxFrameLength_def frame_limit_def sample_decoder_def
    DEFAULT_MAX_FRAME_LENGTH_def MAX_UINT32_def)

theorem protocol_roundtrip_witness:
  "\<exists>d'. message_push_all (parseClientMessage sample_check) sample_decoder [take 3 sample_frame, drop 3 sample_frame] =
     Some (Inr [sample_hello], d') \<and> fst (message_end d') = Inr ()"
proof -
  have ok: "list_all value_ok [sample_hello]" by code_simp
  have enc: "esequence (map (encodeClientMessage sample_check None) [sample_hello]) = Inr [sample_frame]" by code_simp
  have "concat [take 3 sample_frame, drop 3 sample_frame] = concat [sample_frame]" by simp
  from protocol_roundtrip[OF sample_decoder_new ok this] enc show ?thesis by blast
qed

text \<open>C33: Whatever bytes arrive in whatever chunks, the server's decoder answers every chunk, only messages that satisfy the
  schema and are JSON come out of it, and once it has failed it refuses every further chunk and the end of the stream.\<close>

theorem received_messages_valid:
  assumes "new_message_decoder limit = Inr d"
  shows "\<exists>r d'. message_push_all (parseClientMessage Check) d chunks = Some (r, d') \<and>
    (case r of
       Inr ms \<Rightarrow> list_all (\<lambda>m. Check ClientMessageSchema m \<and> isJsonValue m) ms
     | Inl e \<Rightarrow> (\<forall>chunk. client_message_push Check d' chunk = Some (Inl MessageDecoderFailed, d')) \<and>
         message_end d' = (Inl MessageDecoderFailed, d'))"
proof -
  obtain r d' where "message_push_all (parseClientMessage Check) d chunks = Some (r, d')"
    "case r of Inl e \<Rightarrow> md_failed d' | Inr ms \<Rightarrow> list_all (\<lambda>m. parseClientMessage Check m = Inr m) ms"
    using client.push_all_valid[OF new_message_decoder_ok[OF assms]] by blast
  then show ?thesis
    by (cases r)
      (auto simp: client_message_push_def message_push_def message_end_def parseClientMessage_def list_all_iff split: if_splits)
qed

theorem received_messages_valid_witness:
  "\<exists>r d'. message_push_all (parseClientMessage sample_check) sample_decoder [[0, 0, 0], [2, 0x82, 8]] = Some (r, d') \<and>
    (case r of
       Inr ms \<Rightarrow> list_all (\<lambda>m. sample_check ClientMessageSchema m \<and> isJsonValue m) ms
     | Inl e \<Rightarrow> (\<forall>chunk. client_message_push sample_check d' chunk = Some (Inl MessageDecoderFailed, d')) \<and>
         message_end d' = (Inl MessageDecoderFailed, d'))"
  by (rule received_messages_valid[OF sample_decoder_new])

end
