(* ===== verification/StructuralProps.thy ===== *)
theory StructuralProps
  imports ResponseProps
begin

text \<open>
  What the end of a compaction leaves in storage, over the abstract store of \<open>StorageCommit\<close>.
\<close>

section \<open>Adding rows\<close>

text \<open>A usage row, if any, and the entry that becomes the tip; what follows adds no rows.\<close>

lemma entry_stored:
  assumes "list_all row_free ws" "list_all (\<lambda>w. \<exists>row. w = insertUsage row) us"
  shows "\<exists>n'. ab_entries (fold spec_write (commit_writes_from (us @ insertEntry e # ws) n now) a) =
    ab_entries a @ [materializeCommittedEntry e n' now]"
  using assms(2)
proof (induction us arbitrary: n a)
  case Nil
  then show ?case using row_free_keeps[OF assms(1)] by (auto simp: insertEntry_def)
next
  case (Cons u us)
  then obtain row where "u = insertUsage row" by auto
  then show ?case using Cons.IH[of "n + 1" "spec_write (CUsage (materializeUsageRow row n)) a"] Cons.prems
    by (simp add: insertUsage_def)
qed

lemma cleaned_values:
  assumes cw: "list_all (cleanup_write runId) cleanup"
    and members: "WValueDelete ns_op_meta runId \<in> set cleanup" "WValueDelete ns_op_state runId \<in> set cleanup"
    and own: "\<And>ns V. ns = ns_op_meta \<or> ns = ns_op_state \<Longrightarrow> write_values ws V (ns, runId) = V (ns, runId)"
  shows "write_values (ws @ cleanup @ [WValueSet ns_result runId r, WValueSet ns_lane_state name v]) V (ns_op_meta, runId) = None"
    "write_values (ws @ cleanup @ [WValueSet ns_result runId r, WValueSet ns_lane_state name v]) V (ns_op_state, runId) = None"
    "write_values (ws @ cleanup @ [WValueSet ns_result runId r, WValueSet ns_lane_state name v]) V (ns_result, runId) = Some r"
  using cleanup_deletes[OF cw] members by auto

section \<open>A compaction of its own\<close>

text \<open>The plan of an outcome that made its summary.\<close>

lemma finished_compaction:
  assumes p: "structural_outcome_plan config name runId stepId hookUsageId (CompactionOutcome entryId r fromHook) now state current meta s = Inr d"
    and t: "summary_task_of (op_leaf current) = Some task" "st_boundary task = FinishBoundary"
  obtains us cleanup result ev where "list_all (\<lambda>w. \<exists>row. w = insertUsage row) us"
    "operationCleanupWrites s runId current = Inr cleanup"
    "or_status result = Completed" "or_tipId result = Some entryId"
    "d = OperationFinish ((us @ [insertEntry (compaction_entry entryId (la_tipId state) r fromHook),
        WValueSet ns_branch_tip name (VTip (Some entryId))]) @ cleanup) result (no_patch\<lparr>lp_tipId := Some (Some entryId)\<rparr>)
      (\<lambda>c. CheckpointDone (ProcSettled result)) ev"
proof -
  obtain po cleanup result ev where po: "published_outcome_of name runId hookUsageId (CompactionOutcome entryId r fromHook)
      (Some now) task state current meta = Inr po"
    and cl: "operationCleanupWrites s runId current = Inr cleanup"
    and result: "operationResultRecord meta Completed (po_tip po) None now = Inr result"
    and d: "d = OperationFinish (po_writes po @ cleanup) result (no_patch\<lparr>lp_tipId := Some (po_tip po)\<rparr>)
      (\<lambda>c. CheckpointDone (ProcSettled result)) ev"
    using p t by (auto simp: structural_outcome_plan_def task_of_def finish_structural_plan_def split: if_splits)
  obtain row :: "new_usage_row option" where w: "po_writes po = (case row of None \<Rightarrow> [] | Some r \<Rightarrow> [insertUsage r]) @
      [insertEntry (compaction_entry entryId (la_tipId state) r fromHook), WValueSet ns_branch_tip name (VTip (Some entryId))]"
    "po_tip po = Some entryId"
    using po by (auto simp: published_outcome_of_def outcome_writes_def branchTip_def mkValue_eq_Inr setValue_def Let_def)
  have "or_status result = Completed" "or_tipId result = Some entryId"
    using result w(2) by (auto simp: operationResultRecord_def)
  moreover have "list_all (\<lambda>w. \<exists>row. w = insertUsage row) (case row of None \<Rightarrow> [] | Some r \<Rightarrow> [insertUsage r])"
    by (cases row) auto
  ultimately show thesis using that[OF _ cl _ _ d[unfolded w]] by blast
qed


section \<open>An example\<close>

definition sample_compact_result :: compact_result where
  "sample_compact_result = \<lparr>cres_summary = js ''s'', cres_tokensBefore = 9, cres_usage = None, cres_retainedTail = [], cres_details = None\<rparr>"

definition sample_compaction :: structural_preparation where
  "sample_compaction = CompactionPrep [] [] [] False 9 None \<lparr>df_read = [], df_written = [], df_edited = []\<rparr> DEFAULT_COMPACTION_SETTINGS"

definition sample_compacting :: harness where
  "sample_compacting = snd (accept (\<lambda>es st. Inr (Some sample_compaction)) (\<lambda>es. sample_compaction) (js ''main'')
     (CompactionRequest None) (js ''op'') 2 [js ''t1''] 2 sample_harness sample_harness)"

definition sample_publication :: "harness \<Rightarrow> checkpoint_result outcome \<times> harness" where
  "sample_publication h = publishStructuralOutcome (js ''main'') (js ''op'') (js ''s1'') (js ''u1'')
     (CompactionOutcome (js ''k1'') sample_compact_result True) 5 h"

definition compacting_ready :: "harness \<Rightarrow> bool" where
  "compacting_ready h \<longleftrightarrow> drives_operation (js ''main'') (js ''op'') h \<and>
     (case map_get (ha_lanes h) (js ''main'') of
        None \<Rightarrow> False
      | Some l \<Rightarrow> (case la_operation (ln_state l) of
          None \<Rightarrow> False
        | Some operation \<Rightarrow> (case summary_task_of (op_leaf (op_state operation)) of
            None \<Rightarrow> False | Some task \<Rightarrow> st_boundary task = FinishBoundary))) \<and>
     (case fst (sample_publication h) of Returned (CheckpointDone (ProcSettled result)) \<Rightarrow> True | _ \<Rightarrow> False)"

lemma sample_compacting_ready: "compacting_ready sample_compacting"
  by code_simp

lemma sample_compacting_reachable: "harness_reachable sample_options sample_backed sample_compacting"
  unfolding sample_compacting_def
  by (rule harness_reachable.stepped[OF sample_reachable(2) harness_step.step_accept])
    (use sample_harness_ready in \<open>simp add: harness_ready_def\<close>)


end
