(* ===== verification/SummaryText.thy ===== *)
theory SummaryText
  imports Structural ToolCalls
begin

text \<open>
  The texts a summary is made of: the messages a model gets (\<open>convertToLlm\<close> of \<open>harness/messages.ts\<close>), a
  conversation as plain text and the file lists (\<open>compaction/utils.ts\<close>), and the prompts of
  \<open>compaction/compaction.ts\<close> and \<open>compaction/branch-summarization.ts\<close>. How a number is printed is a parameter,
  \<open>number_text\<close>.
\<close>

section \<open>Joining\<close>

fun js_join :: "jstring \<Rightarrow> jstring list \<Rightarrow> jstring" where
  "js_join sep [] = []"
| "js_join sep [s] = s"
| "js_join sep (s # ss) = s @ sep @ js_join sep ss"

definition NL :: jstring where
  "NL = [10]"

text \<open>A template literal over several lines.\<close>

definition text_lines :: "string list \<Rightarrow> jstring" where
  "text_lines ls = js_join NL (map js ls)"

text \<open>\<open>JSON.stringify\<close>.\<close>

fun json_text :: "(rat \<Rightarrow> jstring) \<Rightarrow> json \<Rightarrow> jstring" where
  "json_text number_text JNull = js ''null''"
| "json_text number_text (JBool b) = (if b then js ''true'' else js ''false'')"
| "json_text number_text (JNum n) = number_text n"
| "json_text number_text (JStr s) = json_quote s"
| "json_text number_text (JArr xs) = js ''['' @ js_join (js '','') (map (json_text number_text) xs) @ js '']''"
| "json_text number_text (JObj fs) =
     js ''{'' @ js_join (js '','') (map (\<lambda>(k, v). json_quote k @ js '':'' @ json_text number_text v) fs) @ js ''}''"

section \<open>Messages for the model\<close>

text \<open>\<open>contentText\<close>, with the separator of its second argument.\<close>

fun user_texts :: "user_block list \<Rightarrow> jstring list" where
  "user_texts [] = []"
| "user_texts (UText t # bs) = tx_text t # user_texts bs"
| "user_texts (UImage i # bs) = user_texts bs"

fun assistant_texts :: "assistant_block list \<Rightarrow> jstring list" where
  "assistant_texts [] = []"
| "assistant_texts (AText t # bs) = tx_text t # assistant_texts bs"
| "assistant_texts (b # bs) = assistant_texts bs"

fun contentText :: "jstring \<Rightarrow> user_content \<Rightarrow> jstring" where
  "contentText separator (PlainContent t) = t"
| "contentText separator (BlockContent bs) = js_join separator (user_texts bs)"

definition BACKTICK :: "16 word" where
  "BACKTICK = 96"

definition bashExecutionToText :: "bash_execution_message \<Rightarrow> jstring" where
  "bashExecutionToText m =
     js ''Ran '' @ [BACKTICK] @ be_command m @ [BACKTICK] @ NL @
     (if be_output m \<noteq> []
      then [BACKTICK, BACKTICK, BACKTICK] @ NL @ be_output m @ NL @ [BACKTICK, BACKTICK, BACKTICK]
      else js ''(no output)'') @
     (if be_cancelled m then NL @ NL @ js ''(command cancelled)''
      else (case be_exitCode m of
          Some c \<Rightarrow> if c \<noteq> 0 then NL @ NL @ js ''Command exited with code '' @ index_text c else []
        | None \<Rightarrow> [])) @
     (case be_fullOutputPath m of
        Some p \<Rightarrow> if be_truncated m \<and> p \<noteq> [] then NL @ NL @ js ''[Output truncated. Full output: '' @ p @ js '']'' else []
      | None \<Rightarrow> [])"

definition COMPACTION_SUMMARY_PREFIX :: jstring where
  "COMPACTION_SUMMARY_PREFIX =
     text_lines [''The conversation history before this point was compacted into the following summary:'', [], ''<summary>'', []]"

definition COMPACTION_SUMMARY_SUFFIX :: jstring where
  "COMPACTION_SUMMARY_SUFFIX = text_lines [[], ''</summary>'']"

definition BRANCH_SUMMARY_PREFIX :: jstring where
  "BRANCH_SUMMARY_PREFIX =
     text_lines [''The following is a summary of a branch that this conversation came back from:'', [], ''<summary>'', []]"

definition BRANCH_SUMMARY_SUFFIX :: jstring where
  "BRANCH_SUMMARY_SUFFIX = js ''</summary>''"

definition user_message_of :: "user_block list \<Rightarrow> int \<Rightarrow> agent_message" where
  "user_message_of blocks timestamp = UserMsg \<lparr>um_content = BlockContent blocks, um_timestamp = timestamp\<rparr>"

fun llm_message :: "agent_message \<Rightarrow> agent_message option" where
  "llm_message (BashExecutionMsg m) =
     (if be_excludeFromContext m = Some True then None
      else Some (user_message_of [text_block (bashExecutionToText m)] (be_timestamp m)))"
| "llm_message (CustomMsg m) =
     Some (user_message_of (case cm_content m of PlainContent t \<Rightarrow> [text_block t] | BlockContent bs \<Rightarrow> bs) (cm_timestamp m))"
| "llm_message (BranchSummaryMsg m) =
     Some (user_message_of [text_block (BRANCH_SUMMARY_PREFIX @ bm_summary m @ BRANCH_SUMMARY_SUFFIX)] (bm_timestamp m))"
| "llm_message (CompactionSummaryMsg m) =
     Some (user_message_of [text_block (COMPACTION_SUMMARY_PREFIX @ cs_summary m @ COMPACTION_SUMMARY_SUFFIX)] (cs_timestamp m))"
| "llm_message m = Some m"

definition convertToLlm :: "agent_message list \<Rightarrow> agent_message list" where
  "convertToLlm messages = List.map_filter llm_message messages"

section \<open>File operations\<close>

text \<open>A \<open>Set\<close> of paths is the list of its elements in the order they were added.\<close>

definition set_add :: "'a \<Rightarrow> 'a list \<Rightarrow> 'a list" where
  "set_add x xs = (if x \<in> set xs then xs else xs @ [x])"

definition createFileOps :: durable_file_operations where
  "createFileOps = \<lparr>df_read = [], df_written = [], df_edited = []\<rparr>"

definition extract_call :: "tool_call \<Rightarrow> durable_file_operations \<Rightarrow> durable_file_operations" where
  "extract_call call ops =
     (case map_of (tc_arguments call) (js ''path'') of
        Some (JStr path) \<Rightarrow>
          if path = [] then ops
          else if tc_name call = js ''read'' then ops\<lparr>df_read := set_add path (df_read ops)\<rparr>
          else if tc_name call = js ''write'' then ops\<lparr>df_written := set_add path (df_written ops)\<rparr>
          else if tc_name call = js ''edit'' then ops\<lparr>df_edited := set_add path (df_edited ops)\<rparr>
          else ops
      | _ \<Rightarrow> ops)"

fun extract_blocks :: "assistant_block list \<Rightarrow> durable_file_operations \<Rightarrow> durable_file_operations" where
  "extract_blocks [] ops = ops"
| "extract_blocks (AToolCall call # bs) ops = extract_blocks bs (extract_call call ops)"
| "extract_blocks (b # bs) ops = extract_blocks bs ops"

fun extractFileOpsFromMessage :: "agent_message \<Rightarrow> durable_file_operations \<Rightarrow> durable_file_operations" where
  "extractFileOpsFromMessage (AssistantMsg m) ops = extract_blocks (am_content m) ops"
| "extractFileOpsFromMessage m ops = ops"

text \<open>The default order of \<open>Array.prototype.sort\<close>: by code units.\<close>

fun compare_units :: "jstring \<Rightarrow> jstring \<Rightarrow> int" where
  "compare_units [] [] = 0"
| "compare_units [] (y # ys) = -1"
| "compare_units (x # xs) [] = 1"
| "compare_units (x # xs) (y # ys) = (if x < y then -1 else if y < x then 1 else compare_units xs ys)"

definition computeFileLists :: "durable_file_operations \<Rightarrow> jstring list \<times> jstring list" where
  "computeFileLists ops =
     (let modified = js_set (df_edited ops @ df_written ops) in
      (js_sort compare_units (filter (\<lambda>f. f \<notin> set modified) (df_read ops)), js_sort compare_units modified))"

definition formatFileOperations :: "jstring list \<Rightarrow> jstring list \<Rightarrow> jstring" where
  "formatFileOperations readFiles modifiedFiles =
     (let sections =
        (if readFiles \<noteq> [] then [js ''<read-files>'' @ NL @ js_join NL readFiles @ NL @ js ''</read-files>''] else []) @
        (if modifiedFiles \<noteq> []
         then [js ''<modified-files>'' @ NL @ js_join NL modifiedFiles @ NL @ js ''</modified-files>''] else []) in
      if sections = [] then [] else NL @ NL @ js_join (NL @ NL) sections)"

section \<open>A conversation as text\<close>

definition TOOL_RESULT_MAX_CHARS :: int where
  "TOOL_RESULT_MAX_CHARS = 2000"

definition truncateForSummary :: "jstring \<Rightarrow> int \<Rightarrow> jstring" where
  "truncateForSummary t maxChars =
     (if int (length t) \<le> maxChars then t
      else take (nat maxChars) t @ NL @ NL @ js ''[... '' @ index_text (int (length t) - maxChars) @ js '' more characters truncated]'')"

fun thinking_parts :: "assistant_block list \<Rightarrow> jstring list" where
  "thinking_parts [] = []"
| "thinking_parts (AThinking t # bs) = th_thinking t # thinking_parts bs"
| "thinking_parts (b # bs) = thinking_parts bs"

definition call_text :: "(rat \<Rightarrow> jstring) \<Rightarrow> tool_call \<Rightarrow> jstring" where
  "call_text number_text call =
     tc_name call @ js ''('' @
     js_join (js '', '') (map (\<lambda>(k, v). k @ js ''='' @ json_text number_text v) (tc_arguments call)) @ js '')''"

fun call_parts :: "(rat \<Rightarrow> jstring) \<Rightarrow> assistant_block list \<Rightarrow> jstring list" where
  "call_parts number_text [] = []"
| "call_parts number_text (AToolCall call # bs) = call_text number_text call # call_parts number_text bs"
| "call_parts number_text (b # bs) = call_parts number_text bs"

fun is_text_block :: "assistant_block \<Rightarrow> bool" where
  "is_text_block (AText t) \<longleftrightarrow> True"
| "is_text_block _ \<longleftrightarrow> False"

fun message_parts :: "(rat \<Rightarrow> jstring) \<Rightarrow> agent_message \<Rightarrow> jstring list" where
  "message_parts number_text (UserMsg m) =
     (let content = contentText [] (um_content m) in if content \<noteq> [] then [js ''[User]: '' @ content] else [])"
| "message_parts number_text (AssistantMsg m) =
     (let thinking = thinking_parts (am_content m); calls = call_parts number_text (am_content m) in
      (if thinking \<noteq> [] then [js ''[Assistant thinking]: '' @ js_join NL thinking] else []) @
      (if list_ex is_text_block (am_content m) then [js ''[Assistant]: '' @ js_join NL (assistant_texts (am_content m))] else []) @
      (if calls \<noteq> [] then [js ''[Assistant tool calls]: '' @ js_join (js ''; '') calls] else []))"
| "message_parts number_text (ToolResultMsg m) =
     (let content = contentText [] (BlockContent (tr_content m)) in
      if content \<noteq> [] then [js ''[Tool result]: '' @ truncateForSummary content TOOL_RESULT_MAX_CHARS] else [])"
| "message_parts number_text _ = []"

definition serializeConversation :: "(rat \<Rightarrow> jstring) \<Rightarrow> agent_message list \<Rightarrow> jstring" where
  "serializeConversation number_text messages = js_join (NL @ NL) (concat (map (message_parts number_text) messages))"

end
