(* ===== verification/Compaction.thy ===== *)
theory Compaction
  imports SummaryText
begin

text \<open>
  \<open>compaction/compaction.ts\<close> and \<open>compaction/branch-summarization.ts\<close>: how many tokens a context is estimated to
  have, where a compaction cuts the path, what it summarizes and what it keeps, and how a summary is asked for.
  Divisions of estimates are on integers; \<open>0.8 * n\<close> and \<open>0.9 * n\<close> are exact there for all counts below \<open>2 ^ 46\<close>.
\<close>

section \<open>Estimates\<close>

definition calculateContextTokens :: "usage \<Rightarrow> int" where
  "calculateContextTokens u =
     (if us_totalTokens u \<noteq> 0 then us_totalTokens u
      else us_input u + us_output u + us_cacheRead u + us_cacheWrite u)"

fun getAssistantUsage :: "agent_message \<Rightarrow> usage option" where
  "getAssistantUsage (AssistantMsg m) =
     (if am_stopReason m \<noteq> Aborted \<and> am_stopReason m \<noteq> Error \<and> calculateContextTokens (am_usage m) > 0
      then Some (am_usage m) else None)"
| "getAssistantUsage _ = None"

definition ESTIMATED_IMAGE_CHARS :: int where
  "ESTIMATED_IMAGE_CHARS = 4800"

fun block_chars :: "user_block \<Rightarrow> int" where
  "block_chars (UText t) = int (length (tx_text t))"
| "block_chars (UImage i) = ESTIMATED_IMAGE_CHARS"

fun estimateTextAndImageContentChars :: "user_content \<Rightarrow> int" where
  "estimateTextAndImageContentChars (PlainContent t) = int (length t)"
| "estimateTextAndImageContentChars (BlockContent bs) = sum_list (map block_chars bs)"

fun assistant_chars :: "(rat \<Rightarrow> jstring) \<Rightarrow> assistant_block \<Rightarrow> int" where
  "assistant_chars number_text (AText t) = int (length (tx_text t))"
| "assistant_chars number_text (AThinking t) = int (length (th_thinking t))"
| "assistant_chars number_text (AToolCall c) =
     int (length (tc_name c)) + int (length (json_text number_text (JObj (tc_arguments c))))"

text \<open>\<open>Math.ceil(chars / 4)\<close>\<close>

definition quarter :: "int \<Rightarrow> int" where
  "quarter chars = (chars + 3) div 4"

fun estimateTokens :: "(rat \<Rightarrow> jstring) \<Rightarrow> agent_message \<Rightarrow> int" where
  "estimateTokens number_text (UserMsg m) = quarter (estimateTextAndImageContentChars (um_content m))"
| "estimateTokens number_text (AssistantMsg m) = quarter (sum_list (map (assistant_chars number_text) (am_content m)))"
| "estimateTokens number_text (CustomMsg m) = quarter (estimateTextAndImageContentChars (cm_content m))"
| "estimateTokens number_text (ToolResultMsg m) = quarter (estimateTextAndImageContentChars (BlockContent (tr_content m)))"
| "estimateTokens number_text (BashExecutionMsg m) = quarter (int (length (be_command m)) + int (length (be_output m)))"
| "estimateTokens number_text (BranchSummaryMsg m) = quarter (int (length (bm_summary m)))"
| "estimateTokens number_text (CompactionSummaryMsg m) = quarter (int (length (cs_summary m)))"

record context_usage_estimate =
  ce_tokens :: int
  ce_usageTokens :: int
  ce_trailingTokens :: int
  ce_lastUsageIndex :: "int option"

text \<open>The loop from the last index down: the newest usage, and where it is.\<close>

fun last_usage_info :: "agent_message list \<Rightarrow> nat \<Rightarrow> (usage \<times> nat) option" where
  "last_usage_info ms 0 = None"
| "last_usage_info ms (Suc i) =
     (case getAssistantUsage (ms ! i) of Some u \<Rightarrow> Some (u, i) | None \<Rightarrow> last_usage_info ms i)"

definition getLastAssistantUsageInfo :: "agent_message list \<Rightarrow> (usage \<times> nat) option" where
  "getLastAssistantUsageInfo ms = last_usage_info ms (length ms)"

definition estimateContextTokens :: "(rat \<Rightarrow> jstring) \<Rightarrow> agent_message list \<Rightarrow> context_usage_estimate" where
  "estimateContextTokens number_text ms =
     (case getLastAssistantUsageInfo ms of
        None \<Rightarrow>
          (let estimated = sum_list (map (estimateTokens number_text) ms) in
           \<lparr>ce_tokens = estimated, ce_usageTokens = 0, ce_trailingTokens = estimated, ce_lastUsageIndex = None\<rparr>)
      | Some (u, i) \<Rightarrow>
          (let usageTokens = calculateContextTokens u;
               trailing = sum_list (map (estimateTokens number_text) (drop (Suc i) ms)) in
           \<lparr>ce_tokens = usageTokens + trailing, ce_usageTokens = usageTokens, ce_trailingTokens = trailing,
            ce_lastUsageIndex = Some (int i)\<rparr>))"

definition shouldCompact :: "int \<Rightarrow> int \<Rightarrow> compaction_settings \<Rightarrow> bool" where
  "shouldCompact contextTokens contextWindow settings \<longleftrightarrow>
     cp_enabled settings \<and> contextTokens > contextWindow - cp_reserveTokens settings"

section \<open>Where to cut\<close>

fun cut_entry :: "entry_body \<Rightarrow> bool" where
  "cut_entry (MessageBody (ToolResultMsg m) t) \<longleftrightarrow> False"
| "cut_entry (MessageBody m t) \<longleftrightarrow> True"
| "cut_entry (BranchSummaryBody b) \<longleftrightarrow> True"
| "cut_entry (CompactionBody c) \<longleftrightarrow> False"
| "cut_entry (CustomBody c d) \<longleftrightarrow> False"

definition findValidCutPoints :: "entry list \<Rightarrow> nat \<Rightarrow> nat \<Rightarrow> nat list" where
  "findValidCutPoints entries startIndex endIndex = filter (\<lambda>i. cut_entry (en_body (entries ! i))) [startIndex..<endIndex]"

fun turn_start :: "entry_body \<Rightarrow> bool" where
  "turn_start (BranchSummaryBody b) \<longleftrightarrow> True"
| "turn_start (MessageBody (UserMsg m) t) \<longleftrightarrow> True"
| "turn_start (MessageBody (BashExecutionMsg m) t) \<longleftrightarrow> True"
| "turn_start _ \<longleftrightarrow> False"

text \<open>The loops go down from an index; the index after it is their argument. \<open>None\<close> is \<open>-1\<close>.\<close>

fun turn_start_below :: "entry list \<Rightarrow> nat \<Rightarrow> nat \<Rightarrow> nat option" where
  "turn_start_below entries startIndex 0 = None"
| "turn_start_below entries startIndex (Suc i) =
     (if i < startIndex then None
      else if turn_start (en_body (entries ! i)) then Some i else turn_start_below entries startIndex i)"

definition findTurnStartIndex :: "entry list \<Rightarrow> nat \<Rightarrow> nat \<Rightarrow> nat option" where
  "findTurnStartIndex entries entryIndex startIndex = turn_start_below entries startIndex (Suc entryIndex)"

text \<open>Where the messages from the end on reach the budget.\<close>

fun budget_index :: "(rat \<Rightarrow> jstring) \<Rightarrow> entry list \<Rightarrow> nat \<Rightarrow> int \<Rightarrow> int \<Rightarrow> nat \<Rightarrow> nat option" where
  "budget_index number_text entries startIndex keepRecentTokens acc 0 = None"
| "budget_index number_text entries startIndex keepRecentTokens acc (Suc i) =
     (if i < startIndex then None
      else case en_body (entries ! i) of
          MessageBody m t \<Rightarrow>
            (let acc' = acc + estimateTokens number_text m in
             if acc' \<ge> keepRecentTokens then Some i
             else budget_index number_text entries startIndex keepRecentTokens acc' i)
        | _ \<Rightarrow> budget_index number_text entries startIndex keepRecentTokens acc i)"

fun stops_before :: "entry_body \<Rightarrow> bool" where
  "stops_before (MessageBody m t) \<longleftrightarrow> True"
| "stops_before (CompactionBody c) \<longleftrightarrow> True"
| "stops_before _ \<longleftrightarrow> False"

fun back_over :: "entry list \<Rightarrow> nat \<Rightarrow> nat \<Rightarrow> nat" where
  "back_over entries startIndex 0 = 0"
| "back_over entries startIndex (Suc i) =
     (if Suc i > startIndex \<and> \<not> stops_before (en_body (entries ! i)) then back_over entries startIndex i else Suc i)"

record cut_point_result =
  cu_firstKept :: nat
  cu_turnStart :: "nat option"
  cu_split :: bool

fun is_user_entry :: "entry_body \<Rightarrow> bool" where
  "is_user_entry (MessageBody (UserMsg m) t) \<longleftrightarrow> True"
| "is_user_entry _ \<longleftrightarrow> False"

definition findCutPoint :: "(rat \<Rightarrow> jstring) \<Rightarrow> entry list \<Rightarrow> nat \<Rightarrow> nat \<Rightarrow> int \<Rightarrow> cut_point_result" where
  "findCutPoint number_text entries startIndex endIndex keepRecentTokens =
     (case findValidCutPoints entries startIndex endIndex of
        [] \<Rightarrow> \<lparr>cu_firstKept = startIndex, cu_turnStart = None, cu_split = False\<rparr>
      | c # cs \<Rightarrow>
          (let cut = (case budget_index number_text entries startIndex keepRecentTokens 0 endIndex of
                 None \<Rightarrow> c
               | Some i \<Rightarrow> (case List.find (\<lambda>p. p \<ge> i) (c # cs) of None \<Rightarrow> c | Some p \<Rightarrow> p));
               cutIndex = back_over entries startIndex cut;
               isUser = is_user_entry (en_body (entries ! cutIndex));
               turn = (if isUser then None else findTurnStartIndex entries cutIndex startIndex) in
           \<lparr>cu_firstKept = cutIndex, cu_turnStart = turn, cu_split = (\<not> isUser \<and> turn \<noteq> None)\<rparr>))"

section \<open>What a compaction summarizes\<close>

fun as_paths :: "json list \<Rightarrow> jstring list" where
  "as_paths [] = []"
| "as_paths (JStr s # xs) = s # as_paths xs"
| "as_paths (x # xs) = as_paths xs"

text \<open>The files the details of an earlier summary name.\<close>

definition detail_paths :: "jstring \<Rightarrow> json option \<Rightarrow> jstring list" where
  "detail_paths field details =
     (case details of
        Some (JObj fs) \<Rightarrow> (case map_of fs field of Some (JArr xs) \<Rightarrow> as_paths xs | _ \<Rightarrow> [])
      | _ \<Rightarrow> [])"

definition add_detail_paths :: "json option \<Rightarrow> durable_file_operations \<Rightarrow> durable_file_operations" where
  "add_detail_paths details ops =
     ops\<lparr>df_read := fold set_add (detail_paths (js ''readFiles'') details) (df_read ops),
       df_edited := fold set_add (detail_paths (js ''modifiedFiles'') details) (df_edited ops)\<rparr>"

definition extractFileOperations :: "agent_message list \<Rightarrow> compaction_data option \<Rightarrow> durable_file_operations" where
  "extractFileOperations messages previous =
     fold extractFileOpsFromMessage messages
       (case previous of None \<Rightarrow> createFileOps | Some c \<Rightarrow> add_detail_paths (cd_details c) createFileOps)"

definition getMessageFromEntryForCompaction :: "entry \<Rightarrow> agent_message option" where
  "getMessageFromEntryForCompaction e =
     (case en_body e of
        MessageBody m t \<Rightarrow> Some m
      | BranchSummaryBody b \<Rightarrow> Some (createBranchSummaryMessage (bd_summary b) (bd_fromId b) (en_timestamp e))
      | _ \<Rightarrow> None)"

record compaction_preparation =
  pp_messagesToSummarize :: "agent_message list"
  pp_turnPrefixMessages :: "agent_message list"
  pp_retainedTail :: "agent_message list"
  pp_isSplitTurn :: bool
  pp_tokensBefore :: int
  pp_previousSummary :: "jstring option"
  pp_fileOps :: durable_file_operations
  pp_settings :: compaction_settings

fun message_timestamp :: "agent_message \<Rightarrow> int" where
  "message_timestamp (UserMsg m) = um_timestamp m"
| "message_timestamp (AssistantMsg m) = am_timestamp m"
| "message_timestamp (ToolResultMsg m) = tr_timestamp m"
| "message_timestamp (BashExecutionMsg m) = be_timestamp m"
| "message_timestamp (CustomMsg m) = cm_timestamp m"
| "message_timestamp (BranchSummaryMsg m) = bm_timestamp m"
| "message_timestamp (CompactionSummaryMsg m) = cs_timestamp m"

definition retained_id :: "entry \<Rightarrow> int \<Rightarrow> jstring" where
  "retained_id e i = en_id e @ js '':retained:'' @ index_text i"

text \<open>The messages an earlier compaction kept stand for entries after it.\<close>

definition virtual_entry :: "entry \<Rightarrow> int \<Rightarrow> agent_message \<Rightarrow> entry" where
  "virtual_entry e i m =
     \<lparr>en_id = retained_id e i, en_parentId = Some (if i = 0 then en_id e else retained_id e (i - 1)),
      en_seq = en_seq e, en_timestamp = message_timestamp m, en_body = MessageBody m False\<rparr>"

definition virtual_entries :: "entry \<Rightarrow> compaction_data \<Rightarrow> entry list" where
  "virtual_entries e c = map (\<lambda>(i, m). virtual_entry e (int i) m) (enumerate 0 (cd_retainedTail c))"

text \<open>The newest compaction, and the entries that can be compacted.\<close>

definition compactable_entries :: "entry list \<Rightarrow> compaction_data option \<times> entry list" where
  "compactable_entries path =
     (case last_compaction path (length path) of
        None \<Rightarrow> (None, path)
      | Some i \<Rightarrow>
          (case en_body (path ! i) of
             CompactionBody c \<Rightarrow> (Some c, virtual_entries (path ! i) c @ drop (Suc i) path)
           | _ \<Rightarrow> (None, path)))"

definition messages_between :: "entry list \<Rightarrow> nat \<Rightarrow> nat \<Rightarrow> agent_message list" where
  "messages_between entries i j = List.map_filter getMessageFromEntryForCompaction (take (j - i) (drop i entries))"

definition prepareCompaction ::
  "(rat \<Rightarrow> jstring) \<Rightarrow> entry list \<Rightarrow> compaction_settings \<Rightarrow> compaction_preparation option" where
  "prepareCompaction number_text path settings =
     (if path = [] \<or> en_type (last path) = CompactionType then None
      else
        (let (previous, entries) = compactable_entries path;
             boundaryEnd = length entries;
             tokensBefore = ce_tokens (estimateContextTokens number_text
               (concat (map sessionEntryToContextMessages (buildContextEntries path))));
             cut = findCutPoint number_text entries 0 boundaryEnd (cp_keepRecentTokens settings);
             historyEnd = (case cu_turnStart cut of
                 Some i \<Rightarrow> if cu_split cut then i else cu_firstKept cut | None \<Rightarrow> cu_firstKept cut);
             messagesToSummarize = messages_between entries 0 historyEnd;
             turnPrefix = (if cu_split cut then messages_between entries historyEnd (cu_firstKept cut) else []);
             ops = extractFileOperations messagesToSummarize previous in
         Some \<lparr>pp_messagesToSummarize = messagesToSummarize, pp_turnPrefixMessages = turnPrefix,
           pp_retainedTail = messages_between entries (cu_firstKept cut) boundaryEnd, pp_isSplitTurn = cu_split cut,
           pp_tokensBefore = tokensBefore, pp_previousSummary = map_option cd_summary previous,
           pp_fileOps = (if cu_split cut then fold extractFileOpsFromMessage turnPrefix ops else ops),
           pp_settings = settings\<rparr>))"

text \<open>\<open>durableCompactionPreparation\<close>, and what acceptance and the threshold are given.\<close>

definition durableCompactionPreparation :: "compaction_preparation \<Rightarrow> structural_preparation" where
  "durableCompactionPreparation p =
     CompactionPrep (pp_messagesToSummarize p) (pp_turnPrefixMessages p) (pp_retainedTail p) (pp_isSplitTurn p)
       (pp_tokensBefore p) (pp_previousSummary p) (pp_fileOps p) (pp_settings p)"

definition prepared_compaction :: "(rat \<Rightarrow> jstring) \<Rightarrow> prepare_compaction" where
  "prepared_compaction number_text path settings =
     Inr (map_option durableCompactionPreparation (prepareCompaction number_text path settings))"

definition prepared_with_tokens ::
  "(rat \<Rightarrow> jstring) \<Rightarrow> entry list \<Rightarrow> compaction_settings \<Rightarrow> js_error + (structural_preparation \<times> int) option" where
  "prepared_with_tokens number_text path settings =
     Inr (map_option (\<lambda>p. (durableCompactionPreparation p, pp_tokensBefore p)) (prepareCompaction number_text path settings))"

section \<open>What a branch summary summarizes\<close>

record branch_preparation =
  bq_messages :: "agent_message list"
  bq_fileOps :: durable_file_operations
  bq_totalTokens :: int

definition branch_message :: "entry \<Rightarrow> agent_message option" where
  "branch_message e =
     (case en_body e of
        MessageBody (ToolResultMsg m) t \<Rightarrow> None
      | MessageBody m t \<Rightarrow> Some m
      | BranchSummaryBody b \<Rightarrow> Some (createBranchSummaryMessage (bd_summary b) (bd_fromId b) (en_timestamp e))
      | CompactionBody c \<Rightarrow> Some (createCompactionSummaryMessage (cd_summary c) (cd_tokensBefore c) (en_timestamp e))
      | CustomBody c d \<Rightarrow> None)"

fun summary_entry :: "entry_body \<Rightarrow> bool" where
  "summary_entry (CompactionBody c) \<longleftrightarrow> True"
| "summary_entry (BranchSummaryBody b) \<longleftrightarrow> True"
| "summary_entry _ \<longleftrightarrow> False"

text \<open>From the newest entry on, while the budget lasts; a budget of zero is none.\<close>

fun branch_loop :: "(rat \<Rightarrow> jstring) \<Rightarrow> int \<Rightarrow> entry list \<Rightarrow> branch_preparation \<Rightarrow> branch_preparation" where
  "branch_loop number_text budget [] p = p"
| "branch_loop number_text budget (e # es) p =
     (case branch_message e of
        None \<Rightarrow> branch_loop number_text budget es p
      | Some m \<Rightarrow>
          (let p' = p\<lparr>bq_fileOps := extractFileOpsFromMessage m (bq_fileOps p)\<rparr>;
               tokens = estimateTokens number_text m;
               taken = p'\<lparr>bq_messages := m # bq_messages p', bq_totalTokens := bq_totalTokens p' + tokens\<rparr> in
           if budget > 0 \<and> bq_totalTokens p' + tokens > budget
           then (if summary_entry (en_body e) \<and> 10 * bq_totalTokens p' < 9 * budget then taken else p')
           else branch_loop number_text budget es taken))"

fun summary_details :: "entry_body \<Rightarrow> json option" where
  "summary_details (BranchSummaryBody b) = bd_details b"
| "summary_details _ = None"

definition prepareBranchEntries :: "(rat \<Rightarrow> jstring) \<Rightarrow> entry list \<Rightarrow> int \<Rightarrow> branch_preparation" where
  "prepareBranchEntries number_text entries tokenBudget =
     branch_loop number_text tokenBudget (rev entries)
       \<lparr>bq_messages = [], bq_fileOps = fold (\<lambda>e. add_detail_paths (summary_details (en_body e))) entries createFileOps,
        bq_totalTokens = 0\<rparr>"

definition durableBranchPreparation :: "branch_preparation \<Rightarrow> structural_preparation" where
  "durableBranchPreparation p = BranchSummaryPrep (bq_messages p) (bq_fileOps p) (bq_totalTokens p)"

definition prepared_branch :: "(rat \<Rightarrow> jstring) \<Rightarrow> entry list \<Rightarrow> structural_preparation" where
  "prepared_branch number_text entries = durableBranchPreparation (prepareBranchEntries number_text entries 0)"

end
