(* ===== verification/SummaryRequests.thy ===== *)
theory SummaryRequests
  imports Compaction ProviderErrors
begin

text \<open>
  How a summary is asked for: the prompts, one request or two for a compaction, one for a branch summary
  (\<open>compaction/compaction.ts\<close>, \<open>compaction/branch-summarization.ts\<close>), and the attempt of a drive that wraps every
  request in its durable intent and outcome (\<open>performStructuralAttempt\<close> of \<open>runtime/drive/structural.ts\<close>). The
  provider is an argument that takes the harness and returns it: other calls may run while it answers. The time
  stamp and the stream options of a request are not part of it here.
\<close>

section \<open>Prompts\<close>

definition SUMMARIZATION_SYSTEM_PROMPT :: jstring where
  "SUMMARIZATION_SYSTEM_PROMPT = text_lines
    [''You are a context summarization assistant. Your task is to read a conversation between a user and an AI assistant, then produce a structured summary following the exact format specified.'',
     [],
     ''Do NOT continue the conversation. Do NOT respond to any questions in the conversation. ONLY output the structured summary.'']"

definition SUMMARIZATION_PROMPT :: jstring where
  "SUMMARIZATION_PROMPT = text_lines
    [''The messages above are a conversation to summarize. Create a structured context checkpoint summary that another LLM will use to continue the work.'',
     [], ''Use this EXACT format:'', [], ''## Goal'',
     ''[What is the user trying to accomplish? Can be multiple items if the session covers different tasks.]'', [],
     ''## Constraints & Preferences'', ''- [Any constraints, preferences, or requirements mentioned by user]'',
     ''- [Or \"(none)\" if none were mentioned]'', [], ''## Progress'', ''### Done'', ''- [x] [Completed tasks/changes]'',
     [], ''### In Progress'', ''- [ ] [Current work]'', [], ''### Blocked'', ''- [Issues preventing progress, if any]'', [],
     ''## Key Decisions'', ''- **[Decision]**: [Brief rationale]'', [], ''## Next Steps'',
     ''1. [Ordered list of what should happen next]'', [], ''## Critical Context'',
     ''- [Any data, examples, or references needed to continue]'', ''- [Or \"(none)\" if not applicable]'', [],
     ''Keep each section concise. Preserve exact file paths, function names, and error messages.'']"

definition UPDATE_SUMMARIZATION_PROMPT :: jstring where
  "UPDATE_SUMMARIZATION_PROMPT = text_lines
    [''The messages above are NEW conversation messages to incorporate into the existing summary provided in <previous-summary> tags.'',
     [], ''Update the existing structured summary with new information. RULES:'',
     ''- PRESERVE all existing information from the previous summary'',
     ''- ADD new progress, decisions, and context from the new messages'',
     ''- UPDATE the Progress section: move items from \"In Progress\" to \"Done\" when completed'',
     ''- UPDATE \"Next Steps\" based on what was accomplished'',
     ''- PRESERVE exact file paths, function names, and error messages'',
     ''- If something is no longer relevant, you may remove it'', [], ''Use this EXACT format:'', [], ''## Goal'',
     ''[Preserve existing goals, add new ones if the task expanded]'', [], ''## Constraints & Preferences'',
     ''- [Preserve existing, add new ones discovered]'', [], ''## Progress'', ''### Done'',
     ''- [x] [Include previously done items AND newly completed items]'', [], ''### In Progress'',
     ''- [ ] [Current work - update based on progress]'', [], ''### Blocked'',
     ''- [Current blockers - remove if resolved]'', [], ''## Key Decisions'',
     ''- **[Decision]**: [Brief rationale] (preserve all previous, add new)'', [], ''## Next Steps'',
     ''1. [Update based on current state]'', [], ''## Critical Context'',
     ''- [Preserve important context, add new if needed]'', [],
     ''Keep each section concise. Preserve exact file paths, function names, and error messages.'']"

definition TURN_PREFIX_SUMMARIZATION_PROMPT :: jstring where
  "TURN_PREFIX_SUMMARIZATION_PROMPT = text_lines
    [''This is the PREFIX of a turn that was too large to keep. The SUFFIX (recent work) is retained.'', [],
     ''Summarize the prefix to provide context for the retained suffix:'', [], ''## Original Request'',
     ''[What did the user ask for in this turn?]'', [], ''## Early Progress'',
     ''- [Key decisions and work done in the prefix]'', [], ''## Context for Suffix'',
     ''- [Information needed to understand the retained recent work]'', [],
     ''Be concise. Focus on what'' @ [CHR 0x27] @ ''s needed to understand the kept suffix.'']"

definition BRANCH_SUMMARY_PREAMBLE :: jstring where
  "BRANCH_SUMMARY_PREAMBLE = text_lines
    [''The user explored a different conversation branch before returning here.'', ''Summary of that exploration:'', [], []]"

definition BRANCH_SUMMARY_PROMPT :: jstring where
  "BRANCH_SUMMARY_PROMPT = text_lines
    [''Create a structured summary of this conversation branch for context when returning later.'', [],
     ''Use this EXACT format:'', [], ''## Goal'', ''[What was the user trying to accomplish in this branch?]'', [],
     ''## Constraints & Preferences'', ''- [Any constraints, preferences, or requirements mentioned]'',
     ''- [Or \"(none)\" if none were mentioned]'', [], ''## Progress'', ''### Done'', ''- [x] [Completed tasks/changes]'',
     [], ''### In Progress'', ''- [ ] [Work that was started but not finished]'', [], ''### Blocked'',
     ''- [Issues preventing progress, if any]'', [], ''## Key Decisions'', ''- **[Decision]**: [Brief rationale]'', [],
     ''## Next Steps'', ''1. [What should happen next to continue this work]'', [],
     ''Keep each section concise. Preserve exact file paths, function names, and error messages.'']"

section \<open>Requests\<close>

record summary_request =
  rq_systemPrompt :: jstring
  rq_prompt :: jstring
  rq_maxTokens :: int
  rq_reasoning :: "thinking_level option"

text \<open>What the requests read of the model.\<close>

record summary_model =
  sm_maxTokens :: int
  sm_reasoning :: bool

text \<open>A request may throw an \<open>'e\<close>; \<open>'w\<close> is the state it works on.\<close>

type_synonym ('e, 'w) summary_requester = "summary_request \<Rightarrow> 'w \<Rightarrow> ('e + assistant_message) \<times> 'w"

definition summary_error :: "jstring \<Rightarrow> jstring \<Rightarrow> operation_error" where
  "summary_error code message = \<lparr>oe_code = code, oe_message = message, oe_details = None\<rparr>"

text \<open>\<open>response.errorMessage || otherwise\<close>\<close>

definition error_text :: "assistant_message \<Rightarrow> jstring \<Rightarrow> jstring" where
  "error_text m otherwise = (case present_text (am_errorMessage m) of None \<Rightarrow> otherwise | Some t \<Rightarrow> t)"

text \<open>The answer of one request; \<open>what\<close> names the summary in its errors.\<close>

definition summary_answer :: "string \<Rightarrow> assistant_message \<Rightarrow> operation_error + (jstring \<times> usage)" where
  "summary_answer what response =
     (if am_stopReason response = Aborted
      then Inl (summary_error (js ''aborted'') (error_text response (js (what @ '' aborted''))))
      else if am_stopReason response = Error
      then Inl (summary_error (js ''summarization_failed'')
        (js (what @ '' failed: '') @ error_text response (js ''Unknown error'')))
      else Inr (js_join NL (assistant_texts (am_content response)), am_usage response))"

definition ask ::
  "('e, 'w) summary_requester \<Rightarrow> string \<Rightarrow> summary_request \<Rightarrow> 'w \<Rightarrow>
   ('e + (operation_error + (jstring \<times> usage))) \<times> 'w" where
  "ask request what req w = (case request req w of (answer, w') \<Rightarrow> (map_sum id (summary_answer what) answer, w'))"

definition limited_tokens :: "summary_model \<Rightarrow> int \<Rightarrow> int" where
  "limited_tokens model n = (if sm_maxTokens model > 0 then min n (sm_maxTokens model) else n)"

definition summary_reasoning :: "summary_model \<Rightarrow> thinking_level option \<Rightarrow> thinking_level option" where
  "summary_reasoning model level = (if sm_reasoning model \<and> level \<noteq> Some TLOff then level else None)"

definition conversation_text :: "(rat \<Rightarrow> jstring) \<Rightarrow> agent_message list \<Rightarrow> jstring" where
  "conversation_text number_text messages =
     js ''<conversation>'' @ NL @ serializeConversation number_text (convertToLlm messages) @ NL @ js ''</conversation>'' @ NL @ NL"

definition with_focus :: "jstring \<Rightarrow> jstring option \<Rightarrow> jstring" where
  "with_focus prompt customInstructions =
     (case present_text customInstructions of
        None \<Rightarrow> prompt | Some i \<Rightarrow> prompt @ NL @ NL @ js ''Additional focus: '' @ i)"

definition summary_prompt :: "(rat \<Rightarrow> jstring) \<Rightarrow> agent_message list \<Rightarrow> jstring option \<Rightarrow> jstring option \<Rightarrow> jstring" where
  "summary_prompt number_text messages customInstructions previousSummary =
     conversation_text number_text messages @
     (case present_text previousSummary of
        None \<Rightarrow> [] | Some p \<Rightarrow> js ''<previous-summary>'' @ NL @ p @ NL @ js ''</previous-summary>'' @ NL @ NL) @
     with_focus (if present_text previousSummary = None then SUMMARIZATION_PROMPT else UPDATE_SUMMARIZATION_PROMPT)
       customInstructions"

definition generateSummaryWithRequest ::
  "(rat \<Rightarrow> jstring) \<Rightarrow> agent_message list \<Rightarrow> summary_model \<Rightarrow> int \<Rightarrow> jstring option \<Rightarrow> jstring option \<Rightarrow>
   thinking_level option \<Rightarrow> ('e, 'w) summary_requester \<Rightarrow> 'w \<Rightarrow> ('e + (operation_error + (jstring \<times> usage))) \<times> 'w" where
  "generateSummaryWithRequest number_text messages model reserveTokens customInstructions previousSummary level request w =
     ask request ''Summarization''
       \<lparr>rq_systemPrompt = SUMMARIZATION_SYSTEM_PROMPT,
        rq_prompt = summary_prompt number_text messages customInstructions previousSummary,
        rq_maxTokens = limited_tokens model (4 * reserveTokens div 5), rq_reasoning = summary_reasoning model level\<rparr> w"

definition generateTurnPrefixSummary ::
  "(rat \<Rightarrow> jstring) \<Rightarrow> agent_message list \<Rightarrow> summary_model \<Rightarrow> int \<Rightarrow> thinking_level option \<Rightarrow>
   ('e, 'w) summary_requester \<Rightarrow> 'w \<Rightarrow> ('e + (operation_error + (jstring \<times> usage))) \<times> 'w" where
  "generateTurnPrefixSummary number_text messages model reserveTokens level request w =
     ask request ''Turn prefix summarization''
       \<lparr>rq_systemPrompt = SUMMARIZATION_SYSTEM_PROMPT,
        rq_prompt = conversation_text number_text messages @ TURN_PREFIX_SUMMARIZATION_PROMPT,
        rq_maxTokens = limited_tokens model (reserveTokens div 2), rq_reasoning = summary_reasoning model level\<rparr> w"

section \<open>Summaries\<close>

text \<open>Go on with the value of a step, unless it threw or failed.\<close>

definition then_summary ::
  "('e + (operation_error + 'a)) \<times> 'w \<Rightarrow> ('a \<Rightarrow> 'w \<Rightarrow> ('e + (operation_error + 'b)) \<times> 'w) \<Rightarrow>
   ('e + (operation_error + 'b)) \<times> 'w" where
  "then_summary r k =
     (case r of
        (Inl e, w) \<Rightarrow> (Inl e, w)
      | (Inr (Inl e), w) \<Rightarrow> (Inr (Inl e), w)
      | (Inr (Inr a), w) \<Rightarrow> k a w)"

definition split_text :: "jstring \<Rightarrow> jstring \<Rightarrow> jstring" where
  "split_text historyText turnText =
     historyText @ text_lines [[], [], ''---'', [], ''**Turn Context (split turn):**'', [], []] @ turnText"

definition compact_summary ::
  "(rat \<Rightarrow> jstring) \<Rightarrow> compaction_preparation \<Rightarrow> summary_model \<Rightarrow> jstring option \<Rightarrow> thinking_level option \<Rightarrow>
   ('e, 'w) summary_requester \<Rightarrow> 'w \<Rightarrow> ('e + (operation_error + (jstring \<times> usage))) \<times> 'w" where
  "compact_summary number_text p model customInstructions level request w =
     (let reserve = cp_reserveTokens (pp_settings p);
          history = (\<lambda>w. generateSummaryWithRequest number_text (pp_messagesToSummarize p) model reserve customInstructions
            (pp_previousSummary p) level request w) in
      if pp_isSplitTurn p \<and> pp_turnPrefixMessages p \<noteq> []
      then then_summary
          (if pp_messagesToSummarize p = [] then (Inr (Inr (js ''No prior history.'', None)), w)
           else then_summary (history w) (\<lambda>(t, u) w'. (Inr (Inr (t, Some u)), w')))
          (\<lambda>(t, u) w'. then_summary
            (generateTurnPrefixSummary number_text (pp_turnPrefixMessages p) model reserve level request w')
            (\<lambda>(t2, u2) w''. (Inr (Inr (split_text t t2, case u of None \<Rightarrow> u2 | Some u1 \<Rightarrow> addUsage u1 u2)), w'')))
      else history w)"

definition compactWithRequest ::
  "(rat \<Rightarrow> jstring) \<Rightarrow> compaction_preparation \<Rightarrow> summary_model \<Rightarrow> jstring option \<Rightarrow> thinking_level option \<Rightarrow>
   ('e, 'w) summary_requester \<Rightarrow> 'w \<Rightarrow> ('e + (operation_error + compact_result)) \<times> 'w" where
  "compactWithRequest number_text p model customInstructions level request w =
     then_summary (compact_summary number_text p model customInstructions level request w) (\<lambda>(t, u) w'.
       (let (readFiles, modifiedFiles) = computeFileLists (pp_fileOps p) in
        (Inr (Inr \<lparr>cres_summary = t @ formatFileOperations readFiles modifiedFiles, cres_tokensBefore = pp_tokensBefore p,
          cres_usage = Some u, cres_retainedTail = pp_retainedTail p,
          cres_details = Some (file_lists_json readFiles modifiedFiles)\<rparr>), w')))"

definition branch_instructions :: "jstring option \<Rightarrow> bool \<Rightarrow> jstring" where
  "branch_instructions customInstructions replaceInstructions =
     (case present_text customInstructions of
        Some i \<Rightarrow> if replaceInstructions then i else with_focus BRANCH_SUMMARY_PROMPT (Some i)
      | None \<Rightarrow> BRANCH_SUMMARY_PROMPT)"

definition generateBranchSummaryWithRequest ::
  "(rat \<Rightarrow> jstring) \<Rightarrow> branch_preparation \<Rightarrow> jstring option \<Rightarrow> bool \<Rightarrow> ('e, 'w) summary_requester \<Rightarrow> 'w \<Rightarrow>
   ('e + (operation_error + branch_summary_result)) \<times> 'w" where
  "generateBranchSummaryWithRequest number_text p customInstructions replaceInstructions request w =
     (if bq_messages p = []
      then (Inr (Inr \<lparr>br_summary = js ''No content to summarize'', br_usage = None, br_readFiles = [], br_modifiedFiles = []\<rparr>), w)
      else then_summary
        (ask request ''Branch summary''
          \<lparr>rq_systemPrompt = SUMMARIZATION_SYSTEM_PROMPT,
           rq_prompt = conversation_text number_text (bq_messages p) @ branch_instructions customInstructions replaceInstructions,
           rq_maxTokens = 2048, rq_reasoning = None\<rparr> w)
        (\<lambda>(t, u) w'.
          (let (readFiles, modifiedFiles) = computeFileLists (bq_fileOps p);
               summary = BRANCH_SUMMARY_PREAMBLE @ t @ formatFileOperations readFiles modifiedFiles in
           (Inr (Inr \<lparr>br_summary = (if summary = [] then js ''No summary generated'' else summary), br_usage = Some u,
             br_readFiles = readFiles, br_modifiedFiles = modifiedFiles\<rparr>), w'))))"

section \<open>An attempt\<close>

text \<open>Why a request ends the attempt: the cancellation, an error of a command, or a lane that never answers.\<close>

datatype request_stop = StructuralCancelled | RequestThrew js_error | RequestBlocked

record attempt_state =
  as_harness :: harness
  as_requestIndex :: int
  as_lastResponse :: "assistant_message option"

text \<open>What happens around the requests: hooks that abort or pass, fresh usage ids, the clock, and the provider.\<close>

record attempt_world =
  aw_hookPasses :: "int \<Rightarrow> bool"
  aw_usageId :: "int \<Rightarrow> jstring"
  aw_now :: "int \<Rightarrow> int"
  aw_provider :: "int \<Rightarrow> summary_request \<Rightarrow> harness \<Rightarrow> assistant_message option \<times> harness"

definition attempt_request :: "jstring \<Rightarrow> attempt_world \<Rightarrow> (request_stop, attempt_state) summary_requester" where
  "attempt_request name world req st =
     (let i = as_requestIndex st in
      if \<not> aw_hookPasses world i then (Inl StructuralCancelled, st)
      else
        (let usageId = aw_usageId world i;
             (out, h1) = publishNestedRequestIntent name i usageId (aw_now world i) (as_harness st);
             st1 = st\<lparr>as_harness := h1, as_requestIndex := i + 1\<rparr> in
         case out of
           Blocked \<Rightarrow> (Inl RequestBlocked, st\<lparr>as_harness := h1\<rparr>)
         | Threw e \<Rightarrow> (Inl (RequestThrew e), st\<lparr>as_harness := h1\<rparr>)
         | Returned CancelRequestedResult \<Rightarrow> (Inl StructuralCancelled, st1)
         | Returned (ContinueResult leaf) \<Rightarrow>
             (case aw_provider world i req h1 of
                (None, h2) \<Rightarrow> (Inl StructuralCancelled, st1\<lparr>as_harness := h2\<rparr>)
              | (Some response, h2) \<Rightarrow>
                  (let (out2, h3) = publishNestedRequestOutcome name usageId (am_usage response) (aw_now world i) h2;
                       st2 = st1\<lparr>as_harness := h3, as_lastResponse := Some response\<rparr> in
                   case out2 of
                     Blocked \<Rightarrow> (Inl RequestBlocked, st2)
                   | Threw e \<Rightarrow> (Inl (RequestThrew e), st2)
                   | Returned u \<Rightarrow> (Inr response, st2)))))"

fun compactionPreparation :: "structural_preparation \<Rightarrow> compaction_preparation option" where
  "compactionPreparation (CompactionPrep ms turn tail split tokens previous ops settings) =
     Some \<lparr>pp_messagesToSummarize = ms, pp_turnPrefixMessages = turn, pp_retainedTail = tail, pp_isSplitTurn = split,
       pp_tokensBefore = tokens, pp_previousSummary = previous, pp_fileOps = ops, pp_settings = settings\<rparr>"
| "compactionPreparation _ = None"

fun branchPreparation :: "structural_preparation \<Rightarrow> branch_preparation option" where
  "branchPreparation (BranchSummaryPrep ms ops tokens) = Some \<lparr>bq_messages = ms, bq_fileOps = ops, bq_totalTokens = tokens\<rparr>"
| "branchPreparation _ = None"

definition last_retryable :: "attempt_state \<Rightarrow> bool" where
  "last_retryable st = (case as_lastResponse st of None \<Rightarrow> False | Some m \<Rightarrow> isRetryableAssistantError m)"

definition attempt_end ::
  "('a \<Rightarrow> attempt_result) \<Rightarrow> (request_stop + (operation_error + 'a)) \<times> attempt_state \<Rightarrow> attempt_result outcome \<times> harness" where
  "attempt_end result r =
     (case r of
        (Inl StructuralCancelled, st) \<Rightarrow> (Returned AttemptCancelled, as_harness st)
      | (Inl (RequestThrew e), st) \<Rightarrow> (Threw e, as_harness st)
      | (Inl RequestBlocked, st) \<Rightarrow> (Blocked, as_harness st)
      | (Inr (Inl e), st) \<Rightarrow> (Returned (AttemptError e (last_retryable st)), as_harness st)
      | (Inr (Inr a), st) \<Rightarrow> (Returned (result a), as_harness st))"

definition performStructuralAttempt ::
  "(rat \<Rightarrow> jstring) \<Rightarrow> jstring \<Rightarrow> attempt_world \<Rightarrow> summary_task \<Rightarrow> summary_context \<Rightarrow> summary_model \<Rightarrow> structural_preparation \<Rightarrow>
   harness \<Rightarrow> attempt_result outcome \<times> harness" where
  "performStructuralAttempt number_text name world task ctx model p h =
     (let st = \<lparr>as_harness = h, as_requestIndex = 0, as_lastResponse = None\<rparr>;
          request = attempt_request name world in
      if summaryKind task = CompactionSummary
      then (case compactionPreparation p of
          None \<Rightarrow> (Threw (SessionInvariant ''Compaction summary has invalid durable preparation''), h)
        | Some c \<Rightarrow> attempt_end AttemptCompaction
            (compactWithRequest number_text c model (st_customInstructions task)
              (Some (lc_thinkingLevel (sc_configuration ctx))) request st))
      else (case branchPreparation p of
          None \<Rightarrow> (Threw (SessionInvariant ''Branch summary has invalid durable preparation''), h)
        | Some b \<Rightarrow> attempt_end AttemptBranchSummary
            (generateBranchSummaryWithRequest number_text b (st_customInstructions task) False request st)))"

end
