(* ===== verification/CompactionFacts.thy ===== *)
theory CompactionFacts
  imports SummaryRequests
begin

text \<open>
  What the preparation of a compaction rests on: the cut lies on the path, nothing is lost or read twice between the
  three parts, the kept part starts at a whole exchange, and the sets of paths are sets.
\<close>

section \<open>The entries that can be compacted\<close>

text \<open>Reading a path from its root: a compaction stands for the messages it kept.\<close>

definition context_step :: "agent_message list \<Rightarrow> entry \<Rightarrow> agent_message list" where
  "context_step ms e =
     (case en_body e of
        CompactionBody c \<Rightarrow> cd_retainedTail c
      | _ \<Rightarrow> ms @ (case getMessageFromEntryForCompaction e of None \<Rightarrow> [] | Some m \<Rightarrow> [m]))"

definition context_messages :: "entry list \<Rightarrow> agent_message list" where
  "context_messages path = foldl context_step [] path"

abbreviation entry_messages :: "entry list \<Rightarrow> agent_message list" where
  "entry_messages es \<equiv> List.map_filter getMessageFromEntryForCompaction es"

lemma entry_messages_append [simp]: "entry_messages (xs @ ys) = entry_messages xs @ entry_messages ys"
  by (simp add: List.map_filter_def)

lemma context_steps_plain:
  "\<forall>e \<in> set es. en_type e \<noteq> CompactionType \<Longrightarrow> foldl context_step ms es = ms @ entry_messages es"
proof (induction es arbitrary: ms)
  case (Cons e es)
  then have "context_step ms e = ms @ (case getMessageFromEntryForCompaction e of None \<Rightarrow> [] | Some m \<Rightarrow> [m])"
    by (auto simp: context_step_def en_type_def split: entry_body.split)
  then show ?case using Cons by (simp split: option.split)
qed simp

lemma virtual_entry_message [simp]: "getMessageFromEntryForCompaction (virtual_entry e i m) = Some m"
  by (simp add: getMessageFromEntryForCompaction_def virtual_entry_def)

lemma virtual_entries_messages: "entry_messages (virtual_entries e c) = cd_retainedTail c"
proof -
  have "entry_messages (map (\<lambda>(i, m). virtual_entry e (int i) m) (enumerate k ms)) = ms" for k ms
    by (induction ms arbitrary: k) auto
  then show ?thesis by (simp add: virtual_entries_def)
qed

lemma compactable_cases:
  obtains (plain) "\<forall>e \<in> set path. en_type e \<noteq> CompactionType" "compactable_entries path = (None, path)"
  | (compacted) xs e c ys where "path = xs @ e # ys" "en_body e = CompactionBody c" "\<forall>e \<in> set ys. en_type e \<noteq> CompactionType"
      "compactable_entries path = (Some c, virtual_entries e c @ ys)"
proof (cases "\<exists>e \<in> set path. en_type e = CompactionType")
  case False
  then show thesis using plain last_compaction_none[of path "length path"] by (auto simp: compactable_entries_def)
next
  case True
  then obtain xs e ys where p: "path = xs @ e # ys" "en_type e = CompactionType" "\<forall>e \<in> set ys. en_type e \<noteq> CompactionType"
    using split_list_last_prop[OF True] by blast
  obtain c where c: "en_body e = CompactionBody c" using p(2) by (cases "en_body e") (auto simp: en_type_def)
  have "last_compaction path (length path) = Some (length xs)" using last_compaction_at[OF p(2,3)] p(1) by simp
  then have "compactable_entries path = (Some c, virtual_entries e c @ ys)"
    using c by (simp add: compactable_entries_def p(1))
  then show thesis using compacted p c by blast
qed

lemma compactable_messages: "entry_messages (snd (compactable_entries path)) = context_messages path"
proof (cases rule: compactable_cases[of path])
  case plain
  then show ?thesis by (simp add: context_messages_def context_steps_plain)
next
  case (compacted xs e c ys)
  then have "context_messages path = cd_retainedTail c @ entry_messages ys"
    by (simp add: context_messages_def context_steps_plain) (simp add: context_step_def)
  then show ?thesis using compacted by (simp add: virtual_entries_messages)
qed

lemma compactable_plain_body: "e \<in> set (snd (compactable_entries path)) \<Longrightarrow> en_type e \<noteq> CompactionType"
  by (cases rule: compactable_cases[of path]) (auto simp: virtual_entries_def virtual_entry_def en_type_def)

lemma compactable_last:
  assumes "path \<noteq> []" "en_type (last path) \<noteq> CompactionType"
  shows "snd (compactable_entries path) \<noteq> [] \<and> last (snd (compactable_entries path)) = last path"
proof (cases rule: compactable_cases[of path])
  case (compacted xs e c ys)
  then have "ys \<noteq> []" using assms(2) by (auto simp: en_type_def)
  then show ?thesis using compacted by simp
qed (use assms in simp)

section \<open>The cut\<close>

lemma turn_start_below_less: "turn_start_below es s n = Some i \<Longrightarrow> i < n"
  by (induction n) (auto split: if_splits)

lemma back_over_le: "back_over es s n \<le> n"
  by (induction n) auto

lemma back_over_skips: "back_over es s n \<le> i \<Longrightarrow> i < n \<Longrightarrow> \<not> stops_before (en_body (es ! i))"
  by (induction n) (auto split: if_splits simp: less_Suc_eq)

lemma budget_index_less: "budget_index nt es s b acc n = Some i \<Longrightarrow> i < n"
  by (induction n arbitrary: acc) (auto simp: Let_def less_SucI split: if_splits entry_body.splits)

lemma found_in: "List.find P xs = Some p \<Longrightarrow> p \<in> set xs"
  by (induction xs) (auto split: if_splits)

lemma found_holds: "List.find P xs = Some p \<Longrightarrow> P p"
  by (induction xs) (auto split: if_splits)

text \<open>Either no entry can be cut at, or the cut is such an entry, up to the entries without a message before it.\<close>

lemma findCutPoint_cases:
  obtains (none) "findValidCutPoints es s n = []"
      "findCutPoint nt es s n b = \<lparr>cu_firstKept = s, cu_turnStart = None, cu_split = False\<rparr>"
  | (cut) p where "p \<in> set (findValidCutPoints es s n)" "cu_firstKept (findCutPoint nt es s n b) = back_over es s p"
      "\<And>i. budget_index nt es s b 0 n = Some i \<Longrightarrow> List.find (\<lambda>p. p \<ge> i) (findValidCutPoints es s n) = Some p \<or>
       List.find (\<lambda>p. p \<ge> i) (findValidCutPoints es s n) = None \<and> p = hd (findValidCutPoints es s n)"
proof (cases "findValidCutPoints es s n")
  case Nil
  then show thesis using none by (simp add: findCutPoint_def)
next
  case (Cons c cs)
  let ?p = "case budget_index nt es s b 0 n of
      None \<Rightarrow> c | Some i \<Rightarrow> (case List.find (\<lambda>p. p \<ge> i) (c # cs) of None \<Rightarrow> c | Some p \<Rightarrow> p)"
  have "?p \<in> set (c # cs)"
    using found_in[of "\<lambda>p. _ \<le> p" "c # cs"] by (simp del: List.find.simps split: option.split)
  moreover have "cu_firstKept (findCutPoint nt es s n b) = back_over es s ?p"
    by (simp only: findCutPoint_def Cons list.case Let_def cut_point_result.simps)
  ultimately show thesis using cut[of ?p] Cons by (auto simp del: List.find.simps split: option.splits)
qed

lemma cut_bounds:
  "cu_firstKept (findCutPoint nt es 0 (length es) b) \<le> length es"
  "cu_turnStart (findCutPoint nt es 0 (length es) b) = Some i \<Longrightarrow> i \<le> cu_firstKept (findCutPoint nt es 0 (length es) b)"
proof -
  show "cu_firstKept (findCutPoint nt es 0 (length es) b) \<le> length es"
  proof (cases rule: findCutPoint_cases[of es 0 "length es" nt b])
    case (cut p)
    then have "p < length es" by (auto simp: findValidCutPoints_def)
    then show ?thesis using cut(2) back_over_le[of es 0 p] by simp
  qed simp
  show "cu_turnStart (findCutPoint nt es 0 (length es) b) = Some i \<Longrightarrow> i \<le> cu_firstKept (findCutPoint nt es 0 (length es) b)"
    by (auto simp: findCutPoint_def findTurnStartIndex_def Let_def dest!: turn_start_below_less split: list.splits if_splits)
qed

text \<open>The three parts of a preparation are the entries before, around and after two indices.\<close>

lemma prepared_parts:
  assumes "prepareCompaction nt path st = Some p"
  obtains h k es where "es = snd (compactable_entries path)" "h \<le> k" "k \<le> length es"
    "k = cu_firstKept (findCutPoint nt es 0 (length es) (cp_keepRecentTokens st))"
    "pp_messagesToSummarize p = entry_messages (take h es)"
    "pp_turnPrefixMessages p = entry_messages (take (k - h) (drop h es))"
    "pp_retainedTail p = entry_messages (drop k es)"
proof -
  obtain previous es where e: "compactable_entries path = (previous, es)" by fastforce
  let ?cut = "findCutPoint nt es 0 (length es) (cp_keepRecentTokens st)"
  let ?h = "case cu_turnStart ?cut of Some i \<Rightarrow> if cu_split ?cut then i else cu_firstKept ?cut | None \<Rightarrow> cu_firstKept ?cut"
  have "cu_split ?cut \<Longrightarrow> cu_turnStart ?cut \<noteq> None"
    by (auto simp: findCutPoint_def Let_def split: list.splits)
  then have h: "?h \<le> cu_firstKept ?cut" "\<not> cu_split ?cut \<Longrightarrow> ?h = cu_firstKept ?cut"
    using cut_bounds(2)[of nt es "cp_keepRecentTokens st"] by (auto split: option.split)
  have "pp_messagesToSummarize p = entry_messages (take ?h es)"
    "pp_turnPrefixMessages p = (if cu_split ?cut then entry_messages (take (cu_firstKept ?cut - ?h) (drop ?h es)) else [])"
    "pp_retainedTail p = entry_messages (drop (cu_firstKept ?cut) es)"
    using assms by (auto simp: prepareCompaction_def e messages_between_def Let_def split: if_splits)
  moreover have "es = snd (compactable_entries path)" by (simp add: e)
  ultimately show thesis using that[of es ?h "cu_firstKept ?cut"] h cut_bounds(1)[of nt es "cp_keepRecentTokens st"]
    by (cases "cu_split ?cut") simp_all
qed

text \<open>Nothing is lost or repeated.\<close>

lemma prepared_partition:
  assumes "prepareCompaction nt path settings = Some p"
  shows "pp_messagesToSummarize p @ pp_turnPrefixMessages p @ pp_retainedTail p = context_messages path"
proof (rule prepared_parts[OF assms])
  fix h k es
  assume es: "es = snd (compactable_entries path)" "h \<le> k" "k \<le> length es"
    and p: "pp_messagesToSummarize p = entry_messages (take h es)"
      "pp_turnPrefixMessages p = entry_messages (take (k - h) (drop h es))" "pp_retainedTail p = entry_messages (drop k es)"
  have "es = take h es @ take (k - h) (drop h es) @ drop k es"
    using es(2) by (metis append_take_drop_id drop_drop le_add_diff_inverse2)
  then have "entry_messages es = entry_messages (take h es) @ entry_messages (take (k - h) (drop h es)) @ entry_messages (drop k es)"
    by (metis entry_messages_append)
  then show ?thesis by (simp add: p compactable_messages[symmetric] es(1))
qed

section \<open>The first message kept\<close>

lemma skipped_messages:
  assumes "\<And>i. k \<le> i \<Longrightarrow> i < p \<Longrightarrow> \<not> stops_before (en_body (es ! i))" "p \<le> length es"
  shows "list_all (\<lambda>m. \<exists>b. m = BranchSummaryMsg b) (entry_messages (take (p - k) (drop k es)))"
proof -
  have "\<not> stops_before (en_body e)" if inside: "e \<in> set (take (p - k) (drop k es))" for e
  proof -
    obtain j where "j < p - k" "e = es ! (k + j)" using inside assms(2) by (auto simp: in_set_conv_nth)
    then show ?thesis using assms(1)[of "k + j"] by simp
  qed
  moreover have "\<exists>b. m = BranchSummaryMsg b" if "getMessageFromEntryForCompaction e = Some m" "\<not> stops_before (en_body e)" for e m
    using that by (cases "en_body e") (auto simp: getMessageFromEntryForCompaction_def createBranchSummaryMessage_def)
  ultimately show ?thesis by (auto simp: list_all_iff List.map_filter_def)
qed

lemma cut_entry_message:
  assumes "cut_entry (en_body e)"
  obtains m where "getMessageFromEntryForCompaction e = Some m" "\<And>t. m \<noteq> ToolResultMsg t"
  using assms
  by (cases "en_body e" rule: cut_entry.cases) (auto simp: getMessageFromEntryForCompaction_def createBranchSummaryMessage_def)

lemma kept_from:
  assumes "p < length es" "k \<le> p"
  shows "drop k es = take (p - k) (drop k es) @ es ! p # drop (Suc p) es"
proof -
  have "drop k es = take (p - k) (drop k es) @ drop (p - k) (drop k es)"
    by (rule append_take_drop_id[symmetric])
  also have "drop (p - k) (drop k es) = drop p es" using assms(2) by simp
  also have "drop p es = es ! p # drop (Suc p) es" using assms(1) by (rule Cons_nth_drop_Suc[symmetric])
  finally show ?thesis .
qed

section \<open>The budget\<close>

definition entry_tokens :: "(rat \<Rightarrow> jstring) \<Rightarrow> entry \<Rightarrow> int" where
  "entry_tokens nt e = (case en_body e of MessageBody m t \<Rightarrow> estimateTokens nt m | _ \<Rightarrow> 0)"

lemma sum_list_nonneg_map: "(\<And>x. x \<in> set xs \<Longrightarrow> (0 :: int) \<le> f x) \<Longrightarrow> 0 \<le> sum_list (map f xs)"
  by (induction xs) auto

lemma user_chars_nonneg: "0 \<le> estimateTextAndImageContentChars c"
proof -
  have "0 \<le> block_chars b" for b by (cases b) (simp_all add: ESTIMATED_IMAGE_CHARS_def)
  then show ?thesis by (cases c) (auto intro!: sum_list_nonneg_map)
qed

lemma estimateTokens_nonneg: "0 \<le> estimateTokens nt m"
proof -
  have q: "0 \<le> n \<Longrightarrow> 0 \<le> quarter n" for n by (simp add: quarter_def)
  have "0 \<le> assistant_chars nt b" for b by (cases b) simp_all
  then show ?thesis using user_chars_nonneg user_chars_nonneg[of "BlockContent bs" for bs]
    by (cases m) (auto intro!: q sum_list_nonneg_map simp del: estimateTextAndImageContentChars.simps)
qed

lemma entry_tokens_nonneg: "0 \<le> entry_tokens nt e"
  by (simp add: entry_tokens_def estimateTokens_nonneg split: entry_body.split)

text \<open>The entries after the index where the budget is reached are below it; all are, where it is not reached.\<close>

lemma budget_index_sum:
  assumes "acc < b"
  shows "budget_index nt es 0 b acc n = Some i \<Longrightarrow> acc + sum_list (map (\<lambda>j. entry_tokens nt (es ! j)) [Suc i..<n]) < b"
    "budget_index nt es 0 b acc n = None \<Longrightarrow> acc + sum_list (map (\<lambda>j. entry_tokens nt (es ! j)) [0..<n]) < b"
proof -
  have "(budget_index nt es 0 b acc n = Some i \<longrightarrow> acc + sum_list (map (\<lambda>j. entry_tokens nt (es ! j)) [Suc i..<n]) < b) \<and>
    (budget_index nt es 0 b acc n = None \<longrightarrow> acc + sum_list (map (\<lambda>j. entry_tokens nt (es ! j)) [0..<n]) < b)"
    using assms
  proof (induction n arbitrary: acc)
    case (Suc n)
    show ?case
    proof (cases "en_body (es ! n)")
      case (MessageBody m t)
      then have e: "entry_tokens nt (es ! n) = estimateTokens nt m" by (simp add: entry_tokens_def)
      show ?thesis
      proof (cases "acc + estimateTokens nt m \<ge> b")
        case True
        then show ?thesis using MessageBody Suc.prems by auto
      next
        case False
        then show ?thesis using MessageBody Suc.IH[of "acc + estimateTokens nt m"] e
          by (auto simp: add.assoc add.commute dest: budget_index_less)
      qed
    qed (use Suc in \<open>auto simp: entry_tokens_def dest: budget_index_less\<close>)
  qed simp
  then show "budget_index nt es 0 b acc n = Some i \<Longrightarrow> acc + sum_list (map (\<lambda>j. entry_tokens nt (es ! j)) [Suc i..<n]) < b"
    "budget_index nt es 0 b acc n = None \<Longrightarrow> acc + sum_list (map (\<lambda>j. entry_tokens nt (es ! j)) [0..<n]) < b"
    by blast+
qed

lemma entry_messages_tokens:
  "sum_list (map (estimateTokens nt) (filter (\<lambda>m. \<forall>b. m \<noteq> BranchSummaryMsg b) (entry_messages es))) \<le> sum_list (map (entry_tokens nt) es)"
proof (induction es)
  case (Cons e es)
  then show ?case using estimateTokens_nonneg[of nt]
    by (cases "en_body e") (auto simp: getMessageFromEntryForCompaction_def entry_tokens_def createBranchSummaryMessage_def add_increasing)
qed simp

lemma tl_sum_le:
  assumes "\<And>x. x \<in> set xs \<Longrightarrow> (0 :: int) \<le> f x"
  shows "sum_list (map f (tl xs)) \<le> sum_list (map f xs)"
  using assms by (cases xs) auto

lemma drop_as_upt: "n \<le> length es \<Longrightarrow> drop n es = map (\<lambda>j. es ! j) [n..<length es]"
  by (rule nth_equalityI) auto

lemma sum_from_le:
  assumes "m \<le> n"
  shows "sum_list (map (\<lambda>j. entry_tokens nt (es ! j)) [n..<k]) \<le> sum_list (map (\<lambda>j. entry_tokens nt (es ! j)) [m..<k])"
proof (cases "n \<le> k")
  case True
  then have "[m..<k] = [m..<n] @ [n..<k]" using assms by (metis le_Suc_ex upt_add_eq_append)
  then show ?thesis using entry_tokens_nonneg by (simp add: sum_list_nonneg_map)
qed (simp add: sum_list_nonneg_map entry_tokens_nonneg)

section \<open>Sets of paths\<close>

definition ops_distinct :: "durable_file_operations \<Rightarrow> bool" where
  "ops_distinct ops \<longleftrightarrow> distinct (df_read ops) \<and> distinct (df_written ops) \<and> distinct (df_edited ops)"

lemma set_add_facts [simp]: "distinct (set_add x xs) = distinct xs" "set (set_add x xs) = insert x (set xs)"
  by (auto simp: set_add_def)

lemma fold_set_add_distinct: "distinct xs \<Longrightarrow> distinct (fold set_add ys xs)"
  by (induction ys arbitrary: xs) auto

lemma js_set_facts: "set (js_set xs) = set xs" "distinct (js_set xs)" "distinct xs \<Longrightarrow> js_set xs = xs"
proof -
  have "distinct acc \<Longrightarrow> distinct (foldl (\<lambda>acc x. if x \<in> set acc then acc else acc @ [x]) acc xs) \<and>
      set (foldl (\<lambda>acc x. if x \<in> set acc then acc else acc @ [x]) acc xs) = set acc \<union> set xs" for acc
    by (induction xs arbitrary: acc) auto
  from this[of "[]"] show "set (js_set xs) = set xs" "distinct (js_set xs)" by (simp_all add: js_set_def)
  have "distinct (acc @ xs) \<Longrightarrow> foldl (\<lambda>acc x. if x \<in> set acc then acc else acc @ [x]) acc xs = acc @ xs" for acc
    by (induction xs arbitrary: acc) auto
  from this[of "[]"] show "distinct xs \<Longrightarrow> js_set xs = xs" by (simp add: js_set_def)
qed

lemma fileOperations_distinct: "ops_distinct ops \<Longrightarrow> fileOperations ops = ops"
  by (simp add: fileOperations_def ops_distinct_def js_set_facts(3))

lemma created_distinct [simp]: "ops_distinct createFileOps"
  by (simp add: ops_distinct_def createFileOps_def)

lemma detail_distinct: "ops_distinct ops \<Longrightarrow> ops_distinct (add_detail_paths details ops)"
  by (simp add: ops_distinct_def add_detail_paths_def fold_set_add_distinct)

lemma extract_distinct: "ops_distinct ops \<Longrightarrow> ops_distinct (extractFileOpsFromMessage m ops)"
proof -
  have call: "ops_distinct ops \<Longrightarrow> ops_distinct (extract_call c ops)" for c ops
    by (auto simp: ops_distinct_def extract_call_def split: option.split json.split)
  have "ops_distinct ops \<Longrightarrow> ops_distinct (extract_blocks bs ops)" for bs ops
    by (induction bs ops rule: extract_blocks.induct) (auto simp: call)
  then show "ops_distinct ops \<Longrightarrow> ops_distinct (extractFileOpsFromMessage m ops)" by (cases m) auto
qed

lemma fold_extract_distinct: "ops_distinct ops \<Longrightarrow> ops_distinct (fold extractFileOpsFromMessage ms ops)"
  by (induction ms arbitrary: ops) (auto simp: extract_distinct)

lemma prepared_ops_distinct: "prepareCompaction nt path st = Some p \<Longrightarrow> ops_distinct (pp_fileOps p)"
  by (auto simp: prepareCompaction_def extractFileOperations_def Let_def case_prod_unfold fold_extract_distinct detail_distinct
      split: if_splits option.splits)

lemma branch_ops_distinct: "ops_distinct (bq_fileOps (prepareBranchEntries nt es b))"
proof -
  have "ops_distinct (bq_fileOps p) \<Longrightarrow> ops_distinct (bq_fileOps (branch_loop nt b es p))" for p es
    by (induction es arbitrary: p) (auto simp: Let_def extract_distinct split: option.split)
  moreover have "ops_distinct ops \<Longrightarrow> ops_distinct (fold (\<lambda>e. add_detail_paths (summary_details (en_body e))) es ops)" for ops
    by (induction es arbitrary: ops) (auto simp: detail_distinct)
  ultimately show ?thesis by (simp add: prepareBranchEntries_def)
qed

section \<open>Sorted paths\<close>

lemma compare_units_flip: "compare_units y x = - compare_units x y"
  by (induction x y rule: compare_units.induct) auto

lemma compare_units_eq: "compare_units x y = 0 \<longleftrightarrow> x = y"
  by (induction x y rule: compare_units.induct) auto

lemma compare_units_trans: "compare_units x y \<le> 0 \<Longrightarrow> compare_units y z \<le> 0 \<Longrightarrow> compare_units x z \<le> 0"
proof (induction x y arbitrary: z rule: compare_units.induct)
  case (4 a x b y)
  then show ?case by (cases z) (auto split: if_splits)
qed (case_tac [!] z; auto)+

end
