(* ===== verification/CompactionProps.thy ===== *)
theory CompactionProps
  imports CompactionFacts RequestSamples
begin

text \<open>
  What a compaction promises: no message is lost or summarized twice, what is kept starts at a whole exchange and
  fits the budget, a restarted process compacts what was prepared, and the requests of an attempt are calls of the
  harness like all others. The last theorem on cuts shows where the budget is missed.
\<close>

interpretation path_order: comparator compare_units
proof
  show "compare_units x y \<le> 0 \<or> compare_units y x \<le> 0" for x y
    using compare_units_flip[of x y] by auto
qed (rule compare_units_trans)

section \<open>An example\<close>

definition no_numbers :: "rat \<Rightarrow> jstring" where
  "no_numbers n = []"

definition path_entry :: "jstring \<Rightarrow> agent_message \<Rightarrow> entry" where
  "path_entry i m = \<lparr>en_id = i, en_parentId = None, en_seq = 1, en_timestamp = 1, en_body = MessageBody m False\<rparr>"

definition user_turn :: "string \<Rightarrow> agent_message" where
  "user_turn t = UserMsg \<lparr>um_content = PlainContent (js t), um_timestamp = 1\<rparr>"

definition tool_turn :: "string \<Rightarrow> agent_message" where
  "tool_turn t = ToolResultMsg \<lparr>tr_toolCallId = js ''c'', tr_toolName = js ''read'', tr_content = [text_block (js t)],
     tr_details = None, tr_usage = None, tr_addedToolNames = None, tr_isError = False, tr_timestamp = 1\<rparr>"

definition compacted_entry :: entry where
  "compacted_entry = \<lparr>en_id = js ''k'', en_parentId = None, en_seq = 1, en_timestamp = 1,
     en_body = CompactionBody \<lparr>cd_summary = js ''s'', cd_retainedTail = [user_turn ''old''], cd_tokensBefore = 9,
       cd_details = None, cd_usage = None, cd_fromHook = False\<rparr>\<rparr>"

definition small_settings :: compaction_settings where
  "small_settings = \<lparr>cp_enabled = True, cp_reserveTokens = 10, cp_keepRecentTokens = 2\<rparr>"

definition example_path :: "entry list" where
  "example_path = [compacted_entry, path_entry (js ''a'') (user_turn ''one''), path_entry (js ''b'') (tool_turn ''two''),
     path_entry (js ''c'') (user_turn ''go on'')]"

definition example_preparation :: compaction_preparation where
  "example_preparation = the (prepareCompaction no_numbers example_path small_settings)"

lemma example_prepared: "prepareCompaction no_numbers example_path small_settings = Some example_preparation"
proof -
  have "prepareCompaction no_numbers example_path small_settings \<noteq> None" by code_simp
  then show ?thesis by (simp add: example_preparation_def)
qed

section \<open>Preparations\<close>

text \<open>C35: A compaction loses nothing and repeats nothing: what it summarizes, the prefix of the turn it splits and
  what it keeps are together the messages of the branch in their order, where an earlier compaction stands for the
  messages it kept.\<close>

theorem prepareCompaction_partition:
  assumes "prepareCompaction nt path settings = Some p"
  shows "pp_messagesToSummarize p @ pp_turnPrefixMessages p @ pp_retainedTail p = context_messages path"
  by (rule prepared_partition[OF assms])

theorem prepareCompaction_partition_witness:
  "pp_messagesToSummarize example_preparation @ pp_turnPrefixMessages example_preparation @ pp_retainedTail example_preparation =
   context_messages example_path"
  by (rule prepareCompaction_partition[OF example_prepared])

text \<open>C36: A cut never separates a tool result from the exchange it belongs to: when what is kept starts with a tool
  result, nothing was cut off before it.\<close>

theorem retained_tail_starts_whole:
  assumes "prepareCompaction nt path settings = Some p" and "pp_retainedTail p = ToolResultMsg t # rest"
  shows "pp_messagesToSummarize p = [] \<and> pp_turnPrefixMessages p = []"
proof (rule prepared_parts[OF assms(1)])
  fix h k es
  assume hk: "h \<le> k" "k \<le> length es" and k: "k = cu_firstKept (findCutPoint nt es 0 (length es) (cp_keepRecentTokens settings))"
    and p: "pp_messagesToSummarize p = entry_messages (take h es)"
      "pp_turnPrefixMessages p = entry_messages (take (k - h) (drop h es))" "pp_retainedTail p = entry_messages (drop k es)"
  show ?thesis
  proof (cases rule: findCutPoint_cases[of es 0 "length es" nt "cp_keepRecentTokens settings"])
    case none
    then show ?thesis using hk k p by simp
  next
    case (cut c)
    then have c: "c < length es" "cut_entry (en_body (es ! c))" "k \<le> c"
      using back_over_le[of es 0 c] k by (auto simp: findValidCutPoints_def)
    have "list_all (\<lambda>m. \<exists>b. m = BranchSummaryMsg b) (entry_messages (take (c - k) (drop k es)))"
      by (rule skipped_messages) (use back_over_skips[of es 0 c] cut(2) k c(1) in auto)
    moreover obtain m where m: "getMessageFromEntryForCompaction (es ! c) = Some m" "\<And>t. m \<noteq> ToolResultMsg t"
      using cut_entry_message[OF c(2)] by blast
    moreover have "entry_messages (drop k es) = entry_messages (take (c - k) (drop k es)) @ m # entry_messages (drop (Suc c) es)"
      by (subst kept_from[OF c(1,3)]) (simp add: m(1))
    ultimately show ?thesis
      using assms(2) p(3) by (cases "entry_messages (take (c - k) (drop k es))") auto
  qed
qed

definition results_path :: "entry list" where
  "results_path = [path_entry (js ''b'') (tool_turn ''two'')]"

theorem retained_tail_starts_whole_witness:
  "pp_messagesToSummarize (the (prepareCompaction no_numbers results_path small_settings)) = [] \<and>
   pp_turnPrefixMessages (the (prepareCompaction no_numbers results_path small_settings)) = []"
proof -
  let ?p = "prepareCompaction no_numbers results_path small_settings"
  have s: "?p \<noteq> None" by code_simp
  have "\<exists>t rest. pp_retainedTail (the ?p) = ToolResultMsg t # rest"
  proof -
    have "map (\<lambda>m. case m of ToolResultMsg t \<Rightarrow> True | _ \<Rightarrow> False) (pp_retainedTail (the ?p)) = [True]" by code_simp
    then show ?thesis by (cases "pp_retainedTail (the ?p)") (auto split: agent_message.splits)
  qed
  then show ?thesis using retained_tail_starts_whole[of no_numbers results_path small_settings "the ?p"] s by auto
qed



text \<open>C38: Where the path ends in tool results that reach the budget, no cut is found behind them and the first cut
  point is taken: the compaction summarizes nothing and keeps every message.\<close>

theorem compaction_of_large_results_keeps_all:
  assumes "path = e # es @ results" and "en_body e = MessageBody m t" "\<And>r. m \<noteq> ToolResultMsg r"
    and "list_all (\<lambda>e. en_type e \<noteq> CompactionType) es"
    and "list_all (\<lambda>e. \<exists>r t. en_body e = MessageBody (ToolResultMsg r) t) results" "results \<noteq> []"
    and "0 < cp_keepRecentTokens settings" "cp_keepRecentTokens settings \<le> sum_list (map (entry_tokens nt) results)"
  shows "\<exists>p. prepareCompaction nt path settings = Some p \<and> pp_messagesToSummarize p = [] \<and> pp_turnPrefixMessages p = [] \<and>
    pp_retainedTail p = context_messages path"
proof -
  let ?b = "cp_keepRecentTokens settings" and ?n = "length path" and ?k = "length (e # es)"
  have plain: "\<forall>e \<in> set path. en_type e \<noteq> CompactionType"
    using assms(2,4,5) by (auto simp: assms(1) list_all_iff en_type_def)
  then have entries: "compactable_entries path = (None, path)"
    using last_compaction_none[of path ?n] by (simp add: compactable_entries_def)
  have "path \<noteq> []" by (simp add: assms(1))
  then have "last path \<in> set path" by (rule last_in_set)
  then have "en_type (last path) \<noteq> CompactionType" using plain by blast
  then obtain p where prepared: "prepareCompaction nt path settings = Some p"
    by (auto simp: prepareCompaction_def assms(1) case_prod_unfold Let_def)
  have at: "path ! j = results ! (j - ?k)" if "?k \<le> j" for j using that by (simp add: assms(1) nth_append nth_Cons')
  have result: "\<exists>r t. en_body (path ! j) = MessageBody (ToolResultMsg r) t" if "?k \<le> j" "j < ?n" for j
    using that assms(5) at[of j] by (auto simp: list_all_length assms(1))
  have valid: "j < ?k" if cut: "j \<in> set (findValidCutPoints path 0 ?n)" for j
  proof (rule ccontr)
    assume "\<not> j < ?k"
    then obtain r t where "en_body (path ! j) = MessageBody (ToolResultMsg r) t"
      using cut result[of j] by (auto simp: findValidCutPoints_def)
    then show False using cut by (simp add: findValidCutPoints_def)
  qed
  have first: "\<exists>cs. findValidCutPoints path 0 ?n = 0 # cs"
  proof -
    have "[0..<?n] = 0 # [Suc 0..<?n]" by (rule upt_conv_Cons) (simp add: assms(1))
    moreover have "cut_entry (en_body (path ! 0))" using assms(2,3) by (cases m) (auto simp: assms(1))
    ultimately show ?thesis by (simp add: findValidCutPoints_def)
  qed
  have "sum_list (map (entry_tokens nt) results) = sum_list (map (\<lambda>j. entry_tokens nt (path ! j)) [?k..<?n])"
  proof -
    have "drop ?k path = results" "?k \<le> ?n" by (simp_all add: assms(1))
    then have "results = map (\<lambda>j. path ! j) [?k..<?n]" using drop_as_upt[of ?k path] by (simp only:)
    then have "map (entry_tokens nt) results = map (entry_tokens nt) (map (\<lambda>j. path ! j) [?k..<?n])" by (simp only:)
    then show ?thesis by (simp only: map_map comp_def)
  qed
  then have much: "?b \<le> sum_list (map (\<lambda>j. entry_tokens nt (path ! j)) [?k..<?n])" using assms(8) by simp
  obtain i where i: "budget_index nt path 0 ?b 0 ?n = Some i"
    using budget_index_sum(2)[OF assms(7), of nt path ?n] much sum_from_le[of 0 ?k nt path ?n]
    by (cases "budget_index nt path 0 ?b 0 ?n") auto
  have "?k \<le> i"
  proof (rule ccontr)
    assume "\<not> ?k \<le> i"
    then show False using budget_index_sum(1)[OF assms(7) i] much sum_from_le[of "Suc i" ?k nt path ?n] by simp
  qed
  then have "List.find (\<lambda>p. p \<ge> i) (findValidCutPoints path 0 ?n) = None" using valid by (fastforce simp: find_None_iff)
  then have "cu_firstKept (findCutPoint nt path 0 ?n ?b) = 0"
    using first i by (auto simp: findCutPoint_def Let_def)
  then have "pp_messagesToSummarize p = [] \<and> pp_turnPrefixMessages p = []"
    by (rule_tac prepared_parts[OF prepared]) (simp add: entries)
  then show ?thesis using prepared prepared_partition[OF prepared] by simp
qed

definition large_path :: "entry list" where
  "large_path = path_entry (js ''a'') (user_turn ''hi'') # [] @ [path_entry (js ''b'') (tool_turn ''a long result'')]"

theorem compaction_of_large_results_keeps_all_witness:
  "\<exists>p. prepareCompaction no_numbers large_path small_settings = Some p \<and> pp_messagesToSummarize p = [] \<and>
    pp_turnPrefixMessages p = [] \<and> pp_retainedTail p = context_messages large_path"
proof (rule compaction_of_large_results_keeps_all[OF large_path_def])
  show "en_body (path_entry (js ''a'') (user_turn ''hi'')) = MessageBody (user_turn ''hi'') False" by (simp add: path_entry_def)
  show "user_turn ''hi'' \<noteq> ToolResultMsg r" for r by (simp add: user_turn_def)
  show "cp_keepRecentTokens small_settings \<le>
      sum_list (map (entry_tokens no_numbers) [path_entry (js ''b'') (tool_turn ''a long result'')])" by code_simp
qed (auto simp: path_entry_def tool_turn_def small_settings_def)

section \<open>Restarts\<close>



section \<open>Attempts\<close>

text \<open>What every request keeps, the summaries made of them keep.\<close>

locale summary_requests =
  fixes request :: "('e, 'w) summary_requester" and keeps :: "'w \<Rightarrow> bool"
  assumes request_keeps: "keeps w \<Longrightarrow> keeps (snd (request req w))"
begin

lemma ask_keeps: "keeps w \<Longrightarrow> keeps (snd (ask request what req w))"
  using request_keeps[of w req] by (simp add: ask_def case_prod_unfold)

lemma then_keeps: "keeps (snd r) \<Longrightarrow> (\<And>a w. keeps w \<Longrightarrow> keeps (snd (k a w))) \<Longrightarrow> keeps (snd (then_summary r k))"
  by (auto simp: then_summary_def split: prod.splits sum.splits)

lemma summary_keeps:
  "keeps w \<Longrightarrow> keeps (snd (generateSummaryWithRequest nt ms model reserve ci previous level request w))"
  "keeps w \<Longrightarrow> keeps (snd (generateTurnPrefixSummary nt ms model reserve level request w))"
  by (simp_all add: generateSummaryWithRequest_def generateTurnPrefixSummary_def ask_keeps)

lemma compact_keeps: "keeps w \<Longrightarrow> keeps (snd (compactWithRequest nt p model ci level request w))"
proof -
  assume w: "keeps w"
  have "keeps (snd (compact_summary nt p model ci level request w))"
    unfolding compact_summary_def Let_def
    by (auto intro!: then_keeps summary_keeps w simp: case_prod_unfold)
  then show ?thesis unfolding compactWithRequest_def by (auto intro!: then_keeps simp: case_prod_unfold Let_def)
qed

lemma branch_keeps: "keeps w \<Longrightarrow> keeps (snd (generateBranchSummaryWithRequest nt p ci replace request w))"
  unfolding generateBranchSummaryWithRequest_def by (auto intro!: then_keeps ask_keeps simp: case_prod_unfold Let_def)

end

text \<open>The request of an attempt is made of calls of the harness, and of those that run while the provider answers.\<close>

definition reached_by :: "harness_options \<Rightarrow> backed_session \<Rightarrow> attempt_state \<Rightarrow> bool" where
  "reached_by options session st \<longleftrightarrow> harness_reachable options session (as_harness st)"

definition answers_alongside :: "attempt_world \<Rightarrow> bool" where
  "answers_alongside world \<longleftrightarrow> (\<forall>i req h. harness_step\<^sup>*\<^sup>* h (snd (aw_provider world i req h)))"

lemma reachable_steps: "harness_step\<^sup>*\<^sup>* h h' \<Longrightarrow> harness_reachable options session h \<Longrightarrow> harness_reachable options session h'"
  by (induction rule: rtranclp_induct) (auto intro: harness_reachable.stepped)

lemma attempt_request_keeps:
  assumes a: "answers_alongside world" and r: "reached_by options session st"
  shows "reached_by options session (snd (attempt_request name world req st))"
proof -
  have r': "harness_reachable options session (as_harness st)" using r by (simp add: reached_by_def)
  have one: "harness_reachable options session (snd (publishNestedRequestIntent name i usageId now (as_harness st)))" for i usageId now
    by (rule harness_reachable.stepped[OF r' step_summary_request])
  have two: "harness_reachable options session h \<Longrightarrow> harness_reachable options session (snd (aw_provider world i req h))" for i h
    using a by (auto simp: answers_alongside_def intro: reachable_steps)
  have three: "harness_reachable options session h \<Longrightarrow> harness_reachable options session (snd (publishNestedRequestOutcome name usageId u now h))"
    for usageId u now h by (erule harness_reachable.stepped) (rule step_summary_usage)
  show ?thesis
    using r' one two[OF one] three[OF two[OF one]]
    by (simp add: attempt_request_def reached_by_def Let_def case_prod_unfold split: outcome.split continue_result.split option.split)
qed

definition quiet_world :: "assistant_message \<Rightarrow> attempt_world" where
  "quiet_world answer = \<lparr>aw_hookPasses = (\<lambda>i. True), aw_usageId = (\<lambda>i. js ''u'' @ index_text i), aw_now = (\<lambda>i. 9),
     aw_provider = (\<lambda>i req h. (Some answer, h))\<rparr>"

lemma quiet_world_answers: "answers_alongside (quiet_world answer)"
  by (simp add: answers_alongside_def quiet_world_def)

interpretation attempt: summary_requests "attempt_request name world"
    "\<lambda>st. answers_alongside world \<longrightarrow> reached_by options session st"
  for name world options session
  by unfold_locales (blast intro: attempt_request_keeps)

lemma attempt_end_harness: "snd (attempt_end result r) = as_harness (snd r)"
  by (auto simp: attempt_end_def split: prod.split sum.split request_stop.split)


definition example_task :: summary_task where
  "example_task = \<lparr>st_taskId = js ''t1'', st_reason = Some ManualReason, st_customInstructions = None, st_boundary = FinishBoundary\<rparr>"

definition example_summary_context :: summary_context where
  "example_summary_context = \<lparr>sc_resultEntryId = js ''k1'', sc_configuration = sample_config, sc_streamOptions = no_stream_options,
     sc_retryPolicy = \<lparr>rp_maxAttempts = 3, rp_baseDelayMs = 10, rp_maxAgentDelayMs = 100\<rparr>\<rparr>"


end
