(* ===== verification/DriveLoop.thy ===== *)
theory DriveLoop
  imports SummaryRequests
begin

text \<open>
  The loop of a pass, \<open>driveOperation\<close> of \<open>runtime/drive.ts\<close>: the leaf of the operation chooses the procedure, a
  cancelled operation is only reconciled (\<open>runtime/drive/reconcile.ts\<close>). What the procedures do is an argument; they are
  the definitions of the theories before. A procedure that was aborted by its gate answers \<open>ProcContinue\<close>. The hook
  \<open>before_drive\<close> comes before the loop.
\<close>

section \<open>Procedures\<close>

datatype reconciliation =
    CancelAssistantEffect
  | SettleTools
  | CancelSuspended
  | CancelDeferredEffect
  | PublishAborted

datatype procedure =
    StartRun
  | RunCheckpoint
  | RunGeneration
  | RecoverAssistantGeneration
  | RunTools
  | RunDeferred
  | RunStructuralDecision
  | RunStructuralGeneration
  | RecoverStructuralGeneration
  | RunStructuralRetryWait
  | RunCommitNavigation
  | ReconcileOperation reconciliation

fun reconciliation_of :: "operation_leaf \<Rightarrow> reconciliation" where
  "reconciliation_of (AssistantEffectPending g n r u v w) = CancelAssistantEffect"
| "reconciliation_of (Tools batch) = SettleTools"
| "reconciliation_of (DeferredSuspended ds) = CancelSuspended"
| "reconciliation_of (DeferredEffectPending ds r u) = CancelDeferredEffect"
| "reconciliation_of _ = PublishAborted"

fun procedure_at :: "operation_leaf \<Rightarrow> procedure" where
  "procedure_at Starting = StartRun"
| "procedure_at (Checkpoint ck) = RunCheckpoint"
| "procedure_at (AssistantReady g n) = RunGeneration"
| "procedure_at (AssistantRetryWait g w) = RunGeneration"
| "procedure_at (AssistantEffectPending g n r u v w) = RecoverAssistantGeneration"
| "procedure_at (Tools batch) = RunTools"
| "procedure_at (DeferredSuspended ds) = RunDeferred"
| "procedure_at (DeferredEffectPending ds r u) = RunDeferred"
| "procedure_at (SummaryDeciding t) = RunStructuralDecision"
| "procedure_at (SummaryReady t c n) = RunStructuralGeneration"
| "procedure_at (SummaryEffectPending t c n r us) = RecoverStructuralGeneration"
| "procedure_at (SummaryRetryWait t c w) = RunStructuralRetryWait"
| "procedure_at (NavigationReadyToCommit t l) = RunCommitNavigation"

definition procedure_of :: "operation_state \<Rightarrow> procedure" where
  "procedure_of st =
     (case os_control (op_scope st) of
        CancelRequested t \<Rightarrow> ReconcileOperation (reconciliation_of (op_leaf st))
      | Running \<Rightarrow> procedure_at (op_leaf st))"

definition currentOperation :: "jstring \<Rightarrow> operation option \<Rightarrow> js_error + operation" where
  "currentOperation runId current =
     (case current of
        Some operation \<Rightarrow>
          if me_operationId (op_meta operation) = runId then Inr operation
          else Inl (SessionInvariant ''Drive has no matching current operation'')
      | None \<Rightarrow> Inl (SessionInvariant ''Drive has no matching current operation''))"

section \<open>The loop\<close>

text \<open>
  \<open>current\<close> is the operation of the lane in a state, and \<open>identity\<close> the identity of its state object, which every
  commit replaces.
\<close>

partial_function (option) drive_loop ::
  "('w \<Rightarrow> operation option) \<Rightarrow> ('w \<Rightarrow> nat) \<Rightarrow> (procedure \<Rightarrow> operation_state \<Rightarrow> 'w \<Rightarrow> (js_error + procedure_result) \<times> 'w) \<Rightarrow>
   jstring \<Rightarrow> 'w \<Rightarrow> ((js_error + drive_outcome) \<times> 'w) option" where
  "drive_loop current identity run runId w =
     (case currentOperation runId (current w) of
        Inl e \<Rightarrow> Some (Inl e, w)
      | Inr operation \<Rightarrow>
          (case run (procedure_of (op_state operation)) (op_state operation) w of
             (Inl e, w') \<Rightarrow> Some (Inl e, w')
           | (Inr (ProcSettled result), w') \<Rightarrow> Some (Inr (DriveSettled result), w')
           | (Inr (ProcWaiting waits), w') \<Rightarrow> Some (Inr waits, w')
           | (Inr ProcContinue, w') \<Rightarrow>
               (case currentOperation runId (current w') of
                  Inl e \<Rightarrow> Some (Inl e, w')
                | Inr following \<Rightarrow>
                    if identity w' = identity w \<and> os_control (op_scope (op_state following)) = Running
                    then Some (Inl (SessionInvariant ''Drive procedure made no progress''), w')
                    else drive_loop current identity run runId w')))"

section \<open>Facts\<close>

text \<open>A cancelled operation starts no ordinary work.\<close>

lemma cancelled_only_reconciled:
  "(\<exists>r. procedure_of st = ReconcileOperation r) \<longleftrightarrow> os_control (op_scope st) \<noteq> Running"
  by (cases "os_control (op_scope st)"; cases "op_leaf st") (auto simp: procedure_of_def)

text \<open>A pass ends if the commits of its procedures lower a measure; a procedure that commits nothing ends it at once.\<close>

lemma drive_loop_ends:
  fixes m :: "'w \<Rightarrow> nat"
  assumes progress: "\<And>p st w w' operation. run p st w = (Inr ProcContinue, w') \<Longrightarrow> current w' = Some operation \<Longrightarrow>
      m w' < m w \<or> identity w' = identity w \<and> os_control (op_scope (op_state operation)) = Running"
  shows "\<exists>r. drive_loop current identity run runId w = Some r"
proof (induction "m w" arbitrary: w rule: less_induct)
  case less
  show ?case
  proof (cases "currentOperation runId (current w)")
    case (Inr operation)
    obtain out w' where run: "run (procedure_of (op_state operation)) (op_state operation) w = (out, w')" by fastforce
    show ?thesis
    proof (cases "out = Inr ProcContinue")
      case True
      show ?thesis
      proof (cases "currentOperation runId (current w')")
        case (Inr following)
        then have "current w' = Some following" by (auto simp: currentOperation_def split: option.splits if_splits)
        then have "m w' < m w \<or> identity w' = identity w \<and> os_control (op_scope (op_state following)) = Running"
          using progress run True by blast
        then show ?thesis
          using less \<open>currentOperation runId (current w) = Inr operation\<close> run True Inr
          by (subst drive_loop.simps) (auto simp: Let_def)
      qed (use \<open>currentOperation runId (current w) = Inr operation\<close> run True in \<open>simp add: drive_loop.simps\<close>)
    next
      case False
      then show ?thesis using Inr run by (cases out rule: sum.exhaust; subst drive_loop.simps) (auto split: procedure_result.split)
    qed
  qed (simp add: drive_loop.simps)
qed

end
