(* ===== verification/Spec2Isabelle.thy ===== *)
theory Spec2Isabelle
  imports StorageProps ForkProps SessionProps SessionContext MutationLine LaneSteps
    HarnessProps QueueProps BoundaryProps FrameProps RecoveryProps ProviderProps ResponseProps GenerationProps
    ToolProps CodecProps StructuralProps CompactionProps DriveLoop
begin

text \<open>
  Verification library of the durable agent harness, \<open>packages/agent/src/harness\<close>, and of the parts of
  \<open>packages/ai/src/utils\<close> it rests on, together with the wire protocol between a client and a server of it. All paths below
  are relative to \<open>packages/agent/src/harness\<close> unless they start with \<open>ai/\<close> (for \<open>packages/ai/src/\<close>), \<open>protocol/\<close> or
  \<open>chord/\<close> (for \<open>packages/protocol/src/\<close> and \<open>packages/chord/src/\<close>).

  \<^bold>\<open>The program.\<close> A session is an append-only tree of entries with typed values and lists beside it, kept by a storage
  adapter (\<open>session/\<close>). A harness (\<open>runtime/harness.ts\<close>) attaches lanes to the branches of a session; each lane
  (\<open>runtime/lane.ts\<close>) runs at most one operation (a run, a compaction or a navigation), whose state is a leaf of the
  state machine of \<open>session/types.ts\<close>. Every move of an operation is one command on the session's mutation line: it reads
  the lane's state and the storage, plans a list of writes with the next state, commits them and then publishes state and
  events. Procedures (\<open>runtime/drive/\<close>) move the operation of a lane from leaf to leaf: they prepare and publish a request
  to the model, record its frames while it streams, settle its response, execute the batch of tool calls it asks for, wait,
  recover what a crash interrupted, place queued messages at boundaries, compact a context that has become too large or
  summarize a branch that is left, and finish. A pass (\<open>runtime/drive.ts\<close>) runs procedures until the operation ends or has to
  wait. Clients talk to a server in length-prefixed CBOR messages (\<open>protocol/\<close>).

  \<^bold>\<open>Theories, from the bottom up.\<close>
  \<^item> \<open>Prelude\<close>: UTF-16 strings (\<open>jstring\<close>), errors as sums, JavaScript maps as association lists in insertion order, the
    stable sort; \<open>KeyOrder\<close>: the comparison of keys by code points.
  \<^item> \<open>SessionTypes\<close>, \<open>Messages\<close>: the data of \<open>session/types.ts\<close>, \<open>messages.ts\<close> and \<open>ai/types.ts\<close>.
  \<^item> \<open>Values\<close>: \<open>session/values.ts\<close>; \<open>Commit\<close>: \<open>session/commit.ts\<close>; \<open>StorageState\<close>: \<open>session/in-memory-storage-state.ts\<close>.
    \<open>StorageInvariant\<close>, \<open>StorageCommit\<close>, \<open>BranchScan\<close> and \<open>StorageProps\<close> hold the invariant of the materialized state, the
    abstract store (two finite maps from addresses to values and lists, with entries and usage rows) that commits refine, and
    the theorems on commits, scans and paging.
  \<^item> \<open>Fork\<close>, \<open>ForkSpec\<close>, \<open>ForkFacts\<close>, \<open>ForkProps\<close>: \<open>session/fork-policy.ts\<close> and \<open>session/fork.ts\<close>.
  \<^item> \<open>MutationLine\<close>: \<open>session/mutation-line.ts\<close> as a step relation on the list of chained jobs.
  \<^item> \<open>Session\<close>, \<open>SessionProps\<close>: \<open>session/session.ts\<close> over the memory adapter; \<open>SessionContext\<close>: \<open>session/context.ts\<close>.
  \<^item> \<open>HarnessTypes\<close>, \<open>Restore\<close>, \<open>Transcript\<close>: \<open>runtime/types.ts\<close>, \<open>runtime/restore.ts\<close>, \<open>runtime/transcript.ts\<close> and
    \<open>runtime/drive/terminal.ts\<close>.
  \<^item> \<open>Lane\<close> (commands, claims and reads on the mutation line), \<open>LaneAccept\<close> (admission), \<open>LaneQueue\<close> (queues, abort, usage and
    settings), \<open>LaneDrive\<close> (drives, idle ownership and the public calls): \<open>runtime/lane.ts\<close>. \<open>Harness\<close>:
    \<open>runtime/harness.ts\<close> and \<open>config.ts\<close>. \<open>Invocation\<close>: \<open>skills.ts\<close> and \<open>prompt-templates.ts\<close>.
  \<^item> \<open>Boundary\<close>: \<open>drive/boundary.ts\<close> and \<open>drive/checkpoint.ts\<close>; \<open>Response\<close>: \<open>drive/response.ts\<close>; \<open>Generation\<close>:
    \<open>drive/generation.ts\<close>, \<open>drive/recovery.ts\<close>, \<open>drive/deferred.ts\<close>, the plans of \<open>drive/reconcile.ts\<close> and the writers of
    \<open>runtime/progress.ts\<close>.
  \<^item> \<open>ToolCalls\<close>: \<open>drive/tools.ts\<close> and \<open>execution/tools.ts\<close>; \<open>ToolPlacement\<close>: \<open>drive/tool-placement.ts\<close>;
    \<open>ToolFacts\<close>, \<open>ToolProps\<close>: what they keep, the order of results and the end of a batch.
  \<^item> \<open>Structural\<close>: \<open>drive/structural.ts\<close>, with \<open>StructuralFacts\<close> and \<open>StructuralProps\<close>. \<open>SummaryText\<close>: \<open>messages.ts\<close> and
    \<open>compaction/utils.ts\<close>; \<open>Compaction\<close>: the estimates, cuts and preparations of \<open>compaction/compaction.ts\<close> and
    \<open>compaction/branch-summarization.ts\<close>; \<open>SummaryRequests\<close>: their prompts and requests, and the attempt of
    \<open>drive/structural.ts\<close> that makes them; \<open>CompactionFacts\<close>, \<open>CompactionProps\<close>: what is summarized and what is kept.
  \<^item> \<open>DriveLoop\<close>: the dispatch of \<open>runtime/drive.ts\<close> and \<open>drive/reconcile.ts\<close>, with the loop and its check of progress.
  \<^item> \<open>Framing\<close>, \<open>Cbor\<close>, \<open>Codec\<close>: \<open>protocol/framing.ts\<close>, \<open>protocol/cbor/\<close>, \<open>protocol/codec.ts\<close> with the schemas of
    \<open>protocol/protocol.ts\<close> and the JSON check of \<open>chord/json.ts\<close>; \<open>FramingProps\<close>, \<open>CborProps\<close>, \<open>CodecProps\<close>: their
    round trips and what a decoder lets through.
  \<^item> \<open>Frames\<close>: \<open>ai/utils/assistant-message-frame.ts\<close>; \<open>ProviderErrors\<close>: \<open>ai/utils/retry.ts\<close> and \<open>ai/utils/overflow.ts\<close>.
  \<^item> \<open>LaneFacts\<close>, \<open>LaneDurable\<close>, \<open>LaneSteps\<close>, \<open>BoundaryFacts\<close>, \<open>ResponseFacts\<close>, \<open>Reachable\<close>, \<open>Restart\<close>: the invariants.
    \<open>LaneSteps\<close> breaks every procedure into kernel steps; \<open>Reachable\<close> is the step relation of a whole harness: every call,
    drive, callback and request procedure, in any order, with whatever the environment answers.
  \<^item> \<open>*Props\<close> and \<open>*Samples\<close>: the properties and the concrete executions their witnesses evaluate.

  \<^bold>\<open>State and operations.\<close> A command is a function \<open>lane_state \<Rightarrow> storage_state \<Rightarrow> js_error + decision\<close>; \<open>lane_command\<close> runs it
  as \<open>LaneBinding.command\<close> does, with the faults of \<open>runOnLine\<close>. A procedure that calls a hook, a tool or the provider
  between two commands is two definitions, one for each side of the call, and the result of the call is an argument of the
  second, so that whatever happens on the harness in between is covered by the step relation. (An attempt at a summary, which
  makes one or two requests, is one definition, \<open>performStructuralAttempt\<close>; its provider may change the harness.)
  Clocks and identifiers are arguments. The identity of drive and idle-owner objects is a serial number. Throws are the sum \<open>js_error + 'a\<close>.
  Loops that may not return (the walk along parents, the reading of frames, the loop of a pass) are
  \<open>partial_function (option)\<close>; that they return is stated as such.

  \<^bold>\<open>Interfaces.\<close> Locales state what a family of operations promises: planners that keep the invariant of lanes and storage
  (\<open>Lane*\<close>, \<open>BoundaryFacts\<close>, \<open>ResponseFacts\<close>, \<open>ToolFacts\<close>, \<open>StructuralFacts\<close>), lane-wise invariants of reachable
  harnesses (\<open>Reachable\<close>), and requests that keep what the summaries made of them keep (\<open>CompactionProps\<close>). Each is
  interpreted on the operations of the model, and the properties rest on the interpretations.

  \<^bold>\<open>What the theorems show.\<close> Storage: commits refine the abstract store, are accepted exactly when they are admissible and keep
  the invariant; scans return exactly the path, the page or the values asked for. Forks: what is copied and what is not.
  Sessions: at most one commit for each mutation, exclusive and first in first out, closed means frozen; the bounded read of
  a branch gives the context of the whole branch. Harness: the state
  of a lane in memory is what a restart restores; an operation is current on one lane; a halted harness changes nothing;
  idle callbacks own their lane alone. Queues and boundaries: what is taken, what stays, in which order. Requests: what a
  response stores and which leaf it settles to; a generation makes a bounded number of requests; a pass polls at most once;
  what was received before an interruption is recovered from the stored frames. Provider errors: bounded retries. Tools:
  results are placed in the order of the calls, and a batch ends. Compactions: nothing is lost or repeated, tool results stay
  with their exchange, what is kept fits the budget (and the one case where nothing can be freed), a restart works on what
  was prepared, the end of a compaction stores exactly its entry. Protocol: values and messages survive the way over the wire
  however the stream is cut, and only valid messages come out of a decoder, whatever the bytes.

  \<^bold>\<open>Bounds.\<close> \<open>0.8 * n\<close>, \<open>0.5 * n\<close> and \<open>0.9 * n\<close> of token counts are divisions of integers, which agree with the code's
  floating-point products for the counts that occur. Bytes are 8-bit words, numbers of the protocol are IEEE doubles given by
  their 64 bits. No definition uses fuel. Delays and wake-up times are kept within JavaScript's safe integers as the code does.
  Numbers are integers where
  the code only uses integral values and rationals for costs. The content of a number that is not finite is not modelled.

  \<^bold>\<open>Parameters.\<close> JSON parsing of a partial document and JSON printing (\<open>Frames\<close>), how a number is printed (\<open>number_text\<close>
  of \<open>SummaryText\<close>), the check of a schema by the TypeBox package (\<open>Codec\<close>, constrained to answer as the schema says only
  where a theorem needs it), the results of hooks and tools, the provider (\<open>attempt_world\<close>), the catalogue of models and
  tools, identifiers and clocks. The procedures of \<open>Structural\<close> and \<open>LaneAccept\<close> take the function that prepares a summary as
  an argument; \<open>prepared_compaction\<close>, \<open>prepared_with_tokens\<close> and \<open>prepared_branch\<close> are the program's.

  \<^bold>\<open>Deviations.\<close> A compaction within a run whose stored task has no reason is an error before the commit, where the code finds
  it while it builds the events. The texts of invariant violations are shortened.

  \<^bold>\<open>Not modelled.\<close> Observers, telemetry, the registry of hooks and the event bus, which see states but do not change them; the
  provider requests themselves with their transport options and time stamps; environments and built-in tools, which are I/O;
  the scheduling of the promises of a parallel batch of tools; the hook in front of a pass; the JSON-lines and SQLite adapters,
  whose materialized state is the one modelled here; the standalone compaction functions with their own retries
  (\<open>compact\<close>, \<open>generateSummary\<close>, \<open>generateBranchSummary\<close>). The other packages (terminal user interface, server, client,
  coding agent) are not part of this library.
\<close>

end
